(* ===== verification/JsValue.thy ===== *)
theory JsValue
  imports Prelude Complex_Main
begin

text \<open>
  JavaScript values as the client's code sees them: the primitive types, arrays and
  plain objects, with property access, truthiness, the equality and conversions the
  code uses, and the part of \<open>JSON\<close> it uses. Modelled for every theory that
  translates code working on persisted or received data.
\<close>

section \<open>Values\<close>

text \<open>
  A number is an integral double, another finite double, NaN or an infinity (true is
  the positive one); the sign of zero is not kept. Integral values are exact: every
  arithmetic result the code goes on to use passes a safe-integer test first.
  Objects are association lists in property order, a property occurring once.
  \<open>JsonText v\<close> is the string \<open>JSON.stringify(v)\<close>: printing is injective on the
  trees it prints, so a text is represented by its tree. Functions, dates, BigInts and
  typed arrays occur in no persisted or received data and are given types of their own
  where the code uses them.
\<close>

datatype jnum = JInt int | JFrac rat | JNaN | JInf bool

datatype jv =
    Undef
  | Null
  | Bool bool
  | Num jnum
  | Str string
  | JsonText jv
  | Arr "jv list"
  | Obj "(string \<times> jv) list"

type_synonym obj = "(string \<times> jv) list"

text \<open>The errors the client's code throws, with what they carry.\<close>

datatype js_error =
    Error string
  | TypeError string
  | RangeError string
  | UUIDRangeError string
  | BootstrapGateError string
  | AccountOwnershipError string
  | ClockRangeError
  | ResolutionLimitError jv jv jv
  | LegacyDependencyRecoveryError jv
  | PersistedDisplayContextError js_error
  | SyntaxError
  | DataError
  | ConstraintError
  | StorageAborted
  | DomException string

type_synonym 'a res = "js_error + 'a"

abbreviation jint :: "int \<Rightarrow> jv" where "jint i \<equiv> Num (JInt i)"

section \<open>Property access\<close>

definition fld :: "obj \<Rightarrow> string \<Rightarrow> jv" where
  "fld ob k = (case map_of ob k of None \<Rightarrow> Undef | Some v \<Rightarrow> v)"

text \<open>\<open>v?.k\<close>, and \<open>v.k\<close> where the code has established that \<open>v\<close> is an object.\<close>

fun getp :: "jv \<Rightarrow> string \<Rightarrow> jv" where
  "getp (Obj ob) k = fld ob k"
| "getp _ _ = Undef"

text \<open>\<open>v.k\<close>: reading a property of null or undefined throws.\<close>

definition dot :: "jv \<Rightarrow> string \<Rightarrow> jv res" where
  "dot v k = (case v of
     Undef \<Rightarrow> Inl (TypeError ''Cannot read properties of undefined'')
   | Null \<Rightarrow> Inl (TypeError ''Cannot read properties of null'')
   | _ \<Rightarrow> Inr (getp v k))"

definition has_own :: "jv \<Rightarrow> string \<Rightarrow> bool" where
  "has_own v k = (case v of Obj ob \<Rightarrow> k \<in> set (map fst ob) | _ \<Rightarrow> False)"

definition obj_keys :: "jv \<Rightarrow> string list" where
  "obj_keys v = (case v of Obj ob \<Rightarrow> map fst ob | _ \<Rightarrow> [])"

text \<open>Assignment to a property: in place if it is there, else appended.\<close>

fun obj_put :: "string \<Rightarrow> jv \<Rightarrow> obj \<Rightarrow> obj" where
  "obj_put k v [] = [(k, v)]"
| "obj_put k v ((k', v') # ob) = (if k = k' then (k, v) # ob else (k', v') # obj_put k v ob)"

definition obj_del :: "string \<Rightarrow> obj \<Rightarrow> obj" where
  "obj_del k ob = filter (\<lambda>p. fst p \<noteq> k) ob"

text \<open>\<open>{...a, ...b}\<close>\<close>

definition spread :: "obj \<Rightarrow> obj \<Rightarrow> obj" where
  "spread a b = foldl (\<lambda>acc p. obj_put (fst p) (snd p) acc) a b"

definition as_obj :: "jv \<Rightarrow> obj" where
  "as_obj v = (case v of Obj ob \<Rightarrow> ob | _ \<Rightarrow> [])"

lemma fld_Cons [simp]: "fld ((k, v) # ob) k' = (if k' = k then v else fld ob k')"
  by (simp add: fld_def)

lemma fld_Nil [simp]: "fld [] k = Undef"
  by (simp add: fld_def)

lemma spread_simps [simp]: "spread a [] = a" "spread a (p # b) = spread (obj_put (fst p) (snd p) a) b"
  by (simp_all add: spread_def)

lemma map_of_obj_put [simp]: "map_of (obj_put k v ob) = (map_of ob)(k \<mapsto> v)"
  by (induction ob) (auto simp: fun_eq_iff)

lemma fld_obj_put [simp]: "fld (obj_put k v ob) k' = (if k' = k then v else fld ob k')"
  by (simp add: fld_def)

lemma keys_obj_put: "map fst (obj_put k v ob) = (if k \<in> set (map fst ob) then map fst ob else map fst ob @ [k])"
  by (induction ob) force+

lemma distinct_obj_put [simp]:
  "distinct (map fst ob) \<Longrightarrow> distinct (map fst (obj_put k v ob))"
  by (simp add: keys_obj_put)

lemma map_of_obj_del [simp]: "map_of (obj_del k ob) = (map_of ob)(k := None)"
  by (induction ob) (auto simp: obj_del_def fun_eq_iff)

lemma fld_obj_del [simp]: "fld (obj_del k ob) k' = (if k' = k then Undef else fld ob k')"
  by (simp add: fld_def)

lemma map_of_spread: "map_of (spread a b) = map_of a ++ map_of (rev b)"
  by (induction b rule: rev_induct) (auto simp: spread_def map_add_def fun_eq_iff)

lemma fld_spread:
  assumes "distinct (map fst b)"
  shows "fld (spread a b) k = (if k \<in> set (map fst b) then fld b k else fld a k)"
proof -
  have "map_of (rev b) = map_of b"
    using assms by (simp add: map_of_inject_set rev_map [symmetric])
  moreover have "k \<in> set (map fst b) \<longleftrightarrow> map_of b k \<noteq> None"
    by (simp add: map_of_eq_None_iff)
  ultimately show ?thesis
    by (auto simp: fld_def map_of_spread map_add_def simp del: set_map split: option.splits)
qed

section \<open>Types, truthiness, equality\<close>

text \<open>\<open>v !== null && typeof v === "object" && !Array.isArray(v)\<close>\<close>

fun plain_object :: "jv \<Rightarrow> bool" where
  "plain_object (Obj _) = True"
| "plain_object _ = False"

fun is_array :: "jv \<Rightarrow> bool" where
  "is_array (Arr _) = True"
| "is_array _ = False"

fun is_string :: "jv \<Rightarrow> bool" where
  "is_string (Str _) = True"
| "is_string (JsonText _) = True"
| "is_string _ = False"

fun is_bool :: "jv \<Rightarrow> bool" where
  "is_bool (Bool _) = True"
| "is_bool _ = False"

fun truthy :: "jv \<Rightarrow> bool" where
  "truthy Undef = False"
| "truthy Null = False"
| "truthy (Bool b) = b"
| "truthy (Num n) = (n \<noteq> JInt 0 \<and> n \<noteq> JNaN)"
| "truthy (Str s) = (s \<noteq> [])"
| "truthy (JsonText _) = True"
| "truthy (Arr _) = True"
| "truthy (Obj _) = True"

text \<open>\<open>v == null\<close>\<close>

fun nullish :: "jv \<Rightarrow> bool" where
  "nullish Undef = True"
| "nullish Null = True"
| "nullish _ = False"

text \<open>\<open>a || b\<close> and \<open>a ?? b\<close>\<close>

definition or_else :: "jv \<Rightarrow> jv \<Rightarrow> jv" where
  "or_else a b = (if truthy a then a else b)"

definition coalesce :: "jv \<Rightarrow> jv \<Rightarrow> jv" where
  "coalesce a b = (if nullish a then b else a)"

text \<open>A string with at least one character: \<open>typeof v === "string" && v\<close>.\<close>

definition nonempty_string :: "jv \<Rightarrow> bool" where
  "nonempty_string v \<longleftrightarrow> is_string v \<and> truthy v"

text \<open>
  \<open>a === b\<close>. Two values of object type are equal only when they are the same
  object; the model compares values that come from different reads or different
  messages, which are never the same object. Where the code does compare one object
  with itself, the model decides the comparison where it happens.
\<close>

fun strict_eq :: "jv \<Rightarrow> jv \<Rightarrow> bool" where
  "strict_eq Undef Undef = True"
| "strict_eq Null Null = True"
| "strict_eq (Bool a) (Bool b) = (a = b)"
| "strict_eq (Num a) (Num b) = (a = b \<and> a \<noteq> JNaN)"
| "strict_eq (Str a) (Str b) = (a = b)"
| "strict_eq (JsonText a) (JsonText b) = (a = b)"
| "strict_eq _ _ = False"

lemma strict_eq_Str [simp]: "strict_eq v (Str s) \<longleftrightarrow> v = Str s" "strict_eq (Str s) v \<longleftrightarrow> v = Str s"
  by (cases v; auto)+

lemma strict_eq_Bool [simp]: "strict_eq v (Bool b) \<longleftrightarrow> v = Bool b"
  by (cases v) auto

lemma strict_eq_Null [simp]: "strict_eq v Null \<longleftrightarrow> v = Null" "strict_eq Null v \<longleftrightarrow> v = Null"
  by (cases v; simp)+

lemma strict_eq_sym: "strict_eq a b = strict_eq b a"
  by (cases a; cases b) auto

lemma strict_eq_imp_eq: "strict_eq a b \<Longrightarrow> a = b"
  by (cases a; cases b) auto

lemma strict_eq_trans: "strict_eq a b \<Longrightarrow> strict_eq b c \<Longrightarrow> strict_eq a c"
  using strict_eq_imp_eq by blast

lemma is_stringE: "is_string v \<Longrightarrow> (\<And>s. v = Str s \<Longrightarrow> P) \<Longrightarrow> (\<And>t. v = JsonText t \<Longrightarrow> P) \<Longrightarrow> P"
  by (cases v) auto

lemma plain_objectE: "plain_object v \<Longrightarrow> (\<And>ob. v = Obj ob \<Longrightarrow> P) \<Longrightarrow> P"
  by (cases v) auto

lemma nonempty_string_Str [simp]: "nonempty_string (Str s) \<longleftrightarrow> s \<noteq> []"
  by (simp add: nonempty_string_def)

lemma nonempty_string_strict_eq: "nonempty_string v \<Longrightarrow> strict_eq v v"
  by (cases v) (auto simp: nonempty_string_def)

lemma is_array_iff: "is_array v \<longleftrightarrow> (\<exists>xs. v = Arr xs)"
  by (cases v) auto

section \<open>Numbers\<close>

definition MAX_SAFE_INTEGER :: int where "MAX_SAFE_INTEGER = 2 ^ 53 - 1"

definition safe_int :: "int \<Rightarrow> bool" where
  "safe_int i \<longleftrightarrow> \<bar>i\<bar> \<le> MAX_SAFE_INTEGER"

text \<open>\<open>Number.isSafeInteger(v)\<close> (false for every value that is not a number)\<close>

fun is_safe_integer :: "jv \<Rightarrow> bool" where
  "is_safe_integer (Num (JInt i)) = safe_int i"
| "is_safe_integer _ = False"

lemma is_safe_integer_iff: "is_safe_integer v \<longleftrightarrow> (\<exists>i. v = jint i \<and> safe_int i)"
  by (cases v rule: is_safe_integer.cases) auto

text \<open>Comparison of numbers; every comparison with NaN is false.\<close>

fun num_less :: "jnum \<Rightarrow> jnum \<Rightarrow> bool" where
  "num_less (JInt a) (JInt b) = (a < b)"
| "num_less (JInt a) (JFrac b) = (of_int a < b)"
| "num_less (JFrac a) (JInt b) = (a < of_int b)"
| "num_less (JFrac a) (JFrac b) = (a < b)"
| "num_less JNaN _ = False"
| "num_less _ JNaN = False"
| "num_less (JInf p) (JInf q) = (\<not> p \<and> q)"
| "num_less (JInf p) _ = (\<not> p)"
| "num_less _ (JInf q) = q"

definition num_le :: "jnum \<Rightarrow> jnum \<Rightarrow> bool" where
  "num_le a b \<longleftrightarrow> num_less a b \<or> a = b \<and> a \<noteq> JNaN"

text \<open>
  \<open>Number(v)\<close>. A string is read as a decimal integer with an optional sign between
  blanks, the empty string as zero; strings in the other numeric notations do not occur in
  what the code converts and are read as NaN. An array converts through its text.
\<close>

definition is_digit :: "char \<Rightarrow> bool" where
  "is_digit c \<longleftrightarrow> c \<in> set ''0123456789''"

definition digit_val :: "char \<Rightarrow> int" where
  "digit_val c = int (of_char c) - 48"

definition decimal :: "string \<Rightarrow> int" where
  "decimal s = foldl (\<lambda>n c. 10 * n + digit_val c) 0 s"

definition blank :: "char \<Rightarrow> bool" where
  "blank c \<longleftrightarrow> c \<in> set [CHR '' '', CHR 0x09, CHR 0x0A, CHR 0x0B, CHR 0x0C, CHR 0x0D, CHR 0xA0]"

definition trim :: "string \<Rightarrow> string" where
  "trim s = rev (dropWhile blank (rev (dropWhile blank s)))"

definition string_number :: "string \<Rightarrow> jnum" where
  "string_number s = (case trim s of
     [] \<Rightarrow> JInt 0
   | c # cs \<Rightarrow>
       if list_all is_digit (c # cs) then JInt (decimal (c # cs))
       else if c = CHR ''-'' \<and> cs \<noteq> [] \<and> list_all is_digit cs then JInt (- decimal cs)
       else if c = CHR ''+'' \<and> cs \<noteq> [] \<and> list_all is_digit cs then JInt (decimal cs)
       else JNaN)"

fun to_number :: "jv \<Rightarrow> jnum" where
  "to_number Undef = JNaN"
| "to_number Null = JInt 0"
| "to_number (Bool b) = JInt (if b then 1 else 0)"
| "to_number (Num n) = n"
| "to_number (Str s) = string_number s"
| "to_number (JsonText _) = JNaN"
| "to_number (Arr []) = JInt 0"
| "to_number (Arr [Undef]) = JInt 0"
| "to_number (Arr [Null]) = JInt 0"
| "to_number (Arr [Bool _]) = JNaN"
| "to_number (Arr [v]) = to_number v"
| "to_number (Arr _) = JNaN"
| "to_number (Obj _) = JNaN"

text \<open>\<open>a > b\<close> on values that are numbers or undefined, as the code compares them.\<close>

definition js_less :: "jv \<Rightarrow> jv \<Rightarrow> bool" where
  "js_less a b = num_less (to_number a) (to_number b)"

definition js_le :: "jv \<Rightarrow> jv \<Rightarrow> bool" where
  "js_le a b = num_le (to_number a) (to_number b)"

lemma safe_int_bounds: "safe_int i \<longleftrightarrow> - 9007199254740991 \<le> i \<and> i \<le> 9007199254740991"
  by (auto simp: safe_int_def MAX_SAFE_INTEGER_def)

section \<open>Texts\<close>

text \<open>\<open>toLowerCase()\<close> on ASCII, and \<open>includes\<close>.\<close>

definition lower_char :: "char \<Rightarrow> char" where
  "lower_char c = (case map_of (zip ''ABCDEFGHIJKLMNOPQRSTUVWXYZ'' ''abcdefghijklmnopqrstuvwxyz'') c of
     None \<Rightarrow> c | Some d \<Rightarrow> d)"

definition lower :: "string \<Rightarrow> string" where
  "lower s = map lower_char s"

fun contains :: "string \<Rightarrow> string \<Rightarrow> bool" where
  "contains needle [] \<longleftrightarrow> needle = []"
| "contains needle (c # s) \<longleftrightarrow> take (length needle) (c # s) = needle \<or> contains needle s"

section \<open>Arrays\<close>

text \<open>
  \<open>v || []\<close> where the code goes on to call an array method on it: a truthy value
  that is not an array has no such method.
\<close>

definition list_or_empty :: "jv \<Rightarrow> jv list res" where
  "list_or_empty v = (if \<not> truthy v then Inr [] else (case v of
     Arr xs \<Rightarrow> Inr xs
   | _ \<Rightarrow> Inl (TypeError ''not an array'')))"

text \<open>\<open>Array.isArray(v) ? v : []\<close>\<close>

definition list_if_array :: "jv \<Rightarrow> jv list" where
  "list_if_array v = (case v of Arr xs \<Rightarrow> xs | _ \<Rightarrow> [])"

text \<open>\<open>(v || []).map((item) => item.id)\<close>\<close>

definition ids_of :: "jv \<Rightarrow> jv list res" where
  "ids_of v = bindr (list_or_empty v) (mapr (\<lambda>item. dot item ''id''))"

lemma list_or_empty_simps [simp]:
  "list_or_empty (Arr xs) = Inr xs" "list_or_empty Undef = Inr []" "list_or_empty Null = Inr []"
  by (simp_all add: list_or_empty_def)

text \<open>Membership in a \<open>Set\<close> of values: the code's sets hold identifiers.\<close>

definition in_ids :: "jv \<Rightarrow> jv list \<Rightarrow> bool" where
  "in_ids v ids \<longleftrightarrow> v \<in> set ids"

section \<open>JSON\<close>

text \<open>
  The tree \<open>JSON.stringify\<close> prints, \<open>None\<close> where it returns undefined: undefined
  properties are dropped, undefined elements and non-finite numbers become null.
\<close>

fun json_tree :: "jv \<Rightarrow> jv option" where
  "json_tree Undef = None"
| "json_tree (Num n) = Some (case n of JNaN \<Rightarrow> Null | JInf _ \<Rightarrow> Null | _ \<Rightarrow> Num n)"
| "json_tree (Arr vs) = Some (Arr (map (\<lambda>v. case json_tree v of None \<Rightarrow> Null | Some t \<Rightarrow> t) vs))"
| "json_tree (Obj kvs) = Some (Obj (concat (map (\<lambda>(k, v).
     case json_tree v of None \<Rightarrow> [] | Some t \<Rightarrow> [(k, t)]) kvs)))"
| "json_tree v = Some v"

text \<open>\<open>JSON.stringify(a) === JSON.stringify(b)\<close>\<close>

definition same_json :: "jv \<Rightarrow> jv \<Rightarrow> bool" where
  "same_json a b \<longleftrightarrow> json_tree a = json_tree b"

text \<open>\<open>JSON.parse(JSON.stringify(v))\<close> for a value that is not undefined\<close>

definition json_clone :: "jv \<Rightarrow> jv" where
  "json_clone v = (case json_tree v of None \<Rightarrow> Undef | Some t \<Rightarrow> t)"

definition json_stringify :: "jv \<Rightarrow> jv" where
  "json_stringify v = (case json_tree v of None \<Rightarrow> Undef | Some t \<Rightarrow> JsonText t)"

definition json_parse :: "jv \<Rightarrow> jv res" where
  "json_parse v = (case v of JsonText t \<Rightarrow> Inr t | _ \<Rightarrow> Inl SyntaxError)"

lemma json_parse_stringify:
  "json_tree v = Some t \<Longrightarrow> json_parse (json_stringify v) = Inr t"
  by (simp add: json_parse_def json_stringify_def)

lemma concat_map_singletons: "concat (map (\<lambda>p. [p]) xs) = xs"
  by (induction xs) auto

text \<open>Printing what was parsed prints the same text: the tree is a normal form.\<close>

lemma json_tree_idem: "json_tree v = Some t \<Longrightarrow> json_tree t = Some t"
proof (induction v arbitrary: t)
  case (Num n)
  then show ?case by (cases n) auto
next
  case (Arr vs)
  have "(case json_tree (case json_tree v of None \<Rightarrow> Null | Some t \<Rightarrow> t) of None \<Rightarrow> Null | Some t \<Rightarrow> t)
      = (case json_tree v of None \<Rightarrow> Null | Some t \<Rightarrow> t)" if "v \<in> set vs" for v
    using Arr.IH[OF that] by (cases "json_tree v") auto
  with Arr.prems show ?case by (auto simp: o_def)
next
  case (Obj kvs)
  define f where "f = (\<lambda>(k::string, v). case json_tree v of None \<Rightarrow> [] | Some t \<Rightarrow> [(k, t)])"
  have "\<forall>p \<in> set kvs. concat (map f (f p)) = f p"
    using Obj.IH by (fastforce simp: f_def split: option.splits prod.splits)
  then have "concat (map f (concat (map f kvs))) = concat (map f kvs)"
    by (induction kvs) auto
  then have "json_tree (Obj (concat (map f kvs))) = Some (Obj (concat (map f kvs)))"
    by (simp add: f_def)
  with Obj.prems show ?case by (auto simp: f_def)
qed auto

end
