(* ===== verification/DateTime.thy ===== *)
theory DateTime
  imports JsValue
begin

text \<open>
  RFC 3339 timestamps: \<open>parseDateTime\<close>, \<open>validDateTime\<close> and \<open>dateTimeMs\<close> of
  \<open>web/sync-core.js\<close>, and \<open>Date.prototype.toISOString\<close>, with which the client writes
  the stamps that these functions read back. Days are counted by the ECMAScript date
  algorithms on the proleptic Gregorian calendar.
\<close>

section \<open>The calendar\<close>

definition leap_year :: "int \<Rightarrow> bool" where
  "leap_year y \<longleftrightarrow> y mod 4 = 0 \<and> (y mod 100 \<noteq> 0 \<or> y mod 400 = 0)"

definition days_in_month :: "int \<Rightarrow> int list" where
  "days_in_month y = [31, if leap_year y then 29 else 28, 31, 30, 31, 30, 31, 31, 30, 31, 30, 31]"

text \<open>The ECMAScript \<open>DayFromYear\<close>: the day number of 1 January, 1970-01-01 being day 0.\<close>

definition day_from_year :: "int \<Rightarrow> int" where
  "day_from_year y = 365 * (y - 1970) + (y - 1969) div 4 - (y - 1901) div 100 + (y - 1601) div 400"

text \<open>The day of the year on which a month (counted from 1) begins.\<close>

definition month_start :: "int \<Rightarrow> int \<Rightarrow> int" where
  "month_start y m = sum_list (take (nat (m - 1)) (days_in_month y))"

definition day_number :: "int \<Rightarrow> int \<Rightarrow> int \<Rightarrow> int" where
  "day_number y m d = day_from_year y + month_start y m + (d - 1)"

text \<open>The year of a day number, by 400-, 100-, 4- and 1-year periods.\<close>

definition year_of_day :: "int \<Rightarrow> int" where
  "year_of_day n = (let e = n + 719162; q = e div 146097; r = e mod 146097;
      c = min 3 (r div 36524); r1 = r - 36524 * c; f = r1 div 1461; r2 = r1 - 1461 * f;
      y = min 3 (r2 div 365)
    in 400 * q + 100 * c + 4 * f + y + 1)"

fun month_and_day :: "int list \<Rightarrow> int \<Rightarrow> int \<Rightarrow> int \<times> int" where
  "month_and_day [] m r = (m, r + 1)"
| "month_and_day (l # ls) m r = (if r < l then (m, r + 1) else month_and_day ls (m + 1) (r - l))"

definition civil_of_day :: "int \<Rightarrow> int \<times> int \<times> int" where
  "civil_of_day n = (let y = year_of_day n;
      (m, d) = month_and_day (days_in_month y) 1 (n - day_from_year y) in (y, m, d))"

section \<open>Printing: \<open>new Date(ms).toISOString()\<close>\<close>

fun digits :: "nat \<Rightarrow> nat \<Rightarrow> string" where
  "digits 0 n = []"
| "digits (Suc w) n = digits w (n div 10) @ [''0123456789'' ! (n mod 10)]"

definition fixed :: "nat \<Rightarrow> int \<Rightarrow> string" where
  "fixed w i = digits w (nat i)"

definition iso_year :: "int \<Rightarrow> string" where
  "iso_year y = (if 0 \<le> y \<and> y \<le> 9999 then fixed 4 y
     else if y < 0 then CHR ''-'' # fixed 6 (- y) else CHR ''+'' # fixed 6 y)"

text \<open>Times beyond \<open>8.64e15\<close> milliseconds are invalid dates, on which it throws.\<close>

definition to_iso_string :: "int \<Rightarrow> string res" where
  "to_iso_string ms = (if \<bar>ms\<bar> > 8640000000000000 then Inl (RangeError ''Invalid time value'')
     else let (y, m, d) = civil_of_day (ms div 86400000); t = ms mod 86400000 in
       Inr (iso_year y @ ''-'' @ fixed 2 m @ ''-'' @ fixed 2 d @ ''T''
         @ fixed 2 (t div 3600000) @ '':'' @ fixed 2 (t div 60000 mod 60) @ '':''
         @ fixed 2 (t div 1000 mod 60) @ ''.'' @ fixed 3 (t mod 1000) @ ''Z''))"

definition LEGACY_EPOCH :: string where
  "LEGACY_EPOCH = ''1970-01-01T00:00:00.000Z''"

section \<open>Parsing\<close>

text \<open>
  The regular expression of \<open>parseDateTime\<close>, group by group: a fixed number of
  digits, a literal character, an optional fraction and a zone to the end.
\<close>

definition take_digits :: "nat \<Rightarrow> string \<Rightarrow> (int \<times> string) option" where
  "take_digits w s = (if length (take w s) = w \<and> list_all is_digit (take w s)
     then Some (decimal (take w s), drop w s) else None)"

definition take_char :: "char list \<Rightarrow> string \<Rightarrow> string option" where
  "take_char cs s = (case s of [] \<Rightarrow> None | c # s' \<Rightarrow> if c \<in> set cs then Some s' else None)"

definition take_fraction :: "string \<Rightarrow> (string \<times> string) option" where
  "take_fraction s = (case s of
     [] \<Rightarrow> Some ([], s)
   | c # s' \<Rightarrow> if c = CHR ''.'' then
        (if takeWhile is_digit s' = [] then None
         else Some (takeWhile is_digit s', dropWhile is_digit s'))
      else Some ([], s))"

text \<open>The zone: \<open>Z\<close>, or a sign, hours and minutes, and nothing after it.\<close>

definition take_zone :: "string \<Rightarrow> (int \<times> int \<times> int) option" where
  "take_zone s = (if s = ''Z'' \<or> s = ''z'' then Some (0, 0, 0) else (case s of
     [] \<Rightarrow> None
   | c # s' \<Rightarrow>
       if c \<in> {CHR ''+'', CHR ''-''} then
         Option.bind (take_digits 2 s') (\<lambda>(oh, s').
         Option.bind (take_char '':'' s') (\<lambda>s'.
         Option.bind (take_digits 2 s') (\<lambda>(om, s').
         if s' = [] then Some (if c = CHR ''+'' then 1 else -1, oh, om) else None)))
       else None))"

record date_groups =
  g_year :: int
  g_month :: int
  g_day :: int
  g_hour :: int
  g_minute :: int
  g_second :: int
  g_fraction :: string
  g_direction :: int
  g_offset_hour :: int
  g_offset_minute :: int

definition match_date_time :: "string \<Rightarrow> date_groups option" where
  "match_date_time s =
     Option.bind (take_digits 4 s) (\<lambda>(y, s).
     Option.bind (take_char ''-'' s) (\<lambda>s.
     Option.bind (take_digits 2 s) (\<lambda>(mo, s).
     Option.bind (take_char ''-'' s) (\<lambda>s.
     Option.bind (take_digits 2 s) (\<lambda>(d, s).
     Option.bind (take_char ''Tt'' s) (\<lambda>s.
     Option.bind (take_digits 2 s) (\<lambda>(h, s).
     Option.bind (take_char '':'' s) (\<lambda>s.
     Option.bind (take_digits 2 s) (\<lambda>(mi, s).
     Option.bind (take_char '':'' s) (\<lambda>s.
     Option.bind (take_digits 2 s) (\<lambda>(se, s).
     Option.bind (take_fraction s) (\<lambda>(f, s).
     Option.bind (take_zone s) (\<lambda>(dir, oh, om).
       Some \<lparr>g_year = y, g_month = mo, g_day = d, g_hour = h, g_minute = mi, g_second = se,
         g_fraction = f, g_direction = dir, g_offset_hour = oh, g_offset_minute = om\<rparr>)))))))))))))"

definition strip_zeros :: "string \<Rightarrow> string" where
  "strip_zeros s = rev (dropWhile (\<lambda>c. c = CHR ''0'') (rev s))"

text \<open>The parsed instant: whole seconds and the fraction without its trailing zeros.\<close>

definition parse_date_time :: "jv \<Rightarrow> (int \<times> string) option" where
  "parse_date_time v = (case v of
     Str s \<Rightarrow> Option.bind (match_date_time s) (\<lambda>g.
       let y = g_year g; m = g_month g; d = g_day g in
       if 1 \<le> m \<and> m \<le> 12 \<and> 1 \<le> d \<and> d \<le> days_in_month y ! nat (m - 1)
         \<and> g_hour g \<le> 23 \<and> g_minute g \<le> 59 \<and> g_second g \<le> 59
         \<and> g_offset_hour g \<le> 23 \<and> g_offset_minute g \<le> 59
       then Some (day_number y m d * 86400 + g_hour g * 3600 + g_minute g * 60 + g_second g
           - g_direction g * (g_offset_hour g * 60 + g_offset_minute g) * 60,
         strip_zeros (g_fraction g))
       else None)
   | _ \<Rightarrow> None)"

definition valid_date_time :: "jv \<Rightarrow> bool" where
  "valid_date_time v \<longleftrightarrow> parse_date_time v \<noteq> None"

text \<open>\<open>padEnd(3, "0").slice(0, 3)\<close> of the fraction, read as a number.\<close>

definition fraction_ms :: "string \<Rightarrow> int" where
  "fraction_ms f = decimal (take 3 (f @ replicate (3 - length f) (CHR ''0'')))"

definition date_time_ms :: "jv \<Rightarrow> int option" where
  "date_time_ms v = Option.bind (parse_date_time v) (\<lambda>(secs, f).
     let r = secs * 1000 + fraction_ms f in if safe_int r then Some r else None)"

section \<open>Facts about digits and the calendar\<close>

lemma digit_char:
  assumes "k < 10"
  shows "is_digit (''0123456789'' ! k)" "digit_val (''0123456789'' ! k) = int k"
proof -
  show "is_digit (''0123456789'' ! k)"
    unfolding is_digit_def by (rule nth_mem) (use assms in simp)
  from assms have "k \<in> {0, 1, 2, 3, 4, 5, 6, 7, 8, 9}" by auto
  then show "digit_val (''0123456789'' ! k) = int k"
    by (elim insertE) (simp_all add: digit_val_def)
qed

lemma decimal_snoc: "decimal (s @ [c]) = 10 * decimal s + digit_val c"
  by (simp add: decimal_def)

lemma length_digits [simp]: "length (digits w n) = w"
  by (induction w n rule: digits.induct) simp_all

lemma digits_are_digits: "list_all is_digit (digits w n)"
  by (induction w n rule: digits.induct) (simp_all add: digit_char)

lemma decimal_digits: "n < 10 ^ w \<Longrightarrow> decimal (digits w n) = int n"
proof (induction w n rule: digits.induct)
  case (1 n)
  then show ?case by (simp add: decimal_def)
next
  case (2 w n)
  then have "n div 10 < 10 ^ w" by (simp add: div_less_iff_less_mult mult.commute)
  then have "decimal (digits (Suc w) n) = 10 * int (n div 10) + int (n mod 10)"
    using 2 by (simp add: decimal_snoc digit_char del: of_nat_mod of_nat_div)
  also have "\<dots> = int (10 * (n div 10) + n mod 10)"
    by (simp only: of_nat_add of_nat_mult of_nat_numeral)
  also have "\<dots> = int n" by (simp only: mult_div_mod_eq)
  finally show ?case .
qed

lemma take_digits_fixed [simp]:
  "0 \<le> i \<Longrightarrow> i < 10 ^ w \<Longrightarrow> take_digits w (fixed w i @ s) = Some (i, s)"
  using decimal_digits[of "nat i" w] digits_are_digits[of w "nat i"]
  by (simp add: take_digits_def fixed_def nat_less_iff)

text \<open>The calendar.\<close>

lemma day_from_year_periods:
  assumes "0 \<le> c" "c \<le> 3" "0 \<le> f" "f \<le> 24" "0 \<le> y" "y \<le> 3"
  shows "day_from_year (400 * q + 100 * c + 4 * f + y + 1)
    = 146097 * q + 36524 * c + 1461 * f + 365 * y - 719162"
proof -
  have "(400 * q + 100 * c + 4 * f + y + 1 - 1969) div 4 = 100 * q + 25 * c + f - 492"
    by (rule int_div_pos_eq [where r = y]) (use assms in simp_all)
  moreover have "(400 * q + 100 * c + 4 * f + y + 1 - 1901) div 100 = 4 * q + c - 19"
    by (rule int_div_pos_eq [where r = "4 * f + y"]) (use assms in simp_all)
  moreover have "(400 * q + 100 * c + 4 * f + y + 1 - 1601) div 400 = q - 4"
    by (rule int_div_pos_eq [where r = "100 * c + 4 * f + y"]) (use assms in simp_all)
  ultimately show ?thesis by (simp add: day_from_year_def)
qed

lemma leap_year_periods:
  assumes "0 \<le> c" "c \<le> 3" "0 \<le> f" "f \<le> 24" "0 \<le> y" "y \<le> 3"
  shows "leap_year (400 * q + 100 * c + 4 * f + y + 1) \<longleftrightarrow> y = 3 \<and> (f \<noteq> 24 \<or> c = 3)"
proof -
  let ?Y = "400 * q + 100 * c + 4 * f + y + 1"
  have 4: "?Y mod 4 = (if y = 3 then 0 else y + 1)"
    by (rule int_mod_pos_eq [where q = "100 * q + 25 * c + f + (if y = 3 then 1 else 0)"])
      (use assms in auto)
  have 100: "?Y mod 100 = (if f = 24 \<and> y = 3 then 0 else 4 * f + y + 1)"
    by (rule int_mod_pos_eq [where q = "4 * q + c + (if f = 24 \<and> y = 3 then 1 else 0)"])
      (use assms in auto)
  have 400: "?Y mod 400 = (if c = 3 \<and> f = 24 \<and> y = 3 then 0 else 100 * c + 4 * f + y + 1)"
    by (rule int_mod_pos_eq [where q = "q + (if c = 3 \<and> f = 24 \<and> y = 3 then 1 else 0)"])
      (use assms in auto)
  show ?thesis
    unfolding leap_year_def 4 100 400 using assms by auto
qed

lemma sum_days_in_month: "sum_list (days_in_month y) = (if leap_year y then 366 else 365)"
  by (simp add: days_in_month_def)

lemma min_div_bounds:
  fixes r k :: int
  assumes "0 \<le> r" "0 < k"
  shows "0 \<le> min 3 (r div k)" "min 3 (r div k) \<le> 3" "k * min 3 (r div k) \<le> r"
    "r < k * min 3 (r div k) + k \<or> min 3 (r div k) = 3"
proof -
  have 0: "0 \<le> r div k" using assms by (simp add: pos_imp_zdiv_nonneg_iff)
  then show "0 \<le> min 3 (r div k)" "min 3 (r div k) \<le> 3" by simp_all
  have r: "r = k * (r div k) + r mod k" "0 \<le> r mod k" "r mod k < k"
    using assms by (simp_all only: mult_div_mod_eq pos_mod_sign pos_mod_bound)
  have "k * min 3 (r div k) \<le> k * (r div k)" using assms by (intro mult_left_mono) simp_all
  then show "k * min 3 (r div k) \<le> r" using r by linarith
  show "r < k * min 3 (r div k) + k \<or> min 3 (r div k) = 3"
  proof (cases "r div k \<le> 3")
    case True
    then have "min 3 (r div k) = r div k" by simp
    then show ?thesis using r by linarith
  qed simp
qed

lemma year_of_day_bounds:
  fixes n :: int
  defines "Y \<equiv> year_of_day n"
  shows "day_from_year Y \<le> n" "n - day_from_year Y < sum_list (days_in_month Y)"
proof -
  define e q r c r1 f r2 y where defs: "e = n + 719162" "q = e div 146097" "r = e mod 146097"
    "c = min 3 (r div 36524)" "r1 = r - 36524 * c" "f = r1 div 1461" "r2 = r1 - 1461 * f"
    "y = min 3 (r2 div 365)"
  have Y: "Y = 400 * q + 100 * c + 4 * f + y + 1"
    by (simp only: Y_def year_of_day_def Let_def defs)
  have r: "0 \<le> r" "r < 146097" "e = 146097 * q + r"
    unfolding defs(2,3) by (simp_all only: pos_mod_sign pos_mod_bound mult_div_mod_eq zero_less_numeral)
  have c: "0 \<le> c" "c \<le> 3" "0 \<le> r1" "r1 < 36524 \<or> c = 3 \<and> r1 < 36525"
    using min_div_bounds[OF r(1), of 36524] r(2) unfolding defs(5) defs(4)[symmetric] by linarith+
  have f: "0 \<le> r2" "r2 < 1461" "r1 = 1461 * f + r2"
    unfolding defs(6,7) using mult_div_mod_eq[of 1461 r1] pos_mod_sign[of 1461 r1]
      pos_mod_bound[of 1461 r1] by linarith+
  have f': "0 \<le> f" "f \<le> 24" "f = 24 \<longrightarrow> c \<noteq> 3 \<longrightarrow> r2 < 1460"
    using c f by linarith+
  have y: "0 \<le> y" "y \<le> 3" "365 * y \<le> r2" "r2 < 365 * y + 365 \<or> y = 3"
    using min_div_bounds[OF f(1), of 365] unfolding defs(8)[symmetric] by simp_all
  note f = f'(1,2) f(1,2) f'(3)
  have n: "n - day_from_year Y = r2 - 365 * y"
    using r(3) defs(1,5,7) unfolding Y day_from_year_periods[OF c(1,2) f(1,2) y(1,2)] by linarith
  show "day_from_year Y \<le> n" using n y by simp
  show "n - day_from_year Y < sum_list (days_in_month Y)"
    using n y f unfolding sum_days_in_month Y leap_year_periods[OF c(1,2) f(1,2) y(1,2), of q]
    by (simp split: if_split) linarith
qed

lemma div_Suc_int:
  fixes a k :: int
  assumes "k > 0"
  shows "(a + 1) div k = a div k + (if (a + 1) mod k = 0 then 1 else 0)"
proof (cases "a mod k = k - 1")
  case True
  have "a + 1 = k * (a div k + 1) + 0"
    using True mult_div_mod_eq[of k a] by (simp add: distrib_left)
  then have "(a + 1) div k = a div k + 1" "(a + 1) mod k = 0"
    using assms by (simp_all add: int_div_pos_eq int_mod_pos_eq)
  then show ?thesis by simp
next
  case False
  have r: "a + 1 = k * (a div k) + (a mod k + 1)" "0 \<le> a mod k + 1" "a mod k + 1 < k"
    using False mult_div_mod_eq[of k a] pos_mod_bound[OF assms, of a] pos_mod_sign[OF assms, of a]
    by linarith+
  have "(a + 1) div k = a div k" by (rule int_div_pos_eq[OF r])
  moreover have "(a + 1) mod k = a mod k + 1" by (rule int_mod_pos_eq[OF r])
  ultimately show ?thesis using pos_mod_sign[OF assms, of a] by simp
qed

lemma day_from_year_Suc: "day_from_year (y + 1) = day_from_year y + sum_list (days_in_month y)"
proof -
  define i where "i k = (if y mod k = 0 then 1 else 0 :: int)" for k
  have step: "(y + 1 - b) div k = (y - b) div k + i k" if "k > 0" "b = k * j + 1" for k b j
  proof -
    have "(y + 1 - b) mod k = y mod k"
      using mod_mult_self1[of y "- j" k] unfolding that(2) by (simp only: minus_mult_left [symmetric]) (simp add: mult.commute)
    moreover have *: "y + 1 - b = y - b + 1" by (simp only: diff_add_eq)
    ultimately show ?thesis
      using div_Suc_int[OF that(1), of "y - b"] by (simp only: i_def *)
  qed
  have "(4 :: int) dvd 100" "(100 :: int) dvd 400" by simp_all
  then have dvd: "y mod 100 = 0 \<longrightarrow> y mod 4 = 0" "y mod 400 = 0 \<longrightarrow> y mod 100 = 0"
    unfolding mod_eq_0_iff_dvd by (iprover dest: dvd_trans[of _ _ y])+
  have count: "(if p \<and> (\<not> q \<or> r) then 366 else 365)
      = 365 + ((if p then 1 else 0) - (if q then 1 else 0) + (if r then 1 else 0) :: int)"
    if "q \<longrightarrow> p" "r \<longrightarrow> q" for p q r
    using that by (cases p; cases q; cases r) simp_all
  have "sum_list (days_in_month y) = 365 + (i 4 - i 100 + i 400)"
    unfolding sum_days_in_month leap_year_def i_def by (rule count[OF dvd])
  moreover have "(y + 1 - 1969) div 4 = (y - 1969) div 4 + i 4" by (rule step[of 4 _ 492]) simp_all
  moreover have "(y + 1 - 1901) div 100 = (y - 1901) div 100 + i 100" by (rule step[of 100 _ 19]) simp_all
  moreover have "(y + 1 - 1601) div 400 = (y - 1601) div 400 + i 400" by (rule step[of 400 _ 4]) simp_all
  moreover have "365 * (y + 1 - 1970) + (p + a) - (q + b) + (r + c)
      = 365 * (y - 1970) + p - q + r + (365 + (a - b + c))" for p q r a b c :: int by simp
  ultimately show ?thesis by (simp only: day_from_year_def)
qed

lemma day_from_year_mono: "a \<le> b \<Longrightarrow> day_from_year a \<le> day_from_year b"
proof (induction b rule: int_ge_induct)
  case (step b)
  have "0 \<le> sum_list (days_in_month b)" by (simp add: sum_days_in_month)
  with step show ?case by (simp add: day_from_year_Suc)
qed simp

lemma month_and_day_spec:
  assumes "0 \<le> r" "r < sum_list ls" "month_and_day ls m r = (m', d)"
  shows "m \<le> m' \<and> m' < m + int (length ls) \<and> 1 \<le> d \<and> d \<le> ls ! nat (m' - m)
    \<and> sum_list (take (nat (m' - m)) ls) + (d - 1) = r"
  using assms
proof (induction ls m r rule: month_and_day.induct)
  case (1 m r)
  then show ?case by simp
next
  case (2 l ls m r)
  show ?case
  proof (cases "r < l")
    case True
    with 2 show ?thesis by auto
  next
    case False
    with 2 have IH: "m + 1 \<le> m' \<and> m' < m + 1 + int (length ls) \<and> 1 \<le> d \<and> d \<le> ls ! nat (m' - (m + 1))
      \<and> sum_list (take (nat (m' - (m + 1))) ls) + (d - 1) = r - l" by simp
    then have "nat (m' - m) = Suc (nat (m' - (m + 1)))" by linarith
    with IH show ?thesis by simp
  qed
qed

lemma civil_of_day_correct:
  assumes "civil_of_day n = (y, m, d)"
  shows "y = year_of_day n" "1 \<le> m" "m \<le> 12" "1 \<le> d" "d \<le> days_in_month y ! nat (m - 1)"
    "day_number y m d = n"
proof -
  have "month_and_day (days_in_month y) 1 (n - day_from_year y) = (m, d)" and y: "y = year_of_day n"
    using assms by (auto simp: civil_of_day_def Let_def split: prod.splits)
  moreover have "0 \<le> n - day_from_year y" "n - day_from_year y < sum_list (days_in_month y)"
    using year_of_day_bounds[of n] y by simp_all
  ultimately have *: "1 \<le> m \<and> m < 1 + int (length (days_in_month y)) \<and> 1 \<le> d
      \<and> d \<le> days_in_month y ! nat (m - 1)
      \<and> sum_list (take (nat (m - 1)) (days_in_month y)) + (d - 1) = n - day_from_year y"
    using month_and_day_spec by blast
  show "y = year_of_day n" by (rule y)
  show "1 \<le> m" "m \<le> 12" "1 \<le> d" "d \<le> days_in_month y ! nat (m - 1)"
    using * by (simp_all add: days_in_month_def)
  show "day_number y m d = n"
    using * by (simp add: day_number_def month_start_def)
qed

lemma day_in_month_le_31: "1 \<le> m \<Longrightarrow> m \<le> 12 \<Longrightarrow> days_in_month y ! nat (m - 1) \<le> 31"
proof -
  assume m: "1 \<le> m" "m \<le> 12"
  have "\<forall>l \<in> set (days_in_month y). l \<le> 31" by (simp add: days_in_month_def)
  moreover have "days_in_month y ! nat (m - 1) \<in> set (days_in_month y)"
    using m by (intro nth_mem) (simp add: days_in_month_def)
  ultimately show ?thesis by blast
qed

lemma year_of_day_range:
  assumes "-719528 \<le> n" "n < 2932897"
  shows "0 \<le> year_of_day n" "year_of_day n \<le> 9999"
proof -
  let ?Y = "year_of_day n"
  note mono = day_from_year_mono
  have Y: "day_from_year ?Y \<le> n" "n < day_from_year (?Y + 1)"
    using year_of_day_bounds[of n] unfolding day_from_year_Suc by linarith+
  show "0 \<le> ?Y"
    using mono[of "?Y + 1" 0] Y assms by (fastforce simp: day_from_year_def)
  show "?Y \<le> 9999"
    using mono[of 10000 ?Y] Y assms by (fastforce simp: day_from_year_def)
qed

section \<open>Reading back what was printed\<close>

lemma take_char_Cons [simp]: "take_char cs (c # s) = (if c \<in> set cs then Some s else None)"
  by (simp add: take_char_def)

lemma take_fraction_fixed:
  assumes "0 \<le> i" "i < 1000"
  shows "take_fraction (CHR ''.'' # fixed 3 i @ ''Z'') = Some (fixed 3 i, ''Z'')"
proof -
  have d: "list_all is_digit (fixed 3 i)" "length (fixed 3 i) = 3"
    using digits_are_digits by (auto simp: fixed_def)
  then have "takeWhile is_digit (fixed 3 i @ ''Z'') = fixed 3 i"
    "dropWhile is_digit (fixed 3 i @ ''Z'') = ''Z''"
    by (auto simp: takeWhile_append dropWhile_append list_all_iff is_digit_def)
  moreover have "fixed 3 i \<noteq> []" using d by auto
  ultimately show ?thesis by (simp add: take_fraction_def)
qed

lemma fraction_ms_strip:
  assumes "0 \<le> i" "i < 1000"
  shows "fraction_ms (strip_zeros (fixed 3 i)) = i"
proof -
  obtain a b c where abc: "fixed 3 i = [a, b, c]"
    by (simp add: fixed_def numeral_3_eq_3)
  have pad: "take 3 (strip_zeros [a, b, c] @ replicate (3 - length (strip_zeros [a, b, c])) CHR ''0'')
      = [a, b, c]"
    by (auto simp: strip_zeros_def numeral_3_eq_3)
  have "decimal (fixed 3 i) = i"
    using decimal_digits[of "nat i" 3] assms by (simp add: fixed_def nat_less_iff)
  then show ?thesis by (simp only: fraction_ms_def pad abc)
qed

lemma match_date_time_printed:
  assumes "0 \<le> y" "y \<le> 9999" "0 \<le> mo" "mo \<le> 99" "0 \<le> d" "d \<le> 99" "0 \<le> h" "h \<le> 99"
    "0 \<le> mi" "mi \<le> 99" "0 \<le> se" "se \<le> 99" "0 \<le> f" "f \<le> 999"
  shows "match_date_time (fixed 4 y @ ''-'' @ fixed 2 mo @ ''-'' @ fixed 2 d @ ''T'' @ fixed 2 h @ '':''
      @ fixed 2 mi @ '':'' @ fixed 2 se @ ''.'' @ fixed 3 f @ ''Z'')
    = Some \<lparr>g_year = y, g_month = mo, g_day = d, g_hour = h, g_minute = mi, g_second = se,
        g_fraction = fixed 3 f, g_direction = 0, g_offset_hour = 0, g_offset_minute = 0\<rparr>"
  using assms take_fraction_fixed[of f] by (simp add: match_date_time_def take_zone_def)

lemma clock_parts:
  fixes t :: int
  assumes "0 \<le> t" "t < 86400000"
  shows "0 \<le> t div 3600000" "t div 3600000 \<le> 23" "0 \<le> t div 60000 mod 60" "t div 60000 mod 60 \<le> 59"
    "0 \<le> t div 1000 mod 60" "t div 1000 mod 60 \<le> 59" "0 \<le> t mod 1000" "t mod 1000 \<le> 999"
    "1000 * (t div 3600000 * 3600 + t div 60000 mod 60 * 60 + t div 1000 mod 60) + t mod 1000 = t"
proof -
  define a b c where "a = t div 1000" and "b = a div 60" and "c = b div 60"
  have t: "t = 1000 * a + t mod 1000" "a = 60 * b + a mod 60" "b = 60 * c + b mod 60"
    unfolding a_def b_def c_def by (simp_all only: mult_div_mod_eq)
  define x y z where "x = t mod 1000" and "y = a mod 60" and "z = b mod 60"
  have bounds: "0 \<le> x" "x < 1000" "0 \<le> y" "y < 60" "0 \<le> z" "z < 60"
    unfolding x_def y_def z_def by (simp_all only: pos_mod_sign pos_mod_bound zero_less_numeral)
  have "t div 60000 = b" "t div 3600000 = c"
    using zdiv_zmult2_eq[of 60 t 1000] zdiv_zmult2_eq[of 3600 t 1000] zdiv_zmult2_eq[of 60 a 60]
    by (simp_all add: a_def b_def c_def)
  note eqs = this a_def[symmetric] x_def[symmetric] y_def[symmetric] z_def[symmetric]
  show "0 \<le> t div 3600000" "t div 3600000 \<le> 23" "0 \<le> t div 60000 mod 60"
    "t div 60000 mod 60 \<le> 59" "0 \<le> t div 1000 mod 60" "t div 1000 mod 60 \<le> 59" "0 \<le> t mod 1000"
    "t mod 1000 \<le> 999"
    "1000 * (t div 3600000 * 3600 + t div 60000 mod 60 * 60 + t div 1000 mod 60) + t mod 1000 = t"
    unfolding eqs using assms bounds t[folded x_def y_def z_def] by (linarith+, algebra)
qed

lemma parse_printed:
  assumes ms: "- 62167219200000 \<le> ms" "ms < 253402300800000"
  shows "\<exists>s. to_iso_string ms = Inr s
    \<and> parse_date_time (Str s) = Some (ms div 1000, strip_zeros (fixed 3 (ms mod 1000)))"
proof -
  define n t where "n = ms div 86400000" and "t = ms mod 86400000"
  have nt: "ms = 86400000 * n + t" "0 \<le> t" "t < 86400000"
    unfolding n_def t_def by (simp_all only: mult_div_mod_eq pos_mod_sign pos_mod_bound zero_less_numeral)
  obtain y m d where ymd: "civil_of_day n = (y, m, d)" using prod_cases3 by blast
  note civil = civil_of_day_correct[OF ymd]
  have n: "-719528 \<le> n" "n < 2932897" using ms nt by linarith+
  have y: "0 \<le> y" "y \<le> 9999" using year_of_day_range[OF n] civil(1) by simp_all
  have d: "d \<le> 31" using civil(5) day_in_month_le_31[OF civil(2,3), of y] by linarith
  note clock = clock_parts[OF nt(2,3)]
  define h mi se f where "h = t div 3600000" and "mi = t div 60000 mod 60"
    and "se = t div 1000 mod 60" and "f = t mod 1000"
  note clock = clock[folded h_def mi_def se_def f_def]
  have secs: "ms = 1000 * (86400 * n + h * 3600 + mi * 60 + se) + f"
    using nt(1) clock(9) by (simp add: algebra_simps)
  have f: "ms mod 1000 = f" "ms div 1000 = n * 86400 + h * 3600 + mi * 60 + se"
    using int_mod_pos_eq[OF secs] int_div_pos_eq[OF secs] clock(7,8) by simp_all
  let ?s = "fixed 4 y @ ''-'' @ fixed 2 m @ ''-'' @ fixed 2 d @ ''T'' @ fixed 2 h @ '':''
      @ fixed 2 mi @ '':'' @ fixed 2 se @ ''.'' @ fixed 3 f @ ''Z''"
  have "\<not> \<bar>ms\<bar> > 8640000000000000" using ms by linarith
  then have "to_iso_string ms = Inr ?s"
    using y unfolding to_iso_string_def n_def[symmetric] t_def[symmetric] ymd Let_def
      h_def mi_def se_def f_def iso_year_def by simp
  moreover have "match_date_time ?s = Some \<lparr>g_year = y, g_month = m, g_day = d, g_hour = h,
      g_minute = mi, g_second = se, g_fraction = fixed 3 f, g_direction = 0, g_offset_hour = 0,
      g_offset_minute = 0\<rparr>"
    by (rule match_date_time_printed) (use y civil(2-4) d clock in linarith)+
  then have "parse_date_time (Str ?s) = Some (n * 86400 + h * 3600 + mi * 60 + se, strip_zeros (fixed 3 f))"
    using civil clock by (simp add: parse_date_time_def)
  ultimately show ?thesis unfolding f by blast
qed

text \<open>
  C13: every instant of the years 0 to 9999 that the client stamps with
  \<open>toISOString\<close> is read back by \<open>dateTimeMs\<close> as the same number of milliseconds; in
  particular such a stamp passes \<open>validDateTime\<close>.
\<close>

theorem iso_string_roundtrip:
  assumes "- 62167219200000 \<le> ms" "ms < 253402300800000"
  shows "\<exists>s. to_iso_string ms = Inr s \<and> date_time_ms (Str s) = Some ms \<and> valid_date_time (Str s)"
proof -
  obtain s where s: "to_iso_string ms = Inr s"
    "parse_date_time (Str s) = Some (ms div 1000, strip_zeros (fixed 3 (ms mod 1000)))"
    using parse_printed[OF assms] by blast
  have "fraction_ms (strip_zeros (fixed 3 (ms mod 1000))) = ms mod 1000"
    by (rule fraction_ms_strip) simp_all
  moreover have "ms div 1000 * 1000 + ms mod 1000 = ms" by simp
  moreover have "safe_int ms" using assms by (simp add: safe_int_bounds)
  ultimately show ?thesis using s by (simp add: date_time_ms_def valid_date_time_def)
qed

theorem iso_string_roundtrip_witness:
  "\<exists>s. to_iso_string 1700000000123 = Inr s \<and> date_time_ms (Str s) = Some 1700000000123
    \<and> valid_date_time (Str s)"
  by (rule iso_string_roundtrip) simp_all

end
