(* ===== verification/SyncCore.thy ===== *)
theory SyncCore
  imports DateTime
begin

text \<open>
  \<open>web/sync-core.js\<close> without its batch planning: account identities and request
  headers, the decisions that guard a history resolution, the wire encoders of the
  five kinds of operations, the ledger of operations never sent, the order of timer
  commands, and the validators of server responses. Option objects are the field
  lists the callers build; received payloads are arbitrary values. An error message is
  kept without the values interpolated into it.
\<close>

section \<open>Domains\<close>

text \<open>The five queues of retained operations (\<open>DOMAINS\<close> of \<open>workspace-core.js\<close>).\<close>

datatype domain = Commands | TaskOperations | DurationOperations | AutoStartOperations
  | SelectedTaskOperations

definition DOMAINS :: "domain list" where
  "DOMAINS = [Commands, TaskOperations, DurationOperations, AutoStartOperations, SelectedTaskOperations]"

fun domain_name :: "domain \<Rightarrow> string" where
  "domain_name Commands = ''commands''"
| "domain_name TaskOperations = ''taskOperations''"
| "domain_name DurationOperations = ''durationOperations''"
| "domain_name AutoStartOperations = ''autoStartOperations''"
| "domain_name SelectedTaskOperations = ''selectedTaskOperations''"

lemma set_DOMAINS [simp]: "set DOMAINS = UNIV"
  by (auto simp: DOMAINS_def) (metis domain.exhaust)

lemma all_DOMAINS: "(\<forall>d. P d) \<longleftrightarrow> (\<forall>d\<in>set DOMAINS. P d)"
  by simp

lemma domain_name_inject [simp]: "domain_name d = domain_name e \<longleftrightarrow> d = e"
  by (cases d; cases e) simp_all

text \<open>An object with one field per domain, in the order of \<open>DOMAINS\<close>.\<close>

definition queues_value :: "(domain \<Rightarrow> jv) \<Rightarrow> jv" where
  "queues_value q = Obj (map (\<lambda>d. (domain_name d, q d)) DOMAINS)"

lemma getp_queues_value [simp]: "getp (queues_value q) (domain_name d) = q d"
  by (cases d) (simp_all add: queues_value_def DOMAINS_def fld_def)

text \<open>A computation for every domain in turn, stopping at the first error.\<close>

definition domains_result :: "(domain \<Rightarrow> 'a res) \<Rightarrow> (domain \<Rightarrow> 'a) res" where
  "domains_result f =
     bindr (f Commands) (\<lambda>c. bindr (f TaskOperations) (\<lambda>t. bindr (f DurationOperations) (\<lambda>u.
     bindr (f AutoStartOperations) (\<lambda>a. bindr (f SelectedTaskOperations) (\<lambda>s.
       Inr (\<lambda>d. case d of Commands \<Rightarrow> c | TaskOperations \<Rightarrow> t | DurationOperations \<Rightarrow> u
         | AutoStartOperations \<Rightarrow> a | SelectedTaskOperations \<Rightarrow> s))))))"

lemma domains_result_Inr_iff [res_simps]:
  "domains_result f = Inr g \<longleftrightarrow> (\<forall>d. f d = Inr (g d))"
proof
  assume "\<forall>d. f d = Inr (g d)"
  then have "domains_result f = Inr (\<lambda>d. case d of Commands \<Rightarrow> g Commands
      | TaskOperations \<Rightarrow> g TaskOperations | DurationOperations \<Rightarrow> g DurationOperations
      | AutoStartOperations \<Rightarrow> g AutoStartOperations
      | SelectedTaskOperations \<Rightarrow> g SelectedTaskOperations)"
    by (simp add: domains_result_def)
  also have "\<dots> = Inr g" by (auto intro!: ext split: domain.split)
  finally show "domains_result f = Inr g" .
next
  assume "domains_result f = Inr g"
  then show "\<forall>d. f d = Inr (g d)"
    by (auto simp: domains_result_def res_simps split: domain.split)
qed

lemma domains_result_Inr [simp]: "domains_result (\<lambda>d. Inr (g d)) = Inr g"
  by (simp add: domains_result_Inr_iff)

text \<open>A total step after each of the computations is a total step after all of them.\<close>

lemma domains_result_map:
  "domains_result (\<lambda>d. bindr (f d) (\<lambda>x. Inr (g d x)))
     = bindr (domains_result f) (\<lambda>xs. Inr (\<lambda>d. g d (xs d)))"
  by (cases "f Commands"; cases "f TaskOperations"; cases "f DurationOperations";
      cases "f AutoStartOperations"; cases "f SelectedTaskOperations")
    (auto simp: domains_result_def fun_eq_iff split: domain.split)

section \<open>Account identities\<close>

definition hex_char :: "char \<Rightarrow> bool" where
  "hex_char c \<longleftrightarrow> c \<in> set ''0123456789abcdef''"

text \<open>\<open>/^[a-f0-9]{64}$/\<close> on strings\<close>

definition hex64 :: "string \<Rightarrow> bool" where
  "hex64 s \<longleftrightarrow> length s = 64 \<and> list_all hex_char s"

definition valid_account_incarnation :: "jv \<Rightarrow> bool" where
  "valid_account_incarnation v = (case v of Str s \<Rightarrow> hex64 s | _ \<Rightarrow> False)"

definition account_prefix :: string where "account_prefix = ''account:v1:''"

definition account_owner_id :: "jv \<Rightarrow> jv res" where
  "account_owner_id user =
     (if nullish user then Inr Null
      else if \<not> nonempty_string (getp user ''id'') then Inl (TypeError ''Invalid account identity.'')
      else if \<not> has_own user ''accountIncarnation'' then Inr (getp user ''id'')
      else (case getp user ''accountIncarnation'' of
          Str s \<Rightarrow> if hex64 s then Inr (Str (account_prefix @ s))
            else Inl (TypeError ''Invalid account incarnation.'')
        | _ \<Rightarrow> Inl (TypeError ''Invalid account incarnation.'')))"

definition authenticated_owner_id :: "jv \<Rightarrow> jv res" where
  "authenticated_owner_id user =
     (if \<not> valid_account_incarnation (getp user ''accountIncarnation'')
      then Inl (Error ''Account incarnation unavailable. Reconnect before reconciling retained local work.'')
      else account_owner_id user)"

text \<open>\<open>accountHeaders\<close>: the one header it returns, by name and value.\<close>

definition account_headers :: "jv \<Rightarrow> (string \<times> string) list res" where
  "account_headers owner = (case owner of
     Str s \<Rightarrow> if take 11 s = account_prefix \<and> hex64 (drop 11 s)
       then Inr [(''X-Pomodorough-Account-Incarnation'', drop 11 s)]
       else Inl (Error ''Validated account incarnation required.'')
   | _ \<Rightarrow> Inl (Error ''Validated account incarnation required.''))"

definition assert_response_account :: "jv \<Rightarrow> jv \<Rightarrow> unit res" where
  "assert_response_account payload expected =
     bindr (account_owner_id (Obj [(''id'', Str ''response''),
         (''accountIncarnation'', getp payload ''accountIncarnation'')])) (\<lambda>owner.
     ensure (strict_eq owner expected)
       (Error ''Response account incarnation changed. Retained local work was not applied.''))"

section \<open>Decisions about a history resolution\<close>

datatype strategy = KeepRemote | ReplaceRemote | Merge

definition strategy_of :: "jv \<Rightarrow> strategy option" where
  "strategy_of v =
     (if v = Str ''keep_remote'' then Some KeepRemote
      else if v = Str ''replace_remote'' then Some ReplaceRemote
      else if v = Str ''merge'' then Some Merge else None)"

record confirmation =
  c_title :: string
  c_message :: string
  c_confirm_label :: string

definition confirmation_for :: "jv \<Rightarrow> confirmation res" where
  "confirmation_for s = (case strategy_of s of
     Some ReplaceRemote \<Rightarrow> Inr \<lparr>c_title = ''Confirm Keep Local'',
       c_message = ''Account timer, history, tasks, settings, and queued changes will be replaced by this device's data.'',
       c_confirm_label = ''Keep Local''\<rparr>
   | Some KeepRemote \<Rightarrow> Inr \<lparr>c_title = ''Confirm Keep Remote'',
       c_message = ''This device's timer, history, tasks, settings, and queued changes will be replaced by account data.'',
       c_confirm_label = ''Keep Remote''\<rparr>
   | Some Merge \<Rightarrow> Inr \<lparr>c_title = ''Confirm Keep Both'',
       c_message = ''Queued local changes will be merged into account data. Conflicts or rejected changes are possible.'',
       c_confirm_label = ''Keep Both''\<rparr>
   | None \<Rightarrow> Inl (Error ''Unknown bootstrap strategy''))"

definition is_resolution_strategy :: "jv \<Rightarrow> bool" where
  "is_resolution_strategy s \<longleftrightarrow> strategy_of s \<noteq> None"

definition can_submit_resolution :: "jv \<Rightarrow> jv \<Rightarrow> bool" where
  "can_submit_resolution mode confirmed \<longleftrightarrow>
     mode = Str ''auto'' \<or> mode = Str ''choose'' \<and> confirmed = Bool True"

definition requires_bootstrap_resolution :: "obj \<Rightarrow> bool" where
  "requires_bootstrap_resolution input \<longleftrightarrow>
     fld input ''blocked'' = Bool True
   \<or> fld input ''persistedGate'' = Bool True
   \<or> truthy (fld input ''pending'')
   \<or> truthy (fld input ''currentUserId'')
     \<and> \<not> strict_eq (fld input ''localOwnerId'') (fld input ''currentUserId'')"

definition can_expose_owner_state :: "obj \<Rightarrow> bool" where
  "can_expose_owner_state input \<longleftrightarrow>
     fld input ''sessionValidated'' = Bool True
   \<and> truthy (fld input ''localOwnerId'')
   \<and> strict_eq (fld input ''localOwnerId'') (fld input ''currentUserId'')"

definition can_use_cached_owner_offline :: "obj \<Rightarrow> bool" where
  "can_use_cached_owner_offline input \<longleftrightarrow>
     fld input ''sessionValidated'' \<noteq> Bool True
   \<and> truthy (fld input ''cachedUserId'')
   \<and> strict_eq (fld input ''cachedUserId'') (fld input ''localOwnerId'')
   \<and> fld input ''gateOwned'' = Bool True
   \<and> \<not> truthy (fld input ''pending'')"

definition pending_matches_user :: "jv \<Rightarrow> jv \<Rightarrow> bool" where
  "pending_matches_user pending user \<longleftrightarrow>
     truthy pending \<and> truthy user \<and> strict_eq (getp pending ''userId'') user"

definition pending_resolution_can_submit :: "jv \<Rightarrow> jv \<Rightarrow> bool" where
  "pending_resolution_can_submit pending user \<longleftrightarrow>
     pending_matches_user pending user
   \<and> is_resolution_strategy (getp (getp pending ''payload'') ''strategy'')"

record dialog_view =
  dv_open :: bool
  dv_choosing :: bool
  dv_confirming :: bool
  dv_failed :: bool
  dv_busy :: bool

definition bootstrap_dialog_view :: "obj \<Rightarrow> dialog_view" where
  "bootstrap_dialog_view input =
     (let chooser = fld input ''planMode'' = Str ''choose'';
          failed = truthy (fld input ''error'');
          choosing = chooser \<and> \<not> truthy (fld input ''strategy'') \<and> \<not> truthy (fld input ''pending'') \<and> \<not> failed;
          confirming = chooser \<and> truthy (fld input ''strategy'') \<and> \<not> failed
      in \<lparr>dv_open = fld input ''blocked'' = Bool True \<and> fld input ''authenticated'' = Bool True
            \<and> (choosing \<or> confirming \<or> failed),
          dv_choosing = choosing, dv_confirming = confirming, dv_failed = failed,
          dv_busy = fld input ''submitting'' = Bool True\<rparr>)"

section \<open>Wire encoders\<close>

definition duration_request_operation :: "obj \<Rightarrow> obj" where
  "duration_request_operation operation =
     (let occurred = (if to_number (fld operation ''hlcWallMs'') = JInt 0
           \<and> to_number (fld operation ''hlcCounter'') = JInt 0
         then Str LEGACY_EPOCH else fld operation ''occurredAt'')
      in [(''id'', fld operation ''id''), (''phase'', fld operation ''phase''),
          (''durationMs'', fld operation ''durationMs''), (''occurredAt'', occurred),
          (''hlcWallMs'', fld operation ''hlcWallMs''), (''hlcCounter'', fld operation ''hlcCounter'')])"

definition task_request_operation :: "obj \<Rightarrow> obj" where
  "task_request_operation operation =
     [(''id'', fld operation ''id''), (''taskId'', fld operation ''taskId''),
      (''type'', fld operation ''type''), (''occurredAt'', fld operation ''occurredAt''),
      (''hlcWallMs'', fld operation ''hlcWallMs''), (''hlcCounter'', fld operation ''hlcCounter'')]
     @ (if fld operation ''type'' = Str ''upsert'' then [(''title'', fld operation ''title'')] else [])"

definition timer_request_command :: "obj \<Rightarrow> obj" where
  "timer_request_command command =
     (let result = map (\<lambda>k. (k, fld command k)) [''id'', ''deviceSequence'', ''timerId'', ''type'',
            ''phase'', ''plannedDurationMs'', ''occurredAt'', ''hlcWallMs'', ''hlcCounter'',
            ''observedElapsedMs'']
      in if fld command ''type'' = Str ''retarget'' then result @ [(''taskId'', fld command ''taskId'')]
         else if truthy (fld command ''taskId'') then result @ [(''taskId'', fld command ''taskId'')]
         else result)"

definition auto_start_request_operation :: "obj \<Rightarrow> obj" where
  "auto_start_request_operation operation =
     map (\<lambda>k. (k, fld operation k)) [''id'', ''enabled'', ''occurredAt'', ''hlcWallMs'', ''hlcCounter'']"

definition selected_task_request_operation :: "obj \<Rightarrow> obj" where
  "selected_task_request_operation operation =
     [(''id'', fld operation ''id''), (''taskId'', coalesce (fld operation ''taskId'') Null),
      (''occurredAt'', fld operation ''occurredAt''), (''hlcWallMs'', fld operation ''hlcWallMs''),
      (''hlcCounter'', fld operation ''hlcCounter'')]"

fun request_operation :: "domain \<Rightarrow> obj \<Rightarrow> obj" where
  "request_operation Commands = timer_request_command"
| "request_operation TaskOperations = task_request_operation"
| "request_operation DurationOperations = duration_request_operation"
| "request_operation AutoStartOperations = auto_start_request_operation"
| "request_operation SelectedTaskOperations = selected_task_request_operation"

definition valid_retarget_task_id :: "jv \<Rightarrow> bool" where
  "valid_retarget_task_id v \<longleftrightarrow> v = Null \<or> nonempty_string v"

definition retarget_request_fields :: "jv \<Rightarrow> obj res" where
  "retarget_request_fields v = (if \<not> valid_retarget_task_id v
     then Inl (Error ''Retarget requires an explicit taskId or null.'')
     else Inr [(''taskId'', v)])"

lemma fld_request_operation_id [simp]: "fld (request_operation d ob) ''id'' = fld ob ''id''"
  by (cases d) (simp_all add: timer_request_command_def task_request_operation_def
      duration_request_operation_def auto_start_request_operation_def
      selected_task_request_operation_def Let_def fld_def)

section \<open>The order of timer commands\<close>

definition clock_component :: "jv \<Rightarrow> int" where
  "clock_component v = (case v of Num (JInt i) \<Rightarrow> if safe_int i \<and> 0 \<le> i then i else -1 | _ \<Rightarrow> -1)"

text \<open>\<open>String(v || "")\<close>; device and operation identifiers are strings.\<close>

definition id_text :: "jv \<Rightarrow> string" where
  "id_text v = (case v of Str s \<Rightarrow> s | _ \<Rightarrow> [])"

definition compare_strings :: "jv \<Rightarrow> jv \<Rightarrow> int" where
  "compare_strings l r = (if id_text l < id_text r then -1 else if id_text r < id_text l then 1 else 0)"

text \<open>\<open>a || b\<close> on numbers\<close>

definition or_number :: "int \<Rightarrow> int \<Rightarrow> int" where
  "or_number a b = (if a \<noteq> 0 then a else b)"

definition compare_timer_commands :: "obj \<Rightarrow> obj \<Rightarrow> int" where
  "compare_timer_commands l r =
     or_number (clock_component (fld l ''hlcWallMs'') - clock_component (fld r ''hlcWallMs''))
    (or_number (clock_component (fld l ''hlcCounter'') - clock_component (fld r ''hlcCounter''))
    (or_number (compare_strings (fld l ''deviceId'') (fld r ''deviceId''))
      (compare_strings (fld l ''id'') (fld r ''id''))))"

end
