(* ===== verification/WorkspaceCore.thy ===== *)
theory WorkspaceCore
  imports SyncCore
begin

text \<open>
  \<open>web/workspace-core.js\<close>: the requests the client sends to the shared workspace Core,
  built from the records it keeps, and the readers of the Core's answers. The Core is a
  WebAssembly module outside the repository: every definition that calls it takes it as a
  parameter. So does what depends on the host's time zone.
\<close>

section \<open>The parameters\<close>

text \<open>The Core: an operation name and an input to a result.\<close>

type_synonym core_call = "string \<Rightarrow> jv \<Rightarrow> jv res"

text \<open>
  The host's time zone: the local day of an instant, from midnight to the next midnight
  (\<open>new Date(y, m, d)\<close> and \<open>new Date(y, m, d + 1)\<close>), in milliseconds.
\<close>

type_synonym local_day = "int \<Rightarrow> int \<times> int"

text \<open>The records a transaction has read: metadata values and the retained queues.\<close>

record records =
  r_field :: "string \<Rightarrow> jv"
  r_queue :: "domain \<Rightarrow> obj list"

definition objs :: "obj list \<Rightarrow> jv" where
  "objs items = Arr (map Obj items)"

section \<open>Comparing records\<close>

fun canonical_json :: "jv \<Rightarrow> jv" where
  "canonical_json (Arr vs) = Arr (map canonical_json vs)"
| "canonical_json (Obj kvs) = Obj (map (\<lambda>k. (k, case map_of (map (\<lambda>(k, v). (k, canonical_json v)) kvs) k of
     None \<Rightarrow> Undef | Some v \<Rightarrow> v)) (sort (map fst kvs)))"
| "canonical_json v = v"

definition records_equal :: "jv \<Rightarrow> jv \<Rightarrow> bool" where
  "records_equal l r = same_json (canonical_json l) (canonical_json r)"

section \<open>Times\<close>

text \<open>
  The time value of \<open>new Date(v)\<close>: numbers within the range of dates, RFC 3339 strings,
  and what converts to a number; otherwise an invalid date.
\<close>

definition date_value :: "jv \<Rightarrow> int option" where
  "date_value v = (case v of
     Undef \<Rightarrow> None
   | Null \<Rightarrow> Some 0
   | Bool b \<Rightarrow> Some (if b then 1 else 0)
   | Num (JInt i) \<Rightarrow> if \<bar>i\<bar> \<le> 8640000000000000 then Some i else None
   | Num (JFrac q) \<Rightarrow> if \<bar>q\<bar> \<le> 8640000000000000 then Some (if 0 \<le> q then \<lfloor>q\<rfloor> else \<lceil>q\<rceil>) else None
   | Str s \<Rightarrow> date_time_ms (Str s)
   | _ \<Rightarrow> None)"

definition iso :: "int \<Rightarrow> jv res" where
  "iso ms = bindr (to_iso_string ms) (\<lambda>s. Inr (Str s))"

text \<open>\<open>new Date(v).toISOString()\<close>\<close>

definition iso_of :: "jv \<Rightarrow> jv res" where
  "iso_of v = (case date_value v of
     None \<Rightarrow> Inl (RangeError ''Invalid time value'') | Some ms \<Rightarrow> iso ms)"

text \<open>The map from a day's start to its interval, in order of first insertion.\<close>

fun calendar_interval_map :: "local_day \<Rightarrow> obj \<Rightarrow> jv list \<Rightarrow> obj res" where
  "calendar_interval_map day acc [] = Inr acc"
| "calendar_interval_map day acc (v # vs) = (case date_value v of
     None \<Rightarrow> Inl (Error ''Invalid calendar observation.'')
   | Some ms \<Rightarrow>
       bindr (to_iso_string (fst (day ms))) (\<lambda>s.
       bindr (to_iso_string (snd (day ms))) (\<lambda>e.
       calendar_interval_map day (obj_put s (Obj [(''start'', Str s), (''end'', Str e)]) acc) vs)))"

definition calendar_intervals :: "local_day \<Rightarrow> jv list \<Rightarrow> jv res" where
  "calendar_intervals day values = bindr (calendar_interval_map day [] values) (\<lambda>m. Inr (Arr (map snd m)))"

section \<open>Workspaces\<close>

definition DEFAULT_DURATIONS :: jv where
  "DEFAULT_DURATIONS = Obj [(''focus'', jint 1500000), (''short_break'', jint 300000), (''long_break'', jint 900000)]"

text \<open>\<open>base(snapshot)\<close>; \<open>canonicalTimer?.id\<close> reads the idle placeholder as no timer.\<close>

definition workspace_base :: "jv \<Rightarrow> jv" where
  "workspace_base snapshot =
     (if \<not> truthy snapshot then Obj [(''canonicalTimer'', Null), (''history'', Arr []), (''tasks'', Arr []),
        (''durationsMs'', DEFAULT_DURATIONS), (''autoStartBreaks'', Bool False), (''selectedTaskId'', Null)]
      else Obj [(''canonicalTimer'', if truthy (getp (getp snapshot ''canonicalTimer'') ''id'')
          then getp snapshot ''canonicalTimer'' else Null),
        (''history'', getp snapshot ''history''), (''tasks'', getp snapshot ''tasks''),
        (''durationsMs'', getp snapshot ''durationsMs''),
        (''autoStartBreaks'', getp snapshot ''autoStartBreaks''),
        (''selectedTaskId'', getp snapshot ''selectedTaskId'')])"

text \<open>An operation with the device's identifier, if it has none of its own.\<close>

definition with_device :: "jv \<Rightarrow> obj \<Rightarrow> obj" where
  "with_device device item = (if ''deviceId'' \<in> set (map fst item) then item
     else obj_put ''deviceId'' device item)"

definition domain_field :: "string \<Rightarrow> bool" where
  "domain_field k \<longleftrightarrow> k \<in> set (map domain_name DOMAINS)"

definition projection_identity :: "jv \<Rightarrow> jv \<Rightarrow> jv" where
  "projection_identity context device = (case context of
     Obj kvs \<Rightarrow> Obj (map (\<lambda>(k, v). (k, case v of
         Arr items \<Rightarrow> if domain_field k then Arr (map (\<lambda>item. case item of
             Obj ob \<Rightarrow> Obj (with_device device ob) | _ \<Rightarrow> item) items) else v
       | _ \<Rightarrow> v)) kvs)
   | _ \<Rightarrow> coalesce context Null)"

definition workspace :: "records \<Rightarrow> jv \<Rightarrow> jv \<Rightarrow> jv" where
  "workspace rec device dependencies = Obj
     [(''base'', workspace_base (r_field rec ''snapshot'')),
      (''local'', queues_value (\<lambda>d. objs (map (with_device device) (r_queue rec d)))),
      (''canonicalHead'', coalesce (r_field rec ''canonicalHead'') Null),
      (''neverSent'', coalesce (r_field rec ''deliveryProof'') (Obj [])),
      (''timerDependencies'', coalesce (r_field rec ''timerDependencies'') dependencies),
      (''displayContext'', Obj [(''profile'', Str ''pwaStorage''),
        (''projectionPending'', projection_identity (r_field rec ''projectionPending'') device)])]"

definition initial_lifecycle :: jv where
  "initial_lifecycle = Obj [(''consumedCompletions'', Arr []), (''pendingBreaks'', Arr []), (''finishEvidence'', Arr [])]"

definition completion_context :: "records \<Rightarrow> obj" where
  "completion_context rec = (let stored = r_field rec ''completionState'' in
     if nullish stored then
       [(''selection'', Obj [(''phase'', coalesce (coalesce (getp (r_field rec ''settings'') ''selectedPhase'')
            (r_field rec ''selectedPhase'')) (Str ''focus'')),
          (''generation'', Str ''0''), (''explicit'', Bool False)]),
        (''lifecycle'', initial_lifecycle)]
     else [(''selection'', getp stored ''selection''),
        (''lifecycle'', if has_own stored ''lifecycle'' then getp stored ''lifecycle'' else initial_lifecycle)])"

text \<open>
  \<open>persistedProjection\<close>: the display context the Core returned, with the device
  identifier taken off the operations that are stored without one.
\<close>

definition last_with_id :: "jv \<Rightarrow> jv list \<Rightarrow> jv option" where
  "last_with_id i items = find (\<lambda>item. getp item ''id'' = i) (rev items)"

definition persisted_item :: "jv list \<Rightarrow> jv \<Rightarrow> jv res" where
  "persisted_item retained item = bindr (dot item ''id'') (\<lambda>i. case last_with_id i retained of
     None \<Rightarrow> Inl (Error ''Core display context references an unknown retained identity.'')
   | Some original \<Rightarrow> if has_own original ''deviceId'' then Inr item
       else Inr (Obj (obj_del ''deviceId'' (as_obj item))))"

fun domain_of :: "string \<Rightarrow> domain option" where
  "domain_of k = find (\<lambda>d. domain_name d = k) DOMAINS"

definition persisted_projection :: "jv \<Rightarrow> (domain \<Rightarrow> jv list) \<Rightarrow> jv res" where
  "persisted_projection context retained = (case context of
     Obj kvs \<Rightarrow> bindr (mapr (\<lambda>(k, v). case (domain_of k, v) of
         (Some d, Arr items) \<Rightarrow> bindr (mapr (persisted_item (retained d)) items) (\<lambda>is. Inr (k, Arr is))
       | _ \<Rightarrow> Inr (k, v)) kvs) (\<lambda>kvs'. Inr (Obj kvs'))
   | Undef \<Rightarrow> Inr Undef
   | Null \<Rightarrow> Inr Null
   | _ \<Rightarrow> Inr (Obj []))"

definition raw_workspace :: "records \<Rightarrow> int \<Rightarrow> jv res" where
  "raw_workspace rec now = bindr (iso now) (\<lambda>stamp. Inr (Obj
     [(''base'', workspace_base (r_field rec ''snapshot'')),
      (''local'', queues_value (\<lambda>d. objs (r_queue rec d))),
      (''canonicalHead'', coalesce (r_field rec ''canonicalHead'') Null),
      (''neverSent'', coalesce (r_field rec ''deliveryProof'') (Obj [])),
      (''timerDependencies'', coalesce (r_field rec ''timerDependencies'') Null),
      (''displayContext'', Obj [(''profile'', Str ''pwaStorage''),
        (''projectionPending'', coalesce (r_field rec ''projectionPending'') Null)]),
      (''now'', stamp)]))"

section \<open>Requests\<close>

definition sent_commands :: "records \<Rightarrow> jv" where
  "sent_commands rec = or_else
     (or_else (getp (getp (r_field rec ''outgoingSync'') ''sent'') ''commands'')
       (getp (getp (r_field rec ''outgoing'') ''sent'') ''commands'')) (Arr [])"

text \<open>The times whose local days the Core may need: now, the queue, the history, the claim.\<close>

definition dependency_observations :: "records \<Rightarrow> int \<Rightarrow> jv list res" where
  "dependency_observations rec now =
     bindr (list_or_empty (getp (r_field rec ''snapshot'') ''history'')) (\<lambda>history.
     bindr (mapr (\<lambda>row. bindr (dot row ''completedAt'') (\<lambda>c. Inr (or_else c (getp row ''endedAt'')))) history) (\<lambda>hs.
     bindr (list_or_empty (sent_commands rec)) (\<lambda>sent.
     bindr (mapr (\<lambda>c. dot c ''occurredAt'') sent) (\<lambda>ss.
     Inr (jint now # map (\<lambda>c. or_else (fld c ''physicalOccurredAt'') (fld c ''occurredAt'')) (r_queue rec Commands)
       @ hs @ ss)))))"

definition dependency_request :: "local_day \<Rightarrow> records \<Rightarrow> jv \<Rightarrow> jv \<Rightarrow> jv \<Rightarrow> int \<Rightarrow> jv res" where
  "dependency_request day rec device expected_owner owner now =
     bindr (raw_workspace rec now) (\<lambda>raw.
     bindr (dependency_observations rec now) (\<lambda>observations.
     bindr (calendar_intervals day observations) (\<lambda>intervals. Inr (Obj
       [(''profile'', Str ''pwaStorage''), (''workspace'', raw),
        (''ownership'', Obj [(''ownerId'', owner), (''expectedOwnerId'', expected_owner),
          (''timerOwner'', coalesce (r_field rec ''timerOwner'') Null)]),
        (''deviceId'', device),
        (''outgoing'', coalesce (coalesce (r_field rec ''outgoingSync'') (r_field rec ''outgoing'')) Null),
        (''calendarIntervals'', intervals),
        (''sourceAcknowledgements'', coalesce (r_field rec ''sourceAcknowledgements'') (Arr []))]))))"

definition preference_request :: "records \<Rightarrow> jv \<Rightarrow> jv \<Rightarrow> jv \<Rightarrow> int \<Rightarrow> jv \<Rightarrow> jv res" where
  "preference_request rec device expected_owner owner now uuids =
     bindr (raw_workspace rec now) (\<lambda>raw. Inr (Obj
       [(''profile'', Str ''pwaStorage''), (''settings'', or_else (r_field rec ''settings'') (Obj [])),
        (''workspace'', raw),
        (''ownership'', Obj [(''ownerId'', owner), (''expectedOwnerId'', expected_owner)]),
        (''deviceId'', device), (''identities'', Obj [(''operationUuids'', uuids)]),
        (''outgoing'', coalesce (coalesce (r_field rec ''outgoingSync'') (r_field rec ''outgoing'')) Null)]))"

definition clock_current :: "core_call \<Rightarrow> jv \<Rightarrow> jv \<Rightarrow> jv res" where
  "clock_current core state reading = core ''clock.observe.v1'' (Obj
     [(''schemaVersion'', jint 1), (''compatibility'', Str ''pwaTrustedClock''), (''action'', Str ''current''),
      (''state'', state), (''reading'', reading)])"

text \<open>\<open>Date.parse(serverTime)\<close>: NaN for what it cannot read.\<close>

definition date_parse :: "jv \<Rightarrow> jv" where
  "date_parse v = (case date_time_ms v of None \<Rightarrow> Num JNaN | Some ms \<Rightarrow> jint ms)"

definition clock_sample :: "core_call \<Rightarrow> jv \<Rightarrow> jv \<Rightarrow> obj \<Rightarrow> jv res" where
  "clock_sample core offset server_time timing =
     bindr (core ''clock.observe.v1'' (Obj
       [(''schemaVersion'', jint 1), (''compatibility'', Str ''pwaTrustedClock''), (''action'', Str ''sample''),
        (''state'', Obj [(''clockOffset'', offset)]),
        (''server'', Obj [(''serverTimeMs'', date_parse server_time), (''requestWallMs'', fld timing ''requestAtMs''),
          (''responseWallMs'', fld timing ''receivedAtMs''), (''requestSequence'', fld timing ''requestSequence'')])])) (\<lambda>v.
     bindr (dot v ''state'') (\<lambda>s. dot s ''clockOffset''))"

definition batch_limits :: "jv \<Rightarrow> jv" where
  "batch_limits mode = (if mode = Str ''sync''
     then Obj [(''perDomain'', jint 256), (''total'', jint 512)]
     else Obj [(''perDomain'', jint 4096), (''total'', jint 8192)])"

definition batch_item :: "domain \<Rightarrow> jv \<Rightarrow> obj \<Rightarrow> obj" where
  "batch_item d device item =
     [(''id'', fld item ''id''), (''deviceId'', or_else (fld item ''deviceId'') device),
      (''hlcWallMs'', fld item ''hlcWallMs''), (''hlcCounter'', fld item ''hlcCounter'')]
     @ (if d = Commands then [(''deviceSequence'', fld item ''deviceSequence'')] else [])"

text \<open>\<open>dependencies.map(({ operationId, dependsOnOperationId }) => ...)\<close>\<close>

definition dependency_pairs :: "jv \<Rightarrow> jv res" where
  "dependency_pairs dependencies = (case dependencies of
     Arr ds \<Rightarrow> bindr (mapr (\<lambda>d. bindr (dot d ''operationId'') (\<lambda>i.
         Inr (Obj [(''operationId'', i), (''dependsOnOperationId'', getp d ''dependsOnOperationId'')]))) ds)
       (\<lambda>ds'. Inr (Arr ds'))
   | _ \<Rightarrow> Inl (TypeError ''dependencies.map is not a function''))"

definition batch_request :: "(domain \<Rightarrow> obj list) \<Rightarrow> jv \<Rightarrow> jv \<Rightarrow> jv \<Rightarrow> jv \<Rightarrow> jv \<Rightarrow> jv res" where
  "batch_request queues device dependencies cursor mode limits =
     bindr (dependency_pairs dependencies) (\<lambda>pairs. Inr (Obj
       [(''kind'', Str ''new''), (''mode'', mode),
        (''limits'', or_else limits (batch_limits mode)),
        (''nextDomain'', coalesce cursor (Str ''commands'')),
        (''queues'', queues_value (\<lambda>d. objs (map (batch_item d device) (queues d)))),
        (''timerDependencies'', pairs)]))"

definition saved_batch_request :: "jv \<Rightarrow> jv \<Rightarrow> jv res" where
  "saved_batch_request sent mode =
     bindr (domains_result (\<lambda>d. bindr (dot sent (domain_name d)) ids_of)) (\<lambda>ids. Inr (Obj
       [(''kind'', Str ''saved''), (''mode'', mode), (''limits'', batch_limits mode),
        (''queues'', queues_value (\<lambda>d. Arr (ids d)))]))"

text \<open>\<open>selectedRecords\<close>: the retained operations a plan selected, by identifier.\<close>

definition find_record :: "obj list \<Rightarrow> jv \<Rightarrow> obj res" where
  "find_record items i = (case find (\<lambda>item. fld item ''id'' = i) (rev items) of
     None \<Rightarrow> Inl (Error ''Core selected an unknown retained operation.'')
   | Some item \<Rightarrow> Inr item)"

definition selected_records :: "jv \<Rightarrow> (domain \<Rightarrow> obj list) \<Rightarrow> (domain \<Rightarrow> obj list) res" where
  "selected_records plan queues =
     bindr (dot plan ''selected'') (\<lambda>selected.
     domains_result (\<lambda>d. bindr (dot selected (domain_name d)) (\<lambda>ids. case ids of
         Arr is \<Rightarrow> mapr (find_record (queues d)) is
       | _ \<Rightarrow> Inl (TypeError ''map is not a function''))))"

definition read_request :: "local_day \<Rightarrow> jv \<Rightarrow> jv \<Rightarrow> int \<Rightarrow> jv \<Rightarrow> obj \<Rightarrow> jv res" where
  "read_request day raw phase now monotonic context =
     bindr (iso now) (\<lambda>stamp.
     bindr (calendar_intervals day [jint now]) (\<lambda>intervals. Inr (Obj (spread
       [(''profile'', Str ''pwaStorage''), (''source'', Obj [(''kind'', Str ''workspace''), (''value'', raw)]),
        (''selectedPhase'', phase), (''observedAt'', stamp), (''calendarIntervals'', intervals),
        (''monotonic'', monotonic)] context))))"

definition bootstrap_request :: "records \<Rightarrow> jv \<Rightarrow> jv \<Rightarrow> jv \<Rightarrow> int \<Rightarrow> jv \<Rightarrow> jv res" where
  "bootstrap_request rec device dependencies current_user now defaults =
     bindr (iso now) (\<lambda>stamp.
     let full = workspace rec device dependencies;
         raw = obj_del ''displayContext'' (as_obj full);
         base = fld raw ''base'' in
     Inr (Obj
       [(''profile'', Str ''pwaStorage''), (''currentUserId'', current_user),
        (''local'', Obj
          [(''ownerId'', coalesce (r_field rec ''ownerId'') Null),
           (''workspace'', Obj (obj_put ''now'' stamp raw)),
           (''preferences'', Obj [(''durationsMs'', getp base ''durationsMs''),
             (''autoStartBreaks'', getp base ''autoStartBreaks''),
             (''selectedTaskId'', getp base ''selectedTaskId''), (''defaultDurationsMs'', defaults)]),
           (''knownTasks'', or_else (r_field rec ''knownTasks'') (Arr [])),
           (''projectionPending'', getp (getp full ''displayContext'') ''projectionPending'')]),
        (''remote'', r_field rec ''remote'')]))"

end
