(* ===== verification/IndexedDb.thy ===== *)
theory IndexedDb
  imports WorkspaceCore
begin

text \<open>
  The part of IndexedDB that \<open>web/sync-storage.js\<close> and \<open>web/workspace-transaction.js\<close>
  use: object stores, the database with its metadata store and its five queues, and
  transactions. An object store is a list of pairs in ascending order of their keys, the order
  \<open>getAll\<close> returns. Keys are strings: every identifier the client stores is one, and a
  record without such a key is refused with a \<open>DataError\<close>. A transaction applies all of its
  writes or none: the callback that throws aborts it, and so does a failed \<open>add\<close>.
\<close>

section \<open>The interface of an object store\<close>

definition put_all :: "('k \<Rightarrow> 'v \<Rightarrow> 's \<Rightarrow> 's) \<Rightarrow> ('k \<times> 'v) list \<Rightarrow> 's \<Rightarrow> 's" where
  "put_all put items s = foldl (\<lambda>s p. put (fst p) (snd p) s) s items"

definition del_all :: "('k \<Rightarrow> 's \<Rightarrow> 's) \<Rightarrow> 'k list \<Rightarrow> 's \<Rightarrow> 's" where
  "del_all del keys s = foldl (\<lambda>s k. del k s) s keys"

lemma put_all_simps [simp]:
  "put_all put [] s = s" "put_all put (p # ps) s = put_all put ps (put (fst p) (snd p) s)"
  by (simp_all add: put_all_def)

lemma del_all_simps [simp]:
  "del_all del [] s = s" "del_all del (k # ks) s = del_all del ks (del k s)"
  by (simp_all add: del_all_def)

locale object_store =
  fixes empty :: 's
    and get :: "'k \<Rightarrow> 's \<Rightarrow> 'v option"
    and put :: "'k \<Rightarrow> 'v \<Rightarrow> 's \<Rightarrow> 's"
    and del :: "'k \<Rightarrow> 's \<Rightarrow> 's"
    and inv :: "'s \<Rightarrow> bool"
  assumes inv_empty: "inv empty"
    and inv_put: "inv s \<Longrightarrow> inv (put k v s)"
    and inv_del: "inv s \<Longrightarrow> inv (del k s)"
    and get_empty: "get k empty = None"
    and get_put: "inv s \<Longrightarrow> get k' (put k v s) = (if k' = k then Some v else get k' s)"
    and get_del: "inv s \<Longrightarrow> get k' (del k s) = (if k' = k then None else get k' s)"
begin

lemma inv_put_all: "inv s \<Longrightarrow> inv (put_all put items s)"
  by (induction items arbitrary: s) (auto simp: inv_put)

lemma inv_del_all: "inv s \<Longrightarrow> inv (del_all del ks s)"
  by (induction ks arbitrary: s) (auto simp: inv_del)

lemma get_put_all:
  "inv s \<Longrightarrow> get k (put_all put items s) = (case map_of (rev items) k of None \<Rightarrow> get k s | Some v \<Rightarrow> Some v)"
proof (induction items arbitrary: s)
  case (Cons p items)
  then show ?case
    by (auto simp: inv_put get_put map_add_def split: option.splits)
qed simp

lemma get_del_all: "inv s \<Longrightarrow> get k (del_all del ks s) = (if k \<in> set ks then None else get k s)"
  by (induction ks arbitrary: s) (auto simp: inv_del get_del)

text \<open>Deleting the captured keys and putting the retained items: what is found afterwards.\<close>

lemma get_replace:
  "inv s \<Longrightarrow> get k (put_all put items (del_all del ks s))
     = (case map_of (rev items) k of Some v \<Rightarrow> Some v
        | None \<Rightarrow> if k \<in> set ks then None else get k s)"
  by (auto simp: get_put_all get_del_all inv_del_all split: option.splits)

lemma get_rebuilt:
  "get k (put_all put items empty) = map_of (rev items) k"
  by (simp add: get_put_all inv_empty get_empty split: option.split)

end

section \<open>Object stores\<close>

type_synonym 'v store = "(string \<times> 'v) list"

fun st_put :: "string \<Rightarrow> 'v \<Rightarrow> 'v store \<Rightarrow> 'v store" where
  "st_put k v [] = [(k, v)]"
| "st_put k v ((k', v') # s) =
     (if k < k' then (k, v) # (k', v') # s
      else if k = k' then (k, v) # s
      else (k', v') # st_put k v s)"

definition st_get :: "string \<Rightarrow> 'v store \<Rightarrow> 'v option" where
  "st_get k s = map_of s k"

definition st_delete :: "string \<Rightarrow> 'v store \<Rightarrow> 'v store" where
  "st_delete k s = filter (\<lambda>p. fst p \<noteq> k) s"

definition st_all :: "'v store \<Rightarrow> 'v list" where
  "st_all s = map snd s"

definition st_ok :: "'v store \<Rightarrow> bool" where
  "st_ok s \<longleftrightarrow> sorted_wrt (<) (map fst s)"

lemma st_ok_Nil [simp]: "st_ok []"
  by (simp add: st_ok_def)

lemma st_get_Nil [simp]: "st_get k [] = None"
  by (simp add: st_get_def)

lemma keys_st_put: "fst ` set (st_put k v s) = insert k (fst ` set s)"
  by (induction k v s rule: st_put.induct) (simp_all add: insert_commute)

lemma st_ok_put: "st_ok s \<Longrightarrow> st_ok (st_put k v s)"
proof (induction s)
  case (Cons p s)
  obtain k' v' where p: "p = (k', v')" by force
  have rest: "st_ok s" "\<forall>x \<in> set (map fst s). k' < x"
    using Cons.prems by (auto simp: st_ok_def p)
  show ?case
  proof (cases "k \<le> k'")
    case True
    then show ?thesis using rest by (auto simp: st_ok_def p)
  next
    case False
    have "\<forall>x \<in> set (map fst (st_put k v s)). k' < x"
      using rest False by (auto simp: keys_st_put simp flip: image_set)
    then show ?thesis using Cons.IH[OF rest(1)] False by (auto simp: st_ok_def p)
  qed
qed (simp add: st_ok_def)

lemma st_ok_delete: "st_ok s \<Longrightarrow> st_ok (st_delete k s)"
  by (induction s) (auto simp: st_ok_def st_delete_def)

lemma st_get_put [simp]: "st_get k' (st_put k v s) = (if k' = k then Some v else st_get k' s)" if "st_ok s"
  using that
proof (induction s)
  case (Cons p s)
  obtain a b where p: "p = (a, b)" by force
  have "st_ok s" using Cons.prems by (simp add: st_ok_def)
  with Cons.IH show ?case by (auto simp: st_get_def p)
qed (simp add: st_get_def)

lemma st_get_delete [simp]: "st_get k' (st_delete k s) = (if k' = k then None else st_get k' s)"
  by (induction s) (auto simp: st_get_def st_delete_def)

interpretation idb: object_store "[]" st_get st_put st_delete st_ok
  by unfold_locales (auto simp: st_ok_put st_ok_delete)

lemma st_get_in_all: "st_get k s = Some v \<Longrightarrow> v \<in> set (st_all s)"
  by (force simp: st_get_def st_all_def dest: map_of_SomeD)

lemma st_ok_distinct: "st_ok s \<Longrightarrow> distinct (map fst s)"
  unfolding st_ok_def by (induction s) auto

lemma st_all_get: "st_ok s \<Longrightarrow> v \<in> set (st_all s) \<Longrightarrow> \<exists>k. st_get k s = Some v"
  using st_ok_distinct [of s] by (auto simp: st_all_def st_get_def map_of_eq_Some_iff)

section \<open>The database\<close>

text \<open>
  \<open>meta\<close> holds records \<open>{ key, value }\<close>, represented by their values; the queue of a domain
  holds operations under their \<open>id\<close>.
\<close>

record database =
  d_meta :: "jv store"
  d_queue :: "domain \<Rightarrow> obj store"

definition empty_database :: database where
  "empty_database = \<lparr>d_meta = [], d_queue = \<lambda>_. []\<rparr>"

text \<open>\<open>store.get(key)\<close> then \<open>?.value\<close>\<close>

definition meta_value :: "database \<Rightarrow> string \<Rightarrow> jv" where
  "meta_value db k = (case st_get k (d_meta db) of None \<Rightarrow> Undef | Some v \<Rightarrow> v)"

text \<open>Whether \<open>store.get(key)\<close> finds a record.\<close>

definition meta_present :: "database \<Rightarrow> string \<Rightarrow> bool" where
  "meta_present db k \<longleftrightarrow> st_get k (d_meta db) \<noteq> None"

definition queue_items :: "database \<Rightarrow> domain \<Rightarrow> obj list" where
  "queue_items db d = st_all (d_queue db d)"

text \<open>Sorted stores, and every queued operation under its own identifier.\<close>

definition db_ok :: "database \<Rightarrow> bool" where
  "db_ok db \<longleftrightarrow> st_ok (d_meta db)
     \<and> (\<forall>d. st_ok (d_queue db d) \<and> (\<forall>k item. st_get k (d_queue db d) = Some item \<longrightarrow> fld item ''id'' = Str k))"

lemma db_ok_empty: "db_ok empty_database"
  by (simp add: db_ok_def empty_database_def)

section \<open>Transactions\<close>

record tx =
  t_db :: database
  t_error :: "js_error option"

definition meta_put :: "string \<Rightarrow> jv \<Rightarrow> tx \<Rightarrow> tx" where
  "meta_put k v t = t\<lparr>t_db := (t_db t)\<lparr>d_meta := st_put k v (d_meta (t_db t))\<rparr>\<rparr>"

definition meta_delete :: "string \<Rightarrow> tx \<Rightarrow> tx" where
  "meta_delete k t = t\<lparr>t_db := (t_db t)\<lparr>d_meta := st_delete k (d_meta (t_db t))\<rparr>\<rparr>"

definition set_queue :: "domain \<Rightarrow> obj store \<Rightarrow> tx \<Rightarrow> tx" where
  "set_queue d s t = t\<lparr>t_db := (t_db t)\<lparr>d_queue := (d_queue (t_db t))(d := s)\<rparr>\<rparr>"

definition queue_put :: "domain \<Rightarrow> obj \<Rightarrow> tx \<Rightarrow> tx res" where
  "queue_put d item t = (case fld item ''id'' of
     Str k \<Rightarrow> Inr (set_queue d (st_put k item (d_queue (t_db t) d)) t)
   | _ \<Rightarrow> Inl DataError)"

text \<open>\<open>add\<close>: a key that is there fails the request, which aborts the transaction.\<close>

definition queue_add :: "domain \<Rightarrow> obj \<Rightarrow> tx \<Rightarrow> tx res" where
  "queue_add d item t = (case fld item ''id'' of
     Str k \<Rightarrow> if st_get k (d_queue (t_db t) d) = None
       then Inr (set_queue d (st_put k item (d_queue (t_db t) d)) t)
       else Inr (t\<lparr>t_error := Some (case t_error t of None \<Rightarrow> ConstraintError | Some e \<Rightarrow> e)\<rparr>)
   | _ \<Rightarrow> Inl DataError)"

definition queue_delete :: "domain \<Rightarrow> jv \<Rightarrow> tx \<Rightarrow> tx res" where
  "queue_delete d i t = (case i of
     Str k \<Rightarrow> Inr (set_queue d (st_delete k (d_queue (t_db t) d)) t)
   | _ \<Rightarrow> Inl DataError)"

definition queue_clear :: "domain \<Rightarrow> tx \<Rightarrow> tx" where
  "queue_clear d t = set_queue d [] t"

text \<open>
  A transaction on a database: the callback's result and the writes it made, or its error
  and the database as it was (\<open>failure || transaction.error\<close>).
\<close>

definition run_transaction :: "database \<Rightarrow> (tx \<Rightarrow> ('a \<times> tx) res) \<Rightarrow> 'a res \<times> database" where
  "run_transaction db change = (case change \<lparr>t_db = db, t_error = None\<rparr> of
     Inl e \<Rightarrow> (Inl e, db)
   | Inr (a, t) \<Rightarrow> (case t_error t of Some e \<Rightarrow> (Inl e, db) | None \<Rightarrow> (Inr a, t_db t)))"

lemma run_transaction_aborted: "fst (run_transaction db change) = Inl e \<Longrightarrow> snd (run_transaction db change) = db"
  by (auto simp: run_transaction_def split: sum.splits prod.splits option.splits)

lemma run_transaction_committed:
  assumes "run_transaction db change = (Inr a, db')"
  obtains t where "change \<lparr>t_db = db, t_error = None\<rparr> = Inr (a, t)" "t_error t = None" "db' = t_db t"
  using assms by (auto simp: run_transaction_def split: sum.splits prod.splits option.splits)

lemma run_transaction_Inl:
  "change \<lparr>t_db = db, t_error = None\<rparr> = Inl e \<Longrightarrow> run_transaction db change = (Inl e, db)"
  by (simp add: run_transaction_def)

section \<open>What the writes do\<close>

named_theorems tx_simps

lemma set_queue_simps [tx_simps]:
  "d_meta (t_db (set_queue d s t)) = d_meta (t_db t)"
  "d_queue (t_db (set_queue d s t)) = (d_queue (t_db t))(d := s)"
  "t_error (set_queue d s t) = t_error t"
  by (simp_all add: set_queue_def)

lemma meta_write_simps [tx_simps]:
  "d_queue (t_db (meta_put k v t)) = d_queue (t_db t)"
  "d_queue (t_db (meta_delete k t)) = d_queue (t_db t)"
  "t_error (meta_put k v t) = t_error t"
  "t_error (meta_delete k t) = t_error t"
  "d_meta (t_db (meta_put k v t)) = st_put k v (d_meta (t_db t))"
  "d_meta (t_db (meta_delete k t)) = st_delete k (d_meta (t_db t))"
  by (simp_all add: meta_put_def meta_delete_def)

definition meta_ok :: "tx \<Rightarrow> bool" where
  "meta_ok t \<longleftrightarrow> st_ok (d_meta (t_db t))"

lemma meta_ok_writes [simp]:
  "meta_ok t \<Longrightarrow> meta_ok (meta_put k v t)" "meta_ok t \<Longrightarrow> meta_ok (meta_delete k t)"
  "meta_ok (set_queue d s t) = meta_ok t" "meta_ok (queue_clear d t) = meta_ok t"
  by (simp_all add: meta_ok_def tx_simps st_ok_put st_ok_delete queue_clear_def)

lemma meta_value_put [simp]:
  "meta_ok t \<Longrightarrow> meta_value (t_db (meta_put k v t)) k' = (if k' = k then v else meta_value (t_db t) k')"
  by (simp add: meta_value_def tx_simps meta_ok_def)

lemma meta_value_delete [simp]:
  "meta_value (t_db (meta_delete k t)) k' = (if k' = k then Undef else meta_value (t_db t) k')"
  by (simp add: meta_value_def tx_simps)

lemma meta_present_put [simp]:
  "meta_ok t \<Longrightarrow> meta_present (t_db (meta_put k v t)) k' = (k' = k \<or> meta_present (t_db t) k')"
  by (simp add: meta_present_def tx_simps meta_ok_def)

lemma meta_present_delete [simp]:
  "meta_present (t_db (meta_delete k t)) k' = (k' \<noteq> k \<and> meta_present (t_db t) k')"
  by (simp add: meta_present_def tx_simps)

lemma queue_items_meta [simp]:
  "queue_items (t_db (meta_put k v t)) = queue_items (t_db t)"
  "queue_items (t_db (meta_delete k t)) = queue_items (t_db t)"
  by (simp_all add: queue_items_def tx_simps fun_eq_iff)

lemma queue_write_meta:
  "queue_put d item t = Inr t' \<Longrightarrow> d_meta (t_db t') = d_meta (t_db t)"
  "queue_add d item t = Inr t' \<Longrightarrow> d_meta (t_db t') = d_meta (t_db t)"
  "queue_delete d i t = Inr t' \<Longrightarrow> d_meta (t_db t') = d_meta (t_db t)"
  by (auto simp: queue_put_def queue_add_def queue_delete_def tx_simps split: jv.splits if_splits)

lemma queue_write_error:
  "queue_put d item t = Inr t' \<Longrightarrow> t_error t' = t_error t"
  "queue_delete d i t = Inr t' \<Longrightarrow> t_error t' = t_error t"
  by (auto simp: queue_put_def queue_delete_def tx_simps split: jv.splits)

text \<open>\<open>for (const item of items) store.put(item)\<close>, and the same for \<open>add\<close> and \<open>delete\<close>\<close>

definition put_items :: "domain \<Rightarrow> obj list \<Rightarrow> tx \<Rightarrow> tx res" where
  "put_items d items t = foldr_res (\<lambda>t item. queue_put d item t) t items"

definition add_items :: "domain \<Rightarrow> obj list \<Rightarrow> tx \<Rightarrow> tx res" where
  "add_items d items t = foldr_res (\<lambda>t item. queue_add d item t) t items"

definition delete_items :: "domain \<Rightarrow> jv list \<Rightarrow> tx \<Rightarrow> tx res" where
  "delete_items d ids t = foldr_res (\<lambda>t i. queue_delete d i t) t ids"

definition id_of :: "obj \<Rightarrow> string" where
  "id_of item = (case fld item ''id'' of Str k \<Rightarrow> k | _ \<Rightarrow> [])"

definition keyed :: "obj list \<Rightarrow> (string \<times> obj) list" where
  "keyed items = map (\<lambda>item. (id_of item, item)) items"

definition str_of :: "jv \<Rightarrow> string" where
  "str_of v = (case v of Str k \<Rightarrow> k | _ \<Rightarrow> [])"

lemma set_queue_set_queue [simp]: "set_queue d s (set_queue d s' t) = set_queue d s t"
  by (simp add: set_queue_def)

lemma set_queue_same [simp]: "set_queue d (d_queue (t_db t) d) t = t"
  by (simp add: set_queue_def)

text \<open>The loops write one queue; the client lemmas of the interface say what it then holds.\<close>

lemma put_items_eq:
  "put_items d items t = Inr t' \<Longrightarrow>
     t' = set_queue d (put_all st_put (keyed items) (d_queue (t_db t) d)) t
     \<and> (\<forall>item \<in> set items. fld item ''id'' = Str (id_of item))"
proof (induction items arbitrary: t)
  case (Cons item items)
  from Cons.prems obtain k where k: "fld item ''id'' = Str k"
    and rest: "put_items d items (set_queue d (st_put k item (d_queue (t_db t) d)) t) = Inr t'"
    by (auto simp: put_items_def res_simps queue_put_def split: jv.splits)
  show ?case using Cons.IH[OF rest] k by (simp add: keyed_def id_of_def tx_simps)
qed (simp add: put_items_def keyed_def)

lemma delete_items_eq:
  "delete_items d ids t = Inr t' \<Longrightarrow>
     t' = set_queue d (del_all st_delete (map str_of ids) (d_queue (t_db t) d)) t
     \<and> ids = map Str (map str_of ids)"
proof (induction ids arbitrary: t)
  case (Cons i ids)
  from Cons.prems obtain k where k: "i = Str k"
    and rest: "delete_items d ids (set_queue d (st_delete k (d_queue (t_db t) d)) t) = Inr t'"
    by (auto simp: delete_items_def res_simps queue_delete_def split: jv.splits)
  show ?case using Cons.IH[OF rest] k by (simp add: str_of_def tx_simps o_def)
qed (simp add: delete_items_def)

lemma add_items_meta: "add_items d items t = Inr t' \<Longrightarrow> d_meta (t_db t') = d_meta (t_db t)"
  unfolding add_items_def
  by (induction items arbitrary: t) (auto simp: res_simps dest: queue_write_meta)

lemma map_of_keyed_id:
  "map_of (rev (keyed items)) k = Some v \<Longrightarrow> \<forall>item \<in> set items. fld item ''id'' = Str (id_of item)
     \<Longrightarrow> fld v ''id'' = Str k \<and> v \<in> set items"
  by (auto simp: keyed_def dest!: map_of_SomeD)

lemma set_queue_db_ok:
  "db_ok (t_db t) \<Longrightarrow> st_ok s \<Longrightarrow> (\<And>k item. st_get k s = Some item \<Longrightarrow> fld item ''id'' = Str k)
     \<Longrightarrow> db_ok (t_db (set_queue d s t))"
  by (simp add: db_ok_def tx_simps)

lemma put_items_db_ok:
  assumes p: "put_items d items t = Inr t'" and ok: "db_ok (t_db t)"
  shows "db_ok (t_db t')"
proof -
  let ?s = "put_all st_put (keyed items) (d_queue (t_db t) d)"
  have s: "st_ok (d_queue (t_db t) d)" using ok by (simp add: db_ok_def)
  have t': "t' = set_queue d ?s t" and ids: "\<forall>item \<in> set items. fld item ''id'' = Str (id_of item)"
    using put_items_eq[OF p] by blast+
  have "fld item ''id'' = Str k" if "st_get k ?s = Some item" for k item
  proof (cases "map_of (rev (keyed items)) k")
    case None
    then show ?thesis using that ok s by (simp add: idb.get_put_all db_ok_def)
  next
    case (Some v)
    then show ?thesis using that s map_of_keyed_id[OF Some ids] by (simp add: idb.get_put_all)
  qed
  then show ?thesis unfolding t' using ok s by (intro set_queue_db_ok idb.inv_put_all)
qed

lemma delete_items_db_ok:
  assumes p: "delete_items d ids t = Inr t'" and ok: "db_ok (t_db t)"
  shows "db_ok (t_db t')"
proof -
  let ?s = "del_all st_delete (map str_of ids) (d_queue (t_db t) d)"
  have s: "st_ok (d_queue (t_db t) d)" using ok by (simp add: db_ok_def)
  have t': "t' = set_queue d ?s t" using delete_items_eq[OF p] by blast
  have "fld item ''id'' = Str k" if "st_get k ?s = Some item" for k item
    using that ok s by (simp add: idb.get_del_all db_ok_def split: if_splits)
  then show ?thesis unfolding t' using ok s by (intro set_queue_db_ok idb.inv_del_all)
qed

lemma queue_add_db_ok: "queue_add d item t = Inr t' \<Longrightarrow> db_ok (t_db t) \<Longrightarrow> db_ok (t_db t')"
  by (auto simp: queue_add_def db_ok_def tx_simps st_ok_put split: jv.splits if_splits)

lemma add_items_db_ok: "add_items d items t = Inr t' \<Longrightarrow> db_ok (t_db t) \<Longrightarrow> db_ok (t_db t')"
  unfolding add_items_def
  by (rule foldr_res_invariant [where I = "\<lambda>t. db_ok (t_db t)"]) (auto intro: queue_add_db_ok)

lemma meta_write_db_ok [simp]:
  "db_ok (t_db t) \<Longrightarrow> db_ok (t_db (meta_put k v t))"
  "db_ok (t_db t) \<Longrightarrow> db_ok (t_db (meta_delete k t))"
  by (simp_all add: db_ok_def tx_simps st_ok_put st_ok_delete)

lemma queue_clear_db_ok [simp]: "db_ok (t_db t) \<Longrightarrow> db_ok (t_db (queue_clear d t))"
  by (simp add: db_ok_def queue_clear_def tx_simps)

lemma db_ok_meta_ok: "db_ok (t_db t) \<Longrightarrow> meta_ok t"
  by (simp add: db_ok_def meta_ok_def)

end
