(* ===== verification/SyncValidate.thy ===== *)
theory SyncValidate
  imports SyncCore
begin

text \<open>
  The validators of server responses in \<open>web/sync-core.js\<close>: acknowledgements matched
  one to one with the operations that were sent, the canonical timer, the history, the
  tasks, the durations, the clock sample and the whole canonical response. A
  validator is a result: \<open>Inr ()\<close> or the error it throws.
\<close>

section \<open>Sets of the protocol's constants\<close>

definition PHASES :: "string list" where
  "PHASES = [''focus'', ''short_break'', ''long_break'']"

definition TIMER_STATUSES :: "string list" where
  "TIMER_STATUSES = [''running'', ''paused'', ''completed'', ''cancelled'', ''superseded'']"

definition HISTORY_STATUSES :: "string list" where
  "HISTORY_STATUSES = [''completed'', ''cancelled'', ''superseded'']"

definition ACK_OUTCOMES :: "string list" where
  "ACK_OUTCOMES = [''applied'', ''ignored'', ''rejected'']"

definition MAX_CLOCK_SKEW_MS :: int where "MAX_CLOCK_SKEW_MS = 300000"

definition MAX_CLOCK_UNCERTAINTY_MS :: int where "MAX_CLOCK_UNCERTAINTY_MS = 30000"

definition one_of :: "string list \<Rightarrow> jv \<Rightarrow> bool" where
  "one_of names v = (case v of Str s \<Rightarrow> s \<in> set names | _ \<Rightarrow> False)"

lemma one_of_iff: "one_of names v \<longleftrightarrow> (\<exists>s \<in> set names. v = Str s)"
  by (auto simp: one_of_def split: jv.splits)

text \<open>\<open>validInteger(value, minimum, maximum)\<close>\<close>

definition valid_integer_within :: "jv \<Rightarrow> int \<Rightarrow> int \<Rightarrow> bool" where
  "valid_integer_within v lo hi = (case v of
     Num (JInt i) \<Rightarrow> safe_int i \<and> lo \<le> i \<and> i \<le> hi | _ \<Rightarrow> False)"

definition valid_integer :: "jv \<Rightarrow> int \<Rightarrow> bool" where
  "valid_integer v lo = valid_integer_within v lo MAX_SAFE_INTEGER"

lemma valid_integer_within_iff:
  "valid_integer_within v lo hi \<longleftrightarrow> (\<exists>i. v = jint i \<and> safe_int i \<and> lo \<le> i \<and> i \<le> hi)"
  by (auto simp: valid_integer_within_def split: jv.splits jnum.splits)

definition int_of :: "jv \<Rightarrow> int" where
  "int_of v = (case v of Num (JInt i) \<Rightarrow> i | _ \<Rightarrow> 0)"

lemma int_of_jint [simp]: "int_of (jint i) = i"
  by (simp add: int_of_def)

section \<open>Acknowledgements\<close>

record acks =
  ack_items :: "jv list"
  ack_ids :: "jv list"

definition valid_acknowledgement :: "string \<Rightarrow> jv list \<Rightarrow> jv list \<Rightarrow> jv \<Rightarrow> bool" where
  "valid_acknowledgement id_field expected seen a \<longleftrightarrow>
     is_string (getp a id_field) \<and> getp a id_field \<in> set expected \<and> getp a id_field \<notin> set seen
   \<and> one_of ACK_OUTCOMES (getp a ''outcome'') \<and> is_string (getp a ''reason'')"

fun acknowledged_ids :: "js_error \<Rightarrow> string \<Rightarrow> jv list \<Rightarrow> jv list \<Rightarrow> jv list \<Rightarrow> jv list res" where
  "acknowledged_ids err id_field expected seen [] = Inr seen"
| "acknowledged_ids err id_field expected seen (a # as) =
     (if valid_acknowledgement id_field expected seen a
      then acknowledged_ids err id_field expected (seen @ [getp a id_field]) as else Inl err)"

definition exact_acknowledgements :: "jv \<Rightarrow> string \<Rightarrow> jv \<Rightarrow> string \<Rightarrow> acks res" where
  "exact_acknowledgements payload field sent_items id_field =
     bindr (dot payload field) (\<lambda>acknowledgements.
     if sent_items = Undef \<and> nullish acknowledgements then Inr \<lparr>ack_items = [], ack_ids = []\<rparr>
     else (case acknowledgements of
       Arr as \<Rightarrow>
         bindr (list_or_empty sent_items) (\<lambda>items.
         bindr (mapr (\<lambda>item. dot item ''id'') items) (\<lambda>ids.
         if length (uniq ids) \<noteq> length items \<or> length as \<noteq> length (uniq ids)
         then Inl (Error ''Sync response returned an invalid acknowledgement set.'')
         else bindr (acknowledged_ids (Error ''Sync response returned an invalid acknowledgement set.'')
             id_field (uniq ids) [] as) (\<lambda>seen.
           Inr \<lparr>ack_items = as, ack_ids = seen\<rparr>)))
     | _ \<Rightarrow> Inl (Error ''Sync response omitted acknowledgements.'')))"

fun ack_field :: "domain \<Rightarrow> string" where
  "ack_field Commands = ''acknowledgements''"
| "ack_field TaskOperations = ''taskAcknowledgements''"
| "ack_field DurationOperations = ''durationAcknowledgements''"
| "ack_field AutoStartOperations = ''autoStartAcknowledgements''"
| "ack_field SelectedTaskOperations = ''selectedTaskAcknowledgements''"

fun ack_id_field :: "domain \<Rightarrow> string" where
  "ack_id_field Commands = ''commandId''"
| "ack_id_field _ = ''operationId''"

text \<open>\<open>validateAcknowledgements\<close>: the five sets, one per domain, the first error first.\<close>

definition validate_acknowledgements :: "jv \<Rightarrow> jv \<Rightarrow> (domain \<Rightarrow> acks) res" where
  "validate_acknowledgements payload sent = domains_result (\<lambda>d.
     bindr (dot sent (domain_name d)) (\<lambda>items.
       exact_acknowledgements payload (ack_field d) items (ack_id_field d)))"

section \<open>The canonical state\<close>

text \<open>\<open>/^[A-Za-z0-9][A-Za-z0-9._:-]{7,127}$/\<close>\<close>

definition alnum :: "char \<Rightarrow> bool" where
  "alnum c \<longleftrightarrow> c \<in> set ''ABCDEFGHIJKLMNOPQRSTUVWXYZabcdefghijklmnopqrstuvwxyz0123456789''"

definition device_id_text :: "string \<Rightarrow> bool" where
  "device_id_text s = (case s of [] \<Rightarrow> False | c # cs \<Rightarrow>
     alnum c \<and> 7 \<le> length cs \<and> length cs \<le> 127 \<and> list_all (\<lambda>c. alnum c \<or> c \<in> set ''._:-'') cs)"

definition valid_canonical_timer :: "jv \<Rightarrow> bool" where
  "valid_canonical_timer timer \<longleftrightarrow> plain_object timer
   \<and> nonempty_string (getp timer ''id'')
   \<and> one_of PHASES (getp timer ''phase'')
   \<and> one_of TIMER_STATUSES (getp timer ''status'')
   \<and> valid_integer_within (getp timer ''plannedDurationMs'') 60000 14400000
   \<and> valid_integer_within (getp timer ''elapsedAtAnchorMs'') 0 (int_of (getp timer ''plannedDurationMs''))
   \<and> valid_date_time (getp timer ''anchorAt'')
   \<and> (getp timer ''startedByDeviceId'' = Undef
      \<or> (case getp timer ''startedByDeviceId'' of Str s \<Rightarrow> device_id_text s | _ \<Rightarrow> False))
   \<and> (getp timer ''taskId'' = Undef \<or> is_string (getp timer ''taskId''))"

definition valid_last_intent :: "jv \<Rightarrow> bool" where
  "valid_last_intent intent \<longleftrightarrow> intent = Undef
   \<or> plain_object intent \<and> is_string (getp intent ''type'') \<and> is_string (getp intent ''commandId'')
     \<and> valid_date_time (getp intent ''occurredAt'')"

definition validate_canonical_timer :: "jv \<Rightarrow> unit res" where
  "validate_canonical_timer timer =
     (if timer = Null then Inr ()
      else ensure (valid_canonical_timer timer \<and> valid_last_intent (getp timer ''lastIntent''))
        (Error ''Bootstrap response returned an invalid canonicalTimer.''))"

definition optional_string :: "jv \<Rightarrow> bool" where
  "optional_string v \<longleftrightarrow> v = Undef \<or> is_string v"

definition optional_date_time :: "jv \<Rightarrow> bool" where
  "optional_date_time v \<longleftrightarrow> v = Undef \<or> valid_date_time v"

definition valid_history_item :: "jv list \<Rightarrow> jv list \<Rightarrow> jv \<Rightarrow> bool" where
  "valid_history_item ids timer_ids item \<longleftrightarrow> plain_object item
   \<and> nonempty_string (getp item ''id'') \<and> nonempty_string (getp item ''timerId'')
   \<and> getp item ''id'' \<notin> set ids \<and> getp item ''timerId'' \<notin> set timer_ids
   \<and> one_of PHASES (getp item ''phase'') \<and> one_of HISTORY_STATUSES (getp item ''status'')
   \<and> valid_integer_within (getp item ''plannedDurationMs'') 60000 14400000
   \<and> (getp item ''status'' = Str ''completed'' \<longrightarrow> valid_date_time (getp item ''completedAt''))
   \<and> (getp item ''status'' \<noteq> Str ''completed'' \<longrightarrow> valid_date_time (getp item ''endedAt''))
   \<and> optional_string (getp item ''taskId'') \<and> optional_string (getp item ''commandId'')
   \<and> optional_date_time (getp item ''completedAt'') \<and> optional_date_time (getp item ''endedAt'')"

fun valid_history_items :: "jv list \<Rightarrow> jv list \<Rightarrow> jv list \<Rightarrow> bool" where
  "valid_history_items ids timer_ids [] = True"
| "valid_history_items ids timer_ids (item # items) =
     (valid_history_item ids timer_ids item
      \<and> valid_history_items (getp item ''id'' # ids) (getp item ''timerId'' # timer_ids) items)"

definition validate_history :: "jv \<Rightarrow> unit res" where
  "validate_history history = (case history of
     Arr items \<Rightarrow> ensure (valid_history_items [] [] items)
       (Error ''Bootstrap response returned invalid history.'')
   | _ \<Rightarrow> Inl (Error ''Bootstrap response omitted history.''))"

definition validate_tasks :: "jv \<Rightarrow> unit res" where
  "validate_tasks tasks = (case tasks of
     Arr items \<Rightarrow> ensure (list_all (\<lambda>t. plain_object t \<and> nonempty_string (getp t ''id'')
         \<and> is_string (getp t ''title'')) items)
       (Error ''Bootstrap response returned invalid tasks.'')
   | _ \<Rightarrow> Inl (Error ''Bootstrap response omitted tasks.''))"

definition validate_durations :: "jv \<Rightarrow> unit res" where
  "validate_durations durations =
     (if \<not> plain_object durations then Inl (Error ''Bootstrap response omitted durationsMs.'')
      else ensure (list_all (\<lambda>phase. valid_integer_within (getp durations phase) 60000 10800000
            \<and> int_of (getp durations phase) mod 60000 = 0) PHASES)
          (Error ''Bootstrap response returned invalid durationsMs.''))"

definition validate_canonical_response :: "jv \<Rightarrow> jv \<Rightarrow> (domain \<Rightarrow> acks) res" where
  "validate_canonical_response payload sent =
     bindr (ensure (plain_object payload) (Error ''Bootstrap response was not an object.'')) (\<lambda>_.
     bindr (validate_acknowledgements payload sent) (\<lambda>acknowledgements.
     bindr (ensure (valid_integer (getp payload ''revision'') 0)
       (Error ''Bootstrap response omitted revision.'')) (\<lambda>_.
     bindr (ensure (has_own payload ''canonicalTimer'')
       (Error ''Bootstrap response omitted canonicalTimer.'')) (\<lambda>_.
     bindr (validate_canonical_timer (getp payload ''canonicalTimer'')) (\<lambda>_.
     bindr (validate_history (getp payload ''history'')) (\<lambda>_.
     bindr (validate_tasks (getp payload ''tasks'')) (\<lambda>_.
     bindr (validate_durations (getp payload ''durationsMs'')) (\<lambda>_.
     bindr (ensure (is_bool (getp payload ''autoStartBreaks''))
       (Error ''Bootstrap response omitted autoStartBreaks.'')) (\<lambda>_.
     bindr (ensure (has_own payload ''selectedTaskId'' \<and> (getp payload ''selectedTaskId'' = Null
         \<or> nonempty_string (getp payload ''selectedTaskId'')))
       (Error ''Bootstrap response returned an invalid selectedTaskId.'')) (\<lambda>_.
     bindr (ensure (valid_date_time (getp payload ''serverTime''))
       (Error ''Bootstrap response omitted serverTime.'')) (\<lambda>_.
     bindr (ensure (valid_integer (getp payload ''serverHlcWallMs'') 1
         \<and> valid_integer (getp payload ''serverHlcCounter'') 0)
       (Error ''Bootstrap response returned an invalid server HLC.'')) (\<lambda>_.
     let server_time = (case date_time_ms (getp payload ''serverTime'') of None \<Rightarrow> 0 | Some t \<Rightarrow> t);
         wall = int_of (getp payload ''serverHlcWallMs'') in
     bindr (ensure (server_time \<le> wall \<and> wall \<le> server_time + MAX_CLOCK_SKEW_MS)
       (Error ''Bootstrap response returned a server HLC inconsistent with serverTime.'')) (\<lambda>_.
     Inr acknowledgements)))))))))))))"

section \<open>Clock samples\<close>

definition valid_clock_sample :: "jv \<Rightarrow> bool" where
  "valid_clock_sample sample \<longleftrightarrow> plain_object sample
   \<and> is_safe_integer (getp sample ''offsetMs'')
   \<and> valid_integer_within (getp sample ''uncertaintyMs'') 0 MAX_CLOCK_UNCERTAINTY_MS
   \<and> valid_integer (getp sample ''sampledAtWallMs'') 1
   \<and> valid_integer (getp sample ''requestSequence'') 1
   \<and> valid_integer (getp sample ''receivedAtWallMs'') 1
   \<and> int_of (getp sample ''sampledAtWallMs'') \<le> int_of (getp sample ''receivedAtWallMs'')
   \<and> (let t = int_of (getp sample ''sampledAtWallMs'') + int_of (getp sample ''offsetMs'')
      in safe_int t \<and> 0 < t)"

section \<open>Operations never sent\<close>

text \<open>
  \<open>[...(v || [])]\<close>: an array's elements, a string's characters; nothing else the code
  meets is iterable.
\<close>

definition spread_list :: "jv \<Rightarrow> jv list res" where
  "spread_list v = (if \<not> truthy v then Inr [] else (case v of
     Arr xs \<Rightarrow> Inr xs
   | Str s \<Rightarrow> Inr (map (\<lambda>c. Str [c]) s)
   | _ \<Rightarrow> Inl (TypeError ''not iterable'')))"

text \<open>
  \<open>neverSentForQueues\<close>: the identifiers of the proof that are still queued locally and
  were not part of the batch sent, domain by domain.
\<close>

definition never_sent_for_queue :: "jv \<Rightarrow> jv list \<Rightarrow> jv list \<Rightarrow> jv list res" where
  "never_sent_for_queue proof_items local_ids sent_ids =
     bindr (spread_list proof_items) (\<lambda>items.
       Inr (filter (\<lambda>i. i \<in> set local_ids \<and> i \<notin> set sent_ids) items))"

definition never_sent_for_queues :: "jv \<Rightarrow> jv \<Rightarrow> jv \<Rightarrow> (domain \<Rightarrow> jv list) res" where
  "never_sent_for_queues proofv local sent =
     bindr (domains_result (\<lambda>d. ids_of (getp sent (domain_name d)))) (\<lambda>sent_ids.
     domains_result (\<lambda>d.
       bindr (ids_of (getp local (domain_name d))) (\<lambda>local_ids.
       never_sent_for_queue (getp proofv (domain_name d)) local_ids (sent_ids d))))"

end
