(* ===== verification/StorageProof.thy ===== *)
theory StorageProof
  imports WorkspaceCore SyncValidate
begin

text \<open>
  The parts of \<open>web/sync-storage.js\<close> that neither touch the database nor call the Core: the
  queues and the base of a projection and the validators of what the Core returns, the
  delivery proof (which retained operations were certainly never sent), the claim of a
  request that was sent, the choice between two clock samples, leases, and account
  ownership of the stored snapshot.
\<close>

section \<open>Projections\<close>

definition projected_operation :: "jv \<Rightarrow> jv \<Rightarrow> jv" where
  "projected_operation operation fallback =
     (if \<not> plain_object operation then operation
      else if nonempty_string (getp operation ''deviceId'') then operation
      else Obj (obj_put ''deviceId'' (or_else fallback (Str ''legacy-web'')) (as_obj operation)))"

text \<open>\<open>projectionQueues(queues = {}, fallbackDeviceId = null)\<close>\<close>

definition projection_queues :: "jv \<Rightarrow> jv \<Rightarrow> (domain \<Rightarrow> jv list) res" where
  "projection_queues queues fallback = domains_result (\<lambda>d.
     bindr (dot (if queues = Undef then Obj [] else queues) (domain_name d)) (\<lambda>v.
     bindr (list_or_empty v) (\<lambda>items.
     Inr (map (\<lambda>item. projected_operation item fallback) items))))"

definition projection_base :: "jv \<Rightarrow> jv" where
  "projection_base snapshot = Obj
     [(''canonicalTimer'', let timer = getp snapshot ''canonicalTimer'' in
         if plain_object timer \<and> truthy (getp timer ''id'') then timer else Null),
      (''history'', if is_array (getp snapshot ''history'') then getp snapshot ''history'' else Arr []),
      (''tasks'', if is_array (getp snapshot ''tasks'') then getp snapshot ''tasks'' else Arr []),
      (''durationsMs'', if plain_object (getp snapshot ''durationsMs'') then getp snapshot ''durationsMs''
         else DEFAULT_DURATIONS),
      (''autoStartBreaks'', Bool (getp snapshot ''autoStartBreaks'' = Bool True)),
      (''selectedTaskId'', if nonempty_string (getp snapshot ''selectedTaskId'')
         then getp snapshot ''selectedTaskId'' else Null)]"

text \<open>\<open>JSON.stringify(Object.keys(v).sort()) === JSON.stringify(names)\<close>, for sorted names\<close>

definition keys_are :: "jv \<Rightarrow> string list \<Rightarrow> bool" where
  "keys_are v names \<longleftrightarrow> sort (obj_keys v) = names"

definition core_canonical_timer_ok :: "jv \<Rightarrow> bool" where
  "core_canonical_timer_ok timer \<longleftrightarrow> plain_object timer
   \<and> nonempty_string (getp timer ''id'')
   \<and> one_of PHASES (getp timer ''phase'')
   \<and> one_of TIMER_STATUSES (getp timer ''status'')
   \<and> is_safe_integer (getp timer ''plannedDurationMs'')
   \<and> is_safe_integer (getp timer ''elapsedAtAnchorMs'')
   \<and> is_string (getp timer ''anchorAt'')"

definition validate_core_timer :: "jv \<Rightarrow> unit res" where
  "validate_core_timer timer = (if timer = Null then Inr ()
     else ensure (core_canonical_timer_ok timer) (Error ''Shared core returned an invalid canonical timer.''))"

definition PROJECTION_KEYS :: "string list" where
  "PROJECTION_KEYS = [''autoStartBreaks'', ''canonicalTimer'', ''durationsMs'', ''history'',
     ''selectedTaskId'', ''tasks'', ''timerOutcomes'', ''winningOperationIds'']"

definition projected_task_ok :: "jv \<Rightarrow> bool" where
  "projected_task_ok t \<longleftrightarrow> plain_object t \<and> nonempty_string (getp t ''id'') \<and> nonempty_string (getp t ''title'')"

definition projection_durations_ok :: "jv \<Rightarrow> bool" where
  "projection_durations_ok durations \<longleftrightarrow> plain_object durations
   \<and> keys_are durations [''focus'', ''long_break'', ''short_break'']
   \<and> list_all (\<lambda>v. valid_integer_within v 60000 14400000) (map snd (as_obj durations))"

definition projection_selection_ok :: "jv \<Rightarrow> jv \<Rightarrow> bool" where
  "projection_selection_ok selected tasks \<longleftrightarrow> selected = Null
   \<or> nonempty_string selected \<and> list_ex (\<lambda>t. strict_eq (getp t ''id'') selected) (list_if_array tasks)"

definition validate_projection_shape :: "jv \<Rightarrow> unit res" where
  "validate_projection_shape v =
     bindr (ensure (plain_object v \<and> keys_are v PROJECTION_KEYS)
       (Error ''Shared core returned an invalid synchronized projection.'')) (\<lambda>_.
     bindr (validate_core_timer (getp v ''canonicalTimer'')) (\<lambda>_.
     ensure (is_array (getp v ''history'') \<and> list_all plain_object (list_if_array (getp v ''history''))
         \<and> is_array (getp v ''tasks'') \<and> list_all projected_task_ok (list_if_array (getp v ''tasks''))
         \<and> projection_durations_ok (getp v ''durationsMs'')
         \<and> is_bool (getp v ''autoStartBreaks'')
         \<and> projection_selection_ok (getp v ''selectedTaskId'') (getp v ''tasks'')
         \<and> plain_object (getp v ''timerOutcomes'') \<and> plain_object (getp v ''winningOperationIds''))
       (Error ''Shared core returned an invalid synchronized projection.'')))"

definition validate_projected_tasks :: "jv list \<Rightarrow> unit res" where
  "validate_projected_tasks tasks = ensure (distinct (map (\<lambda>t. getp t ''id'') tasks))
     (Error ''Shared core returned duplicate projected tasks.'')"

definition is_str :: "jv \<Rightarrow> bool" where
  "is_str v = (case v of Str _ \<Rightarrow> True | _ \<Rightarrow> False)"

definition string_of :: "jv \<Rightarrow> string" where
  "string_of v = (case v of Str s \<Rightarrow> s | _ \<Rightarrow> [])"

text \<open>Sorted identifiers print like sorted property names only when all of them are strings.\<close>

definition validate_timer_outcomes :: "jv \<Rightarrow> jv list \<Rightarrow> unit res" where
  "validate_timer_outcomes outcomes commands =
     bindr (mapr (\<lambda>c. dot c ''id'') commands) (\<lambda>ids.
     bindr (ensure (list_all is_str ids \<and> keys_are outcomes (sort (map string_of ids)))
       (Error ''Shared core returned incomplete timer outcomes.'')) (\<lambda>_.
     ensure (list_all (\<lambda>r. plain_object r \<and> one_of ACK_OUTCOMES (getp r ''outcome'')
         \<and> is_string (getp r ''reason'')) (map snd (as_obj outcomes)))
       (Error ''Shared core returned an invalid timer outcome.'')))"

text \<open>\<open>new Map(items.map((item) => [item.id, item])).get(i)\<close>\<close>

definition by_id :: "jv list \<Rightarrow> (jv \<Rightarrow> jv) res" where
  "by_id items = bindr (mapr (\<lambda>item. dot item ''id'') items) (\<lambda>_.
     Inr (\<lambda>i. case last_with_id i items of None \<Rightarrow> Undef | Some item \<Rightarrow> item))"

definition null_or_name :: "jv \<Rightarrow> bool" where
  "null_or_name v \<longleftrightarrow> v = Null \<or> nonempty_string v"

definition some_with_id :: "jv list \<Rightarrow> jv \<Rightarrow> bool res" where
  "some_with_id items i = somer (\<lambda>item. bindr (dot item ''id'') (\<lambda>v. Inr (strict_eq v i))) items"

definition winners_ok :: "obj \<Rightarrow> (jv \<Rightarrow> jv) \<Rightarrow> string \<Rightarrow> (string \<Rightarrow> bool) \<Rightarrow> bool" where
  "winners_ok entries find_op field allowed \<longleftrightarrow> list_all (\<lambda>(k, operation).
     allowed k \<and> is_string operation \<and> strict_eq (getp (find_op operation) field) (Str k)) entries"

definition validate_operation_winners :: "jv \<Rightarrow> (domain \<Rightarrow> jv list) \<Rightarrow> unit res" where
  "validate_operation_winners winners pending =
     bindr (ensure (keys_are winners [''autoStart'', ''durations'', ''selectedTask'', ''tasks'']
         \<and> plain_object (getp winners ''tasks'') \<and> plain_object (getp winners ''durations'')
         \<and> null_or_name (getp winners ''autoStart'') \<and> null_or_name (getp winners ''selectedTask''))
       (Error ''Shared core returned invalid operation winners.'')) (\<lambda>_.
     bindr (by_id (pending TaskOperations)) (\<lambda>task_ops.
     bindr (ensure (winners_ok (as_obj (getp winners ''tasks'')) task_ops ''taskId'' (\<lambda>_. True))
       (Error ''Shared core returned an invalid task winner.'')) (\<lambda>_.
     bindr (by_id (pending DurationOperations)) (\<lambda>duration_ops.
     bindr (ensure (winners_ok (as_obj (getp winners ''durations'')) duration_ops ''phase''
         (\<lambda>k. has_own DEFAULT_DURATIONS k))
       (Error ''Shared core returned an invalid duration winner.'')) (\<lambda>_.
     bindr (if getp winners ''autoStart'' = Null then Inr True
       else some_with_id (pending AutoStartOperations) (getp winners ''autoStart'')) (\<lambda>auto_ok.
     bindr (ensure auto_ok (Error ''Shared core returned an invalid auto-start winner.'')) (\<lambda>_.
     bindr (if getp winners ''selectedTask'' = Null then Inr True
       else some_with_id (pending SelectedTaskOperations) (getp winners ''selectedTask'')) (\<lambda>selected_ok.
     ensure selected_ok (Error ''Shared core returned an invalid selected-task winner.'')))))))))"

definition validate_projection_output :: "jv \<Rightarrow> (domain \<Rightarrow> jv list) \<Rightarrow> jv res" where
  "validate_projection_output v pending =
     bindr (validate_projection_shape v) (\<lambda>_.
     bindr (validate_projected_tasks (list_if_array (getp v ''tasks''))) (\<lambda>_.
     bindr (validate_timer_outcomes (getp v ''timerOutcomes'') (pending Commands)) (\<lambda>_.
     bindr (validate_operation_winners (getp v ''winningOperationIds'') pending) (\<lambda>_.
     Inr v))))"

definition bootstrap_plan_keys :: "jv \<Rightarrow> string list" where
  "bootstrap_plan_keys v =
     (if getp v ''mode'' = Str ''choose'' then [''localHistoryCount'', ''mode'', ''remoteHistoryCount'']
      else if nullish (getp v ''strategy'') then [''mode'', ''reason'']
      else [''mode'', ''reason'', ''strategy''])"

definition validate_bootstrap_plan :: "jv \<Rightarrow> jv res" where
  "validate_bootstrap_plan v =
     bindr (ensure (plain_object v \<and> one_of [''auto'', ''choose'', ''normal_sync''] (getp v ''mode''))
       (Error ''Shared core returned an invalid bootstrap plan.'')) (\<lambda>_.
     bindr (ensure (keys_are v (bootstrap_plan_keys v)
         \<and> (getp v ''mode'' = Str ''choose'' \<longrightarrow> valid_integer (getp v ''localHistoryCount'') 0
              \<and> valid_integer (getp v ''remoteHistoryCount'') 0)
         \<and> (getp v ''mode'' \<noteq> Str ''choose'' \<longrightarrow> nonempty_string (getp v ''reason''))
         \<and> (nullish (getp v ''strategy'')
            \<or> one_of [''keep_remote'', ''replace_remote'', ''merge''] (getp v ''strategy'')))
       (Error ''Shared core returned an invalid bootstrap plan.'')) (\<lambda>_.
     Inr v))"

definition projection_pending_queues :: "jv \<Rightarrow> domain \<Rightarrow> jv" where
  "projection_pending_queues pending d = or_else (getp pending (domain_name d)) (Arr [])"

definition validate_projection_pending :: "jv \<Rightarrow> unit res" where
  "validate_projection_pending pending =
     ensure (plain_object pending \<and> list_all (\<lambda>d. is_array (projection_pending_queues pending d)) DOMAINS)
       (Error ''Shared core returned an invalid projectionPending.'')"

section \<open>The delivery proof\<close>

text \<open>
  For every domain, the identifiers of the retained operations of which the client knows
  that no request has carried them.
\<close>

type_synonym proof_ids = "domain \<Rightarrow> jv list"

definition empty_delivery_proof :: proof_ids where
  "empty_delivery_proof = (\<lambda>_. [])"

definition proof_value :: "proof_ids \<Rightarrow> jv" where
  "proof_value p = queues_value (\<lambda>d. Arr (p d))"

definition sanitize_delivery_proof :: "jv \<Rightarrow> proof_ids" where
  "sanitize_delivery_proof v =
     (if \<not> plain_object v then empty_delivery_proof
      else (\<lambda>d. case getp v (domain_name d) of
          Arr ids \<Rightarrow> uniq (filter nonempty_string ids) | _ \<Rightarrow> []))"

definition add_proof_id :: "jv \<Rightarrow> domain \<Rightarrow> jv \<Rightarrow> proof_ids" where
  "add_proof_id v d i = (let clean = sanitize_delivery_proof v in
     if nonempty_string i \<and> i \<notin> set (clean d) then clean(d := clean d @ [i]) else clean)"

definition remove_proof_ids :: "jv \<Rightarrow> jv \<Rightarrow> proof_ids res" where
  "remove_proof_ids v sent = domains_result (\<lambda>d.
     bindr (ids_of (getp sent (domain_name d))) (\<lambda>ids.
     Inr (filter (\<lambda>i. i \<notin> set ids) (sanitize_delivery_proof v d))))"

definition never_sent_from_proof :: "jv \<Rightarrow> jv \<Rightarrow> jv \<Rightarrow> proof_ids res" where
  "never_sent_from_proof v local sent =
     bindr (domains_result (\<lambda>d. ids_of (getp sent (domain_name d)))) (\<lambda>sent_ids.
     bindr (domains_result (\<lambda>d. ids_of (getp local (domain_name d)))) (\<lambda>local_ids.
     Inr (\<lambda>d. filter (\<lambda>i. i \<in> set (local_ids d) \<and> i \<notin> set (sent_ids d)) (sanitize_delivery_proof v d))))"

lemma distinct_sanitized: "distinct (sanitize_delivery_proof v d)"
  by (auto simp: sanitize_delivery_proof_def empty_delivery_proof_def split: jv.split)

lemma sanitized_nonempty: "i \<in> set (sanitize_delivery_proof v d) \<Longrightarrow> nonempty_string i"
  by (auto simp: sanitize_delivery_proof_def empty_delivery_proof_def split: jv.splits if_splits)

lemma plain_queues_value [simp]: "plain_object (queues_value q)"
  by (simp add: queues_value_def)

lemma sanitize_proof_value:
  assumes "\<And>d. distinct (p d)" and "\<And>d i. i \<in> set (p d) \<Longrightarrow> nonempty_string i"
  shows "sanitize_delivery_proof (proof_value p) = p"
proof
  fix d
  have "filter nonempty_string (p d) = p d" using assms(2) by (auto intro!: filter_True)
  then show "sanitize_delivery_proof (proof_value p) d = p d"
    using assms(1) by (simp add: sanitize_delivery_proof_def proof_value_def uniq_distinct)
qed

lemma sanitize_sub:
  assumes "\<And>d. p d = filter (P d) (sanitize_delivery_proof v d)"
  shows "sanitize_delivery_proof (proof_value p) = p"
  by (rule sanitize_proof_value) (auto simp: assms distinct_sanitized dest: sanitized_nonempty)

lemma remove_proof_ids_Inr:
  "remove_proof_ids v sent = Inr p \<Longrightarrow> \<exists>ids. \<forall>d. ids_of (getp sent (domain_name d)) = Inr (ids d)
     \<and> p d = filter (\<lambda>i. i \<notin> set (ids d)) (sanitize_delivery_proof v d)"
proof -
  assume "remove_proof_ids v sent = Inr p"
  then have "\<forall>d. \<exists>ids. ids_of (getp sent (domain_name d)) = Inr ids
      \<and> p d = filter (\<lambda>i. i \<notin> set ids) (sanitize_delivery_proof v d)"
    unfolding remove_proof_ids_def domains_result_Inr_iff bindr_Inr_iff by (metis sum.inject(2))
  then show ?thesis by (rule choice)
qed

lemma never_sent_from_proof_Inr:
  "never_sent_from_proof v local sent = Inr p \<Longrightarrow> \<exists>sent_ids local_ids.
     (\<forall>d. ids_of (getp sent (domain_name d)) = Inr (sent_ids d))
   \<and> (\<forall>d. ids_of (getp local (domain_name d)) = Inr (local_ids d))
   \<and> (\<forall>d. p d = filter (\<lambda>i. i \<in> set (local_ids d) \<and> i \<notin> set (sent_ids d)) (sanitize_delivery_proof v d))"
  by (auto simp: never_sent_from_proof_def domains_result_Inr_iff bindr_Inr_iff)

text \<open>
  C14: The two ledgers of unsent operations agree. \<open>neverSentFromProof\<close> of the storage is
  \<open>neverSentForQueues\<close> of the sync core applied to the sanitized proof, errors included.
\<close>

theorem never_sent_ledgers_agree:
  "never_sent_from_proof v local sent
     = never_sent_for_queues (proof_value (sanitize_delivery_proof v)) local sent"
  by (simp add: never_sent_from_proof_def never_sent_for_queues_def never_sent_for_queue_def
      proof_value_def spread_list_def domains_result_map)

section \<open>Outgoing requests\<close>

definition sent_or_empty :: "jv \<Rightarrow> domain \<Rightarrow> jv" where
  "sent_or_empty sent d = or_else (getp sent (domain_name d)) (Arr [])"

definition clone_outgoing :: "jv \<Rightarrow> jv" where
  "clone_outgoing sent = json_clone (queues_value (sent_or_empty sent))"

definition same_items :: "jv \<Rightarrow> jv \<Rightarrow> bool res" where
  "same_items previous current =
     bindr (list_or_empty current) (\<lambda>items.
     bindr (by_id items) (\<lambda>rebuilt.
     bindr (spread_list previous) (\<lambda>ps.
     bindr (somer (\<lambda>item. bindr (dot item ''id'') (\<lambda>i. Inr (\<not> same_json (rebuilt i) item))) ps) (\<lambda>differs.
     Inr (\<not> differs)))))"

fun all_domains :: "(domain \<Rightarrow> bool res) \<Rightarrow> domain list \<Rightarrow> bool res" where
  "all_domains f [] = Inr True"
| "all_domains f (d # ds) = bindr (f d) (\<lambda>b. if b then all_domains f ds else Inr False)"

definition outgoing_matches_stored :: "jv \<Rightarrow> jv \<Rightarrow> bool res" where
  "outgoing_matches_stored outgoing sent =
     (if \<not> truthy (getp outgoing ''sent'') then Inr True
      else all_domains (\<lambda>d. same_items (getp (getp outgoing ''sent'') (domain_name d))
        (getp sent (domain_name d))) DOMAINS)"

definition captured_claim_ok :: "jv \<Rightarrow> jv \<Rightarrow> bool" where
  "captured_claim_ok claim sent \<longleftrightarrow> plain_object claim \<and> is_string (getp claim ''body'')
   \<and> valid_date_time (getp claim ''retiredAt'')
   \<and> (nullish (getp claim ''claimId'') \<or> nonempty_string (getp claim ''claimId''))
   \<and> plain_object (getp claim ''sent'') \<and> records_equal (getp claim ''sent'') sent"

definition body_matches :: "jv \<Rightarrow> jv \<Rightarrow> jv \<Rightarrow> bool" where
  "body_matches body sent device \<longleftrightarrow> strict_eq (getp body ''deviceId'') device
   \<and> valid_integer (getp body ''lastRevision'') 0
   \<and> list_all (\<lambda>d. is_array (getp body (domain_name d))
        \<and> records_equal (getp body (domain_name d)) (getp sent (domain_name d))) DOMAINS"

definition capture_sync_claim :: "jv \<Rightarrow> jv \<Rightarrow> jv \<Rightarrow> jv \<Rightarrow> jv res" where
  "capture_sync_claim claim sent owner device =
     bindr (ensure (captured_claim_ok claim sent)
       (TypeError ''An exact captured sync claim is required.'')) (\<lambda>_.
     bindr (ensure (strict_eq (getp claim ''ownerId'') owner)
       (AccountOwnershipError ''Canonical account changed before sync apply.'')) (\<lambda>_.
     bindr (json_parse (getp claim ''body'')) (\<lambda>body.
     bindr (dot body ''deviceId'') (\<lambda>_.
     bindr (ensure (body_matches body sent device)
       (Error ''Captured request bytes disagree with the acknowledged sync claim.'')) (\<lambda>_.
     Inr (json_clone claim))))))"

definition saved_claim_recovery_queues :: "jv \<Rightarrow> jv \<Rightarrow> domain list" where
  "saved_claim_recovery_queues saved queues =
     filter (\<lambda>d. list_if_array (getp (getp saved ''sent'') (domain_name d)) \<noteq> []
       \<or> list_if_array (getp queues (domain_name d)) \<noteq> []) DOMAINS"

fun join :: "string \<Rightarrow> string list \<Rightarrow> string" where
  "join sep [] = []"
| "join sep [x] = x"
| "join sep (x # xs) = x @ sep @ join sep xs"

text \<open>The translation \<open>tr(key, values, fallback)\<close> is the caller's, and may throw.\<close>

definition saved_claim_recovery_message ::
  "jv \<Rightarrow> (string \<Rightarrow> (string \<times> string) list \<Rightarrow> string \<Rightarrow> string res) \<Rightarrow> jv \<Rightarrow> string" where
  "saved_claim_recovery_message saved tr queues =
     (let names = map domain_name (saved_claim_recovery_queues saved queues);
          listed = (if names \<noteq> [] then join '', '' names else ''sync queue'');
          fallback = ''Saved sync request lacks original request bytes. Sync of '' @ listed
            @ '' remains blocked. Queued work is intact.''
      in case tr ''sync.savedClaimBlocked'' [(''queues'', listed)] fallback of
           Inl _ \<Rightarrow> fallback | Inr text \<Rightarrow> text)"

section \<open>Clocks\<close>

definition sanitize_canonical_head :: "jv \<Rightarrow> jv" where
  "sanitize_canonical_head head =
     (if \<not> plain_object head then Null
      else (case (to_number (getp head ''wallMs''), to_number (getp head ''counter'')) of
          (JInt wall, JInt counter) \<Rightarrow>
            if safe_int wall \<and> 0 < wall \<and> safe_int counter \<and> 0 \<le> counter
            then Obj [(''wallMs'', jint wall), (''counter'', jint counter)] else Null
        | _ \<Rightarrow> Null))"

text \<open>
  \<open>latestClockOffset\<close>: whether a valid stored sample stays in place of a valid incoming
  one, then the sample it returns. The code compares the result with the incoming sample by
  identity: \<open>takes_incoming\<close>.
\<close>

definition keeps_stored_sample :: "jv \<Rightarrow> jv \<Rightarrow> bool" where
  "keeps_stored_sample stored incoming \<longleftrightarrow> valid_clock_sample stored
   \<and> (js_less (getp incoming ''requestSequence'') (getp stored ''requestSequence'')
      \<or> strict_eq (getp stored ''requestSequence'') (getp incoming ''requestSequence'')
        \<and> (js_less (getp incoming ''receivedAtWallMs'') (getp stored ''receivedAtWallMs'')
           \<or> strict_eq (getp stored ''receivedAtWallMs'') (getp incoming ''receivedAtWallMs'')
             \<and> js_le (getp stored ''uncertaintyMs'') (getp incoming ''uncertaintyMs'')))"

definition latest_clock_offset :: "jv \<Rightarrow> jv \<Rightarrow> jv res" where
  "latest_clock_offset stored incoming =
     (if nullish incoming then Inr (if valid_clock_sample stored then stored else Null)
      else if \<not> valid_clock_sample incoming then Inl ClockRangeError
      else Inr (if keeps_stored_sample stored incoming then stored else incoming))"

definition takes_incoming :: "jv \<Rightarrow> jv \<Rightarrow> bool" where
  "takes_incoming stored incoming =
     (if nullish incoming then incoming = Null \<and> \<not> valid_clock_sample stored
      else \<not> keeps_stored_sample stored incoming)"

section \<open>Leases\<close>

definition js_add :: "jv \<Rightarrow> jv \<Rightarrow> jv" where
  "js_add a b = (case (a, b) of (Num (JInt x), Num (JInt y)) \<Rightarrow> jint (x + y) | _ \<Rightarrow> Num JNaN)"

definition lease_value :: "jv \<Rightarrow> jv \<Rightarrow> jv \<Rightarrow> obj" where
  "lease_value token now lease =
     [(''token'', token), (''acquiredAtMs'', now), (''expiresAtMs'', js_add now lease)]"

definition lease_is_live :: "jv \<Rightarrow> jv \<Rightarrow> bool" where
  "lease_is_live gate now \<longleftrightarrow> truthy (getp gate ''token'') \<and> js_less now (getp gate ''expiresAtMs'')"

definition bound_bootstrap_lease :: "jv \<Rightarrow> obj \<Rightarrow> jv" where
  "bound_bootstrap_lease token input = Obj (spread (lease_value token (fld input ''nowMs'') (fld input ''leaseMs''))
     (if truthy (fld input ''currentUserId'') then [(''accountOwnerId'', fld input ''currentUserId'')] else []))"

section \<open>Account ownership\<close>

definition account_ownership_changed :: js_error where
  "account_ownership_changed =
     AccountOwnershipError ''Local account changed. Revalidate the session before making changes.''"

text \<open>\<open>assertAccountOwnership(snapshot, expectedUserId = null)\<close>\<close>

definition assert_account_ownership :: "jv \<Rightarrow> jv \<Rightarrow> unit res" where
  "assert_account_ownership snapshot expected =
     bindr (account_owner_id (getp snapshot ''user'')) (\<lambda>owner.
     let expected = (if expected = Undef then Null else expected) in
     ensure ((expected = Null \<or> nonempty_string expected) \<and> strict_eq owner expected)
       account_ownership_changed)"

end
