(* ===== verification/Uuid.thy ===== *)
theory Uuid
  imports JsValue "HOL-Library.Word"
begin

text \<open>
  \<open>web/sync-storage-uuid.js\<close>: UUIDv7 identifiers from a 48-bit timestamp and a 74-bit
  random value, and the reservation of a batch that continues the last identifier
  this device stored. BigInts are integers; the entropy source is a parameter.
\<close>

unbundle bit_operations_syntax

section \<open>Constants\<close>

definition MAX_TIMESTAMP_MS :: int where "MAX_TIMESTAMP_MS = 2 ^ 48 - 1"

definition RANDOM_MAX :: int where "RANDOM_MAX = push_bit 74 1 - 1"

definition RAND_B_MASK :: int where "RAND_B_MASK = push_bit 62 1 - 1"

definition ENTROPY_ATTEMPTS :: nat where "ENTROPY_ATTEMPTS = 16"

definition range_error :: js_error where
  "range_error = UUIDRangeError ''UUIDv7 generator state is outside the supported range.''"

section \<open>Text\<close>

fun hex_digits :: "nat \<Rightarrow> nat \<Rightarrow> string" where
  "hex_digits 0 n = []"
| "hex_digits (Suc w) n = hex_digits w (n div 16) @ [''0123456789abcdef'' ! (n mod 16)]"

text \<open>\<open>integer.toString(16).padStart(32, "0")\<close> for an integer below \<open>2 ^ 128\<close>\<close>

definition uuid_text :: "int \<Rightarrow> string" where
  "uuid_text i = (let hex = hex_digits 32 (nat i) in
     take 8 hex @ ''-'' @ take 4 (drop 8 hex) @ ''-'' @ take 4 (drop 12 hex) @ ''-''
       @ take 4 (drop 16 hex) @ ''-'' @ drop 20 hex)"

definition hex_val :: "char \<Rightarrow> int" where
  "hex_val c = (let n = int (of_char c) in
     if 48 \<le> n \<and> n \<le> 57 then n - 48 else if 97 \<le> n \<and> n \<le> 102 then n - 87 else n - 55)"

text \<open>\<open>BigInt("0x" + hex)\<close>\<close>

definition hex_number :: "string \<Rightarrow> int" where
  "hex_number s = foldl (\<lambda>n c. 16 * n + hex_val c) 0 s"

definition is_hex :: "char \<Rightarrow> bool" where
  "is_hex c \<longleftrightarrow> c \<in> set ''0123456789abcdefABCDEF''"

text \<open>The case-insensitive pattern of a version 7 identifier.\<close>

definition uuid7_pattern :: "string \<Rightarrow> bool" where
  "uuid7_pattern s \<longleftrightarrow> length s = 36
   \<and> s ! 8 = CHR ''-'' \<and> s ! 13 = CHR ''-'' \<and> s ! 18 = CHR ''-'' \<and> s ! 23 = CHR ''-''
   \<and> list_all is_hex (take 8 s) \<and> list_all is_hex (take 4 (drop 9 s))
   \<and> s ! 14 = CHR ''7'' \<and> list_all is_hex (take 3 (drop 15 s))
   \<and> s ! 19 \<in> set ''89abAB'' \<and> list_all is_hex (take 3 (drop 20 s))
   \<and> list_all is_hex (drop 24 s)"

section \<open>Identifiers and their parts\<close>

definition uuid_integer :: "int \<Rightarrow> int \<Rightarrow> int" where
  "uuid_integer timestamp random_value =
     push_bit 80 timestamp OR push_bit 76 7 OR push_bit 64 (drop_bit 62 random_value)
       OR push_bit 62 2 OR (random_value AND RAND_B_MASK)"

definition from_parts :: "jv \<Rightarrow> int \<Rightarrow> string res" where
  "from_parts timestamp random_value =
     (case timestamp of
       Num (JInt t) \<Rightarrow>
         if \<not> safe_int t \<or> t < 0 \<or> t > MAX_TIMESTAMP_MS \<or> random_value < 0 \<or> random_value > RANDOM_MAX
         then Inl range_error
         else Inr (uuid_text (uuid_integer t random_value))
     | _ \<Rightarrow> Inl range_error)"

record uuid_parts =
  u_integer :: int
  u_timestamp :: int
  u_random :: int

definition parts_of_integer :: "int \<Rightarrow> uuid_parts" where
  "parts_of_integer i =
     \<lparr>u_integer = i, u_timestamp = drop_bit 80 i,
      u_random = push_bit 62 (drop_bit 64 i AND 0xFFF) OR (i AND RAND_B_MASK)\<rparr>"

definition uuid_parts_of :: "jv \<Rightarrow> uuid_parts res" where
  "uuid_parts_of v = (case v of
     Str s \<Rightarrow> if uuid7_pattern s then Inr (parts_of_integer (hex_number (filter (\<lambda>c. c \<noteq> CHR ''-'') s)))
       else Inl (UUIDRangeError ''Persisted UUIDv7 state is invalid.'')
   | _ \<Rightarrow> Inl (UUIDRangeError ''Persisted UUIDv7 state is invalid.''))"

text \<open>The parts of the pending identifiers that are of version 7; the others are skipped.\<close>

fun latest_pending :: "uuid_parts option \<Rightarrow> jv list \<Rightarrow> uuid_parts option" where
  "latest_pending latest [] = latest"
| "latest_pending latest (i # is) = (case uuid_parts_of i of
     Inl _ \<Rightarrow> latest_pending latest is
   | Inr p \<Rightarrow> latest_pending (case latest of
         None \<Rightarrow> Some p
       | Some l \<Rightarrow> Some (if u_integer p > u_integer l then p else l)) is)"

section \<open>Reservation\<close>

text \<open>\<open>Array.from({ length: count }, ...)\<close> over consecutive random values\<close>

definition consecutive :: "int \<Rightarrow> int \<Rightarrow> int \<Rightarrow> string list res" where
  "consecutive timestamp first count =
     mapr (\<lambda>k. from_parts (jint timestamp) (first + int k)) [0..<nat count]"

definition sequential :: "uuid_parts option \<Rightarrow> int \<Rightarrow> int \<Rightarrow> string list option res" where
  "sequential previous timestamp count = (case previous of
     None \<Rightarrow> Inr None
   | Some p \<Rightarrow>
       if timestamp > u_timestamp p then Inr None
       else if u_random p > RANDOM_MAX - count
       then Inl (UUIDRangeError ''UUIDv7 random value has no headroom.'')
       else bindr (consecutive (u_timestamp p) (u_random p + 1) count) (\<lambda>ids. Inr (Some ids)))"

text \<open>An entropy source: what attempt \<open>k\<close> returns, or the error it throws.\<close>

type_synonym entropy = "nat \<Rightarrow> 8 word list res"

definition random_of_bytes :: "8 word list \<Rightarrow> int" where
  "random_of_bytes bytes = foldl (\<lambda>r b. push_bit 8 r OR uint b) 0 bytes AND RANDOM_MAX"

text \<open>The loop from attempt \<open>k\<close> with \<open>left\<close> attempts to go.\<close>

fun random_batch_from :: "nat \<Rightarrow> nat \<Rightarrow> int \<Rightarrow> int \<Rightarrow> entropy \<Rightarrow> string list res" where
  "random_batch_from 0 k timestamp count fill =
     Inl (UUIDRangeError ''UUIDv7 entropy lacks reservation headroom.'')"
| "random_batch_from (Suc left) k timestamp count fill =
     bindr (fill k) (\<lambda>source.
     if length source \<noteq> 10 then Inl (UUIDRangeError ''UUIDv7 entropy source returned invalid data.'')
     else if random_of_bytes source \<le> RANDOM_MAX - (count - 1)
     then consecutive timestamp (random_of_bytes source) count
     else random_batch_from left (Suc k) timestamp count fill)"

definition random_batch :: "int \<Rightarrow> int \<Rightarrow> entropy \<Rightarrow> string list res" where
  "random_batch timestamp count fill = random_batch_from ENTROPY_ATTEMPTS 0 timestamp count fill"

definition reserve_uuid7 :: "jv \<Rightarrow> int \<Rightarrow> jv \<Rightarrow> jv list \<Rightarrow> entropy \<Rightarrow> string list res" where
  "reserve_uuid7 timestamp count stored pending_ids fill =
     (case timestamp of
       Num (JInt t) \<Rightarrow>
         if \<not> safe_int t \<or> t \<le> 0 \<or> t > MAX_TIMESTAMP_MS
           \<or> \<not> safe_int count \<or> count \<le> 0 \<or> count > RANDOM_MAX + 1
         then Inl range_error
         else bindr (if nullish stored then Inr None else bindr (uuid_parts_of stored) (\<lambda>p. Inr (Some p)))
           (\<lambda>stored_parts.
           let pending_parts = latest_pending None pending_ids in
           if (case (stored_parts, pending_parts) of
               (Some s, Some p) \<Rightarrow> u_integer p > u_integer s | _ \<Rightarrow> False)
           then Inl (UUIDRangeError ''Persisted UUIDv7 state predates a pending identifier.'')
           else bindr (sequential (case stored_parts of None \<Rightarrow> pending_parts | Some s \<Rightarrow> Some s) t count)
             (\<lambda>seq. case seq of Some ids \<Rightarrow> Inr ids | None \<Rightarrow> random_batch t count fill))
     | _ \<Rightarrow> Inl range_error)"

section \<open>Facts: the bit layout\<close>

lemma or_disjoint:
  fixes a b :: int
  assumes "0 \<le> b" "b < 2 ^ n"
  shows "push_bit n a OR b = a * 2 ^ n + b"
proof -
  have "take_bit n b = b" using assms by (simp add: take_bit_int_eq_self)
  then have "\<not> bit b k" if "n \<le> k" for k
    using that by (metis bit_take_bit_iff not_less)
  then have "push_bit n a + b = push_bit n a OR b"
    by (intro disjunctive_add) (auto simp: bit_push_bit_iff)
  then show ?thesis by (simp add: push_bit_eq_mult)
qed

lemma RANDOM_MAX_eq: "RANDOM_MAX = 2 ^ 74 - 1" and RAND_B_MASK_eq: "RAND_B_MASK = mask 62"
  by (simp_all add: RANDOM_MAX_def RAND_B_MASK_def push_bit_eq_mult mask_eq_exp_minus_1)

lemma uuid_integer_sum:
  assumes "0 \<le> r" "r \<le> RANDOM_MAX"
  shows "uuid_integer t r
    = t * 2 ^ 80 + 7 * 2 ^ 76 + (r div 2 ^ 62) * 2 ^ 64 + 2 * 2 ^ 62 + r mod 2 ^ 62"
proof -
  define a b where "a = r div 2 ^ 62" and "b = r mod 2 ^ 62"
  have a: "0 \<le> a" "a < 2 ^ 12"
    using assms unfolding a_def RANDOM_MAX_eq
    by (simp_all add: pos_imp_zdiv_nonneg_iff div_less_iff_less_mult)
  have b: "0 \<le> b" "b < 2 ^ 62" by (simp_all add: b_def)
  have low: "push_bit 62 2 OR b = 2 * 2 ^ 62 + b" by (rule or_disjoint[OF b])
  have mid: "push_bit 64 a OR (2 * 2 ^ 62 + b) = a * 2 ^ 64 + (2 * 2 ^ 62 + b)"
    by (rule or_disjoint) (use b in simp_all)
  have high: "push_bit 76 7 OR (a * 2 ^ 64 + (2 * 2 ^ 62 + b)) = 7 * 2 ^ 76 + (a * 2 ^ 64 + (2 * 2 ^ 62 + b))"
    by (rule or_disjoint) (use a b in simp_all)
  have top: "push_bit 80 t OR (7 * 2 ^ 76 + (a * 2 ^ 64 + (2 * 2 ^ 62 + b)))
      = t * 2 ^ 80 + (7 * 2 ^ 76 + (a * 2 ^ 64 + (2 * 2 ^ 62 + b)))"
    by (rule or_disjoint) (use a b in simp_all)
  have "r AND RAND_B_MASK = b" "drop_bit 62 r = a"
    by (simp_all add: a_def b_def RAND_B_MASK_eq take_bit_eq_mask[symmetric] take_bit_eq_mod drop_bit_eq_div)
  then show ?thesis
    unfolding uuid_integer_def a_def[symmetric] b_def[symmetric]
    by (simp only: or.assoc low mid high top add.assoc)
qed

text \<open>The fields of the sum, read back by division.\<close>

lemma uuid_integer_fields:
  assumes t: "0 \<le> t" and r: "0 \<le> r" "r \<le> RANDOM_MAX"
  shows "0 \<le> uuid_integer t r"
    and "uuid_integer t r div 2 ^ 80 = t"
    and "uuid_integer t r div 2 ^ 76 = t * 16 + 7"
    and "uuid_integer t r div 2 ^ 64 mod 2 ^ 12 = r div 2 ^ 62"
    and "uuid_integer t r div 2 ^ 60 mod 16 = 8 + r mod 2 ^ 62 div 2 ^ 60"
    and "uuid_integer t r mod 2 ^ 62 = r mod 2 ^ 62"
proof -
  define a b i where "a = r div 2 ^ 62" and "b = r mod 2 ^ 62" and "i = uuid_integer t r"
  have a: "0 \<le> a" "a < 4096"
    using r unfolding a_def RANDOM_MAX_eq
    by (simp_all add: pos_imp_zdiv_nonneg_iff div_less_iff_less_mult)
  have b: "0 \<le> b" "b < 2 ^ 62" by (simp_all add: b_def)
  have i: "i = t * 2 ^ 80 + 7 * 2 ^ 76 + a * 2 ^ 64 + 2 * 2 ^ 62 + b"
    unfolding i_def a_def b_def by (rule uuid_integer_sum[OF r])
  show "0 \<le> uuid_integer t r" unfolding i_def[symmetric] i using t a b by simp
  show "uuid_integer t r div 2 ^ 80 = t"
    unfolding i_def[symmetric] i
    by (rule int_div_pos_eq[where r = "7 * 2 ^ 76 + a * 2 ^ 64 + 2 * 2 ^ 62 + b"]) (use a b in simp_all)
  show "uuid_integer t r div 2 ^ 76 = t * 16 + 7"
    unfolding i_def[symmetric] i
    by (rule int_div_pos_eq[where r = "a * 2 ^ 64 + 2 * 2 ^ 62 + b"]) (use a b in simp_all)
  have "i div 2 ^ 64 = t * 2 ^ 16 + 7 * 2 ^ 12 + a"
    unfolding i by (rule int_div_pos_eq[where r = "2 * 2 ^ 62 + b"]) (use a b in simp_all)
  moreover have "(t * 2 ^ 16 + 7 * 2 ^ 12 + a) mod 2 ^ 12 = a"
    by (rule int_mod_pos_eq[where q = "t * 2 ^ 4 + 7"]) (use a in simp_all)
  ultimately show "uuid_integer t r div 2 ^ 64 mod 2 ^ 12 = r div 2 ^ 62"
    unfolding i_def a_def by simp
  have bb: "b = 2 ^ 60 * (b div 2 ^ 60) + b mod 2 ^ 60" "0 \<le> b mod 2 ^ 60" "b mod 2 ^ 60 < 2 ^ 60"
    by simp_all
  have bd: "0 \<le> b div 2 ^ 60" "b div 2 ^ 60 < 4"
    using b by (simp_all add: pos_imp_zdiv_nonneg_iff div_less_iff_less_mult)
  have "i div 2 ^ 60 = t * 2 ^ 20 + 7 * 2 ^ 16 + a * 16 + 8 + b div 2 ^ 60"
    unfolding i by (rule int_div_pos_eq[where r = "b mod 2 ^ 60"]) (use bb in simp_all)
  moreover have "(t * 2 ^ 20 + 7 * 2 ^ 16 + a * 16 + 8 + b div 2 ^ 60) mod 16 = 8 + b div 2 ^ 60"
    by (rule int_mod_pos_eq[where q = "t * 2 ^ 16 + 7 * 2 ^ 12 + a"]) (use bd in simp_all)
  ultimately show "uuid_integer t r div 2 ^ 60 mod 16 = 8 + r mod 2 ^ 62 div 2 ^ 60"
    unfolding i_def b_def by simp
  show "uuid_integer t r mod 2 ^ 62 = r mod 2 ^ 62"
    unfolding i_def[symmetric] b_def[symmetric] i
    by (rule int_mod_pos_eq[where q = "t * 2 ^ 18 + 7 * 2 ^ 14 + a * 4 + 2"]) (use b in simp_all)
qed

lemma parts_of_uuid_integer:
  assumes "0 \<le> t" "0 \<le> r" "r \<le> RANDOM_MAX"
  shows "parts_of_integer (uuid_integer t r)
    = \<lparr>u_integer = uuid_integer t r, u_timestamp = t, u_random = r\<rparr>"
proof -
  note f = uuid_integer_fields[OF assms]
  have mask12: "(0xFFF :: int) = mask 12" by (simp add: mask_eq_exp_minus_1)
  have "push_bit 62 (r div 2 ^ 62) OR (r mod 2 ^ 62) = r div 2 ^ 62 * 2 ^ 62 + r mod 2 ^ 62"
    by (rule or_disjoint) simp_all
  then show ?thesis
    unfolding parts_of_integer_def mask12 RAND_B_MASK_eq take_bit_eq_mask[symmetric]
      take_bit_eq_mod drop_bit_eq_div f by simp
qed

text \<open>Identifiers are ordered as their timestamp and random value are.\<close>

lemma uuid_integer_mono:
  assumes "0 \<le> r" "r \<le> RANDOM_MAX" "0 \<le> r'" "r' \<le> RANDOM_MAX" "t < t' \<or> t = t' \<and> r < r'"
  shows "uuid_integer t r < uuid_integer t' r'"
proof -
  define a b a' b' where "a = r div 2 ^ 62" "b = r mod 2 ^ 62" "a' = r' div 2 ^ 62" "b' = r' mod 2 ^ 62"
  note defs = this
  have r: "r = a * 2 ^ 62 + b" "r' = a' * 2 ^ 62 + b'" by (simp_all add: defs)
  have ab: "0 \<le> a" "a < 4096" "0 \<le> b" "b < 2 ^ 62" "0 \<le> a'" "a' < 4096" "0 \<le> b'" "b' < 2 ^ 62"
    using assms(1-4) unfolding defs RANDOM_MAX_eq
    by (simp_all add: pos_imp_zdiv_nonneg_iff div_less_iff_less_mult)
  have order: "a < a' \<or> a = a' \<and> b < b'" if "r < r'"
    using that ab unfolding r by (cases a a' rule: linorder_cases) auto
  have "t * 2 ^ 80 + 7 * 2 ^ 76 + a * 2 ^ 64 + 2 * 2 ^ 62 + b
      < t' * 2 ^ 80 + 7 * 2 ^ 76 + a' * 2 ^ 64 + 2 * 2 ^ 62 + b'"
    using assms(5)
  proof
    assume "t < t'"
    then have "(t + 1) * 2 ^ 80 \<le> t' * 2 ^ 80" by (intro mult_right_mono) simp_all
    with ab show ?thesis by (simp add: distrib_right)
  next
    assume "t = t' \<and> r < r'"
    with order ab show ?thesis by auto
  qed
  then show ?thesis
    unfolding uuid_integer_sum[OF assms(1,2)] uuid_integer_sum[OF assms(3,4)] defs[symmetric] .
qed

section \<open>Facts: the text\<close>

lemma hex_char_facts:
  assumes "k < 16"
  shows "is_hex (''0123456789abcdef'' ! k)" "hex_val (''0123456789abcdef'' ! k) = int k"
    "''0123456789abcdef'' ! k \<noteq> CHR ''-''"
proof -
  have "list_all (\<lambda>k. is_hex (''0123456789abcdef'' ! k) \<and> hex_val (''0123456789abcdef'' ! k) = int k
      \<and> ''0123456789abcdef'' ! k \<noteq> CHR ''-'') [0..<16]"
    by code_simp
  with assms show "is_hex (''0123456789abcdef'' ! k)" "hex_val (''0123456789abcdef'' ! k) = int k"
    "''0123456789abcdef'' ! k \<noteq> CHR ''-''"
    by (simp_all add: list_all_iff)
qed

lemma length_hex_digits [simp]: "length (hex_digits w n) = w"
  by (induction w n rule: hex_digits.induct) simp_all

lemma set_hex_digits: "c \<in> set (hex_digits w n) \<Longrightarrow> is_hex c \<and> c \<noteq> CHR ''-''"
  by (induction w n rule: hex_digits.induct) (auto simp: hex_char_facts)

lemma nth_hex_digits:
  "k < w \<Longrightarrow> hex_digits w n ! k = ''0123456789abcdef'' ! (n div 16 ^ (w - 1 - k) mod 16)"
proof (induction w n rule: hex_digits.induct)
  case (2 w n)
  show ?case
  proof (cases "k < w")
    case True
    then have "n div 16 div 16 ^ (w - 1 - k) = n div 16 ^ (w - k)"
      by (simp add: div_mult2_eq [symmetric] power_Suc [symmetric] Suc_diff_Suc del: power_Suc)
    with 2 True show ?thesis by (simp add: nth_append)
  next
    case False
    with 2(2) have "k = w" by simp
    then show ?thesis by (simp add: nth_append)
  qed
qed simp

lemma hex_number_digits: "n < 16 ^ w \<Longrightarrow> hex_number (hex_digits w n) = int n"
proof (induction w n rule: hex_digits.induct)
  case (2 w n)
  then have "n div 16 < 16 ^ w" by (simp add: div_less_iff_less_mult mult.commute)
  then have "hex_number (hex_digits (Suc w) n) = 16 * int (n div 16) + int (n mod 16)"
    using 2 by (simp add: hex_number_def hex_char_facts del: of_nat_mod of_nat_div)
  also have "\<dots> = int (16 * (n div 16) + n mod 16)"
    by (simp only: of_nat_add of_nat_mult of_nat_numeral)
  also have "\<dots> = int n" by (simp only: mult_div_mod_eq)
  finally show ?case .
qed (simp add: hex_number_def)

lemma filter_uuid_text: "filter (\<lambda>c. c \<noteq> CHR ''-'') (uuid_text i) = hex_digits 32 (nat i)"
proof -
  define h where "h = hex_digits 32 (nat i)"
  have keep: "filter (\<lambda>c. c \<noteq> CHR ''-'') s = s" if "set s \<subseteq> set h" for s
    using that set_hex_digits unfolding h_def by (intro filter_True) blast
  have "h = take 8 h @ drop 8 h" "drop 8 h = take 4 (drop 8 h) @ drop 12 h"
    "drop 12 h = take 4 (drop 12 h) @ drop 16 h" "drop 16 h = take 4 (drop 16 h) @ drop 20 h"
    using append_take_drop_id[of 4 "drop 8 h"] append_take_drop_id[of 4 "drop 12 h"]
      append_take_drop_id[of 4 "drop 16 h"] by simp_all
  then have split: "take 8 h @ take 4 (drop 8 h) @ take 4 (drop 12 h) @ take 4 (drop 16 h) @ drop 20 h = h"
    by metis
  have sub: "set (take n (drop m h)) \<subseteq> set h" "set (take n h) \<subseteq> set h" "set (drop m h) \<subseteq> set h" for n m
    by (auto dest: in_set_takeD in_set_dropD)
  show ?thesis
    unfolding uuid_text_def Let_def h_def[symmetric]
    by (simp add: keep[OF sub(1)] keep[OF sub(2)] keep[OF sub(3)] split)
qed

lemma uuid_text_pattern:
  assumes "0 \<le> t" "0 \<le> r" "r \<le> RANDOM_MAX"
  shows "uuid7_pattern (uuid_text (uuid_integer t r))"
proof -
  define i h where "i = uuid_integer t r" and "h = hex_digits 32 (nat i)"
  note f = uuid_integer_fields[OF assms, folded i_def]
  have hex: "list_all is_hex s" if "set s \<subseteq> set h" for s
    using that set_hex_digits unfolding h_def list_all_iff by blast
  have sub: "set (take n (drop m h)) \<subseteq> set h" "set (take n h) \<subseteq> set h" "set (drop m h) \<subseteq> set h"
    "set (drop k (take n (drop m h))) \<subseteq> set h" for n m k
    by (auto dest: in_set_takeD in_set_dropD)
  have len: "length h = 32" by (simp add: h_def)
  have "nat i div 16 ^ 19 mod 16 = nat (i div 2 ^ 76 mod 16)"
    using f(1) by (simp add: nat_div_distrib nat_mod_distrib nat_power_eq pos_imp_zdiv_nonneg_iff)
  then have 12: "h ! 12 = CHR ''7''"
    unfolding f(3) h_def by (simp add: nth_hex_digits)
  define j where "j = nat (r mod 2 ^ 62 div 2 ^ 60)"
  have j: "j < 4" "int j = r mod 2 ^ 62 div 2 ^ 60"
    by (simp_all add: j_def nat_less_iff div_less_iff_less_mult pos_imp_zdiv_nonneg_iff)
  have "nat i div 16 ^ 15 mod 16 = nat (i div 2 ^ 60 mod 16)"
    using f(1) by (simp add: nat_div_distrib nat_mod_distrib nat_power_eq pos_imp_zdiv_nonneg_iff)
  then have "h ! 16 = ''0123456789abcdef'' ! (8 + j)"
    unfolding f(5) h_def j(2)[symmetric] by (simp add: nth_hex_digits nat_add_distrib)
  moreover have "j = 0 \<or> j = 1 \<or> j = 2 \<or> j = 3" using j(1) by linarith
  ultimately have 16: "h ! 16 \<in> set ''89abAB''" by auto
  show ?thesis
    unfolding uuid7_pattern_def uuid_text_def Let_def i_def[symmetric] h_def[symmetric]
    using 12 16 len by (simp add: nth_append hex sub)
qed

section \<open>Reading identifiers back\<close>

lemma uuid_integer_bound:
  assumes "0 \<le> t" "t \<le> MAX_TIMESTAMP_MS" "0 \<le> r" "r \<le> RANDOM_MAX"
  shows "nat (uuid_integer t r) < 16 ^ 32"
proof -
  have "uuid_integer t r div 2 ^ 80 < 2 ^ 48"
    using assms uuid_integer_fields(2)[of t r] by (simp add: MAX_TIMESTAMP_MS_def)
  then have "uuid_integer t r < 2 ^ 128" by (simp add: div_less_iff_less_mult)
  then show ?thesis using uuid_integer_fields(1)[of t r] assms by (simp add: nat_less_iff)
qed

lemma from_parts_Inr_iff:
  "from_parts (jint t) r = Inr s \<longleftrightarrow> 0 \<le> t \<and> t \<le> MAX_TIMESTAMP_MS \<and> 0 \<le> r \<and> r \<le> RANDOM_MAX
    \<and> s = uuid_text (uuid_integer t r)"
  by (auto simp: from_parts_def safe_int_bounds MAX_TIMESTAMP_MS_def)

lemma parts_from_parts:
  assumes "from_parts (jint t) r = Inr s"
  shows "uuid_parts_of (Str s) = Inr \<lparr>u_integer = uuid_integer t r, u_timestamp = t, u_random = r\<rparr>"
proof -
  have tr: "0 \<le> t" "t \<le> MAX_TIMESTAMP_MS" "0 \<le> r" "r \<le> RANDOM_MAX" and s: "s = uuid_text (uuid_integer t r)"
    using assms by (simp_all add: from_parts_Inr_iff)
  have "hex_number (filter (\<lambda>c. c \<noteq> CHR ''-'') s) = uuid_integer t r"
    unfolding s filter_uuid_text
    using hex_number_digits[OF uuid_integer_bound[OF tr]] uuid_integer_fields(1)[OF tr(1,3,4)] by simp
  moreover have "uuid7_pattern s" unfolding s by (rule uuid_text_pattern[OF tr(1,3,4)])
  ultimately show ?thesis by (simp add: uuid_parts_of_def parts_of_uuid_integer[OF tr(1,3,4)])
qed

lemma hex_number_append: "hex_number (a @ b) = hex_number a * 16 ^ length b + hex_number b"
proof (induction b rule: rev_induct)
  case (snoc c b)
  have "hex_number (a @ b @ [c]) = 16 * hex_number (a @ b) + hex_val c"
    by (simp add: hex_number_def)
  also have "\<dots> = hex_number a * 16 ^ length (b @ [c]) + (16 * hex_number b + hex_val c)"
    unfolding snoc by (simp add: algebra_simps)
  also have "16 * hex_number b + hex_val c = hex_number (b @ [c])" by (simp add: hex_number_def)
  finally show ?case .
qed (simp add: hex_number_def)

lemma hex_val_bounds: "is_hex c \<Longrightarrow> 0 \<le> hex_val c \<and> hex_val c < 16"
proof -
  have "list_all (\<lambda>c. 0 \<le> hex_val c \<and> hex_val c < 16) ''0123456789abcdefABCDEF''" by code_simp
  then show "is_hex c \<Longrightarrow> ?thesis" by (auto simp: is_hex_def list_all_iff)
qed

lemma is_hex_dash: "\<not> is_hex (CHR ''-'')"
  by (simp add: is_hex_def)

lemma hex_number_bounds: "list_all is_hex s \<Longrightarrow> 0 \<le> hex_number s \<and> hex_number s < 16 ^ length s"
proof (induction s rule: rev_induct)
  case (snoc c s)
  then have "0 \<le> hex_number s" "hex_number s + 1 \<le> 16 ^ length s" by simp_all
  moreover have "hex_number (s @ [c]) = 16 * hex_number s + hex_val c" by (simp add: hex_number_def)
  ultimately show ?case using snoc.prems hex_val_bounds[of c] by simp
qed (simp add: hex_number_def)

text \<open>Every identifier of version 7 is the one its parts determine.\<close>

lemma uuid_parts_of_wf:
  assumes "uuid_parts_of v = Inr p"
  shows "0 \<le> u_timestamp p" "u_timestamp p \<le> MAX_TIMESTAMP_MS" "0 \<le> u_random p" "u_random p \<le> RANDOM_MAX"
    "u_integer p = uuid_integer (u_timestamp p) (u_random p)"
proof -
  obtain s where v: "v = Str s" and pat: "uuid7_pattern s"
    and p: "p = parts_of_integer (hex_number (filter (\<lambda>c. c \<noteq> CHR ''-'') s))"
    using assms by (auto simp: uuid_parts_of_def split: jv.splits if_splits)
  define A B C D E where "A = take 8 s" and "B = take 4 (drop 9 s)" and "C = take 3 (drop 15 s)"
    and "D = take 3 (drop 20 s)" and "E = drop 24 s"
  define V where "V = s ! 19"
  have len: "length s = 36" using pat by (simp add: uuid7_pattern_def)
  have d: "drop k s = s ! k # drop (Suc k) s" if "k < 36" for k
    using that len by (simp add: Cons_nth_drop_Suc)
  have t: "drop k s = take n (drop k s) @ drop (k + n) s" for k n
    using append_take_drop_id[of n "drop k s"] by (simp add: add.commute)
  have "s = A @ drop 8 s" by (simp add: A_def)
  also have "drop 8 s = CHR ''-'' # B @ CHR ''-'' # CHR ''7'' # C @ CHR ''-'' # V # D @ CHR ''-'' # E"
    using d[of 8] t[of 9 4] d[of 13] d[of 14] t[of 15 3] d[of 18] d[of 19] t[of 20 3] d[of 23] pat
    by (simp add: uuid7_pattern_def B_def C_def D_def E_def V_def)
  finally have s: "s = A @ CHR ''-'' # B @ CHR ''-'' # CHR ''7'' # C @ CHR ''-'' # V # D @ CHR ''-'' # E" .
  have hex: "list_all is_hex A" "list_all is_hex B" "list_all is_hex C" "list_all is_hex D"
    "list_all is_hex E" "V \<in> set ''89abAB''"
    using pat unfolding uuid7_pattern_def A_def B_def C_def D_def E_def V_def by blast+
  have keep: "filter (\<lambda>c. c \<noteq> CHR ''-'') x = x" if "list_all is_hex x" for x
    using that is_hex_dash by (intro filter_True) (fastforce simp: list_all_iff)
  have "V \<noteq> CHR ''-''" using hex(6) by auto
  then have f: "filter (\<lambda>c. c \<noteq> CHR ''-'') s = A @ B @ ''7'' @ C @ [V] @ D @ E"
    by (subst s) (simp add: keep hex(1-5))
  define a b c d e w where "a = hex_number A" and "b = hex_number B" and "c = hex_number C"
    and "d = hex_number D" and "e = hex_number E" and "w = hex_val V - 8"
  have lens: "length A = 8" "length B = 4" "length C = 3" "length D = 3" "length E = 12"
    by (simp_all add: A_def B_def C_def D_def E_def len)
  have bnd: "0 \<le> a" "a < 16 ^ 8" "0 \<le> b" "b < 16 ^ 4" "0 \<le> c" "c < 16 ^ 3" "0 \<le> d" "d < 16 ^ 3"
    "0 \<le> e" "e < 16 ^ 12"
    using hex_number_bounds[OF hex(1)] hex_number_bounds[OF hex(2)] hex_number_bounds[OF hex(3)]
      hex_number_bounds[OF hex(4)] hex_number_bounds[OF hex(5)]
    by (simp_all add: a_def b_def c_def d_def e_def lens)
  have w: "0 \<le> w" "w < 4"
    using hex(6) by (auto simp: w_def hex_val_def)
  have i: "hex_number (filter (\<lambda>c. c \<noteq> CHR ''-'') s)
      = (a * 16 ^ 4 + b) * 2 ^ 80 + 7 * 2 ^ 76 + c * 2 ^ 64 + 2 * 2 ^ 62 + (w * 2 ^ 60 + d * 16 ^ 12 + e)"
    unfolding f hex_number_append
    by (simp add: lens a_def b_def c_def d_def e_def w_def hex_number_def[of "''7''"] hex_number_def[of "[V]"]
      hex_val_def[of "CHR ''7''"])
  define T R where "T = a * 16 ^ 4 + b" and "R = c * 2 ^ 62 + (w * 2 ^ 60 + d * 16 ^ 12 + e)"
  have T: "0 \<le> T" "T \<le> MAX_TIMESTAMP_MS"
    using bnd by (simp_all add: T_def MAX_TIMESTAMP_MS_def)
  have low: "0 \<le> w * 2 ^ 60 + d * 16 ^ 12 + e" "w * 2 ^ 60 + d * 16 ^ 12 + e < 2 ^ 62"
    using bnd w by simp_all
  have R: "0 \<le> R" "R \<le> RANDOM_MAX" using bnd low by (simp_all add: R_def RANDOM_MAX_eq)
  have "R div 2 ^ 62 = c" "R mod 2 ^ 62 = w * 2 ^ 60 + d * 16 ^ 12 + e"
    using low int_div_pos_eq[of R "2 ^ 62" c "w * 2 ^ 60 + d * 16 ^ 12 + e"]
      int_mod_pos_eq[of R "2 ^ 62" c "w * 2 ^ 60 + d * 16 ^ 12 + e"]
    by (simp_all add: R_def mult.commute)
  then have "hex_number (filter (\<lambda>c. c \<noteq> CHR ''-'') s) = uuid_integer T R"
    unfolding i uuid_integer_sum[OF R] T_def by simp
  then have "p = \<lparr>u_integer = uuid_integer T R, u_timestamp = T, u_random = R\<rparr>"
    unfolding p by (simp add: parts_of_uuid_integer[OF T(1) R])
  then show "0 \<le> u_timestamp p" "u_timestamp p \<le> MAX_TIMESTAMP_MS" "0 \<le> u_random p" "u_random p \<le> RANDOM_MAX"
    "u_integer p = uuid_integer (u_timestamp p) (u_random p)"
    using T R by simp_all
qed

section \<open>Reservation\<close>

text \<open>The order in which the client compares identifiers: their 128-bit value.\<close>

definition uuid_key :: "string \<Rightarrow> int" where
  "uuid_key s = (case uuid_parts_of (Str s) of Inr p \<Rightarrow> u_integer p | Inl _ \<Rightarrow> -1)"

lemma uuid_key_from_parts: "from_parts (jint t) r = Inr s \<Longrightarrow> uuid_key s = uuid_integer t r"
  by (simp add: uuid_key_def parts_from_parts)

lemma consecutive_elem:
  assumes "consecutive t r n = Inr ids" "k < length ids"
  shows "from_parts (jint t) (r + int k) = Inr (ids ! k)"
proof -
  have "list_all2 (\<lambda>k s. from_parts (jint t) (r + int k) = Inr s) [0..<nat n] ids"
    using assms(1) unfolding consecutive_def by (rule mapr_list_all2)
  with assms(2) show ?thesis by (simp add: list_all2_conv_all_nth)
qed

lemma consecutive_length: "consecutive t r n = Inr ids \<Longrightarrow> length ids = nat n"
  by (auto simp: consecutive_def dest: mapr_length)

lemma consecutive_increasing:
  assumes "consecutive t r n = Inr ids"
  shows "sorted_wrt (\<lambda>a b. uuid_key a < uuid_key b) ids"
  unfolding sorted_wrt_iff_nth_less
proof (intro allI impI)
  fix i j assume ij: "i < j" "j < length ids"
  then have f: "from_parts (jint t) (r + int i) = Inr (ids ! i)"
    "from_parts (jint t) (r + int j) = Inr (ids ! j)"
    using consecutive_elem[OF assms] by auto
  then show "uuid_key (ids ! i) < uuid_key (ids ! j)"
    unfolding uuid_key_from_parts[OF f(1)] uuid_key_from_parts[OF f(2)]
    using ij by (intro uuid_integer_mono) (auto simp: from_parts_Inr_iff)
qed

lemma consecutive_above:
  assumes "consecutive t r n = Inr ids" "i \<in> set ids"
    and "0 \<le> r'" "r' \<le> RANDOM_MAX" "t' < t \<or> t' = t \<and> r' < r"
  shows "uuid_integer t' r' < uuid_key i"
proof -
  obtain k where k: "k < length ids" "i = ids ! k" using assms(2) by (auto simp: in_set_conv_nth)
  have f: "from_parts (jint t) (r + int k) = Inr i" using consecutive_elem[OF assms(1) k(1)] k(2) by simp
  show ?thesis
    unfolding uuid_key_from_parts[OF f]
    using assms(3-5) f by (intro uuid_integer_mono) (auto simp: from_parts_Inr_iff)
qed

lemma random_batch_consecutive:
  "random_batch_from left k t n fill = Inr ids \<Longrightarrow> \<exists>r. consecutive t r n = Inr ids"
  by (induction left k t n fill rule: random_batch_from.induct) (auto simp: res_simps split: if_splits)

lemma latest_pending_max:
  assumes "latest_pending l is = q"
  shows "case q of None \<Rightarrow> l = None \<and> (\<forall>i\<in>set is. \<forall>p. uuid_parts_of i \<noteq> Inr p)
    | Some m \<Rightarrow> (\<forall>p. l = Some p \<longrightarrow> u_integer p \<le> u_integer m)
        \<and> (\<forall>i\<in>set is. \<forall>p. uuid_parts_of i = Inr p \<longrightarrow> u_integer p \<le> u_integer m)
        \<and> (l = Some m \<or> (\<exists>i\<in>set is. uuid_parts_of i = Inr m))"
  using assms
proof (induction "is" arbitrary: l)
  case Nil
  then show ?case by (auto split: option.splits)
next
  case (Cons i "is")
  show ?case
  proof (cases "uuid_parts_of i")
    case (Inl e)
    then have "latest_pending l is = q" using Cons.prems by simp
    from Cons.IH[OF this] Inl show ?thesis by (auto split: option.splits)
  next
    case (Inr p)
    let ?l = "case l of None \<Rightarrow> Some p | Some l \<Rightarrow> Some (if u_integer p > u_integer l then p else l)"
    have "latest_pending ?l is = q" using Cons.prems Inr by simp
    from Cons.IH[OF this] Inr show ?thesis by (cases l; cases q) (auto split: if_splits)
  qed
qed

text \<open>What the reservation continues: the greatest identifier it knows of.\<close>

definition continues :: "int \<Rightarrow> jv \<Rightarrow> jv list \<Rightarrow> string list \<Rightarrow> bool" where
  "continues n stored pending ids \<longleftrightarrow> (\<exists>(m :: uuid_parts) t r. consecutive t r n = Inr ids
     \<and> 0 \<le> u_random m \<and> u_random m \<le> RANDOM_MAX
     \<and> u_integer m = uuid_integer (u_timestamp m) (u_random m)
     \<and> (u_timestamp m < t \<or> u_timestamp m = t \<and> u_random m < r)
     \<and> (\<forall>i\<in>insert stored (set pending). \<forall>p. uuid_parts_of i = Inr p \<longrightarrow> u_integer p \<le> u_integer m))"

definition starts_fresh :: "int \<Rightarrow> jv \<Rightarrow> jv list \<Rightarrow> string list \<Rightarrow> bool" where
  "starts_fresh n stored pending ids \<longleftrightarrow> (\<exists>t r. consecutive t r n = Inr ids
     \<and> (\<forall>i\<in>insert stored (set pending). \<forall>p. uuid_parts_of i \<noteq> Inr p))"

lemma reserve_previous:
  assumes "reserve_uuid7 (jint t) n stored pending fill = Inr ids"
  shows "starts_fresh n stored pending ids \<or> continues n stored pending ids"
proof -
  define lp where "lp = latest_pending None pending"
  note lp = latest_pending_max[OF lp_def[symmetric]]
  obtain sp where sp: "(if nullish stored then Inr None else bindr (uuid_parts_of stored) (\<lambda>p. Inr (Some p))) = Inr sp"
    and newer: "\<not> (case (sp, lp) of (Some s, Some p) \<Rightarrow> u_integer p > u_integer s | _ \<Rightarrow> False)"
    and seq: "bindr (sequential (case sp of None \<Rightarrow> lp | Some s \<Rightarrow> Some s) t n)
        (\<lambda>seq. case seq of Some ids \<Rightarrow> Inr ids | None \<Rightarrow> random_batch t n fill) = Inr ids"
    using assms unfolding reserve_uuid7_def lp_def[symmetric]
    by (auto simp: bindr_Inr_iff Let_def split: if_splits)
  have stored: "uuid_parts_of stored = Inr p \<Longrightarrow> sp = Some p" for p
    using sp by (cases stored) (auto simp: uuid_parts_of_def)
  have sp_parts: "uuid_parts_of stored = Inr s" if "sp = Some s" for s
    using sp that by (auto simp: res_simps split: if_splits)
  define prev where "prev = (case sp of None \<Rightarrow> lp | Some s \<Rightarrow> Some s)"
  show ?thesis
  proof (cases prev)
    case None
    then have "sp = None" "lp = None" by (auto simp: prev_def split: option.splits)
    then have "\<forall>i\<in>insert stored (set pending). \<forall>p. uuid_parts_of i \<noteq> Inr p"
      using lp stored by auto
    moreover have "random_batch t n fill = Inr ids"
      using seq None unfolding prev_def[symmetric] by (simp add: sequential_def)
    then obtain r where "consecutive t r n = Inr ids"
      unfolding random_batch_def using random_batch_consecutive by blast
    ultimately show ?thesis unfolding starts_fresh_def by blast
  next
    case (Some m)
    have "\<exists>i. uuid_parts_of i = Inr m"
      using Some lp sp_parts by (cases sp) (auto simp: prev_def)
    then obtain i where "uuid_parts_of i = Inr m" by blast
    note wf = uuid_parts_of_wf[OF this]
    have max: "\<forall>i\<in>insert stored (set pending). \<forall>p. uuid_parts_of i = Inr p \<longrightarrow> u_integer p \<le> u_integer m"
    proof (cases sp)
      case None
      then have "lp = Some m" using Some by (simp add: prev_def)
      then show ?thesis using lp stored None by auto
    next
      case (Some s)
      then have "s = m" using \<open>prev = Some m\<close> by (simp add: prev_def)
      moreover have "sp = Some m" using Some \<open>s = m\<close> by simp
      ultimately have "uuid_parts_of stored = Inr p \<Longrightarrow> u_integer p \<le> u_integer m" for p
        using stored by auto
      moreover have "i \<in> set pending \<Longrightarrow> uuid_parts_of i = Inr p \<Longrightarrow> u_integer p \<le> u_integer m" for i p
        using lp newer \<open>sp = Some m\<close> by (cases lp) fastforce+
      ultimately show ?thesis by blast
    qed
    show ?thesis
    proof (cases "t > u_timestamp m")
      case True
      then have "random_batch t n fill = Inr ids"
        using seq Some unfolding prev_def[symmetric] by (simp add: sequential_def)
      then obtain r where "consecutive t r n = Inr ids"
        unfolding random_batch_def using random_batch_consecutive by blast
      then show ?thesis unfolding continues_def using True wf(3-5) max by blast
    next
      case False
      then have "consecutive (u_timestamp m) (u_random m + 1) n = Inr ids"
        using seq Some unfolding prev_def[symmetric] by (auto simp: sequential_def res_simps split: if_splits)
      then show ?thesis unfolding continues_def using wf(3-5) max zless_add1_eq by blast
    qed
  qed
qed

text \<open>
  C12: an identifier printed from a timestamp and a random value is read back as exactly
  that timestamp and random value, and its 128-bit value grows with the pair.
\<close>

theorem uuid_roundtrip:
  assumes "from_parts (jint t) r = Inr s" "from_parts (jint t') r' = Inr s'"
  shows "uuid_parts_of (Str s) = Inr \<lparr>u_integer = uuid_integer t r, u_timestamp = t, u_random = r\<rparr>
    \<and> (uuid_key s < uuid_key s' \<longleftrightarrow> t < t' \<or> t = t' \<and> r < r')"
proof -
  have r: "0 \<le> r" "r \<le> RANDOM_MAX" "0 \<le> r'" "r' \<le> RANDOM_MAX"
    using assms by (simp_all add: from_parts_Inr_iff)
  have "uuid_integer t r < uuid_integer t' r'" if "t < t' \<or> t = t' \<and> r < r'"
    by (rule uuid_integer_mono[OF r that])
  moreover have "uuid_integer t' r' < uuid_integer t r" if "t' < t \<or> t' = t \<and> r' < r"
    by (rule uuid_integer_mono[OF r(3,4,1,2) that])
  ultimately have "uuid_integer t r < uuid_integer t' r' \<longleftrightarrow> t < t' \<or> t = t' \<and> r < r'"
    by (metis linorder_less_linear order_less_asym)
  then show ?thesis
    using parts_from_parts[OF assms(1)] uuid_key_from_parts assms by simp
qed

theorem uuid_roundtrip_witness:
  "\<exists>s s'. from_parts (jint 1700000000000) 12345 = Inr s \<and> from_parts (jint 1700000000001) 0 = Inr s'
     \<and> uuid_parts_of (Str s) = Inr \<lparr>u_integer = uuid_integer 1700000000000 12345,
         u_timestamp = 1700000000000, u_random = 12345\<rparr> \<and> uuid_key s < uuid_key s'"
proof -
  have 1: "from_parts (jint 1700000000000) 12345 = Inr (uuid_text (uuid_integer 1700000000000 12345))"
    and 2: "from_parts (jint 1700000000001) 0 = Inr (uuid_text (uuid_integer 1700000000001 0))"
    by (simp_all add: from_parts_Inr_iff MAX_TIMESTAMP_MS_def RANDOM_MAX_eq)
  from uuid_roundtrip[OF 1 2] 1 2 show ?thesis by auto
qed

text \<open>
  C11: a reservation returns as many identifiers as asked for, each greater than the one
  before it, and all of them greater than the stored identifier and than every pending
  one of version 7: no reservation repeats an identifier the device has used.
\<close>

theorem reserve_uuid7_fresh:
  assumes "reserve_uuid7 (jint t) n stored pending fill = Inr ids"
  shows "length ids = nat n \<and> sorted_wrt (\<lambda>a b. uuid_key a < uuid_key b) ids
    \<and> (\<forall>i\<in>insert stored (set pending). \<forall>p. uuid_parts_of i = Inr p \<longrightarrow>
        (\<forall>x\<in>set ids. u_integer p < uuid_key x))"
proof -
  obtain t' r where c: "consecutive t' r n = Inr ids"
    using reserve_previous[OF assms] unfolding starts_fresh_def continues_def by blast
  have "u_integer p < uuid_key x"
    if i: "i \<in> insert stored (set pending)" "uuid_parts_of i = Inr p" and x: "x \<in> set ids" for i p x
  proof -
    obtain m :: uuid_parts and t r where m: "consecutive t r n = Inr ids" "0 \<le> u_random m" "u_random m \<le> RANDOM_MAX"
      "u_integer m = uuid_integer (u_timestamp m) (u_random m)"
      "u_timestamp m < t \<or> u_timestamp m = t \<and> u_random m < r" "u_integer p \<le> u_integer m"
      using reserve_previous[OF assms] i unfolding starts_fresh_def continues_def by blast
    have "u_integer m < uuid_key x"
      unfolding m(4) by (rule consecutive_above[OF m(1) x m(2,3,5)])
    with m(6) show ?thesis by simp
  qed
  then show ?thesis using consecutive_length[OF c] consecutive_increasing[OF c] by blast
qed

definition sample_entropy :: entropy where
  "sample_entropy k = Inr [1, 2, 3, 4, 5, 6, 7, 8, 9, 10]"

theorem reserve_uuid7_fresh_witness:
  "\<exists>s ids. from_parts (jint 1700000000000) 12345 = Inr s
     \<and> reserve_uuid7 (jint 1700000000000) 2 (Str s) [] sample_entropy = Inr ids
     \<and> length ids = 2 \<and> sorted_wrt (\<lambda>a b. uuid_key a < uuid_key b) ids
     \<and> (\<forall>x\<in>set ids. uuid_key s < uuid_key x)"
proof -
  let ?t = "1700000000000 :: int"
  define s where "s = uuid_text (uuid_integer ?t 12345)"
  have s: "from_parts (jint ?t) 12345 = Inr s"
    by (simp add: s_def from_parts_Inr_iff MAX_TIMESTAMP_MS_def RANDOM_MAX_eq)
  have 1: "from_parts (jint ?t) 12346 = Inr (uuid_text (uuid_integer ?t 12346))"
    and 2: "from_parts (jint ?t) 12347 = Inr (uuid_text (uuid_integer ?t 12347))"
    by (simp_all add: from_parts_Inr_iff MAX_TIMESTAMP_MS_def RANDOM_MAX_eq)
  have "[0..<2] = [0, 1 :: nat]" by (simp add: upt_rec)
  then have "consecutive ?t 12346 2 = Inr [uuid_text (uuid_integer ?t 12346), uuid_text (uuid_integer ?t 12347)]"
    using 1 2 by (simp add: consecutive_def)
  then obtain ids where ids: "consecutive ?t 12346 2 = Inr ids" by blast
  have r: "reserve_uuid7 (jint ?t) 2 (Str s) [] sample_entropy = Inr ids"
    using ids by (simp add: reserve_uuid7_def parts_from_parts[OF s] safe_int_bounds MAX_TIMESTAMP_MS_def
      RANDOM_MAX_eq sequential_def)
  have "uuid_key s = uuid_integer ?t 12345" by (rule uuid_key_from_parts[OF s])
  with reserve_uuid7_fresh[OF r] r s parts_from_parts[OF s] show ?thesis by auto
qed

end
