(* ===== verification/StorageCore.thy ===== *)
theory StorageCore
  imports StorageProof Uuid
begin

text \<open>
  The functions of \<open>web/sync-storage.js\<close> that call the shared Core: the workspace
  operations with the persisted display context checked first, the migration plan for
  legacy timer dependencies, mutation and completion requests, projection, and
  reconciliation of a server response with the retained queues. The Core instance, the
  time zone, the clock, the generators of identifiers and the caller's \<open>assertCurrent\<close>
  are fields of an environment. \<open>Date.now()\<close> is read once for a call, and
  \<open>assertCurrent\<close> has one answer during a synchronous callback.
\<close>

section \<open>The environment\<close>

text \<open>A loaded instance: \<open>call\<close> if it is a function, and the named methods it has.\<close>

record adapter =
  a_call :: "core_call option"
  a_method :: "string \<Rightarrow> (jv \<Rightarrow> jv res) option"

record env =
  e_shared :: "adapter option"
  e_given :: "adapter option"
  e_day :: local_day
  e_now :: int
  e_current :: "unit res"
  e_random_uuid :: string
  e_entropy :: entropy

definition core_unavailable :: js_error where
  "core_unavailable = Error ''Official workspace Core is unavailable.''"

definition call_on :: "adapter option \<Rightarrow> core_call" where
  "call_on instance operation input = (case instance of
     None \<Rightarrow> Inl core_unavailable
   | Some a \<Rightarrow> (case a_call a of None \<Rightarrow> Inl core_unavailable | Some call \<Rightarrow> call operation input))"

text \<open>\<open>callWorkspaceCore(operation, input)\<close>, and with \<open>input.sharedCore || sharedCore\<close>\<close>

definition call_workspace_core :: "env \<Rightarrow> core_call" where
  "call_workspace_core env = call_on (e_shared env)"

definition effective_core :: "env \<Rightarrow> adapter option" where
  "effective_core env = (case e_given env of None \<Rightarrow> e_shared env | Some a \<Rightarrow> Some a)"

definition call_given_core :: "env \<Rightarrow> core_call" where
  "call_given_core env = call_on (effective_core env)"

definition required_core_methods :: "string list" where
  "required_core_methods = [''projectSynchronizedState'', ''planBootstrap'', ''reconcileSynchronizedState'',
     ''planTimerCompletion'', ''tickHlc'']"

definition set_shared_core :: "adapter option \<Rightarrow> env \<Rightarrow> env res" where
  "set_shared_core instance env = (case instance of
     None \<Rightarrow> Inl (TypeError ''A loaded shared core instance is required.'')
   | Some a \<Rightarrow> if list_all (\<lambda>m. a_method a m \<noteq> None) required_core_methods
       then Inr (env\<lparr>e_shared := Some a\<rparr>)
       else Inl (TypeError ''A loaded shared core instance is required.''))"

definition shared_core_adapter :: "env \<Rightarrow> string \<Rightarrow> string \<Rightarrow> (adapter \<times> (jv \<Rightarrow> jv res)) res" where
  "shared_core_adapter env method message = (case effective_core env of
     None \<Rightarrow> Inl (Error message)
   | Some a \<Rightarrow> (case a_method a method of None \<Rightarrow> Inl (Error message) | Some f \<Rightarrow> Inr (a, f)))"

section \<open>Records\<close>

definition set_field :: "string \<Rightarrow> jv \<Rightarrow> records \<Rightarrow> records" where
  "set_field k v rec = rec\<lparr>r_field := (r_field rec)(k := v)\<rparr>"

lemma set_field_simps [simp]:
  "r_field (set_field k v rec) = (r_field rec)(k := v)" "r_queue (set_field k v rec) = r_queue rec"
  by (simp_all add: set_field_def)

definition rec_queues :: "records \<Rightarrow> jv" where
  "rec_queues rec = queues_value (\<lambda>d. objs (r_queue rec d))"

lemma getp_rec_queues [simp]: "getp (rec_queues rec) (domain_name d) = objs (r_queue rec d)"
  by (simp add: rec_queues_def)

text \<open>\<open>records.outgoingSync?.sent || records.outgoing?.sent\<close>\<close>

definition rec_sent :: "records \<Rightarrow> jv" where
  "rec_sent rec = or_else (getp (r_field rec ''outgoingSync'') ''sent'') (getp (r_field rec ''outgoing'') ''sent'')"

text \<open>The time value of a number of milliseconds, as \<open>toISOString\<close> requires it.\<close>

definition time_value :: "jv \<Rightarrow> int res" where
  "time_value v = (case date_value v of
     None \<Rightarrow> Inl (RangeError ''Invalid time value'') | Some ms \<Rightarrow> Inr ms)"

definition rec_owner :: "records \<Rightarrow> jv res" where
  "rec_owner rec = account_owner_id (getp (r_field rec ''snapshot'') ''user'')"

section \<open>Legacy dependencies and the persisted display context\<close>

definition dependency_plan :: "env \<Rightarrow> records \<Rightarrow> jv \<Rightarrow> jv \<Rightarrow> jv \<Rightarrow> jv res" where
  "dependency_plan env rec device now expected =
     bindr (rec_owner rec) (\<lambda>owner.
     bindr (time_value (coalesce now (jint (e_now env)))) (\<lambda>now_ms.
     bindr (dependency_request (e_day env) rec
         (or_else (or_else device (r_field rec ''deviceId'')) (Str ''legacy-web'')) expected owner now_ms) (\<lambda>request.
     call_workspace_core env ''workspace.legacyDependencyPlan.v1'' request)))"

text \<open>With the owner of the snapshot as the expected owner, and blocked plans thrown.\<close>

definition unblocked_dependency_plan :: "env \<Rightarrow> records \<Rightarrow> jv \<Rightarrow> jv \<Rightarrow> jv res" where
  "unblocked_dependency_plan env rec device now =
     bindr (rec_owner rec) (\<lambda>owner.
     bindr (dependency_plan env rec device now owner) (\<lambda>plan.
     bindr (dot plan ''outcome'') (\<lambda>outcome.
     if outcome = Str ''blocked'' then Inl (LegacyDependencyRecoveryError (getp plan ''recovery'')) else Inr plan)))"

definition validated_timer_dependencies :: "env \<Rightarrow> records \<Rightarrow> jv \<Rightarrow> jv \<Rightarrow> jv res" where
  "validated_timer_dependencies env rec device now =
     (if \<not> nullish (r_field rec ''timerDependencies'') then Inr (r_field rec ''timerDependencies'')
      else bindr (unblocked_dependency_plan env rec device now) (\<lambda>plan. Inr (getp plan ''timerDependencies'')))"

definition bootstrap_workspace :: "env \<Rightarrow> records \<Rightarrow> jv res" where
  "bootstrap_workspace env rec =
     bindr (time_value (r_field rec ''nowMs'')) (\<lambda>now.
     bindr (bootstrap_request rec (r_field rec ''deviceId'')
         (coalesce (r_field rec ''timerDependencies'') (Arr [])) (r_field rec ''currentUserId'') now
         (or_else (r_field rec ''defaultDurationsMs'') DEFAULT_DURATIONS)) (\<lambda>request.
     call_workspace_core env ''bootstrap.workspacePlan.v1'' request))"

definition rec_never_sent :: "records \<Rightarrow> proof_ids res" where
  "rec_never_sent rec = never_sent_from_proof (r_field rec ''deliveryProof'') (rec_queues rec) (rec_sent rec)"

definition has_legacy_records :: "records \<Rightarrow> bool" where
  "has_legacy_records rec \<longleftrightarrow>
     list_ex (\<lambda>d. list_ex (\<lambda>item. \<not> has_own (Obj item) ''deviceId'') (r_queue rec d)) DOMAINS"

definition display_context_check :: "env \<Rightarrow> records \<Rightarrow> jv \<Rightarrow> jv \<Rightarrow> unit res" where
  "display_context_check env rec device owner =
     (if has_legacy_records rec
      then bindr (unblocked_dependency_plan env rec device (jint (e_now env))) (\<lambda>_. Inr ())
      else bindr (rec_never_sent rec) (\<lambda>never_sent.
        bindr (bootstrap_workspace env
          (set_field ''deliveryProof'' (proof_value never_sent) (set_field ''deviceId'' device
          (set_field ''ownerId'' owner (set_field ''currentUserId'' owner
          (set_field ''remote'' (workspace_base (r_field rec ''snapshot''))
          (set_field ''nowMs'' (jint (e_now env)) (set_field ''defaultDurationsMs'' DEFAULT_DURATIONS rec))))))))
          (\<lambda>_. Inr ())))"

text \<open>
  \<open>assertPersistedDisplayContext\<close>: the Core must accept the display context that is stored;
  what it or the dependency plan throws is wrapped.
\<close>

definition assert_persisted_display_context :: "env \<Rightarrow> records \<Rightarrow> jv \<Rightarrow> unit res" where
  "assert_persisted_display_context env rec device =
     (if nullish (r_field rec ''projectionPending'') then Inr ()
      else bindr (rec_owner rec) (\<lambda>owner.
        case display_context_check env rec (if device = Undef then r_field rec ''deviceId'' else device)
            (or_else owner Null) of
          Inl e \<Rightarrow> Inl (PersistedDisplayContextError e) | Inr u \<Rightarrow> Inr u))"

section \<open>Workspace operations\<close>

definition workspace_records :: "env \<Rightarrow> records \<Rightarrow> jv res" where
  "workspace_records env rec =
     bindr (assert_persisted_display_context env rec (r_field rec ''deviceId'')) (\<lambda>_.
     bindr (rec_never_sent rec) (\<lambda>never_sent.
     let rec' = set_field ''deliveryProof'' (proof_value never_sent) rec in
     bindr (validated_timer_dependencies env rec' (r_field rec ''deviceId'')
       (coalesce (r_field rec ''nowMs'') (jint (e_now env)))) (\<lambda>dependencies.
     Inr (workspace rec' (r_field rec ''deviceId'') dependencies))))"

definition read_workspace :: "env \<Rightarrow> records \<Rightarrow> jv res" where
  "read_workspace env rec =
     bindr (workspace_records env rec) (\<lambda>raw.
     let context = completion_context rec in
     bindr (dot (fld context ''selection'') ''phase'') (\<lambda>phase.
     bindr (time_value (r_field rec ''nowMs'')) (\<lambda>now.
     bindr (read_request (e_day env) raw phase now (coalesce (r_field rec ''monotonic'') Null) context) (\<lambda>request.
     call_workspace_core env ''workspace.readModel.v1'' request))))"

definition initial_observation :: jv where
  "initial_observation = Obj [(''canonicalAnchorAt'', Null), (''commandTimes'', Obj [])]"

definition observe_workspace :: "env \<Rightarrow> records \<Rightarrow> jv res" where
  "observe_workspace env rec =
     bindr (iso_of (r_field rec ''nowMs'')) (\<lambda>stamp.
     bindr (workspace_records env rec) (\<lambda>raw.
     call_workspace_core env ''workspace.intent.v1'' (Obj
       ([(''compatibility'', Str ''pwaStorage''), (''replicationMode'', Str ''centralized''),
         (''intent'', Obj [(''kind'', Str ''restart'')]), (''workspace'', raw)]
        @ completion_context rec @
        [(''allocation'', Obj [(''deviceId'', r_field rec ''deviceId''),
            (''deviceSequence'', r_field rec ''deviceSequence''), (''hlc'', r_field rec ''hlc''),
            (''lastUuid'', coalesce (r_field rec ''uuidV7'') Null)]),
         (''observation'', or_else (r_field rec ''workspaceObservation'') initial_observation),
         (''clock'', Obj ([(''occurredAt'', stamp), (''physicalNow'', stamp), (''observedAt'', stamp)]
            @ (if nullish (r_field rec ''monotonicMs'') then []
               else [(''monotonicNowMs'', r_field rec ''monotonicMs''),
                     (''continuityId'', r_field rec ''continuityId'')]))),
         (''identities'', Obj [(''commandUuids'', Arr []), (''timerUuid'', Null)]),
         (''calendarIntervals'', Arr [])]))))"

definition project_workspace :: "env \<Rightarrow> records \<Rightarrow> jv res" where
  "project_workspace env rec =
     bindr (workspace_records env rec) (\<lambda>raw.
     bindr (iso_of (r_field rec ''nowMs'')) (\<lambda>stamp.
     call_workspace_core env ''workspace.project.v1'' (Obj (obj_put ''now'' stamp (as_obj raw)))))"

text \<open>\<open>acknowledgements.map(({ commandId, outcome }) => ({ commandId, outcome }))\<close>\<close>

definition acknowledged_outcomes :: "jv \<Rightarrow> jv res" where
  "acknowledged_outcomes v = (case v of
     Arr as \<Rightarrow> bindr (mapr (\<lambda>a. bindr (dot a ''commandId'') (\<lambda>i.
         Inr (Obj [(''commandId'', i), (''outcome'', getp a ''outcome'')]))) as) (\<lambda>rows. Inr (Arr rows))
   | _ \<Rightarrow> Inl (TypeError ''acknowledgements.map is not a function''))"

definition completion_selection :: "env \<Rightarrow> obj \<Rightarrow> jv res" where
  "completion_selection env input =
     (let history = or_else (fld input ''history'') (Arr []);
          reference = fld input ''referenceTime'' in
     bindr (list_or_empty (fld input ''commands'')) (\<lambda>commands.
     bindr (if truthy reference then Inr reference else iso (e_now env)) (\<lambda>stamp.
     bindr (acknowledged_outcomes (fld input ''acknowledgements'')) (\<lambda>acknowledgements.
     bindr (mapr (\<lambda>c. dot c ''occurredAt'') commands) (\<lambda>times.
     bindr (calendar_intervals (e_day env) (stamp # times)) (\<lambda>intervals.
     call_workspace_core env ''timer.completionState.v1'' (Obj
       ([(''kind'', Str ''install''), (''compatibility'', Str ''pwaRejectedFinish''),
         (''beforeHistory'', or_else (fld input ''beforeHistory'') (Arr [])),
         (''afterHistory'', or_else (fld input ''afterHistory'') history),
         (''canonicalTimer'', or_else (fld input ''canonicalTimer'') Null)]
        @ completion_context \<lparr>r_field = fld input, r_queue = (\<lambda>_. [])\<rparr> @
        [(''pending'', Obj
           [(''commandIds'', or_else (fld input ''pendingCommandIds'') (Arr [])),
            (''sendableCommandIds'', or_else (fld input ''sendableCommandIds'') (Arr [])),
            (''otherOperationIds'', or_else (fld input ''otherOperationIds'') (Arr []))]),
         (''advances'', Arr []), (''acknowledgements'', acknowledgements),
         (''discardedCommandIds'', or_else (fld input ''discardedCommandIds'') (Arr [])),
         (''referenceTime'', stamp), (''calendarIntervals'', intervals),
         (''sentContext'', Obj [(''kind'', Str ''pwa''), (''commands'', Arr commands),
           (''rollbackHistory'', history)])]))))))))"

section \<open>Mutations\<close>

definition account_error :: js_error where
  "account_error = AccountOwnershipError ''Canonical account changed before sync apply.''"

definition gate_error :: js_error where
  "gate_error = BootstrapGateError ''History resolution blocks local changes.''"

text \<open>\<open>Object.hasOwn(input, "ownerId") ? input.ownerId : input.expectedUserId ?? null\<close>\<close>

definition input_owner :: "obj \<Rightarrow> jv" where
  "input_owner input = (if has_own (Obj input) ''ownerId'' then fld input ''ownerId''
     else coalesce (fld input ''expectedUserId'') Null)"

definition assert_workspace_context :: "env \<Rightarrow> records \<Rightarrow> obj \<Rightarrow> unit res" where
  "assert_workspace_context env rec input =
     bindr (e_current env) (\<lambda>_.
     bindr (assert_account_ownership (r_field rec ''snapshot'') (input_owner input)) (\<lambda>_.
     bindr (ensure (\<not> truthy (r_field rec ''bootstrapGate'') \<and> \<not> truthy (r_field rec ''bootstrapResolution''))
       gate_error) (\<lambda>_.
     bindr (ensure (nullish (r_field rec ''deviceId'')
         \<or> strict_eq (r_field rec ''deviceId'') (fld input ''deviceId'')) account_error) (\<lambda>_.
     ensure (nonempty_string (fld input ''deviceId'')) account_error))))"

definition workspace_identity_count :: "obj \<Rightarrow> int" where
  "workspace_identity_count input =
     (if getp (fld input ''intent'') ''kind'' = Str ''renameTask'' then 4
      else if truthy (fld input ''preference'') then 3 else 2)"

definition in_flight_ids :: "obj \<Rightarrow> jv list res" where
  "in_flight_ids input = spread_list (fld input ''inFlightDurationOperationIds'')"

text \<open>The workspace with the duration operations in flight taken out of the proof.\<close>

definition without_in_flight :: "jv list \<Rightarrow> jv \<Rightarrow> jv" where
  "without_in_flight in_flight raw =
     (let proved = getp raw ''neverSent'' in
      Obj (obj_put ''neverSent'' (Obj (obj_put ''durationOperations''
        (Arr (filter (\<lambda>i. i \<notin> set in_flight) (list_if_array (getp proved ''durationOperations''))))
        (as_obj proved))) (as_obj raw)))"

definition rec_ids :: "records \<Rightarrow> jv list" where
  "rec_ids rec = concat (map (\<lambda>d. map (\<lambda>item. fld item ''id'') (r_queue rec d)) DOMAINS)"

definition workspace_mutation_request :: "env \<Rightarrow> records \<Rightarrow> obj \<Rightarrow> obj res" where
  "workspace_mutation_request env rec input =
     bindr (workspace_records env rec) (\<lambda>raw.
     bindr (in_flight_ids input) (\<lambda>in_flight.
     let now = fld input ''nowMs'';
         hlc = coalesce (r_field rec ''hlc'') (Obj [(''wallMs'', jint 0), (''counter'', jint 0)]);
         last_uuid = coalesce (r_field rec ''uuidV7'') Null in
     bindr (call_given_core env ''hlc.tick.v1'' (Obj [(''local'', hlc), (''physicalNowMs'', now)])) (\<lambda>tick.
     bindr (dot tick ''wallMs'') (\<lambda>wall.
     bindr (reserve_uuid7 wall (workspace_identity_count input) last_uuid (rec_ids rec) (e_entropy env)) (\<lambda>uuids.
     bindr (iso_of now) (\<lambda>stamp.
     bindr (calendar_intervals (e_day env) (now # map (\<lambda>c. fld c ''occurredAt'') (r_queue rec Commands))) (\<lambda>intervals.
     Inr ([(''compatibility'', Str ''pwaStorage''), (''replicationMode'', Str ''centralized''),
           (''workspace'', without_in_flight in_flight raw)]
        @ completion_context rec @
        [(''allocation'', Obj [(''deviceId'', r_field rec ''deviceId''),
            (''deviceSequence'', coalesce (r_field rec ''deviceSequence'') (jint 0)),
            (''hlc'', hlc), (''lastUuid'', last_uuid)]),
         (''observation'', or_else (r_field rec ''workspaceObservation'') initial_observation),
         (''clock'', Obj ([(''occurredAt'', stamp), (''physicalNow'', stamp), (''observedAt'', stamp)]
            @ (if truthy (fld input ''continuityId'') then [(''continuityId'', fld input ''continuityId'')] else [])
            @ (if nullish (fld input ''monotonicMs'') then [] else [(''monotonicNowMs'', fld input ''monotonicMs'')]))),
         (''identities'', Obj [(''commandUuids'', Arr (map Str uuids)), (''timerUuid'', fld input ''timerUuid'')]),
         (''calendarIntervals'', intervals)]
        @ (if truthy (fld input ''requestedTimer'') then [(''requestedTimer'', fld input ''requestedTimer'')] else [])))))))))"

text \<open>\<open>v?.map((item) => item.id) || []\<close>\<close>

definition optional_ids :: "jv \<Rightarrow> jv list res" where
  "optional_ids v = (if nullish v then Inr [] else (case v of
     Arr items \<Rightarrow> mapr (\<lambda>item. dot item ''id'') items
   | _ \<Rightarrow> Inl (TypeError ''map is not a function'')))"

definition mutation_durability :: "records \<Rightarrow> obj \<Rightarrow> obj res" where
  "mutation_durability rec input =
     bindr (optional_ids (getp (getp (r_field rec ''outgoingSync'') ''sent'') ''durationOperations'')) (\<lambda>sent_ids.
     bindr (rec_owner rec) (\<lambda>owner.
     bindr (in_flight_ids input) (\<lambda>in_flight.
     Inr [(''ownership'', Obj [(''expectedOwnerId'', input_owner input), (''ownerId'', owner)]),
          (''durability'', Obj [(''outgoingDurationOperationIds'', Arr (uniq (sent_ids @ in_flight))),
            (''localTabId'', fld input ''tabId'')])])))"

definition encode_selected_batch :: "(domain \<Rightarrow> obj list) \<Rightarrow> domain \<Rightarrow> obj list" where
  "encode_selected_batch selected d = map (request_operation d) (selected d)"

definition sent_value :: "(domain \<Rightarrow> obj list) \<Rightarrow> jv" where
  "sent_value sent = queues_value (\<lambda>d. objs (sent d))"

definition select_workspace_batch ::
  "env \<Rightarrow> records \<Rightarrow> jv \<Rightarrow> jv \<Rightarrow> jv \<Rightarrow> jv \<Rightarrow> (jv \<times> (domain \<Rightarrow> obj list)) res" where
  "select_workspace_batch env rec device cursor limits mode =
     bindr (batch_request (r_queue rec) device (coalesce (r_field rec ''timerDependencies'') (Arr [])) cursor mode limits)
       (\<lambda>request.
     bindr (call_workspace_core env ''sync.batchPlan.v1'' request) (\<lambda>plan.
     bindr (selected_records plan (r_queue rec)) (\<lambda>selected.
     Inr (plan, encode_selected_batch selected))))"

section \<open>Projection and bootstrap plans\<close>

definition project_state :: "env \<Rightarrow> obj \<Rightarrow> jv res" where
  "project_state env input =
     bindr (shared_core_adapter env ''projectSynchronizedState''
       ''Shared core is unavailable for synchronized projection.'') (\<lambda>(dispatcher, project).
     bindr (ensure (valid_integer (fld input ''nowMs'') 0)
       (RangeError ''Synchronized projection time is invalid.'')) (\<lambda>_.
     bindr (projection_queues (fld input ''queues'') (fld input ''deviceId'')) (\<lambda>pending.
     bindr (iso_of (fld input ''nowMs'')) (\<lambda>stamp.
     bindr (case a_call dispatcher of
         Some call \<Rightarrow> bindr (call ''workspace.project.v1'' (Obj
           [(''base'', workspace_base (fld input ''snapshot'')), (''local'', queues_value (\<lambda>d. Arr (pending d))),
            (''now'', stamp), (''canonicalHead'', coalesce (fld input ''canonicalHead'') Null),
            (''neverSent'', coalesce (fld input ''deliveryProof'') (Obj [])),
            (''timerDependencies'', coalesce (fld input ''timerDependencies'') (Arr [])),
            (''displayContext'', Obj [(''profile'', Str ''pwaStorage''),
              (''projectionPending'', coalesce (fld input ''projectionPending'') Null)])]))
           (\<lambda>v. dot v ''workspace'')
       | None \<Rightarrow> project (Obj [(''base'', projection_base (fld input ''snapshot'')),
           (''pending'', queues_value (\<lambda>d. Arr (pending d))), (''now'', stamp)])) (\<lambda>v.
     validate_projection_output v pending)))))"

definition bootstrap_plan :: "env \<Rightarrow> obj \<Rightarrow> jv res" where
  "bootstrap_plan env input =
     bindr (shared_core_adapter env ''planBootstrap'' ''Shared core is unavailable for bootstrap planning.'') (\<lambda>(_, plan).
     bindr (plan (Obj
       [(''localOwnerId'', or_else (fld input ''localOwnerId'') Null),
        (''currentUserId'', or_else (fld input ''currentUserId'') Null),
        (''localHistory'', Arr (list_if_array (fld input ''localHistory''))),
        (''remoteHistory'', Arr (list_if_array (fld input ''remoteHistory''))),
        (''hasLocalState'', Bool (fld input ''hasLocalState'' = Bool True)),
        (''hasRemoteState'', Bool (fld input ''hasRemoteState'' = Bool True))])) (\<lambda>v.
     validate_bootstrap_plan v))"

section \<open>Reconciliation\<close>

definition reconciled_field :: "domain \<Rightarrow> string" where
  "reconciled_field d = (case d of Commands \<Rightarrow> ''pending'' | TaskOperations \<Rightarrow> ''pendingTaskOperations''
     | DurationOperations \<Rightarrow> ''pendingDurationOperations''
     | AutoStartOperations \<Rightarrow> ''pendingAutoStartOperations''
     | SelectedTaskOperations \<Rightarrow> ''pendingSelectedTaskOperations'')"

definition reconciled_queues :: "jv \<Rightarrow> jv" where
  "reconciled_queues v = queues_value (\<lambda>d. getp v (reconciled_field d))"

definition reconcile_state :: "env \<Rightarrow> obj \<Rightarrow> obj res" where
  "reconcile_state env input =
     bindr (shared_core_adapter env ''reconcileSynchronizedState''
       ''Shared core is unavailable for synchronized reconciliation.'') (\<lambda>(_, reconcile).
     bindr (projection_queues (fld input ''queues'') (fld input ''deviceId'')) (\<lambda>local.
     let sent = or_else (fld input ''sent'') (Obj []);
         local_value = queues_value (\<lambda>d. Arr (local d)) in
     bindr (if truthy (fld input ''neverSent'') then Inr (fld input ''neverSent'')
       else bindr (never_sent_from_proof (fld input ''deliveryProof'') local_value sent) (\<lambda>p. Inr (proof_value p)))
       (\<lambda>never_sent.
     bindr (reconcile (Obj [(''local'', local_value), (''sent'', sent), (''response'', fld input ''response''),
         (''timerDependencies'', coalesce (fld input ''timerDependencies'') (Arr [])),
         (''neverSent'', never_sent),
         (''displayContext'', Obj [(''profile'', Str ''pwaStorage''),
           (''projectionPending'', coalesce (fld input ''projectionPending'') Null)])])) (\<lambda>v.
     bindr (ensure (getp v ''schemaVersion'' = jint 3 \<and> plain_object (getp v ''canonicalResponse'')
         \<and> plain_object (getp v ''workspace''))
       (Error ''Core returned an invalid reconciliation envelope for terminal-aware v3.'')) (\<lambda>_.
     Inr (spread (as_obj v) [(''queues'', reconciled_queues v), (''projection'', getp v ''workspace''),
       (''neverSent'', never_sent)]))))))"

text \<open>
  \<open>keepRemoteReconciliation\<close>: the captured operations are sent and rejected, whatever the
  server acknowledged.
\<close>

definition rejected_by_remote :: "domain \<Rightarrow> jv \<Rightarrow> jv" where
  "rejected_by_remote d item = Obj [(ack_id_field d, getp item ''id''), (''outcome'', Str ''rejected''),
     (''reason'', Str ''keep_remote'')]"

definition captured_items :: "obj \<Rightarrow> domain \<Rightarrow> jv list res" where
  "captured_items input d =
     bindr (spread_list (getp (fld input ''queueIds'') (domain_name d))) (\<lambda>ids.
     bindr (list_or_empty (getp (fld input ''queues'') (domain_name d))) (\<lambda>items.
     filterr (\<lambda>item. bindr (dot item ''id'') (\<lambda>i. Inr (i \<in> set ids))) items))"

definition keep_remote_reconciliation :: "obj \<Rightarrow> obj res" where
  "keep_remote_reconciliation input =
     bindr (validate_acknowledgements (fld input ''response'') (fld input ''sent'')) (\<lambda>_.
     bindr (domains_result (captured_items input)) (\<lambda>captured.
     let sent = spread (as_obj (fld input ''sent'')) (map (\<lambda>d. (domain_name d, Arr (captured d))) DOMAINS);
         response = spread (as_obj (fld input ''response''))
           (map (\<lambda>d. (ack_field d, Arr (map (rejected_by_remote d) (captured d)))) DOMAINS) in
     Inr (spread input [(''sent'', Obj sent), (''response'', Obj response)])))"

definition reconcile_resolution :: "env \<Rightarrow> obj \<Rightarrow> obj res" where
  "reconcile_resolution env input =
     bindr (if getp (fld input ''sent'') ''strategy'' = Str ''keep_remote''
       then keep_remote_reconciliation input else Inr input) (\<lambda>shaped.
     bindr (if getp (fld shaped ''sent'') ''strategy'' = Str ''keep_remote''
       then bindr (never_sent_from_proof (fld shaped ''deliveryProof'') (fld shaped ''queues'') (fld shaped ''sent''))
         (\<lambda>p. Inr (proof_value p))
       else Inr (fld shaped ''neverSent'')) (\<lambda>never_sent.
     reconcile_state env
       [(''queues'', fld shaped ''queues''), (''sent'', fld shaped ''sent''), (''response'', fld shaped ''response''),
        (''deviceId'', fld shaped ''deviceId''),
        (''timerDependencies'', coalesce (fld shaped ''timerDependencies'') (Arr [])),
        (''neverSent'', never_sent), (''deliveryProof'', fld shaped ''deliveryProof''),
        (''projectionPending'', fld shaped ''projectionPending'')]))"

definition reconcile_resolution_state :: "env \<Rightarrow> obj \<Rightarrow> obj res" where
  "reconcile_resolution_state env input =
     (let pending = fld input ''pendingResolution'' in
     bindr (ensure (plain_object pending \<and> plain_object (getp pending ''payload''))
       (TypeError ''A captured bootstrap resolution is required.'')) (\<lambda>_.
     reconcile_resolution env
       [(''queues'', fld input ''queues''), (''queueIds'', getp pending ''queueIds''),
        (''sent'', getp pending ''payload''), (''response'', fld input ''response''),
        (''deviceId'', fld input ''deviceId''), (''neverSent'', fld input ''neverSent''),
        (''deliveryProof'', fld input ''deliveryProof''), (''projectionPending'', fld input ''projectionPending'')]))"

end
