(* ===== verification/WorkspaceTransaction.thy ===== *)
theory WorkspaceTransaction
  imports IndexedDb StorageCore
begin

text \<open>
  \<open>web/workspace-transaction.js\<close>: one transaction that reads every record of the workspace and
  then runs a callback, and the writers of the Core's plans.
\<close>

section \<open>Reading the records\<close>

definition META_KEYS :: "string list" where
  "META_KEYS = [''snapshot'', ''settings'', ''deviceId'', ''deviceSequence'', ''hlc'', ''uuidV7'',
     ''clockOffset'', ''canonicalHead'', ''deliveryProof'', ''projectionPending'', ''outgoingSync'',
     ''timerDependencies'', ''workspaceObservation'', ''workspaceGroups'', ''completionRecords'',
     ''completionState'', ''displayHistory'', ''timerOwner'', ''batchNextDomain'', ''bootstrapGate'',
     ''bootstrapResolution'', ''sourceAcknowledgements'']"

definition read_records :: "database \<Rightarrow> records" where
  "read_records db = \<lparr>r_field = (\<lambda>k. if k \<in> set META_KEYS then meta_value db k else Undef),
     r_queue = queue_items db\<rparr>"

text \<open>\<open>run(database, "readwrite", change)\<close>\<close>

definition run_workspace :: "database \<Rightarrow> (records \<Rightarrow> tx \<Rightarrow> ('a \<times> tx) res) \<Rightarrow> 'a res \<times> database" where
  "run_workspace db change = run_transaction db (change (read_records db))"

lemma run_workspace_aborted: "fst (run_workspace db change) = Inl e \<Longrightarrow> snd (run_workspace db change) = db"
  unfolding run_workspace_def by (rule run_transaction_aborted)

section \<open>Writers\<close>

text \<open>The values a \<open>for ... of\<close> loop visits.\<close>

definition iter_values :: "jv \<Rightarrow> jv list res" where
  "iter_values v = (case v of
     Arr xs \<Rightarrow> Inr xs
   | Str s \<Rightarrow> Inr (map (\<lambda>c. Str [c]) s)
   | _ \<Rightarrow> Inl (TypeError ''not iterable''))"

definition add_value :: "domain \<Rightarrow> tx \<Rightarrow> jv \<Rightarrow> tx res" where
  "add_value d t v = (case v of Obj item \<Rightarrow> queue_add d item t | _ \<Rightarrow> Inl DataError)"

definition put_value :: "domain \<Rightarrow> tx \<Rightarrow> jv \<Rightarrow> tx res" where
  "put_value d t v = (case v of Obj item \<Rightarrow> queue_put d item t | _ \<Rightarrow> Inl DataError)"

definition add_values :: "domain \<Rightarrow> jv list \<Rightarrow> tx \<Rightarrow> tx res" where
  "add_values d vs t = foldr_res (add_value d) t vs"

definition put_values :: "domain \<Rightarrow> jv list \<Rightarrow> tx \<Rightarrow> tx res" where
  "put_values d vs t = foldr_res (put_value d) t vs"

definition write_ownership_one :: "jv \<Rightarrow> tx \<Rightarrow> jv \<Rightarrow> tx res" where
  "write_ownership_one lease t write =
     bindr (dot write ''kind'') (\<lambda>kind.
     if kind = Str ''removeTimerOwner'' then Inr (meta_delete ''timerOwner'' t)
     else if kind = Str ''recordTimerOwner''
       then Inr (meta_put ''timerOwner'' (Obj (obj_del ''kind'' (as_obj write))) t)
     else if kind \<noteq> Str ''recordStart'' then Inl (Error ''Unsupported PWA ownership effect.'')
     else bindr (dot lease ''tabId'') (\<lambda>tab.
       Inr (meta_put ''timerOwner'' (Obj [(''timerId'', getp write ''timerId''),
         (''deviceId'', getp write ''deviceId''), (''tabId'', tab),
         (''leaseExpiresAtMs'', js_add (getp lease ''nowMs'') (getp lease ''durationMs''))]) t)))"

definition write_ownership :: "jv \<Rightarrow> jv \<Rightarrow> tx \<Rightarrow> tx res" where
  "write_ownership writes lease t =
     bindr (iter_values writes) (\<lambda>ws. foldr_res (write_ownership_one lease) t ws)"

definition write_legacy_preferences :: "jv \<Rightarrow> tx \<Rightarrow> tx res" where
  "write_legacy_preferences plan t =
     bindr (dot plan ''outcome'') (\<lambda>outcome.
     if outcome = Str ''noop'' then Inr t
     else if outcome \<noteq> Str ''planned'' \<or> getp plan ''outgoingAction'' \<noteq> Str ''preserve''
       then Inl (Error ''Invalid legacy preference plan.'')
     else bindr (foldr_res (\<lambda>t d. bindr (dot (getp plan ''operations'') (domain_name d)) (\<lambda>ops.
         bindr (iter_values ops) (\<lambda>vs. add_values d vs t))) t DOMAINS) (\<lambda>t.
       let t = (if truthy (getp plan ''writeSettings'') then meta_put ''settings'' (getp plan ''settings'') t else t) in
       bindr (dot (getp plan ''workspace'') ''neverSent'') (\<lambda>never_sent.
       let t = meta_put ''deliveryProof'' never_sent t in
       bindr (dot (getp (getp plan ''workspace'') ''displayContext'') ''projectionPending'') (\<lambda>pending.
       Inr (meta_put ''projectionPending'' pending t)))))"

text \<open>The operations a plan made durable: one object of the queues, or timer commands alone.\<close>

definition plan_operations :: "jv \<Rightarrow> domain \<Rightarrow> jv" where
  "plan_operations plan d =
     (if truthy (getp plan ''durableOperations'') then getp (getp plan ''durableOperations'') (domain_name d)
      else if d = Commands then or_else (getp plan ''durableCommands'') (getp plan ''commands'')
      else Undef)"

definition workspace_group :: "jv \<Rightarrow> jv" where
  "workspace_group plan = Obj
     [(''atomicCommandIds'', getp plan ''atomicCommandIds''),
      (''atomicOperationIds'', coalesce (getp plan ''atomicOperationIds'') Null),
      (''commandOutcomes'', coalesce (getp plan ''commandOutcomes'') (Arr [])),
      (''groupOutcomes'', coalesce (getp plan ''groupOutcomes'') Null)]"

text \<open>The writes of a plan's metadata up to the observation, in the code's order.\<close>

definition write_plan_state :: "records \<Rightarrow> jv \<Rightarrow> tx \<Rightarrow> tx res" where
  "write_plan_state rec plan t =
     bindr (dot (getp plan ''selection'') ''phase'') (\<lambda>phase.
     let t = meta_put ''settings'' (Obj (obj_put ''selectedPhase'' phase (as_obj (r_field rec ''settings'')))) t;
         t = (if has_own plan ''lifecycle'' then meta_put ''completionState''
           (Obj [(''selection'', getp plan ''selection''), (''lifecycle'', getp plan ''lifecycle'')]) t else t) in
     bindr (dot (getp plan ''allocation'') ''hlc'') (\<lambda>hlc.
     let t = meta_put ''hlc'' hlc t;
         t = meta_put ''deviceSequence'' (getp (getp plan ''allocation'') ''deviceSequence'') t;
         t = meta_put ''uuidV7'' (getp (getp plan ''allocation'') ''lastUuid'') t in
     bindr (dot (getp plan ''workspace'') ''neverSent'') (\<lambda>never_sent.
     let t = meta_put ''deliveryProof'' never_sent t;
         t = meta_put ''timerDependencies'' (getp (getp plan ''workspace'') ''timerDependencies'') t in
     Inr (meta_put ''workspaceObservation'' (getp plan ''observation'') t))))"

text \<open>The retained operations with those of the plan.\<close>

definition retained_with :: "records \<Rightarrow> (domain \<Rightarrow> jv list) \<Rightarrow> domain \<Rightarrow> jv list" where
  "retained_with rec operations d = map Obj (r_queue rec d) @ operations d"

definition write_plan_display :: "records \<Rightarrow> jv \<Rightarrow> jv \<Rightarrow> (domain \<Rightarrow> jv list) \<Rightarrow> tx \<Rightarrow> tx res" where
  "write_plan_display rec plan lease operations t =
     bindr (dot (getp (getp plan ''workspace'') ''displayContext'') ''projectionPending'') (\<lambda>context.
     bindr (persisted_projection context (retained_with rec operations)) (\<lambda>pending.
     let t = meta_put ''projectionPending'' pending t in
     bindr (dot (getp plan ''projection'') ''history'') (\<lambda>history.
     let t = meta_put ''displayHistory'' history t in
     bindr (spread_list (r_field rec ''workspaceGroups'')) (\<lambda>groups.
     let t = meta_put ''completionRecords'' (Obj (spread (as_obj (r_field rec ''completionRecords''))
           (as_obj (getp plan ''completionRecords'')))) t;
         t = meta_put ''workspaceGroups'' (Arr (groups @ [workspace_group plan])) t in
     write_ownership (getp plan ''ownershipWrites'') lease t))))"

definition write_plan :: "records \<Rightarrow> jv \<Rightarrow> jv \<Rightarrow> tx \<Rightarrow> tx res" where
  "write_plan rec plan lease t =
     bindr (dot plan ''outcome'') (\<lambda>outcome.
     if outcome = Str ''noop'' then Inr t
     else if outcome \<noteq> Str ''planned'' then Inl (Error ''Invalid workspace mutation outcome.'')
     else bindr (foldr_res (\<lambda>t d. bindr (spread_list (plan_operations plan d)) (\<lambda>vs. add_values d vs t))
           t DOMAINS) (\<lambda>t.
       bindr (domains_result (\<lambda>d. spread_list (plan_operations plan d))) (\<lambda>operations.
       bindr (spread_list (getp plan ''retiredDurationOperationIds'')) (\<lambda>retired.
       bindr (delete_items DurationOperations retired t) (\<lambda>t.
       bindr (write_plan_state rec plan t) (\<lambda>t.
       write_plan_display rec plan lease operations t))))))"

section \<open>What the writers keep\<close>

lemma add_values_db_ok: "add_values d vs t = Inr t' \<Longrightarrow> db_ok (t_db t) \<Longrightarrow> db_ok (t_db t')"
  unfolding add_values_def
  by (rule foldr_res_invariant [where I = "\<lambda>t. db_ok (t_db t)"])
    (auto simp: add_value_def split: jv.splits intro: queue_add_db_ok)

text \<open>An ownership effect leaves the transaction or writes the timer's owner.\<close>

lemma write_ownership_one_cases:
  assumes "write_ownership_one lease t w = Inr t'"
  shows "t' = meta_delete ''timerOwner'' t \<or> (\<exists>v. t' = meta_put ''timerOwner'' v t)"
proof -
  from assms obtain kind where "dot w ''kind'' = Inr kind"
    by (auto simp: write_ownership_one_def bindr_Inr_iff)
  with assms show ?thesis
    by (auto simp: write_ownership_one_def bindr_Inr_iff split: if_splits)
qed

lemma write_ownership_db_ok:
  assumes "write_ownership writes lease t = Inr t'" and "db_ok (t_db t)"
  shows "db_ok (t_db t')"
proof -
  from assms(1) obtain ws where "foldr_res (write_ownership_one lease) t ws = Inr t'"
    by (auto simp: write_ownership_def bindr_Inr_iff)
  then show ?thesis
    by (rule foldr_res_invariant [where I = "\<lambda>t. db_ok (t_db t)"])
      (use assms(2) write_ownership_one_cases meta_write_db_ok in blast)+
qed

text \<open>Ownership effects touch nothing but the timer's owner.\<close>

definition same_but_owner :: "tx \<Rightarrow> tx \<Rightarrow> bool" where
  "same_but_owner t t' \<longleftrightarrow> meta_ok t'
     \<and> (\<forall>k. k \<noteq> ''timerOwner'' \<longrightarrow> meta_value (t_db t') k = meta_value (t_db t) k
          \<and> meta_present (t_db t') k = meta_present (t_db t) k)
     \<and> d_queue (t_db t') = d_queue (t_db t) \<and> queue_items (t_db t') = queue_items (t_db t)
     \<and> t_error t' = t_error t"

lemma same_but_owner_put: "same_but_owner t s \<Longrightarrow> same_but_owner t (meta_put ''timerOwner'' v s)"
  by (simp add: same_but_owner_def meta_write_simps)

lemma same_but_owner_delete: "same_but_owner t s \<Longrightarrow> same_but_owner t (meta_delete ''timerOwner'' s)"
  by (simp add: same_but_owner_def meta_write_simps)

lemma write_ownership_frame:
  assumes "write_ownership writes lease t = Inr t'" and "meta_ok t"
  shows "same_but_owner t t'"
proof -
  from assms(1) obtain ws where "foldr_res (write_ownership_one lease) t ws = Inr t'"
    by (auto simp: write_ownership_def bindr_Inr_iff)
  then show ?thesis
  proof (rule foldr_res_invariant)
    show "same_but_owner t t" using assms(2) by (simp add: same_but_owner_def)
  next
    fix s x s' assume "same_but_owner t s" "write_ownership_one lease s x = Inr s'"
    then show "same_but_owner t s'"
      using write_ownership_one_cases same_but_owner_put same_but_owner_delete by blast
  qed
qed

end
