(* ===== verification/StorageGate.thy ===== *)
theory StorageGate
  imports WorkspaceTransaction
begin

text \<open>
  The guarded transactions of \<open>web/sync-storage.js\<close>: the requests a transaction starts with,
  the checks every callback makes before it may write, the clock's request sequence and
  samples, the bootstrap gate (a lease that one tab holds while it resolves two histories),
  timer ownership, and the legacy migrations. A transaction is a function from the database
  to its result and the database it leaves.
\<close>

section \<open>Requests\<close>

text \<open>What the requests of a transaction returned: metadata records by request name, queues.\<close>

record results =
  x_meta :: "string \<Rightarrow> jv option"
  x_queue :: "domain \<Rightarrow> obj list"

text \<open>\<open>results[name]?.value\<close>\<close>

definition res_value :: "results \<Rightarrow> string \<Rightarrow> jv" where
  "res_value r name = (case x_meta r name of None \<Rightarrow> Undef | Some v \<Rightarrow> v)"

definition res_present :: "results \<Rightarrow> string \<Rightarrow> bool" where
  "res_present r name \<longleftrightarrow> x_meta r name \<noteq> None"

text \<open>Requests by name, with the metadata key each reads.\<close>

definition read_results :: "(string \<times> string) list \<Rightarrow> database \<Rightarrow> results" where
  "read_results requests db = \<lparr>x_meta = (\<lambda>name. case map_of (rev requests) name of
     None \<Rightarrow> None | Some key \<Rightarrow> st_get key (d_meta db)), x_queue = queue_items db\<rparr>"

definition SYNC_RESPONSE_REQUESTS :: "(string \<times> string) list" where
  "SYNC_RESPONSE_REQUESTS =
     [(''gate'', ''bootstrapGate''), (''resolution'', ''bootstrapResolution''), (''snapshot'', ''snapshot''),
      (''hlc'', ''hlc''), (''clockOffset'', ''clockOffset''), (''timerOwner'', ''timerOwner''),
      (''deliveryProof'', ''deliveryProof''), (''outgoing'', ''outgoingSync''),
      (''canonicalHead'', ''canonicalHead''), (''projectionPending'', ''projectionPending''),
      (''settings'', ''settings''), (''displayHistory'', ''displayHistory''),
      (''timerDependencies'', ''timerDependencies''), (''deviceId'', ''deviceId''),
      (''deviceSequence'', ''deviceSequence''), (''uuidV7'', ''uuidV7''),
      (''workspaceGroups'', ''workspaceGroups''), (''completionRecords'', ''completionRecords''),
      (''workspaceObservation'', ''workspaceObservation'')]"

definition mutation_context_requests :: "(string \<times> string) list \<Rightarrow> (string \<times> string) list" where
  "mutation_context_requests extra = SYNC_RESPONSE_REQUESTS @ extra"

definition run_results ::
  "(string \<times> string) list \<Rightarrow> database \<Rightarrow> (results \<Rightarrow> tx \<Rightarrow> ('a \<times> tx) res) \<Rightarrow> 'a res \<times> database" where
  "run_results requests db change = run_transaction db (change (read_results requests db))"

lemma run_results_aborted: "fst (run_results requests db change) = Inl e \<Longrightarrow> snd (run_results requests db change) = db"
  unfolding run_results_def by (rule run_transaction_aborted)

section \<open>Checks before a write\<close>

definition response_records :: "results \<Rightarrow> records" where
  "response_records r = \<lparr>r_field = (\<lambda>k.
       if k \<in> {''snapshot'', ''projectionPending'', ''canonicalHead'', ''deliveryProof'', ''outgoing'',
         ''timerDependencies''} then res_value r k else Undef),
     r_queue = x_queue r\<rparr>"

definition assert_response_display_context :: "env \<Rightarrow> results \<Rightarrow> jv \<Rightarrow> unit res" where
  "assert_response_display_context env r device =
     assert_persisted_display_context env (response_records r) (or_else device (res_value r ''deviceId''))"

definition assert_storage_context :: "env \<Rightarrow> results \<Rightarrow> obj \<Rightarrow> unit res" where
  "assert_storage_context env r input =
     bindr (e_current env) (\<lambda>_.
     bindr (if has_own (Obj input) ''expectedUserId''
       then assert_account_ownership (res_value r ''snapshot'') (fld input ''expectedUserId'') else Inr ()) (\<lambda>_.
     let target = getp (res_value r ''gate'') ''accountOwnerId'' in
     ensure (\<not> truthy target \<or> \<not> truthy (fld input ''currentUserId'')
       \<or> strict_eq target (fld input ''currentUserId'')) account_error))"

definition account_metadata_mutation ::
  "env \<Rightarrow> database \<Rightarrow> obj \<Rightarrow> string list \<Rightarrow> (results \<Rightarrow> tx \<Rightarrow> ('a \<times> tx) res) \<Rightarrow> 'a res \<times> database" where
  "account_metadata_mutation env db input keys change =
     run_results (mutation_context_requests (map (\<lambda>k. (k, k)) (uniq keys))) db (\<lambda>r t.
       bindr (assert_storage_context env r input) (\<lambda>_.
       bindr (assert_response_display_context env r (fld input ''deviceId'')) (\<lambda>_.
       change r t)))"

definition guarded_mutation ::
  "env \<Rightarrow> database \<Rightarrow> bool \<Rightarrow> obj \<Rightarrow> (results \<Rightarrow> tx \<Rightarrow> ('a \<times> tx) res) \<Rightarrow> 'a res \<times> database" where
  "guarded_mutation env db allow_bootstrap input operation =
     run_results (mutation_context_requests []) db (\<lambda>r t.
       bindr (ensure (allow_bootstrap \<or> \<not> res_present r ''gate'' \<and> \<not> res_present r ''resolution'') gate_error) (\<lambda>_.
       bindr (assert_storage_context env r input) (\<lambda>_.
       bindr (assert_account_ownership (res_value r ''snapshot'') (coalesce (fld input ''expectedUserId'') Null)) (\<lambda>_.
       bindr (assert_response_display_context env r (fld input ''deviceId'')) (\<lambda>_.
       operation r t)))))"

section \<open>Clock\<close>

definition next_sequence :: "jv \<Rightarrow> int option" where
  "next_sequence v = (case to_number v of JInt i \<Rightarrow> Some (i + 1) | JNaN \<Rightarrow> Some 1 | _ \<Rightarrow> None)"

definition allocate_clock_request_sequence :: "env \<Rightarrow> database \<Rightarrow> obj \<Rightarrow> int res \<times> database" where
  "allocate_clock_request_sequence env db input =
     account_metadata_mutation env db input [''clockRequestSequence''] (\<lambda>r t.
       case next_sequence (res_value r ''clockRequestSequence'') of
         None \<Rightarrow> Inl ClockRangeError
       | Some s \<Rightarrow> if safe_int s \<and> 0 < s then Inr (s, meta_put ''clockRequestSequence'' (jint s) t)
           else Inl ClockRangeError)"

definition put_latest_clock_offset :: "jv \<Rightarrow> jv \<Rightarrow> tx \<Rightarrow> (jv \<times> tx) res" where
  "put_latest_clock_offset stored incoming t =
     bindr (latest_clock_offset stored incoming) (\<lambda>latest.
     Inr (latest, if takes_incoming stored incoming then meta_put ''clockOffset'' incoming t else t))"

definition stored_sample :: "results \<Rightarrow> jv" where
  "stored_sample r = or_else (res_value r ''clockOffset'') Null"

definition save_clock_offset :: "env \<Rightarrow> database \<Rightarrow> jv \<Rightarrow> obj \<Rightarrow> jv res \<times> database" where
  "save_clock_offset env db sample input =
     account_metadata_mutation env db input [''clockOffset''] (\<lambda>r t.
       put_latest_clock_offset (stored_sample r) sample t)"

section \<open>The bootstrap gate\<close>

record gate_outcome =
  g_acquired :: bool
  g_taken_over :: bool
  g_gate :: jv
  g_resolution :: jv

text \<open>The saved resolution with the token of the tab that now holds the gate.\<close>

definition with_token :: "jv \<Rightarrow> jv \<Rightarrow> jv" where
  "with_token token resolution = Obj (obj_put ''gateToken'' token (as_obj resolution))"

definition acquire_change :: "obj \<Rightarrow> results \<Rightarrow> tx \<Rightarrow> (gate_outcome \<times> tx) res" where
  "acquire_change input r t =
     (let existing = or_else (res_value r ''gate'') Null;
          resolution = or_else (res_value r ''resolution'') Null;
          token = fld input ''token'' in
      if truthy (getp existing ''accountOwnerId'') \<and> truthy (fld input ''currentUserId'')
        \<and> \<not> strict_eq (getp existing ''accountOwnerId'') (fld input ''currentUserId'')
      then Inr (\<lparr>g_acquired = False, g_taken_over = False, g_gate = existing, g_resolution = resolution\<rparr>, t)
      else if \<not> strict_eq (getp existing ''token'') token \<and> lease_is_live existing (fld input ''nowMs'')
      then Inr (\<lparr>g_acquired = False, g_taken_over = False, g_gate = existing, g_resolution = resolution\<rparr>, t)
      else
        let gate = bound_bootstrap_lease token input;
            taken_over = truthy existing \<and> \<not> strict_eq (getp existing ''token'') token;
            rebind = truthy resolution \<and> \<not> strict_eq (getp resolution ''gateToken'') token;
            resolution' = (if rebind then with_token token resolution else resolution);
            t = (if rebind then meta_put ''bootstrapResolution'' resolution' t else t) in
        Inr (\<lparr>g_acquired = True, g_taken_over = taken_over, g_gate = gate, g_resolution = resolution'\<rparr>,
          meta_put ''bootstrapGate'' gate t))"

definition acquire_bootstrap_gate :: "env \<Rightarrow> database \<Rightarrow> obj \<Rightarrow> gate_outcome res \<times> database" where
  "acquire_bootstrap_gate env db input =
     account_metadata_mutation env db (obj_put ''currentUserId'' Null input) [] (acquire_change input)"

definition clear_change :: "jv \<Rightarrow> results \<Rightarrow> tx \<Rightarrow> (bool \<times> tx) res" where
  "clear_change token r t =
     bindr (ensure (\<not> res_present r ''resolution'')
       (BootstrapGateError ''Saved history resolution still requires completion.'')) (\<lambda>_.
     bindr (ensure (strict_eq (getp (res_value r ''gate'') ''token'') token)
       (BootstrapGateError ''Bootstrap gate is owned by another tab.'')) (\<lambda>_.
     Inr (True, meta_delete ''bootstrapGate'' t)))"

definition clear_bootstrap_gate :: "env \<Rightarrow> database \<Rightarrow> jv \<Rightarrow> obj \<Rightarrow> bool res \<times> database" where
  "clear_bootstrap_gate env db token input = account_metadata_mutation env db input [] (clear_change token)"

definition read_bootstrap_state :: "database \<Rightarrow> jv \<times> jv" where
  "read_bootstrap_state db = (or_else (meta_value db ''bootstrapGate'') Null,
     or_else (meta_value db ''bootstrapResolution'') Null)"

definition read_account_binding :: "database \<Rightarrow> (jv \<times> jv) res" where
  "read_account_binding db =
     bindr (account_owner_id (getp (meta_value db ''snapshot'') ''user'')) (\<lambda>owner.
     Inr (or_else owner Null, or_else (getp (meta_value db ''bootstrapGate'') ''accountOwnerId'') Null))"

definition assert_bootstrap_account_binding :: "results \<Rightarrow> obj \<Rightarrow> unit res" where
  "assert_bootstrap_account_binding r input =
     (let gate_owner = getp (res_value r ''gate'') ''accountOwnerId'';
          current = fld input ''currentUserId''; binding = fld input ''accountBinding'' in
      if \<not> truthy gate_owner \<or> strict_eq gate_owner current then Inr ()
      else if \<not> truthy binding \<or> \<not> strict_eq (getp binding ''ownerId'') current
        \<or> \<not> strict_eq (getp binding ''gateOwnerId'') gate_owner then Inl account_error
      else bindr (account_owner_id (getp (res_value r ''snapshot'') ''user'')) (\<lambda>owner.
        ensure (strict_eq (getp binding ''sourceOwnerId'') (or_else owner Null)) account_error))"

record invalidation =
  v_acquired :: bool
  v_invalidated :: bool
  v_gate :: jv
  v_resolution :: jv

definition invalidate_change :: "obj \<Rightarrow> results \<Rightarrow> tx \<Rightarrow> (invalidation \<times> tx) res" where
  "invalidate_change input r t =
     bindr (assert_bootstrap_account_binding r input) (\<lambda>_.
     let gate = or_else (res_value r ''gate'') Null;
         resolution = or_else (res_value r ''resolution'') Null;
         token = fld input ''gateToken''; user = fld input ''currentUserId'' in
     if \<not> strict_eq (getp gate ''token'') token \<and> lease_is_live gate (fld input ''nowMs'')
     then Inr (\<lparr>v_acquired = False, v_invalidated = False, v_gate = gate,
       v_resolution = (if strict_eq (getp resolution ''userId'') user then resolution else Null)\<rparr>, t)
     else
       let invalidated = truthy resolution \<and> \<not> strict_eq (getp resolution ''userId'') user;
           rebind = \<not> invalidated \<and> truthy resolution \<and> \<not> strict_eq (getp resolution ''gateToken'') token;
           resolution' = (if invalidated then Null else if rebind then with_token token resolution else resolution);
           t = (if invalidated then meta_delete ''bootstrapResolution'' t
             else if rebind then meta_put ''bootstrapResolution'' resolution' t else t);
           gate' = bound_bootstrap_lease token input in
       Inr (\<lparr>v_acquired = True, v_invalidated = invalidated, v_gate = gate', v_resolution = resolution'\<rparr>,
         meta_put ''bootstrapGate'' gate' t))"

definition invalidate_foreign_resolution :: "env \<Rightarrow> database \<Rightarrow> obj \<Rightarrow> invalidation res \<times> database" where
  "invalidate_foreign_resolution env db input =
     account_metadata_mutation env db (obj_put ''currentUserId'' Null input) [] (invalidate_change input)"

section \<open>Records of a transaction\<close>

text \<open>\<open>transactionWorkspace(results, snapshot, queues, overrides)\<close>\<close>

definition transaction_fields :: "string list" where
  "transaction_fields = [''deviceId'', ''projectionPending'', ''canonicalHead'', ''deliveryProof'', ''outgoing'',
     ''timerDependencies'', ''timerOwner'', ''sourceAcknowledgements'']"

definition transaction_workspace_with ::
  "results \<Rightarrow> jv \<Rightarrow> (domain \<Rightarrow> obj list) \<Rightarrow> obj \<Rightarrow> records" where
  "transaction_workspace_with r snapshot queues overrides = \<lparr>r_field = (\<lambda>k.
       if k \<in> set (map fst overrides) then fld overrides k
       else if k = ''snapshot'' then snapshot
       else if k \<in> set transaction_fields then res_value r k else Undef),
     r_queue = queues\<rparr>"

definition transaction_workspace :: "results \<Rightarrow> records" where
  "transaction_workspace r = transaction_workspace_with r (res_value r ''snapshot'') (x_queue r) []"

text \<open>
  The queues of a reconciled value as retained operations. An element that is no object
  cannot be stored: the transaction fails at the latest when it is put.
\<close>

definition objs_of :: "jv \<Rightarrow> obj list res" where
  "objs_of v = bindr (list_or_empty v) (mapr (\<lambda>item. case item of Obj ob \<Rightarrow> Inr ob | _ \<Rightarrow> Inl DataError))"

definition queue_records :: "jv \<Rightarrow> (domain \<Rightarrow> obj list) res" where
  "queue_records queues = domains_result (\<lambda>d. objs_of (getp queues (domain_name d)))"

section \<open>Timer ownership\<close>

definition ownership_plan :: "env \<Rightarrow> records \<Rightarrow> jv \<Rightarrow> obj \<Rightarrow> jv res" where
  "ownership_plan env rec input action =
     bindr (dot input ''deviceId'') (\<lambda>device.
     bindr (workspace_records env (set_field ''deviceId'' device rec)) (\<lambda>raw.
     call_workspace_core env ''workspace.ownershipPlan.v1'' (Obj
       [(''profile'', Str ''pwaStorage''), (''action'', Obj action), (''workspace'', raw),
        (''ownership'', coalesce (r_field rec ''timerOwner'') Null), (''localDeviceId'', device),
        (''localTabId'', getp input ''tabId''),
        (''clock'', Obj (if fld action ''kind'' = Str ''release'' then [(''nowMs'', getp input ''nowMs'')]
          else [(''nowMs'', getp input ''nowMs''), (''leaseDurationMs'', getp input ''leaseMs'')]))])))"

definition owner_change :: "env \<Rightarrow> obj \<Rightarrow> obj \<Rightarrow> tx \<Rightarrow> (jv \<times> tx) res" where
  "owner_change env input action t =
     bindr (e_current env) (\<lambda>_.
     bindr (ownership_plan env (transaction_workspace (read_results SYNC_RESPONSE_REQUESTS (t_db t))) (Obj input) action)
       (\<lambda>plan.
     bindr (dot plan ''ownershipWrites'') (\<lambda>writes.
     bindr (write_ownership writes Undef t) (\<lambda>t. Inr (plan, t)))))"

definition renew_timer_ownership :: "env \<Rightarrow> database \<Rightarrow> obj \<Rightarrow> jv res \<times> database" where
  "renew_timer_ownership env db input = guarded_mutation env db True input (\<lambda>_ t.
     bindr (owner_change env input [(''kind'', Str ''renew''), (''timerId'', fld input ''timerId'')] t) (\<lambda>(plan, t).
     Inr (getp plan ''renewed'', t)))"

definition release_timer_ownership :: "env \<Rightarrow> database \<Rightarrow> obj \<Rightarrow> jv res \<times> database" where
  "release_timer_ownership env db input = guarded_mutation env db True input (\<lambda>_ t.
     bindr (owner_change env input [(''kind'', Str ''release'')] t) (\<lambda>(_, t). Inr (Undef, t)))"

section \<open>Migrations\<close>

definition write_migration_one :: "tx \<Rightarrow> jv \<Rightarrow> tx res" where
  "write_migration_one t write =
     bindr (dot write ''kind'') (\<lambda>kind.
     if kind \<noteq> Str ''recordTimerDependencies'' then Inl (Error ''Unsupported legacy dependency write.'')
     else Inr (meta_put ''timerDependencies'' (getp write ''value'') t))"

text \<open>\<open>writeDependencyMigration\<close>: the plan, the records with its dependencies, and its writes.\<close>

definition write_dependency_migration :: "env \<Rightarrow> records \<Rightarrow> obj \<Rightarrow> tx \<Rightarrow> (jv \<times> records \<times> tx) res" where
  "write_dependency_migration env rec input t =
     (let expected = (if has_own (Obj input) ''expectedUserId'' then fld input ''expectedUserId''
        else coalesce (fld input ''ownerId'') Null) in
     bindr (if expected = Undef then rec_owner rec else Inr expected) (\<lambda>expected.
     bindr (dependency_plan env rec (or_else (r_field rec ''deviceId'') (fld input ''deviceId''))
       (coalesce (fld input ''nowMs'') (fld input ''localNowMs'')) expected) (\<lambda>plan.
     bindr (dot plan ''outcome'') (\<lambda>outcome.
     if outcome = Str ''blocked'' then Inl (LegacyDependencyRecoveryError (getp plan ''recovery''))
     else bindr (e_current env) (\<lambda>_.
       bindr (iter_values (getp plan ''metadataWrites'')) (\<lambda>writes.
       bindr (foldr_res write_migration_one t writes) (\<lambda>t.
       Inr (plan, set_field ''timerDependencies'' (getp plan ''timerDependencies'') rec, t))))))))"

definition migrate_dependency_metadata :: "env \<Rightarrow> records \<Rightarrow> obj \<Rightarrow> tx \<Rightarrow> (jv \<times> records \<times> tx) res" where
  "migrate_dependency_metadata env rec input t =
     (if \<not> nullish (r_field rec ''timerDependencies'')
      then Inr (Obj [(''timerDependencies'', r_field rec ''timerDependencies''), (''metadataWrites'', Arr [])], rec, t)
      else write_dependency_migration env rec input t)"

definition migrate_legacy_dependencies :: "env \<Rightarrow> database \<Rightarrow> obj \<Rightarrow> jv res \<times> database" where
  "migrate_legacy_dependencies env db input = guarded_mutation env db True input (\<lambda>r t.
     bindr (write_dependency_migration env (transaction_workspace r) input t) (\<lambda>(plan, _, t). Inr (plan, t)))"

text \<open>\<open>input.operationUuids\<close>, or five fresh identifiers.\<close>

definition migrate_legacy_preferences :: "env \<Rightarrow> jv \<Rightarrow> database \<Rightarrow> obj \<Rightarrow> jv res \<times> database" where
  "migrate_legacy_preferences env fresh_uuids db input = guarded_mutation env db True input (\<lambda>r t.
     let rec = set_field ''settings'' (or_else (res_value r ''settings'') (Obj [])) (transaction_workspace r) in
     bindr (rec_owner rec) (\<lambda>owner.
     let device = or_else (or_else (res_value r ''deviceId'') (fld input ''deviceId'')) (Str ''legacy-web'') in
     bindr (migrate_dependency_metadata env rec (obj_put ''deviceId'' device input) t) (\<lambda>(_, rec, t).
     bindr (preference_request rec device (coalesce (fld input ''expectedUserId'') Null) owner (e_now env)
       (or_else (fld input ''operationUuids'') fresh_uuids)) (\<lambda>request.
     bindr (call_workspace_core env ''workspace.legacyPreferences.v1'' request) (\<lambda>plan.
     bindr (e_current env) (\<lambda>_.
     bindr (write_legacy_preferences plan t) (\<lambda>t. Inr (plan, t))))))))"

text \<open>\<open>plan.operations.<domain>[0] || null\<close> and whether there is one\<close>

definition migrated_operation :: "domain \<Rightarrow> jv \<Rightarrow> (bool \<times> jv) res" where
  "migrated_operation d plan =
     bindr (dot (getp plan ''operations'') (domain_name d)) (\<lambda>ops.
     let operation = (case ops of Arr (v # _) \<Rightarrow> or_else v Null | _ \<Rightarrow> Null) in
     if nullish ops then Inl (TypeError ''Cannot read properties of undefined'')
     else Inr (operation \<noteq> Null, operation))"

definition migrate_legacy_selected_task :: "env \<Rightarrow> jv \<Rightarrow> database \<Rightarrow> obj \<Rightarrow> (bool \<times> jv) res \<times> database" where
  "migrate_legacy_selected_task env fresh_uuids db input =
     (let (r, db') = migrate_legacy_preferences env fresh_uuids db input in
      (bindr r (migrated_operation SelectedTaskOperations), db'))"

definition migrate_legacy_auto_start :: "env \<Rightarrow> jv \<Rightarrow> database \<Rightarrow> obj \<Rightarrow> (bool \<times> jv) res \<times> database" where
  "migrate_legacy_auto_start env fresh_uuids db input =
     (let (r, db') = migrate_legacy_preferences env fresh_uuids db input in
      (bindr r (migrated_operation AutoStartOperations), db'))"

text \<open>
  \<open>acquireBootstrapGateWithLegacyAutoStart\<close>: three transactions one after another; a failed
  one leaves what the earlier ones committed.
\<close>

definition acquire_with_legacy ::
  "env \<Rightarrow> jv \<Rightarrow> jv \<Rightarrow> database \<Rightarrow> obj \<Rightarrow> (gate_outcome \<times> ((bool \<times> jv) \<times> (bool \<times> jv)) option) res \<times> database" where
  "acquire_with_legacy env fresh1 fresh2 db input =
     (case acquire_bootstrap_gate env db input of
        (Inl e, db1) \<Rightarrow> (Inl e, db1)
      | (Inr gate, db1) \<Rightarrow>
          if \<not> g_acquired gate \<or> truthy (g_resolution gate) then (Inr (gate, None), db1)
          else (case migrate_legacy_auto_start env fresh1 db1 input of
             (Inl e, db2) \<Rightarrow> (Inl e, db2)
           | (Inr a, db2) \<Rightarrow> (case migrate_legacy_selected_task env fresh2 db2 input of
                (Inl e, db3) \<Rightarrow> (Inl e, db3)
              | (Inr s, db3) \<Rightarrow> (Inr (gate, Some (a, s)), db3))))"

section \<open>Reading and running\<close>

lemma getp_or_else_Null [simp]: "getp (or_else v Null) k = getp v k"
  by (cases v) (auto simp: or_else_def)

lemma truthy_or_else_Null [simp]: "truthy (or_else v Null) = truthy v"
  by (simp add: or_else_def)

lemma run_results_Inr:
  assumes "fst (run_results requests db change) = Inr a"
  obtains t where "change (read_results requests db) \<lparr>t_db = db, t_error = None\<rparr> = Inr (a, t)"
    "t_error t = None" "snd (run_results requests db change) = t_db t"
  using assms unfolding run_results_def
  by (metis run_transaction_committed prod.collapse)

lemma x_queue_read [simp]: "x_queue (read_results requests db) = queue_items db"
  by (simp add: read_results_def)

lemma sync_request_values:
  "res_value (read_results SYNC_RESPONSE_REQUESTS db) ''snapshot'' = meta_value db ''snapshot''"
  "res_value (read_results SYNC_RESPONSE_REQUESTS db) ''outgoing'' = meta_value db ''outgoingSync''"
  "res_value (read_results SYNC_RESPONSE_REQUESTS db) ''deliveryProof'' = meta_value db ''deliveryProof''"
  "res_value (read_results SYNC_RESPONSE_REQUESTS db) ''gate'' = meta_value db ''bootstrapGate''"
  "res_value (read_results SYNC_RESPONSE_REQUESTS db) ''clockOffset'' = meta_value db ''clockOffset''"
  "res_value (read_results SYNC_RESPONSE_REQUESTS db) ''completionState'' = Undef"
  "res_present (read_results SYNC_RESPONSE_REQUESTS db) ''gate'' = meta_present db ''bootstrapGate''"
  "res_present (read_results SYNC_RESPONSE_REQUESTS db) ''resolution'' = meta_present db ''bootstrapResolution''"
  by (simp_all add: res_value_def res_present_def meta_value_def meta_present_def read_results_def
      SYNC_RESPONSE_REQUESTS_def)

abbreviation sync_results :: "database \<Rightarrow> results" where
  "sync_results db \<equiv> read_results SYNC_RESPONSE_REQUESTS db"

lemma mutation_requests_Nil [simp]: "mutation_context_requests [] = SYNC_RESPONSE_REQUESTS"
  by (simp add: mutation_context_requests_def)

text \<open>A metadata mutation that returns: its checks held and its change ran on the stored records.\<close>

lemma account_metadata_mutation_Inr:
  assumes "fst (account_metadata_mutation env db input keys change) = Inr a"
  obtains t where
    "change (read_results (mutation_context_requests (map (\<lambda>k. (k, k)) (uniq keys))) db) \<lparr>t_db = db, t_error = None\<rparr> = Inr (a, t)"
    "snd (account_metadata_mutation env db input keys change) = t_db t"
    "assert_storage_context env (read_results (mutation_context_requests (map (\<lambda>k. (k, k)) (uniq keys))) db) input = Inr ()"
  using assms unfolding account_metadata_mutation_def
  by (elim run_results_Inr) (auto simp: bindr_Inr_iff)

lemma account_metadata_mutation_aborted:
  "fst (account_metadata_mutation env db input keys change) = Inl e
     \<Longrightarrow> snd (account_metadata_mutation env db input keys change) = db"
  unfolding account_metadata_mutation_def by (rule run_results_aborted)

lemma start_meta_ok: "db_ok db \<Longrightarrow> meta_ok \<lparr>t_db = db, t_error = None\<rparr>"
  by (simp add: meta_ok_def db_ok_def)

lemma account_metadata_mutation_db_ok:
  assumes "db_ok db" and "\<And>r t a t'. change r t = Inr (a, t') \<Longrightarrow> db_ok (t_db t) \<Longrightarrow> db_ok (t_db t')"
  shows "db_ok (snd (account_metadata_mutation env db input keys change))"
proof (cases "fst (account_metadata_mutation env db input keys change)")
  case (Inl e)
  then show ?thesis using assms(1) by (simp add: account_metadata_mutation_aborted)
next
  case (Inr a)
  then show ?thesis
    by (rule account_metadata_mutation_Inr) (use assms in \<open>force dest: assms(2)\<close>)
qed

end
