(* ===== verification/StorageSync.thy ===== *)
theory StorageSync
  imports StorageGate
begin

text \<open>
  The transactions of \<open>web/sync-storage.js\<close> around one synchronization: a local mutation
  planned by the Core and written, the claim of a batch before it is sent, the recovery of a
  claim whose request bytes are lost, and the application of the server's response to the
  records as they are when it arrives.
\<close>

section \<open>Local mutations\<close>

definition mutation_lease :: "obj \<Rightarrow> jv" where
  "mutation_lease input = Obj [(''tabId'', fld input ''tabId''), (''nowMs'', fld input ''localNowMs''),
     (''durationMs'', fld input ''leaseMs'')]"

definition mutation_plan :: "env \<Rightarrow> records \<Rightarrow> obj \<Rightarrow> jv res" where
  "mutation_plan env rec input =
     bindr (workspace_mutation_request env rec input) (\<lambda>request.
     if truthy (fld input ''stage'') then
       call_given_core env ''workspace.completionMutation.v1'' (Obj (spread request
         [(''stage'', fld input ''stage''), (''ownership'', coalesce (r_field rec ''timerOwner'') Null),
          (''localTabId'', fld input ''tabId''), (''leaseNowMs'', fld input ''localNowMs''),
          (''leaseDurationMs'', fld input ''leaseMs'')]))
     else
       bindr (if truthy (fld input ''preference'') then mutation_durability rec input else Inr []) (\<lambda>extra.
       call_given_core env ''workspace.intent.v1'' (Obj (obj_put ''intent'' (fld input ''intent'') (spread request extra)))))"

text \<open>The first mutation of a database names the device and, if none is stored, the snapshot.\<close>

definition write_identity :: "records \<Rightarrow> obj \<Rightarrow> jv \<Rightarrow> tx \<Rightarrow> tx" where
  "write_identity rec input plan t =
     (let t = meta_put ''deviceId'' (fld input ''deviceId'') t in
      if \<not> truthy (r_field rec ''snapshot'') then meta_put ''snapshot''
        (Obj (spread (as_obj (getp (getp plan ''workspace'') ''base'')) [(''revision'', jint 0), (''user'', Null)])) t
      else t)"

definition mutation_change :: "env \<Rightarrow> obj \<Rightarrow> records \<Rightarrow> tx \<Rightarrow> (jv \<times> tx) res" where
  "mutation_change env input rec t =
     bindr (assert_workspace_context env rec input) (\<lambda>_.
     let new_identity = nullish (r_field rec ''deviceId'');
         rec = (if new_identity then set_field ''deviceId'' (fld input ''deviceId'') rec else rec) in
     bindr (assert_persisted_display_context env rec (fld input ''deviceId'')) (\<lambda>_.
     bindr (migrate_dependency_metadata env rec input t) (\<lambda>(_, rec, t).
     bindr (mutation_plan env rec input) (\<lambda>plan.
     bindr (e_current env) (\<lambda>_.
     bindr (write_plan rec plan (mutation_lease input) t) (\<lambda>t.
     Inr (plan, if new_identity \<and> getp plan ''outcome'' = Str ''planned'' then write_identity rec input plan t
       else t)))))))"

definition plan_workspace_mutation :: "env \<Rightarrow> database \<Rightarrow> obj \<Rightarrow> jv res \<times> database" where
  "plan_workspace_mutation env db input = run_workspace db (mutation_change env input)"

section \<open>Claims\<close>

record claim_result =
  k_plan :: jv
  k_claim :: jv
  k_proof :: jv
  k_dependencies :: jv

definition request_body :: "records \<Rightarrow> jv \<Rightarrow> jv \<Rightarrow> jv" where
  "request_body rec revision sent =
     json_stringify (Obj (spread [(''deviceId'', r_field rec ''deviceId''), (''lastRevision'', revision)] (as_obj sent)))"

text \<open>A new claim: its operations leave the proof before anything is sent.\<close>

definition write_new_claim ::
  "env \<Rightarrow> records \<Rightarrow> obj \<Rightarrow> jv \<Rightarrow> jv \<Rightarrow> tx \<Rightarrow> (claim_result \<times> tx) res" where
  "write_new_claim env rec input now plan t =
     bindr (selected_records plan (r_queue rec)) (\<lambda>selected.
     let sent = sent_value (encode_selected_batch selected) in
     bindr (iso_of now) (\<lambda>stamp.
     bindr (dot (r_field rec ''snapshot'') ''revision'') (\<lambda>revision.
     let claim = Obj [(''claimId'', Str (e_random_uuid env)), (''sent'', sent), (''ownerId'', fld input ''ownerId''),
           (''retiredAt'', stamp), (''body'', request_body rec revision sent)] in
     bindr (remove_proof_ids (r_field rec ''deliveryProof'') sent) (\<lambda>proved.
     let t = meta_put ''batchNextDomain'' (getp plan ''nextDomain'')
           (meta_put ''outgoingSync'' claim (meta_put ''deliveryProof'' (proof_value proved) t)) in
     bindr (e_current env) (\<lambda>_.
     Inr (\<lparr>k_plan = plan, k_claim = claim, k_proof = proof_value proved,
       k_dependencies = r_field rec ''timerDependencies''\<rparr>, t))))))"

definition plan_new_claim :: "env \<Rightarrow> records \<Rightarrow> obj \<Rightarrow> jv \<Rightarrow> tx \<Rightarrow> (claim_result \<times> tx) res" where
  "plan_new_claim env rec input now t =
     bindr (migrate_dependency_metadata env rec input t) (\<lambda>(dependencies, rec, t).
     bindr (batch_request (r_queue rec) (r_field rec ''deviceId'') (getp dependencies ''timerDependencies'')
       (r_field rec ''batchNextDomain'') (Str ''sync'') Null) (\<lambda>request.
     bindr (call_workspace_core env ''sync.batchPlan.v1'' request) (\<lambda>plan.
     bindr (dot plan ''status'') (\<lambda>status.
     if status \<noteq> Str ''planned''
     then Inr (\<lparr>k_plan = plan, k_claim = Null, k_proof = r_field rec ''deliveryProof'', k_dependencies = Undef\<rparr>, t)
     else write_new_claim env rec input now plan t))))"

definition saved_body_agrees :: "jv \<Rightarrow> jv \<Rightarrow> jv \<Rightarrow> bool" where
  "saved_body_agrees body device sent \<longleftrightarrow> strict_eq (getp body ''deviceId'') device
   \<and> list_all (\<lambda>d. records_equal (getp body (domain_name d)) (getp sent (domain_name d))) DOMAINS"

text \<open>A saved claim is replayed as it is; its bytes must agree with its metadata.\<close>

definition replay_saved_claim :: "env \<Rightarrow> records \<Rightarrow> obj \<Rightarrow> jv \<Rightarrow> claim_result res" where
  "replay_saved_claim env rec input saved =
     bindr (ensure (nullish (getp saved ''ownerId'') \<or> strict_eq (getp saved ''ownerId'') (fld input ''ownerId''))
       account_error) (\<lambda>_.
     bindr (saved_batch_request (getp saved ''sent'') (Str ''sync'')) (\<lambda>request.
     bindr (call_workspace_core env ''sync.batchPlan.v1'' request) (\<lambda>plan.
     bindr (dot plan ''status'') (\<lambda>status.
     let result = \<lparr>k_plan = plan, k_claim = saved, k_proof = r_field rec ''deliveryProof'', k_dependencies = Undef\<rparr> in
     if status \<noteq> Str ''replay_saved'' \<or> nullish (getp saved ''body'') then Inr result
     else bindr (json_parse (getp saved ''body'')) (\<lambda>body.
       bindr (dot body ''deviceId'') (\<lambda>_.
       bindr (ensure (saved_body_agrees body (r_field rec ''deviceId'') (getp saved ''sent''))
         (Error ''Saved request bytes disagree with retained claim metadata. Recovery is required.'')) (\<lambda>_.
       Inr result)))))))"

definition claim_change :: "env \<Rightarrow> obj \<Rightarrow> records \<Rightarrow> tx \<Rightarrow> (claim_result \<times> tx) res" where
  "claim_change env input rec t =
     bindr (assert_workspace_context env rec input) (\<lambda>_.
     bindr (assert_persisted_display_context env rec (fld input ''deviceId'')) (\<lambda>_.
     let saved = r_field rec ''outgoingSync'' in
     if truthy (getp saved ''sent'') then bindr (replay_saved_claim env rec input saved) (\<lambda>k. Inr (k, t))
     else plan_new_claim env rec input (fld input ''localNowMs'') t))"

definition claim_workspace_batch :: "env \<Rightarrow> database \<Rightarrow> obj \<Rightarrow> claim_result res \<times> database" where
  "claim_workspace_batch env db input = run_workspace db (claim_change env input)"

definition discard_change :: "env \<Rightarrow> obj \<Rightarrow> records \<Rightarrow> tx \<Rightarrow> (claim_result \<times> tx) res" where
  "discard_change env input rec t =
     bindr (assert_workspace_context env rec input) (\<lambda>_.
     bindr (assert_persisted_display_context env rec (fld input ''deviceId'')) (\<lambda>_.
     bindr (ensure (fld input ''confirmed'' = Bool True)
       (Error ''Discarding the unrecoverable saved claim requires explicit confirmation.'')) (\<lambda>_.
     let saved = r_field rec ''outgoingSync'' in
     bindr (ensure (truthy (getp saved ''sent''))
       (Error ''No unrecoverable saved sync claim is retained.'')) (\<lambda>_.
     bindr (ensure (nullish (getp saved ''body''))
       (Error ''Saved sync claim retains its original request body and must replay exactly.'')) (\<lambda>_.
     bindr (ensure (nullish (getp saved ''ownerId'') \<or> strict_eq (getp saved ''ownerId'') (fld input ''ownerId''))
       account_error) (\<lambda>_.
     plan_new_claim env (set_field ''outgoingSync'' Undef rec) input
       (coalesce (fld input ''localNowMs'') (jint (e_now env))) (meta_delete ''outgoingSync'' t)))))))"

definition discard_unrecoverable_saved_claim :: "env \<Rightarrow> database \<Rightarrow> obj \<Rightarrow> claim_result res \<times> database" where
  "discard_unrecoverable_saved_claim env db input = run_workspace db (discard_change env input)"

section \<open>Rebasing retained work on a response\<close>

record rebase =
  b_queues :: jv
  b_dropped_commands :: jv
  b_dropped_timers :: jv
  b_projection_pending :: jv
  b_dependencies :: jv
  b_projection :: jv
  b_canonical :: jv
  b_workspace :: jv

definition stored_queues :: "results \<Rightarrow> jv" where
  "stored_queues r = queues_value (\<lambda>d. objs (x_queue r d))"

definition rebase_input :: "results \<Rightarrow> jv \<Rightarrow> obj \<Rightarrow> jv \<Rightarrow> jv \<Rightarrow> obj" where
  "rebase_input r reconciliation prior never_sent dependencies =
     spread (spread prior (as_obj reconciliation))
       [(''neverSent'', never_sent), (''timerDependencies'', dependencies),
        (''projectionPending'', coalesce (res_value r ''projectionPending'') Null)]"

text \<open>\<open>responseTransactionRebase\<close>; \<open>discarded\<close> is null for a sync response.\<close>

definition response_transaction_rebase :: "env \<Rightarrow> obj \<Rightarrow> results \<Rightarrow> jv \<Rightarrow> rebase res" where
  "response_transaction_rebase env input r discarded =
     (let reconciliation = fld input ''reconciliation'' in
     if \<not> truthy reconciliation then
       Inr \<lparr>b_queues = fld input ''retainedQueues'',
         b_dropped_commands = or_else (fld input ''dropCommandIds'') (Arr []),
         b_dropped_timers = or_else (fld input ''dropTimerIds'') (Arr []),
         b_projection_pending = Null, b_dependencies = Undef, b_projection = Undef,
         b_canonical = Undef, b_workspace = Undef\<rparr>
     else
       let queues = stored_queues r; proved = or_else (res_value r ''deliveryProof'') Null in
       bindr (never_sent_from_proof proved queues (getp reconciliation ''sent'')) (\<lambda>never_sent.
       bindr (dot (getp reconciliation ''response'') ''serverTime'') (\<lambda>server_time.
       bindr (validated_timer_dependencies env (transaction_workspace r) (getp reconciliation ''deviceId'')
         (date_parse server_time)) (\<lambda>dependencies.
       bindr (if truthy discarded then reconcile_resolution env (rebase_input r reconciliation
             [(''queues'', queues), (''queueIds'', discarded), (''deliveryProof'', proved)]
             (proof_value never_sent) dependencies)
           else reconcile_state env (rebase_input r reconciliation
             [(''queues'', queues), (''deliveryProof'', proved)] (proof_value never_sent) dependencies)) (\<lambda>v.
       bindr (dot (fld v ''displayContext'') ''projectionPending'') (\<lambda>pending.
       Inr \<lparr>b_queues = fld v ''queues'', b_dropped_commands = fld v ''droppedTimerOperationIds'',
         b_dropped_timers = fld v ''droppedTimerIds'', b_projection_pending = pending,
         b_dependencies = fld v ''pendingTimerDependencies'', b_projection = fld v ''projection'',
         b_canonical = fld v ''canonicalResponse'', b_workspace = fld v ''workspace''\<rparr>))))))"

definition retained_observation :: "jv \<Rightarrow> jv \<Rightarrow> jv res" where
  "retained_observation observation queues =
     (if \<not> truthy observation then Inr Null
      else bindr (ids_of (getp queues ''commands'')) (\<lambda>ids.
        Inr (Obj (obj_put ''commandTimes''
          (Obj (filter (\<lambda>(k, _). Str k \<in> set ids) (as_obj (getp observation ''commandTimes''))))
          (as_obj observation)))))"

definition no_ownership :: jv where
  "no_ownership = Obj [(''ownershipWrites'', Arr [])]"

definition rebased_workspace :: "obj \<Rightarrow> results \<Rightarrow> rebase \<Rightarrow> records res" where
  "rebased_workspace input r b =
     (let stored = nullish (b_queues b); queues = (if stored then stored_queues r else b_queues b) in
     bindr (never_sent_from_proof (res_value r ''deliveryProof'') queues
       (getp (fld input ''reconciliation'') ''sent'')) (\<lambda>never_sent.
     bindr (if stored then Inr (x_queue r) else queue_records (b_queues b)) (\<lambda>qs.
     Inr (transaction_workspace_with r
       (if fld input ''snapshot'' = Undef then res_value r ''snapshot'' else fld input ''snapshot'') qs
       [(''projectionPending'', b_projection_pending b), (''timerDependencies'', b_dependencies b),
        (''canonicalHead'', coalesce (fld input ''serverHlc'') (res_value r ''canonicalHead'')),
        (''deliveryProof'', proof_value never_sent), (''outgoing'', Null)]))))"

definition installation_ownership :: "env \<Rightarrow> obj \<Rightarrow> results \<Rightarrow> rebase option \<Rightarrow> jv res" where
  "installation_ownership env input r rebased =
     (let claim = fld input ''timerOwnerClaim'' in
     if \<not> truthy claim then Inr no_ownership
     else bindr (case rebased of None \<Rightarrow> Inr (transaction_workspace r) | Some b \<Rightarrow> rebased_workspace input r b) (\<lambda>rec.
       ownership_plan env rec claim [(''kind'', Str ''install'')]))"

definition later_hlc :: "env \<Rightarrow> jv \<Rightarrow> jv \<Rightarrow> jv res" where
  "later_hlc env l r = call_workspace_core env ''hlc.head.v1''
     (Obj [(''physicalNowMs'', jint 0), (''observed'', Arr (filter (\<lambda>c. \<not> nullish c) [l, r]))])"

section \<open>Applying a sync response\<close>

definition validate_sync_response_apply :: "env \<Rightarrow> obj \<Rightarrow> results \<Rightarrow> jv \<Rightarrow> unit res" where
  "validate_sync_response_apply env input r stored =
     bindr (e_current env) (\<lambda>_.
     bindr (account_owner_id (getp stored ''user'')) (\<lambda>stored_user.
     bindr (account_owner_id (getp (fld input ''snapshot'') ''user'')) (\<lambda>incoming_user.
     let expected = fld input ''expectedUserId'' in
     bindr (ensure (truthy expected \<and> strict_eq (or_else stored_user Null) expected
       \<and> strict_eq (or_else incoming_user Null) expected) account_error) (\<lambda>_.
     bindr (ensure (\<not> res_present r ''gate'' \<and> \<not> res_present r ''resolution'') gate_error) (\<lambda>_.
     bindr (dot (fld input ''snapshot'') ''serverTime'') (\<lambda>server_time.
     ensure (valid_date_time server_time) (Error ''Sync response returned an invalid serverTime.'')))))))"

text \<open>Whether the response may be applied to the retained claim.\<close>

definition response_claim_applicable :: "obj \<Rightarrow> results \<Rightarrow> bool res" where
  "response_claim_applicable input r =
     (let saved = or_else (res_value r ''outgoing'') Null; reconciliation = fld input ''reconciliation'' in
     if nullish (fld input ''capturedClaim'') then Inr (\<not> truthy saved)
     else bindr (capture_sync_claim (fld input ''capturedClaim'') (getp reconciliation ''sent'')
         (fld input ''expectedUserId'') (getp reconciliation ''deviceId'')) (\<lambda>captured.
       Inr (records_equal saved captured)))"

definition clears_claim :: "obj \<Rightarrow> bool" where
  "clears_claim input \<longleftrightarrow> \<not> nullish (fld input ''capturedClaim'')"

definition completion_input :: "obj \<Rightarrow> results \<Rightarrow> rebase \<Rightarrow> jv \<Rightarrow> jv \<Rightarrow> jv list \<Rightarrow> jv list \<Rightarrow> obj" where
  "completion_input input r b acknowledgements sendable command_ids other_ids =
     (let history = getp (res_value r ''snapshot'') ''history'' in
     [(''selectedPhase'', or_else (getp (res_value r ''settings'') ''selectedPhase'') (Str ''focus'')),
      (''commands'', objs (x_queue r Commands)), (''acknowledgements'', acknowledgements),
      (''beforeHistory'', history), (''afterHistory'', getp (fld input ''snapshot'') ''history''),
      (''history'', or_else (res_value r ''displayHistory'') history),
      (''canonicalTimer'', if truthy (getp (getp (fld input ''snapshot'') ''canonicalTimer'') ''id'')
         then getp (fld input ''snapshot'') ''canonicalTimer'' else Null),
      (''referenceTime'', getp (fld input ''snapshot'') ''serverTime''),
      (''discardedCommandIds'', b_dropped_commands b), (''pendingCommandIds'', Arr command_ids),
      (''sendableCommandIds'', sendable), (''otherOperationIds'', Arr other_ids),
      (''completionState'', res_value r ''completionState'')])"

definition response_completion_state :: "env \<Rightarrow> obj \<Rightarrow> results \<Rightarrow> rebase \<Rightarrow> jv res" where
  "response_completion_state env input r b =
     (let reconciliation = fld input ''reconciliation'' in
     if \<not> truthy reconciliation then Inr Null
     else bindr (queue_records (b_queues b)) (\<lambda>queues.
       bindr (batch_request queues (getp reconciliation ''deviceId'') (b_dependencies b) (Str ''commands'')
         (Str ''sync'') Null) (\<lambda>request.
       bindr (call_workspace_core env ''sync.batchPlan.v1'' request) (\<lambda>sendable.
       bindr (dot (getp reconciliation ''response'') ''acknowledgements'') (\<lambda>acknowledgements.
       bindr (dot (getp sendable ''selected'') ''commands'') (\<lambda>sendable_ids.
       completion_selection env (completion_input input r b acknowledgements sendable_ids
         (map (\<lambda>c. fld c ''id'') (queues Commands))
         (concat (map (\<lambda>d. map (\<lambda>c. fld c ''id'') (queues d)) (tl DOMAINS))))))))))"

record sync_outcome =
  so_applied :: bool
  so_stale :: bool
  so_claim_changed :: bool
  so_snapshot :: jv
  so_hlc :: jv
  so_clock :: jv

record apply_plan =
  p_rebased :: rebase
  p_hlc :: jv
  p_head :: jv
  p_completion :: jv
  p_settings :: jv
  p_observation :: jv
  p_proof :: proof_ids
  p_owner :: jv
  p_outcome :: sync_outcome

datatype sync_plan = Ignored sync_outcome | Stale jv sync_outcome | Applied apply_plan

fun plan_outcome :: "sync_plan \<Rightarrow> sync_outcome" where
  "plan_outcome (Ignored result) = result"
| "plan_outcome (Stale _ result) = result"
| "plan_outcome (Applied p) = p_outcome p"

definition stored_is_newer :: "jv \<Rightarrow> jv \<Rightarrow> bool" where
  "stored_is_newer stored incoming \<longleftrightarrow>
     js_less (getp incoming ''revision'') (or_else (getp stored ''revision'') (jint 0))"

text \<open>The clock the response carries: the request's own if its sample was taken.\<close>

definition response_hlc :: "obj \<Rightarrow> results \<Rightarrow> jv" where
  "response_hlc input r =
     (if \<not> nullish (fld input ''clockOffset'') \<and> takes_incoming (stored_sample r) (fld input ''clockOffset'')
      then fld input ''hlc'' else or_else (fld input ''serverHlc'') (fld input ''hlc''))"

definition response_head :: "obj \<Rightarrow> results \<Rightarrow> jv" where
  "response_head input r = or_else (sanitize_canonical_head (fld input ''serverHlc''))
     (or_else (sanitize_canonical_head (res_value r ''canonicalHead'')) Null)"

definition response_phase :: "obj \<Rightarrow> results \<Rightarrow> jv \<Rightarrow> jv res" where
  "response_phase input r completion =
     bindr (if nullish completion then Inr Undef else dot (getp completion ''selection'') ''phase'') (\<lambda>phase.
     Inr (coalesce (coalesce (coalesce phase (getp (fld input ''settings'') ''selectedPhase''))
       (getp (res_value r ''settings'') ''selectedPhase'')) (Str ''focus'')))"

definition plan_applied :: "env \<Rightarrow> obj \<Rightarrow> results \<Rightarrow> jv \<Rightarrow> sync_plan res" where
  "plan_applied env input r clock =
     bindr (response_transaction_rebase env input r Null) (\<lambda>b.
     bindr (later_hlc env (res_value r ''hlc'') (response_hlc input r)) (\<lambda>hlc.
     bindr (response_completion_state env input r b) (\<lambda>completion.
     bindr (response_phase input r completion) (\<lambda>phase.
     bindr (retained_observation (res_value r ''workspaceObservation'') (b_queues b)) (\<lambda>observation.
     bindr (never_sent_from_proof (res_value r ''deliveryProof'') (b_queues b)
       (getp (fld input ''reconciliation'') ''sent'')) (\<lambda>proved.
     bindr (installation_ownership env input r (Some b)) (\<lambda>owner.
     Inr (Applied \<lparr>p_rebased = b, p_hlc = hlc, p_head = response_head input r, p_completion = completion,
       p_settings = Obj (obj_put ''selectedPhase'' phase (as_obj (res_value r ''settings''))),
       p_observation = observation, p_proof = proved, p_owner = owner,
       p_outcome = \<lparr>so_applied = True, so_stale = False, so_claim_changed = False,
         so_snapshot = fld input ''snapshot'', so_hlc = hlc, so_clock = clock\<rparr>\<rparr>))))))))"

definition plan_sync_response :: "env \<Rightarrow> obj \<Rightarrow> results \<Rightarrow> sync_plan res" where
  "plan_sync_response env input r =
     (let stored = or_else (res_value r ''snapshot'') Null in
     bindr (validate_sync_response_apply env input r stored) (\<lambda>_.
     bindr (response_claim_applicable input r) (\<lambda>applicable.
     if \<not> applicable then Inr (Ignored \<lparr>so_applied = False, so_stale = True, so_claim_changed = True,
       so_snapshot = stored, so_hlc = Undef, so_clock = Undef\<rparr>)
     else
       bindr (assert_response_display_context env r (getp (fld input ''reconciliation'') ''deviceId'')) (\<lambda>_.
       bindr (latest_clock_offset (stored_sample r) (fld input ''clockOffset'')) (\<lambda>clock.
       if stored_is_newer stored (fld input ''snapshot'') then
         bindr (installation_ownership env input r None) (\<lambda>owner.
         Inr (Stale owner \<lparr>so_applied = False, so_stale = True, so_claim_changed = False,
           so_snapshot = stored, so_hlc = Undef, so_clock = clock\<rparr>))
       else plan_applied env input r clock)))))"

text \<open>\<open>persistReconciledQueue\<close>: the captured operations go, the retained ones are put.\<close>

definition persist_reconciled_queue :: "domain \<Rightarrow> jv \<Rightarrow> jv \<Rightarrow> tx \<Rightarrow> tx res" where
  "persist_reconciled_queue d captured retained t =
     bindr (spread_list captured) (\<lambda>ids.
     bindr (delete_items d ids t) (\<lambda>t.
     bindr (spread_list retained) (\<lambda>items. put_values d items t)))"

definition persist_queues :: "obj \<Rightarrow> rebase \<Rightarrow> tx \<Rightarrow> tx res" where
  "persist_queues input b t =
     bindr (dot (fld input ''queueIds'') ''commands'') (\<lambda>captured.
     bindr (persist_reconciled_queue Commands captured (fld input ''promoteCommands'') t) (\<lambda>t.
     bindr (iter_values (b_dropped_commands b)) (\<lambda>dropped.
     bindr (delete_items Commands dropped t) (\<lambda>t.
     bindr (spread_list (getp (b_queues b) ''commands'')) (\<lambda>commands.
     bindr (put_values Commands commands t) (\<lambda>t.
     foldr_res (\<lambda>t d. persist_reconciled_queue d (getp (fld input ''queueIds'') (domain_name d))
       (getp (b_queues b) (domain_name d)) t) t (tl DOMAINS)))))))"

definition put_if :: "bool \<Rightarrow> string \<Rightarrow> jv \<Rightarrow> tx \<Rightarrow> tx" where
  "put_if b k v t = (if b then meta_put k v t else t)"

definition put_or_delete :: "string \<Rightarrow> jv \<Rightarrow> tx \<Rightarrow> tx" where
  "put_or_delete k v t = (if truthy v then meta_put k v t else meta_delete k t)"

text \<open>The metadata of an applied response, up to the timer's owner, in the code's order.\<close>

definition applied_metadata :: "obj \<Rightarrow> apply_plan \<Rightarrow> tx \<Rightarrow> tx" where
  "applied_metadata input p t =
     (let b = p_rebased p;
          t = meta_put ''snapshot'' (fld input ''snapshot'') t;
          t = put_if (truthy (b_canonical b)) ''canonicalResponse'' (b_canonical b) t;
          t = put_if (truthy (b_workspace b)) ''reconciledWorkspace'' (b_workspace b) t;
          t = put_if (truthy (p_completion p)) ''completionState'' (p_completion p) t;
          t = put_if (truthy (p_head p)) ''canonicalHead'' (p_head p) t;
          t = put_or_delete ''projectionPending'' (b_projection_pending b) t;
          t = (if clears_claim input then meta_delete ''outgoingSync'' t else t);
          t = meta_put ''settings'' (p_settings p) t;
          t = put_if (truthy (b_dependencies b)) ''timerDependencies'' (b_dependencies b) t;
          t = meta_put ''workspaceObservation'' (p_observation p) t;
          t = meta_put ''displayHistory'' (or_else (getp (b_projection b) ''history'')
            (getp (fld input ''snapshot'') ''history'')) t
      in meta_put ''deliveryProof'' (proof_value (p_proof p)) t)"

definition persist_sync_response_plan :: "obj \<Rightarrow> results \<Rightarrow> sync_plan \<Rightarrow> tx \<Rightarrow> tx res" where
  "persist_sync_response_plan input r plan t = (case plan of
     Ignored _ \<Rightarrow> Inr t
   | Stale owner _ \<Rightarrow>
       let t = put_if (takes_incoming (stored_sample r) (fld input ''clockOffset'')) ''clockOffset''
         (fld input ''clockOffset'') t in
       bindr (dot owner ''ownershipWrites'') (\<lambda>writes. write_ownership writes Undef t)
   | Applied p \<Rightarrow>
       let t = put_if (takes_incoming (stored_sample r) (fld input ''clockOffset'')) ''clockOffset''
         (fld input ''clockOffset'') t in
       bindr (persist_queues input (p_rebased p) t) (\<lambda>t.
       bindr (dot (p_owner p) ''ownershipWrites'') (\<lambda>writes.
       bindr (write_ownership writes Undef (applied_metadata input p t)) (\<lambda>t.
       Inr (meta_put ''hlc'' (p_hlc p) t)))))"

definition apply_change :: "env \<Rightarrow> obj \<Rightarrow> results \<Rightarrow> tx \<Rightarrow> (sync_outcome \<times> tx) res" where
  "apply_change env input r t =
     bindr (plan_sync_response env input r) (\<lambda>plan.
     bindr (persist_sync_response_plan input r plan t) (\<lambda>t.
     Inr (plan_outcome plan, t)))"

definition with_captured_claim :: "obj \<Rightarrow> obj res" where
  "with_captured_claim input =
     (if nullish (fld input ''capturedClaim'') then Inr input
      else bindr (capture_sync_claim (fld input ''capturedClaim'') (getp (fld input ''reconciliation'') ''sent'')
          (fld input ''expectedUserId'') (getp (fld input ''reconciliation'') ''deviceId'')) (\<lambda>claim.
        Inr (obj_put ''capturedClaim'' claim input)))"

definition apply_sync_response :: "env \<Rightarrow> database \<Rightarrow> obj \<Rightarrow> sync_outcome res \<times> database" where
  "apply_sync_response env db input = (case with_captured_claim input of
     Inl e \<Rightarrow> (Inl e, db)
   | Inr input \<Rightarrow>
       if \<not> nullish (fld input ''clockOffset'') \<and> \<not> valid_clock_sample (fld input ''clockOffset'')
       then (Inl ClockRangeError, db)
       else run_results SYNC_RESPONSE_REQUESTS db (apply_change env input))"

section \<open>The proof on its own\<close>

definition retire_change :: "env \<Rightarrow> jv \<Rightarrow> obj \<Rightarrow> results \<Rightarrow> tx \<Rightarrow> (proof_ids \<times> tx) res" where
  "retire_change env sent input r t =
     bindr (e_current env) (\<lambda>_.
     bindr (assert_account_ownership (res_value r ''snapshot'') (fld input ''ownerId'')) (\<lambda>_.
     bindr (ensure (\<not> res_present r ''gate'' \<and> \<not> res_present r ''resolution'') gate_error) (\<lambda>_.
     bindr (assert_response_display_context env r (fld input ''deviceId'')) (\<lambda>_.
     bindr (remove_proof_ids (proof_value (sanitize_delivery_proof (res_value r ''deliveryProof''))) sent) (\<lambda>retired.
     bindr (iso (e_now env)) (\<lambda>stamp.
     Inr (retired, meta_put ''outgoingSync'' (Obj [(''sent'', clone_outgoing sent), (''retiredAt'', stamp)])
       (meta_put ''deliveryProof'' (proof_value retired) t))))))))"

definition retire_proof_and_persist_outgoing :: "env \<Rightarrow> database \<Rightarrow> jv \<Rightarrow> obj \<Rightarrow> proof_ids res \<times> database" where
  "retire_proof_and_persist_outgoing env db sent input =
     run_results SYNC_RESPONSE_REQUESTS db (retire_change env sent input)"

definition read_delivery_proof :: "env \<Rightarrow> database \<Rightarrow> proof_ids res \<times> database" where
  "read_delivery_proof env db = account_metadata_mutation env db [] [''deliveryProof''] (\<lambda>r t.
     Inr (sanitize_delivery_proof (res_value r ''deliveryProof''), t))"

section \<open>Readers\<close>

definition read_canonical_state :: "database \<Rightarrow> obj" where
  "read_canonical_state db =
     [(''snapshot'', or_else (meta_value db ''snapshot'') Null), (''hlc'', or_else (meta_value db ''hlc'') Null),
      (''clockOffset'', if valid_clock_sample (meta_value db ''clockOffset'') then meta_value db ''clockOffset'' else Null)]"

definition read_queues :: "database \<Rightarrow> jv" where
  "read_queues db = queues_value (\<lambda>d. objs (queue_items db d))"

definition read_sync_state :: "database \<Rightarrow> obj" where
  "read_sync_state db = read_canonical_state db
     @ map (\<lambda>d. (domain_name d, objs (queue_items db d))) DOMAINS
     @ [(''deliveryProof'', proof_value (sanitize_delivery_proof (meta_value db ''deliveryProof''))),
        (''outgoing'', or_else (meta_value db ''outgoingSync'') Null),
        (''canonicalHead'', sanitize_canonical_head (meta_value db ''canonicalHead''))]
     @ map (\<lambda>k. (k, coalesce (meta_value db k) Null))
         [''projectionPending'', ''timerDependencies'', ''workspaceObservation'', ''settings'',
          ''deviceSequence'', ''completionState'']
     @ [(''sourceAcknowledgements'', coalesce (meta_value db ''sourceAcknowledgements'') (Arr [])),
        (''deviceId'', coalesce (meta_value db ''deviceId'') Null)]"

end
