(* ===== verification/StorageResolution.thy ===== *)
theory StorageResolution
  imports StorageSync
begin

text \<open>
  The resolution of two histories in \<open>web/sync-storage.js\<close>: the request is captured with the
  queues it covers, marked before it is sent, and applied once the server has answered; legacy
  duration operations are brought to their canonical form while they are certainly unsent.
\<close>

section \<open>Capture\<close>

definition RESOLUTION_CAPTURE_REQUESTS :: "(string \<times> string) list" where
  "RESOLUTION_CAPTURE_REQUESTS =
     [(''snapshot'', ''snapshot''), (''gate'', ''bootstrapGate''), (''resolution'', ''bootstrapResolution''),
      (''deliveryProof'', ''deliveryProof''), (''outgoing'', ''outgoingSync''),
      (''projectionPending'', ''projectionPending''), (''canonicalHead'', ''canonicalHead''),
      (''timerDependencies'', ''timerDependencies'')]"

definition other_tab_error :: js_error where
  "other_tab_error = BootstrapGateError ''Bootstrap gate is owned by another tab.''"

definition validate_resolution_capture :: "env \<Rightarrow> results \<Rightarrow> obj \<Rightarrow> obj \<Rightarrow> unit res" where
  "validate_resolution_capture env r input options =
     bindr (assert_storage_context env r (obj_put ''currentUserId'' (fld input ''userId'') options)) (\<lambda>_.
     let gate = or_else (res_value r ''gate'') Null;
         existing = or_else (res_value r ''resolution'') Null;
         token = fld options ''gateToken''; replace = truthy (fld options ''replaceExisting'') in
     bindr (ensure (truthy gate \<and> strict_eq (getp gate ''token'') token) other_tab_error) (\<lambda>_.
     bindr (ensure (\<not> (truthy existing \<and> replace \<and> getp existing ''deliveryState'' \<noteq> Str ''neverSent''))
       (BootstrapGateError ''Possibly delivered history request cannot be replaced without non-delivery evidence.'')) (\<lambda>_.
     bindr (ensure (\<not> (truthy existing \<and> \<not> replace))
       (BootstrapGateError ''Saved history resolution already exists.'')) (\<lambda>_.
     ensure (\<not> (truthy existing \<and> (\<not> strict_eq (getp existing ''gateToken'') token
         \<or> \<not> nonempty_string (fld input ''requestId'')
         \<or> strict_eq (fld input ''requestId'') (getp (getp existing ''payload'') ''requestId''))))
       (BootstrapGateError ''Saved history resolution replacement requires its owner and a fresh request ID.'')))))"

text \<open>\<open>new ResolutionLimitError(violation)\<close>: printing the count needs one.\<close>

definition resolution_limit_error :: "jv \<Rightarrow> jv \<Rightarrow> js_error" where
  "resolution_limit_error status count =
     (if status \<noteq> Str ''blocked_dependency'' \<and> nullish count
      then TypeError ''Cannot read properties of undefined''
      else ResolutionLimitError status count (jint 8192))"

definition is_keep_remote :: "obj \<Rightarrow> bool" where
  "is_keep_remote input \<longleftrightarrow> fld input ''strategy'' = Str ''keep_remote''"

definition capture_plan :: "env \<Rightarrow> results \<Rightarrow> obj \<Rightarrow> ((domain \<Rightarrow> obj list) \<times> jv) res" where
  "capture_plan env r input =
     (let planning = (if is_keep_remote input then (\<lambda>_. []) else x_queue r) in
     bindr (if is_keep_remote input then Inr (Arr [])
       else validated_timer_dependencies env (transaction_workspace r) (fld input ''deviceId'') (jint (e_now env)))
       (\<lambda>dependencies.
     bindr (batch_request planning (fld input ''deviceId'') dependencies (Str ''commands'')
       (if fld input ''strategy'' = Undef then Str ''sync'' else fld input ''strategy'') Null) (\<lambda>request.
     bindr (call_workspace_core env ''sync.batchPlan.v1'' request) (\<lambda>plan.
     bindr (dot plan ''status'') (\<lambda>status.
     if status \<noteq> Str ''planned'' then Inl (resolution_limit_error status (getp plan ''total''))
     else Inr (planning, plan))))))"

text \<open>Captured duration operations whose wire form is not the retained one.\<close>

definition rewritten :: "obj list \<Rightarrow> obj \<Rightarrow> bool res" where
  "rewritten retained operation = bindr (find_record retained (fld operation ''id'')) (\<lambda>original.
     Inr (\<not> strict_eq (fld operation ''occurredAt'') (fld original ''occurredAt'')))"

definition rewrite_one :: "obj list \<Rightarrow> tx \<Rightarrow> obj \<Rightarrow> tx res" where
  "rewrite_one retained t operation =
     bindr (find_record retained (fld operation ''id'')) (\<lambda>original.
     if strict_eq (fld operation ''occurredAt'') (fld original ''occurredAt'') then Inr t
     else queue_put DurationOperations (obj_put ''occurredAt'' (fld operation ''occurredAt'') original) t)"

definition persist_captured_duration_encoding :: "results \<Rightarrow> obj list \<Rightarrow> tx \<Rightarrow> tx res" where
  "persist_captured_duration_encoding r encoded t =
     bindr (never_sent_from_proof (res_value r ''deliveryProof'') (stored_queues r)
       (getp (res_value r ''outgoing'') ''sent'')) (\<lambda>proved.
     bindr (somer (\<lambda>operation. bindr (rewritten (x_queue r DurationOperations) operation) (\<lambda>b.
         Inr (b \<and> fld operation ''id'' \<notin> set (proved DurationOperations)))) encoded) (\<lambda>unproved.
     if unproved then Inl (BootstrapGateError
       ''Possibly delivered legacy duration cannot be rewritten for history resolution.'')
     else foldr_res (rewrite_one (x_queue r DurationOperations)) t encoded))"

definition resolution_payload :: "results \<Rightarrow> obj \<Rightarrow> (domain \<Rightarrow> obj list) \<Rightarrow> obj" where
  "resolution_payload r input sent =
     [(''requestId'', fld input ''requestId''), (''deviceId'', fld input ''deviceId''),
      (''expectedRevision'', fld input ''expectedRevision''), (''strategy'', fld input ''strategy''),
      (''commands'', objs (sent Commands)), (''taskOperations'', objs (sent TaskOperations)),
      (''durationOperations'', objs (sent DurationOperations)),
      (''selectedTaskOperations'', objs (sent SelectedTaskOperations))]
     @ (if x_queue r AutoStartOperations \<noteq> [] \<or> truthy (fld input ''autoStartOperationsPresent'')
        then [(''autoStartOperations'', objs (sent AutoStartOperations))] else [])"

definition captured_resolution :: "results \<Rightarrow> obj \<Rightarrow> obj \<Rightarrow> jv \<Rightarrow> (domain \<Rightarrow> obj list) \<Rightarrow> jv" where
  "captured_resolution r input options owner sent = Obj
     [(''userId'', fld input ''userId''), (''payload'', Obj (resolution_payload r input sent)),
      (''queueIds'', queues_value (\<lambda>d. Arr (map (\<lambda>item. fld item ''id'') (x_queue r d)))),
      (''deliveryState'', Str ''neverSent''), (''gateToken'', fld options ''gateToken''),
      (''sourceOwnerId'', or_else owner Null)]"

definition capture_change :: "env \<Rightarrow> obj \<Rightarrow> obj \<Rightarrow> results \<Rightarrow> tx \<Rightarrow> (jv \<times> tx) res" where
  "capture_change env input options r t =
     bindr (validate_resolution_capture env r input options) (\<lambda>_.
     bindr (assert_response_display_context env r (fld input ''deviceId'')) (\<lambda>_.
     bindr (capture_plan env r input) (\<lambda>(planning, plan).
     bindr (selected_records plan planning) (\<lambda>selected.
     let sent = encode_selected_batch selected in
     bindr (persist_captured_duration_encoding r (sent DurationOperations) t) (\<lambda>t.
     bindr (account_owner_id (getp (res_value r ''snapshot'') ''user'')) (\<lambda>owner.
     let pending = captured_resolution r input options owner sent in
     Inr (pending, meta_put ''bootstrapResolution'' pending t)))))))"

definition capture_resolution :: "env \<Rightarrow> database \<Rightarrow> obj \<Rightarrow> obj \<Rightarrow> jv res \<times> database" where
  "capture_resolution env db input options =
     run_results RESOLUTION_CAPTURE_REQUESTS db (capture_change env input options)"

section \<open>Send\<close>

definition changed_resolution_error :: js_error where
  "changed_resolution_error = BootstrapGateError ''Saved history resolution changed before apply.''"

text \<open>\<open>validateResolutionApply\<close>: its options carry no \<open>assertCurrent\<close>.\<close>

definition validate_resolution_apply :: "env \<Rightarrow> results \<Rightarrow> jv \<Rightarrow> unit res" where
  "validate_resolution_apply env r pending =
     bindr (assert_storage_context (env\<lparr>e_current := Inr ()\<rparr>) r
       ([(''currentUserId'', getp pending ''userId'')]
        @ (if has_own pending ''sourceOwnerId'' then [(''expectedUserId'', getp pending ''sourceOwnerId'')] else []))) (\<lambda>_.
     let resolution = or_else (res_value r ''resolution'') Null; gate = or_else (res_value r ''gate'') Null in
     bindr (ensure (truthy resolution \<and> same_json resolution pending) changed_resolution_error) (\<lambda>_.
     ensure (truthy gate \<and> strict_eq (getp gate ''token'') (getp pending ''gateToken'')) other_tab_error))"

definition send_change :: "env \<Rightarrow> obj \<Rightarrow> results \<Rightarrow> tx \<Rightarrow> (jv \<times> tx) res" where
  "send_change env input r t =
     (let resolution = or_else (res_value r ''resolution'') Null; pending = fld input ''pending'';
          user = fld input ''currentUserId'' in
     bindr (ensure (truthy pending \<and> strict_eq (getp pending ''userId'') user
         \<and> truthy resolution \<and> strict_eq (getp resolution ''userId'') user \<and> same_json resolution pending)
       (BootstrapGateError ''Saved history resolution does not match current account.'')) (\<lambda>_.
     bindr (validate_resolution_apply env r pending) (\<lambda>_.
     bindr (dot (getp resolution ''payload'') ''strategy'') (\<lambda>strategy.
     bindr (saved_batch_request (getp resolution ''payload'')
       (if strategy = Undef then Str ''sync'' else strategy)) (\<lambda>request.
     bindr (call_workspace_core env ''sync.batchPlan.v1'' request) (\<lambda>plan.
     bindr (dot plan ''status'') (\<lambda>status.
     bindr (ensure (status = Str ''replay_saved'') (BootstrapGateError
       ''Saved history request exceeds Core limits. Retained request remains blocked and unchanged.'')) (\<lambda>_.
     let claimed = Obj (obj_put ''deliveryState'' (Str ''possiblyDelivered'') (as_obj resolution)) in
     bindr (remove_proof_ids (res_value r ''deliveryProof'') (getp resolution ''payload'')) (\<lambda>proved.
     Inr (claimed, meta_put ''bootstrapGate'' (bound_bootstrap_lease (fld input ''gateToken'') input)
       (meta_put ''deliveryProof'' (proof_value proved)
       (meta_put ''bootstrapResolution'' claimed t))))))))))))"

definition validate_pending_for_send :: "env \<Rightarrow> database \<Rightarrow> obj \<Rightarrow> jv res \<times> database" where
  "validate_pending_for_send env db input =
     account_metadata_mutation env db input [''deliveryProof''] (send_change env input)"

section \<open>Apply\<close>

definition RESOLUTION_APPLY_REQUESTS :: "(string \<times> string) list" where
  "RESOLUTION_APPLY_REQUESTS =
     [(''gate'', ''bootstrapGate''), (''resolution'', ''bootstrapResolution''), (''snapshot'', ''snapshot''),
      (''hlc'', ''hlc''), (''settings'', ''settings''), (''clockOffset'', ''clockOffset''),
      (''timerOwner'', ''timerOwner''), (''deliveryProof'', ''deliveryProof''),
      (''timerDependencies'', ''timerDependencies''), (''workspaceObservation'', ''workspaceObservation''),
      (''completionState'', ''completionState''), (''sourceAcknowledgements'', ''sourceAcknowledgements''),
      (''projectionPending'', ''projectionPending''), (''canonicalHead'', ''canonicalHead''),
      (''outgoing'', ''outgoingSync'')]"

definition migrated_settings :: "jv \<Rightarrow> jv \<Rightarrow> obj" where
  "migrated_settings settings pending =
     (let payload = getp pending ''payload''; value = as_obj settings;
          value = (if has_own payload ''autoStartOperations'' then value
            else obj_put ''autoStartSyncBootstrapped'' (Bool True)
              (obj_del ''autoStartBreaksExplicit'' (obj_del ''autoStartBreaks'' value)))
      in if has_own payload ''selectedTaskOperations''
         then obj_put ''selectedTaskSyncBootstrapped'' (Bool True) (obj_del ''selectedTaskId'' value) else value)"

definition complete_legacy_migrations :: "results \<Rightarrow> jv \<Rightarrow> tx \<Rightarrow> tx" where
  "complete_legacy_migrations r pending t =
     meta_put ''settings'' (Obj (migrated_settings (res_value r ''settings'') pending)) t"

record resolution_outcome =
  ro_applied :: bool
  ro_stale_success :: bool
  ro_snapshot :: jv
  ro_hlc :: jv
  ro_clock :: jv

text \<open>Whether another tab has applied the resolution already.\<close>

definition is_stale_success :: "results \<Rightarrow> jv \<Rightarrow> obj \<Rightarrow> bool res" where
  "is_stale_success r pending canonical =
     (let stored = or_else (res_value r ''snapshot'') Null in
     if truthy (res_value r ''resolution'') \<or> truthy (res_value r ''gate'') then Inr False
     else bindr (account_owner_id (getp stored ''user'')) (\<lambda>owner.
       if \<not> strict_eq owner (getp pending ''userId'') then Inr False
       else bindr (dot stored ''revision'') (\<lambda>revision.
         bindr (dot (fld canonical ''snapshot'') ''revision'') (\<lambda>incoming.
         Inr (js_le incoming revision)))))"

definition stale_resolution :: "env \<Rightarrow> results \<Rightarrow> jv \<Rightarrow> obj \<Rightarrow> tx \<Rightarrow> (resolution_outcome \<times> tx) res" where
  "stale_resolution env r pending canonical t =
     (let t = complete_legacy_migrations r pending t in
     bindr (installation_ownership env canonical r None) (\<lambda>plan.
     bindr (e_current env) (\<lambda>_.
     bindr (dot plan ''ownershipWrites'') (\<lambda>writes.
     bindr (write_ownership writes Undef t) (\<lambda>t.
     bindr (put_latest_clock_offset (stored_sample r) (fld canonical ''clockOffset'') t) (\<lambda>(clock, t).
     Inr (\<lparr>ro_applied = False, ro_stale_success = True, ro_snapshot = or_else (res_value r ''snapshot'') Null,
       ro_hlc = or_else (res_value r ''hlc'') (fld canonical ''hlc''), ro_clock = clock\<rparr>, t)))))))"

text \<open>\<open>persistResolutionQueue\<close>: the whole queue or the captured part of it is replaced.\<close>

definition persist_resolution_queue :: "domain \<Rightarrow> jv \<Rightarrow> jv \<Rightarrow> bool \<Rightarrow> tx \<Rightarrow> tx res" where
  "persist_resolution_queue d captured reconciled exact t =
     bindr (if exact then Inr (queue_clear d t)
       else bindr (spread_list captured) (\<lambda>ids. delete_items d ids t)) (\<lambda>t.
     bindr (spread_list reconciled) (\<lambda>items. put_values d items t))"

definition apply_resolution_queues :: "jv \<Rightarrow> obj \<Rightarrow> rebase \<Rightarrow> tx \<Rightarrow> tx res" where
  "apply_resolution_queues queue_ids canonical b t =
     (let exact = truthy (fld canonical ''reconciliation'') in
     bindr (if exact then dot (b_queues b) ''commands'' else Inr (fld canonical ''promoteCommands'')) (\<lambda>commands.
     bindr (persist_resolution_queue Commands (getp queue_ids ''commands'') commands exact t) (\<lambda>t.
     bindr (if exact then Inr t
       else bindr (iter_values (b_dropped_commands b)) (\<lambda>dropped. delete_items Commands dropped t)) (\<lambda>t.
     foldr_res (\<lambda>t d. persist_resolution_queue d (getp queue_ids (domain_name d))
       (getp (b_queues b) (domain_name d)) exact t) t (tl DOMAINS)))))"

definition apply_resolution_metadata :: "env \<Rightarrow> results \<Rightarrow> obj \<Rightarrow> tx \<Rightarrow> (jv \<times> jv \<times> tx) res" where
  "apply_resolution_metadata env r canonical t =
     (let t = meta_put ''snapshot'' (fld canonical ''snapshot'') t in
     bindr (put_latest_clock_offset (stored_sample r) (fld canonical ''clockOffset'') t) (\<lambda>(clock, t).
     bindr (later_hlc env (res_value r ''hlc'') (response_hlc canonical r)) (\<lambda>hlc.
     let head = sanitize_canonical_head (fld canonical ''serverHlc'') in
     Inr (hlc, clock, put_if (truthy head) ''canonicalHead'' head (meta_put ''hlc'' hlc t)))))"

text \<open>What is written after the queues: metadata, the timer's owner, and the end of the gate.\<close>

definition finish_resolution ::
  "env \<Rightarrow> results \<Rightarrow> jv \<Rightarrow> obj \<Rightarrow> rebase \<Rightarrow> tx \<Rightarrow> (resolution_outcome \<times> tx) res" where
  "finish_resolution env r pending canonical b t =
     bindr (apply_resolution_metadata env r canonical (complete_legacy_migrations r pending t)) (\<lambda>(hlc, clock, t).
     let t = put_or_delete ''projectionPending'' (b_projection_pending b) t in
     bindr (installation_ownership env canonical r (Some b)) (\<lambda>plan.
     bindr (e_current env) (\<lambda>_.
     bindr (dot plan ''ownershipWrites'') (\<lambda>writes.
     bindr (write_ownership writes Undef t) (\<lambda>t.
     let t = put_if (truthy (b_dependencies b)) ''timerDependencies'' (b_dependencies b) t in
     bindr (retained_observation (res_value r ''workspaceObservation'') (b_queues b)) (\<lambda>observation.
     let t = meta_put ''workspaceObservation'' observation t in
     bindr (if truthy (b_queues b)
       then never_sent_from_proof (res_value r ''deliveryProof'') (b_queues b) (getp pending ''payload'')
       else Inr empty_delivery_proof) (\<lambda>proved.
     let t = put_if (truthy (b_queues b)) ''deliveryProof'' (proof_value proved) t;
         t = meta_put ''displayHistory'' (or_else (getp (b_projection b) ''history'')
           (getp (fld canonical ''snapshot'') ''history'')) t;
         t = meta_delete ''bootstrapGate'' (meta_delete ''bootstrapResolution'' (meta_delete ''outgoingSync'' t)) in
     Inr (\<lparr>ro_applied = True, ro_stale_success = False, ro_snapshot = fld canonical ''snapshot'',
       ro_hlc = hlc, ro_clock = clock\<rparr>, t))))))))"

definition apply_resolution_change ::
  "env \<Rightarrow> jv \<Rightarrow> obj \<Rightarrow> results \<Rightarrow> tx \<Rightarrow> (resolution_outcome \<times> tx) res" where
  "apply_resolution_change env pending canonical r t =
     bindr (e_current env) (\<lambda>_.
     bindr (dot pending ''userId'') (\<lambda>user.
     bindr (assert_account_ownership (fld canonical ''snapshot'') user) (\<lambda>_.
     bindr (assert_response_display_context env r (getp (getp pending ''payload'') ''deviceId'')) (\<lambda>_.
     bindr (is_stale_success r pending canonical) (\<lambda>stale.
     if stale then stale_resolution env r pending canonical t
     else bindr (validate_resolution_apply env r pending) (\<lambda>_.
       let queue_ids = or_else (getp pending ''queueIds'') (Obj []) in
       bindr (response_transaction_rebase env canonical r queue_ids) (\<lambda>b.
       bindr (apply_resolution_queues queue_ids canonical b t) (\<lambda>t.
       finish_resolution env r pending canonical b t))))))))"

definition apply_resolution :: "env \<Rightarrow> database \<Rightarrow> jv \<Rightarrow> obj \<Rightarrow> resolution_outcome res \<times> database" where
  "apply_resolution env db pending canonical =
     (if \<not> nullish (fld canonical ''clockOffset'') \<and> \<not> valid_clock_sample (fld canonical ''clockOffset'')
      then (Inl ClockRangeError, db)
      else run_results RESOLUTION_APPLY_REQUESTS db (apply_resolution_change env pending canonical))"

section \<open>Legacy durations\<close>

definition needs_canonical_duration :: "jv \<Rightarrow> bool" where
  "needs_canonical_duration operation \<longleftrightarrow> to_number (getp operation ''hlcWallMs'') = JInt 0
   \<and> to_number (getp operation ''hlcCounter'') = JInt 0 \<and> getp operation ''occurredAt'' \<noteq> Str LEGACY_EPOCH"

text \<open>The operation and the number of changes.\<close>

definition canonicalize_legacy_duration :: "jv \<Rightarrow> nat \<Rightarrow> jv \<times> nat" where
  "canonicalize_legacy_duration operation changed =
     (if needs_canonical_duration operation
      then (Obj (obj_put ''occurredAt'' (Str LEGACY_EPOCH) (as_obj operation)), Suc changed) else (operation, changed))"

definition canonicalize_queue :: "obj list \<Rightarrow> nat \<Rightarrow> tx \<Rightarrow> (nat \<times> tx) res" where
  "canonicalize_queue operations changed t = foldr_res (\<lambda>(changed, t) operation.
     case canonicalize_legacy_duration (Obj operation) changed of (normalized, changed) \<Rightarrow>
       if needs_canonical_duration (Obj operation)
       then bindr (queue_put DurationOperations (as_obj normalized) t) (\<lambda>t. Inr (changed, t))
       else Inr (changed, t)) (changed, t) operations"

fun canonicalize_captured :: "jv list \<Rightarrow> nat \<Rightarrow> jv list \<times> nat" where
  "canonicalize_captured [] changed = ([], changed)"
| "canonicalize_captured (op # ops) changed =
     (let (op', changed) = canonicalize_legacy_duration op changed;
          (ops', changed) = canonicalize_captured ops changed in (op' # ops', changed))"

definition rotate_legacy_resolution :: "results \<Rightarrow> obj \<Rightarrow> nat \<Rightarrow> tx \<Rightarrow> (jv \<times> nat \<times> tx) res" where
  "rotate_legacy_resolution r options changed t =
     (let captured = or_else (res_value r ''resolution'') Null; payload = getp captured ''payload'';
          operations = list_if_array (getp payload ''durationOperations'');
          token = fld options ''gateToken''; request = fld options ''replacementRequestId'' in
     if \<not> list_ex needs_canonical_duration operations \<or> \<not> truthy token then Inr (captured, changed, t)
     else
       bindr (ensure (getp captured ''deliveryState'' = Str ''neverSent'')
         (BootstrapGateError ''Possibly delivered legacy history request cannot be rewritten.'')) (\<lambda>_.
       bindr (ensure (strict_eq (getp (res_value r ''gate'') ''token'') token
           \<and> strict_eq (getp captured ''gateToken'') token) other_tab_error) (\<lambda>_.
       bindr (ensure (nonempty_string request \<and> \<not> strict_eq request (getp payload ''requestId''))
         (BootstrapGateError ''Legacy history resolution requires a fresh request ID.'')) (\<lambda>_.
       let (normalized, changed) = canonicalize_captured operations changed;
           resolution = Obj (obj_put ''payload'' (Obj (spread (as_obj payload)
             [(''requestId'', request), (''durationOperations'', Arr normalized)])) (as_obj captured)) in
       Inr (resolution, changed, meta_put ''bootstrapResolution'' resolution t)))))"

definition normalize_change :: "env \<Rightarrow> obj \<Rightarrow> results \<Rightarrow> tx \<Rightarrow> ((nat \<times> jv) \<times> tx) res" where
  "normalize_change env options r t =
     bindr (assert_storage_context env r options) (\<lambda>_.
     bindr (assert_response_display_context env r (fld options ''deviceId'')) (\<lambda>_.
     bindr (ids_of (getp (getp (res_value r ''outgoing'') ''sent'') ''durationOperations'')) (\<lambda>outgoing.
     let proven = sanitize_delivery_proof (res_value r ''deliveryProof'') DurationOperations in
     if list_ex (\<lambda>item. needs_canonical_duration (Obj item)
         \<and> (fld item ''id'' \<notin> set proven \<or> fld item ''id'' \<in> set outgoing)) (x_queue r DurationOperations)
     then Inl (BootstrapGateError ''Possibly delivered legacy duration cannot be rewritten.'')
     else bindr (canonicalize_queue (x_queue r DurationOperations) 0 t) (\<lambda>(changed, t).
       bindr (rotate_legacy_resolution r options changed t) (\<lambda>(resolution, changed, t).
       Inr ((changed, resolution), t))))))"

definition normalize_legacy_duration_operations :: "env \<Rightarrow> database \<Rightarrow> obj \<Rightarrow> (nat \<times> jv) res \<times> database" where
  "normalize_legacy_duration_operations env db options =
     run_results (mutation_context_requests []) db (normalize_change env options)"

end
