(* ===== verification/Samples.thy ===== *)
theory Samples
  imports StorageResolution
begin

text \<open>
  A concrete environment, databases and inputs on which the witnesses of the properties
  evaluate: a Core that plans empty batches and keeps what it is given, one signed-in user
  with one queued task operation, and a response with the next revision.
\<close>

definition sample_core :: core_call where
  "sample_core operation input =
     (if operation = ''hlc.head.v1'' then Inr (Obj [(''wallMs'', jint 5), (''counter'', jint 0)])
      else if operation = ''sync.batchPlan.v1'' then Inr (Obj
        [(''status'', Str (if getp input ''kind'' = Str ''saved'' then ''replay_saved'' else ''planned'')),
         (''selected'', queues_value (\<lambda>d. if d = TaskOperations
            then Arr (map (\<lambda>item. getp item ''id'') (list_if_array (getp (getp input ''queues'') ''taskOperations'')))
            else Arr [])),
         (''nextDomain'', Str ''commands'')])
      else if operation = ''timer.completionState.v1'' then Inr (Obj
        [(''selection'', Obj [(''phase'', Str ''focus'')]), (''lifecycle'', getp input ''lifecycle'')])
      else Inl (Error ''unexpected operation''))"

definition sample_reconcile :: "jv \<Rightarrow> jv res" where
  "sample_reconcile input = Inr (Obj
     [(''schemaVersion'', jint 3), (''canonicalResponse'', Obj []), (''workspace'', Obj [(''history'', Arr [])]),
      (''displayContext'', Obj [(''projectionPending'', Null)]), (''droppedTimerOperationIds'', Arr []),
      (''pendingTimerDependencies'', Arr []), (''pending'', Arr []),
      (''pendingTaskOperations'', getp (getp input ''local'') ''taskOperations''),
      (''pendingDurationOperations'', Arr []), (''pendingAutoStartOperations'', Arr []),
      (''pendingSelectedTaskOperations'', Arr [])])"

definition sample_adapter :: adapter where
  "sample_adapter = \<lparr>a_call = Some sample_core,
     a_method = (\<lambda>m. if m = ''reconcileSynchronizedState'' then Some sample_reconcile else None)\<rparr>"

definition utc_day :: local_day where
  "utc_day ms = (ms div 86400000 * 86400000, ms div 86400000 * 86400000 + 86400000)"

definition sample_env :: env where
  "sample_env = \<lparr>e_shared = Some sample_adapter, e_given = None, e_day = utc_day,
     e_now = 1700000000000, e_current = Inr (), e_random_uuid = ''claim-1'', e_entropy = sample_entropy\<rparr>"

definition sample_snapshot :: "int \<Rightarrow> jv" where
  "sample_snapshot revision = Obj [(''revision'', jint revision), (''user'', Obj [(''id'', Str ''user-1'')]),
     (''serverTime'', Str ''2023-11-14T22:13:20.000Z''), (''history'', Arr []), (''canonicalTimer'', Null)]"

definition sample_task :: obj where
  "sample_task = [(''id'', Str ''op-1''), (''deviceId'', Str ''device-1''), (''taskId'', Str ''task-1'')]"

definition sample_proof :: jv where
  "sample_proof = queues_value (\<lambda>d. if d = TaskOperations then Arr [Str ''op-1''] else Arr [])"

definition sample_db :: database where
  "sample_db = \<lparr>d_meta = [(''deliveryProof'', sample_proof), (''deviceId'', Str ''device-1''),
       (''snapshot'', sample_snapshot 3), (''timerDependencies'', Arr [])],
     d_queue = (\<lambda>d. if d = TaskOperations then [(''op-1'', sample_task)] else [])\<rparr>"

definition sample_response :: jv where
  "sample_response = Obj [(''serverTime'', Str ''2023-11-14T22:13:20.000Z''), (''acknowledgements'', Arr [])]"

definition sample_input :: "int \<Rightarrow> obj" where
  "sample_input revision =
     [(''expectedUserId'', Str ''user-1''), (''snapshot'', sample_snapshot revision),
      (''queueIds'', queues_value (\<lambda>_. Arr [])), (''hlc'', Obj [(''wallMs'', jint 4), (''counter'', jint 0)]),
      (''reconciliation'', Obj [(''sent'', Obj []), (''deviceId'', Str ''device-1''), (''response'', sample_response)])]"

text \<open>A request that was claimed and sent, and the response that answers it.\<close>

definition sample_sent :: jv where
  "sample_sent = queues_value (\<lambda>d. if d = TaskOperations then Arr [Obj sample_task] else Arr [])"

definition sample_claim :: jv where
  "sample_claim = Obj [(''claimId'', Str ''claim-0''), (''sent'', sample_sent), (''ownerId'', Str ''user-1''),
     (''retiredAt'', Str ''2023-11-14T22:13:20.000Z''),
     (''body'', JsonText (Obj (spread [(''deviceId'', Str ''device-1''), (''lastRevision'', jint 3)] (as_obj sample_sent))))]"

definition claimed_db :: database where
  "claimed_db = sample_db\<lparr>d_meta := st_put ''outgoingSync'' sample_claim
     (st_put ''deliveryProof'' (queues_value (\<lambda>_. Arr [])) (d_meta sample_db))\<rparr>"

definition claimed_input :: obj where
  "claimed_input = sample_input 4 @ [(''capturedClaim'', sample_claim)]"

definition answered_input :: obj where
  "answered_input = obj_put ''reconciliation'' (Obj [(''sent'', sample_sent), (''deviceId'', Str ''device-1''),
     (''response'', sample_response)]) claimed_input"

definition is_ok :: "'a res \<Rightarrow> bool" where
  "is_ok r = (case r of Inl _ \<Rightarrow> False | Inr _ \<Rightarrow> True)"

lemma is_ok_iff: "is_ok r \<longleftrightarrow> (\<exists>a. r = Inr a)"
  by (simp add: is_ok_def split: sum.split)

lemma db_ok_iff_stores:
  "db_ok db \<longleftrightarrow> st_ok (d_meta db)
     \<and> list_all (\<lambda>d. st_ok (d_queue db d) \<and> list_all (\<lambda>(k, item). fld item ''id'' = Str k) (d_queue db d)) DOMAINS"
proof -
  have "(st_ok s \<and> (\<forall>k item. st_get k s = Some item \<longrightarrow> fld item ''id'' = Str k))
      \<longleftrightarrow> (st_ok s \<and> list_all (\<lambda>(k, item). fld item ''id'' = Str k) s)" for s :: "obj store"
    using st_ok_distinct[of s] by (auto simp: st_get_def list_all_iff dest: map_of_SomeD)
  then show ?thesis by (simp add: db_ok_def list_all_iff)
qed

lemma sample_db_ok: "db_ok sample_db"
  unfolding db_ok_iff_stores by code_simp

lemma claimed_db_ok: "db_ok claimed_db"
  unfolding db_ok_iff_stores by code_simp

text \<open>Results that satisfy a test.\<close>

definition ok_with :: "('a \<Rightarrow> bool) \<Rightarrow> 'a res \<Rightarrow> bool" where
  "ok_with p r = (case r of Inl _ \<Rightarrow> False | Inr a \<Rightarrow> p a)"

lemma ok_withE: "ok_with p r \<Longrightarrow> (\<And>a. r = Inr a \<Longrightarrow> p a \<Longrightarrow> thesis) \<Longrightarrow> thesis"
  by (auto simp: ok_with_def split: sum.splits)

end
