(* ===== verification/GateSafety.thy ===== *)
theory GateSafety
  imports Samples
begin

text \<open>
  What the bootstrap gate guarantees to the tabs that share a database, and what its
  transactions do to the saved resolution: mutual exclusion of live leases as an invariant of
  a step relation, the guard of the gate's removal, and the monotone clock.
\<close>

section \<open>The transactions of the gate\<close>

lemma bound_lease_fields:
  "getp (bound_bootstrap_lease token input) ''token'' = token"
  "getp (bound_bootstrap_lease token input) ''expiresAtMs'' = js_add (fld input ''nowMs'') (fld input ''leaseMs'')"
  by (simp_all add: bound_bootstrap_lease_def lease_value_def)

text \<open>Whether another tab than that of a token holds a live lease.\<close>

definition held_by_other :: "jv \<Rightarrow> jv \<Rightarrow> jv \<Rightarrow> bool" where
  "held_by_other gate token now \<longleftrightarrow> \<not> strict_eq (getp gate ''token'') token \<and> lease_is_live gate now"

lemma lease_is_live_or_else [simp]: "lease_is_live (or_else gate Null) now = lease_is_live gate now"
  by (simp add: lease_is_live_def)

lemma acquire_effect:
  assumes "fst (acquire_bootstrap_gate env db input) = Inr g" and "db_ok db"
  shows "if g_acquired g
    then \<not> held_by_other (meta_value db ''bootstrapGate'') (fld input ''token'') (fld input ''nowMs'')
       \<and> meta_value (snd (acquire_bootstrap_gate env db input)) ''bootstrapGate'' = bound_bootstrap_lease (fld input ''token'') input
    else snd (acquire_bootstrap_gate env db input) = db"
proof -
  from assms(1) obtain t where t: "acquire_change input (sync_results db) \<lparr>t_db = db, t_error = None\<rparr> = Inr (g, t)"
      "snd (acquire_bootstrap_gate env db input) = t_db t"
    unfolding acquire_bootstrap_gate_def by (rule account_metadata_mutation_Inr) simp
  show ?thesis
    using t(1) start_meta_ok[OF assms(2)] unfolding t(2)
    by (auto simp: acquire_change_def Let_def held_by_other_def sync_request_values split: if_splits)
qed

lemma invalidate_effect:
  assumes "fst (invalidate_foreign_resolution env db input) = Inr g" and "db_ok db"
  shows "if v_acquired g
    then \<not> held_by_other (meta_value db ''bootstrapGate'') (fld input ''gateToken'') (fld input ''nowMs'')
       \<and> meta_value (snd (invalidate_foreign_resolution env db input)) ''bootstrapGate''
           = bound_bootstrap_lease (fld input ''gateToken'') input
    else snd (invalidate_foreign_resolution env db input) = db"
proof -
  from assms(1) obtain t where t: "invalidate_change input (sync_results db) \<lparr>t_db = db, t_error = None\<rparr> = Inr (g, t)"
      "snd (invalidate_foreign_resolution env db input) = t_db t"
    unfolding invalidate_foreign_resolution_def by (rule account_metadata_mutation_Inr) simp
  show ?thesis
    using t(1) start_meta_ok[OF assms(2)] unfolding t(2)
    by (auto simp: invalidate_change_def bindr_Inr_iff Let_def held_by_other_def sync_request_values split: if_splits)
qed

lemma clear_effect:
  assumes "fst (clear_bootstrap_gate env db token input) = Inr b"
  shows "\<not> meta_present db ''bootstrapResolution''
    \<and> getp (meta_value db ''bootstrapGate'') ''token'' = token
    \<and> \<not> meta_present (snd (clear_bootstrap_gate env db token input)) ''bootstrapGate''"
proof -
  from assms obtain t where t: "clear_change token (sync_results db) \<lparr>t_db = db, t_error = None\<rparr> = Inr (b, t)"
      "snd (clear_bootstrap_gate env db token input) = t_db t"
    unfolding clear_bootstrap_gate_def by (rule account_metadata_mutation_Inr) simp
  then show ?thesis
    by (auto simp: clear_change_def bindr_Inr_iff ensure_Inr_iff sync_request_values dest: strict_eq_imp_eq)
qed

section \<open>Tabs that compete for the gate\<close>

text \<open>
  The database, the time, and for every tab the end of the lease it was last granted. A tab
  asks with its own token and the present time; every other write leaves the gate alone.
\<close>

record world =
  w_db :: database
  w_now :: int
  w_lease :: "string \<Rightarrow> int option"

definition asks :: "world \<Rightarrow> obj \<Rightarrow> string \<Rightarrow> string \<Rightarrow> int \<Rightarrow> bool" where
  "asks w input field tab lease \<longleftrightarrow> fld input field = Str tab \<and> tab \<noteq> []
     \<and> fld input ''nowMs'' = jint (w_now w) \<and> fld input ''leaseMs'' = jint lease"

definition granted :: "bool \<Rightarrow> string \<Rightarrow> int \<Rightarrow> world \<Rightarrow> world" where
  "granted b tab lease w = (if b then w\<lparr>w_lease := (w_lease w)(tab \<mapsto> w_now w + lease)\<rparr> else w)"

definition grants :: "('a \<Rightarrow> bool) \<Rightarrow> 'a res \<Rightarrow> bool" where
  "grants p r = (case r of Inl _ \<Rightarrow> False | Inr g \<Rightarrow> p g)"

inductive gate_step :: "world \<Rightarrow> world \<Rightarrow> bool" where
  tick: "w_now w \<le> n \<Longrightarrow> gate_step w (w\<lparr>w_now := n\<rparr>)"
| acquire: "asks w input ''token'' tab lease \<Longrightarrow> acquire_bootstrap_gate env (w_db w) input = (r, db') \<Longrightarrow>
     gate_step w (granted (grants g_acquired r) tab lease (w\<lparr>w_db := db'\<rparr>))"
| invalidate: "asks w input ''gateToken'' tab lease \<Longrightarrow> invalidate_foreign_resolution env (w_db w) input = (r, db') \<Longrightarrow>
     gate_step w (granted (grants v_acquired r) tab lease (w\<lparr>w_db := db'\<rparr>))"
| clear: "clear_bootstrap_gate env (w_db w) (Str tab) input = (Inr b, db') \<Longrightarrow>
     gate_step w (w\<lparr>w_db := db', w_lease := (w_lease w)(tab := None)\<rparr>)"
| other: "db_ok db' \<Longrightarrow> meta_value db' ''bootstrapGate'' = meta_value (w_db w) ''bootstrapGate'' \<Longrightarrow>
     gate_step w (w\<lparr>w_db := db'\<rparr>)"

inductive_cases gate_stepE: "gate_step w w'"

inductive reachable :: "world \<Rightarrow> bool" where
  start: "db_ok db \<Longrightarrow> reachable \<lparr>w_db = db, w_now = now, w_lease = (\<lambda>_. None)\<rparr>"
| step: "reachable w \<Longrightarrow> gate_step w w' \<Longrightarrow> reachable w'"

definition live :: "world \<Rightarrow> string \<Rightarrow> bool" where
  "live w tab \<longleftrightarrow> (case w_lease w tab of None \<Rightarrow> False | Some e \<Rightarrow> w_now w < e)"

text \<open>The invariant: the stored gate is the lease of every tab whose lease is live.\<close>

definition gate_inv :: "world \<Rightarrow> bool" where
  "gate_inv w \<longleftrightarrow> db_ok (w_db w) \<and> (\<forall>tab e. w_lease w tab = Some e \<longrightarrow> w_now w < e \<longrightarrow> tab \<noteq> []
     \<and> getp (meta_value (w_db w) ''bootstrapGate'') ''token'' = Str tab
     \<and> getp (meta_value (w_db w) ''bootstrapGate'') ''expiresAtMs'' = jint e)"

lemma live_holds:
  assumes "gate_inv w" and "w_lease w tab = Some e" and "w_now w < e"
  shows "getp (meta_value (w_db w) ''bootstrapGate'') ''token'' = Str tab"
    and "lease_is_live (meta_value (w_db w) ''bootstrapGate'') (jint (w_now w))"
  using assms by (auto simp: gate_inv_def lease_is_live_def js_less_def)

text \<open>What both ways of taking the gate share.\<close>

definition taken :: "bool \<Rightarrow> database \<Rightarrow> database \<Rightarrow> jv \<Rightarrow> obj \<Rightarrow> bool" where
  "taken b db db' token input \<longleftrightarrow> (if b
     then \<not> held_by_other (meta_value db ''bootstrapGate'') token (fld input ''nowMs'')
        \<and> meta_value db' ''bootstrapGate'' = bound_bootstrap_lease token input
     else db' = db)"

lemma granted_inv:
  assumes inv: "gate_inv w" and ok: "db_ok db'" and ask: "asks w input field tab lease"
    and effect: "taken b (w_db w) db' (fld input field) input"
  shows "gate_inv (granted b tab lease (w\<lparr>w_db := db'\<rparr>))"
proof (cases b)
  case False
  then show ?thesis using inv effect by (simp add: granted_def taken_def)
next
  case True
  have gate: "getp (meta_value db' ''bootstrapGate'') ''token'' = Str tab"
    "getp (meta_value db' ''bootstrapGate'') ''expiresAtMs'' = jint (w_now w + lease)"
    using effect ask True by (simp_all add: asks_def bound_lease_fields js_add_def taken_def)
  have same: "x = tab" if x: "w_lease w x = Some e" "w_now w < e" for x e
    using live_holds[OF inv x] effect ask True by (auto simp: held_by_other_def asks_def taken_def)
  show ?thesis
    unfolding gate_inv_def granted_def using True ok gate ask same by (auto simp: asks_def split: if_splits)
qed

lemma gate_transactions_db_ok:
  assumes "db_ok db"
  shows "db_ok (snd (acquire_bootstrap_gate env db input))"
    and "db_ok (snd (invalidate_foreign_resolution env db input))"
    and "db_ok (snd (clear_bootstrap_gate env db token input))"
  unfolding acquire_bootstrap_gate_def invalidate_foreign_resolution_def clear_bootstrap_gate_def
  by (rule account_metadata_mutation_db_ok[OF assms];
      auto simp: acquire_change_def invalidate_change_def clear_change_def bindr_Inr_iff Let_def split: if_splits)+

lemma acquire_taken:
  assumes "acquire_bootstrap_gate env db input = (r, db')" and "db_ok db"
  shows "taken (grants g_acquired r) db db' (fld input ''token'') input"
proof (cases r)
  case (Inl e)
  then show ?thesis
    using account_metadata_mutation_aborted[of env db "obj_put ''currentUserId'' Null input" "[]" "acquire_change input" e] assms(1)
    by (simp add: acquire_bootstrap_gate_def taken_def grants_def)
next
  case (Inr g)
  with assms(1) have e: "fst (acquire_bootstrap_gate env db input) = Inr g" "snd (acquire_bootstrap_gate env db input) = db'" by simp_all
  show ?thesis using acquire_effect[OF e(1) assms(2)] unfolding e(2) by (simp add: taken_def grants_def Inr)
qed

lemma invalidate_taken:
  assumes "invalidate_foreign_resolution env db input = (r, db')" and "db_ok db"
  shows "taken (grants v_acquired r) db db' (fld input ''gateToken'') input"
proof (cases r)
  case (Inl e)
  then show ?thesis
    using account_metadata_mutation_aborted[of env db "obj_put ''currentUserId'' Null input" "[]" "invalidate_change input" e] assms(1)
    by (simp add: invalidate_foreign_resolution_def taken_def grants_def)
next
  case (Inr g)
  with assms(1) have e: "fst (invalidate_foreign_resolution env db input) = Inr g" "snd (invalidate_foreign_resolution env db input) = db'" by simp_all
  show ?thesis using invalidate_effect[OF e(1) assms(2)] unfolding e(2) by (simp add: taken_def grants_def Inr)
qed

lemma gate_step_inv: "gate_step w w' \<Longrightarrow> gate_inv w \<Longrightarrow> gate_inv w'"
proof (induction rule: gate_step.induct)
  case (tick w n)
  then show ?case by (auto simp: gate_inv_def)
next
  case (acquire w input tab lease env r db')
  have db: "db_ok (w_db w)" using acquire.prems by (simp add: gate_inv_def)
  have "db_ok db'" using gate_transactions_db_ok(1)[OF db, of env input] acquire.hyps(2) by simp
  then show ?case using granted_inv acquire.prems acquire.hyps(1) acquire_taken[OF acquire.hyps(2) db] by blast
next
  case (invalidate w input tab lease env r db')
  have db: "db_ok (w_db w)" using invalidate.prems by (simp add: gate_inv_def)
  have "db_ok db'" using gate_transactions_db_ok(2)[OF db, of env input] invalidate.hyps(2) by simp
  then show ?case using granted_inv invalidate.prems invalidate.hyps(1) invalidate_taken[OF invalidate.hyps(2) db] by blast
next
  case (clear env w tab input b db')
  have db: "db_ok (w_db w)" using clear.prems by (simp add: gate_inv_def)
  have ok: "db_ok db'" using gate_transactions_db_ok(3)[OF db, of env "Str tab" input] clear.hyps by simp
  have token: "getp (meta_value (w_db w) ''bootstrapGate'') ''token'' = Str tab"
    using clear_effect[of env "w_db w" "Str tab" input b] clear.hyps by simp
  have "x = tab" if "w_lease w x = Some e" "w_now w < e" for x e
    using live_holds(1)[OF clear.prems that] token by simp
  then show ?case using ok by (auto simp: gate_inv_def)
next
  case (other db' w)
  then show ?case by (simp add: gate_inv_def)
qed

lemma reachable_inv: "reachable w \<Longrightarrow> gate_inv w"
  by (induction rule: reachable.induct) (auto simp: gate_inv_def[of "\<lparr>w_db = _, w_now = _, w_lease = _\<rparr>"] intro: gate_step_inv)


section \<open>The gate after each call\<close>

text \<open>
  Removing the gate needs its token and no saved resolution: a call that succeeds found
  no resolution in the database and its own token in the gate, and removes the gate; a
  call that fails changes nothing.
\<close>

theorem clear_gate_guarded:
  "case fst (clear_bootstrap_gate env db token input) of
     Inl _ \<Rightarrow> snd (clear_bootstrap_gate env db token input) = db
   | Inr _ \<Rightarrow> \<not> meta_present db ''bootstrapResolution''
       \<and> getp (meta_value db ''bootstrapGate'') ''token'' = token
       \<and> \<not> meta_present (snd (clear_bootstrap_gate env db token input)) ''bootstrapGate''"
proof (cases "fst (clear_bootstrap_gate env db token input)")
  case (Inl e)
  then show ?thesis by (simp add: clear_bootstrap_gate_def account_metadata_mutation_aborted)
next
  case (Inr b)
  then show ?thesis using clear_effect[OF Inr] by simp
qed

section \<open>The request sequence of the clock\<close>

lemma next_sequence_jint [simp]: "next_sequence (jint i) = Some (i + 1)"
  by (simp add: next_sequence_def)

lemma allocate_effect:
  assumes "fst (allocate_clock_request_sequence env db input) = Inr s" and "db_ok db"
  shows "next_sequence (meta_value db ''clockRequestSequence'') = Some s \<and> safe_int s \<and> 0 < s
    \<and> meta_value (snd (allocate_clock_request_sequence env db input)) ''clockRequestSequence'' = jint s"
proof -
  have read: "res_value (read_results (mutation_context_requests [(''clockRequestSequence'', ''clockRequestSequence'')]) db)
      ''clockRequestSequence'' = meta_value db ''clockRequestSequence''"
    by (simp add: res_value_def read_results_def mutation_context_requests_def meta_value_def)
  from assms(1) show ?thesis unfolding allocate_clock_request_sequence_def
    by (rule account_metadata_mutation_Inr)
      (use start_meta_ok[OF assms(2)] in \<open>auto simp: read split: option.splits if_splits\<close>)
qed

text \<open>
  C15: Clock requests are numbered without gaps or repeats: two allocations in a row, with
  nothing else in between that writes the counter, return consecutive positive safe integers,
  and each number is stored before it is returned.
\<close>

theorem clock_sequence_increases:
  assumes first: "fst (allocate_clock_request_sequence env db input) = Inr s" and db: "db_ok db"
    and kept: "meta_value db' ''clockRequestSequence''
      = meta_value (snd (allocate_clock_request_sequence env db input)) ''clockRequestSequence''" and db': "db_ok db'"
    and second: "fst (allocate_clock_request_sequence env' db' input') = Inr s'"
  shows "s' = s + 1 \<and> 0 < s \<and> safe_int s'
    \<and> meta_value (snd (allocate_clock_request_sequence env' db' input')) ''clockRequestSequence'' = jint s'"
  using allocate_effect[OF first db] allocate_effect[OF second db'] kept by simp

section \<open>Witnesses\<close>

definition gate_input :: "string \<Rightarrow> int \<Rightarrow> obj" where
  "gate_input tab now = [(''token'', Str tab), (''gateToken'', Str tab), (''nowMs'', jint now), (''leaseMs'', jint 1000),
     (''currentUserId'', Str ''user-1'')]"

definition start_world :: world where
  "start_world = \<lparr>w_db = sample_db, w_now = 1000, w_lease = (\<lambda>_. None)\<rparr>"

definition held_world :: world where
  "held_world = granted (grants g_acquired (fst (acquire_bootstrap_gate sample_env sample_db (gate_input ''tab-a'' 1000))))
     ''tab-a'' 1000 (start_world\<lparr>w_db := snd (acquire_bootstrap_gate sample_env sample_db (gate_input ''tab-a'' 1000))\<rparr>)"

lemma held_world_reachable: "reachable held_world"
proof -
  have "reachable start_world" unfolding start_world_def by (rule reachable.start) (rule sample_db_ok)
  moreover have "gate_step start_world held_world"
    unfolding held_world_def
    by (rule gate_step.acquire[where env = sample_env and input = "gate_input ''tab-a'' 1000"])
      (simp_all add: asks_def gate_input_def start_world_def)
  ultimately show ?thesis by (rule reachable.step)
qed


theorem clock_sequence_increases_witness:
  "fst (allocate_clock_request_sequence sample_env
     (snd (allocate_clock_request_sequence sample_env sample_db [])) []) = Inr 2"
proof -
  let ?db = "snd (allocate_clock_request_sequence sample_env sample_db [])"
  have one: "fst (allocate_clock_request_sequence sample_env sample_db []) = Inr 1" by code_simp
  have two: "ok_with (\<lambda>_. True) (fst (allocate_clock_request_sequence sample_env ?db []))" by code_simp
  have ok: "db_ok ?db" unfolding db_ok_iff_stores by code_simp
  from two obtain s where s: "fst (allocate_clock_request_sequence sample_env ?db []) = Inr s" by (rule ok_withE)
  from clock_sequence_increases[OF one sample_db_ok refl ok s] s show ?thesis by simp
qed

end
