(* ===== verification/SyncSafety.thy ===== *)
theory SyncSafety
  imports Samples
begin

text \<open>
  What the application of a sync response guarantees: the account and gate fences, the
  precedence of a newer stored snapshot, the fence around a retained claim, the survival of
  operations queued while the request was in flight, and the delivery proof.
\<close>

section \<open>The run of an application\<close>

text \<open>A successful application: the checked input, its plan, and the transaction it leaves.\<close>

definition applied_run :: "env \<Rightarrow> database \<Rightarrow> obj \<Rightarrow> obj \<Rightarrow> sync_plan \<Rightarrow> tx \<Rightarrow> bool" where
  "applied_run env db input input' plan t \<longleftrightarrow>
     with_captured_claim input = Inr input'
   \<and> plan_sync_response env input' (sync_results db) = Inr plan
   \<and> persist_sync_response_plan input' (sync_results db) plan \<lparr>t_db = db, t_error = None\<rparr> = Inr t"

lemma apply_run:
  assumes "fst (apply_sync_response env db input) = Inr result"
  obtains input' plan t where "applied_run env db input input' plan t" "result = plan_outcome plan"
    "snd (apply_sync_response env db input) = t_db t"
proof -
  from assms obtain input' where w: "with_captured_claim input = Inr input'"
    by (auto simp: apply_sync_response_def split: sum.splits)
  have run: "apply_sync_response env db input
      = run_results SYNC_RESPONSE_REQUESTS db (apply_change env input')"
    using assms w by (auto simp: apply_sync_response_def split: if_splits)
  from assms[unfolded run] obtain t where
      t: "apply_change env input' (sync_results db) \<lparr>t_db = db, t_error = None\<rparr> = Inr (result, t)"
      "snd (apply_sync_response env db input) = t_db t"
    unfolding run by (rule run_results_Inr)
  from t(1) obtain plan where "plan_sync_response env input' (sync_results db) = Inr plan"
      "persist_sync_response_plan input' (sync_results db) plan \<lparr>t_db = db, t_error = None\<rparr> = Inr t"
      "result = plan_outcome plan"
    by (auto simp: apply_change_def bindr_Inr_iff)
  with w t(2) show ?thesis by (intro that) (auto simp: applied_run_def)
qed

lemma with_captured_claim_fields:
  assumes "with_captured_claim input = Inr input'" and "k \<noteq> ''capturedClaim''"
  shows "fld input' k = fld input k"
  using assms by (auto simp: with_captured_claim_def bindr_Inr_iff split: if_splits)

lemma capture_sync_claim_object: "capture_sync_claim claim sent owner device = Inr v \<Longrightarrow> plain_object v"
  by (cases claim) (auto simp: capture_sync_claim_def captured_claim_ok_def bindr_Inr_iff ensure_Inr_iff json_clone_def)

lemma with_captured_claim_nullish:
  assumes "with_captured_claim input = Inr input'" and "nullish (fld input' ''capturedClaim'')"
  shows "nullish (fld input ''capturedClaim'')"
proof (rule ccontr)
  assume "\<not> nullish (fld input ''capturedClaim'')"
  with assms(1) obtain claim where "plain_object claim" "input' = obj_put ''capturedClaim'' claim input"
    by (auto simp: with_captured_claim_def bindr_Inr_iff dest: capture_sync_claim_object)
  with assms(2) show False by (cases claim) simp_all
qed

lemma plan_sync_response_checks:
  assumes "plan_sync_response env input r = Inr plan"
  shows "validate_sync_response_apply env input r (or_else (res_value r ''snapshot'') Null) = Inr ()"
  using assms by (auto simp: plan_sync_response_def bindr_Inr_iff Let_def)

text \<open>The three plans, each with the condition under which it is made.\<close>

lemma plan_sync_response_cases:
  assumes "plan_sync_response env input r = Inr plan"
  obtains (ignored) result where "plan = Ignored result" "response_claim_applicable input r = Inr False"
      "so_claim_changed result" "\<not> so_applied result"
    | (stale) owner result where "plan = Stale owner result" "response_claim_applicable input r = Inr True"
      "stored_is_newer (or_else (res_value r ''snapshot'') Null) (fld input ''snapshot'')"
      "\<not> so_claim_changed result" "\<not> so_applied result"
    | (applied) clock where "plan_applied env input r clock = Inr plan"
      "response_claim_applicable input r = Inr True"
      "\<not> stored_is_newer (or_else (res_value r ''snapshot'') Null) (fld input ''snapshot'')"
proof -
  define stored where "stored = or_else (res_value r ''snapshot'') Null"
  from assms obtain applicable where a: "response_claim_applicable input r = Inr applicable"
    by (auto simp: plan_sync_response_def bindr_Inr_iff Let_def)
  have v: "validate_sync_response_apply env input r stored = Inr ()"
    using plan_sync_response_checks[OF assms] by (simp add: stored_def)
  show ?thesis
  proof (cases applicable)
    case False
    with assms a v show ?thesis by (intro ignored) (auto simp: plan_sync_response_def Let_def stored_def)
  next
    case True
    from assms a v True obtain clock where rest:
      "(if stored_is_newer stored (fld input ''snapshot'')
        then bindr (installation_ownership env input r None) (\<lambda>owner.
          Inr (Stale owner \<lparr>so_applied = False, so_stale = True, so_claim_changed = False,
            so_snapshot = stored, so_hlc = Undef, so_clock = clock\<rparr>))
        else plan_applied env input r clock) = Inr plan"
      by (auto simp: plan_sync_response_def Let_def bindr_Inr_iff simp flip: stored_def)
    show ?thesis
    proof (cases "stored_is_newer stored (fld input ''snapshot'')")
      case True
      with rest obtain owner result where "plan = Stale owner result" "\<not> so_claim_changed result"
          "\<not> so_applied result"
        by (auto simp: bindr_Inr_iff)
      then show ?thesis using a True \<open>applicable\<close> by (intro stale) (auto simp: stored_def)
    next
      case False
      with rest a \<open>applicable\<close> show ?thesis by (intro applied) (simp_all add: stored_def)
    qed
  qed
qed

lemma plan_applied_Inr:
  assumes "plan_applied env input r clock = Inr plan"
  obtains p where "plan = Applied p" "response_transaction_rebase env input r Null = Inr (p_rebased p)"
    "never_sent_from_proof (res_value r ''deliveryProof'') (b_queues (p_rebased p))
       (getp (fld input ''reconciliation'') ''sent'') = Inr (p_proof p)"
    "response_completion_state env input r (p_rebased p) = Inr (p_completion p)"
    "so_applied (p_outcome p)" "\<not> so_claim_changed (p_outcome p)"
    "so_snapshot (p_outcome p) = fld input ''snapshot''"
proof -
  from assms obtain p where "plan = Applied p" by (auto simp: plan_applied_def bindr_Inr_iff)
  with assms show ?thesis by (intro that[of p]) (auto simp: plan_applied_def bindr_Inr_iff)
qed

section \<open>Fences\<close>

lemma validate_apply_Inr:
  assumes "validate_sync_response_apply env input r stored = Inr ()"
  shows "e_current env = Inr ()"
    and "truthy (fld input ''expectedUserId'')"
    and "account_owner_id (getp stored ''user'') = Inr (fld input ''expectedUserId'')"
    and "account_owner_id (getp (fld input ''snapshot'') ''user'') = Inr (fld input ''expectedUserId'')"
    and "\<not> res_present r ''gate''" "\<not> res_present r ''resolution''"
proof -
  have eq: "owner = e" if "truthy e" "strict_eq (or_else owner Null) e" for owner e
    using that strict_eq_imp_eq[OF that(2)] by (auto simp: or_else_def split: if_splits)
  show "e_current env = Inr ()" "truthy (fld input ''expectedUserId'')"
    "account_owner_id (getp stored ''user'') = Inr (fld input ''expectedUserId'')"
    "account_owner_id (getp (fld input ''snapshot'') ''user'') = Inr (fld input ''expectedUserId'')"
    "\<not> res_present r ''gate''" "\<not> res_present r ''resolution''"
    using assms by (auto simp: validate_sync_response_apply_def bindr_Inr_iff ensure_Inr_iff Let_def dest: eq)
qed

definition fence_holds :: "env \<Rightarrow> database \<Rightarrow> obj \<Rightarrow> bool" where
  "fence_holds env db input \<longleftrightarrow> e_current env = Inr ()
   \<and> truthy (fld input ''expectedUserId'')
   \<and> account_owner_id (getp (meta_value db ''snapshot'') ''user'') = Inr (fld input ''expectedUserId'')
   \<and> account_owner_id (getp (fld input ''snapshot'') ''user'') = Inr (fld input ''expectedUserId'')
   \<and> \<not> meta_present db ''bootstrapGate'' \<and> \<not> meta_present db ''bootstrapResolution''"

lemma applied_run_field:
  "applied_run env db input input' plan t \<Longrightarrow> k \<noteq> ''capturedClaim'' \<Longrightarrow> fld input' k = fld input k"
  unfolding applied_run_def using with_captured_claim_fields by blast

lemma applied_run_fence: "applied_run env db input input' plan t \<Longrightarrow> fence_holds env db input"
proof -
  assume run: "applied_run env db input input' plan t"
  then have same: "\<And>k. k \<noteq> ''capturedClaim'' \<Longrightarrow> fld input' k = fld input k"
    by (auto simp: applied_run_def dest: with_captured_claim_fields)
  have "validate_sync_response_apply env input' (sync_results db)
      (or_else (meta_value db ''snapshot'') Null) = Inr ()"
    using run plan_sync_response_checks[of env input' "sync_results db" plan]
    by (simp add: applied_run_def sync_request_values)
  from validate_apply_Inr[OF this] show ?thesis
    by (simp add: same sync_request_values fence_holds_def)
qed

lemma apply_sync_response_atomic:
  "fst (apply_sync_response env db input) = Inl e \<Longrightarrow> snd (apply_sync_response env db input) = db"
  by (auto simp: apply_sync_response_def split: sum.splits if_splits dest: run_results_aborted)

text \<open>
  C3: A sync response takes effect only for the account it was requested for, as long as no
  bootstrap resolves two histories: whatever it is given, a successful application found
  the caller still current, the stored and the received snapshot owned by the expected
  account, and neither a gate nor a saved resolution; and an application that fails leaves
  the database as it was.
\<close>

theorem apply_sync_response_fence:
  "case fst (apply_sync_response env db input) of
     Inl _ \<Rightarrow> snd (apply_sync_response env db input) = db
   | Inr _ \<Rightarrow> fence_holds env db input"
  by (auto split: sum.splits intro: apply_sync_response_atomic elim!: apply_run dest: applied_run_fence)

section \<open>A newer stored snapshot\<close>

lemma put_if_frame [simp]:
  "queue_items (t_db (put_if b k v t)) = queue_items (t_db t)"
  "t_error (put_if b k v t) = t_error t"
  "meta_ok t \<Longrightarrow> meta_ok (put_if b k v t)"
  "meta_ok t \<Longrightarrow> k' \<noteq> k \<Longrightarrow> meta_value (t_db (put_if b k v t)) k' = meta_value (t_db t) k'"
  "meta_ok t \<Longrightarrow> k' \<noteq> k \<Longrightarrow> meta_present (t_db (put_if b k v t)) k' = meta_present (t_db t) k'"
  by (simp_all add: put_if_def meta_write_simps)

lemma persist_stale_frame:
  assumes "persist_sync_response_plan input r (Stale owner result) t = Inr t'" and "meta_ok t"
  shows "queue_items (t_db t') = queue_items (t_db t)"
    and "k \<notin> {''clockOffset'', ''timerOwner''} \<Longrightarrow> meta_value (t_db t') k = meta_value (t_db t) k"
proof -
  let ?t = "put_if (takes_incoming (stored_sample r) (fld input ''clockOffset'')) ''clockOffset''
    (fld input ''clockOffset'') t"
  from assms(1) obtain writes where "write_ownership writes Undef ?t = Inr t'"
    by (auto simp: persist_sync_response_plan_def bindr_Inr_iff Let_def)
  then have "same_but_owner ?t t'" using assms(2) by (intro write_ownership_frame) simp_all
  then show "queue_items (t_db t') = queue_items (t_db t)"
    and "k \<notin> {''clockOffset'', ''timerOwner''} \<Longrightarrow> meta_value (t_db t') k = meta_value (t_db t) k"
    using assms(2) by (auto simp: same_but_owner_def)
qed

text \<open>
  A response older than the stored snapshot never takes effect: it is reported as stale
  or as meant for another claim, no queued operation changes, and of the metadata nothing but
  the clock sample and the timer's owner can change, so the newer snapshot stays.
\<close>

theorem stale_response_keeps_state:
  assumes ok: "fst (apply_sync_response env db input) = Inr result"
    and newer: "stored_is_newer (or_else (meta_value db ''snapshot'') Null) (fld input ''snapshot'')"
    and db: "db_ok db"
  shows "\<not> so_applied result
    \<and> queue_items (snd (apply_sync_response env db input)) = queue_items db
    \<and> (\<forall>k. k \<notin> {''clockOffset'', ''timerOwner''} \<longrightarrow>
         meta_value (snd (apply_sync_response env db input)) k = meta_value db k)"
proof -
  from ok obtain input' plan t where run: "applied_run env db input input' plan t"
    and out: "result = plan_outcome plan" "snd (apply_sync_response env db input) = t_db t"
    by (rule apply_run)
  have same: "fld input' ''snapshot'' = fld input ''snapshot''"
    using run by (simp add: applied_run_field)
  from run have "plan_sync_response env input' (sync_results db) = Inr plan" by (simp add: applied_run_def)
  then show ?thesis
  proof (cases rule: plan_sync_response_cases)
    case (ignored r)
    then show ?thesis using run out by (auto simp: applied_run_def persist_sync_response_plan_def)
  next
    case (stale owner r)
    then have p: "persist_sync_response_plan input' (sync_results db) (Stale owner r)
        \<lparr>t_db = db, t_error = None\<rparr> = Inr t"
      using run by (simp add: applied_run_def)
    show ?thesis using persist_stale_frame[OF p start_meta_ok[OF db]] stale out by simp
  next
    case (applied clock)
    then show ?thesis using newer by (simp add: sync_request_values same)
  qed
qed

lemma sample_stale: "is_ok (fst (apply_sync_response sample_env sample_db (sample_input 2)))"
  by code_simp

theorem stale_response_keeps_state_witness:
  "meta_value (snd (apply_sync_response sample_env sample_db (sample_input 2))) ''snapshot'' = sample_snapshot 3"
proof -
  obtain result where ok: "fst (apply_sync_response sample_env sample_db (sample_input 2)) = Inr result"
    using sample_stale by (auto simp: is_ok_iff)
  have newer: "stored_is_newer (or_else (meta_value sample_db ''snapshot'') Null) (fld (sample_input 2) ''snapshot'')"
    by code_simp
  have "meta_value (snd (apply_sync_response sample_env sample_db (sample_input 2))) ''snapshot''
      = meta_value sample_db ''snapshot''"
    using stale_response_keeps_state[OF ok newer sample_db_ok] by simp
  also have "\<dots> = sample_snapshot 3" by code_simp
  finally show ?thesis .
qed

section \<open>What the queues hold afterwards\<close>

text \<open>One queue after the captured identifiers are deleted and the retained items are put.\<close>

definition replaced :: "string list \<Rightarrow> obj list \<Rightarrow> obj store \<Rightarrow> obj store" where
  "replaced ids items s = put_all st_put (keyed items) (del_all st_delete ids s)"

lemma put_values_items: "put_values d vs t = Inr t' \<Longrightarrow> \<exists>items. vs = map Obj items \<and> put_items d items t = Inr t'"
proof (induction vs arbitrary: t)
  case Nil
  then show ?case by (simp add: put_values_def put_items_def)
next
  case (Cons v vs)
  then obtain item t1 where v: "v = Obj item" "queue_put d item t = Inr t1" "put_values d vs t1 = Inr t'"
    by (auto simp: put_values_def put_value_def bindr_Inr_iff split: jv.splits)
  from Cons.IH[OF v(3)] obtain items where "vs = map Obj items" "put_items d items t1 = Inr t'" by blast
  with v show ?case by (intro exI[of _ "item # items"]) (simp add: put_items_def)
qed

lemma persist_reconciled_queue_eq:
  assumes "persist_reconciled_queue d captured retained t = Inr t'"
  obtains ids items where "spread_list captured = Inr (map Str ids)" "spread_list retained = Inr (map Obj items)"
    "\<forall>item \<in> set items. fld item ''id'' = Str (id_of item)"
    "t' = set_queue d (replaced ids items (d_queue (t_db t) d)) t"
proof -
  from assms obtain ks t1 vs where ks: "spread_list captured = Inr ks" "delete_items d ks t = Inr t1"
      "spread_list retained = Inr vs" "put_values d vs t1 = Inr t'"
    by (auto simp: persist_reconciled_queue_def bindr_Inr_iff)
  from put_values_items[OF ks(4)] obtain items where items: "vs = map Obj items" "put_items d items t1 = Inr t'"
    by blast
  show ?thesis
    using delete_items_eq[OF ks(2)] put_items_eq[OF items(2)] ks items
    by (intro that[of "map str_of ks" items]) (auto simp: replaced_def tx_simps)
qed

text \<open>The queues of several domains, each written once; the metadata is left alone.\<close>

definition queue_step :: "(domain \<Rightarrow> tx \<Rightarrow> tx res) \<Rightarrow> (domain \<Rightarrow> obj store \<Rightarrow> obj store \<Rightarrow> bool) \<Rightarrow> bool" where
  "queue_step f R \<longleftrightarrow> (\<forall>d t t'. f d t = Inr t' \<longrightarrow>
     (\<exists>s. t' = set_queue d s t \<and> R d (d_queue (t_db t) d) s))"

lemma queue_steps:
  assumes "queue_step f R" and "distinct ds" and "foldr_res (\<lambda>t d. f d t) t ds = Inr t'"
  shows "d_meta (t_db t') = d_meta (t_db t) \<and> t_error t' = t_error t
    \<and> (\<forall>d. if d \<in> set ds then R d (d_queue (t_db t) d) (d_queue (t_db t') d)
         else d_queue (t_db t') d = d_queue (t_db t) d)"
  using assms(2,3)
proof (induction ds arbitrary: t)
  case (Cons d ds)
  then obtain t1 where t1: "f d t = Inr t1" "foldr_res (\<lambda>t d. f d t) t1 ds = Inr t'"
    by (auto simp: bindr_Inr_iff)
  from assms(1) t1(1) obtain s where s: "t1 = set_queue d s t" "R d (d_queue (t_db t) d) s"
    unfolding queue_step_def by blast
  from Cons.IH[OF _ t1(2)] Cons.prems(1) s show ?case by (auto simp: tx_simps split: if_splits)
qed simp

text \<open>The relation between a queue before and after \<open>persistReconciledQueue\<close>.\<close>

definition reconciled_to :: "jv \<Rightarrow> jv \<Rightarrow> obj store \<Rightarrow> obj store \<Rightarrow> bool" where
  "reconciled_to captured retained s s' \<longleftrightarrow> (\<exists>ids items. spread_list captured = Inr (map Str ids)
     \<and> spread_list retained = Inr (map Obj items)
     \<and> (\<forall>item \<in> set items. fld item ''id'' = Str (id_of item)) \<and> s' = replaced ids items s)"

lemma persist_reconciled_step:
  "queue_step (\<lambda>d. persist_reconciled_queue d (c d) (q d)) (\<lambda>d. reconciled_to (c d) (q d))"
  unfolding queue_step_def reconciled_to_def by (blast elim: persist_reconciled_queue_eq)

lemma distinct_tl_DOMAINS: "distinct (tl DOMAINS)" "d \<in> set (tl DOMAINS) \<longleftrightarrow> d \<noteq> Commands"
  by (cases d; simp add: DOMAINS_def)+

lemma get_replaced:
  "st_ok s \<Longrightarrow> st_get k (replaced ids items s) = (case map_of (rev (keyed items)) k of Some v \<Rightarrow> Some v
     | None \<Rightarrow> if k \<in> set ids then None else st_get k s)"
  unfolding replaced_def by (rule idb.get_replace)

lemma st_ok_replaced: "st_ok s \<Longrightarrow> st_ok (replaced ids items s)"
  unfolding replaced_def by (intro idb.inv_put_all idb.inv_del_all)

text \<open>The five queues after the persistence of a rebase.\<close>

lemma persist_queues_effect:
  assumes "persist_queues input b t = Inr t'"
  obtains ids0 items0 dropped items where
    "spread_list (getp (fld input ''queueIds'') ''commands'') = Inr (map Str ids0)"
    "spread_list (fld input ''promoteCommands'') = Inr (map Obj items0)"
    "iter_values (b_dropped_commands b) = Inr (map Str dropped)"
    "spread_list (getp (b_queues b) ''commands'') = Inr (map Obj items)"
    "\<forall>item \<in> set (items0 @ items). fld item ''id'' = Str (id_of item)"
    "d_queue (t_db t') Commands = replaced dropped items (replaced ids0 items0 (d_queue (t_db t) Commands))"
    "\<And>d. d \<noteq> Commands \<Longrightarrow> reconciled_to (getp (fld input ''queueIds'') (domain_name d))
       (getp (b_queues b) (domain_name d)) (d_queue (t_db t) d) (d_queue (t_db t') d)"
    "d_meta (t_db t') = d_meta (t_db t)" "t_error t' = t_error t"
proof -
  let ?f = "\<lambda>d. persist_reconciled_queue d (getp (fld input ''queueIds'') (domain_name d))
       (getp (b_queues b) (domain_name d))"
  from assms obtain captured t1 dropped t2 commands t3 where
      q: "dot (fld input ''queueIds'') ''commands'' = Inr captured"
      "persist_reconciled_queue Commands captured (fld input ''promoteCommands'') t = Inr t1"
      "iter_values (b_dropped_commands b) = Inr dropped" "delete_items Commands dropped t1 = Inr t2"
      "spread_list (getp (b_queues b) ''commands'') = Inr commands" "put_values Commands commands t2 = Inr t3"
      "foldr_res (\<lambda>t d. ?f d t) t3 (tl DOMAINS) = Inr t'"
    by (auto simp: persist_queues_def bindr_Inr_iff)
  have cap: "captured = getp (fld input ''queueIds'') ''commands''"
    using q(1) by (auto simp: dot_def split: jv.splits)
  from q(2) obtain ids0 items0 where a: "spread_list captured = Inr (map Str ids0)"
      "spread_list (fld input ''promoteCommands'') = Inr (map Obj items0)"
      "\<forall>item \<in> set items0. fld item ''id'' = Str (id_of item)"
      "t1 = set_queue Commands (replaced ids0 items0 (d_queue (t_db t) Commands)) t"
    by (rule persist_reconciled_queue_eq)
  from put_values_items[OF q(6)] obtain items where c: "commands = map Obj items"
      "put_items Commands items t2 = Inr t3" by blast
  note put = put_items_eq[OF c(2)] and del = delete_items_eq[OF q(4)]
  have t3: "t3 = set_queue Commands (replaced (map str_of dropped) items
      (replaced ids0 items0 (d_queue (t_db t) Commands))) t"
    using put del a(4) by (simp add: replaced_def tx_simps)
  have steps: "d_meta (t_db t') = d_meta (t_db t3) \<and> t_error t' = t_error t3
    \<and> (\<forall>d. if d \<in> set (tl DOMAINS)
         then reconciled_to (getp (fld input ''queueIds'') (domain_name d)) (getp (b_queues b) (domain_name d))
           (d_queue (t_db t3) d) (d_queue (t_db t') d)
         else d_queue (t_db t') d = d_queue (t_db t3) d)"
    using queue_steps[OF persist_reconciled_step distinct_tl_DOMAINS(1) q(7)] by simp
  show ?thesis
  proof (rule that)
    show "d_queue (t_db t') Commands = replaced (map str_of dropped) items
        (replaced ids0 items0 (d_queue (t_db t) Commands))"
      using steps by (auto simp: distinct_tl_DOMAINS(2) t3 tx_simps)
    show "reconciled_to (getp (fld input ''queueIds'') (domain_name d)) (getp (b_queues b) (domain_name d))
        (d_queue (t_db t) d) (d_queue (t_db t') d)" if "d \<noteq> Commands" for d
    proof -
      have "d_queue (t_db t3) d = d_queue (t_db t) d" using that by (simp add: t3 tx_simps)
      moreover have "d \<in> set (tl DOMAINS)" using that by (simp add: distinct_tl_DOMAINS(2))
      ultimately show ?thesis using steps by metis
    qed
    show "d_meta (t_db t') = d_meta (t_db t)" "t_error t' = t_error t"
      using steps by (simp_all add: t3 tx_simps)
    show "iter_values (b_dropped_commands b) = Inr (map Str (map str_of dropped))" using q(3) del by simp
    show "\<forall>item \<in> set (items0 @ items). fld item ''id'' = Str (id_of item)" using a(3) put by auto
  qed (use a cap c q in simp_all)
qed

section \<open>The fence around a retained claim\<close>

lemma persist_applied:
  assumes "persist_sync_response_plan input r (Applied p) t = Inr t'" and "meta_ok t"
  obtains t1 t2 where
    "persist_queues input (p_rebased p) (put_if (takes_incoming (stored_sample r) (fld input ''clockOffset''))
       ''clockOffset'' (fld input ''clockOffset'') t) = Inr t1"
    "same_but_owner (applied_metadata input p t1) t2" "t' = meta_put ''hlc'' (p_hlc p) t2"
    "meta_ok t1"
proof -
  let ?t = "put_if (takes_incoming (stored_sample r) (fld input ''clockOffset'')) ''clockOffset''
    (fld input ''clockOffset'') t"
  from assms(1) obtain t1 writes t2 where q: "persist_queues input (p_rebased p) ?t = Inr t1"
    and w: "write_ownership writes Undef (applied_metadata input p t1) = Inr t2"
    and t': "t' = meta_put ''hlc'' (p_hlc p) t2"
    by (auto simp: persist_sync_response_plan_def bindr_Inr_iff Let_def)
  have "d_meta (t_db t1) = d_meta (t_db ?t)" by (rule persist_queues_effect[OF q])
  then have ok: "meta_ok t1" using assms(2) put_if_frame(3) by (simp add: meta_ok_def)
  then have "meta_ok (applied_metadata input p t1)"
    by (simp add: applied_metadata_def Let_def put_or_delete_def)
  with w have "same_but_owner (applied_metadata input p t1) t2" by (rule write_ownership_frame)
  with q t' ok show ?thesis by (intro that)
qed

lemma applied_metadata_outgoing:
  "meta_ok t \<Longrightarrow> clears_claim input \<Longrightarrow> \<not> meta_present (t_db (applied_metadata input p t)) ''outgoingSync''"
  by (simp add: applied_metadata_def Let_def put_or_delete_def)

lemma applied_plan:
  assumes "applied_run env db input input' plan t" and "so_applied (plan_outcome plan)"
  obtains p clock where "plan = Applied p" "plan_applied env input' (sync_results db) clock = Inr plan"
    "response_claim_applicable input' (sync_results db) = Inr True"
    "\<not> stored_is_newer (or_else (meta_value db ''snapshot'') Null) (fld input' ''snapshot'')"
    "persist_sync_response_plan input' (sync_results db) (Applied p) \<lparr>t_db = db, t_error = None\<rparr> = Inr t"
proof -
  from assms(1) have "plan_sync_response env input' (sync_results db) = Inr plan" by (simp add: applied_run_def)
  then show ?thesis
  proof (cases rule: plan_sync_response_cases)
    case (applied clock)
    from applied(1) obtain p where "plan = Applied p" by (rule plan_applied_Inr)
    with applied assms(1) show ?thesis by (intro that) (auto simp: applied_run_def sync_request_values)
  qed (use assms(2) in auto)
qed

text \<open>What a response claims to answer, twice captured: once by the caller, once in the transaction.\<close>

definition answers_claim :: "obj \<Rightarrow> jv \<Rightarrow> bool" where
  "answers_claim input saved \<longleftrightarrow> (\<exists>claim captured.
     let sent = getp (fld input ''reconciliation'') ''sent'';
         device = getp (fld input ''reconciliation'') ''deviceId'' in
     capture_sync_claim (fld input ''capturedClaim'') sent (fld input ''expectedUserId'') device = Inr claim
   \<and> capture_sync_claim claim sent (fld input ''expectedUserId'') device = Inr captured
   \<and> records_equal saved captured)"

lemma applicable_answers:
  assumes run: "with_captured_claim input = Inr input'"
    and "response_claim_applicable input' r = Inr True" and "truthy (res_value r ''outgoing'')"
  shows "answers_claim input (res_value r ''outgoing'') \<and> clears_claim input'"
proof -
  have same: "fld input' ''reconciliation'' = fld input ''reconciliation''"
    "fld input' ''expectedUserId'' = fld input ''expectedUserId''"
    using with_captured_claim_fields[OF run] by simp_all
  have nn: "\<not> nullish (fld input' ''capturedClaim'')"
    using assms(2,3) by (auto simp: response_claim_applicable_def)
  then obtain captured where c: "capture_sync_claim (fld input' ''capturedClaim'')
      (getp (fld input ''reconciliation'') ''sent'') (fld input ''expectedUserId'')
      (getp (fld input ''reconciliation'') ''deviceId'') = Inr captured"
      "records_equal (res_value r ''outgoing'') captured"
    using assms(2,3) by (auto simp: response_claim_applicable_def bindr_Inr_iff Let_def or_else_def same)
  have "\<not> nullish (fld input ''capturedClaim'')"
    using run nn by (auto simp: with_captured_claim_def split: if_splits)
  with run obtain claim where "capture_sync_claim (fld input ''capturedClaim'')
      (getp (fld input ''reconciliation'') ''sent'') (fld input ''expectedUserId'')
      (getp (fld input ''reconciliation'') ''deviceId'') = Inr claim"
      "fld input' ''capturedClaim'' = claim"
    by (auto simp: with_captured_claim_def bindr_Inr_iff)
  with c nn show ?thesis by (auto simp: answers_claim_def clears_claim_def Let_def)
qed


section \<open>Operations queued while the request was in flight\<close>

lemma replaced_keeps:
  assumes "st_ok s" and "st_get k s = Some item" and "k \<notin> set ids"
  shows "\<exists>item'. st_get k (replaced ids items s) = Some item' \<and> (item' = item \<or> item' \<in> set items)"
  using assms
  by (auto simp: get_replaced keyed_def split: option.split dest!: map_of_SomeD)

text \<open>Whether a list of identifiers, as the code iterates over it, holds one.\<close>

definition lists_id :: "jv \<Rightarrow> string \<Rightarrow> bool" where
  "lists_id v k = (case spread_list v of Inr ids \<Rightarrow> Str k \<in> set ids | Inl _ \<Rightarrow> False)"

lemma lists_id_iff: "spread_list v = Inr (map Str ids) \<Longrightarrow> lists_id v k \<longleftrightarrow> k \<in> set ids"
  by (auto simp: lists_id_def)

lemma reconciled_to_keeps:
  assumes "reconciled_to captured retained s s'" and "st_ok s" and "st_get k s = Some item"
    and "\<not> lists_id captured k"
  shows "st_get k s' \<noteq> None"
proof -
  from assms(1) obtain ids items where r: "spread_list captured = Inr (map Str ids)" "s' = replaced ids items s"
    by (auto simp: reconciled_to_def)
  have "k \<notin> set ids" using assms(4) by (simp add: lists_id_iff[OF r(1)])
  then show ?thesis using replaced_keeps[OF assms(2,3)] r(2) by auto
qed

lemma same_but_owner_queue: "same_but_owner t t' \<Longrightarrow> queue_items (t_db t') = queue_items (t_db t)"
  by (simp add: same_but_owner_def)

lemma rebase_input_field:
  assumes "applied_run env db input input' plan t"
  shows "response_transaction_rebase env input' r d = response_transaction_rebase env input r d"
proof -
  have eqs: "fld input' ''reconciliation'' = fld input ''reconciliation''"
    "fld input' ''retainedQueues'' = fld input ''retainedQueues''"
    "fld input' ''dropCommandIds'' = fld input ''dropCommandIds''"
    "fld input' ''dropTimerIds'' = fld input ''dropTimerIds''"
    using applied_run_field[OF assms] by simp_all
  show ?thesis unfolding response_transaction_rebase_def eqs by (rule refl)
qed

text \<open>The timer commands that the reconciliation of a response drops.\<close>

definition dropped_commands :: "env \<Rightarrow> database \<Rightarrow> obj \<Rightarrow> jv" where
  "dropped_commands env db input = (case response_transaction_rebase env input (sync_results db) Null of
     Inr b \<Rightarrow> b_dropped_commands b | Inl _ \<Rightarrow> Undef)"

lemma iter_lists_id: "iter_values v = Inr (map Str ids) \<Longrightarrow> k \<in> set ids \<Longrightarrow> lists_id v k"
  by (cases v) (auto simp: iter_values_def lists_id_def spread_list_def split: if_splits)

lemma d_queue_of_meta_eq:
  "d_queue (t_db (put_if b k v t)) = d_queue (t_db t)"
  "d_queue (t_db (applied_metadata input p t)) = d_queue (t_db t)"
  by (simp_all add: put_if_def applied_metadata_def put_or_delete_def Let_def meta_write_simps)

lemma persist_applied_queues:
  assumes p: "persist_sync_response_plan input r (Applied p) t = Inr t'" and ok: "meta_ok t"
    and s: "st_ok (d_queue (t_db t) d)" and k: "st_get k (d_queue (t_db t) d) = Some item"
    and c: "\<not> lists_id (getp (fld input ''queueIds'') (domain_name d)) k"
    and drop: "d = Commands \<Longrightarrow> \<not> lists_id (b_dropped_commands (p_rebased p)) k"
  shows "st_get k (d_queue (t_db t') d) \<noteq> None"
proof -
  from p ok obtain t1 t2 where q: "persist_queues input (p_rebased p)
      (put_if (takes_incoming (stored_sample r) (fld input ''clockOffset''))
       ''clockOffset'' (fld input ''clockOffset'') t) = Inr t1"
    and t2: "same_but_owner (applied_metadata input p t1) t2" "t' = meta_put ''hlc'' (p_hlc p) t2"
    by (rule persist_applied)
  have same: "d_queue (t_db t') d = d_queue (t_db t1) d"
    using t2 by (simp add: same_but_owner_def d_queue_of_meta_eq meta_write_simps)
  show ?thesis
  proof (cases "d = Commands")
    case False
    have "reconciled_to (getp (fld input ''queueIds'') (domain_name d)) (getp (b_queues (p_rebased p)) (domain_name d))
        (d_queue (t_db t) d) (d_queue (t_db t1) d)"
      by (rule persist_queues_effect[OF q]) (use False in \<open>simp add: d_queue_of_meta_eq\<close>)
    from reconciled_to_keeps[OF this s k c] show ?thesis by (simp add: same)
  next
    case True
    from q obtain ids0 items0 dropped items where e:
      "spread_list (getp (fld input ''queueIds'') ''commands'') = Inr (map Str ids0)"
      "iter_values (b_dropped_commands (p_rebased p)) = Inr (map Str dropped)"
      "d_queue (t_db t1) Commands = replaced dropped items (replaced ids0 items0 (d_queue (t_db t) Commands))"
      by (rule persist_queues_effect) (simp add: d_queue_of_meta_eq)
    have "k \<notin> set ids0" "k \<notin> set dropped"
      using c drop True iter_lists_id[OF e(2)] by (auto simp: lists_id_iff[OF e(1)])
    obtain item1 where "st_get k (replaced ids0 items0 (d_queue (t_db t) Commands)) = Some item1"
      using replaced_keeps[OF s k \<open>k \<notin> set ids0\<close>, of items0] True by auto
    from replaced_keeps[OF _ this \<open>k \<notin> set dropped\<close>, of items] show ?thesis
      using s True by (auto simp: same[unfolded True] e(3) st_ok_replaced)
  qed
qed

text \<open>
  C2: An operation queued while a request was in flight is never lost. Whatever a successful
  application does, every stored operation whose identifier was not captured with the
  request, and that the reconciliation does not drop, is still queued under its identifier
  in the same domain.
\<close>

theorem queued_in_flight_survives:
  assumes ok: "fst (apply_sync_response env db input) = Inr result" and db: "db_ok db"
    and k: "st_get k (d_queue db d) = Some item"
    and c: "\<not> lists_id (getp (fld input ''queueIds'') (domain_name d)) k"
    and drop: "d = Commands \<Longrightarrow> \<not> lists_id (dropped_commands env db input) k"
  shows "st_get k (d_queue (snd (apply_sync_response env db input)) d) \<noteq> None"
proof -
  from ok obtain input' plan t where run: "applied_run env db input input' plan t"
    and out: "snd (apply_sync_response env db input) = t_db t"
    by (rule apply_run)
  let ?t = "\<lparr>t_db = db, t_error = None\<rparr>"
  have pl: "plan_sync_response env input' (sync_results db) = Inr plan"
    and ps: "persist_sync_response_plan input' (sync_results db) plan ?t = Inr t"
    using run by (simp_all add: applied_run_def)
  have st: "st_ok (d_queue db d)" using db by (simp add: db_ok_def)
  from pl show ?thesis
  proof (cases rule: plan_sync_response_cases)
    case (ignored r)
    then show ?thesis using ps k out by (auto simp: persist_sync_response_plan_def)
  next
    case (stale owner r)
    with ps have "same_but_owner (put_if (takes_incoming (stored_sample (sync_results db)) (fld input' ''clockOffset''))
        ''clockOffset'' (fld input' ''clockOffset'') ?t) t"
      using start_meta_ok[OF db]
      by (auto simp: persist_sync_response_plan_def bindr_Inr_iff Let_def intro: write_ownership_frame)
    then show ?thesis using k out by (simp add: same_but_owner_def d_queue_of_meta_eq)
  next
    case (applied clock)
    from applied(1) obtain p where p: "plan = Applied p"
        "response_transaction_rebase env input' (sync_results db) Null = Inr (p_rebased p)"
      by (rule plan_applied_Inr)
    have "\<not> lists_id (b_dropped_commands (p_rebased p)) k" if "d = Commands"
      using drop[OF that] p(2) by (simp add: dropped_commands_def rebase_input_field[OF run])
    moreover have "\<not> lists_id (getp (fld input' ''queueIds'') (domain_name d)) k"
      using c by (simp add: applied_run_field[OF run])
    ultimately show ?thesis
      using persist_applied_queues[OF ps[unfolded p(1)] start_meta_ok[OF db], of d k item] st k out by simp
  qed
qed

section \<open>The proof after a response\<close>

definition sent_ids_of :: "jv \<Rightarrow> domain \<Rightarrow> jv list" where
  "sent_ids_of sent d = (case ids_of (getp sent (domain_name d)) of Inr ids \<Rightarrow> ids | Inl _ \<Rightarrow> [])"

lemma applied_metadata_proof:
  "meta_ok t \<Longrightarrow> meta_value (t_db (applied_metadata input p t)) ''deliveryProof'' = proof_value (p_proof p)"
  by (simp add: applied_metadata_def Let_def put_or_delete_def)

text \<open>
  C8: An applied response only takes from the delivery proof: every identifier the
  stored proof holds afterwards was in it before, and none belongs to an operation of the
  request that the response answers.
\<close>

theorem response_shrinks_proof:
  assumes ok: "fst (apply_sync_response env db input) = Inr result" and app: "so_applied result" and db: "db_ok db"
  shows "set (sanitize_delivery_proof (meta_value (snd (apply_sync_response env db input)) ''deliveryProof'') d)
    \<subseteq> set (sanitize_delivery_proof (meta_value db ''deliveryProof'') d)
       - set (sent_ids_of (getp (fld input ''reconciliation'') ''sent'') d)"
proof -
  from ok obtain input' plan t where run: "applied_run env db input input' plan t"
    and out: "result = plan_outcome plan" "snd (apply_sync_response env db input) = t_db t"
    by (rule apply_run)
  from run app[unfolded out(1)] obtain p clock where p: "plan = Applied p"
      "plan_applied env input' (sync_results db) clock = Inr plan"
      "persist_sync_response_plan input' (sync_results db) (Applied p) \<lparr>t_db = db, t_error = None\<rparr> = Inr t"
    by (rule applied_plan)
  have ns: "never_sent_from_proof (meta_value db ''deliveryProof'') (b_queues (p_rebased p))
      (getp (fld input ''reconciliation'') ''sent'') = Inr (p_proof p)"
    using p(2) by (rule plan_applied_Inr) (use p(1) in \<open>simp add: sync_request_values applied_run_field[OF run]\<close>)
  from never_sent_from_proof_Inr[OF this] obtain sent_ids local_ids where
      i: "\<And>d. ids_of (getp (getp (fld input ''reconciliation'') ''sent'') (domain_name d)) = Inr (sent_ids d)"
      "\<And>d. p_proof p d = filter (\<lambda>i. i \<in> set (local_ids d) \<and> i \<notin> set (sent_ids d))
        (sanitize_delivery_proof (meta_value db ''deliveryProof'') d)"
    by blast
  from p(3) start_meta_ok[OF db] obtain t1 t2 where
      "same_but_owner (applied_metadata input' p t1) t2" "t = meta_put ''hlc'' (p_hlc p) t2" "meta_ok t1"
    by (rule persist_applied)
  then have "meta_value (t_db t) ''deliveryProof'' = proof_value (p_proof p)"
    by (simp add: same_but_owner_def applied_metadata_proof)
  moreover have "sanitize_delivery_proof (proof_value (p_proof p)) = p_proof p"
    by (rule sanitize_sub) (rule i(2))
  ultimately show ?thesis by (auto simp: out(2) i sent_ids_of_def)
qed

section \<open>The completion state\<close>

definition with_completion_state :: "jv \<Rightarrow> database \<Rightarrow> database" where
  "with_completion_state v db = db\<lparr>d_meta := st_put ''completionState'' v (d_meta db)\<rparr>"

lemma sync_results_completion:
  assumes "db_ok db"
  shows "sync_results (with_completion_state v db) = sync_results db"
proof -
  have "st_get key (st_put ''completionState'' v (d_meta db)) = st_get key (d_meta db)"
    if "map_of (rev SYNC_RESPONSE_REQUESTS) name = Some key" for name key
  proof -
    have "key \<in> set (map snd SYNC_RESPONSE_REQUESTS)"
      using map_of_SomeD[OF that] by force
    then have "key \<noteq> ''completionState''" by (auto simp: SYNC_RESPONSE_REQUESTS_def)
    then show ?thesis using assms by (simp add: db_ok_def)
  qed
  then show ?thesis
    by (auto simp: read_results_def with_completion_state_def queue_items_def fun_eq_iff split: option.split)
qed


lemma completion_input_fields:
  "fld (completion_input input r b as sendable ids others) ''completionState'' = res_value r ''completionState''"
  "fld (completion_input input r b as sendable ids others) ''settings'' = Undef"
  "fld (completion_input input r b as sendable ids others) ''selectedPhase''
     = or_else (getp (res_value r ''settings'') ''selectedPhase'') (Str ''focus'')"
  by (simp_all add: completion_input_def Let_def fld_def split del: if_split)

lemma not_nullish_or_else_Str [simp]: "\<not> nullish (or_else v (Str s))"
  by (cases v) (auto simp: or_else_def)

lemma completion_context_of_response:
  "completion_context \<lparr>r_field = fld (completion_input input (sync_results db) b as sendable ids others), r_queue = q\<rparr>
     = [(''selection'', Obj [(''phase'', or_else (getp (res_value (sync_results db) ''settings'') ''selectedPhase'') (Str ''focus'')),
          (''generation'', Str ''0''), (''explicit'', Bool False)]), (''lifecycle'', initial_lifecycle)]"
  by (simp add: completion_context_def completion_input_fields sync_request_values coalesce_def)

text \<open>
  The transaction that applies a response never reads the stored completion state. Its
  plan is the same whatever state the database holds, and the request that computes the new
  state always starts from the initial lifecycle and generation 0.
\<close>

theorem response_ignores_completion_state:
  assumes "db_ok db"
  shows "plan_sync_response env input (sync_results (with_completion_state v db))
        = plan_sync_response env input (sync_results db)
    \<and> completion_context \<lparr>r_field = fld (completion_input input (sync_results (with_completion_state v db))
          b as sendable ids others), r_queue = q\<rparr>
        = [(''selection'', Obj [(''phase'', or_else (getp (res_value (sync_results db) ''settings'') ''selectedPhase'') (Str ''focus'')),
             (''generation'', Str ''0''), (''explicit'', Bool False)]), (''lifecycle'', initial_lifecycle)]"
  by (simp add: sync_results_completion[OF assms] completion_context_of_response)

section \<open>Witnesses\<close>

lemma sample_applied: "ok_with so_applied (fst (apply_sync_response sample_env sample_db (sample_input 4)))"
  by code_simp

lemma answered_applied: "ok_with so_applied (fst (apply_sync_response sample_env claimed_db answered_input))"
  by code_simp


theorem queued_in_flight_survives_witness:
  "st_get ''op-1'' (d_queue (snd (apply_sync_response sample_env sample_db (sample_input 4))) TaskOperations) \<noteq> None"
proof -
  obtain result where ok: "fst (apply_sync_response sample_env sample_db (sample_input 4)) = Inr result"
    using sample_applied by (rule ok_withE)
  have k: "st_get ''op-1'' (d_queue sample_db TaskOperations) = Some sample_task" by code_simp
  have c: "\<not> lists_id (getp (fld (sample_input 4) ''queueIds'') (domain_name TaskOperations)) ''op-1''" by code_simp
  show ?thesis by (rule queued_in_flight_survives[OF ok sample_db_ok k c]) simp
qed

theorem response_shrinks_proof_witness:
  "Str ''op-1'' \<in> set (sanitize_delivery_proof (meta_value sample_db ''deliveryProof'') TaskOperations)
   \<and> set (sanitize_delivery_proof (meta_value (snd (apply_sync_response sample_env sample_db (sample_input 4)))
        ''deliveryProof'') TaskOperations)
      \<subseteq> set (sanitize_delivery_proof (meta_value sample_db ''deliveryProof'') TaskOperations)"
proof -
  obtain result where ok: "fst (apply_sync_response sample_env sample_db (sample_input 4)) = Inr result" "so_applied result"
    using sample_applied by (rule ok_withE)
  have "Str ''op-1'' \<in> set (sanitize_delivery_proof (meta_value sample_db ''deliveryProof'') TaskOperations)" by code_simp
  then show ?thesis using response_shrinks_proof[OF ok sample_db_ok, of TaskOperations] by blast
qed

theorem response_ignores_completion_state_witness:
  "plan_sync_response sample_env (sample_input 4) (sync_results (with_completion_state (Obj [(''lifecycle'', Str ''kept'')]) sample_db))
     = plan_sync_response sample_env (sample_input 4) (sync_results sample_db)"
  using response_ignores_completion_state[OF sample_db_ok] by blast

end
