(* ===== verification/ResolutionSafety.thy ===== *)
theory ResolutionSafety
  imports SyncSafety
begin

text \<open>
  What the transactions of a history resolution guarantee: a request that may have been
  delivered is never replaced, sending it is recorded before it happens, and applying its
  answer ends the gate with exactly the reconciled queues.
\<close>

section \<open>Capture\<close>

lemma capture_request_values:
  "res_value (read_results RESOLUTION_CAPTURE_REQUESTS db) ''gate'' = meta_value db ''bootstrapGate''"
  "res_value (read_results RESOLUTION_CAPTURE_REQUESTS db) ''resolution'' = meta_value db ''bootstrapResolution''"
  by (simp_all add: res_value_def meta_value_def read_results_def RESOLUTION_CAPTURE_REQUESTS_def)

lemma rewrite_frame:
  assumes "foldr_res (rewrite_one retained) t encoded = Inr t'"
  shows "d_meta (t_db t') = d_meta (t_db t)"
  using assms
proof (rule foldr_res_invariant[where I = "\<lambda>s. d_meta (t_db s) = d_meta (t_db t)"])
  fix s x s' assume "d_meta (t_db s) = d_meta (t_db t)" "rewrite_one retained s x = Inr s'"
  then show "d_meta (t_db s') = d_meta (t_db t)"
    by (auto simp: rewrite_one_def bindr_Inr_iff dest: queue_write_meta split: if_splits)
qed simp

lemma persist_encoding_meta:
  "persist_captured_duration_encoding r encoded t = Inr t' \<Longrightarrow> d_meta (t_db t') = d_meta (t_db t)"
  unfolding persist_captured_duration_encoding_def
  by (auto simp: bindr_Inr_iff dest: rewrite_frame split: if_splits)

lemma validate_capture_Inr:
  assumes "validate_resolution_capture env r input options = Inr ()"
  shows "truthy (res_value r ''gate'')" "getp (res_value r ''gate'') ''token'' = fld options ''gateToken''"
    "truthy (res_value r ''resolution'') \<Longrightarrow> getp (res_value r ''resolution'') ''deliveryState'' = Str ''neverSent''
       \<and> getp (res_value r ''resolution'') ''gateToken'' = fld options ''gateToken''
       \<and> nonempty_string (fld input ''requestId'')
       \<and> getp (getp (res_value r ''resolution'') ''payload'') ''requestId'' \<noteq> fld input ''requestId''"
  using assms
  by (auto simp: validate_resolution_capture_def bindr_Inr_iff ensure_Inr_iff Let_def dest: strict_eq_imp_eq
      nonempty_string_strict_eq)

definition capture_guarantee :: "database \<Rightarrow> obj \<Rightarrow> obj \<Rightarrow> jv \<Rightarrow> database \<Rightarrow> bool" where
  "capture_guarantee db input options pending db' \<longleftrightarrow>
     getp (meta_value db ''bootstrapGate'') ''token'' = fld options ''gateToken''
   \<and> (truthy (meta_value db ''bootstrapResolution'') \<longrightarrow>
        getp (meta_value db ''bootstrapResolution'') ''deliveryState'' = Str ''neverSent''
      \<and> getp (meta_value db ''bootstrapResolution'') ''gateToken'' = fld options ''gateToken''
      \<and> getp (getp (meta_value db ''bootstrapResolution'') ''payload'') ''requestId'' \<noteq> fld input ''requestId'')
   \<and> meta_value db' ''bootstrapResolution'' = pending
   \<and> getp pending ''deliveryState'' = Str ''neverSent''
   \<and> getp pending ''gateToken'' = fld options ''gateToken''"

text \<open>
  C9: A history request that may have reached the server is never replaced. Capturing a
  resolution either fails and changes nothing, or the caller holds the gate, a resolution
  saved before was its own, certainly unsent and under another request identifier, and the
  one that is saved now is marked as never sent and bound to the caller's gate.
\<close>

theorem capture_never_replaces_delivered:
  assumes "db_ok db"
  shows "case fst (capture_resolution env db input options) of
     Inl _ \<Rightarrow> snd (capture_resolution env db input options) = db
   | Inr pending \<Rightarrow> capture_guarantee db input options pending (snd (capture_resolution env db input options))"
proof (cases "fst (capture_resolution env db input options)")
  case (Inl e)
  then show ?thesis by (simp add: capture_resolution_def run_results_aborted)
next
  case (Inr pending)
  from Inr obtain t where t: "capture_change env input options (read_results RESOLUTION_CAPTURE_REQUESTS db)
      \<lparr>t_db = db, t_error = None\<rparr> = Inr (pending, t)"
      "snd (capture_resolution env db input options) = t_db t"
    unfolding capture_resolution_def by (rule run_results_Inr)
  from t(1) have v: "validate_resolution_capture env (read_results RESOLUTION_CAPTURE_REQUESTS db) input options = Inr ()"
    by (auto simp: capture_change_def bindr_Inr_iff)
  from t(1) obtain enc owner sent t1 where p: "persist_captured_duration_encoding (read_results RESOLUTION_CAPTURE_REQUESTS db)
      enc \<lparr>t_db = db, t_error = None\<rparr> = Inr t1"
      "pending = captured_resolution (read_results RESOLUTION_CAPTURE_REQUESTS db) input options owner sent"
      "t = meta_put ''bootstrapResolution'' pending t1"
    by (auto simp: capture_change_def bindr_Inr_iff Let_def)
  have "meta_ok t1" using persist_encoding_meta[OF p(1)] assms by (simp add: meta_ok_def db_ok_def)
  then have "meta_value (t_db t) ''bootstrapResolution'' = pending" using p(3) by simp
  with validate_capture_Inr[OF v] show ?thesis
    unfolding Inr t(2)
    by (auto simp: capture_guarantee_def capture_request_values p(2) captured_resolution_def)
qed

definition gated_db :: database where
  "gated_db = sample_db\<lparr>d_meta := st_put ''bootstrapGate'' (Obj [(''token'', Str ''tab-a'')]) (d_meta sample_db)\<rparr>"

definition capture_input :: obj where
  "capture_input = [(''userId'', Str ''user-1''), (''requestId'', Str ''request-1''), (''deviceId'', Str ''device-1''),
     (''expectedRevision'', jint 3), (''strategy'', Str ''merge'')]"

definition capture_options :: obj where
  "capture_options = [(''gateToken'', Str ''tab-a''), (''expectedUserId'', Str ''user-1'')]"

lemma gated_db_ok: "db_ok gated_db"
  unfolding db_ok_iff_stores by code_simp

lemma captures_sample: "is_ok (fst (capture_resolution sample_env gated_db capture_input capture_options))"
  by code_simp

lemma capture_never_replaces_delivered_witness:
  "\<exists>pending db'. capture_resolution sample_env gated_db capture_input capture_options = (Inr pending, db')
     \<and> capture_guarantee gated_db capture_input capture_options pending db'"
  using captures_sample
    capture_never_replaces_delivered[OF gated_db_ok, of sample_env capture_input capture_options]
  by (cases "capture_resolution sample_env gated_db capture_input capture_options") (auto simp: is_ok_iff)

section \<open>Send\<close>

lemma send_request_values:
  "res_value (read_results (mutation_context_requests [(''deliveryProof'', ''deliveryProof'')]) db) ''resolution''
     = meta_value db ''bootstrapResolution''"
  "res_value (read_results (mutation_context_requests [(''deliveryProof'', ''deliveryProof'')]) db) ''gate''
     = meta_value db ''bootstrapGate''"
  "res_value (read_results (mutation_context_requests [(''deliveryProof'', ''deliveryProof'')]) db) ''deliveryProof''
     = meta_value db ''deliveryProof''"
  by (simp_all add: res_value_def meta_value_def read_results_def mutation_context_requests_def SYNC_RESPONSE_REQUESTS_def)

lemma validate_resolution_apply_Inr:
  assumes "validate_resolution_apply env r pending = Inr ()"
  shows "truthy (res_value r ''resolution'') \<and> same_json (or_else (res_value r ''resolution'') Null) pending
    \<and> getp (res_value r ''gate'') ''token'' = getp pending ''gateToken''"
  using assms by (auto simp: validate_resolution_apply_def bindr_Inr_iff ensure_Inr_iff Let_def dest: strict_eq_imp_eq)

definition send_guarantee :: "database \<Rightarrow> obj \<Rightarrow> jv \<Rightarrow> database \<Rightarrow> bool" where
  "send_guarantee db input claimed db' \<longleftrightarrow>
     same_json (or_else (meta_value db ''bootstrapResolution'') Null) (fld input ''pending'')
   \<and> getp (meta_value db ''bootstrapGate'') ''token'' = getp (fld input ''pending'') ''gateToken''
   \<and> meta_value db' ''bootstrapResolution'' = claimed
   \<and> getp claimed ''deliveryState'' = Str ''possiblyDelivered''
   \<and> getp claimed ''payload'' = getp (meta_value db ''bootstrapResolution'') ''payload''
   \<and> (\<forall>d. set (sanitize_delivery_proof (meta_value db' ''deliveryProof'') d)
        = set (sanitize_delivery_proof (meta_value db ''deliveryProof'') d)
          - set (sent_ids_of (getp claimed ''payload'') d))"

lemma send_guaranteed:
  assumes "db_ok db" and "fst (validate_pending_for_send env db input) = Inr claimed"
  shows "send_guarantee db input claimed (snd (validate_pending_for_send env db input))"
proof -
  let ?r = "read_results (mutation_context_requests [(''deliveryProof'', ''deliveryProof'')]) db"
  from assms(2) obtain t where t: "send_change env input ?r \<lparr>t_db = db, t_error = None\<rparr> = Inr (claimed, t)"
      "snd (validate_pending_for_send env db input) = t_db t"
    unfolding validate_pending_for_send_def by (rule account_metadata_mutation_Inr) simp
  define resolution where "resolution = or_else (meta_value db ''bootstrapResolution'') Null"
  from t(1) obtain proved where c:
      "validate_resolution_apply env ?r (fld input ''pending'') = Inr ()"
      "claimed = Obj (obj_put ''deliveryState'' (Str ''possiblyDelivered'') (as_obj resolution))"
      "remove_proof_ids (meta_value db ''deliveryProof'') (getp resolution ''payload'') = Inr proved"
      "t = meta_put ''bootstrapGate'' (bound_bootstrap_lease (fld input ''gateToken'') input)
         (meta_put ''deliveryProof'' (proof_value proved)
         (meta_put ''bootstrapResolution'' claimed \<lparr>t_db = db, t_error = None\<rparr>))"
    by (auto simp: send_change_def bindr_Inr_iff Let_def send_request_values resolution_def)
  note v = validate_resolution_apply_Inr[OF c(1)]
  from remove_proof_ids_Inr[OF c(3)] obtain ids where
      ids: "\<And>d. ids_of (getp (getp resolution ''payload'') (domain_name d)) = Inr (ids d)"
      "\<And>d. proved d = filter (\<lambda>i. i \<notin> set (ids d)) (sanitize_delivery_proof (meta_value db ''deliveryProof'') d)"
    by blast
  have san: "sanitize_delivery_proof (proof_value proved) = proved" by (rule sanitize_sub) (rule ids(2))
  have payload: "getp claimed ''payload'' = getp resolution ''payload''"
    by (cases resolution) (simp_all add: c(2) as_obj_def)
  show ?thesis
    unfolding t(2) using v start_meta_ok[OF assms(1)] ids san payload
    by (auto simp: send_guarantee_def c(2,4) send_request_values resolution_def sent_ids_of_def)
qed

text \<open>
  C10: A resolution is recorded as possibly delivered before it is sent. The check before a
  send either fails and changes nothing, or the saved resolution is the pending one, its
  token is the gate's, the stored resolution now says that it may have been delivered and
  keeps its payload, and the delivery proof has lost exactly the operations of the payload.
\<close>

theorem send_marks_before_delivery:
  assumes "db_ok db"
  shows "case fst (validate_pending_for_send env db input) of
     Inl _ \<Rightarrow> snd (validate_pending_for_send env db input) = db
   | Inr claimed \<Rightarrow> send_guarantee db input claimed (snd (validate_pending_for_send env db input))"
proof (cases "fst (validate_pending_for_send env db input)")
  case (Inl e)
  then show ?thesis by (simp add: validate_pending_for_send_def account_metadata_mutation_aborted)
next
  case (Inr claimed)
  with send_guaranteed[OF assms] show ?thesis by simp
qed

definition send_input :: "jv \<Rightarrow> obj" where
  "send_input pending = [(''pending'', pending), (''gateToken'', Str ''tab-b''), (''currentUserId'', Str ''user-1''),
     (''deviceId'', Str ''device-1''), (''nowMs'', jint 1700000000000), (''leaseMs'', jint 30000)]"

definition captured_sample :: "jv \<times> database" where
  "captured_sample = (case capture_resolution sample_env gated_db capture_input capture_options of
     (Inr pending, db) \<Rightarrow> (pending, db) | (Inl _, db) \<Rightarrow> (Null, db))"

lemma captured_sample_ok: "db_ok (snd captured_sample)"
  unfolding db_ok_iff_stores by code_simp

lemma sends_sample:
  "is_ok (fst (validate_pending_for_send sample_env (snd captured_sample) (send_input (fst captured_sample))))"
  by code_simp

lemma send_marks_before_delivery_witness:
  "\<exists>claimed db'. validate_pending_for_send sample_env (snd captured_sample) (send_input (fst captured_sample))
       = (Inr claimed, db')
     \<and> send_guarantee (snd captured_sample) (send_input (fst captured_sample)) claimed db'"
  using sends_sample
    send_marks_before_delivery[OF captured_sample_ok, of sample_env "send_input (fst captured_sample)"]
  by (cases "validate_pending_for_send sample_env (snd captured_sample) (send_input (fst captured_sample))")
     (auto simp: is_ok_iff)

text \<open>
  The check before a send hands the gate to the caller. It compares the gate with the
  token of the pending resolution, never with the caller's own, and then stores a lease under
  the caller's token: a tab that shows another tab's pending resolution takes the gate over
  from the tab that holds it.
\<close>

theorem send_hands_gate_to_caller:
  assumes "db_ok db" and "validate_pending_for_send env db input = (Inr claimed, db')"
  shows "getp (meta_value db ''bootstrapGate'') ''token'' = getp (fld input ''pending'') ''gateToken''
    \<and> getp (meta_value db' ''bootstrapGate'') ''token'' = fld input ''gateToken''"
proof -
  let ?r = "read_results (mutation_context_requests [(''deliveryProof'', ''deliveryProof'')]) db"
  from assms(2) have "fst (validate_pending_for_send env db input) = Inr claimed" by simp
  then obtain t where t: "send_change env input ?r \<lparr>t_db = db, t_error = None\<rparr> = Inr (claimed, t)"
      "snd (validate_pending_for_send env db input) = t_db t"
    unfolding validate_pending_for_send_def by (rule account_metadata_mutation_Inr) simp
  from t(1) have v: "validate_resolution_apply env ?r (fld input ''pending'') = Inr ()"
    by (auto simp: send_change_def bindr_Inr_iff Let_def)
  from t(1) obtain u where "t = meta_put ''bootstrapGate'' (bound_bootstrap_lease (fld input ''gateToken'') input) u"
      "meta_ok u"
    using start_meta_ok[OF assms(1)] by (auto simp: send_change_def bindr_Inr_iff Let_def)
  then have "meta_value (t_db t) ''bootstrapGate'' = bound_bootstrap_lease (fld input ''gateToken'') input" by simp
  then show ?thesis
    using validate_resolution_apply_Inr[OF v] t(2) assms(2)
    by (simp add: send_request_values bound_bootstrap_lease_def lease_value_def)
qed

lemma send_hands_gate_to_caller_witness:
  "getp (meta_value (snd captured_sample) ''bootstrapGate'') ''token'' = Str ''tab-a''
   \<and> getp (meta_value (snd (validate_pending_for_send sample_env (snd captured_sample)
       (send_input (fst captured_sample)))) ''bootstrapGate'') ''token'' = Str ''tab-b''"
proof -
  have token: "getp (fst captured_sample) ''gateToken'' = Str ''tab-a''" by code_simp
  obtain claimed db' where sent:
      "validate_pending_for_send sample_env (snd captured_sample) (send_input (fst captured_sample)) = (Inr claimed, db')"
    using sends_sample
    by (cases "validate_pending_for_send sample_env (snd captured_sample) (send_input (fst captured_sample))")
       (auto simp: is_ok_iff)
  show ?thesis
    using send_hands_gate_to_caller[OF captured_sample_ok sent] token sent by (simp add: send_input_def)
qed

end
