(* ===== verification/Effects.thy ===== *)
theory Effects
  imports JsValue
begin

text \<open>
  Code that changes a state outside the values it returns and may throw: a function from
  the state to a result and the state it leaves. The collection \<open>eff_simps\<close> runs such code
  step by step; the rules \<open>keeps\<close> prove that it preserves a property of the state.
\<close>

named_theorems eff_simps
named_theorems keeps_intros

type_synonym ('w, 'e, 'a) eff = "'w \<Rightarrow> ('e + 'a) \<times> 'w"

definition ret :: "'a \<Rightarrow> ('w, 'e, 'a) eff" where
  "ret a w = (Inr a, w)"

definition throw :: "'e \<Rightarrow> ('w, 'e, 'a) eff" where
  "throw e w = (Inl e, w)"

text \<open>Code without effects.\<close>

definition lift :: "'e + 'a \<Rightarrow> ('w, 'e, 'a) eff" where
  "lift r w = (r, w)"

definition bindw :: "('w, 'e, 'a) eff \<Rightarrow> ('a \<Rightarrow> ('w, 'e, 'b) eff) \<Rightarrow> ('w, 'e, 'b) eff" where
  "bindw m f w = (case m w of (Inl e, w') \<Rightarrow> (Inl e, w') | (Inr a, w') \<Rightarrow> f a w')"

text \<open>\<open>try { m } catch (error) { h(error) }\<close>\<close>

definition catch :: "('w, 'e, 'a) eff \<Rightarrow> ('e \<Rightarrow> ('w, 'e, 'a) eff) \<Rightarrow> ('w, 'e, 'a) eff" where
  "catch m h w = (case m w of (Inl e, w') \<Rightarrow> h e w' | (Inr a, w') \<Rightarrow> (Inr a, w'))"

definition require :: "bool \<Rightarrow> 'e \<Rightarrow> ('w, 'e, unit) eff" where
  "require b e w = (if b then Inr () else Inl e, w)"

text \<open>\<open>for (const x of xs) f(x)\<close>\<close>

fun each :: "('a \<Rightarrow> ('w, 'e, unit) eff) \<Rightarrow> 'a list \<Rightarrow> ('w, 'e, unit) eff" where
  "each f [] = ret ()"
| "each f (x # xs) = bindw (f x) (\<lambda>_. each f xs)"

lemma bindw_unfold [code_unfold]:
  "bindw m f w = (case m w of (Inl e, w') \<Rightarrow> (Inl e, w') | (Inr a, w') \<Rightarrow> f a w')"
  by (simp add: bindw_def)

lemma eff_run [eff_simps]:
  "ret a w = (Inr a, w)" "throw e w = (Inl e, w)" "lift r w = (r, w)"
  "require True e w = (Inr (), w)" "require False e w = (Inl e, w)"
  by (simp_all add: ret_def throw_def lift_def require_def)

lemma bindw_run [eff_simps]:
  "m w = (Inl e, w') \<Longrightarrow> bindw m f w = (Inl e, w')"
  "m w = (Inr a, w') \<Longrightarrow> bindw m f w = f a w'"
  by (simp_all add: bindw_def)

lemma bindw_Inr_iff:
  "bindw m f w = (Inr b, w'') \<longleftrightarrow> (\<exists>a w'. m w = (Inr a, w') \<and> f a w' = (Inr b, w''))"
  by (simp add: bindw_def split: prod.splits sum.splits)

lemma bindw_cases:
  assumes "bindw m f w = (r, w'')"
  obtains (stop) e where "m w = (Inl e, w'')" "r = Inl e"
    | (cont) a w' where "m w = (Inr a, w')" "f a w' = (r, w'')"
  using assms by (auto simp: bindw_def split: prod.splits sum.splits)

lemma bindw_assoc: "bindw (bindw m f) g = bindw m (\<lambda>a. bindw (f a) g)"
  by (rule ext) (simp add: bindw_def split: prod.splits sum.splits)

section \<open>Preserved properties\<close>

definition keeps :: "('w \<Rightarrow> bool) \<Rightarrow> ('w, 'e, 'a) eff \<Rightarrow> bool" where
  "keeps I m \<longleftrightarrow> (\<forall>w. I w \<longrightarrow> I (snd (m w)))"

lemma keepsI: "(\<And>w. I w \<Longrightarrow> I (snd (m w))) \<Longrightarrow> keeps I m"
  by (simp add: keeps_def)

lemma keepsD: "keeps I m \<Longrightarrow> I w \<Longrightarrow> m w = (r, w') \<Longrightarrow> I w'"
  by (metis keeps_def snd_conv)

lemma keeps_pure [keeps_intros]:
  "keeps I (ret a)" "keeps I (throw e)" "keeps I (lift r)" "keeps I (require b e)"
  by (simp_all add: keeps_def ret_def throw_def lift_def require_def)

lemma keeps_bindw [keeps_intros]: "keeps I m \<Longrightarrow> (\<And>a. keeps I (f a)) \<Longrightarrow> keeps I (bindw m f)"
  by (auto simp: keeps_def bindw_def split: prod.splits sum.splits)

lemma keeps_catch [keeps_intros]: "keeps I m \<Longrightarrow> (\<And>e. keeps I (h e)) \<Longrightarrow> keeps I (catch m h)"
  by (auto simp: keeps_def catch_def split: prod.splits sum.splits)

lemma keeps_each [keeps_intros]: "(\<And>x. x \<in> set xs \<Longrightarrow> keeps I (f x)) \<Longrightarrow> keeps I (each f xs)"
  by (induction xs) (auto intro!: keeps_intros)

lemma keeps_if [keeps_intros]: "(b \<Longrightarrow> keeps I m) \<Longrightarrow> (\<not> b \<Longrightarrow> keeps I n) \<Longrightarrow> keeps I (if b then m else n)"
  by simp

end
