(* ===== verification/Authority.thy ===== *)
theory Authority
  imports StorageCore
begin

text \<open>
  \<open>web/sync-authority.js\<close>, the typed view of the shared Core's completion and clock
  policy, and the two functions of \<open>web/sync-storage.js\<close> that choose it. Every answer of
  the Core is checked for its shape and for the relations between its fields before it is
  used; the clock is advanced one tick for every identifier of a batch.
\<close>

section \<open>Completion plans\<close>

definition COMPLETION_KEYS :: "string list" where
  "COMPLETION_KEYS = [''commandEligible'', ''expired'', ''generatedBreakEligible'', ''generatedBreakPhase'',
     ''queueAutoBreak'', ''reserveGeneratedBreak'', ''selectedPhase'', ''sourceAlreadyAccepted'']"

definition COMPLETION_FLAGS :: "string list" where
  "COMPLETION_FLAGS = [''expired'', ''commandEligible'', ''reserveGeneratedBreak'', ''queueAutoBreak'',
     ''generatedBreakEligible'', ''sourceAlreadyAccepted'']"

text \<open>\<open>Object.keys(v).sort().join(",")\<close>\<close>

definition joined_keys :: "jv \<Rightarrow> string" where
  "joined_keys v = join '','' (sort (obj_keys v))"

definition valid_phase :: "jv \<Rightarrow> bool" where
  "valid_phase v \<longleftrightarrow> v = Null \<or> one_of PHASES v"

definition exact_source_row :: "jv \<Rightarrow> jv \<Rightarrow> bool" where
  "exact_source_row source item \<longleftrightarrow> strict_eq (getp item ''timerId'') (getp source ''timerId'')
   \<and> strict_eq (getp item ''commandId'') (getp source ''commandId'')
   \<and> getp item ''phase'' = Str ''focus'' \<and> getp item ''status'' = Str ''completed''"

definition projection_has_exact_source :: "jv \<Rightarrow> jv \<Rightarrow> bool" where
  "projection_has_exact_source projection source \<longleftrightarrow>
     (let timer = getp projection ''canonicalTimer'' in
     is_string (getp source ''timerId'') \<and> is_string (getp source ''commandId'')
   \<and> strict_eq (getp timer ''id'') (getp source ''timerId'')
   \<and> getp timer ''phase'' = Str ''focus'' \<and> getp timer ''status'' = Str ''completed''
   \<and> is_array (getp projection ''history'')
   \<and> list_ex (exact_source_row source) (list_if_array (getp projection ''history'')))"

definition source_accepted :: "jv \<Rightarrow> bool" where
  "source_accepted input \<longleftrightarrow> getp input ''sourceFinishPending'' = Bool False
   \<and> projection_has_exact_source (getp input ''canonical'') (getp input ''source'')"

text \<open>The projection a generated break is decided on.\<close>

definition selected_projection :: "jv \<Rightarrow> jv" where
  "selected_projection input =
     (if getp input ''requireCanonical'' = Bool True \<or> source_accepted input
      then getp input ''canonical'' else getp input ''optimistic'')"

definition break_matches :: "jv \<Rightarrow> jv \<Rightarrow> bool" where
  "break_matches value input \<longleftrightarrow>
     getp value ''generatedBreakEligible'' = Bool (getp value ''generatedBreakPhase'' \<noteq> Null)
   \<and> getp value ''generatedBreakEligible''
       = Bool (projection_has_exact_source (selected_projection input) (getp input ''source''))
   \<and> getp value ''sourceAlreadyAccepted'' = Bool (source_accepted input)"

text \<open>What each kind of request allows in its answer.\<close>

definition flag_set :: "jv \<Rightarrow> string \<Rightarrow> bool" where
  "flag_set value k \<longleftrightarrow> truthy (getp value k)"

definition command_request_answer :: "jv \<Rightarrow> bool" where
  "command_request_answer value \<longleftrightarrow> \<not> flag_set value ''expired'' \<and> getp value ''selectedPhase'' = Null
   \<and> \<not> flag_set value ''queueAutoBreak'' \<and> \<not> flag_set value ''generatedBreakEligible''
   \<and> getp value ''generatedBreakPhase'' = Null \<and> \<not> flag_set value ''sourceAlreadyAccepted''"

definition finish_applied_answer :: "jv \<Rightarrow> bool" where
  "finish_applied_answer value \<longleftrightarrow> \<not> flag_set value ''expired'' \<and> \<not> flag_set value ''commandEligible''
   \<and> \<not> flag_set value ''reserveGeneratedBreak'' \<and> getp value ''selectedPhase'' \<noteq> Null
   \<and> \<not> flag_set value ''generatedBreakEligible'' \<and> getp value ''generatedBreakPhase'' = Null
   \<and> \<not> flag_set value ''sourceAlreadyAccepted''"

definition generated_break_answer :: "jv \<Rightarrow> jv \<Rightarrow> bool" where
  "generated_break_answer value input \<longleftrightarrow> \<not> flag_set value ''expired'' \<and> \<not> flag_set value ''commandEligible''
   \<and> \<not> flag_set value ''reserveGeneratedBreak'' \<and> getp value ''selectedPhase'' = Null
   \<and> \<not> flag_set value ''queueAutoBreak'' \<and> break_matches value input"

definition expiry_answer :: "jv \<Rightarrow> bool" where
  "expiry_answer value \<longleftrightarrow> \<not> flag_set value ''commandEligible'' \<and> \<not> flag_set value ''reserveGeneratedBreak''
   \<and> \<not> flag_set value ''queueAutoBreak'' \<and> \<not> flag_set value ''generatedBreakEligible''
   \<and> \<not> flag_set value ''sourceAlreadyAccepted''
   \<and> (flag_set value ''expired'' \<or> getp value ''selectedPhase'' = Null \<and> getp value ''generatedBreakPhase'' = Null)"

definition valid_completion_relationships :: "jv \<Rightarrow> jv \<Rightarrow> bool" where
  "valid_completion_relationships value input \<longleftrightarrow>
     (let kind = getp input ''kind'' in
     if flag_set value ''reserveGeneratedBreak'' \<and> \<not> flag_set value ''commandEligible'' then False
     else if flag_set value ''queueAutoBreak'' \<and> getp value ''selectedPhase'' = Null then False
     else if kind = Str ''commandRequest'' then command_request_answer value
     else if kind = Str ''finishApplied'' then finish_applied_answer value
     else if kind = Str ''generatedBreak'' then generated_break_answer value input
     else if kind = Str ''expiry'' then expiry_answer value
     else True)"

definition completion_shape :: "jv \<Rightarrow> bool" where
  "completion_shape value \<longleftrightarrow> plain_object value \<and> joined_keys value = join '','' COMPLETION_KEYS
   \<and> list_all (\<lambda>k. is_bool (getp value k)) COMPLETION_FLAGS
   \<and> valid_phase (getp value ''selectedPhase'') \<and> valid_phase (getp value ''generatedBreakPhase'')"

definition validate_completion_plan :: "jv \<Rightarrow> jv \<Rightarrow> jv res" where
  "validate_completion_plan value input =
     (if completion_shape value \<and> valid_completion_relationships value input then Inr value
      else Inl (Error ''Shared core returned an invalid completion plan.''))"

definition valid_hlc_tick :: "jv \<Rightarrow> bool" where
  "valid_hlc_tick value \<longleftrightarrow> plain_object value \<and> joined_keys value = ''counter,wallMs''
   \<and> valid_integer (getp value ''wallMs'') 0 \<and> valid_integer (getp value ''counter'') 0"

definition validate_hlc_tick :: "jv \<Rightarrow> jv res" where
  "validate_hlc_tick value = (if valid_hlc_tick value then Inr value
     else Inl (Error ''Shared core returned an invalid HLC tick.''))"

section \<open>The authority\<close>

text \<open>An authority holds the Core's two methods.\<close>

record authority =
  y_plan :: "jv \<Rightarrow> jv res"
  y_tick :: "jv \<Rightarrow> jv res"

definition create_authority :: "adapter option \<Rightarrow> authority res" where
  "create_authority core = (case core of
     None \<Rightarrow> Inl (TypeError ''Typed SharedCore completion and HLC methods are required.'')
   | Some a \<Rightarrow> (case (a_method a ''planTimerCompletion'', a_method a ''tickHlc'') of
       (Some plan, Some tick) \<Rightarrow> Inr \<lparr>y_plan = plan, y_tick = tick\<rparr>
     | _ \<Rightarrow> Inl (TypeError ''Typed SharedCore completion and HLC methods are required.'')))"

definition completion_plan :: "authority \<Rightarrow> jv \<Rightarrow> jv res" where
  "completion_plan y input = bindr (y_plan y input) (\<lambda>value. validate_completion_plan value input)"

definition local_day_bounds :: "local_day \<Rightarrow> jv \<Rightarrow> obj res" where
  "local_day_bounds day reference = (case date_value reference of
     None \<Rightarrow> Inl (RangeError ''Completion reference time is invalid.'')
   | Some ms \<Rightarrow> bindr (iso (fst (day ms))) (\<lambda>s. bindr (iso (snd (day ms))) (\<lambda>e.
       Inr [(''dayStart'', s), (''dayEnd'', e)])))"

definition finish_applied_plan :: "local_day \<Rightarrow> authority \<Rightarrow> obj \<Rightarrow> jv res" where
  "finish_applied_plan day y input =
     bindr (local_day_bounds day (fld input ''referenceMs'')) (\<lambda>bounds.
     completion_plan y (Obj (spread
       [(''kind'', Str ''finishApplied''),
        (''source'', Obj [(''commandId'', fld input ''commandId''), (''timerId'', fld input ''timerId''),
           (''phase'', fld input ''phase''), (''occurredAt'', fld input ''occurredAt'')]),
        (''history'', fld input ''history''),
        (''autoStartBreaks'', Bool (fld input ''autoStartBreaks'' = Bool True)),
        (''localDeviceId'', fld input ''localDeviceId''),
        (''ownership'', if fld input ''ownsTimer'' = Bool True
           then Obj [(''timerId'', fld input ''timerId''), (''ownerDeviceId'', fld input ''localDeviceId'')]
           else Null)] bounds)))"

definition tick_hlc :: "authority \<Rightarrow> jv \<Rightarrow> jv \<Rightarrow> jv \<Rightarrow> jv res" where
  "tick_hlc y local now remote =
     bindr (y_tick y (Obj ([(''local'', local), (''physicalNowMs'', now)]
       @ (if nullish remote then [] else [(''remote'', remote)])))) validate_hlc_tick"

text \<open>The loop of \<open>allocateHlcBatch\<close>: one more tick for every further identifier.\<close>

fun further_ticks :: "authority \<Rightarrow> jv \<Rightarrow> nat \<Rightarrow> jv \<Rightarrow> jv res" where
  "further_ticks y now 0 current = Inr current"
| "further_ticks y now (Suc n) current =
     bindr (tick_hlc y current now Undef) (\<lambda>next. further_ticks y now n next)"

definition allocate_hlc_batch :: "authority \<Rightarrow> jv \<Rightarrow> jv \<Rightarrow> int \<Rightarrow> obj res" where
  "allocate_hlc_batch y local now count =
     bindr (ensure (safe_int count \<and> 1 \<le> count) (RangeError ''HLC batch count is invalid.'')) (\<lambda>_.
     bindr (tick_hlc y local now Undef) (\<lambda>start.
     bindr (further_ticks y now (nat (count - 1)) start) (\<lambda>current.
     Inr [(''wallMs'', getp current ''wallMs''), (''firstCounter'', getp start ''counter''),
          (''counter'', getp current ''counter'')])))"

text \<open>
  \<open>storageAuthority(input)\<close>: the one of the Core the caller gives, if it has both methods,
  else the one \<open>setSharedCore\<close> has made, and \<open>finishAppliedPlan\<close> on it.
\<close>

definition storage_authority :: "env \<Rightarrow> authority res" where
  "storage_authority env =
     (case create_authority (e_given env) of
        Inr y \<Rightarrow> Inr y
      | Inl _ \<Rightarrow> (case e_shared env of
          None \<Rightarrow> Inl (Error ''Shared core is unavailable for completion and HLC policy.'')
        | Some a \<Rightarrow> create_authority (Some a)))"

definition storage_finish_applied_plan :: "env \<Rightarrow> obj \<Rightarrow> jv res" where
  "storage_finish_applied_plan env input =
     bindr (storage_authority env) (\<lambda>y. finish_applied_plan (e_day env) y input)"

section \<open>What an accepted plan says\<close>

lemma validate_completion_plan_Inr:
  "validate_completion_plan value input = Inr v \<longleftrightarrow>
     v = value \<and> completion_shape value \<and> valid_completion_relationships value input"
  by (auto simp: validate_completion_plan_def)

lemma validate_hlc_tick_Inr [simp]: "validate_hlc_tick value = Inr v \<longleftrightarrow> v = value \<and> valid_hlc_tick value"
  by (auto simp: validate_hlc_tick_def)

lemma completion_flag_off:
  assumes "completion_shape value" and "k \<in> set COMPLETION_FLAGS" and "\<not> truthy (getp value k)"
  shows "getp value k = Bool False"
proof -
  from assms(1,2) have "is_bool (getp value k)" by (auto simp: completion_shape_def list_all_iff)
  with assms(3) show ?thesis by (cases "getp value k") simp_all
qed


definition break_plan :: jv where
  "break_plan = Obj [(''commandEligible'', Bool False), (''expired'', Bool False),
     (''generatedBreakEligible'', Bool True), (''generatedBreakPhase'', Str ''short_break''),
     (''queueAutoBreak'', Bool False), (''reserveGeneratedBreak'', Bool False), (''selectedPhase'', Null),
     (''sourceAlreadyAccepted'', Bool True)]"

definition finished_focus :: obj where
  "finished_focus = [(''timerId'', Str ''timer-1''), (''commandId'', Str ''finish-1''), (''phase'', Str ''focus''),
     (''status'', Str ''completed'')]"

definition break_input :: jv where
  "break_input = Obj [(''kind'', Str ''generatedBreak''), (''sourceFinishPending'', Bool False),
     (''source'', Obj [(''timerId'', Str ''timer-1''), (''commandId'', Str ''finish-1'')]),
     (''canonical'', Obj [(''canonicalTimer'', Obj [(''id'', Str ''timer-1''), (''phase'', Str ''focus''),
         (''status'', Str ''completed'')]), (''history'', Arr [Obj finished_focus])]),
     (''optimistic'', Null)]"

definition breaking_authority :: authority where
  "breaking_authority = \<lparr>y_plan = (\<lambda>_. Inr break_plan), y_tick = (\<lambda>_. Inl ClockRangeError)\<rparr>"

lemma break_plan_accepted: "completion_plan breaking_authority break_input = Inr break_plan"
  by code_simp


section \<open>Batches of clock values\<close>

text \<open>
  The law of a hybrid logical clock without a remote reading: the wall time is the later of
  the two, and the counter counts on while it stands still (the Core's policy as the server
  mirrors it in \<open>internal/server/hlc_tick.go\<close>).
\<close>

definition hlc_law :: "(jv \<Rightarrow> jv res) \<Rightarrow> bool" where
  "hlc_law tick \<longleftrightarrow> (\<forall>w c now v.
     tick (Obj [(''local'', Obj [(''wallMs'', jint w), (''counter'', jint c)]), (''physicalNowMs'', jint now)]) = Inr v
     \<longrightarrow> v = Obj [(''wallMs'', jint (max w now)), (''counter'', jint (if now \<le> w then c + 1 else 0))])"

abbreviation clock_value :: "int \<Rightarrow> int \<Rightarrow> jv" where
  "clock_value w c \<equiv> Obj [(''wallMs'', jint w), (''counter'', jint c)]"

lemma tick_hlc_law:
  assumes "hlc_law (y_tick y)" and "tick_hlc y (clock_value w c) (jint now) Undef = Inr v"
  shows "v = clock_value (max w now) (if now \<le> w then c + 1 else 0)"
  using assms unfolding hlc_law_def tick_hlc_def by (auto simp: bindr_Inr_iff)

lemma further_ticks_law:
  assumes "hlc_law (y_tick y)" and "now \<le> w" and "further_ticks y (jint now) n (clock_value w c) = Inr v"
  shows "v = clock_value w (c + int n)"
  using assms(3)
proof (induction n arbitrary: c)
  case (Suc n)
  then obtain v' where v': "tick_hlc y (clock_value w c) (jint now) Undef = Inr v'"
      "further_ticks y (jint now) n v' = Inr v"
    by (auto simp: bindr_Inr_iff)
  have "v' = clock_value w (c + 1)"
    using tick_hlc_law[OF assms(1) v'(1)] assms(2) by (simp add: max_absorb1)
  with v'(2) have "v = clock_value w (c + 1 + int n)" by (intro Suc.IH) simp
  then show ?case by (simp add: algebra_simps)
qed simp

text \<open>
  The clock values of a batch are consecutive. With a Core that ticks as a hybrid
  logical clock does, a batch of n values returns the wall time all of them have, the later
  of the local and the physical one, and a first and a last counter exactly n - 1 apart, so
  that the caller numbers n identifiers without a gap, a repeat, or a value at or below the
  local clock.
\<close>

theorem hlc_batch_consecutive:
  assumes "hlc_law (y_tick y)" and "allocate_hlc_batch y (clock_value w c) (jint now) count = Inr batch"
  shows "fld batch ''wallMs'' = jint (max w now)
     \<and> (\<exists>start. fld batch ''firstCounter'' = jint start \<and> fld batch ''counter'' = jint (start + count - 1)
         \<and> (now \<le> w \<longrightarrow> start = c + 1))"
proof -
  from assms(2) obtain v cur where v: "1 \<le> count" "tick_hlc y (clock_value w c) (jint now) Undef = Inr v"
      "further_ticks y (jint now) (nat (count - 1)) v = Inr cur"
      "batch = [(''wallMs'', getp cur ''wallMs''), (''firstCounter'', getp v ''counter''), (''counter'', getp cur ''counter'')]"
    by (auto simp: allocate_hlc_batch_def bindr_Inr_iff ensure_Inr_iff)
  define start where "start = (if now \<le> w then c + 1 else 0)"
  have "v = clock_value (max w now) start"
    using tick_hlc_law[OF assms(1) v(2)] by (simp add: start_def)
  moreover have "now \<le> max w now" by simp
  ultimately have "cur = clock_value (max w now) (start + int (nat (count - 1)))"
    using further_ticks_law[OF assms(1)] v(3) by blast
  with \<open>v = _\<close> v(1) show ?thesis by (auto simp: v(4) start_def)
qed

definition lawful_tick :: "jv \<Rightarrow> jv res" where
  "lawful_tick input = (case (getp (getp input ''local'') ''wallMs'', getp (getp input ''local'') ''counter'',
       getp input ''physicalNowMs'') of
     (Num (JInt w), Num (JInt c), Num (JInt now)) \<Rightarrow>
       Inr (Obj [(''wallMs'', jint (max w now)), (''counter'', jint (if now \<le> w then c + 1 else 0))])
   | _ \<Rightarrow> Inl ClockRangeError)"

definition lawful_authority :: authority where
  "lawful_authority = \<lparr>y_plan = (\<lambda>_. Inr Null), y_tick = lawful_tick\<rparr>"

lemma lawful_tick_law: "hlc_law (y_tick lawful_authority)"
  by (simp add: hlc_law_def lawful_authority_def lawful_tick_def)

lemma lawful_batch: "allocate_hlc_batch lawful_authority (clock_value 7 2) (jint 5) 3
    = Inr [(''wallMs'', jint 7), (''firstCounter'', jint 3), (''counter'', jint 5)]"
  by code_simp

lemma hlc_batch_consecutive_witness:
  "\<exists>start. jint 3 = jint start \<and> jint 5 = jint (start + 3 - 1) \<and> start = 2 + 1"
  using hlc_batch_consecutive[OF lawful_tick_law lawful_batch] by simp

end
