(* ===== verification/SharedCore.thy ===== *)
theory SharedCore
  imports Effects Authority "HOL-Library.Word"
begin

text \<open>
  \<open>web/shared-core.js\<close>: the host of the Core's WebAssembly instance. One call encodes its
  input, copies it into buffers of the instance's linear memory, dispatches, reads the answer
  back and releases every buffer, on every path; what the instance exports is a parameter
  (\<open>exports\<close>), its memory the state threaded through. The UTF-8 codec is a parameter too:
  a text is represented by its tree, so its bytes are the host's. Then the checks of the
  answer's envelope and of the typed results, and the loading of a module with a pinned digest.
\<close>

unbundle bit_operations_syntax

section \<open>Metadata and limits\<close>

definition CORE_SHA256 :: string where
  "CORE_SHA256 = ''5942df8a91d28d2001889068cd173b6956b17765a01c046627a9050de732f8f1''"

definition CORE_URL :: string where
  "CORE_URL = ''/pomodorough_core.wasm?sha256='' @ CORE_SHA256"

definition CACHE_VERSION :: string where
  "CACHE_VERSION = ''core-'' @ take 16 CORE_SHA256"

definition MAX_OPERATION_BYTES :: int where "MAX_OPERATION_BYTES = 256"
definition MAX_INPUT_BYTES :: int where "MAX_INPUT_BYTES = 16 * 1024 * 1024"
definition MAX_OUTPUT_BYTES :: int where "MAX_OUTPUT_BYTES = 16 * 1024 * 1024"
definition MAX_MEMORY_BYTES :: int where "MAX_MEMORY_BYTES = 256 * 1024 * 1024"

section \<open>The instance\<close>

type_synonym bytes = "8 word list"

text \<open>
  The exports, over a state \<open>'m\<close> of the instance: the size of the memory as the host reads
  it, the three functions, each of which may trap, and the host's access to the memory.
\<close>

record 'm exports =
  x_present :: "string \<Rightarrow> bool"
  x_size :: "'m \<Rightarrow> jv"
  x_alloc :: "nat \<Rightarrow> ('m, js_error, int) eff"
  x_free :: "int \<Rightarrow> nat \<Rightarrow> ('m, js_error, int) eff"
  x_dispatch :: "int \<Rightarrow> nat \<Rightarrow> int \<Rightarrow> nat \<Rightarrow> ('m, js_error, 64 word) eff"
  x_write :: "int \<Rightarrow> bytes \<Rightarrow> 'm \<Rightarrow> 'm"
  x_read :: "int \<Rightarrow> nat \<Rightarrow> 'm \<Rightarrow> bytes \<times> 'm"

record codec =
  c_encode :: "jv \<Rightarrow> bytes"
  c_decode :: "bytes \<Rightarrow> jv res"

text \<open>
  The instance with \<open>unusableCause\<close>, and \<open>ownedBuffers\<close>, the local variable of the call in
  progress. An error carries its \<open>cleanupErrors\<close>.
\<close>

record 'm core =
  k_mem :: 'm
  k_unusable :: "js_error option"
  k_owned :: "(int \<times> nat) list"

datatype failure = Failure js_error "js_error list"

type_synonym ('m, 'a) core_eff = "('m core, failure, 'a) eff"

abbreviation fails :: "js_error \<Rightarrow> failure" where
  "fails e \<equiv> Failure e []"

definition plain_res :: "'a res \<Rightarrow> failure + 'a" where
  "plain_res r = (case r of Inl e \<Rightarrow> Inl (fails e) | Inr a \<Rightarrow> Inr a)"

definition host :: "('m, js_error, 'a) eff \<Rightarrow> ('m, 'a) core_eff" where
  "host m k = (case m (k_mem k) of (r, m') \<Rightarrow> (plain_res r, k\<lparr>k_mem := m'\<rparr>))"

section \<open>Memory\<close>

definition memory_ok :: "jv \<Rightarrow> bool" where
  "memory_ok sz \<longleftrightarrow> (\<exists>n. sz = jint n \<and> safe_int n \<and> n \<le> MAX_MEMORY_BYTES)"

lemma memory_ok_code [code]:
  "memory_ok sz = (case sz of Num (JInt n) \<Rightarrow> safe_int n \<and> n \<le> MAX_MEMORY_BYTES | _ \<Rightarrow> False)"
  by (auto simp: memory_ok_def split: jv.splits jnum.splits)

definition in_range :: "int \<Rightarrow> nat \<Rightarrow> jv \<Rightarrow> bool" where
  "in_range pointer n sz \<longleftrightarrow> safe_int pointer \<and> safe_int (int n) \<and> 0 < pointer \<and> 0 < n
   \<and> pointer \<le> int_of sz \<and> int n \<le> int_of sz - pointer"

definition check_memory :: "'m exports \<Rightarrow> ('m, unit) core_eff" where
  "check_memory x k = require (memory_ok (x_size x (k_mem k)))
     (fails (Error ''Shared core linear memory exceeds its host limit'')) k"

definition require_range :: "'m exports \<Rightarrow> int \<Rightarrow> nat \<Rightarrow> ('m, unit) core_eff" where
  "require_range x pointer n = bindw (check_memory x) (\<lambda>_ k.
     require (in_range pointer n (x_size x (k_mem k))) (fails (RangeError ''outside shared-core linear memory'')) k)"

definition release :: "'m exports \<Rightarrow> int \<Rightarrow> nat \<Rightarrow> ('m, unit) core_eff" where
  "release x pointer n = bindw (host (x_free x pointer n)) (\<lambda>status.
     require (status = 1) (fails (Error ''Shared core rejected free'')))"

definition store :: "'m exports \<Rightarrow> int \<Rightarrow> bytes \<Rightarrow> ('m, unit) core_eff" where
  "store x pointer bs k = (Inr (), k\<lparr>k_mem := x_write x pointer bs (k_mem k)\<rparr>)"

text \<open>The cleanup of a buffer that could not be filled: its failure is attached and remembered.\<close>

definition abandon :: "'m exports \<Rightarrow> int \<Rightarrow> nat \<Rightarrow> failure \<Rightarrow> ('m, int) core_eff" where
  "abandon x pointer n primary k = (case (release x pointer n k, primary) of
     ((Inr _, k'), _) \<Rightarrow> (Inl primary, k')
   | ((Inl (Failure cleanup _), k'), Failure e _) \<Rightarrow> (Inl (Failure e [cleanup]), k'\<lparr>k_unusable := Some cleanup\<rparr>))"

definition allocate_and_write :: "'m exports \<Rightarrow> bytes \<Rightarrow> ('m, int) core_eff" where
  "allocate_and_write x bs =
     bindw (host (x_alloc x (length bs))) (\<lambda>pointer.
     bindw (require (pointer \<noteq> 0) (fails (Error ''Shared core allocation failed''))) (\<lambda>_.
     catch (bindw (require_range x pointer (length bs)) (\<lambda>_. bindw (store x pointer bs) (\<lambda>_. ret pointer)))
       (abandon x pointer (length bs))))"

definition own :: "int \<Rightarrow> nat \<Rightarrow> ('m, unit) core_eff" where
  "own pointer n k = (Inr (), k\<lparr>k_owned := k_owned k @ [(pointer, n)]\<rparr>)"

fun release_all :: "'m exports \<Rightarrow> (int \<times> nat) list \<Rightarrow> 'm core \<Rightarrow> js_error list \<times> 'm core" where
  "release_all x [] k = ([], k)"
| "release_all x ((pointer, n) # buffers) k =
     (if pointer = 0 \<or> n = 0 then release_all x buffers k
      else (case release x pointer n k of
          (Inr _, k') \<Rightarrow> release_all x buffers k'
        | (Inl (Failure e _), k') \<Rightarrow> (case release_all x buffers k' of (es, k'') \<Rightarrow> (e # es, k''))))"

section \<open>Envelopes\<close>

definition lower_hex :: "string \<Rightarrow> bool" where
  "lower_hex s \<longleftrightarrow> list_all hex_char s"

definition uuid8_pattern :: "string \<Rightarrow> bool" where
  "uuid8_pattern s \<longleftrightarrow> length s = 36
   \<and> s ! 8 = CHR ''-'' \<and> s ! 13 = CHR ''-'' \<and> s ! 18 = CHR ''-'' \<and> s ! 23 = CHR ''-''
   \<and> lower_hex (take 8 s) \<and> lower_hex (take 4 (drop 9 s))
   \<and> s ! 14 = CHR ''8'' \<and> lower_hex (take 3 (drop 15 s))
   \<and> s ! 19 \<in> set ''89ab'' \<and> lower_hex (take 3 (drop 20 s)) \<and> lower_hex (drop 24 s)"

definition valid_task_identity :: "codec \<Rightarrow> jv \<Rightarrow> bool" where
  "valid_task_identity c value \<longleftrightarrow> plain_object value \<and> joined_keys value = ''id,title,utf8Bytes''
   \<and> (case getp value ''id'' of Str s \<Rightarrow> uuid8_pattern s | _ \<Rightarrow> False)
   \<and> nonempty_string (getp value ''title'') \<and> valid_integer (getp value ''utf8Bytes'') 1
   \<and> getp value ''utf8Bytes'' = jint (int (length (c_encode c (getp value ''title''))))"

definition parse_envelope :: "codec \<Rightarrow> jv \<Rightarrow> jv \<Rightarrow> jv res" where
  "parse_envelope c operation envelope =
     (if \<not> plain_object envelope \<or> \<not> is_bool (getp envelope ''ok'')
      then Inl (Error ''Shared core returned an invalid envelope'')
      else if getp envelope ''ok'' = Bool True then
        if sort (obj_keys envelope) \<noteq> [''ok'', ''value'']
        then Inl (Error ''Shared core returned a malformed success envelope'')
        else if operation = Str ''task.identity.v1'' \<and> \<not> valid_task_identity c (getp envelope ''value'')
        then Inl (Error ''Shared core returned an invalid task identity'')
        else Inr (getp envelope ''value'')
      else if sort (obj_keys envelope) \<noteq> [''error'', ''ok''] \<or> \<not> nonempty_string (getp envelope ''error'')
      then Inl (Error ''Shared core returned a malformed failure envelope'')
      else Inl (Error (case getp envelope ''error'' of Str s \<Rightarrow> s | _ \<Rightarrow> ''an encoded text'')))"

section \<open>A call\<close>

definition result_pointer :: "64 word \<Rightarrow> nat" where
  "result_pointer packed = unat (packed AND 0xffffffff)"

definition result_length :: "64 word \<Rightarrow> nat" where
  "result_length packed = unat (drop_bit 32 packed)"

definition encode_input :: "codec \<Rightarrow> jv \<Rightarrow> jv \<Rightarrow> (bytes \<times> bytes) res" where
  "encode_input c operation input =
     bindr (ensure (nonempty_string operation) (TypeError ''Shared core operation must be a non-empty string'')) (\<lambda>_.
     bindr (ensure (int (length (c_encode c operation)) \<le> MAX_OPERATION_BYTES)
       (RangeError ''Shared core operation is too large'')) (\<lambda>_.
     bindr (ensure (is_string (json_stringify input)) (TypeError ''Shared core input is not JSON serializable'')) (\<lambda>_.
     let bs = c_encode c (json_stringify input) in
     bindr (ensure (bs \<noteq> [] \<and> int (length bs) \<le> MAX_INPUT_BYTES)
       (RangeError ''Shared core input is empty or too large'')) (\<lambda>_.
     Inr (c_encode c operation, bs)))))"

definition allocate_owned :: "'m exports \<Rightarrow> bytes \<Rightarrow> ('m, int) core_eff" where
  "allocate_owned x bs = bindw (allocate_and_write x bs) (\<lambda>p. bindw (own p (length bs)) (\<lambda>_. ret p))"

definition dispatch_owned :: "'m exports \<Rightarrow> int \<Rightarrow> nat \<Rightarrow> int \<Rightarrow> nat \<Rightarrow> ('m, 64 word) core_eff" where
  "dispatch_owned x p n q m = bindw (host (x_dispatch x p n q m)) (\<lambda>packed.
     bindw (if result_pointer packed \<noteq> 0 \<and> result_length packed \<noteq> 0
       then own (int (result_pointer packed)) (result_length packed) else ret ()) (\<lambda>_. ret packed))"

definition fetch_bytes :: "'m exports \<Rightarrow> int \<Rightarrow> nat \<Rightarrow> ('m, bytes) core_eff" where
  "fetch_bytes x pointer n k = (case x_read x pointer n (k_mem k) of (bs, m') \<Rightarrow> (Inr bs, k\<lparr>k_mem := m'\<rparr>))"

text \<open>The protected part of a call: up to the parsed envelope, or the primary error.\<close>

definition attempt :: "codec \<Rightarrow> 'm exports \<Rightarrow> jv \<Rightarrow> bytes \<Rightarrow> bytes \<Rightarrow> ('m, jv) core_eff" where
  "attempt c x operation op_bytes in_bytes =
     bindw (check_memory x) (\<lambda>_.
     bindw (allocate_owned x op_bytes) (\<lambda>p.
     bindw (allocate_owned x in_bytes) (\<lambda>q.
     bindw (dispatch_owned x p (length op_bytes) q (length in_bytes)) (\<lambda>packed.
     bindw (require (result_pointer packed \<noteq> 0 \<and> result_length packed \<noteq> 0)
       (fails (Error ''Shared core returned an empty result buffer''))) (\<lambda>_.
     bindw (require (int (result_length packed) \<le> MAX_OUTPUT_BYTES)
       (fails (Error ''Shared core result is too large''))) (\<lambda>_.
     bindw (require_range x (int (result_pointer packed)) (result_length packed)) (\<lambda>_.
     bindw (fetch_bytes x (int (result_pointer packed)) (result_length packed)) (\<lambda>bs.
     lift (plain_res (bindr (c_decode c bs) (\<lambda>text. bindr (json_parse text) (parse_envelope c operation)))))))))))) "

text \<open>The cleanup: an instance with a buffer that could not be released is not used again.\<close>

definition finish_call :: "'m exports \<Rightarrow> failure + jv \<Rightarrow> ('m, jv) core_eff" where
  "finish_call x outcome k = (case release_all x (rev (k_owned k)) k of
     ([], k') \<Rightarrow> (outcome, k')
   | (e # es, k') \<Rightarrow>
       (case outcome of
          Inl (Failure primary earlier) \<Rightarrow> Inl (Failure primary (earlier @ e # es))
        | Inr _ \<Rightarrow> Inl (Failure (Error ''Shared core cleanup failed'') (e # es)),
        k'\<lparr>k_unusable := Some e\<rparr>))"

definition core_call :: "codec \<Rightarrow> 'm exports \<Rightarrow> jv \<Rightarrow> jv \<Rightarrow> ('m, jv) core_eff" where
  "core_call c x operation input k = (case k_unusable k of
     Some _ \<Rightarrow> (Inl (fails (Error ''Shared core instance is unusable after cleanup failure'')), k)
   | None \<Rightarrow> (case encode_input c operation input of
       Inl e \<Rightarrow> (Inl (fails e), k)
     | Inr (op_bytes, in_bytes) \<Rightarrow>
         (case attempt c x operation op_bytes in_bytes (k\<lparr>k_owned := []\<rparr>) of
            (outcome, k') \<Rightarrow> finish_call x outcome k')))"

section \<open>Typed operations\<close>

definition project_synchronized_state :: "codec \<Rightarrow> 'm exports \<Rightarrow> jv \<Rightarrow> ('m, jv) core_eff" where
  "project_synchronized_state c x = core_call c x (Str ''projection.apply.v2'')"

definition plan_bootstrap :: "codec \<Rightarrow> 'm exports \<Rightarrow> jv \<Rightarrow> ('m, jv) core_eff" where
  "plan_bootstrap c x = core_call c x (Str ''bootstrap.plan.v1'')"

definition reconcile_synchronized_state :: "codec \<Rightarrow> 'm exports \<Rightarrow> jv \<Rightarrow> ('m, jv) core_eff" where
  "reconcile_synchronized_state c x = core_call c x (Str ''reconcile.rebase.v3'')"

definition task_identity :: "codec \<Rightarrow> 'm exports \<Rightarrow> jv \<Rightarrow> ('m, jv) core_eff" where
  "task_identity c x = core_call c x (Str ''task.identity.v1'')"

text \<open>\<open>#validateCompletionPlan\<close> and \<open>#validateHlcTick\<close>\<close>

definition core_accepts_plan :: "jv \<Rightarrow> jv \<Rightarrow> bool" where
  "core_accepts_plan value input \<longleftrightarrow> completion_shape value
   \<and> (getp input ''kind'' = Str ''generatedBreak'' \<longrightarrow> break_matches value input)"

definition plan_timer_completion :: "codec \<Rightarrow> 'm exports \<Rightarrow> jv \<Rightarrow> ('m, jv) core_eff" where
  "plan_timer_completion c x input =
     bindw (core_call c x (Str ''timer.completionPlan.v1'') input) (\<lambda>value.
     bindw (require (core_accepts_plan value input) (fails (Error ''Shared core returned an invalid completion plan'')))
       (\<lambda>_. ret value))"

definition core_tick_hlc :: "codec \<Rightarrow> 'm exports \<Rightarrow> jv \<Rightarrow> ('m, jv) core_eff" where
  "core_tick_hlc c x input =
     bindw (core_call c x (Str ''hlc.tick.v1'') input) (\<lambda>value.
     bindw (require (valid_hlc_tick value) (fails (Error ''Shared core returned an invalid HLC tick'')))
       (\<lambda>_. ret value))"

section \<open>Loading\<close>

text \<open>
  What loading uses of the host: SHA-256 if Web Crypto is there, the instantiation of a
  module, and the download of a URL as the response's \<open>ok\<close> and its bytes.
\<close>

record 'm loader =
  l_digest :: "(bytes \<Rightarrow> bytes) option"
  l_instantiate :: "bytes \<Rightarrow> ('m exports \<times> 'm) res"
  l_fetch :: "string \<Rightarrow> (bool \<times> bytes) res"

definition required_exports :: "string list" where
  "required_exports = [''memory'', ''pomodorough_alloc'', ''pomodorough_free_v2'', ''pomodorough_dispatch'']"

definition new_core :: "'m exports \<Rightarrow> 'm \<Rightarrow> 'm core res" where
  "new_core x m =
     bindr (ensure (list_all (x_present x) required_exports) (Error ''Shared core is missing export'')) (\<lambda>_.
     bindr (ensure (memory_ok (x_size x m)) (Error ''Shared core linear memory exceeds its host limit'')) (\<lambda>_.
     Inr \<lparr>k_mem = m, k_unusable = None, k_owned = []\<rparr>))"

definition hex_text :: "bytes \<Rightarrow> string" where
  "hex_text bs = concat (map (\<lambda>b. hex_digits 2 (unat b)) bs)"

definition from_bytes :: "'m loader \<Rightarrow> bytes \<Rightarrow> string \<Rightarrow> ('m exports \<times> 'm core) res" where
  "from_bytes l source expected =
     bindr (ensure (int (length source) \<le> MAX_INPUT_BYTES) (Error ''Shared core module is too large'')) (\<lambda>_.
     bindr (ensure (hex64 expected) (Error ''Shared core expected digest is invalid'')) (\<lambda>_.
     case l_digest l of
       None \<Rightarrow> Inl (Error ''Web Crypto is unavailable for shared-core verification'')
     | Some digest \<Rightarrow>
         bindr (ensure (hex_text (digest source) = expected) (Error ''Shared core digest mismatch'')) (\<lambda>_.
         bindr (l_instantiate l source) (\<lambda>(x, m). bindr (new_core x m) (\<lambda>k. Inr (x, k))))))"

definition load_core :: "'m loader \<Rightarrow> string \<Rightarrow> ('m exports \<times> 'm core) res" where
  "load_core l url = bindr (l_fetch l url) (\<lambda>(ok, source).
     bindr (ensure ok (Error ''Unable to load shared core'')) (\<lambda>_. from_bytes l source CORE_SHA256))"

end
