(* ===== verification/CoreSafety.thy ===== *)
theory CoreSafety
  imports SharedCore "HOL-Library.Multiset"
begin

text \<open>
  The life of the buffers of a call into the Core, for any instance: the exports are wrapped
  so that their state records every buffer that is handed out, every attempt to release one,
  and every access to the memory with whether it was inside. Whatever the instance does,
  a call releases each buffer once, touches only memory in range, and leaves the instance
  usable exactly if every release succeeded.
\<close>

section \<open>A record of what the host does\<close>

datatype event = Took int nat | Freed int nat bool | Touched int nat bool

definition logged :: "'m exports \<Rightarrow> ('m \<times> event list) exports" where
  "logged x = \<lparr>x_present = x_present x, x_size = (\<lambda>(m, _). x_size x m),
     x_alloc = (\<lambda>n (m, es). case x_alloc x n m of (r, m') \<Rightarrow> (r, m', es @ (case r of
        Inr p \<Rightarrow> if p = 0 then [] else [Took p n] | Inl _ \<Rightarrow> []))),
     x_free = (\<lambda>p n (m, es). case x_free x p n m of (r, m') \<Rightarrow> (r, m', es @ [Freed p n (r = Inr 1)])),
     x_dispatch = (\<lambda>p n q l (m, es). case x_dispatch x p n q l m of (r, m') \<Rightarrow> (r, m', es @ (case r of
        Inr w \<Rightarrow> if result_pointer w \<noteq> 0 \<and> result_length w \<noteq> 0
          then [Took (int (result_pointer w)) (result_length w)] else []
      | Inl _ \<Rightarrow> []))),
     x_write = (\<lambda>p bs (m, es). (x_write x p bs m, es @ [Touched p (length bs) (in_range p (length bs) (x_size x m))])),
     x_read = (\<lambda>p n (m, es). case x_read x p n m of (bs, m') \<Rightarrow> (bs, m', es @ [Touched p n (in_range p n (x_size x m))]))\<rparr>"

abbreviation log_of :: "('m \<times> event list) core \<Rightarrow> event list" where
  "log_of k \<equiv> snd (k_mem k)"

fun took :: "event list \<Rightarrow> (int \<times> nat) multiset" where
  "took [] = {#}"
| "took (Took p n # es) = add_mset (p, n) (took es)"
| "took (_ # es) = took es"

fun freed :: "event list \<Rightarrow> (int \<times> nat) multiset" where
  "freed [] = {#}"
| "freed (Freed p n _ # es) = add_mset (p, n) (freed es)"
| "freed (_ # es) = freed es"

lemma took_append [simp]: "took (es @ fs) = took es + took fs"
  by (induction es rule: took.induct) simp_all

lemma freed_append [simp]: "freed (es @ fs) = freed es + freed fs"
  by (induction es rule: freed.induct) simp_all

definition frees_succeed :: "event list \<Rightarrow> bool" where
  "frees_succeed es \<longleftrightarrow> list_all (\<lambda>e. case e of Freed _ _ b \<Rightarrow> b | _ \<Rightarrow> True) es"

definition touches_inside :: "event list \<Rightarrow> bool" where
  "touches_inside es \<longleftrightarrow> list_all (\<lambda>e. case e of Touched _ _ b \<Rightarrow> b | _ \<Rightarrow> True) es"

lemma frees_succeed_simps [simp]:
  "frees_succeed []" "frees_succeed (es @ fs) \<longleftrightarrow> frees_succeed es \<and> frees_succeed fs"
  "frees_succeed [Took p n]" "frees_succeed [Touched p n b]" "frees_succeed [Freed p n b] \<longleftrightarrow> b"
  by (simp_all add: frees_succeed_def)

lemma touches_inside_simps [simp]:
  "touches_inside []" "touches_inside (es @ fs) \<longleftrightarrow> touches_inside es \<and> touches_inside fs"
  "touches_inside [Took p n]" "touches_inside [Freed p n b]" "touches_inside [Touched p n b] \<longleftrightarrow> b"
  by (simp_all add: touches_inside_def)

section \<open>Invariants of the protected part of a call\<close>

text \<open>
  What an invariant of the instance needs to survive the protected part of a call: that the
  four kinds of access the part is made of keep it.
\<close>

locale call_invariant =
  fixes x :: "'m exports" and I :: "'m core \<Rightarrow> bool"
  assumes check: "keeps I (check_memory x)"
    and allocate: "bs \<noteq> [] \<Longrightarrow> keeps I (allocate_owned x bs)"
    and dispatch: "keeps I (dispatch_owned x p n q m)"
    and fetch: "keeps I (bindw (require_range x p' n') (\<lambda>_. fetch_bytes x p' n'))"
begin

lemma keeps_attempt:
  assumes "op_bytes \<noteq> []" and "in_bytes \<noteq> []"
  shows "keeps I (attempt c x operation op_bytes in_bytes)"
proof -
  have tail: "keeps I (bindw (require_range x p n) (\<lambda>_. bindw (fetch_bytes x p n) f))"
    if "\<And>bs. keeps I (f bs)" for p n and f :: "bytes \<Rightarrow> ('m, jv) core_eff"
    using keeps_bindw[OF fetch[of p n] that] by (simp add: bindw_assoc)
  show ?thesis
    unfolding attempt_def
    by (intro keeps_bindw keeps_pure check allocate dispatch tail assms)
qed

end

section \<open>Steps\<close>

lemma check_memory_state: "check_memory x k = (r, k') \<Longrightarrow> k' = k"
  by (simp add: check_memory_def require_def split: if_splits)

lemma require_range_state: "require_range x p n k = (r, k') \<Longrightarrow> k' = k"
  by (auto simp: require_range_def bindw_def require_def dest: check_memory_state split: prod.splits sum.splits)

lemma require_range_in: "require_range x p n k = (Inr u, k') \<Longrightarrow> in_range p n (x_size x (k_mem k))"
  by (auto simp: require_range_def bindw_def require_def dest: check_memory_state
      split: prod.splits sum.splits if_splits)

lemma keeps_check_memory [keeps_intros]: "keeps I (check_memory x)"
  by (rule keepsI) (metis check_memory_state eq_snd_iff)

lemma keeps_require_range [keeps_intros]: "keeps I (require_range x p n)"
  by (rule keepsI) (metis require_range_state eq_snd_iff)

text \<open>
  An invariant of the instance together with the buffer that is being filled: how each
  access moves from one to the other. \<open>J p n\<close> holds while the buffer is not yet owned.
\<close>

lemma keeps_allocate_owned:
  assumes alloc: "\<And>k r k'. I k \<Longrightarrow> host (x_alloc x (length bs)) k = (r, k') \<Longrightarrow>
      (case r of Inl _ \<Rightarrow> I k' | Inr p \<Rightarrow> if p = 0 then I k' else J p k')"
    and abandon: "\<And>p f k. J p k \<Longrightarrow> I (snd (abandon x p (length bs) f k))"
    and store: "\<And>p k k' r. J p k \<Longrightarrow> in_range p (length bs) (x_size x (k_mem k)) \<Longrightarrow> store x p bs k = (r, k') \<Longrightarrow> J p k'"
    and own: "\<And>p k r k'. J p k \<Longrightarrow> own p (length bs) k = (r, k') \<Longrightarrow> p \<noteq> 0 \<Longrightarrow> I k'"
  shows "keeps I (allocate_owned x bs)"
proof (rule keepsI)
  fix k assume I: "I k"
  obtain r k1 where host: "host (x_alloc x (length bs)) k = (r, k1)" by (cases "host (x_alloc x (length bs)) k")
  note step = alloc[OF I host]
  show "I (snd (allocate_owned x bs k))"
  proof (cases r)
    case (Inl f)
    then show ?thesis using host step by (simp add: allocate_owned_def allocate_and_write_def bindw_def)
  next
    case (Inr p)
    show ?thesis
    proof (cases "p = 0")
      case True
      then show ?thesis using host step Inr
        by (simp add: allocate_owned_def allocate_and_write_def bindw_def require_def)
    next
      case False
      then have J: "J p k1" using step Inr by simp
      obtain r2 k2 where range: "require_range x p (length bs) k1 = (r2, k2)"
        by (cases "require_range x p (length bs) k1")
      then have k2: "k2 = k1" by (rule require_range_state)
      show ?thesis
      proof (cases r2)
        case (Inl f)
        then have "allocate_and_write x bs k = abandon x p (length bs) f k1"
          using host Inr False range k2 by (simp add: allocate_and_write_def bindw_def catch_def require_def)
        then show ?thesis using abandon[OF J, of f]
          by (auto simp: allocate_owned_def bindw_def abandon_def split: prod.splits sum.splits failure.splits)
      next
        case r2: (Inr u)
        obtain k3 where st: "store x p bs k1 = (Inr (), k3)" by (simp add: store_def)
        have J3: "J p k3" using store[OF J _ st] range r2 require_range_in by blast
        have "allocate_owned x bs k = bindw (own p (length bs)) (\<lambda>_. ret p) k3"
          using host Inr False range r2 k2 st
          by (simp add: allocate_owned_def allocate_and_write_def bindw_def catch_def require_def ret_def)
        then show ?thesis using own[OF J3 _ False] by (auto simp: bindw_def ret_def own_def)
      qed
    qed
  qed
qed

lemmas step_defs = host_def release_def abandon_def store_def own_def logged_def bindw_def require_def
  plain_res_def ret_def

section \<open>The three invariants\<close>

text \<open>What was handed out is what was released, what the call owns, and what it is filling.\<close>

definition lent :: "(int \<times> nat) multiset \<Rightarrow> ('m \<times> event list) core \<Rightarrow> bool" where
  "lent filling k \<longleftrightarrow> took (log_of k) = freed (log_of k) + mset (k_owned k) + filling
   \<and> list_all (\<lambda>(p, n). p \<noteq> 0 \<and> n \<noteq> 0) (k_owned k)"

definition usable_agrees :: "('m \<times> event list) core \<Rightarrow> bool" where
  "usable_agrees k \<longleftrightarrow> (k_unusable k = None \<longleftrightarrow> frees_succeed (log_of k))"

definition inside :: "('m \<times> event list) core \<Rightarrow> bool" where
  "inside k \<longleftrightarrow> touches_inside (log_of k)"

lemma keeps_fetch:
  assumes "\<And>k m' p n. I k \<Longrightarrow> in_range p n (x_size (logged x) (k_mem k)) \<Longrightarrow>
      I (k\<lparr>k_mem := (m', log_of k @ [Touched p n True])\<rparr>)"
  shows "keeps I (bindw (require_range (logged x) p' n') (\<lambda>_. fetch_bytes (logged x) p' n'))"
proof (rule keepsI)
  fix k assume I: "I k"
  obtain r k1 where range: "require_range (logged x) p' n' k = (r, k1)" by (cases "require_range (logged x) p' n' k")
  then have k1: "k1 = k" by (rule require_range_state)
  show "I (snd (bindw (require_range (logged x) p' n') (\<lambda>_. fetch_bytes (logged x) p' n') k))"
  proof (cases r)
    case (Inl e)
    then show ?thesis using range k1 I by (simp add: bindw_def)
  next
    case (Inr u)
    then have at_size: "in_range p' n' (x_size (logged x) (k_mem k))" using range require_range_in by blast
    obtain m es where mem: "k_mem k = (m, es)" by (cases "k_mem k")
    obtain bs m' where "x_read x p' n' m = (bs, m')" by (cases "x_read x p' n' m")
    then show ?thesis using assms[OF I at_size, of m'] range k1 Inr mem at_size
      by (simp add: bindw_def fetch_bytes_def logged_def)
  qed
qed

lemma lent_dispatch: "keeps (lent {#}) (dispatch_owned (logged x) p n q m)"
  by (rule keepsI) (auto simp: dispatch_owned_def step_defs lent_def split: prod.splits sum.splits)

lemma usable_dispatch: "keeps usable_agrees (dispatch_owned (logged x) p n q m)"
  by (rule keepsI) (auto simp: dispatch_owned_def step_defs usable_agrees_def split: prod.splits sum.splits)

lemma inside_dispatch: "keeps inside (dispatch_owned (logged x) p n q m)"
  by (rule keepsI) (auto simp: dispatch_owned_def step_defs inside_def split: prod.splits sum.splits)

lemma lent_allocate: "bs \<noteq> [] \<Longrightarrow> keeps (lent {#}) (allocate_owned (logged x) bs)"
  by (rule keeps_allocate_owned[where J = "\<lambda>p. lent {#(p, length bs)#}"])
     (auto simp: step_defs lent_def split: prod.splits sum.splits failure.splits if_splits)

lemma usable_allocate: "keeps usable_agrees (allocate_owned (logged x) bs)"
  by (rule keeps_allocate_owned[where J = "\<lambda>_. usable_agrees"])
     (auto simp: step_defs usable_agrees_def split: prod.splits sum.splits failure.splits if_splits)

lemma inside_allocate: "keeps inside (allocate_owned (logged x) bs)"
  by (rule keeps_allocate_owned[where J = "\<lambda>_. inside"])
     (auto simp: step_defs inside_def split: prod.splits sum.splits failure.splits if_splits)

interpretation balance: call_invariant "logged x" "lent {#}" for x :: "'m exports"
  by unfold_locales
     (auto intro!: keeps_check_memory lent_allocate lent_dispatch keeps_fetch simp: lent_def)

interpretation usability: call_invariant "logged x" usable_agrees for x :: "'m exports"
  by unfold_locales
     (auto intro!: keeps_check_memory usable_allocate usable_dispatch keeps_fetch simp: usable_agrees_def)

interpretation range: call_invariant "logged x" inside for x :: "'m exports"
  by unfold_locales
     (auto intro!: keeps_check_memory inside_allocate inside_dispatch keeps_fetch simp: inside_def)

section \<open>Cleanup\<close>

lemma release_logged:
  assumes "release (logged x) p n k = (r, k')"
  shows "\<exists>m'. k' = k\<lparr>k_mem := (m', log_of k @ [Freed p n (r = Inr ())])\<rparr>"
  using assms by (auto simp: step_defs split: prod.splits sum.splits if_splits)

lemma release_all_logged:
  assumes "release_all (logged x) buffers k = (es, k')" and "list_all (\<lambda>(p, n). p \<noteq> 0 \<and> n \<noteq> 0) buffers"
  shows "took (log_of k') = took (log_of k)" "freed (log_of k') = freed (log_of k) + mset buffers"
    "frees_succeed (log_of k') \<longleftrightarrow> frees_succeed (log_of k) \<and> es = []"
    "touches_inside (log_of k') \<longleftrightarrow> touches_inside (log_of k)"
    "k_unusable k' = k_unusable k"
proof -
  have "took (log_of k') = took (log_of k) \<and> freed (log_of k') = freed (log_of k) + mset buffers
      \<and> (frees_succeed (log_of k') \<longleftrightarrow> frees_succeed (log_of k) \<and> es = [])
      \<and> (touches_inside (log_of k') \<longleftrightarrow> touches_inside (log_of k)) \<and> k_unusable k' = k_unusable k"
    using assms
  proof (induction "logged x" buffers k arbitrary: es k' rule: release_all.induct)
    case (2 p n buffers k)
    obtain r k1 where r: "release (logged x) p n k = (r, k1)" by (cases "release (logged x) p n k")
    from release_logged[OF r] obtain m' where k1: "k1 = k\<lparr>k_mem := (m', log_of k @ [Freed p n (r = Inr ())])\<rparr>" ..
    from "2.prems" have nz: "p \<noteq> 0" "n \<noteq> 0" "list_all (\<lambda>(p, n). p \<noteq> 0 \<and> n \<noteq> 0) buffers" by auto
    show ?case
    proof (cases r)
      case (Inr u)
      then have "release_all (logged x) buffers k1 = (es, k')" using "2.prems"(1) nz r by simp
      from "2.hyps"(3)[OF _ r[symmetric] Inr this nz(3)] nz show ?thesis using k1 Inr by simp
    next
      case (Inl f)
      obtain e cs where f: "f = Failure e cs" by (cases f)
      obtain es' where es: "release_all (logged x) buffers k1 = (es', k')" "es = e # es'"
        using "2.prems"(1) nz r Inl f by (auto split: prod.splits)
      from "2.hyps"(2)[OF _ r[symmetric] Inl f es(1) nz(3)] nz show ?thesis using k1 Inl es(2) by simp
    qed
  qed simp
  then show "took (log_of k') = took (log_of k)" "freed (log_of k') = freed (log_of k) + mset buffers"
    "frees_succeed (log_of k') \<longleftrightarrow> frees_succeed (log_of k) \<and> es = []"
    "touches_inside (log_of k') \<longleftrightarrow> touches_inside (log_of k)"
    "k_unusable k' = k_unusable k" by blast+
qed

text \<open>An instance between calls.\<close>

definition settled :: "('m \<times> event list) core \<Rightarrow> bool" where
  "settled k \<longleftrightarrow> took (log_of k) = freed (log_of k) \<and> usable_agrees k \<and> inside k"

definition encodes_text :: "codec \<Rightarrow> bool" where
  "encodes_text c \<longleftrightarrow> (\<forall>v. nonempty_string v \<longrightarrow> c_encode c v \<noteq> [])"

lemma finish_settles:
  assumes "lent {#} k" "usable_agrees k" "inside k" "finish_call (logged x) outcome k = (r, k')"
  shows "settled k'"
proof -
  obtain es k1 where all: "release_all (logged x) (rev (k_owned k)) k = (es, k1)"
    by (cases "release_all (logged x) (rev (k_owned k)) k")
  have "list_all (\<lambda>(p, n). p \<noteq> 0 \<and> n \<noteq> 0) (rev (k_owned k))" using assms(1) by (auto simp: lent_def list_all_iff)
  note step = release_all_logged[OF all this]
  show ?thesis
    using assms all step
    by (cases es) (auto simp: finish_call_def settled_def lent_def usable_agrees_def inside_def)
qed

lemma core_call_settled:
  assumes "encodes_text c" and "settled k" and "core_call c (logged x) operation input k = (r, k')"
  shows "settled k'"
proof (cases "k_unusable k = None \<and> (\<exists>bs. encode_input c operation input = Inr bs)")
  case True
  then obtain op_bytes in_bytes where enc: "encode_input c operation input = Inr (op_bytes, in_bytes)" by auto
  then have bytes: "op_bytes \<noteq> []" "in_bytes \<noteq> []"
    using assms(1) by (auto simp: encode_input_def encodes_text_def bindr_Inr_iff ensure_Inr_iff Let_def)
  let ?k = "k\<lparr>k_owned := []\<rparr>"
  obtain outcome k1 where att: "attempt c (logged x) operation op_bytes in_bytes ?k = (outcome, k1)"
    by (cases "attempt c (logged x) operation op_bytes in_bytes ?k")
  have start: "lent {#} ?k" "usable_agrees ?k" "inside ?k"
    using assms(2) by (auto simp: settled_def lent_def usable_agrees_def inside_def)
  have "lent {#} k1" "usable_agrees k1" "inside k1"
    using keepsD[OF balance.keeps_attempt start(1) att] keepsD[OF usability.keeps_attempt start(2) att]
      keepsD[OF range.keeps_attempt start(3) att] bytes by blast+
  moreover have "finish_call (logged x) outcome k1 = (r, k')"
    using assms(3) True enc att by (simp add: core_call_def)
  ultimately show ?thesis by (rule finish_settles)
next
  case False
  then have "k' = k" using assms(3) by (auto simp: core_call_def split: option.splits sum.splits)
  then show ?thesis using assms(2) by simp
qed

section \<open>Sequences of calls\<close>

definition run_calls :: "codec \<Rightarrow> 'm exports \<Rightarrow> (jv \<times> jv) list \<Rightarrow> 'm core \<Rightarrow> 'm core" where
  "run_calls c x calls k = foldl (\<lambda>k (operation, input). snd (core_call c x operation input k)) k calls"

definition fresh_core :: "'m \<Rightarrow> ('m \<times> event list) core" where
  "fresh_core m = \<lparr>k_mem = (m, []), k_unusable = None, k_owned = []\<rparr>"

lemma run_calls_settled:
  assumes "encodes_text c" and "settled k"
  shows "settled (run_calls c (logged x) calls k)"
  using assms(2)
proof (induction calls arbitrary: k)
  case (Cons call calls)
  obtain operation input where call: "call = (operation, input)" by (cases call)
  have "settled (snd (core_call c (logged x) operation input k))"
    by (rule core_call_settled[OF assms(1) Cons.prems prod.collapse[symmetric]])
  from Cons.IH[OF this] show ?case by (simp add: run_calls_def call)
qed (simp add: run_calls_def)

lemma fresh_core_settled: "settled (fresh_core m)"
  by (simp add: settled_def fresh_core_def usable_agrees_def inside_def)

text \<open>
  C20: Every buffer is released exactly once. Over any sequence of calls into an instance that
  may trap, refuse an allocation, answer with any address and length, or reject a release,
  the buffers the host asked to release are exactly the ones it was handed out, each as often
  as it was handed out.
\<close>

theorem buffers_released_once:
  assumes "encodes_text c"
  shows "freed (log_of (run_calls c (logged x) calls (fresh_core m)))
    = took (log_of (run_calls c (logged x) calls (fresh_core m)))"
  using run_calls_settled[OF assms fresh_core_settled, of x calls m] by (simp add: settled_def)

text \<open>
  The host only touches the memory of the instance where it is. Every read and every
  write of a call lies inside the linear memory as large as it is at that moment, whatever
  addresses and lengths the instance answers.
\<close>

theorem memory_accesses_in_range:
  assumes "encodes_text c"
  shows "touches_inside (log_of (run_calls c (logged x) calls (fresh_core m)))"
  using run_calls_settled[OF assms fresh_core_settled, of x calls m] by (simp add: settled_def inside_def)

text \<open>
  An instance is used on exactly as long as its cleanup works. After any sequence of
  calls, the instance is marked as unusable if and only if some release was rejected or
  trapped; a call on an instance that is marked fails without reaching the instance.
\<close>

theorem unusable_iff_release_failed:
  assumes "encodes_text c"
  shows "(k_unusable (run_calls c (logged x) calls (fresh_core m)) = None
      \<longleftrightarrow> frees_succeed (log_of (run_calls c (logged x) calls (fresh_core m))))
    \<and> (k_unusable k \<noteq> None \<longrightarrow> snd (core_call c (logged x) operation input k) = k)"
  using run_calls_settled[OF assms fresh_core_settled, of x calls m]
  by (auto simp: settled_def usable_agrees_def core_call_def)

section \<open>A concrete instance\<close>

text \<open>An allocator that counts up in one page, and rejects every release but of the input.\<close>

definition page_exports :: "nat exports" where
  "page_exports = \<lparr>x_present = (\<lambda>_. True), x_size = (\<lambda>_. jint 65536),
     x_alloc = (\<lambda>n m. (Inr (int m + 1), m + n)), x_free = (\<lambda>p n m. (Inr (if p = 2 then 1 else 0), m)),
     x_dispatch = (\<lambda>_ _ _ _ m. (Inr 0x0000000500000400, m)),
     x_write = (\<lambda>_ _ m. m), x_read = (\<lambda>p n m. (replicate n 0, m))\<rparr>"

definition page_codec :: codec where
  "page_codec = \<lparr>c_encode = (\<lambda>_. [7]), c_decode = (\<lambda>_. Inr (JsonText (Obj [(''ok'', Bool True), (''value'', Null)])))\<rparr>"

definition page_run :: "(nat \<times> event list) core" where
  "page_run = run_calls page_codec (logged page_exports) [(Str ''hlc.tick.v1'', Obj [])] (fresh_core 0)"

lemma page_codec_encodes: "encodes_text page_codec"
  by (simp add: encodes_text_def page_codec_def)

lemma page_log: "log_of page_run = [Took 1 1, Touched 1 1 True, Took 2 1, Touched 2 1 True, Took 1024 5,
    Touched 1024 5 True, Freed 1024 5 False, Freed 2 1 True, Freed 1 1 False]"
  by code_simp

lemma buffers_released_once_witness: "freed (log_of page_run) = {#(1024, 5), (2, 1), (1, 1)#} \<and> took (log_of page_run) = freed (log_of page_run)"
  using buffers_released_once[OF page_codec_encodes] unfolding page_run_def[symmetric] by (simp add: page_log)

lemma memory_accesses_in_range_witness: "touches_inside (log_of page_run)"
  unfolding page_run_def by (rule memory_accesses_in_range[OF page_codec_encodes])

lemma unusable_iff_release_failed_witness: "k_unusable page_run \<noteq> None \<and> \<not> frees_succeed (log_of page_run)"
proof -
  have "\<not> frees_succeed (log_of page_run)" by (simp add: page_log frees_succeed_def)
  then show ?thesis
    using unusable_iff_release_failed[OF page_codec_encodes, of page_exports "[(Str ''hlc.tick.v1'', Obj [])]" 0]
    by (simp add: page_run_def)
qed

end
