(* ===== verification/Runtime.thy ===== *)
theory Runtime
  imports Effects "HOL-Library.Multiset"
begin

text \<open>
  \<open>web/app-runtime.js\<close>, which composes the browser modules: manifests and their validation,
  the installation of a module with the actions it provides, the events modules may send each
  other, and the runtime that is used once every dependency is there. Actions, handlers and
  external values are type variables; a module's \<open>create\<close> is a parameter that sees the
  externals it declared and may register listeners.
\<close>

section \<open>Timing\<close>

definition TIMING_MS :: "(string \<times> int) list" where
  "TIMING_MS = [(''defer'', 0), (''focusDefer'', 0), (''retryInitial'', 1000), (''retryMax'', 60000),
     (''remoteSyncInterval'', 15000), (''bootstrapLease'', 5 * 60000), (''timerOwnerLease'', 60000),
     (''timerOwnerHeartbeat'', 15000), (''logoutRevocation'', 10000)]"

definition timing_ms :: "string \<Rightarrow> int \<Rightarrow> int" where
  "timing_ms name fallback = (case map_of TIMING_MS name of None \<Rightarrow> fallback | Some ms \<Rightarrow> ms)"

section \<open>Manifests\<close>

record manifest =
  m_name :: string
  m_externals :: "string list"
  m_requires :: "string list"
  m_provides :: "string list"
  m_emits :: "string list"
  m_listens :: "string list"

definition text_of :: "jv \<Rightarrow> string option" where
  "text_of v = (case v of Str (c # s) \<Rightarrow> Some (c # s) | _ \<Rightarrow> None)"

definition string_list :: "jv \<Rightarrow> string list res" where
  "string_list v = (case v of
     Arr items \<Rightarrow>
       if list_ex (\<lambda>item. text_of item = None) items then Inl (TypeError ''must be a string array'')
       else let names = map (\<lambda>item. the (text_of item)) items in
         if distinct names then Inr names else Inl (TypeError ''contains duplicates'')
   | _ \<Rightarrow> Inl (TypeError ''must be a string array''))"

definition field_list :: "jv \<Rightarrow> string \<Rightarrow> string list res" where
  "field_list v k = string_list (or_else (getp v k) (Arr []))"

definition validate_manifest :: "jv \<Rightarrow> manifest res" where
  "validate_manifest v = (case text_of (getp v ''name'') of
     None \<Rightarrow> Inl (TypeError ''Browser module requires a name'')
   | Some name \<Rightarrow>
       bindr (field_list v ''externals'') (\<lambda>externals.
       bindr (field_list v ''requires'') (\<lambda>requires.
       bindr (field_list v ''provides'') (\<lambda>provides.
       bindr (field_list v ''emits'') (\<lambda>emits.
       bindr (field_list v ''listens'') (\<lambda>listens.
       Inr \<lparr>m_name = name, m_externals = externals, m_requires = requires, m_provides = provides,
         m_emits = emits, m_listens = listens\<rparr>))))))"

section \<open>Modules and the runtime\<close>

text \<open>What a property of an implementation is, and what \<open>create\<close> returns.\<close>

datatype 'f member = Function 'f | Other

datatype 'f implementation = NotObject | Members "(string \<times> 'f member) list"

text \<open>\<open>create\<close>: the listeners it registers, a handler or something else, and what it returns or throws.\<close>

record ('f, 'h, 'x) browser_module =
  b_manifest :: jv
  b_create :: "(string \<times> 'x) list \<Rightarrow> (string \<times> 'h option) list \<times> 'f implementation res"

record ('f, 'h, 'x) runtime =
  r_externals :: "(string \<times> 'x) list"
  r_actions :: "(string \<times> 'f) list"
  r_manifests :: "(string \<times> manifest) list"
  r_listeners :: "string \<Rightarrow> 'h list"

definition create_runtime :: "(string \<times> 'x) list \<Rightarrow> ('f, 'h, 'x) runtime" where
  "create_runtime externals =
     \<lparr>r_externals = externals, r_actions = [], r_manifests = [], r_listeners = (\<lambda>_. [])\<rparr>"

text \<open>\<open>dependencyCalls\<close>: a declared dependency is looked up when it is called.\<close>

definition dependency_call :: "('f, 'h, 'x) runtime \<Rightarrow> manifest \<Rightarrow> string \<Rightarrow> 'f res" where
  "dependency_call rt m name =
     (if name \<notin> set (m_requires m) then Inl (TypeError ''is not a function'')
      else case map_of (r_actions rt) name of
        None \<Rightarrow> Inl (Error ''dependency is unavailable'') | Some action \<Rightarrow> Inr action)"

definition selected_externals :: "manifest \<Rightarrow> (string \<times> 'x) list \<Rightarrow> (string \<times> 'x) list res" where
  "selected_externals m externals = mapr (\<lambda>name. case map_of externals name of
     None \<Rightarrow> Inl (Error ''external is unavailable'') | Some v \<Rightarrow> Inr (name, v)) (m_externals m)"

definition validate_implementation :: "manifest \<Rightarrow> 'f implementation \<Rightarrow> (string \<times> 'f) list res" where
  "validate_implementation m implementation = (case implementation of
     NotObject \<Rightarrow> Inl (TypeError ''must return an implementation'')
   | Members members \<Rightarrow>
       if sort (map fst members) \<noteq> sort (m_provides m)
       then Inl (Error ''implementation does not match declared provides'')
       else mapr (\<lambda>(name, member). case member of
           Function f \<Rightarrow> Inr (name, f) | Other \<Rightarrow> Inl (TypeError ''must be a function'')) members)"

section \<open>Events\<close>

fun is_finite_number :: "jv \<Rightarrow> bool" where
  "is_finite_number (Num (JInt _)) = True"
| "is_finite_number (Num (JFrac _)) = True"
| "is_finite_number _ = False"

definition event_validator :: "string \<Rightarrow> (jv \<Rightarrow> bool) option" where
  "event_validator type = (if type = ''revision-hint''
     then Some (\<lambda>v. getp v ''revision'' = Null \<or> is_finite_number (getp v ''revision'')) else None)"

definition listen :: "manifest \<Rightarrow> string \<times> 'h option \<Rightarrow> (('f, 'h, 'x) runtime, js_error, unit) eff" where
  "listen m request = (case request of (type, handler) \<Rightarrow>
     bindw (require (type \<in> set (m_listens m)) (Error ''cannot listen'')) (\<lambda>_.
     bindw (require (event_validator type \<noteq> None) (Error ''Unknown browser event'')) (\<lambda>_.
     case handler of
       None \<Rightarrow> throw (TypeError ''listener must be a function'')
     | Some h \<Rightarrow> (\<lambda>rt. (Inr (), rt\<lparr>r_listeners := (r_listeners rt)(type := r_listeners rt type @ [h])\<rparr>)))))"

text \<open>The handlers an event is delivered to, in the order of registration.\<close>

definition emit :: "('f, 'h, 'x) runtime \<Rightarrow> manifest \<Rightarrow> string \<Rightarrow> jv \<Rightarrow> 'h list res" where
  "emit rt m type payload =
     (if type \<notin> set (m_emits m) then Inl (Error ''cannot emit'')
      else case event_validator type of
        None \<Rightarrow> Inl (TypeError ''Invalid event'')
      | Some valid \<Rightarrow> if valid payload then Inr (r_listeners rt type) else Inl (TypeError ''Invalid event''))"

section \<open>Installation\<close>

definition unique_names :: "('f, 'h, 'x) runtime \<Rightarrow> manifest \<Rightarrow> unit res" where
  "unique_names rt m =
     bindr (ensure (m_name m \<notin> set (map fst (r_manifests rt))) (Error ''Duplicate browser module'')) (\<lambda>_.
     ensure (list_all (\<lambda>name. name \<notin> set (map fst (r_actions rt))) (m_provides m))
       (Error ''Duplicate browser action''))"

definition register :: "manifest \<Rightarrow> (string \<times> 'f) list \<Rightarrow> ('f, 'h, 'x) runtime \<Rightarrow> ('f, 'h, 'x) runtime" where
  "register m actions rt = rt\<lparr>r_manifests := r_manifests rt @ [(m_name m, m)], r_actions := r_actions rt @ actions\<rparr>"

definition install :: "('f, 'h, 'x) browser_module \<Rightarrow> (('f, 'h, 'x) runtime, js_error, unit) eff" where
  "install bm =
     bindw (lift (validate_manifest (b_manifest bm))) (\<lambda>m.
     bindw (\<lambda>rt. (unique_names rt m, rt)) (\<lambda>_.
     bindw (\<lambda>rt. (selected_externals m (r_externals rt), rt)) (\<lambda>externals.
     case b_create bm externals of (requests, created) \<Rightarrow>
     bindw (each (listen m) requests) (\<lambda>_.
     bindw (lift created) (\<lambda>implementation.
     bindw (lift (validate_implementation m implementation)) (\<lambda>actions.
     (\<lambda>rt. (Inr (), register m actions rt))))))))"

definition validate_dependencies :: "('f, 'h, 'x) runtime \<Rightarrow> unit res" where
  "validate_dependencies rt = ensure
     (list_all (\<lambda>(_, m). list_all (\<lambda>name. name \<in> set (map fst (r_actions rt))) (m_requires m)) (r_manifests rt))
     (Error ''dependency is unavailable'')"

definition call_action :: "('f, 'h, 'x) runtime \<Rightarrow> string \<Rightarrow> 'f res" where
  "call_action rt name = (case map_of (r_actions rt) name of
     None \<Rightarrow> Inl (Error ''Unknown browser action'') | Some action \<Rightarrow> Inr action)"

definition facade :: "('f, 'h, 'x) runtime \<Rightarrow> string list \<Rightarrow> (string \<times> 'f) list res" where
  "facade rt = mapr (\<lambda>name. bindr (call_action rt name) (\<lambda>action. Inr (name, action)))"

definition describe :: "('f, 'h, 'x) runtime \<Rightarrow> manifest list" where
  "describe rt = map snd (r_manifests rt)"

section \<open>Every action has one provider\<close>

definition provided :: "('f, 'h, 'x) runtime \<Rightarrow> string list" where
  "provided rt = concat (map (\<lambda>(_, m). m_provides m) (r_manifests rt))"

definition consistent :: "('f, 'h, 'x) runtime \<Rightarrow> bool" where
  "consistent rt \<longleftrightarrow> distinct (map fst (r_manifests rt)) \<and> distinct (map fst (r_actions rt))
   \<and> distinct (provided rt) \<and> set (map fst (r_actions rt)) = set (provided rt)"

lemma string_list_distinct: "string_list v = Inr names \<Longrightarrow> distinct names"
  by (auto simp: string_list_def Let_def split: jv.splits if_splits)

lemma validate_manifest_distinct: "validate_manifest v = Inr m \<Longrightarrow> distinct (m_provides m)"
  by (auto simp: validate_manifest_def field_list_def bindr_Inr_iff dest: string_list_distinct split: option.splits)

lemma sorted_names_same: "sort xs = sort ys \<Longrightarrow> mset xs = mset ys"
  by (metis mset_sort)

lemma validate_implementation_Inr:
  assumes "validate_implementation m implementation = Inr actions"
  shows "mset (map fst actions) = mset (m_provides m)"
proof -
  from assms obtain members where members: "implementation = Members members"
      "sort (map fst members) = sort (m_provides m)"
      "mapr (\<lambda>(name, member). case member of Function f \<Rightarrow> Inr (name, f)
         | Other \<Rightarrow> Inl (TypeError ''must be a function'')) members = Inr actions"
    by (auto simp: validate_implementation_def split: implementation.splits if_splits)
  from mapr_list_all2[OF members(3)] have "map fst actions = map fst members"
    by (induction rule: list_all2_induct) (auto split: member.splits)
  with sorted_names_same[OF members(2)] show ?thesis by simp
qed

lemma listen_frame: "listen m request rt = (r, rt') \<Longrightarrow> r_manifests rt' = r_manifests rt \<and> r_actions rt' = r_actions rt"
  by (auto simp: listen_def bindw_def require_def throw_def split: prod.splits sum.splits option.splits if_splits)

lemma each_listen_frame:
  "each (listen m) requests rt = (r, rt') \<Longrightarrow> r_manifests rt' = r_manifests rt \<and> r_actions rt' = r_actions rt"
proof (induction requests arbitrary: rt)
  case (Cons request requests)
  then show ?case by (auto elim!: bindw_cases dest!: listen_frame)
qed (simp add: ret_def)

text \<open>An installation that fails changes no module and no action; one that succeeds registers them.\<close>

lemma install_cases:
  assumes "install bm rt = (r, rt')"
  obtains (failed) e where "r = Inl e" "r_manifests rt' = r_manifests rt" "r_actions rt' = r_actions rt"
    | (installed) m actions where "r = Inr ()" "validate_manifest (b_manifest bm) = Inr m"
        "unique_names rt m = Inr ()" "mset (map fst actions) = mset (m_provides m)"
        "r_manifests rt' = r_manifests rt @ [(m_name m, m)]" "r_actions rt' = r_actions rt @ actions"
proof -
  show ?thesis
    using assms unfolding install_def case_prod_beta
    by (auto elim!: bindw_cases dest!: each_listen_frame validate_implementation_Inr simp: lift_def register_def
        simp del: mset_map intro: failed installed)
qed

lemma install_consistent:
  assumes "consistent rt" and "install bm rt = (r, rt')"
  shows "consistent rt'"
  using assms(2)
proof (cases rule: install_cases)
  case (failed e)
  then show ?thesis using assms(1) by (simp add: consistent_def provided_def)
next
  case (installed m actions)
  have d: "distinct (map fst actions)" "set (map fst actions) = set (m_provides m)"
    using installed(4) validate_manifest_distinct[OF installed(2)] by (metis mset_eq_imp_distinct_iff, metis mset_eq_setD)
  have "set (m_provides m) \<inter> set (provided rt) = {}" "m_name m \<notin> set (map fst (r_manifests rt))"
    using installed(3) assms(1) by (auto simp: unique_names_def bindr_Inr_iff ensure_Inr_iff list_all_iff consistent_def)
  then show ?thesis
    using assms(1) d installed(5,6) validate_manifest_distinct[OF installed(2)]
    by (auto simp: consistent_def provided_def)
qed

definition install_all :: "('f, 'h, 'x) browser_module list \<Rightarrow> ('f, 'h, 'x) runtime \<Rightarrow> ('f, 'h, 'x) runtime" where
  "install_all modules rt = foldl (\<lambda>rt bm. snd (install bm rt)) rt modules"

lemma install_all_consistent: "consistent rt \<Longrightarrow> consistent (install_all modules rt)"
proof (induction modules arbitrary: rt)
  case (Cons bm modules)
  have "consistent (snd (install bm rt))" by (rule install_consistent[OF Cons.prems prod.collapse[symmetric]])
  from Cons.IH[OF this] show ?case by (simp add: install_all_def)
qed (simp add: install_all_def)

lemma create_runtime_consistent: "consistent (create_runtime externals)"
  by (simp add: consistent_def create_runtime_def provided_def)

lemma install_all_frame:
  "set (r_manifests rt) \<subseteq> set (r_manifests (install_all modules rt))
   \<and> set (r_actions rt) \<subseteq> set (r_actions (install_all modules rt))"
proof (induction modules arbitrary: rt)
  case (Cons bm modules)
  obtain r rt' where i: "install bm rt = (r, rt')" by (cases "install bm rt")
  then have "set (r_manifests rt) \<subseteq> set (r_manifests rt') \<and> set (r_actions rt) \<subseteq> set (r_actions rt')"
    by (cases rule: install_cases) auto
  with Cons.IH[of rt'] i show ?case by (auto simp: install_all_def)
qed (simp add: install_all_def)

text \<open>
  Every action has exactly one provider. Whatever modules are installed in whatever
  order, and whichever of the installations fail, the actions of the runtime are exactly the
  names the installed manifests provide, and no two manifests provide the same name, nor one
  of them twice.
\<close>

theorem one_provider:
  "let rt = install_all modules (create_runtime externals) in
     set (map fst (r_actions rt)) = set (provided rt) \<and> distinct (map fst (r_actions rt)) \<and> distinct (provided rt)"
  using install_all_consistent[OF create_runtime_consistent, of modules externals]
  by (simp add: consistent_def Let_def)

text \<open>
  Once the dependencies are checked, every dependency can be called. If the check of a
  runtime succeeds, then in this runtime, and after any further installations, each dependency
  an installed manifest declares is found, and it is the action it was at the check.
\<close>

theorem dependencies_available:
  assumes "validate_dependencies rt = Inr ()" and "consistent rt"
    and "m \<in> set (describe rt)" and "name \<in> set (m_requires m)"
  shows "\<exists>action. dependency_call rt m name = Inr action
     \<and> dependency_call (install_all later rt) m name = Inr action"
proof -
  from assms(1,3,4) have "name \<in> set (map fst (r_actions rt))"
    by (auto simp: validate_dependencies_def ensure_Inr_iff list_all_iff describe_def)
  then obtain action where a: "map_of (r_actions rt) name = Some action"
    by (metis map_of_eq_None_iff list.set_map not_None_eq)
  then have "(name, action) \<in> set (r_actions (install_all later rt))"
    using install_all_frame[of rt later] map_of_SomeD by fast
  moreover have "distinct (map fst (r_actions (install_all later rt)))"
    using install_all_consistent[OF assms(2)] by (simp add: consistent_def)
  ultimately have "map_of (r_actions (install_all later rt)) name = Some action" by simp
  with a assms(4) show ?thesis by (simp add: dependency_call_def)
qed

text \<open>Two modules, one of which needs the other.\<close>

definition clock_module :: "(nat, unit, unit) browser_module" where
  "clock_module = \<lparr>b_manifest = Obj [(''name'', Str ''clock''), (''provides'', Arr [Str ''now''])],
     b_create = (\<lambda>_. ([], Inr (Members [(''now'', Function 1)])))\<rparr>"

definition view_module :: "(nat, unit, unit) browser_module" where
  "view_module = \<lparr>b_manifest = Obj [(''name'', Str ''view''), (''requires'', Arr [Str ''now'']),
       (''provides'', Arr [Str ''render''])],
     b_create = (\<lambda>_. ([], Inr (Members [(''render'', Function 2)])))\<rparr>"

definition view_manifest :: manifest where
  "view_manifest = \<lparr>m_name = ''view'', m_externals = [], m_requires = [''now''], m_provides = [''render''],
     m_emits = [], m_listens = []\<rparr>"

definition two_modules :: "(nat, unit, unit) runtime" where
  "two_modules = install_all [view_module, clock_module] (create_runtime [])"

lemma two_modules_checked: "validate_dependencies two_modules = Inr ()"
  by code_simp

lemma two_modules_actions: "r_actions two_modules = [(''render'', 2), (''now'', 1)]" "describe two_modules ! 0 = view_manifest"
  "length (describe two_modules) = 2"
  by code_simp+

lemma dependencies_available_witness: "dependency_call two_modules view_manifest ''now'' = Inr 1"
proof -
  have "consistent two_modules"
    unfolding two_modules_def by (rule install_all_consistent[OF create_runtime_consistent])
  moreover have "view_manifest \<in> set (describe two_modules)"
    using nth_mem[of 0 "describe two_modules"] two_modules_actions by simp
  ultimately obtain action where "dependency_call two_modules view_manifest ''now'' = Inr action"
    using dependencies_available[OF two_modules_checked, of view_manifest "''now''" "[]"] by (auto simp: view_manifest_def)
  then show ?thesis by (simp add: dependency_call_def two_modules_actions view_manifest_def)
qed

end
