(* ===== verification/I18n.thy ===== *)
theory I18n
  imports JsValue
begin

text \<open>
  \<open>web/i18n.js\<close>: the scanning of placeholders, the validation of a translation against the
  base catalog, the choice of a locale, and the lookup and formatting of a message. The plural
  category of a count and the download of a catalog are parameters. A message's values are
  texts and integers, as the client passes them; a catalog is a parsed JSON object.
\<close>

section \<open>Placeholders\<close>

datatype piece = Lit char | Hole string

definition letter :: "char \<Rightarrow> bool" where
  "letter c \<longleftrightarrow> c \<in> set ''ABCDEFGHIJKLMNOPQRSTUVWXYZabcdefghijklmnopqrstuvwxyz''"

definition name_char :: "char \<Rightarrow> bool" where
  "name_char c \<longleftrightarrow> letter c \<or> is_digit c \<or> c = CHR ''_''"

text \<open>What follows an opening brace, if it is a name and a closing brace.\<close>

definition hole :: "string \<Rightarrow> (string \<times> string) option" where
  "hole s = (let name = takeWhile name_char s in
     case (name, dropWhile name_char s) of
       (c # _, d # rest) \<Rightarrow> if letter c \<and> d = CHR 0x7D then Some (name, rest) else None
     | _ \<Rightarrow> None)"

lemma hole_length: "hole s = Some (name, rest) \<Longrightarrow> length rest < length s"
proof -
  assume "hole s = Some (name, rest)"
  then have "dropWhile name_char s = CHR 0x7D # rest"
    by (auto simp: hole_def Let_def split: list.splits if_splits)
  then show ?thesis using length_dropWhile_le[of name_char s] by simp
qed

lemma hole_text: "hole s = Some (name, rest) \<Longrightarrow> s = name @ CHR 0x7D # rest"
  by (auto simp: hole_def Let_def split: list.splits if_splits)
     (metis takeWhile_dropWhile_id)+

text \<open>The matches of the pattern from left to right, with the text between them.\<close>

function pieces :: "string \<Rightarrow> piece list" where
  "pieces [] = []"
| "pieces (c # s) = (if c = CHR 0x7B then (case hole s of
       Some (name, rest) \<Rightarrow> Hole name # pieces rest
     | None \<Rightarrow> Lit c # pieces s)
     else Lit c # pieces s)"
  by pat_completeness auto
termination by (relation "measure length") (auto dest: hole_length)

fun holes :: "piece list \<Rightarrow> string list" where
  "holes [] = []"
| "holes (Hole name # ps) = name # holes ps"
| "holes (Lit _ # ps) = holes ps"

definition placeholders :: "string \<Rightarrow> string list" where
  "placeholders message = sort (holes (pieces message))"

section \<open>Formatting\<close>

datatype arg = Text string | Count int

function nat_text :: "nat \<Rightarrow> string" where
  "nat_text n = (if n < 10 then [''0123456789'' ! n] else nat_text (n div 10) @ [''0123456789'' ! (n mod 10)])"
  by auto
termination by (relation "measure id") auto

declare nat_text.simps [simp del]

definition int_text :: "int \<Rightarrow> string" where
  "int_text i = (if i < 0 then CHR ''-'' # nat_text (nat (- i)) else nat_text (nat i))"

fun arg_text :: "arg \<Rightarrow> string" where
  "arg_text (Text s) = s"
| "arg_text (Count i) = int_text i"

type_synonym args = "(string \<times> arg) list"

fun piece_text :: "args \<Rightarrow> piece \<Rightarrow> string" where
  "piece_text values (Lit c) = [c]"
| "piece_text values (Hole name) = (case map_of values name of
     Some v \<Rightarrow> arg_text v | None \<Rightarrow> CHR 0x7B # name @ [CHR 0x7D])"

definition format_message :: "string \<Rightarrow> args \<Rightarrow> string" where
  "format_message message values = concat (map (piece_text values) (pieces message))"

section \<open>Validation of catalogs\<close>

datatype catalog_error =
    MissingBase
  | InvalidMeta string
  | MissingKey string string
  | TypeDiffers string string
  | MissingBranch string string string
  | PlaceholderMismatch string string string "string list"
  | UnexpectedBranch string string string
  | UnexpectedKey string string

text \<open>A text of a catalog; the text of a JSON value, which no catalog holds, is not one.\<close>

definition is_message :: "jv \<Rightarrow> bool" where
  "is_message v = (case v of Str _ \<Rightarrow> True | _ \<Rightarrow> False)"

lemma is_messageE: "is_message v \<Longrightarrow> (\<And>s. v = Str s \<Longrightarrow> P) \<Longrightarrow> P"
  by (cases v) (auto simp: is_message_def)

definition message_branches :: "jv \<Rightarrow> jv" where
  "message_branches message = (if is_message message then Obj [(''value'', message)] else message)"

definition message_placeholders :: "jv \<Rightarrow> string list" where
  "message_placeholders message = (case message of Str s \<Rightarrow> placeholders s | _ \<Rightarrow> [])"

definition message_keys :: "jv \<Rightarrow> string list" where
  "message_keys catalog = sort (filter (\<lambda>k. k \<noteq> ''$meta'') (obj_keys catalog))"

definition valid_meta :: "string \<Rightarrow> jv \<Rightarrow> bool" where
  "valid_meta locale catalog \<longleftrightarrow> (let meta = getp catalog ''$meta'' in
     truthy meta \<and> getp meta ''locale'' = Str locale \<and> getp meta ''dir'' \<in> {Str ''ltr'', Str ''rtl''})"

definition branch_errors :: "string \<Rightarrow> string \<Rightarrow> jv \<Rightarrow> jv \<Rightarrow> string \<Rightarrow> catalog_error list" where
  "branch_errors locale key base translated branch =
     (if \<not> is_message (getp translated branch) then [MissingBranch locale key branch]
      else let expected = message_placeholders (getp base branch) in
        if expected \<noteq> message_placeholders (getp translated branch)
        then [PlaceholderMismatch locale key branch expected] else [])"

definition key_errors :: "string \<Rightarrow> jv \<Rightarrow> jv \<Rightarrow> string \<Rightarrow> catalog_error list" where
  "key_errors locale base catalog key =
     (if key \<notin> set (message_keys catalog) then [MissingKey locale key]
      else if is_message (getp base key) \<noteq> is_message (getp catalog key) then [TypeDiffers locale key]
      else let b = message_branches (getp base key); t = message_branches (getp catalog key) in
        concat (map (branch_errors locale key b t) (obj_keys b))
        @ map (UnexpectedBranch locale key) (filter (\<lambda>branch. branch \<notin> set (obj_keys b)) (obj_keys t)))"

definition catalog_errors :: "jv \<Rightarrow> string \<times> jv \<Rightarrow> catalog_error list" where
  "catalog_errors base entry = (case entry of (locale, catalog) \<Rightarrow>
     if \<not> valid_meta locale catalog then [InvalidMeta locale]
     else concat (map (key_errors locale base catalog) (message_keys base))
       @ map (UnexpectedKey locale) (filter (\<lambda>key. key \<notin> set (message_keys base)) (message_keys catalog)))"

definition validate_catalogs :: "(string \<times> jv) list \<Rightarrow> string \<Rightarrow> catalog_error list" where
  "validate_catalogs catalogs base_locale = (case map_of catalogs base_locale of
     None \<Rightarrow> [MissingBase]
   | Some base \<Rightarrow> if plain_object base then concat (map (catalog_errors base) catalogs) else [MissingBase])"

section \<open>Locales\<close>

fun replace_underscore :: "string \<Rightarrow> string" where
  "replace_underscore [] = []"
| "replace_underscore (c # s) = (if c = CHR ''_'' then CHR ''-'' # s else c # replace_underscore s)"

definition language_of :: "string \<Rightarrow> string" where
  "language_of locale = lower (takeWhile (\<lambda>c. c \<noteq> CHR ''-'') locale)"

definition match_locale :: "string list \<Rightarrow> string \<Rightarrow> string option" where
  "match_locale supported locale =
     (case find (\<lambda>candidate. lower candidate = lower locale) supported of
        Some exact \<Rightarrow> Some exact
      | None \<Rightarrow> find (\<lambda>candidate. lower candidate = language_of locale) supported)"

fun first_match :: "string list \<Rightarrow> string list \<Rightarrow> string option" where
  "first_match supported [] = None"
| "first_match supported (locale # locales) = (case match_locale supported locale of
     Some found \<Rightarrow> Some found | None \<Rightarrow> first_match supported locales)"

definition DEFAULT_LOCALE :: string where
  "DEFAULT_LOCALE = ''en''"

definition SUPPORTED_LOCALES :: "string list" where
  "SUPPORTED_LOCALES = [''en'', ''ar-XB'']"

text \<open>The requested locales are those that are given: \<open>null\<close> and the empty string are dropped.\<close>

definition resolve_locale :: "string option list \<Rightarrow> string list \<Rightarrow> string option" where
  "resolve_locale requested supported =
     (let given = filter (\<lambda>s. s \<noteq> []) (map (\<lambda>r. case r of None \<Rightarrow> [] | Some s \<Rightarrow> s) requested) in
     case first_match supported (map replace_underscore given) of
       Some found \<Rightarrow> Some found
     | None \<Rightarrow> if DEFAULT_LOCALE \<in> set supported then Some DEFAULT_LOCALE
       else (case supported of [] \<Rightarrow> None | s # _ \<Rightarrow> Some s))"

section \<open>Translation\<close>

text \<open>The category of a count in a locale, as \<open>Intl.PluralRules\<close> gives it.\<close>

type_synonym plural_rules = "string \<Rightarrow> int \<Rightarrow> string"

definition catalog_entry :: "(string \<times> jv) list \<Rightarrow> string \<Rightarrow> string \<Rightarrow> jv" where
  "catalog_entry catalogs locale key = (case map_of catalogs locale of None \<Rightarrow> Undef | Some c \<Rightarrow> getp c key)"

definition plural_category :: "plural_rules \<Rightarrow> string \<Rightarrow> args \<Rightarrow> string" where
  "plural_category plural locale values = (case map_of values ''count'' of
     Some (Count n) \<Rightarrow> plural (if locale = ''ar-XB'' then ''ar'' else locale) n
   | _ \<Rightarrow> ''other'')"

definition message_text :: "jv \<Rightarrow> string" where
  "message_text v = (case v of Str s \<Rightarrow> s | _ \<Rightarrow> ''undefined'')"

definition translate :: "plural_rules \<Rightarrow> (string \<times> jv) list \<Rightarrow> string \<Rightarrow> string \<Rightarrow> args \<Rightarrow> string" where
  "translate plural catalogs locale key values =
     (let candidate = coalesce (catalog_entry catalogs locale key) (catalog_entry catalogs DEFAULT_LOCALE key) in
     if nullish candidate then key
     else let message = (if plain_object candidate
         then coalesce (getp candidate (plural_category plural locale values)) (getp candidate ''other'')
         else candidate)
       in format_message (message_text message) values)"

text \<open>What \<open>setLocale\<close> leaves: the active locale and the document's language and direction.\<close>

record locale_state =
  l_active :: string
  l_lang :: string
  l_dir :: jv

definition set_locale :: "(string \<times> jv) list \<Rightarrow> string option \<Rightarrow> locale_state res" where
  "set_locale catalogs next = (case resolve_locale [next] (map fst catalogs) of
     None \<Rightarrow> Inl (TypeError ''Cannot read properties of undefined'')
   | Some active \<Rightarrow>
       bindr (dot (or_else (catalog_entry catalogs active ''$meta'') (catalog_entry catalogs DEFAULT_LOCALE ''$meta''))
         ''dir'') (\<lambda>dir. Inr \<lparr>l_active = active, l_lang = active, l_dir = dir\<rparr>))"

text \<open>
  \<open>loadBrowserI18n\<close>: the base catalog must load; the selected one falls back to it. The
  result is the pair of catalogs and the active locale, if the catalogs agree.
\<close>

definition selected_catalog :: "(string \<Rightarrow> jv res) \<Rightarrow> string \<Rightarrow> jv \<Rightarrow> string \<times> jv" where
  "selected_catalog load locale english =
     (if locale = DEFAULT_LOCALE then (DEFAULT_LOCALE, english)
      else case load locale of Inl _ \<Rightarrow> (DEFAULT_LOCALE, english) | Inr catalog \<Rightarrow> (locale, catalog))"

definition load_catalogs :: "(string \<Rightarrow> jv res) \<Rightarrow> string option list \<Rightarrow> ((string \<times> jv) list \<times> string) res" where
  "load_catalogs load requested = (case resolve_locale requested SUPPORTED_LOCALES of
     None \<Rightarrow> Inl (TypeError ''Cannot read properties of undefined'')
   | Some locale \<Rightarrow>
       bindr (load DEFAULT_LOCALE) (\<lambda>english.
       let (name, catalog) = selected_catalog load locale english;
           catalogs = (if name = DEFAULT_LOCALE then [(name, catalog)] else [(DEFAULT_LOCALE, english), (name, catalog)]) in
       bindr (ensure (validate_catalogs catalogs DEFAULT_LOCALE = []) (Error ''Invalid locale catalog'')) (\<lambda>_.
       Inr (catalogs, name))))"

text \<open>\<open>applyDocument\<close>: the texts, labels and placeholders of the elements that carry a key, in the locale it sets.\<close>

record document_texts =
  d_locale :: locale_state
  d_texts :: "string list"
  d_labels :: "string list"
  d_placeholders :: "string list"

definition apply_document ::
  "plural_rules \<Rightarrow> (string \<times> jv) list \<Rightarrow> string \<Rightarrow> string list \<Rightarrow> string list \<Rightarrow> string list \<Rightarrow> document_texts res" where
  "apply_document plural catalogs active text_keys label_keys hint_keys =
     bindr (set_locale catalogs (Some active)) (\<lambda>locale.
     let t = (\<lambda>key. translate plural catalogs (l_active locale) key []) in
     Inr \<lparr>d_locale = locale, d_texts = map t text_keys, d_labels = map t label_keys, d_placeholders = map t hint_keys\<rparr>)"

section \<open>Properties\<close>

lemma concat_pieces: "concat (map (piece_text []) (pieces s)) = s"
  by (induction s rule: pieces.induct) (auto split: option.splits dest: hole_text)

text \<open>
  Scanning a message for placeholders loses nothing. Formatting it with no values gives
  the message back, whatever braces, names and lone delimiters it contains.
\<close>

theorem format_without_values: "format_message message [] = message"
  by (simp add: format_message_def concat_pieces)

text \<open>The placeholders of a message that a call gives no value for.\<close>

definition unfilled :: "args \<Rightarrow> string \<Rightarrow> string set" where
  "unfilled values message = set (placeholders message) - set (map fst values)"

lemma branch_errors_Nil:
  assumes "branch_errors locale key (message_branches (Str b)) (message_branches (Str t)) ''value'' = []"
  shows "placeholders b = placeholders t"
  using assms by (simp add: branch_errors_def message_branches_def is_message_def Let_def message_placeholders_def split: if_splits)

text \<open>
  A validated translation asks for exactly the values the base message asks for. If the
  catalogs are valid, then for every text message of the base catalog, every locale has a text
  with the same placeholders, so a call that fills the base message leaves no placeholder
  open in any locale.
\<close>

theorem validated_translation_fills:
  assumes "validate_catalogs catalogs base_locale = []" and "map_of catalogs base_locale = Some base"
    and "(locale, catalog) \<in> set catalogs" and "getp base key = Str message" and "key \<noteq> ''$meta''"
  shows "\<exists>translated. getp catalog key = Str translated \<and> unfilled values translated = unfilled values message"
proof -
  from assms(1,2) have "plain_object base" and none: "catalog_errors base (locale, catalog) = []"
    using assms(3) by (auto simp: validate_catalogs_def split: if_splits)
  then obtain ob where ob: "base = Obj ob" by (cases base) auto
  have "key \<in> set (message_keys base)"
    using assms(4,5) by (auto simp: ob message_keys_def obj_keys_def fld_def split: option.splits dest: map_of_SomeD intro: rev_image_eqI)
  then have none: "key_errors locale base catalog key = []"
    using none by (auto simp: catalog_errors_def split: if_splits)
  then have "is_message (getp catalog key)"
    using assms(4) by (auto simp: key_errors_def is_message_def split: if_splits)
  then obtain translated where t: "getp catalog key = Str translated" by (rule is_messageE)
  from none have "branch_errors locale key (message_branches (Str message)) (message_branches (Str translated)) ''value'' = []"
    using assms(4) t
    by (auto simp: key_errors_def message_branches_def obj_keys_def is_message_def Let_def split: if_splits)
  from branch_errors_Nil[OF this] show ?thesis using t by (auto simp: unfilled_def)
qed

lemma match_locale_supported: "match_locale supported locale = Some found \<Longrightarrow> found \<in> set supported"
  by (auto simp: match_locale_def find_Some_iff split: option.splits)

lemma first_match_supported: "first_match supported locales = Some found \<Longrightarrow> found \<in> set supported"
  by (induction locales) (auto split: option.splits dest: match_locale_supported)

lemma find_lower:
  assumes "distinct (map lower supported)" and "locale \<in> set supported"
  shows "find (\<lambda>candidate. lower candidate = lower locale) supported = Some locale"
  using assms by (induction supported) (auto simp: rev_image_eqI)

text \<open>
  A supported locale is always found. Whatever is requested, the result is a supported
  locale; and if the first request is a supported one, in whatever case and with an underscore
  for its hyphen, then it is that one, as long as the supported locales differ in more than
  case.
\<close>

theorem resolve_locale_supported:
  assumes "supported \<noteq> []" and "distinct (map lower supported)"
  shows "(\<exists>found \<in> set supported. resolve_locale requested supported = Some found)
    \<and> (\<forall>locale \<in> set supported. \<forall>wanted. wanted \<noteq> [] \<and> lower (replace_underscore wanted) = lower locale \<longrightarrow>
         resolve_locale (Some wanted # requested) supported = Some locale)"
proof (intro conjI ballI allI impI)
  show "\<exists>found \<in> set supported. resolve_locale requested supported = Some found"
    using assms(1) by (auto simp: resolve_locale_def Let_def dest: first_match_supported split: option.splits list.splits)
next
  fix l wanted
  assume "l \<in> set supported" "wanted \<noteq> [] \<and> lower (replace_underscore wanted) = lower l"
  then show "resolve_locale (Some wanted # requested) supported = Some l"
    using find_lower[OF assms(2)] by (simp add: resolve_locale_def Let_def match_locale_def)
qed

text \<open>
  The client starts only with catalogs that agree. If the loading of the catalogs
  succeeds, then they are valid, the base catalog is among them, and the locale it activates
  is one of theirs: the wanted one, or the base one if the wanted one could not be loaded.
\<close>

theorem loaded_catalogs_valid:
  assumes "load_catalogs load requested = Inr (catalogs, locale)"
  shows "validate_catalogs catalogs DEFAULT_LOCALE = [] \<and> DEFAULT_LOCALE \<in> set (map fst catalogs)
    \<and> locale \<in> set (map fst catalogs) \<and> load locale = Inr (the (map_of catalogs locale))
    \<and> (locale = DEFAULT_LOCALE \<or> resolve_locale requested SUPPORTED_LOCALES = Some locale)"
  using assms
  by (auto simp: load_catalogs_def selected_catalog_def bindr_Inr_iff ensure_Inr_iff Let_def
      split: option.splits if_splits sum.splits)

section \<open>Two catalogs\<close>

definition english_catalog :: jv where
  "english_catalog = Obj [(''$meta'', Obj [(''locale'', Str ''en''), (''dir'', Str ''ltr'')]),
     (''greeting'', Str ''Hello {name}'')]"

definition mirrored_catalog :: jv where
  "mirrored_catalog = Obj [(''$meta'', Obj [(''locale'', Str ''ar-XB''), (''dir'', Str ''rtl'')]),
     (''greeting'', Str ''{name}, olleH'')]"

definition sample_load :: "string \<Rightarrow> jv res" where
  "sample_load locale = Inr (if locale = ''en'' then english_catalog else mirrored_catalog)"

lemma sample_catalogs_valid: "validate_catalogs [(''en'', english_catalog), (''ar-XB'', mirrored_catalog)] ''en'' = []"
  by code_simp

lemma sample_catalogs_load: "load_catalogs sample_load [None, Some ''AR_xb'']
    = Inr ([(''en'', english_catalog), (''ar-XB'', mirrored_catalog)], ''ar-XB'')"
  by code_simp

lemma validated_translation_fills_witness:
  "unfilled [(''name'', Text ''Ada'')] ''{name}, olleH'' = unfilled [(''name'', Text ''Ada'')] ''Hello {name}''"
proof -
  have "map_of [(''en'', english_catalog), (''ar-XB'', mirrored_catalog)] ''en'' = Some english_catalog"
    "(''ar-XB'', mirrored_catalog) \<in> set [(''en'', english_catalog), (''ar-XB'', mirrored_catalog)]"
    "getp english_catalog ''greeting'' = Str ''Hello {name}''" "''greeting'' \<noteq> ''$meta''"
    by (simp_all add: english_catalog_def)
  from validated_translation_fills[OF sample_catalogs_valid this, of "[(''name'', Text ''Ada'')]"]
  show ?thesis by (simp add: mirrored_catalog_def)
qed

lemma resolve_locale_supported_witness: "resolve_locale [Some ''AR_xb'', Some ''fr''] SUPPORTED_LOCALES = Some ''ar-XB''"
proof -
  have "SUPPORTED_LOCALES \<noteq> []" "distinct (map lower SUPPORTED_LOCALES)" "''ar-XB'' \<in> set SUPPORTED_LOCALES"
      "''AR_xb'' \<noteq> []" "lower (replace_underscore ''AR_xb'') = lower ''ar-XB''"
    by code_simp+
  then show ?thesis using resolve_locale_supported[of SUPPORTED_LOCALES "[Some ''fr'']"] by blast
qed

lemma loaded_catalogs_valid_witness:
  "resolve_locale [None, Some ''AR_xb''] SUPPORTED_LOCALES = Some ''ar-XB'' \<and> sample_load ''ar-XB'' = Inr mirrored_catalog"
  using loaded_catalogs_valid[OF sample_catalogs_load] by (simp add: DEFAULT_LOCALE_def)

end
