(* ===== verification/AppState.thy ===== *)
theory AppState
  imports StorageGate I18n Effects
begin

text \<open>
  \<open>web/account-operation.js\<close> and \<open>web/app-state.js\<close>: the state one tab keeps in memory, the
  part of it that belongs to the local owner, its quarantine while the account is in doubt,
  the projection of the owner's work by the Core, and the contexts that bind an operation to
  the account and the connection it was started for. The tab's state is an object; the open
  connection, the browser's storage and clock are fields of the application record.
\<close>

section \<open>Values\<close>

definition clone_value :: "jv \<Rightarrow> jv" where
  "clone_value v = (if nullish v then v else json_clone v)"

definition empty_timer_value :: "jv \<Rightarrow> jv \<Rightarrow> jv" where
  "empty_timer_value phase planned = Obj
     [(''id'', Null), (''phase'', phase), (''status'', Str ''idle''), (''plannedDurationMs'', planned),
      (''elapsedAtAnchorMs'', jint 0), (''anchorAt'', Null), (''lastIntent'', Null), (''taskId'', Null),
      (''dependsOnCommandId'', Null)]"

definition positive_number :: "jv \<Rightarrow> jv \<Rightarrow> jv" where
  "positive_number v fallback = (case to_number v of
     JInt i \<Rightarrow> if 0 < i then jint i else fallback
   | JFrac q \<Rightarrow> if 0 < q then Num (JFrac q) else fallback
   | _ \<Rightarrow> fallback)"

definition clamp_number :: "jv \<Rightarrow> jnum \<Rightarrow> jnum \<Rightarrow> jnum" where
  "clamp_number v minimum maximum = (let n = to_number v in case n of
     JNaN \<Rightarrow> minimum
   | JInf _ \<Rightarrow> minimum
   | _ \<Rightarrow> let raised = (if num_less n minimum then minimum else n) in
       if num_less maximum raised then maximum else raised)"

text \<open>
  \<open>tabID(host)\<close>: reading and writing the session's storage may throw; then the identifier
  lives as long as the page. The second identifier is drawn only if the first was not kept.
\<close>

definition tab_id :: "jv res \<Rightarrow> unit res \<Rightarrow> string \<Rightarrow> string \<Rightarrow> jv" where
  "tab_id stored saved created retried = (case stored of
     Inl _ \<Rightarrow> Str created
   | Inr existing \<Rightarrow> if truthy existing then existing
       else (case saved of Inr _ \<Rightarrow> Str created | Inl _ \<Rightarrow> Str retried))"

section \<open>The state of a tab\<close>

definition initial_ownership_state :: obj where
  "initial_ownership_state =
     [(''revision'', jint 0), (''selectedPhase'', Str ''focus''), (''baseSelectedTaskId'', Null),
      (''selectedTaskId'', Null), (''baseAutoStartBreaks'', Bool False), (''autoStartBreaks'', Bool False),
      (''baseDurationsMs'', DEFAULT_DURATIONS), (''durationsMs'', DEFAULT_DURATIONS),
      (''baseTimer'', empty_timer_value (Str ''focus'') (jint 1500000)),
      (''timer'', empty_timer_value (Str ''focus'') (jint 1500000)),
      (''baseHistory'', Arr []), (''history'', Arr []), (''baseTasks'', Arr []), (''tasks'', Arr []),
      (''pending'', Arr []), (''pendingTaskOperations'', Arr []), (''pendingDurationOperations'', Arr []),
      (''pendingAutoStartOperations'', Arr []), (''pendingSelectedTaskOperations'', Arr []),
      (''deliveryProof'', Null), (''canonicalHead'', Null), (''projectionPending'', Null), (''outgoingSync'', Null),
      (''timerDependencies'', Null), (''workspaceObservation'', Null), (''workspaceBlocked'', Bool False),
      (''readModel'', Null), (''completionState'', Null)]"

definition initial_bootstrap_state :: obj where
  "initial_bootstrap_state =
     [(''bootstrapBlocked'', Bool True), (''bootstrapPreview'', Null), (''bootstrapPlan'', Null),
      (''bootstrapOwnershipConfirmation'', Bool False), (''bootstrapOwnershipApproved'', Bool False),
      (''bootstrapStrategy'', Null), (''bootstrapPending'', Null), (''bootstrapSubmitting'', Bool False),
      (''bootstrapConflict'', Bool False), (''bootstrapError'', Null), (''bootstrapLimitError'', Null),
      (''bootstrapSignOutError'', Null), (''bootstrapGatePersisted'', Bool False),
      (''bootstrapGateOwned'', Bool False), (''bootstrapFocusTarget'', Null)]"

definition create_state :: "jv \<Rightarrow> obj" where
  "create_state tab =
     [(''ready'', Bool False), (''authenticated'', Bool False), (''sessionIdentityValidated'', Bool False),
      (''logoutRecoveryRequired'', Bool False), (''logoutRecoveryBusy'', Bool False),
      (''offlineOwnerMode'', Bool False), (''user'', Null), (''csrfToken'', Null), (''deviceId'', Null),
      (''deviceSequence'', jint 0), (''hlcWallMs'', jint 0), (''hlcCounter'', jint 0), (''clockOffset'', Null),
      (''activeScreen'', Str ''timer''), (''syncing'', Bool False), (''retrying'', Bool False), (''conflict'', Null),
      (''savedClaimRecovery'', Null), (''durationSyncBootstrapped'', Bool False),
      (''autoStartSyncBootstrapped'', Bool False), (''selectedTaskSyncBootstrapped'', Bool False),
      (''actionLocked'', Bool False), (''coreCapabilities'', Null), (''tabId'', tab)]
     @ initial_ownership_state @ [(''localOwnerId'', Null), (''quarantinedLocal'', Null)] @ initial_bootstrap_state"

text \<open>The part of the state that belongs to the owner, and whether it is stored as a copy.\<close>

definition OWNER_FIELDS :: "(string \<times> bool) list" where
  "OWNER_FIELDS =
     [(''revision'', False), (''selectedPhase'', False), (''baseSelectedTaskId'', False), (''selectedTaskId'', False),
      (''baseAutoStartBreaks'', False), (''autoStartBreaks'', False), (''baseDurationsMs'', True), (''durationsMs'', True),
      (''baseTimer'', True), (''timer'', True), (''baseHistory'', True), (''history'', True), (''baseTasks'', True),
      (''tasks'', True), (''pending'', True), (''pendingTaskOperations'', True), (''pendingDurationOperations'', True),
      (''pendingAutoStartOperations'', True), (''pendingSelectedTaskOperations'', True), (''user'', True),
      (''deliveryProof'', True), (''canonicalHead'', True), (''projectionPending'', True), (''outgoingSync'', True),
      (''timerDependencies'', True), (''workspaceObservation'', True), (''workspaceBlocked'', False),
      (''completionState'', True)]"

definition owner_state_value :: "obj \<Rightarrow> obj" where
  "owner_state_value state =
     map (\<lambda>(k, copied). (k, if copied then clone_value (fld state k) else fld state k)) OWNER_FIELDS"

text \<open>\<open>Object.assign(this.state, fields)\<close>\<close>

definition assign :: "obj \<Rightarrow> obj \<Rightarrow> obj" where
  "assign state news = spread state news"

definition reset_owner_state :: "obj \<Rightarrow> obj" where
  "reset_owner_state state = assign state initial_ownership_state"

definition restore_owner_state :: "jv \<Rightarrow> obj \<Rightarrow> obj" where
  "restore_owner_state saved state = foldl (\<lambda>s (k, _). obj_put k (getp saved k) s) state OWNER_FIELDS"

definition quarantine_owner_state :: "bool \<Rightarrow> obj \<Rightarrow> obj" where
  "quarantine_owner_state preserve_user state =
     (let user = (if preserve_user then fld state ''user'' else Null);
          state = (if truthy (fld state ''quarantinedLocal'') then state
            else obj_put ''quarantinedLocal'' (Obj (owner_state_value state)) state);
          state = reset_owner_state state
      in if truthy user then obj_put ''user'' user state else state)"

text \<open>What a mismatch makes other modules do.\<close>

datatype effect = StopCompletionAlert | QueueSessionRevalidation

definition quarantine_account_mismatch :: "obj \<Rightarrow> obj \<times> effect list" where
  "quarantine_account_mismatch state =
     (quarantine_owner_state True (assign state
        [(''bootstrapBlocked'', Bool True), (''sessionIdentityValidated'', Bool False),
         (''offlineOwnerMode'', Bool False), (''bootstrapGateOwned'', Bool False)]),
      [StopCompletionAlert, QueueSessionRevalidation])"

section \<open>Accounts\<close>

definition state_owner :: "obj \<Rightarrow> jv res" where
  "state_owner state = bindr (account_owner_id (fld state ''user'')) (\<lambda>owner.
     Inr (or_else (or_else owner (fld state ''localOwnerId'')) Null))"

definition needs_bootstrap :: "obj \<Rightarrow> bool res" where
  "needs_bootstrap state = bindr (account_owner_id (fld state ''user'')) (\<lambda>owner.
     Inr (requires_bootstrap_resolution
       [(''blocked'', fld state ''bootstrapBlocked''), (''persistedGate'', fld state ''bootstrapGatePersisted''),
        (''pending'', fld state ''bootstrapPending''), (''currentUserId'', owner),
        (''localOwnerId'', fld state ''localOwnerId'')]))"

definition controls_blocked :: "obj \<Rightarrow> bool res" where
  "controls_blocked state =
     (if \<not> truthy (fld state ''ready'') \<or> truthy (fld state ''logoutRecoveryRequired'') then Inr True
      else needs_bootstrap state)"

definition assert_expected_account :: "jv \<Rightarrow> obj \<Rightarrow> unit res \<times> obj \<times> effect list" where
  "assert_expected_account expected state = (case state_owner state of
     Inl e \<Rightarrow> (Inl e, state, [])
   | Inr owner \<Rightarrow> if strict_eq owner expected then (Inr (), state, [])
       else (case quarantine_account_mismatch state of
         (state', effects) \<Rightarrow> (Inl account_error, state', effects)))"

section \<open>Contexts\<close>

text \<open>
  What a context depends on: the state, the open connection, and the two items of the local
  storage that mark a logout in progress, as their text (or that they cannot be read).
\<close>

record app =
  a_state :: obj
  a_database :: nat
  a_logout :: "(jv \<times> jv) option"

definition logout_marker :: "app \<Rightarrow> jv" where
  "logout_marker app = (case a_logout app of
     None \<Rightarrow> Str ''unavailable'' | Some (flag, owner) \<Rightarrow> json_stringify (Arr [flag, owner]))"

record identity =
  i_owner :: jv
  i_local :: jv
  i_marker :: jv

definition account_identity :: "app \<Rightarrow> identity res" where
  "account_identity app = bindr (state_owner (a_state app)) (\<lambda>owner.
     Inr \<lparr>i_owner = owner, i_local = fld (a_state app) ''localOwnerId'', i_marker = logout_marker app\<rparr>)"

definition identity_current :: "app \<Rightarrow> identity \<Rightarrow> unit res" where
  "identity_current app i = bindr (state_owner (a_state app)) (\<lambda>owner.
     ensure (strict_eq owner (i_owner i) \<and> strict_eq (fld (a_state app) ''localOwnerId'') (i_local i)
       \<and> strict_eq (logout_marker app) (i_marker i)) account_error)"

record op_context =
  o_database :: nat
  o_identity :: identity

definition bind_context :: "app \<Rightarrow> identity \<Rightarrow> op_context" where
  "bind_context app i = \<lparr>o_database = a_database app, o_identity = i\<rparr>"

definition capture_account_context :: "app \<Rightarrow> op_context res" where
  "capture_account_context app = bindr (account_identity app) (\<lambda>i. Inr (bind_context app i))"

definition assert_connection :: "app \<Rightarrow> op_context \<Rightarrow> unit res" where
  "assert_connection app c = ensure (a_database app = o_database c) account_error"

definition assert_current :: "app \<Rightarrow> op_context \<Rightarrow> unit res" where
  "assert_current app c = bindr (assert_connection app c) (\<lambda>_. identity_current app (o_identity c))"

text \<open>\<open>requireBound\<close>: \<open>None\<close> is anything that \<open>bind\<close> has not made.\<close>

definition require_bound :: "app \<Rightarrow> op_context option \<Rightarrow> op_context res" where
  "require_bound app c = (case c of
     None \<Rightarrow> Inl (TypeError ''A bound account operation context is required.'')
   | Some c \<Rightarrow> bindr (assert_current app c) (\<lambda>_. Inr c))"

definition is_current :: "app \<Rightarrow> op_context option \<Rightarrow> bool res" where
  "is_current app c = (case require_bound app c of
     Inr _ \<Rightarrow> Inr True
   | Inl (AccountOwnershipError _) \<Rightarrow> Inr False
   | Inl e \<Rightarrow> Inl e)"

text \<open>
  \<open>publishIdentity(publish)\<close>: the result is the context as it is left, and the one that is
  returned. After a handoff to another owner the old context keeps its old identity.
\<close>

definition next_context :: "app \<Rightarrow> op_context \<Rightarrow> (op_context \<times> op_context) res" where
  "next_context app c =
     bindr (assert_connection app c) (\<lambda>_.
     bindr (account_identity app) (\<lambda>next.
     if truthy (i_owner (o_identity c)) \<and> \<not> strict_eq (i_owner next) (i_owner (o_identity c))
     then Inr (c, bind_context app next)
     else let c' = c\<lparr>o_identity := next\<rparr> in
       bindr (assert_current app c') (\<lambda>_. Inr (c', c'))))"

definition publish_identity ::
  "(app \<Rightarrow> unit res \<times> app) \<Rightarrow> op_context \<Rightarrow> app \<Rightarrow> (op_context \<times> op_context) res \<times> app" where
  "publish_identity publish c app = (case assert_current app c of
     Inl e \<Rightarrow> (Inl e, app)
   | Inr _ \<Rightarrow> (case publish app of
       (Inl e, app') \<Rightarrow> (Inl e, app')
     | (Inr _, app') \<Rightarrow> (next_context app' c, app')))"

section \<open>The Core's view of the owner's work\<close>

text \<open>
  \<open>workspaceInput(local)\<close> as the records the storage functions take. A queue that is absent,
  or an element of it that is not an object, stands for no operation.
\<close>

definition owner_queue :: "obj \<Rightarrow> domain \<Rightarrow> obj list" where
  "owner_queue local d = map as_obj (list_if_array (fld local (case d of
     Commands \<Rightarrow> ''pending'' | TaskOperations \<Rightarrow> ''pendingTaskOperations''
   | DurationOperations \<Rightarrow> ''pendingDurationOperations''
   | AutoStartOperations \<Rightarrow> ''pendingAutoStartOperations''
   | SelectedTaskOperations \<Rightarrow> ''pendingSelectedTaskOperations'')))"

definition workspace_snapshot :: "obj \<Rightarrow> obj \<Rightarrow> jv" where
  "workspace_snapshot state local = Obj
     [(''canonicalTimer'', if truthy (getp (fld local ''baseTimer'') ''id'') then fld local ''baseTimer'' else Null),
      (''user'', coalesce (fld local ''user'') (fld state ''user'')),
      (''history'', fld local ''baseHistory''), (''tasks'', fld local ''baseTasks''),
      (''durationsMs'', fld local ''baseDurationsMs''), (''autoStartBreaks'', fld local ''baseAutoStartBreaks''),
      (''selectedTaskId'', fld local ''baseSelectedTaskId'')]"

definition workspace_input :: "obj \<Rightarrow> obj \<Rightarrow> records" where
  "workspace_input state local =
     \<lparr>r_field = fld
        [(''snapshot'', workspace_snapshot state local), (''deliveryProof'', fld local ''deliveryProof''),
         (''canonicalHead'', fld local ''canonicalHead''), (''timerDependencies'', fld local ''timerDependencies''),
         (''deviceId'', fld state ''deviceId''), (''projectionPending'', fld local ''projectionPending''),
         (''outgoing'', fld local ''outgoingSync''), (''completionState'', fld local ''completionState'')],
      r_queue = owner_queue local\<rparr>"

text \<open>\<open>v[key]\<close> for a property named by a value: only a string names one.\<close>

definition named :: "jv \<Rightarrow> jv \<Rightarrow> jv res" where
  "named v key = (case key of Str k \<Rightarrow> dot v k | _ \<Rightarrow> bindr (dot v []) (\<lambda>_. Inr Undef))"

text \<open>\<open>projectOwnerState(local)\<close>: the object as it is left; nothing is assigned before the Core has answered.\<close>

definition project_owner_state :: "env \<Rightarrow> obj \<Rightarrow> obj \<Rightarrow> obj res" where
  "project_owner_state env state local =
     bindr (project_workspace env (set_field ''nowMs'' (jint 0) (workspace_input state local))) (\<lambda>result.
     bindr (dot result ''workspace'') (\<lambda>projection.
     bindr (dot projection ''canonicalTimer'') (\<lambda>canonical.
     bindr (if truthy canonical then Inr canonical
         else bindr (named (getp projection ''durationsMs'') (fld local ''selectedPhase'')) (\<lambda>planned.
           Inr (empty_timer_value (fld local ''selectedPhase'') planned))) (\<lambda>timer.
     Inr (assign local
       [(''timer'', timer), (''history'', getp projection ''history''), (''tasks'', getp projection ''tasks''),
        (''durationsMs'', getp projection ''durationsMs''),
        (''autoStartBreaks'', getp projection ''autoStartBreaks''),
        (''selectedTaskId'', getp projection ''selectedTaskId''), (''workspaceBlocked'', Bool False)])))))"

text \<open>\<open>rebuildOptimisticState\<close>; the alert's timer is the one \<open>activeCompletionAlertTimerId\<close> returns.\<close>

definition rebuild_optimistic_state :: "env \<Rightarrow> jv \<Rightarrow> obj \<Rightarrow> (obj \<times> effect list) res" where
  "rebuild_optimistic_state env alert state =
     bindr (project_owner_state env state state) (\<lambda>state'.
     let timer = fld state' ''timer'' in
     Inr (state', if truthy alert \<and> \<not> strict_eq (getp timer ''id'') alert
         \<and> getp timer ''status'' \<in> {Str ''running'', Str ''paused''} then [StopCompletionAlert] else []))"

definition plain_snapshot :: "jv \<Rightarrow> jv \<Rightarrow> jv" where
  "plain_snapshot timer durations = Obj
     [(''canonicalTimer'', timer), (''history'', Arr []), (''tasks'', Arr []), (''durationsMs'', durations),
      (''autoStartBreaks'', Bool False), (''selectedTaskId'', Null)]"

definition plain_records :: "obj \<Rightarrow> jv \<Rightarrow> records" where
  "plain_records state snapshot =
     \<lparr>r_field = fld [(''snapshot'', snapshot), (''deviceId'', fld state ''deviceId''), (''nowMs'', jint 0)],
      r_queue = (\<lambda>_. [])\<rparr>"

definition normalize_durations_ms :: "env \<Rightarrow> obj \<Rightarrow> jv \<Rightarrow> jv res" where
  "normalize_durations_ms env state value =
     bindr (project_workspace env (plain_records state (plain_snapshot Null (coalesce value DEFAULT_DURATIONS)))) (\<lambda>result.
     bindr (dot result ''workspace'') (\<lambda>w. dot w ''durationsMs''))"

definition selected_duration_ms :: "obj \<Rightarrow> jv res" where
  "selected_duration_ms state = named (fld state ''durationsMs'') (fld state ''selectedPhase'')"

definition normalize_timer :: "env \<Rightarrow> obj \<Rightarrow> jv \<Rightarrow> jv res" where
  "normalize_timer env state timer =
     bindr (project_workspace env (plain_records state (plain_snapshot
       (if truthy (getp timer ''id'') then timer else Null) (fld state ''durationsMs'')))) (\<lambda>result.
     bindr (dot result ''workspace'') (\<lambda>w.
     bindr (dot w ''canonicalTimer'') (\<lambda>canonical.
     if truthy canonical then Inr canonical
     else bindr (selected_duration_ms state) (\<lambda>planned.
       Inr (empty_timer_value (fld state ''selectedPhase'') planned)))))"

definition selected_task_id_for_next_focus :: "obj \<Rightarrow> jv res" where
  "selected_task_id_for_next_focus state =
     bindr (case fld state ''tasks'' of Arr ts \<Rightarrow> Inr ts | v \<Rightarrow> bindr (dot v ''some'') (\<lambda>_.
       Inl (TypeError ''some is not a function''))) (\<lambda>tasks.
     bindr (somer (\<lambda>task. bindr (dot task ''id'') (\<lambda>i. Inr (strict_eq i (fld state ''selectedTaskId'')))) tasks) (\<lambda>found.
     Inr (if found then fld state ''selectedTaskId'' else Null)))"

section \<open>The clock and the read model\<close>

text \<open>
  \<open>TrustedClock\<close> and \<open>getWorkspaceReadModel\<close> change the tab as they go: what an earlier step has
  stored stays when a later one throws.
\<close>

record tab =
  t_state :: obj
  t_runtime :: jv
  t_continuity :: jv

type_synonym 'a in_tab = "(tab, js_error, 'a) eff"

definition observe_clock :: "env \<Rightarrow> jv \<Rightarrow> jv \<Rightarrow> jv res" where
  "observe_clock env state reading = clock_current (call_workspace_core env) state reading"

definition trusted_now :: "env \<Rightarrow> jv \<Rightarrow> jv \<Rightarrow> jv in_tab" where
  "trusted_now env wall monotonic t =
     (case observe_clock env
         (Obj [(''clockOffset'', fld (t_state t) ''clockOffset''),
           (''minimumWallMs'', fld (t_state t) ''hlcWallMs''), (''runtime'', t_runtime t)])
         (Obj [(''wallMs'', wall), (''monotonicMs'', monotonic)]) of
       Inl e \<Rightarrow> (Inl e, t)
     | Inr value \<Rightarrow> (case bindr (dot value ''state'') (\<lambda>s. dot s ''runtime'') of
         Inl e \<Rightarrow> (Inl e, t)
       | Inr runtime \<Rightarrow> (Inr (getp value ''trustedNowMs''), t\<lparr>t_runtime := coalesce runtime Null\<rparr>)))"

definition clock_continuity_id :: "env \<Rightarrow> jv in_tab" where
  "clock_continuity_id env t =
     (if truthy (t_continuity t) then (Inr (t_continuity t), t)
      else (Inr (Str (e_random_uuid env)), t\<lparr>t_continuity := Str (e_random_uuid env)\<rparr>))"

definition put_state :: "string \<Rightarrow> jv \<Rightarrow> unit in_tab" where
  "put_state k v t = (Inr (), t\<lparr>t_state := obj_put k v (t_state t)\<rparr>)"

definition of_tab :: "(tab \<Rightarrow> 'a in_tab) \<Rightarrow> 'a in_tab" where
  "of_tab f t = f t t"

definition observation_records :: "tab \<Rightarrow> jv \<Rightarrow> jv \<Rightarrow> jv \<Rightarrow> records" where
  "observation_records t now monotonic continuity =
     (let s = t_state t in
      set_field ''nowMs'' now (set_field ''monotonicMs'' monotonic
      (set_field ''selectedPhase'' (fld s ''selectedPhase'') (set_field ''continuityId'' continuity
      (set_field ''deviceSequence'' (fld s ''deviceSequence'')
      (set_field ''hlc'' (Obj [(''wallMs'', fld s ''hlcWallMs''), (''counter'', fld s ''hlcCounter'')])
      (set_field ''workspaceObservation'' (fld s ''workspaceObservation'') (workspace_input s s))))))))"

definition read_model_records :: "tab \<Rightarrow> jv \<Rightarrow> jv \<Rightarrow> records" where
  "read_model_records t now monotonic =
     (let s = t_state t in
      set_field ''selectedPhase'' (fld s ''selectedPhase'')
      (set_field ''nowMs'' now (set_field ''monotonic'' monotonic (workspace_input s s))))"

definition monotonic_reading :: "env \<Rightarrow> jv \<Rightarrow> jv in_tab" where
  "monotonic_reading env monotonic = of_tab (\<lambda>t.
     let anchor = getp (fld (t_state t) ''workspaceObservation'') ''monotonicAnchor'' in
     if monotonic = Null \<or> \<not> truthy anchor then ret Null
     else bindw (clock_continuity_id env) (\<lambda>c.
       ret (Obj [(''nowMs'', monotonic), (''continuityId'', c), (''anchor'', anchor)])))"

definition get_workspace_read_model :: "env \<Rightarrow> jv \<Rightarrow> jv in_tab" where
  "get_workspace_read_model env monotonic =
     bindw (trusted_now env (jint (e_now env)) monotonic) (\<lambda>now.
     bindw (clock_continuity_id env) (\<lambda>continuity.
     bindw (of_tab (\<lambda>t. lift (bindr (observe_workspace env (observation_records t now monotonic continuity)) (\<lambda>v.
       dot v ''observation'')))) (\<lambda>observation.
     bindw (put_state ''workspaceObservation'' observation) (\<lambda>_.
     bindw (monotonic_reading env monotonic) (\<lambda>reading.
     bindw (of_tab (\<lambda>t. lift (read_workspace env (read_model_records t now reading)))) (\<lambda>model.
     bindw (put_state ''readModel'' model) (\<lambda>_. ret model)))))))"

definition elapsed_for :: "env \<Rightarrow> jv \<Rightarrow> jv in_tab" where
  "elapsed_for env monotonic = bindw (get_workspace_read_model env monotonic) (\<lambda>model.
     lift (bindr (dot model ''canonical'') (\<lambda>c. dot c ''elapsedMs'')))"

section \<open>The Core's version\<close>

definition RENAME_TASK_CORE_VERSION :: "int list" where
  "RENAME_TASK_CORE_VERSION = [0, 54, 0]"

text \<open>\<open>/^(\d+)\.(\d+)\.(\d+)/\<close>: three runs of digits between dots, and anything after them.\<close>

definition parse_core_version :: "string \<Rightarrow> int list option" where
  "parse_core_version version =
     (let major = takeWhile is_digit version; rest = dropWhile is_digit version;
          minor = takeWhile is_digit (tl rest); rest' = dropWhile is_digit (tl rest);
          patch = takeWhile is_digit (tl rest') in
      if major \<noteq> [] \<and> take 1 rest = ''.'' \<and> minor \<noteq> [] \<and> take 1 rest' = ''.'' \<and> patch \<noteq> []
      then Some [decimal major, decimal minor, decimal patch] else None)"

fun version_from :: "int list \<Rightarrow> int list \<Rightarrow> bool" where
  "version_from (v # vs) (f # fs) = (if v \<noteq> f then f < v else version_from vs fs)"
| "version_from _ _ = True"

definition core_version_at_least :: "int list option \<Rightarrow> int list \<Rightarrow> bool" where
  "core_version_at_least version least = (case version of None \<Rightarrow> False | Some v \<Rightarrow> version_from v least)"

text \<open>\<open>String(version || "")\<close> for the values the Core returns: a text, or nothing.\<close>

definition version_text :: "jv \<Rightarrow> string" where
  "version_text v = (case v of Str s \<Rightarrow> s | _ \<Rightarrow> [])"

definition unsupported_operation :: "js_error \<Rightarrow> bool" where
  "unsupported_operation e = (case e of
     Error m \<Rightarrow> contains ''unsupported shared-core operation'' m
   | TypeError m \<Rightarrow> contains ''unsupported shared-core operation'' m
   | RangeError m \<Rightarrow> contains ''unsupported shared-core operation'' m
   | _ \<Rightarrow> False)"

definition core_capabilities :: "core_call option \<Rightarrow> (int list option \<times> bool) res" where
  "core_capabilities core =
     bindr (case core of None \<Rightarrow> Inr None
       | Some call \<Rightarrow> (case call ''core.version'' (Obj []) of
           Inr v \<Rightarrow> Inr (parse_core_version (version_text (getp v ''coreVersion'')))
         | Inl e \<Rightarrow> if unsupported_operation e then Inr None else Inl e)) (\<lambda>version.
     Inr (version, core_version_at_least version RENAME_TASK_CORE_VERSION))"

section \<open>Labels\<close>

text \<open>\<open>tr(key, values, fallback)\<close> over the loaded catalogs, \<open>None\<close> before they are loaded.\<close>

type_synonym catalog = "(string \<Rightarrow> args \<Rightarrow> string) option"

definition tr :: "catalog \<Rightarrow> string \<Rightarrow> args \<Rightarrow> string \<Rightarrow> string" where
  "tr i18n key values fallback = (case i18n of None \<Rightarrow> fallback
   | Some t \<Rightarrow> let translated = t key values in if translated \<noteq> [] \<and> translated \<noteq> key then translated else fallback)"

definition timer_status_label :: "catalog \<Rightarrow> string \<Rightarrow> string" where
  "timer_status_label i18n status =
     (let keys = [(''idle'', (''timer.status.idle'', ''Idle'')), (''running'', (''timer.status.running'', ''Running'')),
        (''paused'', (''timer.status.paused'', ''Paused'')), (''completed'', (''timer.status.completed'', ''Completed'')),
        (''cancelled'', (''timer.status.cancelled'', ''Cancelled'')),
        (''superseded'', (''timer.status.superseded'', ''Superseded''))];
          entry = (case map_of keys status of None \<Rightarrow> (''timer.status.idle'', ''Idle'') | Some e \<Rightarrow> e)
      in tr i18n (fst entry) [] (snd entry))"

definition phase_label :: "catalog \<Rightarrow> string \<Rightarrow> string option" where
  "phase_label i18n phase = map_option (\<lambda>key. tr i18n key []
       (if phase = ''focus'' then ''Focus'' else if phase = ''short_break'' then ''Short break'' else ''Long break''))
     (map_of [(''focus'', ''phase.focus''), (''short_break'', ''phase.shortBreak''),
       (''long_break'', ''phase.longBreak'')] phase)"

definition phase_short_label :: "catalog \<Rightarrow> string \<Rightarrow> string option" where
  "phase_short_label i18n phase = map_option (\<lambda>key. tr i18n key []
       (if phase = ''focus'' then ''F'' else if phase = ''short_break'' then ''SB'' else ''LB''))
     (map_of [(''focus'', ''phase.focus.short''), (''short_break'', ''phase.shortBreak.short''),
       (''long_break'', ''phase.longBreak.short'')] phase)"

end
