(* ===== verification/AppSafety.thy ===== *)
theory AppSafety
  imports AppState
begin

text \<open>
  What the tab's state promises: the owner's work that a quarantine hides can be restored
  exactly, a bound context is accepted only for the account and the connection it was made for,
  and a handoff to another account ends the old context.
\<close>

section \<open>Quarantine\<close>

lemma owner_fields_distinct: "distinct (map fst OWNER_FIELDS)"
  by code_simp

lemma initial_fields_distinct: "distinct (map fst initial_ownership_state)"
  by code_simp

lemma fld_reset: "fld (reset_owner_state s) k =
    (if k \<in> set (map fst initial_ownership_state) then fld initial_ownership_state k else fld s k)"
  unfolding reset_owner_state_def assign_def by (rule fld_spread) (rule initial_fields_distinct)

lemma quarantine_kept_outside:
  "''user'' \<notin> set (map fst initial_ownership_state)"
  "''quarantinedLocal'' \<notin> set (map fst initial_ownership_state)"
  "''quarantinedLocal'' \<noteq> ''user''"
  by code_simp+

lemma fld_owner_state_value:
  "(k, copied) \<in> set OWNER_FIELDS \<Longrightarrow>
   fld (owner_state_value s) k = (if copied then clone_value (fld s k) else fld s k)"
proof -
  assume m: "(k, copied) \<in> set OWNER_FIELDS"
  define f where "f = (\<lambda>(k, copied). (k, if copied then clone_value (fld s k) else fld s k))"
  have "map fst (map f OWNER_FIELDS) = map fst OWNER_FIELDS"
    by (simp add: f_def comp_def case_prod_beta)
  with owner_fields_distinct have "distinct (map fst (map f OWNER_FIELDS))"
    by metis
  moreover have "(k, snd (f (k, copied))) \<in> set (map f OWNER_FIELDS)"
    using m by (force simp: f_def)
  ultimately have "map_of (map f OWNER_FIELDS) k = Some (snd (f (k, copied)))"
    by (rule map_of_is_SomeI)
  then show ?thesis
    by (simp add: owner_state_value_def f_def fld_def)
qed

lemma fld_restore:
  "fld (restore_owner_state saved s) k = (if k \<in> set (map fst OWNER_FIELDS) then getp saved k else fld s k)"
proof -
  have "fld (foldl (\<lambda>s (k, _). obj_put k (getp saved k) s) s xs) k
      = (if k \<in> set (map fst xs) then getp saved k else fld s k)" for xs :: "(string \<times> bool) list"
    by (induction xs arbitrary: s) auto
  then show ?thesis
    by (simp add: restore_owner_state_def)
qed

lemma quarantined_local:
  "fld (quarantine_owner_state b s) ''quarantinedLocal'' =
    (if truthy (fld s ''quarantinedLocal'') then fld s ''quarantinedLocal'' else Obj (owner_state_value s))"
  using quarantine_kept_outside by (auto simp: quarantine_owner_state_def Let_def fld_reset)

lemma quarantined_initial:
  assumes "(k, v) \<in> set initial_ownership_state"
  shows "fld (quarantine_owner_state b s) k = v"
proof -
  have k: "k \<in> set (map fst initial_ownership_state)" using assms by force
  then have "k \<noteq> ''user''" using quarantine_kept_outside(1) by blast
  moreover have "fld initial_ownership_state k = v"
    using assms initial_fields_distinct by (simp add: fld_def)
  ultimately show ?thesis
    using k by (simp add: quarantine_owner_state_def Let_def fld_reset)
qed

lemma quarantined_later:
  assumes "truthy (fld s ''quarantinedLocal'')"
  shows "fld (foldl (\<lambda>s b. quarantine_owner_state b s) s bs) ''quarantinedLocal'' = fld s ''quarantinedLocal''"
  using assms by (induction bs arbitrary: s) (simp_all add: quarantined_local)

text \<open>
  C19: However often the tab's state is quarantined after the first time (a session change, a
  mismatch found by a transaction and a failed synchronization may all do it), the copy of the
  owner's work that the first quarantine made is the one that stays: restoring it gives every
  owner field the value it had, as JSON carries it.
\<close>

theorem quarantine_restores_owner:
  assumes "\<not> truthy (fld s ''quarantinedLocal'')"
    and "q = foldl (\<lambda>s b. quarantine_owner_state b s) s (first # later)"
    and "(k, copied) \<in> set OWNER_FIELDS"
  shows "fld (restore_owner_state (fld q ''quarantinedLocal'') q) k
    = (if copied then clone_value (fld s k) else fld s k)"
proof -
  have "fld q ''quarantinedLocal'' = Obj (owner_state_value s)"
    using assms(1) quarantined_later[of "quarantine_owner_state first s" later]
    by (simp add: assms(2) quarantined_local)
  moreover have "k \<in> set (map fst OWNER_FIELDS)"
    using assms(3) by force
  ultimately show ?thesis
    using assms(3) by (simp only: fld_restore getp.simps fld_owner_state_value if_True)
qed

definition sample_state :: obj where
  "sample_state = obj_put ''revision'' (jint 7) (obj_put ''tasks'' (Arr [Obj [(''id'', Str ''task-1'')]])
     (obj_put ''user'' (Obj [(''id'', Str ''u1'')]) (create_state (Str ''tab-1''))))"

theorem quarantine_restores_owner_witness:
  "let q = foldl (\<lambda>s b. quarantine_owner_state b s) sample_state [True, False] in
   fld q ''tasks'' = Arr [] \<and>
   fld (restore_owner_state (fld q ''quarantinedLocal'') q) ''tasks'' = Arr [Obj [(''id'', Str ''task-1'')]]"
proof -
  let ?q = "foldl (\<lambda>s b. quarantine_owner_state b s) sample_state [True, False]"
  have "fld (restore_owner_state (fld ?q ''quarantinedLocal'') ?q) ''tasks''
      = (if True then clone_value (fld sample_state ''tasks'') else fld sample_state ''tasks'')"
    by (rule quarantine_restores_owner[OF _ refl]) (unfold not_def, code_simp+)
  moreover have "clone_value (fld sample_state ''tasks'') = Arr [Obj [(''id'', Str ''task-1'')]]"
    by code_simp
  moreover have "fld ?q ''tasks'' = Arr []"
    by code_simp
  ultimately show ?thesis by (simp add: Let_def)
qed



section \<open>Contexts\<close>

lemma identity_current_iff:
  "identity_current app i = Inr u \<longleftrightarrow>
     (\<exists>owner. state_owner (a_state app) = Inr owner \<and> strict_eq owner (i_owner i)
       \<and> strict_eq (fld (a_state app) ''localOwnerId'') (i_local i)
       \<and> strict_eq (logout_marker app) (i_marker i))"
  by (auto simp: identity_current_def res_simps)

lemma assert_current_iff:
  "assert_current app c = Inr u \<longleftrightarrow> a_database app = o_database c \<and> identity_current app (o_identity c) = Inr ()"
  by (auto simp: assert_current_def assert_connection_def res_simps)

text \<open>
  A context that \<open>requireBound\<close> accepts is the one that was bound, on the connection that is
  open now, and the account, the local owner and the logout marker are exactly those it was
  bound to: an operation that passes the check acts for the account it was started for.
\<close>

theorem bound_context_sound:
  assumes "require_bound app c = Inr c'"
  shows "c = Some c' \<and> a_database app = o_database c' \<and> account_identity app = Inr (o_identity c')"
proof -
  from assms obtain d where d: "c = Some d" "c' = d" "assert_current app d = Inr ()"
    by (auto simp: require_bound_def res_simps split: option.splits)
  then obtain owner where "state_owner (a_state app) = Inr owner" "owner = i_owner (o_identity d)"
      "fld (a_state app) ''localOwnerId'' = i_local (o_identity d)" "logout_marker app = i_marker (o_identity d)"
    by (auto simp: assert_current_iff identity_current_iff dest!: strict_eq_imp_eq)
  with d show ?thesis
    by (simp add: assert_current_iff account_identity_def)
qed

definition sample_app :: app where
  "sample_app = \<lparr>a_state = obj_put ''localOwnerId'' (Str ''u1'') sample_state, a_database = 3,
     a_logout = Some (Null, Null)\<rparr>"

definition sample_context :: op_context where
  "sample_context = \<lparr>o_database = 3,
     o_identity = \<lparr>i_owner = Str ''u1'', i_local = Str ''u1'', i_marker = JsonText (Arr [Null, Null])\<rparr>\<rparr>"

theorem bound_context_sound_witness:
  "capture_account_context sample_app = Inr sample_context
   \<and> account_identity sample_app = Inr (o_identity sample_context)"
proof -
  have "require_bound sample_app (Some sample_context) = Inr sample_context" by code_simp
  from bound_context_sound[OF this] show ?thesis
    by (simp add: capture_account_context_def bind_context_def sample_context_def)
qed

lemma strict_eq_self: "nullish v \<or> is_string v \<Longrightarrow> strict_eq v v"
  by (cases v) auto

lemma owner_id_shape: "account_owner_id user = Inr v \<Longrightarrow> nullish v \<or> is_string v"
  by (auto simp: account_owner_id_def nonempty_string_def split: if_splits jv.splits)

lemma fresh_context_accepted:
  assumes i: "account_identity app = Inr i"
    and "nullish (fld (a_state app) ''localOwnerId'') \<or> is_string (fld (a_state app) ''localOwnerId'')"
  shows "is_current app (Some (bind_context app i)) = Inr True"
proof -
  from i obtain owner where owner: "state_owner (a_state app) = Inr owner" and eq: "i_owner i = owner"
      "i_local i = fld (a_state app) ''localOwnerId''" "i_marker i = logout_marker app"
    by (auto simp: account_identity_def res_simps)
  from owner assms(2) have "nullish owner \<or> is_string owner"
    using owner_id_shape[of "fld (a_state app) ''user''"]
    by (auto simp: state_owner_def res_simps or_else_def)
  moreover have "is_string (logout_marker app)"
    by (simp add: logout_marker_def json_stringify_def split: option.split prod.split)
  ultimately show ?thesis
    using owner eq assms(2)
    by (simp add: is_current_def require_bound_def assert_current_def assert_connection_def bind_context_def
        identity_current_def strict_eq_self)
qed

lemma stale_context_rejected:
  assumes "account_identity app = Inr i" "assert_connection app c = Inr ()"
    and "\<not> strict_eq (i_owner i) (i_owner (o_identity c))"
  shows "is_current app (Some c) = Inr False"
  using assms by (auto simp: is_current_def require_bound_def assert_current_def account_identity_def
      identity_current_def account_error_def res_simps)

text \<open>
  C18: Publishing an identity that turns the account into another one ends the old context on the
  spot: the context that is returned is current, and the old one is rejected, so retries and
  transport callbacks of the old account cannot resume. Without such a change the returned
  context is the old one, brought up to date. (The local owner must be a text or absent, as it is
  wherever it is assigned.)
\<close>

theorem publish_ends_old_context:
  assumes "publish_identity publish c app = (Inr (old, new), app')"
    and "nullish (fld (a_state app') ''localOwnerId'') \<or> is_string (fld (a_state app') ''localOwnerId'')"
  shows "is_current app' (Some new) = Inr True
    \<and> (if truthy (i_owner (o_identity c)) \<and> i_owner (o_identity new) \<noteq> i_owner (o_identity c)
       then old = c \<and> is_current app' (Some c) = Inr False else old = new)"
proof -
  from assms(1) obtain next_id where current: "assert_current app c = Inr ()"
      and next_id: "account_identity app' = Inr next_id" and same: "assert_connection app' c = Inr ()"
      and result: "(if truthy (i_owner (o_identity c)) \<and> \<not> strict_eq (i_owner next_id) (i_owner (o_identity c))
        then Inr (c, bind_context app' next_id)
        else let c' = c\<lparr>o_identity := next_id\<rparr> in bindr (assert_current app' c') (\<lambda>_. Inr (c', c'))) = Inr (old, new)"
    by (auto simp: publish_identity_def next_context_def bindr_Inr_iff split: sum.splits prod.splits)
  show ?thesis
  proof (cases "truthy (i_owner (o_identity c)) \<and> \<not> strict_eq (i_owner next_id) (i_owner (o_identity c))")
    case True
    then have new: "old = c" "new = bind_context app' next_id" using result by auto
    from current have "strict_eq (i_owner (o_identity c)) (i_owner (o_identity c))"
      by (auto simp: assert_current_iff identity_current_iff dest: strict_eq_imp_eq)
    then have "i_owner next_id \<noteq> i_owner (o_identity c)" using True by metis
    moreover have "is_current app' (Some c) = Inr False"
      using True by (intro stale_context_rejected[OF next_id same]) simp
    moreover have "is_current app' (Some new) = Inr True"
      unfolding new by (rule fresh_context_accepted[OF next_id assms(2)])
    ultimately show ?thesis
      using new True by (simp add: bind_context_def)
  next
    case False
    with result have "old = new" "new = c\<lparr>o_identity := next_id\<rparr>" "assert_current app' new = Inr ()"
      by (auto simp: res_simps Let_def)
    with False show ?thesis
      by (auto simp: is_current_def require_bound_def dest: strict_eq_imp_eq)
  qed
qed

definition sample_handoff :: "app \<Rightarrow> unit res \<times> app" where
  "sample_handoff app = (Inr (), app\<lparr>a_state := obj_put ''user'' (Obj [(''id'', Str ''u2'')]) (a_state app)\<rparr>)"

theorem publish_ends_old_context_witness:
  "let app' = snd (sample_handoff sample_app) in
   is_current sample_app (Some sample_context) = Inr True
   \<and> is_current app' (Some sample_context) = Inr False
   \<and> is_current app' (Some (sample_context\<lparr>o_identity := \<lparr>i_owner = Str ''u2'', i_local = Str ''u1'',
       i_marker = JsonText (Arr [Null, Null])\<rparr>\<rparr>)) = Inr True"
proof -
  let ?app = "snd (sample_handoff sample_app)"
  let ?new = "sample_context\<lparr>o_identity := \<lparr>i_owner = Str ''u2'', i_local = Str ''u1'',
       i_marker = JsonText (Arr [Null, Null])\<rparr>\<rparr>"
  have "publish_identity sample_handoff sample_context sample_app = (Inr (sample_context, ?new), ?app)"
    by code_simp
  moreover have "nullish (fld (a_state ?app) ''localOwnerId'') \<or> is_string (fld (a_state ?app) ''localOwnerId'')"
    by code_simp
  ultimately have "is_current ?app (Some ?new) = Inr True
      \<and> (if truthy (i_owner (o_identity sample_context)) \<and> i_owner (o_identity ?new) \<noteq> i_owner (o_identity sample_context)
         then sample_context = sample_context \<and> is_current ?app (Some sample_context) = Inr False
         else sample_context = ?new)"
    by (rule publish_ends_old_context)
  moreover have "is_current sample_app (Some sample_context) = Inr True" by code_simp
  ultimately show ?thesis
    by (simp add: Let_def sample_context_def)
qed

end
