(* ===== verification/SyncBatch.thy ===== *)
theory SyncBatch
  imports StorageGate
begin

text \<open>
  The part of \<open>web/sync-core.js\<close> that plans batches through the Core: the operations and the
  payload of a history resolution, its limits, and the batch of a synchronization. The queues an
  option object carries are arrays of objects; \<open>None\<close> for a limit is \<open>Infinity\<close>.
\<close>

section \<open>Resolutions\<close>

definition empty_never_sent :: jv where
  "empty_never_sent = queues_value (\<lambda>_. Arr [])"

definition bootstrap_dependencies :: "obj \<Rightarrow> jv res" where
  "bootstrap_dependencies operations =
     (if is_array (fld operations ''timerDependencies'') then Inr (fld operations ''timerDependencies'')
      else bindr (list_or_empty (fld operations ''commands'')) (\<lambda>commands.
        Inr (Arr (map (\<lambda>c. Obj [(''operationId'', getp c ''id''), (''dependsOnOperationId'', getp c ''dependsOnCommandId'')])
          (filter (\<lambda>c. nonempty_string (getp c ''dependsOnCommandId'')) commands)))))"

text \<open>\<open>operations.deviceId || operations.commands?.[0]?.deviceId || "legacy-web"\<close>\<close>

definition batch_device :: "obj \<Rightarrow> jv" where
  "batch_device operations = or_else (or_else (fld operations ''deviceId'')
     (case fld operations ''commands'' of Arr (c # _) \<Rightarrow> getp c ''deviceId'' | _ \<Rightarrow> Undef)) (Str ''legacy-web'')"

definition operation_queues :: "obj \<Rightarrow> (domain \<Rightarrow> obj list) res" where
  "operation_queues operations = domains_result (\<lambda>d. objs_of (fld operations (domain_name d)))"

text \<open>The fields of a payload, in the order the code writes them.\<close>

definition payload_fields :: "(domain \<Rightarrow> jv) \<Rightarrow> bool \<Rightarrow> obj" where
  "payload_fields q auto_start =
     map (\<lambda>d. (domain_name d, q d)) [Commands, TaskOperations, DurationOperations, SelectedTaskOperations]
     @ (if auto_start then [(domain_name AutoStartOperations, q AutoStartOperations)] else [])"

definition resolution_operations :: "env \<Rightarrow> jv \<Rightarrow> obj \<Rightarrow> obj res" where
  "resolution_operations env strategy operations =
     (let auto_start = has_own (Obj operations) ''autoStartOperations'' in
      case strategy_of strategy of
        None \<Rightarrow> Inl (Error ''Unknown bootstrap strategy'')
      | Some KeepRemote \<Rightarrow> Inr (payload_fields (\<lambda>_. Arr []) auto_start)
      | Some _ \<Rightarrow>
          bindr (operation_queues operations) (\<lambda>queues.
          bindr (bootstrap_dependencies operations) (\<lambda>dependencies.
          bindr (batch_request queues (batch_device operations) dependencies (Str ''commands'') strategy Null) (\<lambda>request.
          bindr (call_workspace_core env ''sync.batchPlan.v1'' request) (\<lambda>plan.
          bindr (dot plan ''status'') (\<lambda>status.
          if status \<noteq> Str ''planned''
          then Inl (Error ''Bootstrap exceeds Core aggregate limits. Retained work needs recovery.'')
          else bindr (selected_records plan queues) (\<lambda>selected.
            Inr (payload_fields (\<lambda>d. objs (encode_selected_batch selected d)) auto_start))))))))"

definition build_resolution_payload :: "env \<Rightarrow> obj \<Rightarrow> obj res" where
  "build_resolution_payload env input =
     bindr (resolution_operations env (fld input ''strategy'') input) (\<lambda>operations.
     Inr (map (\<lambda>k. (k, fld input k)) [''requestId'', ''deviceId'', ''expectedRevision'', ''strategy''] @ operations))"

definition queue_ids :: "obj \<Rightarrow> (domain \<Rightarrow> jv list) res" where
  "queue_ids input = domains_result (\<lambda>d. ids_of (fld input (domain_name d)))"

definition create_pending_resolution :: "env \<Rightarrow> obj \<Rightarrow> obj res" where
  "create_pending_resolution env input =
     bindr (build_resolution_payload env input) (\<lambda>payload.
     bindr (queue_ids input) (\<lambda>queued.
     bindr (ids_of (fld payload ''commands'')) (\<lambda>sent.
     let queued = (if strategy_of (fld input ''strategy'') = Some KeepRemote then queued else queued(Commands := sent)) in
     Inr [(''userId'', fld input ''userId''), (''payload'', Obj payload),
       (''queueIds'', queues_value (\<lambda>d. Arr (queued d)))])))"

definition RESOLUTION_OPERATION_LIMIT :: int where
  "RESOLUTION_OPERATION_LIMIT = 4096"

definition violation :: "string \<Rightarrow> jv \<Rightarrow> jv \<Rightarrow> jv" where
  "violation field count limit = Obj [(''field'', Str field), (''count'', count), (''limit'', limit)]"

definition queue_count :: "jv \<Rightarrow> domain \<Rightarrow> int" where
  "queue_count payload d = int (length (list_if_array (getp payload (domain_name d))))"

definition resolution_limit_violation :: "env \<Rightarrow> jv \<Rightarrow> int \<Rightarrow> jv res" where
  "resolution_limit_violation env payload limit =
     (case find (\<lambda>d. limit < queue_count payload d) DOMAINS of
        Some d \<Rightarrow> Inr (violation (domain_name d) (jint (queue_count payload d)) (jint limit))
      | None \<Rightarrow>
          if list_ex (\<lambda>d. list_ex (\<lambda>item. \<not> is_string (getp item ''id'')) (list_if_array (getp payload (domain_name d)))) DOMAINS
          then Inr Null
          else
            bindr (saved_batch_request (queues_value (\<lambda>d. or_else (getp payload (domain_name d)) (Arr []))) (Str ''merge'')) (\<lambda>request.
            bindr (call_workspace_core env ''sync.batchPlan.v1'' request) (\<lambda>plan.
            bindr (dot plan ''status'') (\<lambda>status.
            Inr (if status = Str ''oversized_saved'' then violation ''total'' (getp plan ''total'') (jint 8192) else Null)))))"

section \<open>Batches\<close>

definition build_sync_batch :: "env \<Rightarrow> obj \<Rightarrow> int option \<Rightarrow> (domain \<Rightarrow> obj list) res" where
  "build_sync_batch env input limit =
     bindr (operation_queues input) (\<lambda>queues.
     bindr (select_workspace_batch env \<lparr>r_field = fld input, r_queue = queues\<rparr> (batch_device input)
       (or_else (fld input ''batchNextDomain'') (Str ''commands''))
       (case limit of
          Some n \<Rightarrow> Obj [(''perDomain'', jint n), (''total'', jint 512)]
        | None \<Rightarrow> Obj [(''perDomain'', jint 4096), (''total'', jint 8192)])
       (Str (case limit of Some _ \<Rightarrow> ''sync'' | None \<Rightarrow> ''merge''))) (\<lambda>(_, sent). Inr sent))"

definition sendable_timer_commands :: "env \<Rightarrow> jv \<Rightarrow> int option \<Rightarrow> obj list res" where
  "sendable_timer_commands env commands limit =
     bindr (build_sync_batch env [(''commands'', commands)] limit) (\<lambda>sent. Inr (sent Commands))"

section \<open>What a batch may contain\<close>

lemma find_record_sound:
  "find_record items i = Inr item \<Longrightarrow> item \<in> set items \<and> fld item ''id'' = i"
  by (auto simp: find_record_def find_Some_iff split: option.splits)
    (metis nth_mem set_rev length_rev)

lemma selected_records_sound:
  assumes "selected_records plan queues = Inr selected"
  shows "set (selected d) \<subseteq> set (queues d)
    \<and> (\<exists>is. getp (getp plan ''selected'') (domain_name d) = Arr is \<and> map (\<lambda>x. fld x ''id'') (selected d) = is)"
proof -
  from assms obtain v where v: "dot plan ''selected'' = Inr v"
      and all: "bindr (dot v (domain_name d)) (\<lambda>ids. case ids of
         Arr is \<Rightarrow> mapr (find_record (queues d)) is
       | _ \<Rightarrow> Inl (TypeError ''map is not a function'')) = Inr (selected d)"
    by (auto simp: selected_records_def res_simps)
  then obtain x where "dot v (domain_name d) = Inr x" and "(case x of Arr is \<Rightarrow> mapr (find_record (queues d)) is
       | _ \<Rightarrow> Inl (TypeError ''map is not a function'')) = Inr (selected d)"
    by (auto simp: bindr_Inr_iff)
  then obtain is' where "dot v (domain_name d) = Inr (Arr is')" and m: "mapr (find_record (queues d)) is' = Inr (selected d)"
    by (cases x) auto
  moreover have "getp plan ''selected'' = v" using v by (auto simp: dot_def split: jv.splits)
  ultimately have "getp (getp plan ''selected'') (domain_name d) = Arr is'"
    by (auto simp: dot_def split: jv.splits)
  moreover have "map (\<lambda>x. fld x ''id'') (selected d) = is'" "set (selected d) \<subseteq> set (queues d)"
    using mapr_list_all2[OF m]
    by (induction rule: list_all2_induct) (auto dest: find_record_sound)
  ultimately show ?thesis by blast
qed

text \<open>
  C16: A batch holds nothing but retained work: whatever the Core selects, every operation sent is
  the wire form of an operation of its own queue, and the identifiers are exactly the selected
  ones in the order the Core gave them. An identifier that is not retained is an error.
\<close>

theorem batch_sends_retained_work:
  assumes "build_sync_batch env input limit = Inr sent"
    and "operation_queues input = Inr queues"
  shows "set (sent d) \<subseteq> request_operation d ` set (queues d)
    \<and> (\<exists>request plan. call_workspace_core env ''sync.batchPlan.v1'' request = Inr plan
        \<and> getp (getp plan ''selected'') (domain_name d) = Arr (map (\<lambda>item. fld item ''id'') (sent d)))"
proof -
  from assms obtain plan request selected where
      "call_workspace_core env ''sync.batchPlan.v1'' request = Inr plan"
      and sel: "selected_records plan queues = Inr selected" and sent: "sent = encode_selected_batch selected"
    by (auto simp: build_sync_batch_def select_workspace_batch_def res_simps)
  moreover have "map (\<lambda>item. fld item ''id'') (sent d) = map (\<lambda>item. fld item ''id'') (selected d)"
    by (simp add: sent encode_selected_batch_def comp_def)
  moreover have "set (sent d) \<subseteq> request_operation d ` set (queues d)"
    using selected_records_sound[OF sel, of d] by (auto simp: sent encode_selected_batch_def)
  ultimately show ?thesis
    using selected_records_sound[OF sel, of d] by metis
qed


definition planner :: core_call where
  "planner operation request = Inr (Obj [(''status'', Str ''planned''),
     (''selected'', Obj [(''commands'', Arr []), (''taskOperations'', Arr [Str ''op-2'']),
       (''durationOperations'', Arr []), (''autoStartOperations'', Arr []), (''selectedTaskOperations'', Arr [])])])"

definition planner_env :: env where
  "planner_env = \<lparr>e_shared = Some \<lparr>a_call = Some planner, a_method = (\<lambda>_. None)\<rparr>, e_given = None,
     e_day = (\<lambda>ms. (ms, ms + 86400000)), e_now = 0, e_current = Inr (), e_random_uuid = ''uuid'',
     e_entropy = (\<lambda>n. Inr (replicate n 0))\<rparr>"

definition sample_task_op :: "string \<Rightarrow> obj" where
  "sample_task_op i = [(''id'', Str i), (''taskId'', Str ''t''), (''type'', Str ''delete''),
     (''occurredAt'', Str ''2026-01-01T00:00:00Z''), (''hlcWallMs'', jint 1), (''hlcCounter'', jint 0)]"

definition sample_operations :: obj where
  "sample_operations = [(''userId'', Str ''u1''), (''strategy'', Str ''merge''), (''deviceId'', Str ''dev''),
     (''taskOperations'', Arr [Obj (sample_task_op ''op-1''), Obj (sample_task_op ''op-2'')])]"

theorem batch_sends_retained_work_witness:
  "(case build_sync_batch planner_env sample_operations (Some 256) of
      Inr sent \<Rightarrow> sent TaskOperations = [task_request_operation (sample_task_op ''op-2'')] \<and>
        set (sent TaskOperations) \<subseteq> request_operation TaskOperations ` set [sample_task_op ''op-1'', sample_task_op ''op-2'']
    | Inl _ \<Rightarrow> False)"
proof -
  obtain sent queues where sent: "build_sync_batch planner_env sample_operations (Some 256) = Inr sent"
      and queues: "operation_queues sample_operations = Inr queues"
      and q: "queues TaskOperations = [sample_task_op ''op-1'', sample_task_op ''op-2'']"
      and s: "sent TaskOperations = [task_request_operation (sample_task_op ''op-2'')]"
  proof -
    have "case build_sync_batch planner_env sample_operations (Some 256) of
        Inr sent \<Rightarrow> sent TaskOperations = [task_request_operation (sample_task_op ''op-2'')] | Inl _ \<Rightarrow> False"
      by code_simp
    moreover have "case operation_queues sample_operations of
        Inr queues \<Rightarrow> queues TaskOperations = [sample_task_op ''op-1'', sample_task_op ''op-2''] | Inl _ \<Rightarrow> False"
      by code_simp
    ultimately show ?thesis using that by (auto split: sum.splits)
  qed
  from batch_sends_retained_work[OF sent queues, of TaskOperations] show ?thesis
    using sent s q by simp
qed

lemma getp_payload_fields:
  "getp (Obj (xs @ payload_fields q b)) (domain_name d)
     = (if domain_name d \<in> set (map fst xs) then getp (Obj xs) (domain_name d)
        else if d = AutoStartOperations \<and> \<not> b then Undef else q d)"
  by (induction xs) (cases d; auto simp: payload_fields_def fld_def)+

lemma objs_of_ids:
  assumes "objs_of v = Inr items"
  shows "ids_of v = Inr (map (\<lambda>item. fld item ''id'') items)"
proof -
  from assms obtain vs where "list_or_empty v = Inr vs"
      and m: "mapr (\<lambda>item. case item of Obj ob \<Rightarrow> Inr ob | _ \<Rightarrow> Inl DataError) vs = Inr items"
    by (auto simp: objs_of_def res_simps)
  moreover from m have "mapr (\<lambda>item. dot item ''id'') vs = Inr (map (\<lambda>item. fld item ''id'') items)"
  proof (induction vs arbitrary: items)
    case (Cons v vs)
    then show ?case by (cases v) (auto simp: res_simps dot_def)
  qed simp
  ultimately show ?thesis by (simp add: ids_of_def)
qed

lemma ids_of_Arr: "ids_of (Arr vs) = Inr ids \<Longrightarrow> ids = map (\<lambda>item. getp item ''id'') vs"
proof -
  have "dot v k = Inr w \<Longrightarrow> w = getp v k" for v k w by (auto simp: dot_def split: jv.splits)
  moreover assume "ids_of (Arr vs) = Inr ids"
  ultimately show ?thesis by (induction vs arbitrary: ids) (auto simp: ids_of_def res_simps)
qed

text \<open>The payload: nothing for the remote history, else retained work of the same queue.\<close>

lemma resolution_payload_shape:
  assumes "build_resolution_payload env input = Inr payload"
  obtains q where "\<And>d. getp (Obj payload) (domain_name d)
      = (if d = AutoStartOperations \<and> \<not> has_own (Obj input) ''autoStartOperations'' then Undef else q d)"
    and "strategy_of (fld input ''strategy'') = Some KeepRemote \<Longrightarrow> q = (\<lambda>_. Arr [])"
    and "\<And>d ids. \<lbrakk>strategy_of (fld input ''strategy'') \<noteq> Some KeepRemote; ids_of (fld input (domain_name d)) = Inr ids\<rbrakk>
      \<Longrightarrow> \<exists>items. q d = objs items \<and> (\<lambda>item. fld item ''id'') ` set items \<subseteq> set ids"
proof -
  let ?b = "has_own (Obj input) ''autoStartOperations''"
  obtain operations where ops: "resolution_operations env (fld input ''strategy'') input = Inr operations"
      and payload: "payload = map (\<lambda>k. (k, fld input k)) [''requestId'', ''deviceId'', ''expectedRevision'', ''strategy''] @ operations"
    using assms by (auto simp: build_resolution_payload_def res_simps)
  have shape: "getp (Obj payload) (domain_name d) = (if d = AutoStartOperations \<and> \<not> ?b then Undef else q d)"
    if "operations = payload_fields q ?b" for d q
    unfolding payload that getp_payload_fields by (cases d) auto
  show ?thesis
  proof (cases "strategy_of (fld input ''strategy'') = Some KeepRemote")
    case True
    then have "operations = payload_fields (\<lambda>_. Arr []) ?b"
      using ops by (simp add: resolution_operations_def Let_def)
    from that[OF shape[OF this]] True show ?thesis by simp
  next
    case False
    then obtain queues plan selected where queues: "operation_queues input = Inr queues"
        and sel: "selected_records plan queues = Inr selected"
        and operations: "operations = payload_fields (\<lambda>d. objs (encode_selected_batch selected d)) ?b"
      using ops by (auto simp: resolution_operations_def Let_def res_simps split: option.splits strategy.splits if_splits)
    have "(\<lambda>item. fld item ''id'') ` set (encode_selected_batch selected d) \<subseteq> set ids"
      if "ids_of (fld input (domain_name d)) = Inr ids" for d ids
    proof -
      have "objs_of (fld input (domain_name d)) = Inr (queues d)"
        using queues by (simp add: operation_queues_def res_simps)
      from objs_of_ids[OF this] that have "ids = map (\<lambda>item. fld item ''id'') (queues d)" by simp
      then show ?thesis
        using selected_records_sound[OF sel, of d] by (auto simp: encode_selected_batch_def)
    qed
    with that[OF shape[OF operations]] False show ?thesis by blast
  qed
qed

text \<open>
  A pending resolution names, for every queue, at least the operations it will send: the
  acknowledgement of its payload can be matched with retained work of this device. Keeping the
  remote history sends nothing and still names everything it will discard.
\<close>

theorem pending_names_payload:
  assumes "create_pending_resolution env input = Inr pending"
  shows "set (map (\<lambda>item. getp item ''id'') (list_if_array (getp (fld pending ''payload'') (domain_name d))))
      \<subseteq> set (list_if_array (getp (fld pending ''queueIds'') (domain_name d)))
    \<and> (strategy_of (fld input ''strategy'') = Some KeepRemote \<longrightarrow>
        list_if_array (getp (fld pending ''payload'') (domain_name d)) = []
        \<and> ids_of (fld input (domain_name d)) = Inr (list_if_array (getp (fld pending ''queueIds'') (domain_name d))))"
proof -
  from assms obtain payload queued sent where
      payload: "build_resolution_payload env input = Inr payload" and queued: "queue_ids input = Inr queued"
      and sent: "ids_of (fld payload ''commands'') = Inr sent"
      and pending: "pending = [(''userId'', fld input ''userId''), (''payload'', Obj payload), (''queueIds'',
        queues_value (\<lambda>d. Arr ((if strategy_of (fld input ''strategy'') = Some KeepRemote then queued
          else queued(Commands := sent)) d)))]"
    by (auto simp: create_pending_resolution_def Let_def res_simps)
  have ids: "ids_of (fld input (domain_name d)) = Inr (queued d)" for d
    using queued by (simp add: queue_ids_def res_simps)
  have named: "list_if_array (getp (fld pending ''queueIds'') (domain_name d)) =
      (if strategy_of (fld input ''strategy'') = Some KeepRemote then queued d else (queued(Commands := sent)) d)" for d
    by (simp add: pending list_if_array_def)
  have sent': "set (map (\<lambda>item. getp item ''id'') (list_if_array (fld payload ''commands''))) \<subseteq> set sent"
    using sent by (cases "fld payload ''commands''") (auto simp: list_if_array_def dest!: ids_of_Arr)
  obtain q where q: "\<And>d. getp (Obj payload) (domain_name d)
      = (if d = AutoStartOperations \<and> \<not> has_own (Obj input) ''autoStartOperations'' then Undef else q d)"
    and keep: "strategy_of (fld input ''strategy'') = Some KeepRemote \<Longrightarrow> q = (\<lambda>_. Arr [])"
    and other: "\<And>d ids. \<lbrakk>strategy_of (fld input ''strategy'') \<noteq> Some KeepRemote; ids_of (fld input (domain_name d)) = Inr ids\<rbrakk>
      \<Longrightarrow> \<exists>items. q d = objs items \<and> (\<lambda>item. fld item ''id'') ` set items \<subseteq> set ids"
    using resolution_payload_shape[OF payload] by blast
  have sent_payload: "fld pending ''payload'' = Obj payload" by (simp add: pending)
  show ?thesis
  proof (cases "strategy_of (fld input ''strategy'') = Some KeepRemote")
    case True
    then show ?thesis using q keep named ids by (simp add: sent_payload list_if_array_def)
  next
    case False
    then obtain items where items: "q d = objs items" "(\<lambda>item. fld item ''id'') ` set items \<subseteq> set (queued d)"
      using other[OF False ids] by blast
    have names: "list_if_array (getp (fld pending ''queueIds'') (domain_name d)) = (if d = Commands then sent else queued d)"
      using named[of d] False by simp
    show ?thesis
    proof (cases "d = Commands")
      case True
      then show ?thesis using names sent' False by (simp add: sent_payload)
    next
      case other_domain: False
      have "list_if_array (getp (Obj payload) (domain_name d)) = map Obj items \<or> getp (Obj payload) (domain_name d) = Undef"
        using q[of d] items(1) by (simp add: list_if_array_def objs_def)
      then show ?thesis
        using names False other_domain items(2)
        by (auto simp: sent_payload list_if_array_def[of Undef] image_subset_iff)
    qed
  qed
qed

definition pending_sample :: obj where
  "pending_sample = (case create_pending_resolution planner_env sample_operations of Inr p \<Rightarrow> p | Inl _ \<Rightarrow> [])"

theorem pending_names_payload_witness:
  "getp (fld pending_sample ''payload'') ''taskOperations'' = Arr [Obj (task_request_operation (sample_task_op ''op-2''))]
   \<and> set (map (\<lambda>item. getp item ''id'') (list_if_array (getp (fld pending_sample ''payload'') (domain_name TaskOperations))))
      \<subseteq> {Str ''op-1'', Str ''op-2''}"
proof -
  have "create_pending_resolution planner_env sample_operations = Inr pending_sample" by code_simp
  from pending_names_payload[OF this, THEN conjunct1, of TaskOperations]
  have "set (map (\<lambda>item. getp item ''id'') (list_if_array (getp (fld pending_sample ''payload'') (domain_name TaskOperations))))
      \<subseteq> set (list_if_array (getp (fld pending_sample ''queueIds'') (domain_name TaskOperations)))" .
  moreover have "list_if_array (getp (fld pending_sample ''queueIds'') (domain_name TaskOperations)) = [Str ''op-1'', Str ''op-2'']"
    by code_simp
  moreover have "getp (fld pending_sample ''payload'') ''taskOperations'' = Arr [Obj (task_request_operation (sample_task_op ''op-2''))]"
    by code_simp
  ultimately show ?thesis by simp
qed

end
