(* ===== verification/Transport.thy ===== *)
theory Transport
  imports Effects
begin

text \<open>
  \<open>postJSONWithCsrfRetry\<close> of \<open>web/sync-core.js\<close>: a request, sent once more with a fresh token if
  the server rejects the first one's. Everything it is given (the account check, the clock, the
  request sequence, the network, the refresh of the token) is code of its own that may change
  the world \<open>'w\<close> and end with an \<open>'e\<close> (of which \<open>p_throw\<close> makes one from an error);
  \<open>None\<close> where the code tests for a missing callback.
\<close>

section \<open>The input\<close>

record response =
  r_status :: int
  r_body :: jv

record ('w, 'e) post_input =
  p_url :: string
  p_headers :: obj
  p_body :: jv
  p_csrf :: jv
  p_current :: "('w, 'e, unit) eff option"
  p_sequence :: "('w, 'e, jv) eff"
  p_now :: "('w, 'e, jv) eff"
  p_fetch :: "string \<Rightarrow> obj \<Rightarrow> jv \<Rightarrow> ('w, 'e, response) eff"
  p_refresh :: "('w, 'e, jv) eff"
  p_throw :: "js_error \<Rightarrow> 'e"
  p_timing :: "(jv \<Rightarrow> ('w, 'e, unit) eff) option"

text \<open>\<open>input.assertCurrent?.()\<close>\<close>

definition check_current :: "('w, 'e) post_input \<Rightarrow> ('w, 'e, unit) eff" where
  "check_current i = (case p_current i of None \<Rightarrow> ret () | Some check \<Rightarrow> check)"

definition report_timing :: "('w, 'e) post_input \<Rightarrow> jv \<Rightarrow> ('w, 'e, unit) eff" where
  "report_timing i timing = (case p_timing i of None \<Rightarrow> ret () | Some report \<Rightarrow> report timing)"

definition request_headers :: "('w, 'e) post_input \<Rightarrow> jv \<Rightarrow> obj" where
  "request_headers i csrf = spread (p_headers i) [(''Content-Type'', Str ''application/json''), (''X-CSRF-Token'', csrf)]"

definition send :: "('w, 'e) post_input \<Rightarrow> jv \<Rightarrow> ('w, 'e, response) eff" where
  "send i csrf =
     bindw (check_current i) (\<lambda>_.
     bindw (p_sequence i) (\<lambda>number.
     bindw (check_current i) (\<lambda>_.
     bindw (p_now i) (\<lambda>requested.
     bindw (check_current i) (\<lambda>_.
     bindw (p_fetch i (p_url i) (request_headers i csrf) (p_body i)) (\<lambda>response.
     bindw (check_current i) (\<lambda>_.
     bindw (p_now i) (\<lambda>received.
     bindw (check_current i) (\<lambda>_.
     bindw (report_timing i (Obj [(''requestAtMs'', requested), (''receivedAtMs'', received),
       (''requestSequence'', number)])) (\<lambda>_.
     ret response))))))))))"

definition post_json_with_csrf_retry :: "('w, 'e) post_input \<Rightarrow> ('w, 'e, response) eff" where
  "post_json_with_csrf_retry i =
     bindw (send i (p_csrf i)) (\<lambda>response.
     bindw (check_current i) (\<lambda>_.
     if r_status response \<noteq> 403 then ret response
     else
       bindw (check_current i) (\<lambda>_.
       bindw (p_refresh i) (\<lambda>token.
       bindw (check_current i) (\<lambda>_.
       bindw (require (nonempty_string token) (p_throw i (Error ''CSRF refresh failed.''))) (\<lambda>_.
       bindw (send i token) (\<lambda>response.
       bindw (check_current i) (\<lambda>_.
       ret response))))))))"

section \<open>A record of the requests\<close>

text \<open>What was sent, whether the account check holds in the world it is sent in, and the answer.\<close>

record 'e sent_request =
  s_url :: string
  s_token :: jv
  s_body :: jv
  s_live :: bool
  s_answer :: "'e + response"

definition unlogged :: "('w, 'e, 'a) eff \<Rightarrow> ('w \<times> 'l, 'e, 'a) eff" where
  "unlogged m = (\<lambda>(w, l). case m w of (r, w') \<Rightarrow> (r, (w', l)))"

definition logged_input :: "('w \<Rightarrow> bool) \<Rightarrow> ('w, 'e) post_input \<Rightarrow> ('w \<times> 'e sent_request list, 'e) post_input" where
  "logged_input live i = \<lparr>p_url = p_url i, p_headers = p_headers i, p_body = p_body i, p_csrf = p_csrf i,
     p_current = map_option unlogged (p_current i), p_sequence = unlogged (p_sequence i),
     p_now = unlogged (p_now i),
     p_fetch = (\<lambda>url headers body (w, l). case p_fetch i url headers body w of (r, w') \<Rightarrow>
       (r, (w', l @ [\<lparr>s_url = url, s_token = fld headers ''X-CSRF-Token'', s_body = body, s_live = live w, s_answer = r\<rparr>]))),
     p_refresh = unlogged (p_refresh i), p_throw = p_throw i, p_timing = map_option (\<lambda>f t. unlogged (f t)) (p_timing i)\<rparr>"

text \<open>The account check is a test of the world that does not change it.\<close>

definition checks :: "('w, 'e) post_input \<Rightarrow> ('w \<Rightarrow> bool) \<Rightarrow> bool" where
  "checks i live \<longleftrightarrow> (\<forall>w. check_current i w = (Inr (), w) \<and> live w
     \<or> (\<exists>e. check_current i w = (Inl e, w)) \<and> \<not> live w)"

lemma unlogged_run: "unlogged m (w, l) = (fst (m w), (snd (m w), l))"
  by (simp add: unlogged_def split: prod.splits)

lemma check_logged: "check_current (logged_input live i) = unlogged (check_current i)"
  by (auto simp: check_current_def logged_input_def unlogged_def ret_def split: option.splits prod.splits)

lemma timing_logged: "report_timing (logged_input live i) t = unlogged (report_timing i t)"
  by (auto simp: report_timing_def logged_input_def unlogged_def ret_def split: option.splits prod.splits)

lemma checked_step:
  assumes "checks i live"
  shows "bindw (check_current (logged_input live i)) f (w, l)
    = (if live w then f () (w, l) else (Inl (projl (fst (check_current i w))), (w, l)))"
  using assms[unfolded checks_def, rule_format, of w]
  by (auto simp: check_logged bindw_def unlogged_run)

lemma pure_step:
  "bindw (unlogged m) f (w, l) = (case m w of (Inl e, w') \<Rightarrow> (Inl e, (w', l)) | (Inr a, w') \<Rightarrow> f a (w', l))"
  by (simp add: bindw_def unlogged_run split: prod.splits sum.splits)

lemma logged_fields [simp]:
  "p_sequence (logged_input live i) = unlogged (p_sequence i)" "p_now (logged_input live i) = unlogged (p_now i)"
  "p_refresh (logged_input live i) = unlogged (p_refresh i)" "p_csrf (logged_input live i) = p_csrf i"
  "p_url (logged_input live i) = p_url i" "p_throw (logged_input live i) = p_throw i" "p_body (logged_input live i) = p_body i"
  "request_headers (logged_input live i) = request_headers i"
  by (simp_all add: logged_input_def request_headers_def fun_eq_iff)

definition entry_ok :: "('w, 'e) post_input \<Rightarrow> jv \<Rightarrow> 'e sent_request \<Rightarrow> bool" where
  "entry_ok i token e \<longleftrightarrow> s_url e = p_url i \<and> s_token e = token \<and> s_body e = p_body i \<and> s_live e"

lemma token_header: "fld (request_headers i token) ''X-CSRF-Token'' = token"
  by (simp add: request_headers_def)

text \<open>One attempt sends at most one request, and a result is the answer to it.\<close>

lemma send_once:
  assumes "checks i live" and "send (logged_input live i) token (w, l) = (r, (w', l'))"
  shows "\<exists>es. l' = l @ es \<and> length es \<le> 1 \<and> (\<forall>e\<in>set es. entry_ok i token e)
    \<and> (\<forall>a. r = Inr a \<longrightarrow> (\<exists>e. es = [e] \<and> s_answer e = Inr a))"
proof -
  have fetch: "p_fetch (logged_input live i) url headers body (w, l) = (case p_fetch i url headers body w of (r, w') \<Rightarrow>
      (r, (w', l @ [\<lparr>s_url = url, s_token = fld headers ''X-CSRF-Token'', s_body = body, s_live = live w, s_answer = r\<rparr>])))"
    for url headers body w l by (simp add: logged_input_def)
  have after: "bindw (p_fetch (logged_input live i) (p_url i) (request_headers i token) (p_body i)) f (w, l)
      = (case p_fetch i (p_url i) (request_headers i token) (p_body i) w of
          (Inl e, w') \<Rightarrow> (Inl e, (w', l @ [\<lparr>s_url = p_url i, s_token = token, s_body = p_body i, s_live = live w, s_answer = Inl e\<rparr>]))
        | (Inr a, w') \<Rightarrow> f a (w', l @ [\<lparr>s_url = p_url i, s_token = token, s_body = p_body i, s_live = live w, s_answer = Inr a\<rparr>]))"
    for f w l by (simp add: bindw_def fetch token_header split: prod.splits sum.splits)
  show ?thesis
    using assms(2)
    by (auto simp: send_def checked_step[OF assms(1)] pure_step after timing_logged entry_ok_def ret_def
        split: if_splits prod.splits sum.splits)
qed

text \<open>
  C17: A request is repeated at most once, and only after the server rejected the first one with
  403: the second carries the token the refresh returned, a non-empty text, and the same address
  and body as the first. Every request is sent while the account it was built for is current, and
  a result is the answer to the last request, checked again after it arrived.
\<close>

theorem csrf_retry_sends:
  assumes "checks i live"
    and "post_json_with_csrf_retry (logged_input live i) (w, []) = (r, (w', sent))"
  shows "(case sent of
      [] \<Rightarrow> \<exists>e. r = Inl e
    | [first] \<Rightarrow> entry_ok i (p_csrf i) first
        \<and> (\<forall>a. r = Inr a \<longrightarrow> s_answer first = Inr a \<and> r_status a \<noteq> 403 \<and> live w')
    | [first, second] \<Rightarrow> entry_ok i (p_csrf i) first
        \<and> (\<exists>a. s_answer first = Inr a \<and> r_status a = 403)
        \<and> entry_ok i (s_token second) second \<and> nonempty_string (s_token second)
        \<and> (\<exists>v v'. p_refresh i v = (Inr (s_token second), v'))
        \<and> (\<forall>a. r = Inr a \<longrightarrow> s_answer second = Inr a \<and> live w')
    | _ \<Rightarrow> False)"
proof -
  let ?i = "logged_input live i"
  note step = checked_step[OF assms(1)]
  obtain r1 w1 l1 where s1: "send ?i (p_csrf i) (w, []) = (r1, (w1, l1))" by (metis surj_pair)
  from send_once[OF assms(1) s1] have once1: "length l1 \<le> 1" "\<forall>e\<in>set l1. entry_ok i (p_csrf i) e"
      and ans1: "\<And>a. r1 = Inr a \<Longrightarrow> \<exists>e. l1 = [e] \<and> s_answer e = Inr a"
    by auto
  have run: "post_json_with_csrf_retry ?i (w, []) = (case r1 of Inl e \<Rightarrow> (Inl e, (w1, l1)) | Inr a \<Rightarrow>
      if \<not> live w1 then (Inl (projl (fst (check_current i w1))), (w1, l1))
      else if r_status a \<noteq> 403 then (Inr a, (w1, l1))
      else (case p_refresh i w1 of (Inl e, w2) \<Rightarrow> (Inl e, (w2, l1)) | (Inr token, w2) \<Rightarrow>
        if \<not> live w2 then (Inl (projl (fst (check_current i w2))), (w2, l1))
        else if \<not> nonempty_string token then (Inl (p_throw i (Error ''CSRF refresh failed.'')), (w2, l1))
        else (case send ?i token (w2, l1) of (Inl e, (w3, l3)) \<Rightarrow> (Inl e, (w3, l3))
          | (Inr b, (w3, l3)) \<Rightarrow> if live w3 then (Inr b, (w3, l3))
              else (Inl (projl (fst (check_current i w3))), (w3, l3)))))"
    by (simp add: post_json_with_csrf_retry_def bindw_def[of "send _ _"] s1 step pure_step bindw_def[of "require _ _"]
        require_def ret_def split: sum.split prod.split)
  show ?thesis
  proof (cases "\<exists>a token w2. r1 = Inr a \<and> live w1 \<and> r_status a = 403 \<and> p_refresh i w1 = (Inr token, w2)
      \<and> live w2 \<and> nonempty_string token")
    case False
    then have "sent = l1 \<and> (\<forall>b. r = Inr b \<longrightarrow> r1 = Inr b \<and> r_status b \<noteq> 403 \<and> live w')"
      using assms(2) run by (auto split: sum.splits prod.splits if_splits)
    then show ?thesis
      using once1 ans1 by (cases l1; cases r) (auto split: list.splits)
  next
    case True
    then obtain a token w2 where a: "r1 = Inr a" "live w1" "r_status a = 403" "p_refresh i w1 = (Inr token, w2)"
        "live w2" "nonempty_string token" by blast
    obtain r3 w3 l3 where s3: "send ?i token (w2, l1) = (r3, (w3, l3))" by (metis surj_pair)
    obtain e where e: "l1 = [e]" "s_answer e = Inr a" using ans1[OF a(1)] by blast
    from send_once[OF assms(1) s3] obtain es where es: "l3 = l1 @ es" "length es \<le> 1" "\<forall>e\<in>set es. entry_ok i token e"
        "\<And>b. r3 = Inr b \<Longrightarrow> \<exists>e. es = [e] \<and> s_answer e = Inr b" by auto
    have out: "sent = l3 \<and> (\<forall>b. r = Inr b \<longrightarrow> r3 = Inr b \<and> live w')"
      using assms(2) a s3 by (auto simp: run split: sum.splits if_splits)
    show ?thesis
    proof (cases es)
      case Nil
      with es(4) out have "\<exists>x. r = Inl x" by (cases r) auto
      with Nil out es(1) e once1 a show ?thesis by auto
    next
      case (Cons f fs)
      then have f: "es = [f]" "entry_ok i token f" "s_token f = token" using es by (auto simp: entry_ok_def)
      with out es e once1 a show ?thesis by (cases r) (auto dest: es(4))
    qed
  qed
qed

text \<open>An account that ends at time 10, a server that accepts the token \<open>fresh\<close>.\<close>

definition sample_post :: "(nat, js_error) post_input" where
  "sample_post = \<lparr>p_url = ''/api/v1/sync'', p_headers = [], p_body = Str ''body'', p_csrf = Str ''stale'',
     p_current = Some (\<lambda>t. (if t < 10 then Inr () else Inl (AccountOwnershipError ''changed''), t)),
     p_sequence = (\<lambda>t. (Inr (jint 1), t)), p_now = (\<lambda>t. (Inr (jint (int t)), t + 1)),
     p_fetch = (\<lambda>_ headers _ t. (Inr \<lparr>r_status = (if fld headers ''X-CSRF-Token'' = Str ''fresh'' then 200 else 403),
       r_body = Null\<rparr>, t + 1)),
     p_refresh = (\<lambda>t. (Inr (Str ''fresh''), t)), p_throw = (\<lambda>e. e), p_timing = None\<rparr>"

definition posted_requests :: "js_error sent_request list" where
  "posted_requests = map (\<lambda>(token, status). \<lparr>s_url = ''/api/v1/sync'', s_token = Str token, s_body = Str ''body'',
     s_live = True, s_answer = Inr \<lparr>r_status = status, r_body = Null\<rparr>\<rparr>) [(''stale'', 403), (''fresh'', 200)]"

theorem csrf_retry_sends_witness:
  "post_json_with_csrf_retry (logged_input (\<lambda>t. t < 10) sample_post) (0, [])
     = (Inr \<lparr>r_status = 200, r_body = Null\<rparr>, (6, posted_requests))
   \<and> nonempty_string (s_token (posted_requests ! 1))"
proof -
  have run: "post_json_with_csrf_retry (logged_input (\<lambda>t. t < 10) sample_post) (0, [])
     = (Inr \<lparr>r_status = 200, r_body = Null\<rparr>, (6, posted_requests))"
    by code_simp
  have "checks sample_post (\<lambda>t. t < 10)"
    by (simp add: checks_def check_current_def sample_post_def)
  from csrf_retry_sends[OF this run] show ?thesis
    using run by (simp add: posted_requests_def)
qed

end
