(* ===== verification/Sw.thy ===== *)
theory Sw
  imports SharedCore
begin

text \<open>
  \<open>web/sw.js\<close>, the service worker: the shell it caches, its installation and activation, and how
  it answers requests. The browser's caches are kept in the order of their creation, as
  \<open>caches.match\<close> searches them; an entry is found by the address of its request, path and query
  on the worker's own origin. The network is a parameter: \<open>None\<close> where \<open>fetch\<close> throws.
\<close>

section \<open>The shell\<close>

definition CACHE_PREFIX :: string where
  "CACHE_PREFIX = ''pomodorough-shell-''"

definition CACHE_NAME :: string where
  "CACHE_NAME = ''pomodorough-shell-v72-'' @ CACHE_VERSION"

definition SHELL :: "string list" where
  "SHELL =
     [''/'', ''/index.html'', ''/privacy'', ''/landing.css?v=2'', ''/platform-selector.js?v=1'', ''/landing.js?v=1'',
      ''/app'', ''/app.css?v=22'', ''/shared-core-metadata.js?v=5'', ''/shared-core.js?v=7'', CORE_URL,
      ''/sync-core.js?v=28'', ''/sync-authority.js?v=1'', ''/sync-storage-uuid.js?v=1'', ''/workspace-core.js?v=2'',
      ''/workspace-transaction.js?v=4'', ''/sync-storage.js?v=35'', ''/i18n.js?v=5'', ''/locales/en.json?v=4'',
      ''/locales/ar-XB.json?v=4'', ''/app-runtime.js?v=1'', ''/account-operation.js?v=1'', ''/app-state.js?v=10'',
      ''/app-storage.js?v=14'', ''/app-actions.js?v=12'', ''/app-sync.js?v=9'', ''/app-bootstrap.js?v=7'',
      ''/app-session.js?v=9'', ''/app-view.js?v=12'', ''/app.js?v=46'', ''/manifest.webmanifest'', ''/icon.svg'']"

section \<open>Requests, responses, caches\<close>

record request =
  q_method :: string
  q_same_origin :: bool
  q_path :: string
  q_search :: string
  q_navigate :: bool

definition address :: "request \<Rightarrow> string" where
  "address q = q_path q @ q_search q"

record stored_response =
  r_ok :: bool
  r_basic :: bool
  r_text :: string

type_synonym cache = "(string \<times> stored_response) list"
type_synonym caches = "(string \<times> cache) list"
type_synonym network = "request \<Rightarrow> stored_response option"

text \<open>What happens to a request: the browser handles it, it is answered, or it fails.\<close>

datatype answer = Unhandled | Answered stored_response | Failed

definition of_network :: "stored_response option \<Rightarrow> answer" where
  "of_network r = (case r of None \<Rightarrow> Failed | Some r \<Rightarrow> Answered r)"

fun put_entry :: "string \<Rightarrow> stored_response \<Rightarrow> cache \<Rightarrow> cache" where
  "put_entry u r [] = [(u, r)]"
| "put_entry u r ((v, s) # c) = (if u = v then (u, r) # c else (v, s) # put_entry u r c)"

text \<open>\<open>caches.open(name)\<close>, which creates the cache, and an update of the opened cache.\<close>

definition open_cache :: "string \<Rightarrow> caches \<Rightarrow> caches" where
  "open_cache name cs = (if name \<in> set (map fst cs) then cs else cs @ [(name, [])])"

definition update_cache :: "string \<Rightarrow> (cache \<Rightarrow> cache) \<Rightarrow> caches \<Rightarrow> caches" where
  "update_cache name f cs = map (\<lambda>(n, c). (n, if n = name then f c else c)) (open_cache name cs)"

fun match_caches :: "string \<Rightarrow> caches \<Rightarrow> stored_response option" where
  "match_caches u [] = None"
| "match_caches u ((_, c) # cs) = (case map_of c u of Some r \<Rightarrow> Some r | None \<Rightarrow> match_caches u cs)"

definition shell_request :: "string \<Rightarrow> request" where
  "shell_request u = \<lparr>q_method = ''GET'', q_same_origin = True, q_path = takeWhile (\<lambda>c. c \<noteq> CHR ''?'') u,
     q_search = dropWhile (\<lambda>c. c \<noteq> CHR ''?'') u, q_navigate = False\<rparr>"

section \<open>Installation and activation\<close>

text \<open>\<open>cache.addAll(SHELL)\<close>: every response must arrive and be a success, else nothing is added.\<close>

definition fetch_all :: "network \<Rightarrow> (string \<times> stored_response) list option" where
  "fetch_all net = those (map (\<lambda>u. case net (shell_request u) of
     Some r \<Rightarrow> if r_ok r then Some (u, r) else None | None \<Rightarrow> None) SHELL)"

definition install_shell :: "network \<Rightarrow> caches \<Rightarrow> bool \<times> caches" where
  "install_shell net cs = (case fetch_all net of
     None \<Rightarrow> (False, open_cache CACHE_NAME cs)
   | Some entries \<Rightarrow> (True, update_cache CACHE_NAME (\<lambda>c. foldl (\<lambda>c (u, r). put_entry u r c) c entries) cs))"

definition stale_shell :: "string \<Rightarrow> bool" where
  "stale_shell name \<longleftrightarrow> take (length CACHE_PREFIX) name = CACHE_PREFIX \<and> name \<noteq> CACHE_NAME"

text \<open>The caches after the activation, and the windows that are told to load again.\<close>

definition activate_shell :: "string list \<Rightarrow> caches \<Rightarrow> caches \<times> string list" where
  "activate_shell windows cs =
     (filter (\<lambda>(n, _). \<not> stale_shell n) cs,
      if filter stale_shell (map fst cs) = [] then [] else windows)"

section \<open>Requests\<close>

definition starts_with :: "string \<Rightarrow> string \<Rightarrow> bool" where
  "starts_with s prefix \<longleftrightarrow> take (length prefix) s = prefix"

definition network_first_navigation :: "network \<Rightarrow> caches \<Rightarrow> request \<Rightarrow> answer" where
  "network_first_navigation net cs q = (case net q of
     Some r \<Rightarrow> Answered r
   | None \<Rightarrow>
       if q_path q = ''/'' \<or> q_path q = ''/index.html'' then of_network (match_caches (q_path q) cs)
       else if q_path q \<noteq> ''/app'' \<and> \<not> starts_with (q_path q) ''/app/'' then Failed
       else of_network (match_caches ''/app'' cs))"

definition cache_first :: "network \<Rightarrow> caches \<Rightarrow> request \<Rightarrow> answer \<times> caches" where
  "cache_first net cs q = (case match_caches (address q) cs of
     Some r \<Rightarrow> (Answered r, cs)
   | None \<Rightarrow> (case net q of
       None \<Rightarrow> (Failed, cs)
     | Some r \<Rightarrow> (Answered r, if r_ok r \<and> r_basic r then update_cache CACHE_NAME (put_entry (address q) r) cs else cs)))"

definition handle_fetch :: "network \<Rightarrow> caches \<Rightarrow> request \<Rightarrow> answer \<times> caches" where
  "handle_fetch net cs q =
     (if q_method q \<noteq> ''GET'' \<or> \<not> q_same_origin q then (Unhandled, cs)
      else if starts_with (q_path q) ''/api/'' \<or> starts_with (q_path q) ''/auth/'' then (of_network (net q), cs)
      else if q_navigate q then (network_first_navigation net cs q, cs)
      else if address q \<notin> set SHELL then (of_network (net q), cs)
      else cache_first net cs q)"

section \<open>What the caches can become\<close>

text \<open>The worker's events, in any order and over any network.\<close>

inductive worker_event :: "caches \<Rightarrow> caches \<Rightarrow> bool" where
  Install: "worker_event cs (snd (install_shell net cs))"
| Activate: "worker_event cs (fst (activate_shell windows cs))"
| Fetch: "worker_event cs (snd (handle_fetch net cs q))"

text \<open>The current shell holds addresses of the shell only; every other cache is left as it is.\<close>

definition shell_only :: "caches \<Rightarrow> bool" where
  "shell_only cs \<longleftrightarrow> list_all (\<lambda>(n, c). n = CACHE_NAME \<longrightarrow> list_all (\<lambda>(u, r). u \<in> set SHELL \<and> r_ok r) c) cs"

definition complete_shell :: "caches \<Rightarrow> bool" where
  "complete_shell cs \<longleftrightarrow> list_ex (\<lambda>(n, c). n = CACHE_NAME \<and> set SHELL \<subseteq> fst ` set c) cs"

lemma put_entry_map_of [simp]: "map_of (put_entry u r c) = (map_of c)(u \<mapsto> r)"
  by (induction c) (auto simp: fun_eq_iff)

lemma put_entry_all: "P (u, r) \<Longrightarrow> list_all P c \<Longrightarrow> list_all P (put_entry u r c)"
  by (induction c) auto

lemma put_entries_all: "list_all P es \<Longrightarrow> list_all P c \<Longrightarrow> list_all P (foldl (\<lambda>c (u, r). put_entry u r c) c es)"
  by (induction es arbitrary: c) (auto intro: put_entry_all)

lemma put_entry_keys [simp]: "fst ` set (put_entry u r c) = insert u (fst ` set c)"
proof (induction c)
  case (Cons e c)
  then show ?case by (cases e) (auto simp only: put_entry.simps list.simps image_insert fst_conv split: if_splits)
qed simp

lemma put_entries_keys [simp]:
  "fst ` set (foldl (\<lambda>c (u, r). put_entry u r c) c es) = fst ` set es \<union> fst ` set c"
proof (induction es arbitrary: c)
  case (Cons e es)
  then show ?case by (cases e) (simp add: insert_commute)
qed simp

lemma open_cache_shell_only: "shell_only cs \<Longrightarrow> shell_only (open_cache n cs)"
  by (auto simp: shell_only_def open_cache_def list_all_iff)

lemma update_cache_shell_only:
  assumes "shell_only cs"
    and "\<And>c. list_all (\<lambda>(u, r). u \<in> set SHELL \<and> r_ok r) c \<Longrightarrow> list_all (\<lambda>(u, r). u \<in> set SHELL \<and> r_ok r) (f c)"
  shows "shell_only (update_cache CACHE_NAME f cs)"
proof -
  have "shell_only (open_cache CACHE_NAME cs)" by (rule open_cache_shell_only[OF assms(1)])
  then show ?thesis
    using assms(2) unfolding shell_only_def update_cache_def list_all_iff by fastforce
qed

lemma fetch_all_entries:
  assumes "fetch_all net = Some es"
  shows "map fst es = SHELL" "list_all (\<lambda>(u, r). u \<in> set SHELL \<and> r_ok r) es"
proof -
  have "map fst es = us \<and> list_all (\<lambda>(u, r). u \<in> set us \<and> r_ok r) es"
    if "those (map (\<lambda>u. case net (shell_request u) of
     Some r \<Rightarrow> if r_ok r then Some (u, r) else None | None \<Rightarrow> None) us) = Some es" for us
    using that by (induction us arbitrary: es) (fastforce simp: list_all_iff split: option.splits if_splits)+
  with assms show "map fst es = SHELL" "list_all (\<lambda>(u, r). u \<in> set SHELL \<and> r_ok r) es"
    by (simp_all add: fetch_all_def)
qed

text \<open>
  Whatever happens, the current shell never holds anything but successful responses for the
  addresses of the shell: no answer of the API or of the sign-in pages, and no page of a user, is
  ever stored for offline use.
\<close>

theorem shell_cache_clean:
  assumes "worker_event\<^sup>*\<^sup>* cs cs'" "shell_only cs"
  shows "shell_only cs'"
  using assms
proof (induction rule: rtranclp_induct)
  case (step cs1 cs2)
  from step.hyps(2) step.IH[OF step.prems] show ?case
  proof cases
    case (Install net)
    then show ?thesis using step.IH[OF step.prems] open_cache_shell_only
      by (auto simp: install_shell_def split: option.split
          intro!: update_cache_shell_only put_entries_all dest: fetch_all_entries)
  next
    case (Activate windows)
    then show ?thesis using step.IH[OF step.prems] by (auto simp: activate_shell_def shell_only_def list_all_iff)
  next
    case (Fetch net q)
    then show ?thesis using step.IH[OF step.prems]
      by (auto simp: handle_fetch_def cache_first_def split: option.splits
          intro!: update_cache_shell_only put_entry_all)
  qed
qed simp

lemma activate_keeps_shell: "complete_shell cs \<Longrightarrow> complete_shell (fst (activate_shell windows cs))"
  by (auto simp: complete_shell_def activate_shell_def stale_shell_def list_ex_iff)

lemma update_keeps_complete:
  assumes "complete_shell cs" "\<And>c. fst ` set c \<subseteq> fst ` set (f c)"
  shows "complete_shell (update_cache CACHE_NAME f cs)"
proof -
  from assms(1) obtain c where c: "(CACHE_NAME, c) \<in> set cs" "set SHELL \<subseteq> fst ` set c"
    by (auto simp: complete_shell_def list_ex_iff simp del: set_map)
  then have "(CACHE_NAME, f c) \<in> set (update_cache CACHE_NAME f cs)"
    by (force simp: update_cache_def open_cache_def)
  moreover have "set SHELL \<subseteq> fst ` set (f c)"
    using c(2) assms(2) by blast
  ultimately show ?thesis unfolding complete_shell_def list_ex_iff by blast
qed

lemma install_completes:
  assumes "fst (install_shell net cs)"
  shows "complete_shell (snd (install_shell net cs))"
proof -
  from assms obtain es where es: "fetch_all net = Some es" by (auto simp: install_shell_def split: option.splits)
  have all: "set SHELL \<subseteq> fst ` set (foldl (\<lambda>c (u, r). put_entry u r c) c es)" for c
    using fetch_all_entries(1)[OF es] by (metis put_entries_keys Un_upper1 list.set_map)
  have "CACHE_NAME \<in> fst ` set (open_cache CACHE_NAME cs)"
    by (simp add: open_cache_def)
  then obtain c where "(CACHE_NAME, c) \<in> set (open_cache CACHE_NAME cs)"
    by (metis imageE prod.collapse)
  then have "(CACHE_NAME, foldl (\<lambda>c (u, r). put_entry u r c) c es) \<in> set (snd (install_shell net cs))"
    by (force simp: install_shell_def es update_cache_def)
  with all show ?thesis unfolding complete_shell_def list_ex_iff by blast
qed

lemma install_keeps_complete: "complete_shell cs \<Longrightarrow> complete_shell (snd (install_shell net cs))"
proof (cases "fetch_all net")
  case None
  assume "complete_shell cs"
  with None show ?thesis by (auto simp: install_shell_def complete_shell_def open_cache_def list_ex_iff)
next
  case (Some es)
  then have "fst (install_shell net cs)" by (simp add: install_shell_def)
  then show ?thesis by (rule install_completes)
qed

lemma fetch_keeps_complete: "complete_shell cs \<Longrightarrow> complete_shell (snd (handle_fetch net cs q))"
proof -
  assume cs: "complete_shell cs"
  have "complete_shell (update_cache CACHE_NAME (put_entry u r) cs)" for u r
    by (rule update_keeps_complete[OF cs]) (simp only: put_entry_keys, blast)
  with cs show ?thesis by (simp add: handle_fetch_def cache_first_def split: option.split)
qed

lemma event_keeps_complete: "worker_event cs cs' \<Longrightarrow> complete_shell cs \<Longrightarrow> complete_shell cs'"
  by (induction rule: worker_event.induct) (rule install_keeps_complete activate_keeps_shell fetch_keeps_complete, assumption)+

lemma complete_match: "complete_shell cs \<Longrightarrow> u \<in> set SHELL \<Longrightarrow> \<exists>r. match_caches u cs = Some r"
proof -
  assume "complete_shell cs" "u \<in> set SHELL"
  then obtain c where "(CACHE_NAME, c) \<in> set cs" "set SHELL \<subseteq> fst ` set c" "u \<in> set SHELL"
    by (auto simp only: complete_shell_def list_ex_iff split: prod.splits)
  then have "(CACHE_NAME, c) \<in> set cs" "u \<in> fst ` set c" by blast+
  then have "\<exists>p \<in> set cs. u \<in> fst ` set (snd p)" by force
  then show ?thesis
  proof (induction cs)
    case (Cons p cs)
    obtain n c where p: "p = (n, c)" by (cases p)
    show ?case
    proof (cases "map_of c u")
      case None
      then have "u \<notin> fst ` set c" by (simp add: map_of_eq_None_iff)
      with Cons.prems p have "\<exists>p \<in> set cs. u \<in> fst ` set (snd p)" by auto
      from Cons.IH[OF this] show ?thesis by (simp add: p None)
    qed (simp add: p)
  qed simp
qed

lemma app_path_not_server:
  "starts_with p ''/app/'' \<Longrightarrow> \<not> starts_with p ''/api/'' \<and> \<not> starts_with p ''/auth/''"
proof -
  assume "starts_with p ''/app/''"
  then obtain t where "p = ''/app/'' @ t"
    unfolding starts_with_def by (metis append_take_drop_id)
  then show ?thesis by (simp add: starts_with_def)
qed

text \<open>
  C21: Once an installation has succeeded, the application opens without a network, whatever
  events follow: a navigation to \<open>/app\<close> or below it, or to the landing page, is answered from
  the caches.
\<close>

theorem opens_offline:
  assumes "fst (install_shell net cs)" "worker_event\<^sup>*\<^sup>* (snd (install_shell net cs)) cs'"
    and "q_method q = ''GET''" "q_same_origin q" "q_navigate q"
    and "q_path q \<in> {''/'', ''/index.html'', ''/app''} \<or> starts_with (q_path q) ''/app/''"
  shows "\<exists>r. handle_fetch (\<lambda>_. None) cs' q = (Answered r, cs')"
proof -
  have "complete_shell cs'"
    using assms(2) by (induction rule: rtranclp_induct) (auto intro: install_completes[OF assms(1)] event_keeps_complete)
  moreover have "''/'' \<in> set SHELL" "''/index.html'' \<in> set SHELL" "''/app'' \<in> set SHELL"
    by (simp_all add: SHELL_def)
  ultimately have found: "\<exists>r. match_caches u cs' = Some r" if "u \<in> {''/'', ''/index.html'', ''/app''}" for u
    using that complete_match by blast
  have "\<not> starts_with u ''/api/'' \<and> \<not> starts_with u ''/auth/''" if "u \<in> {''/'', ''/index.html'', ''/app''}" for u
    using that by (auto simp: starts_with_def)
  then have outside: "\<not> starts_with (q_path q) ''/api/'' \<and> \<not> starts_with (q_path q) ''/auth/''"
    using assms(6) app_path_not_server by blast
  have handled: "handle_fetch (\<lambda>_. None) cs' q = (network_first_navigation (\<lambda>_. None) cs' q, cs')"
    using outside assms(3-5) by (simp add: handle_fetch_def)
  show ?thesis
  proof (cases "q_path q = ''/'' \<or> q_path q = ''/index.html''")
    case True
    then obtain r where "match_caches (q_path q) cs' = Some r" using found by blast
    with True show ?thesis unfolding handled by (simp only: network_first_navigation_def of_network_def option.case if_True, simp)
  next
    case False
    obtain r where "match_caches ''/app'' cs' = Some r" using found by blast
    moreover have "q_path q = ''/app'' \<or> starts_with (q_path q) ''/app/''" using False assms(6) by blast
    ultimately show ?thesis using False unfolding handled
      by (simp only: network_first_navigation_def of_network_def option.case if_False, simp)
  qed
qed

definition sample_net :: network where
  "sample_net q = Some \<lparr>r_ok = True, r_basic = True, r_text = address q\<rparr>"

theorem shell_cache_clean_witness:
  "shell_only (snd (handle_fetch sample_net [(CACHE_NAME, [])]
     \<lparr>q_method = ''GET'', q_same_origin = True, q_path = ''/api/v1/session'', q_search = [], q_navigate = False\<rparr>))"
proof (rule shell_cache_clean)
  show "worker_event\<^sup>*\<^sup>* [(CACHE_NAME, [])] (snd (handle_fetch sample_net [(CACHE_NAME, [])]
     \<lparr>q_method = ''GET'', q_same_origin = True, q_path = ''/api/v1/session'', q_search = [], q_navigate = False\<rparr>))"
    by (rule r_into_rtranclp) (rule Fetch)
qed (simp add: shell_only_def)

theorem opens_offline_witness:
  "\<exists>r. handle_fetch (\<lambda>_. None) (fst (activate_shell [] (snd (install_shell sample_net [(''pomodorough-shell-v71'', [])]))))
     \<lparr>q_method = ''GET'', q_same_origin = True, q_path = ''/app/tasks'', q_search = [], q_navigate = True\<rparr>
   = (Answered r, fst (activate_shell [] (snd (install_shell sample_net [(''pomodorough-shell-v71'', [])]))))"
proof (rule opens_offline)
  show "fst (install_shell sample_net [(''pomodorough-shell-v71'', [])])" by code_simp
  show "worker_event\<^sup>*\<^sup>* (snd (install_shell sample_net [(''pomodorough-shell-v71'', [])]))
      (fst (activate_shell [] (snd (install_shell sample_net [(''pomodorough-shell-v71'', [])]))))"
    by (rule r_into_rtranclp) (rule Activate)
qed (simp_all add: starts_with_def)

end
