(* ===== verification/Platform.thy ===== *)
theory Platform
  imports JsValue
begin

text \<open>
  \<open>web/platform-selector.js\<close>: the platform a user agent names and the release it is offered.
  The patterns ignore case; the user agent is a text, absent where it is empty.
\<close>

datatype platform = Android | IOS | IPadOS | MacOS | Windows | Linux | Unknown

record selection =
  g_id :: string
  g_name :: string
  g_label :: string
  g_href :: string

definition APPLE_RELEASE :: string where
  "APPLE_RELEASE = ''https://github.com/Pomodoro-Everywhere/pomodorough-apple/releases/latest''"

definition DESKTOP_RELEASE :: string where
  "DESKTOP_RELEASE = ''https://github.com/Pomodoro-Everywhere/pomodorough-desktop/releases/latest''"

definition ANDROID_RELEASE :: string where
  "ANDROID_RELEASE = ''https://github.com/Pomodoro-Everywhere/pomodorough-android/releases/latest''"

fun selections :: "platform \<Rightarrow> selection" where
  "selections Android = \<lparr>g_id = ''android'', g_name = ''Android'', g_label = ''Get Android app'', g_href = ANDROID_RELEASE\<rparr>"
| "selections IOS = \<lparr>g_id = ''ios'', g_name = ''iPhone or iPod'', g_label = ''Get Apple app'', g_href = APPLE_RELEASE\<rparr>"
| "selections IPadOS = \<lparr>g_id = ''ipados'', g_name = ''iPad'', g_label = ''Get Apple app'', g_href = APPLE_RELEASE\<rparr>"
| "selections MacOS = \<lparr>g_id = ''macos'', g_name = ''Mac'', g_label = ''Get macOS app'', g_href = APPLE_RELEASE\<rparr>"
| "selections Windows = \<lparr>g_id = ''windows'', g_name = ''Windows'', g_label = ''Get Windows app'', g_href = DESKTOP_RELEASE\<rparr>"
| "selections Linux = \<lparr>g_id = ''linux'', g_name = ''Linux'', g_label = ''Get Linux app'', g_href = DESKTOP_RELEASE\<rparr>"
| "selections Unknown = \<lparr>g_id = ''unknown'', g_name = ''Native apps'', g_label = ''View native apps'', g_href = ''#native-options''\<rparr>"

definition names :: "string \<Rightarrow> string \<Rightarrow> bool" where
  "names pattern agent \<longleftrightarrow> contains (lower pattern) (lower agent)"

definition detect_platform :: "string \<Rightarrow> jv \<Rightarrow> platform" where
  "detect_platform agent touch_points =
     (let touches = to_number touch_points in
      if names ''Android'' agent then Android
      else if names ''iPad'' agent then IPadOS
      else if names ''iPhone'' agent \<or> names ''iPod'' agent then IOS
      else if names ''Macintosh'' agent \<and> num_less (JInt 1) touches then IPadOS
      else if names ''Macintosh'' agent \<or> names ''Mac OS X'' agent then MacOS
      else if names ''Windows'' agent then Windows
      else if names ''Linux'' agent then Linux
      else Unknown)"

definition select_platform :: "string \<Rightarrow> jv \<Rightarrow> selection" where
  "select_platform agent touch_points = selections (detect_platform agent touch_points)"

text \<open>The order of the tests matters: an iPhone and an Android phone name other systems too.\<close>

lemma detect_samples:
  "detect_platform ''Mozilla/5.0 (Linux; Android 15)'' (jint 5) = Android"
  "detect_platform ''Mozilla/5.0 (iPhone; CPU iPhone OS 18_0 like Mac OS X)'' (jint 5) = IOS"
  "detect_platform ''Mozilla/5.0 (Macintosh; Intel Mac OS X 10_15_7)'' (jint 5) = IPadOS"
  "detect_platform ''Mozilla/5.0 (Macintosh; Intel Mac OS X 10_15_7)'' Undef = MacOS"
  by code_simp+

section \<open>The landing page\<close>

text \<open>
  \<open>web/landing.js\<close>: an installed page that opens the landing page goes to the application, with the query and
  the fragment it was opened with; another one offers the release of its platform, if the page has the three
  elements that show it.
\<close>

datatype landing = Departs string | Unchanged | Offers selection string

definition prepare_departure :: "bool \<Rightarrow> string \<Rightarrow> string \<Rightarrow> string \<Rightarrow> bool \<Rightarrow> bool \<Rightarrow> string \<Rightarrow> jv \<Rightarrow> landing" where
  "prepare_departure standalone path search fragment has_selector has_elements agent touch_points =
     (if standalone \<and> path = ''/'' then Departs (''/app'' @ search @ fragment)
      else if \<not> has_selector \<or> \<not> has_elements then Unchanged
      else let selection = select_platform agent touch_points in
        Offers selection (if g_id selection = ''unknown'' then ''Choose from available native apps below.''
          else ''Platform check suggests '' @ g_name selection @ ''. You still choose what opens.''))"

end
