(* ===== verification/SyncFlight.thy ===== *)
theory SyncFlight
  imports Runtime
begin

text \<open>
  The scheduling of synchronizations in \<open>web/app-sync.js\<close>: one operation at a time, callers that
  join it or wait for its end, the timer, and the delay between retries. Operations and
  waiting callers have the numbers of their promises; whether a context is current is what
  \<open>accountOperation.isCurrent\<close> answers at the moment, a parameter of each step. What an
  operation does is the subject of other theories: here it starts and settles.
\<close>

section \<open>State\<close>

definition RETRY_MAX_MS :: int where "RETRY_MAX_MS = timing_ms ''retryMax'' 60000"
definition RETRY_INITIAL_MS :: int where "RETRY_INITIAL_MS = timing_ms ''retryInitial'' 1000"

record 'c operation =
  o_number :: nat
  o_context :: 'c

text \<open>A caller waiting for the end of an operation (\<open>queueSyncCaller\<close>).\<close>

record 'c waiting =
  w_number :: nat
  w_after :: nat
  w_force :: bool
  w_context :: 'c

datatype 'c alarm = SyncAlarm bool 'c | RetryAlarm 'c

record 'c flight =
  f_operation :: "'c operation option"
  f_pending :: "nat option"
  f_waiting :: "'c waiting list"
  f_again :: bool
  f_again_force :: bool
  f_alarm :: "('c alarm \<times> int) option"
  f_delay :: int
  f_next :: nat

definition new_flight :: "'c flight" where
  "new_flight = \<lparr>f_operation = None, f_pending = None, f_waiting = [], f_again = False, f_again_force = False,
     f_alarm = None, f_delay = 1000, f_next = 0\<rparr>"

text \<open>What a caller of \<open>syncNow\<close> gets: a settled promise, an operation's, or its turn's.\<close>

datatype promise = Settled | OfOperation nat | OfTurn nat

section \<open>Operations\<close>

definition pending_of :: "'c flight \<Rightarrow> 'c waiting option" where
  "pending_of s = (case f_pending s of None \<Rightarrow> None | Some n \<Rightarrow> find (\<lambda>w. w_number w = n) (f_waiting s))"

definition queue_sync_caller :: "bool \<Rightarrow> 'c \<Rightarrow> nat \<Rightarrow> 'c flight \<Rightarrow> promise \<times> 'c flight" where
  "queue_sync_caller force c after s =
     (OfTurn (f_next s),
      s\<lparr>f_waiting := f_waiting s @ [\<lparr>w_number = f_next s, w_after = after, w_force = force, w_context = c\<rparr>],
        f_pending := Some (f_next s), f_next := f_next s + 1\<rparr>)"

text \<open>\<open>syncNow\<close> once no caller is waiting: join, wait, or reserve the operation.\<close>

definition start_or_join :: "('c \<Rightarrow> bool) \<Rightarrow> bool \<Rightarrow> 'c \<Rightarrow> 'c flight \<Rightarrow> promise \<times> 'c flight" where
  "start_or_join current force c s = (case f_operation s of
     Some p \<Rightarrow> if \<not> current (o_context p) then queue_sync_caller force c (o_number p) s
       else (OfOperation (o_number p), s\<lparr>f_again := True, f_again_force := f_again_force s \<or> force\<rparr>)
   | None \<Rightarrow> (OfOperation (f_next s),
       s\<lparr>f_operation := Some \<lparr>o_number = f_next s, o_context = c\<rparr>, f_next := f_next s + 1\<rparr>))"

definition join_pending :: "bool \<Rightarrow> 'c waiting \<Rightarrow> 'c flight \<Rightarrow> promise \<times> 'c flight" where
  "join_pending force w s = (OfTurn (w_number w), s\<lparr>f_waiting := map (\<lambda>v. if w_number v = w_number w
     then v\<lparr>w_force := w_force v \<or> force\<rparr> else v) (f_waiting s)\<rparr>)"

definition sync_now :: "('c \<Rightarrow> bool) \<Rightarrow> bool \<Rightarrow> 'c \<Rightarrow> 'c flight \<Rightarrow> promise \<times> 'c flight" where
  "sync_now current force c s =
     (if \<not> current c then (Settled, s)
      else case pending_of s of
        Some w \<Rightarrow> if current (w_context w) then join_pending force w s else start_or_join current force c s
      | None \<Rightarrow> start_or_join current force c s)"

definition schedule_sync :: "('c \<Rightarrow> bool) \<Rightarrow> int \<Rightarrow> bool \<Rightarrow> 'c \<Rightarrow> 'c flight \<Rightarrow> 'c flight" where
  "schedule_sync current delay force c s =
     (if \<not> current c then s else s\<lparr>f_alarm := Some (SyncAlarm force c, delay)\<rparr>)"

text \<open>The \<open>finally\<close> of an operation; \<open>retrying\<close> is the tab's state at that moment.\<close>

definition settle :: "('c \<Rightarrow> bool) \<Rightarrow> bool \<Rightarrow> 'c operation \<Rightarrow> 'c flight \<Rightarrow> 'c flight" where
  "settle current retrying p s =
     (if map_option o_number (f_operation s) \<noteq> Some (o_number p) then s
      else let s' = s\<lparr>f_operation := None, f_again := False, f_again_force := False\<rparr> in
        if f_again s \<and> \<not> retrying then schedule_sync current 0 (f_again_force s) (o_context p) s' else s')"

text \<open>The turn of a waiting caller (\<open>resume\<close>).\<close>

definition resume :: "('c \<Rightarrow> bool) \<Rightarrow> 'c waiting \<Rightarrow> 'c flight \<Rightarrow> 'c flight" where
  "resume current w s =
     (let s = s\<lparr>f_waiting := filter (\<lambda>v. w_number v \<noteq> w_number w) (f_waiting s),
            f_pending := (if f_pending s = Some (w_number w) then None else f_pending s)\<rparr>
      in if current (w_context w) then snd (sync_now current (w_force w) (w_context w) s) else s)"

definition schedule_retry :: "('c \<Rightarrow> bool) \<Rightarrow> bool \<Rightarrow> 'c \<Rightarrow> 'c flight \<Rightarrow> 'c flight" where
  "schedule_retry current online c s =
     (if \<not> current c \<or> \<not> online then s
      else s\<lparr>f_alarm := Some (RetryAlarm c, f_delay s), f_delay := min (f_delay s * 2) RETRY_MAX_MS\<rparr>)"

definition reset_sync_retry :: "'c flight \<Rightarrow> 'c flight" where
  "reset_sync_retry s = s\<lparr>f_delay := RETRY_INITIAL_MS, f_alarm := None\<rparr>"

text \<open>
  The alarm goes off: the synchronization starts, or for a retry, if the tab is signed out or
  waits for a resolution (\<open>\<not> ready\<close>), \<open>restoreSessionAndSync\<close> of the session module.
\<close>

definition alarm_fires :: "('c \<Rightarrow> bool) \<Rightarrow> bool \<Rightarrow> 'c flight \<Rightarrow> 'c flight" where
  "alarm_fires current ready s = (let s' = s\<lparr>f_alarm := None\<rparr> in case f_alarm s of
     None \<Rightarrow> s
   | Some (SyncAlarm force c, _) \<Rightarrow> if current c then snd (sync_now current force c s') else s'
   | Some (RetryAlarm c, _) \<Rightarrow> if current c \<and> ready then snd (sync_now current False c s') else s')"

text \<open>The end of an accepted response in \<open>submitSyncBatch\<close>.\<close>

definition batch_accepted :: "bool \<Rightarrow> 'c flight \<Rightarrow> 'c flight" where
  "batch_accepted has_pending s = s\<lparr>f_again := f_again s \<or> has_pending, f_delay := 1000\<rparr>"

definition receive_revision_hint :: "('c \<Rightarrow> bool) \<Rightarrow> jv \<Rightarrow> jv \<Rightarrow> 'c \<Rightarrow> 'c flight \<Rightarrow> 'c flight" where
  "receive_revision_hint current known revision c s =
     (if revision = Null \<or> num_less (to_number known) (to_number revision)
      then schedule_sync current 0 True c s else s)"

section \<open>Steps\<close>

text \<open>
  The state with the operations that have started and not settled. Every event chooses what is
  current; an operation settles once; a caller's turn comes after the operation it waits for.
\<close>

definition launched :: "'c flight \<Rightarrow> 'c flight \<Rightarrow> 'c operation list \<Rightarrow> 'c operation list" where
  "launched s s' running = running @ (case f_operation s' of
     Some p \<Rightarrow> if f_next s \<le> o_number p then [p] else [] | None \<Rightarrow> [])"

inductive flight_step :: "'c flight \<times> 'c operation list \<Rightarrow> 'c flight \<times> 'c operation list \<Rightarrow> bool" where
  Call: "s' = snd (sync_now current force c s) \<Longrightarrow> flight_step (s, r) (s', launched s s' r)"
| Settle: "p \<in> set r \<Longrightarrow> flight_step (s, r) (settle current retrying p s, remove1 p r)"
| Turn: "w \<in> set (f_waiting s) \<Longrightarrow> w_after w \<notin> o_number ` set r \<Longrightarrow> s' = resume current w s \<Longrightarrow>
    flight_step (s, r) (s', launched s s' r)"
| Alarm: "s' = alarm_fires current ready s \<Longrightarrow> flight_step (s, r) (s', launched s s' r)"
| Schedule: "0 \<le> delay \<Longrightarrow> flight_step (s, r) (schedule_sync current delay force c s, r)"
| Retry: "flight_step (s, r) (schedule_retry current online c s, r)"
| Reset: "flight_step (s, r) (reset_sync_retry s, r)"
| Accepted: "flight_step (s, r) (batch_accepted has_pending s, r)"
| Hint: "flight_step (s, r) (receive_revision_hint current known revision c s, r)"

definition alarm_ok :: "('c alarm \<times> int) option \<Rightarrow> bool" where
  "alarm_ok a = (case a of None \<Rightarrow> True | Some (SyncAlarm _ _, d) \<Rightarrow> 0 \<le> d
     | Some (RetryAlarm _, d) \<Rightarrow> 1000 \<le> d \<and> d \<le> 60000)"

definition flight_ok :: "'c flight \<times> 'c operation list \<Rightarrow> bool" where
  "flight_ok = (\<lambda>(s, r). r = (case f_operation s of None \<Rightarrow> [] | Some p \<Rightarrow> [p])
     \<and> (\<forall>p. f_operation s = Some p \<longrightarrow> o_number p < f_next s)
     \<and> 1000 \<le> f_delay s \<and> f_delay s \<le> 60000 \<and> alarm_ok (f_alarm s))"

lemmas flight_defs = schedule_sync_def schedule_retry_def reset_sync_retry_def batch_accepted_def
  receive_revision_hint_def

lemma timing_values [simp]: "RETRY_MAX_MS = 60000" "RETRY_INITIAL_MS = 1000"
  by (simp_all add: RETRY_MAX_MS_def RETRY_INITIAL_MS_def timing_ms_def TIMING_MS_def)

lemma flight_ok_launch:
  assumes "flight_ok (s, r)" and "f_delay s' = f_delay s" and "f_alarm s' = f_alarm s \<or> f_alarm s' = None"
    and "f_operation s' = f_operation s \<and> f_next s \<le> f_next s' \<or>
      (\<exists>c. f_operation s = None \<and> f_operation s' = Some \<lparr>o_number = f_next s, o_context = c\<rparr> \<and> f_next s' = f_next s + 1)"
  shows "flight_ok (s', launched s s' r)"
proof -
  have "alarm_ok (f_alarm s')"
    using assms(1,3) by (auto simp: flight_ok_def alarm_ok_def)
  with assms(1,2,4) show ?thesis by (auto simp: flight_ok_def launched_def split: option.splits)
qed

lemma sync_now_effect:
  "f_delay (snd (sync_now current force c s)) = f_delay s"
  "f_alarm (snd (sync_now current force c s)) = f_alarm s"
  "f_operation (snd (sync_now current force c s)) = f_operation s \<and> f_next s \<le> f_next (snd (sync_now current force c s)) \<or>
    f_operation s = None \<and> f_operation (snd (sync_now current force c s)) = Some \<lparr>o_number = f_next s, o_context = c\<rparr>
      \<and> f_next (snd (sync_now current force c s)) = f_next s + 1"
  by (auto simp: sync_now_def start_or_join_def join_pending_def queue_sync_caller_def split: option.splits)

lemma resume_effect:
  "f_delay (resume current w s) = f_delay s" "f_alarm (resume current w s) = f_alarm s"
  "f_operation (resume current w s) = f_operation s \<and> f_next s \<le> f_next (resume current w s) \<or>
    (\<exists>c. f_operation s = None \<and> f_operation (resume current w s) = Some \<lparr>o_number = f_next s, o_context = c\<rparr>
      \<and> f_next (resume current w s) = f_next s + 1)"
proof -
  define t where "t = s\<lparr>f_waiting := filter (\<lambda>v. w_number v \<noteq> w_number w) (f_waiting s),
            f_pending := (if f_pending s = Some (w_number w) then None else f_pending s)\<rparr>"
  have t: "f_delay t = f_delay s" "f_alarm t = f_alarm s" "f_operation t = f_operation s" "f_next t = f_next s"
    by (simp_all add: t_def)
  have r: "resume current w s = (if current (w_context w) then snd (sync_now current (w_force w) (w_context w) t) else t)"
    by (simp add: resume_def t_def Let_def)
  show "f_delay (resume current w s) = f_delay s" "f_alarm (resume current w s) = f_alarm s"
    by (simp_all add: r t sync_now_effect)
  show "f_operation (resume current w s) = f_operation s \<and> f_next s \<le> f_next (resume current w s) \<or>
    (\<exists>c. f_operation s = None \<and> f_operation (resume current w s) = Some \<lparr>o_number = f_next s, o_context = c\<rparr>
      \<and> f_next (resume current w s) = f_next s + 1)"
    using sync_now_effect(3)[of current "w_force w" "w_context w" t] by (auto simp: r t)
qed

lemma alarm_effect:
  "f_delay (alarm_fires current ready s) = f_delay s" "f_alarm (alarm_fires current ready s) = None"
  "f_operation (alarm_fires current ready s) = f_operation s \<and> f_next s \<le> f_next (alarm_fires current ready s) \<or>
    (\<exists>c. f_operation s = None \<and> f_operation (alarm_fires current ready s) = Some \<lparr>o_number = f_next s, o_context = c\<rparr>
      \<and> f_next (alarm_fires current ready s) = f_next s + 1)"
  using sync_now_effect(3)[of current _ _ "s\<lparr>f_alarm := None\<rparr>"]
  by (auto simp: alarm_fires_def sync_now_effect Let_def split: option.split alarm.split)

lemma flight_ok_step: "flight_step a b \<Longrightarrow> flight_ok a \<Longrightarrow> flight_ok b"
proof (induction rule: flight_step.induct)
  case (Call s' current force c s r)
  then show ?case using sync_now_effect[of current force c s] by (intro flight_ok_launch) auto
next
  case (Settle p r s current retrying)
  then show ?case by (auto simp: flight_ok_def settle_def schedule_sync_def alarm_ok_def Let_def split: option.splits)
next
  case (Turn w s r s' current)
  then show ?case using resume_effect[of current w s] by (intro flight_ok_launch) auto
next
  case (Alarm s' current ready s r)
  then show ?case using alarm_effect[of current ready s] by (intro flight_ok_launch) auto
qed (auto simp: flight_ok_def flight_defs alarm_ok_def)

lemma flight_reachable: "flight_step\<^sup>*\<^sup>* (new_flight, []) b \<Longrightarrow> flight_ok b"
proof (induction rule: rtranclp_induct)
  case base
  show ?case by (simp add: flight_ok_def new_flight_def alarm_ok_def)
next
  case (step a b)
  then show ?case by (rule_tac flight_ok_step)
qed

text \<open>
  C25: A tab never runs two synchronizations at once: in every state that any sequence of calls,
  alarms, hints, turns of waiting callers and settled operations can reach, whatever contexts are
  current at each of them, at most one operation has started and not settled, and it is the one
  the coordinator has reserved. The delay of a retry stays between one second and one minute.
\<close>

theorem single_flight:
  assumes "flight_step\<^sup>*\<^sup>* (new_flight, []) (s, running)"
  shows "running = (case f_operation s of None \<Rightarrow> [] | Some p \<Rightarrow> [p])
    \<and> 1000 \<le> f_delay s \<and> f_delay s \<le> 60000"
  using flight_reachable[OF assms] by (simp add: flight_ok_def)

definition first_call :: "nat flight" where
  "first_call = snd (sync_now (\<lambda>_. True) False 0 new_flight)"

definition second_call :: "nat flight" where
  "second_call = snd (sync_now (\<lambda>_. True) True 0 first_call)"

lemma sample_calls:
  "flight_step (new_flight, []) (first_call, [\<lparr>o_number = 0, o_context = 0\<rparr>])"
  "flight_step (first_call, [\<lparr>o_number = 0, o_context = 0\<rparr>]) (second_call, [\<lparr>o_number = 0, o_context = 0\<rparr>])"
proof -
  have "launched new_flight first_call [] = [\<lparr>o_number = 0, o_context = 0\<rparr>]" by code_simp
  moreover have "flight_step (new_flight, []) (first_call, launched new_flight first_call [])"
    by (rule flight_step.Call) (simp add: first_call_def)
  ultimately show "flight_step (new_flight, []) (first_call, [\<lparr>o_number = 0, o_context = 0\<rparr>])" by simp
  have "launched first_call second_call [\<lparr>o_number = 0, o_context = 0\<rparr>] = [\<lparr>o_number = 0, o_context = 0\<rparr>]" by code_simp
  moreover have "flight_step (first_call, [\<lparr>o_number = 0, o_context = 0\<rparr>])
      (second_call, launched first_call second_call [\<lparr>o_number = 0, o_context = 0\<rparr>])"
    by (rule flight_step.Call) (simp add: second_call_def)
  ultimately show "flight_step (first_call, [\<lparr>o_number = 0, o_context = 0\<rparr>]) (second_call, [\<lparr>o_number = 0, o_context = 0\<rparr>])"
    by simp
qed

lemma sample_reached: "flight_step\<^sup>*\<^sup>* (new_flight, []) (first_call, [\<lparr>o_number = 0, o_context = 0\<rparr>])"
  by (rule r_into_rtranclp) (rule sample_calls)

theorem single_flight_witness:
  "[\<lparr>o_number = 0, o_context = 0\<rparr>] = (case f_operation second_call of None \<Rightarrow> [] | Some p \<Rightarrow> [p])
    \<and> 1000 \<le> f_delay second_call \<and> f_delay second_call \<le> 60000"
  by (rule single_flight) (rule rtranclp.rtrancl_into_rtrancl, rule sample_reached, rule sample_calls)

section \<open>Joined callers\<close>

definition joined :: "nat \<Rightarrow> bool \<Rightarrow> 'c flight \<Rightarrow> bool" where
  "joined k force t \<longleftrightarrow> k < f_next t
     \<and> (\<forall>q. f_operation t = Some q \<and> o_number q = k \<longrightarrow> f_again t \<and> (force \<longrightarrow> f_again_force t))"

lemma joined_sync_now: "joined k force s \<Longrightarrow> joined k force (snd (sync_now current f c s))"
  by (auto simp: joined_def sync_now_def start_or_join_def join_pending_def queue_sync_caller_def split: option.splits)

lemma joined_cong:
  "joined k force s \<Longrightarrow> f_next t = f_next s \<Longrightarrow> f_operation t = f_operation s \<Longrightarrow> f_again t = f_again s
    \<Longrightarrow> f_again_force t = f_again_force s \<Longrightarrow> joined k force t"
  by (simp add: joined_def)

lemma joined_step: "flight_step a b \<Longrightarrow> joined k force (fst a) \<Longrightarrow> joined k force (fst b)"
proof (induction rule: flight_step.induct)
  case (Call s' current f c s r)
  then show ?case by (simp add: joined_sync_now)
next
  case (Settle p r s current retrying)
  then show ?case by (simp add: settle_def schedule_sync_def Let_def joined_def)
next
  case (Turn w s r s' current)
  then show ?case by (auto simp: resume_def Let_def intro!: joined_sync_now elim!: joined_cong)
next
  case (Alarm s' current ready s r)
  then show ?case
    by (auto simp: alarm_fires_def Let_def split: option.split alarm.split intro!: joined_sync_now elim!: joined_cong)
qed (auto simp: joined_sync_now flight_defs joined_def)



end
