(* ===== verification/ClaimSafety.thy ===== *)
theory ClaimSafety
  imports SyncSafety SyncBatch
begin

text \<open>
  What the claim of a batch guarantees: the operations of a request are recorded as possibly
  sent, with the bytes that will be sent, before a caller can send them, and a saved claim is
  only ever replayed as it is.
\<close>

section \<open>A new claim\<close>

lemma migration_writes_frame:
  assumes "foldr_res write_migration_one t ws = Inr t'" "meta_ok t"
  shows "meta_ok t' \<and> queue_items (t_db t') = queue_items (t_db t)
    \<and> (\<forall>k. k \<noteq> ''timerDependencies'' \<longrightarrow> meta_value (t_db t') k = meta_value (t_db t) k)"
  using assms(1)
  by (rule foldr_res_invariant) (auto simp: assms(2) write_migration_one_def bindr_Inr_iff split: if_splits)

lemma migration_frame:
  assumes "migrate_dependency_metadata env rec input t = Inr (plan, rec', t')" "meta_ok t"
  shows "meta_ok t' \<and> queue_items (t_db t') = queue_items (t_db t) \<and> r_queue rec' = r_queue rec
    \<and> (\<forall>k. k \<noteq> ''timerDependencies'' \<longrightarrow> r_field rec' k = r_field rec k \<and> meta_value (t_db t') k = meta_value (t_db t) k)"
  using assms
  by (auto simp: migrate_dependency_metadata_def write_dependency_migration_def Let_def bindr_Inr_iff
      dest!: migration_writes_frame split: if_splits)

definition claim_recorded :: "database \<Rightarrow> obj \<Rightarrow> claim_result \<Rightarrow> database \<Rightarrow> bool" where
  "claim_recorded db input k db' \<longleftrightarrow>
     meta_value db' ''outgoingSync'' = k_claim k
   \<and> getp (k_claim k) ''ownerId'' = fld input ''ownerId''
   \<and> getp (k_claim k) ''body'' = json_stringify (Obj (spread [(''deviceId'', meta_value db ''deviceId''),
       (''lastRevision'', getp (meta_value db ''snapshot'') ''revision'')] (as_obj (getp (k_claim k) ''sent''))))
   \<and> (\<forall>d. set (list_if_array (getp (getp (k_claim k) ''sent'') (domain_name d)))
         \<subseteq> (\<lambda>item. Obj (request_operation d item)) ` set (queue_items db d)
     \<and> set (sanitize_delivery_proof (meta_value db' ''deliveryProof'') d)
         = set (sanitize_delivery_proof (meta_value db ''deliveryProof'') d)
           - set (sent_ids_of (getp (k_claim k) ''sent'') d)
     \<and> queue_items db' d = queue_items db d)"

lemma write_new_claim_recorded:
  assumes "write_new_claim env rec input now plan t = Inr (k, t')" and "meta_ok t"
    and "r_queue rec = queue_items db" "queue_items (t_db t) = queue_items db"
    and "\<And>f. f \<noteq> ''timerDependencies'' \<Longrightarrow> f \<in> set META_KEYS \<Longrightarrow> r_field rec f = meta_value db f"
  shows "claim_recorded db input k (t_db t')"
proof -
  have fields: "r_field rec ''deliveryProof'' = meta_value db ''deliveryProof''"
      "r_field rec ''deviceId'' = meta_value db ''deviceId''" "r_field rec ''snapshot'' = meta_value db ''snapshot''"
    using assms(5) by (simp_all add: META_KEYS_def)
  from assms(1) obtain selected stamp revision proved where
      sel: "selected_records plan (r_queue rec) = Inr selected"
      and revision: "dot (meta_value db ''snapshot'') ''revision'' = Inr revision"
      and proved: "remove_proof_ids (meta_value db ''deliveryProof'') (sent_value (encode_selected_batch selected)) = Inr proved"
      and claim: "k_claim k = Obj [(''claimId'', Str (e_random_uuid env)), (''sent'', sent_value (encode_selected_batch selected)),
           (''ownerId'', fld input ''ownerId''), (''retiredAt'', stamp),
           (''body'', request_body rec revision (sent_value (encode_selected_batch selected)))]"
      and t': "t' = meta_put ''batchNextDomain'' (getp plan ''nextDomain'')
           (meta_put ''outgoingSync'' (k_claim k) (meta_put ''deliveryProof'' (proof_value proved) t))"
    by (auto simp: write_new_claim_def Let_def bindr_Inr_iff fields)
  from revision have rev: "revision = getp (meta_value db ''snapshot'') ''revision''"
    by (auto simp: dot_def split: jv.splits)
  from remove_proof_ids_Inr[OF proved] obtain ids where
      ids: "\<And>d. ids_of (getp (sent_value (encode_selected_batch selected)) (domain_name d)) = Inr (ids d)"
      "\<And>d. proved d = filter (\<lambda>i. i \<notin> set (ids d)) (sanitize_delivery_proof (meta_value db ''deliveryProof'') d)"
    by blast
  have san: "sanitize_delivery_proof (proof_value proved) = proved" by (rule sanitize_sub) (rule ids(2))
  have sent: "set (list_if_array (getp (sent_value (encode_selected_batch selected)) (domain_name d)))
      \<subseteq> (\<lambda>item. Obj (request_operation d item)) ` set (queue_items db d)" for d
    using selected_records_sound[OF sel, of d]
    by (auto simp: sent_value_def objs_def list_if_array_def encode_selected_batch_def assms(3))
  show ?thesis
    using assms(2,4) sent ids san
    by (auto simp: claim_recorded_def claim t' rev request_body_def fields sent_ids_of_def)
qed

text \<open>
  C5: A request can only be sent after it was recorded. When the claim of a batch returns a body
  to send, either the saved claim is replayed, unchanged and for its own account, and the database
  is untouched; or the stored claim now holds exactly that body and the account, every operation
  in it is the wire form of a queued one, the queues are unchanged, and the delivery proof has
  lost exactly the operations of the body.
\<close>

theorem claim_recorded_before_sending:
  assumes "db_ok db" and "claim_workspace_batch env db input = (Inr k, db')"
    and "truthy (getp (k_claim k) ''body'')"
  shows "if truthy (getp (meta_value db ''outgoingSync'') ''sent'')
    then db' = db \<and> k_claim k = meta_value db ''outgoingSync''
      \<and> (nullish (getp (k_claim k) ''ownerId'') \<or> getp (k_claim k) ''ownerId'' = fld input ''ownerId'')
    else claim_recorded db input k db'"
proof -
  let ?rec = "read_records db" and ?t = "\<lparr>t_db = db, t_error = None\<rparr>"
  from assms(2) obtain t where t: "claim_change env input ?rec ?t = Inr (k, t)" "db' = t_db t"
    unfolding claim_workspace_batch_def run_workspace_def by (rule run_transaction_committed) blast
  have saved: "r_field ?rec ''outgoingSync'' = meta_value db ''outgoingSync''"
    by (simp add: read_records_def META_KEYS_def)
  have ok: "meta_ok ?t" using assms(1) by (simp add: meta_ok_def db_ok_def)
  show ?thesis
  proof (cases "truthy (getp (meta_value db ''outgoingSync'') ''sent'')")
    case True
    with t(1) have "replay_saved_claim env ?rec input (meta_value db ''outgoingSync'') = Inr k \<and> t = ?t"
      by (auto simp: claim_change_def Let_def bindr_Inr_iff saved)
    then have "k_claim k = meta_value db ''outgoingSync'' \<and> t = ?t \<and> (nullish (getp (meta_value db ''outgoingSync'') ''ownerId'')
        \<or> strict_eq (getp (meta_value db ''outgoingSync'') ''ownerId'') (fld input ''ownerId''))"
      by (auto simp: replay_saved_claim_def Let_def bindr_Inr_iff ensure_Inr_iff split: if_splits)
    with True t(2) show ?thesis by (auto dest: strict_eq_imp_eq)
  next
    case False
    with t(1) have "plan_new_claim env ?rec input (fld input ''localNowMs'') ?t = Inr (k, t)"
      by (auto simp: claim_change_def Let_def bindr_Inr_iff saved)
    then obtain dependencies rec' t1 plan where m: "migrate_dependency_metadata env ?rec input ?t = Inr (dependencies, rec', t1)"
        and w: "write_new_claim env rec' input (fld input ''localNowMs'') plan t1 = Inr (k, t) \<or> k_claim k = Null"
      by (auto simp: plan_new_claim_def Let_def bindr_Inr_iff split: if_splits)
    from w assms(3) have w: "write_new_claim env rec' input (fld input ''localNowMs'') plan t1 = Inr (k, t)" by auto
    have "claim_recorded db input k (t_db t)"
      using migration_frame[OF m ok] by (intro write_new_claim_recorded[OF w]) (auto simp: read_records_def)
    with False t(2) show ?thesis by simp
  qed
qed

definition claim_input :: obj where
  "claim_input = [(''ownerId'', Str ''user-1''), (''deviceId'', Str ''device-1''), (''localNowMs'', jint 1700000000000)]"

lemma claims_sample:
  "ok_with (\<lambda>k. truthy (getp (k_claim k) ''body'')) (fst (claim_workspace_batch sample_env sample_db claim_input))"
  by code_simp

theorem claim_recorded_before_sending_witness:
  "\<exists>k db'. claim_workspace_batch sample_env sample_db claim_input = (Inr k, db') \<and> claim_recorded sample_db claim_input k db'"
proof -
  obtain k db' where run: "claim_workspace_batch sample_env sample_db claim_input = (Inr k, db')"
      and body: "truthy (getp (k_claim k) ''body'')"
    using claims_sample by (cases "claim_workspace_batch sample_env sample_db claim_input") (auto elim: ok_withE)
  have "\<not> truthy (getp (meta_value sample_db ''outgoingSync'') ''sent'')"
    unfolding not_def by code_simp
  with claim_recorded_before_sending[OF sample_db_ok run body] run show ?thesis by auto
qed

end
