(* ===== verification/TabAlerts.thy ===== *)
theory TabAlerts
  imports AppState
begin

text \<open>
  The alert of a completed timer in \<open>web/app-actions.js\<close> (\<open>TimerLifecycle\<close>): a notification, a
  repeated chime and a badge on the application, shown once for a timer and taken back
  together. What the browser offers, grants and refuses is a host record; what it is asked to
  do is a list of requests.
\<close>

section \<open>State\<close>

definition CHIME_NOTES :: nat where "CHIME_NOTES = 4"

text \<open>The state of the audio context is its name, \<open>None\<close> without a context.\<close>

record alerts =
  l_audio :: "string option"
  l_interval :: bool
  l_notification :: bool
  l_timer :: jv
  l_dismissed :: jv
  l_snapshot :: jv
  l_badge :: bool
  l_warned :: bool
  l_chime :: nat
  l_queued :: jv
  l_retry :: bool

definition new_alerts :: alerts where
  "new_alerts = \<lparr>l_audio = None, l_interval = False, l_notification = False, l_timer = Null, l_dismissed = Null,
     l_snapshot = Null, l_badge = False, l_warned = False, l_chime = 0, l_queued = Null, l_retry = False\<rparr>"

text \<open>
  The host: the permission to notify (empty without notifications) and what a request for it
  leaves, whether the constructor succeeds, the state of a new audio context (\<open>None\<close> without
  audio, \<open>Some None\<close> if the constructor throws), the state after \<open>resume\<close>, and for each badge
  method whether it is there and accepted.
\<close>

record alert_host =
  h_permission :: string
  h_requested :: string
  h_notify :: bool
  h_audio :: "string option option"
  h_resumed :: string
  h_set_badge :: "bool option"
  h_clear_badge :: "bool option"

datatype request =
    ShowNotification string jv | CloseNotification
  | Play nat | StartInterval | StopInterval
  | SetBadge | ClearBadge | WarnBadge | WarnNotification | WarnAudio
  | ClearCompletionRetry | FinishTimer

type_synonym 'a alerting = "alerts \<Rightarrow> 'a \<times> alerts \<times> request list"

section \<open>Operations\<close>

definition completion_alert_title :: "catalog \<Rightarrow> jv \<Rightarrow> string" where
  "completion_alert_title i18n timer =
     (let phase = (case getp timer ''phase'' of Str p \<Rightarrow> if p \<in> set PHASES then p else ''focus'' | _ \<Rightarrow> ''focus'');
          label = (case phase_label i18n phase of Some l \<Rightarrow> l | None \<Rightarrow> [])
      in tr i18n ''timer.complete'' [(''phase'', Text label)] (label @ '' complete''))"

definition show_completion_notification :: "catalog \<Rightarrow> alert_host \<Rightarrow> bool alerting" where
  "show_completion_notification i18n h l =
     (if \<not> truthy (l_snapshot l) \<or> l_notification l \<or> h_permission h \<noteq> ''granted'' then (False, l, [])
      else if h_notify h
      then (True, l\<lparr>l_notification := True\<rparr>,
        [ShowNotification (completion_alert_title i18n (l_snapshot l)) (getp (l_snapshot l) ''id'')])
      else (False, l, [WarnNotification]))"

definition play_completion_tone :: "bool alerting" where
  "play_completion_tone l =
     (if l_audio l \<noteq> Some ''running'' then (False, l, [])
      else (True, l\<lparr>l_chime := (l_chime l + 1) mod CHIME_NOTES\<rparr>, [Play (l_chime l)]))"

text \<open>A badge that is refused warns once.\<close>

definition badge_answer :: "bool option \<Rightarrow> request \<Rightarrow> bool alerting" where
  "badge_answer answer asked l = (case answer of
     None \<Rightarrow> (False, l, [])
   | Some True \<Rightarrow> (True, l, [asked])
   | Some False \<Rightarrow> if l_warned l then (True, l, [asked]) else (True, l\<lparr>l_warned := True\<rparr>, [asked, WarnBadge]))"

definition show_app_badge :: "alert_host \<Rightarrow> unit alerting" where
  "show_app_badge h l = (case badge_answer (h_set_badge h) SetBadge l of
     (asked, l, rs) \<Rightarrow> ((), if asked then l\<lparr>l_badge := True\<rparr> else l, rs))"

definition clear_app_badge :: "alert_host \<Rightarrow> unit alerting" where
  "clear_app_badge h l =
     (if \<not> l_badge l then ((), l, [])
      else case badge_answer (h_clear_badge h) ClearBadge (l\<lparr>l_badge := False\<rparr>) of (_, l, rs) \<Rightarrow> ((), l, rs))"

definition stop_completion_alert :: "alert_host \<Rightarrow> unit alerting" where
  "stop_completion_alert h l =
     (let stopped = (if l_interval l then [StopInterval] else []) @ (if l_notification l then [CloseNotification] else []);
          l' = l\<lparr>l_interval := False, l_notification := False,
            l_dismissed := (if truthy (l_timer l) then l_timer l else l_dismissed l),
            l_timer := Null, l_snapshot := Null\<rparr>
      in case clear_app_badge h l' of (_, l, rs) \<Rightarrow> ((), l, stopped @ rs))"

definition start_completion_alert :: "catalog \<Rightarrow> alert_host \<Rightarrow> jv \<Rightarrow> bool alerting" where
  "start_completion_alert i18n h timer l =
     (let i = getp timer ''id'' in
      if \<not> truthy i \<or> strict_eq (l_timer l) i \<or> strict_eq (l_dismissed l) i then (False, l, [])
      else case stop_completion_alert h l of (_, l, stopped) \<Rightarrow>
        (case show_completion_notification i18n h (l\<lparr>l_dismissed := Null, l_timer := i,
            l_snapshot := Obj [(''id'', i), (''phase'', getp timer ''phase'')]\<rparr>) of (_, l, shown) \<Rightarrow>
        (case show_app_badge h l of (_, l, badge) \<Rightarrow>
        (case play_completion_tone l of (played, l, tone) \<Rightarrow>
          (True, if played then l\<lparr>l_interval := True\<rparr> else l,
            stopped @ shown @ badge @ tone @ (if played then [StartInterval] else []))))))"

text \<open>\<open>primeCompletionAlerts\<close>, on a gesture: audio is created and resumed, the permission asked.\<close>

definition prime_audio :: "alert_host \<Rightarrow> unit alerting" where
  "prime_audio h l =
     (case (case l_audio l of Some state \<Rightarrow> (Some state, [])
        | None \<Rightarrow> (case h_audio h of None \<Rightarrow> (None, []) | Some None \<Rightarrow> (None, [WarnAudio]) | Some (Some s) \<Rightarrow> (Some s, []))) of
       (audio, rs) \<Rightarrow> ((), l\<lparr>l_audio := (if audio = Some ''suspended'' then Some (h_resumed h) else audio)\<rparr>, rs))"

definition prime_completion_alerts :: "catalog \<Rightarrow> alert_host \<Rightarrow> unit alerting" where
  "prime_completion_alerts i18n h l =
     (case prime_audio h l of (_, l, primed) \<Rightarrow>
      let h' = (if h_permission h = ''default'' then h\<lparr>h_permission := h_requested h\<rparr> else h) in
      case show_completion_notification i18n h' l of (_, l, shown) \<Rightarrow>
        if truthy (l_timer l) \<and> \<not> l_interval l then
          (case play_completion_tone l of (played, l, tone) \<Rightarrow>
            ((), if played then l\<lparr>l_interval := True\<rparr> else l,
              primed @ shown @ tone @ (if played then [StartInterval] else [])))
        else ((), l, primed @ shown))"

text \<open>
  \<open>updateTimerCompletion\<close>: a timer that runs out is finished once; \<open>finish_answered\<close> is what
  follows when the finish returns.
\<close>

definition update_timer_completion :: "catalog \<Rightarrow> alert_host \<Rightarrow> jv \<Rightarrow> jv \<Rightarrow> jv \<Rightarrow> bool \<Rightarrow> unit alerting" where
  "update_timer_completion i18n h timer status remaining blocked l =
     (case (if \<not> blocked \<and> status = Str ''running'' \<and> js_le remaining (jint 0)
          \<and> \<not> strict_eq (l_queued l) (getp timer ''id'')
        then (l\<lparr>l_queued := getp timer ''id''\<rparr>, [FinishTimer])
        else if status \<noteq> Str ''running'' then (l\<lparr>l_retry := False, l_queued := Null\<rparr>, [ClearCompletionRetry])
        else (l, [])) of (l, rs) \<Rightarrow>
      if status = Str ''completed'' then (case start_completion_alert i18n h timer l of (_, l, started) \<Rightarrow> ((), l, rs @ started))
      else ((), l, rs))"

definition finish_answered :: "bool \<Rightarrow> alerts \<Rightarrow> alerts" where
  "finish_answered saved l = (if saved then l else l\<lparr>l_queued := Null\<rparr>)"

section \<open>Steps\<close>

text \<open>Everything that happens to the alerts of a page, with any host at any time.\<close>

inductive alert_step :: "alerts \<Rightarrow> request list \<Rightarrow> alerts \<Rightarrow> bool" where
  Start: "start_completion_alert i18n h timer l = (b, l', rs) \<Longrightarrow> alert_step l rs l'"
| Stop: "stop_completion_alert h l = (u, l', rs) \<Longrightarrow> alert_step l rs l'"
| Prime: "prime_completion_alerts i18n h l = (u, l', rs) \<Longrightarrow> alert_step l rs l'"
| Update: "update_timer_completion i18n h timer status remaining blocked l = (u, l', rs) \<Longrightarrow> alert_step l rs l'"
| Tone: "l_interval l \<Longrightarrow> play_completion_tone l = (b, l', rs) \<Longrightarrow> alert_step l rs l'"
| Answered: "alert_step l [] (finish_answered saved l)"
| Suspended: "l_audio l \<noteq> None \<Longrightarrow> alert_step l [] (l\<lparr>l_audio := Some state\<rparr>)"

inductive alert_trace :: "request list \<Rightarrow> alerts \<Rightarrow> bool" where
  Initial: "alert_trace [] new_alerts"
| Next: "alert_trace rs l \<Longrightarrow> alert_step l rs' l' \<Longrightarrow> alert_trace (rs @ rs') l'"

text \<open>The difference between the openings and the closings a trace has asked for.\<close>

definition opened :: "(request \<Rightarrow> bool) \<Rightarrow> request \<Rightarrow> request list \<Rightarrow> int" where
  "opened starts closes rs = int (length (filter starts rs)) - int (length (filter (\<lambda>r. r = closes) rs))"

lemma opened_simps [simp]:
  "opened starts closes [] = 0"
  "opened starts closes (r # rs) = (if starts r then 1 else 0) - (if r = closes then 1 else 0) + opened starts closes rs"
  "opened starts closes (rs @ rs') = opened starts closes rs + opened starts closes rs'"
  by (simp_all add: opened_def)

fun shows_notification :: "request \<Rightarrow> bool" where
  "shows_notification (ShowNotification _ _) = True"
| "shows_notification _ = False"

definition notifications :: "request list \<Rightarrow> int" where
  "notifications = opened shows_notification CloseNotification"

definition intervals :: "request list \<Rightarrow> int" where
  "intervals = opened (\<lambda>r. r = StartInterval) StopInterval"

definition alerts_ok :: "alerts \<Rightarrow> bool" where
  "alerts_ok l \<longleftrightarrow> (l_interval l \<longrightarrow> truthy (l_timer l)) \<and> (l_notification l \<longrightarrow> truthy (l_timer l))
   \<and> (truthy (l_snapshot l) \<longleftrightarrow> truthy (l_timer l)) \<and> l_chime l < CHIME_NOTES
   \<and> (truthy (l_timer l) \<longrightarrow> l_dismissed l = Null)"

definition balance :: "request list \<Rightarrow> alerts \<Rightarrow> bool" where
  "balance rs l \<longleftrightarrow> notifications rs = (if l_notification l then 1 else 0) \<and> intervals rs = (if l_interval l then 1 else 0)"

definition step_ok :: "alerts \<Rightarrow> alerts \<times> request list \<Rightarrow> bool" where
  "step_ok l p \<longleftrightarrow> (alerts_ok l \<longrightarrow> alerts_ok (fst p))
   \<and> notifications (snd p) = (if l_notification (fst p) then 1 else 0) - (if l_notification l then 1 else 0)
   \<and> intervals (snd p) = (if l_interval (fst p) then 1 else 0) - (if l_interval l then 1 else 0)"

lemmas alert_defs = notifications_def intervals_def alerts_ok_def step_ok_def

lemma badge_frame:
  assumes "show_app_badge h l = (u, l', rs) \<or> clear_app_badge h l = (u, l', rs)"
  shows "l_interval l' = l_interval l \<and> l_notification l' = l_notification l \<and> l_timer l' = l_timer l
    \<and> l_snapshot l' = l_snapshot l \<and> l_chime l' = l_chime l \<and> l_dismissed l' = l_dismissed l
    \<and> l_audio l' = l_audio l \<and> notifications rs = 0 \<and> intervals rs = 0"
  using assms by (auto simp: show_app_badge_def clear_app_badge_def badge_answer_def alert_defs
      split: option.splits bool.splits if_splits)

lemma stop_step:
  assumes "stop_completion_alert h l = (u, l', rs)"
  shows "step_ok l (l', rs) \<and> \<not> l_interval l' \<and> \<not> l_notification l' \<and> l_timer l' = Null \<and> l_snapshot l' = Null
    \<and> l_chime l' = l_chime l"
  using assms by (auto simp: stop_completion_alert_def Let_def alert_defs split: prod.splits dest!: disjI2[THEN badge_frame])

lemma step_trans:
  "step_ok l (m, rs) \<Longrightarrow> step_ok m (n, rs') \<Longrightarrow> step_ok l (n, rs @ rs')"
  by (auto simp: step_ok_def notifications_def intervals_def)

lemma show_step:
  assumes "show_completion_notification i18n h l = (b, l', rs)" and "truthy (l_timer l) \<or> \<not> truthy (l_snapshot l)"
  shows "step_ok l (l', rs) \<and> l_timer l' = l_timer l \<and> l_interval l' = l_interval l"
  using assms by (auto simp: show_completion_notification_def alert_defs split: if_splits)

lemma tone_step:
  assumes "play_completion_tone l = (b, l', rs)" and "truthy (l_timer l)" "\<not> l_interval l"
  shows "step_ok l (if b then l'\<lparr>l_interval := True\<rparr> else l', rs @ (if b then [StartInterval] else []))"
  using assms by (auto simp: play_completion_tone_def alert_defs CHIME_NOTES_def split: if_splits)

lemma start_step:
  assumes "start_completion_alert i18n h timer l = (b, l', rs)"
  shows "step_ok l (l', rs)"
proof (cases "\<not> truthy (getp timer ''id'') \<or> strict_eq (l_timer l) (getp timer ''id'')
    \<or> strict_eq (l_dismissed l) (getp timer ''id'')")
  case True
  with assms show ?thesis by (auto simp: start_completion_alert_def Let_def alert_defs)
next
  case False
  obtain u l1 r1 where s1: "stop_completion_alert h l = (u, l1, r1)" by (metis prod_cases3)
  define l2 where "l2 = l1\<lparr>l_dismissed := Null, l_timer := getp timer ''id'',
    l_snapshot := Obj [(''id'', getp timer ''id''), (''phase'', getp timer ''phase'')]\<rparr>"
  obtain c l3 r3 where s3: "show_completion_notification i18n h l2 = (c, l3, r3)" by (metis prod_cases3)
  obtain v l4 r4 where s4: "show_app_badge h l3 = (v, l4, r4)" by (metis prod_cases3)
  obtain d l5 r5 where s5: "play_completion_tone l4 = (d, l5, r5)" by (metis prod_cases3)
  note f1 = stop_step[OF s1]
  have two: "step_ok l (l2, r1)" and t2: "truthy (l_timer l2)" "\<not> l_interval l2"
    using f1 False by (auto simp: step_ok_def alerts_ok_def l2_def)
  have three: "step_ok l2 (l3, r3)" and t3: "truthy (l_timer l3)" "\<not> l_interval l3"
    using show_step[OF s3] t2 by auto
  have four: "step_ok l3 (l4, r4)" and t4: "truthy (l_timer l4)" "\<not> l_interval l4"
    using badge_frame[OF disjI1, OF s4] t3 by (auto simp: step_ok_def alerts_ok_def)
  have "step_ok l (if d then l5\<lparr>l_interval := True\<rparr> else l5, ((r1 @ r3) @ r4) @ r5 @ (if d then [StartInterval] else []))"
    by (intro step_trans[OF step_trans[OF step_trans[OF two three] four]] tone_step[OF s5 t4])
  moreover have "l' = (if d then l5\<lparr>l_interval := True\<rparr> else l5)"
      "rs = r1 @ r3 @ r4 @ r5 @ (if d then [StartInterval] else [])"
    using assms False s3 by (auto simp: start_completion_alert_def Let_def s1 l2_def[symmetric] s4 s5)
  ultimately show ?thesis by simp
qed

lemma prime_audio_effect:
  assumes "prime_audio h l = (u, l', rs)"
  shows "\<exists>a. l' = l\<lparr>l_audio := a\<rparr> \<and> (rs = [] \<or> rs = [WarnAudio])"
proof -
  obtain audio asked where m: "(case l_audio l of Some state \<Rightarrow> (Some state, [])
        | None \<Rightarrow> (case h_audio h of None \<Rightarrow> (None, []) | Some None \<Rightarrow> (None, [WarnAudio]) | Some (Some s) \<Rightarrow> (Some s, [])))
      = (audio, asked)" by (metis surj_pair)
  then have "asked = [] \<or> asked = [WarnAudio]" by (simp split: option.splits)
  moreover have "l' = l\<lparr>l_audio := (if audio = Some ''suspended'' then Some (h_resumed h) else audio)\<rparr>" "rs = asked"
    using assms unfolding prime_audio_def m by auto
  ultimately show ?thesis by blast
qed

lemma prime_step:
  assumes "prime_completion_alerts i18n h l = (u, l', rs)" and "alerts_ok l"
  shows "step_ok l (l', rs)"
proof -
  obtain v l1 r1 where s1: "prime_audio h l = (v, l1, r1)" by (metis prod_cases3)
  define h' where "h' = (if h_permission h = ''default'' then h\<lparr>h_permission := h_requested h\<rparr> else h)"
  obtain c l2 r2 where s2: "show_completion_notification i18n h' l1 = (c, l2, r2)" by (metis prod_cases3)
  obtain d l3 r3 where s3: "play_completion_tone l2 = (d, l3, r3)" by (metis prod_cases3)
  obtain a where a: "l1 = l\<lparr>l_audio := a\<rparr>" "r1 = [] \<or> r1 = [WarnAudio]"
    using prime_audio_effect[OF s1] by blast
  have one: "step_ok l (l1, r1)"
    using a by (auto simp: alert_defs)
  have two: "step_ok l1 (l2, r2)"
    using show_step[OF s2] assms(2) a(1) by (simp add: alerts_ok_def)
  show ?thesis
  proof (cases "truthy (l_timer l2) \<and> \<not> l_interval l2")
    case True
    then have "step_ok l (if d then l3\<lparr>l_interval := True\<rparr> else l3, (r1 @ r2) @ r3 @ (if d then [StartInterval] else []))"
      by (intro step_trans[OF step_trans[OF one two]] tone_step[OF s3]) auto
    with True assms(1) show ?thesis
      by (auto simp: prime_completion_alerts_def s1 h'_def[symmetric] s2 s3 Let_def)
  next
    case False
    with assms(1) step_trans[OF one two] show ?thesis
      by (auto simp: prime_completion_alerts_def s1 h'_def[symmetric] s2 Let_def)
  qed
qed

lemma update_step:
  assumes "update_timer_completion i18n h timer status remaining blocked l = (u, l', rs)"
  shows "step_ok l (l', rs)"
proof -
  obtain l1 r1 where m: "(if \<not> blocked \<and> status = Str ''running'' \<and> js_le remaining (jint 0)
          \<and> \<not> strict_eq (l_queued l) (getp timer ''id'')
        then (l\<lparr>l_queued := getp timer ''id''\<rparr>, [FinishTimer])
        else if status \<noteq> Str ''running'' then (l\<lparr>l_retry := False, l_queued := Null\<rparr>, [ClearCompletionRetry])
        else (l, [])) = (l1, r1)" by (metis surj_pair)
  then have one: "step_ok l (l1, r1)" by (auto simp: alert_defs split: if_splits)
  obtain b l2 r2 where s2: "start_completion_alert i18n h timer l1 = (b, l2, r2)" by (metis prod_cases3)
  show ?thesis
    using assms one step_trans[OF one start_step[OF s2]]
    by (auto simp: update_timer_completion_def m s2 split: if_splits)
qed

lemma alert_step_ok: "alert_step l rs l' \<Longrightarrow> alerts_ok l \<Longrightarrow> step_ok l (l', rs)"
proof (induction rule: alert_step.induct)
  case (Start i18n h timer l b l' rs)
  then show ?case by (simp add: start_step)
next
  case (Stop h l u l' rs)
  then show ?case by (simp add: stop_step)
next
  case (Prime i18n h l u l' rs)
  then show ?case by (simp add: prime_step)
next
  case (Update i18n h timer status remaining blocked l u l' rs)
  then show ?case by (simp add: update_step)
next
  case (Tone l b l' rs)
  then show ?case by (auto simp: play_completion_tone_def alert_defs CHIME_NOTES_def split: if_splits)
qed (auto simp: finish_answered_def alert_defs)

text \<open>
  C27: The alert of a page is consistent after anything that happens to it, whatever the browser
  offers, grants or refuses: every notification that was opened has been closed, but for the one
  of the present alert, and every repetition of the chime has been stopped, but for the present
  one; neither is left without the timer it is for, and that timer does not count as dismissed.
\<close>

theorem alerts_consistent:
  assumes "alert_trace rs l"
  shows "notifications rs = (if l_notification l then 1 else 0) \<and> intervals rs = (if l_interval l then 1 else 0)
    \<and> (l_notification l \<or> l_interval l \<longrightarrow> truthy (l_timer l) \<and> l_dismissed l = Null)"
proof -
  have "alerts_ok l \<and> balance rs l"
    using assms
  proof (induction rule: alert_trace.induct)
    case Initial
    show ?case by (simp add: new_alerts_def alerts_ok_def balance_def CHIME_NOTES_def notifications_def intervals_def)
  next
    case (Next rs l rs' l')
    then show ?case
      by (auto dest!: alert_step_ok simp: step_ok_def balance_def notifications_def intervals_def)
  qed
  then show ?thesis by (auto simp: alerts_ok_def balance_def)
qed

definition sample_host :: alert_host where
  "sample_host = \<lparr>h_permission = ''granted'', h_requested = ''granted'', h_notify = True, h_audio = Some (Some ''running''),
     h_resumed = ''running'', h_set_badge = Some False, h_clear_badge = Some True\<rparr>"

definition rung :: "alerts \<times> request list" where
  "rung = (case prime_completion_alerts None sample_host new_alerts of (_, l, r) \<Rightarrow>
     case start_completion_alert None sample_host (Obj [(''id'', Str ''t'')]) l of (_, l', r') \<Rightarrow> (l', r @ r'))"

lemma rung_trace: "alert_trace (snd rung) (fst rung)"
proof -
  obtain u l r where p: "prime_completion_alerts None sample_host new_alerts = (u, l, r)" by (metis prod_cases3)
  obtain b l' r' where q: "start_completion_alert None sample_host (Obj [(''id'', Str ''t'')]) l = (b, l', r')"
    by (metis prod_cases3)
  have "alert_trace ([] @ r) l"
    by (rule alert_trace.Next[OF alert_trace.Initial alert_step.Prime[OF p]])
  then have "alert_trace (([] @ r) @ r') l'"
    by (rule alert_trace.Next[OF _ alert_step.Start[OF q]])
  then show ?thesis by (simp add: rung_def p q)
qed

theorem alerts_consistent_witness:
  "notifications (snd rung) = 1 \<and> intervals (snd rung) = 1 \<and> l_dismissed (fst rung) = Null"
proof -
  have "l_notification (fst rung)" "l_interval (fst rung)" by code_simp+
  with alerts_consistent[OF rung_trace] show ?thesis by simp
qed

end
