(* ===== verification/SignIn.thy ===== *)
theory SignIn
  imports Uuid
begin

text \<open>
  The addresses of a sign-in (\<open>web/app-session.js\<close>): the path the server returns to, and the
  token a sign-out sends through it, whose landing shows that the server has revoked the session
  behind the old cookie.
\<close>

section \<open>Texts\<close>

text \<open>\<open>text.split(c)\<close> for one character\<close>

fun split_at :: "char \<Rightarrow> string \<Rightarrow> string list" where
  "split_at c [] = [[]]"
| "split_at c (a # s) = (case split_at c s of
     [] \<Rightarrow> [[a]]
   | part # parts \<Rightarrow> if a = c then [] # part # parts else (a # part) # parts)"

text \<open>\<open>parts.join(c)\<close>\<close>

fun join_with :: "char \<Rightarrow> string list \<Rightarrow> string" where
  "join_with c [] = []"
| "join_with c [part] = part"
| "join_with c (part # parts) = part @ [c] @ join_with c parts"

definition starts :: "string \<Rightarrow> string \<Rightarrow> bool" where
  "starts prefix s \<longleftrightarrow> take (length prefix) s = prefix"

text \<open>The text of a byte of an escape, and \<open>encodeURIComponent\<close> of a character below 256.\<close>

definition percent :: "nat \<Rightarrow> string" where
  "percent n = [CHR 0x25, ''0123456789ABCDEF'' ! (n div 16), ''0123456789ABCDEF'' ! (n mod 16)]"

definition unreserved :: "char \<Rightarrow> bool" where
  "unreserved c \<longleftrightarrow> (let n = of_char c :: nat in
     48 \<le> n \<and> n \<le> 57 \<or> 65 \<le> n \<and> n \<le> 90 \<or> 97 \<le> n \<and> n \<le> 122
       \<or> n \<in> {45, 95, 46, 33, 126, 42, 39, 40, 41})"

definition encode_char :: "char \<Rightarrow> string" where
  "encode_char c = (let n = of_char c :: nat in
     if unreserved c then [c]
     else if n < 128 then percent n
     else percent (192 + n div 64) @ percent (128 + n mod 64))"

definition encode_uri_component :: "string \<Rightarrow> string" where
  "encode_uri_component s = concat (map encode_char s)"

section \<open>Return paths\<close>

definition safe_path :: "string \<Rightarrow> bool" where
  "safe_path s \<longleftrightarrow> s \<noteq> [] \<and> length s \<le> 1024 \<and> starts ''/'' s \<and> \<not> starts ''//'' s \<and> CHR 0x5C \<notin> set s"

definition safe_login_return_path :: "jv \<Rightarrow> string" where
  "safe_login_return_path v = (case v of Str s \<Rightarrow> if safe_path s then s else ''/app'' | _ \<Rightarrow> ''/app'')"

text \<open>
  The address of the page, as far as it is read; the pathname and query the URL parser finds in
  an absolute address are a parameter, which has none for an address it rejects.
\<close>

record address =
  w_pathname :: jv
  w_search :: jv
  w_href :: jv
  w_parsed :: "(string \<times> string) option"

definition text_or_app :: "string \<Rightarrow> jv" where
  "text_or_app s = Str (if s = [] then ''/app'' else s)"

definition before_hash :: "string \<Rightarrow> string" where
  "before_hash s = takeWhile (\<lambda>c. c \<noteq> CHR ''#'') s"

definition query_text :: "jv \<Rightarrow> string" where
  "query_text v = (case v of Str s \<Rightarrow> if s = [] \<or> starts ''?'' s then s else [] | _ \<Rightarrow> [])"

definition current_login_return_path :: "address option \<Rightarrow> string" where
  "current_login_return_path location = (case location of
     None \<Rightarrow> ''/app''
   | Some l \<Rightarrow>
       if nonempty_string (w_pathname l)
       then (case w_pathname l of Str path \<Rightarrow>
         safe_login_return_path (text_or_app (before_hash (path @ query_text (w_search l)))) | _ \<Rightarrow> ''/app'')
       else (case w_href l of
         Str href \<Rightarrow>
           if starts ''/'' href then safe_login_return_path (text_or_app (before_hash href))
           else if href \<noteq> [] then (case w_parsed l of
             Some (path, search) \<Rightarrow> safe_login_return_path (text_or_app (path @ search))
           | None \<Rightarrow> ''/app'')
           else ''/app''
       | _ \<Rightarrow> ''/app''))"

definition SIGN_IN_LANDING_FIELD :: string where "SIGN_IN_LANDING_FIELD = ''signin=''"

record landing =
  p_pathname :: string
  p_query :: "string list"
  p_token :: "string option"

text \<open>The fields of a query but for the tokens; the last token counts.\<close>

fun landing_fields :: "string list \<Rightarrow> string list \<times> string option" where
  "landing_fields [] = ([], None)"
| "landing_fields (f # fs) = (case landing_fields fs of (rest, token) \<Rightarrow>
     if starts SIGN_IN_LANDING_FIELD f
     then (rest, case token of None \<Rightarrow> Some (drop (length SIGN_IN_LANDING_FIELD) f) | Some t \<Rightarrow> Some t)
     else (f # rest, token))"

definition split_landing_token :: "string \<Rightarrow> landing" where
  "split_landing_token path =
     (if CHR ''?'' \<notin> set path then \<lparr>p_pathname = path, p_query = [], p_token = None\<rparr>
      else (let pathname = takeWhile (\<lambda>c. c \<noteq> CHR ''?'') path;
                after = tl (dropWhile (\<lambda>c. c \<noteq> CHR ''?'') path) in
        case landing_fields (split_at (CHR ''&'') after) of (rest, token) \<Rightarrow>
          \<lparr>p_pathname = pathname, p_query = rest, p_token = token\<rparr>))"

definition join_return_path :: "string \<Rightarrow> string list \<Rightarrow> string" where
  "join_return_path path query = (if query = [] then path else path @ ''?'' @ join_with (CHR ''&'') query)"

definition new_landing_token :: "nat list \<Rightarrow> string" where
  "new_landing_token bytes = concat (map (hex_digits 2) bytes)"

definition landing_field :: "string option \<Rightarrow> string list" where
  "landing_field token = (case token of None \<Rightarrow> [] | Some t \<Rightarrow> if t = [] then [] else [SIGN_IN_LANDING_FIELD @ t])"

definition login_return :: "address option \<Rightarrow> string option \<Rightarrow> string" where
  "login_return location token =
     (let current = split_landing_token (current_login_return_path location);
          landing = landing_field token;
          joined = join_return_path (p_pathname current) (p_query current @ landing) in
      if safe_login_return_path (Str joined) = joined then joined
      else safe_login_return_path (Str (join_return_path ''/app'' landing)))"

definition login_start_url :: "address option \<Rightarrow> string option \<Rightarrow> string" where
  "login_start_url location token =
     ''/auth/google/start?return='' @ encode_uri_component (login_return location token)"

section \<open>The way of a token\<close>

lemma split_at_not_Nil [simp]: "split_at c s \<noteq> []"
  by (induction s) (auto split: list.split)

lemma split_at_single: "c \<notin> set s \<Longrightarrow> split_at c s = [s]"
  by (induction s) auto

lemma split_at_append: "c \<notin> set a \<Longrightarrow> split_at c (a @ c # s) = a # split_at c s"
proof (induction a)
  case Nil
  obtain part parts where "split_at c s = part # parts" by (cases "split_at c s") auto
  then show ?case by simp
qed auto

lemma split_at_free: "part \<in> set (split_at c s) \<Longrightarrow> c \<notin> set part"
proof (induction s arbitrary: part)
  case (Cons a s)
  obtain p ps where p: "split_at c s = p # ps" by (cases "split_at c s") auto
  with Cons.IH have "c \<notin> set q" if "q \<in> set (p # ps)" for q using that by simp
  with Cons.prems p show ?case by (auto split: if_splits)
qed simp

lemma split_join: "parts \<noteq> [] \<Longrightarrow> \<forall>p\<in>set parts. c \<notin> set p \<Longrightarrow> split_at c (join_with c parts) = parts"
  by (induction c parts rule: join_with.induct) (auto simp: split_at_single split_at_append)

lemma landing_fields_snd: "landing_fields (fs @ [SIGN_IN_LANDING_FIELD @ t]) = (fst (landing_fields fs), Some t)"
  by (induction fs) (auto simp: starts_def split: prod.splits)

lemma landing_fields_plain: "\<forall>f\<in>set fs. \<not> starts SIGN_IN_LANDING_FIELD f \<Longrightarrow> landing_fields fs = (fs, None)"
  by (induction fs) auto

lemma landing_fields_fst: "fst (landing_fields fs) = filter (\<lambda>f. \<not> starts SIGN_IN_LANDING_FIELD f) fs"
  by (induction fs) (auto split: prod.splits)

lemma split_landing_parts:
  assumes "split_landing_token path = l"
  shows "CHR ''?'' \<notin> set (p_pathname l)" "\<forall>f\<in>set (p_query l). CHR ''&'' \<notin> set f \<and> \<not> starts SIGN_IN_LANDING_FIELD f"
proof -
  show "CHR ''?'' \<notin> set (p_pathname l)"
    using assms by (auto simp: split_landing_token_def Let_def split: if_splits prod.splits dest: set_takeWhileD)
  have "p_query l = [] \<or> (\<exists>s. p_query l = fst (landing_fields (split_at (CHR ''&'') s)))"
    using assms by (auto simp: split_landing_token_def Let_def split: if_splits prod.splits) (metis fst_conv)
  then show "\<forall>f\<in>set (p_query l). CHR ''&'' \<notin> set f \<and> \<not> starts SIGN_IN_LANDING_FIELD f"
    by (auto simp: landing_fields_fst dest: split_at_free)
qed

lemma split_joined:
  assumes "CHR ''?'' \<notin> set path" "query \<noteq> []" "\<forall>f\<in>set query. CHR ''&'' \<notin> set f"
  shows "split_landing_token (join_return_path path query) = (case landing_fields query of (rest, token) \<Rightarrow>
    \<lparr>p_pathname = path, p_query = rest, p_token = token\<rparr>)"
proof -
  have "takeWhile (\<lambda>c. c \<noteq> CHR ''?'') (path @ CHR ''?'' # r) = path"
      "dropWhile (\<lambda>c. c \<noteq> CHR ''?'') (path @ CHR ''?'' # r) = CHR ''?'' # r" for r
    using assms(1) by (auto simp: takeWhile_append2 dropWhile_append2 intro!: takeWhile_append2[THEN trans] dropWhile_append2[THEN trans])
  with assms(2,3) show ?thesis
    by (simp add: split_landing_token_def join_return_path_def Let_def split_join split: prod.split)
qed

text \<open>A token is what \<open>new_landing_token\<close> makes: nothing but hexadecimal digits.\<close>

definition landing_token :: "string \<Rightarrow> bool" where
  "landing_token t \<longleftrightarrow> t \<noteq> [] \<and> length t \<le> 32 \<and> set t \<subseteq> set ''0123456789abcdef''"

lemma safe_login_safe: "safe_path (safe_login_return_path v)"
proof -
  have "safe_path ''/app''" by (simp add: safe_path_def starts_def)
  then show ?thesis by (cases v) (simp_all add: safe_login_return_path_def)
qed

lemma safe_login_return_safe: "safe_path (login_return location token)"
proof -
  have "safe_path s" if "safe_login_return_path (Str s) = s" for s
    using safe_login_safe[of "Str s"] that by simp
  then show ?thesis by (simp add: login_return_def Let_def safe_login_safe)
qed

lemma app_landing_safe:
  assumes "landing_token t"
  shows "safe_path (join_return_path ''/app'' (landing_field (Some t)))"
proof -
  have "CHR 0x5C \<notin> set t" using assms by (auto simp: landing_token_def)
  with assms show ?thesis
    by (auto simp: landing_token_def join_return_path_def landing_field_def safe_path_def starts_def SIGN_IN_LANDING_FIELD_def)
qed


definition tasks_page :: address where
  "tasks_page = \<lparr>w_pathname = Str ''/app/tasks'', w_search = Str ''?lang=de&signin=0'', w_href = Undef, w_parsed = None\<rparr>"


end
