(* ===== verification/Session.thy ===== *)
theory Session
  imports AppSafety StorageResolution Runtime Transport SignIn
begin

text \<open>
  An operation of one tab in its surroundings: the tab's state and open connection, the
  database all tabs share, the account context the operation is bound to, what it has made
  other parts of the page do, and what the others do while it waits. At every \<open>await\<close> the next
  of them runs; it may change the state, the connection, the marks of a logout and the database
  in any way. An operation that waits for a condition the others never establish does not
  return: its result is \<open>Hangs\<close>, which no \<open>catch\<close> and no \<open>finally\<close> of the code sees.
\<close>

section \<open>The session\<close>

datatype stop = Hangs | Throws js_error

text \<open>What is done outside the state: calls of other modules, requests, closed connections.\<close>

datatype call =
    Render | RenderStatus | RenderTimer
  | Notice jv
  | StopAlert | OpenStream | CloseStream | Revalidate | Navigated string
  | RetryLater | SyncLater bool
  | Warned | Reported string
  | Posted string jv jv bool
  | Fetched string jv bool
  | BatchAccepted bool
  | SetAlarm jv | ClearAlarm
  | StartAlert jv | ClearRetry | SetRetry jv jv
  | Closed nat
  | ResetRetry | RenderDialog | RenderProfile | PrepareLater

text \<open>
  The context of an operation. One captured with the connection also ends when the connection is
  replaced by another, or by none and back (\<open>captureDatabaseContext\<close>); the one of a deletion that
  is recovered ends when its record is replaced (\<open>deletionRecoveryContext\<close>).
\<close>

record db_context = op_context +
  o_generation :: "nat option"
  o_deletion :: "jv option"

text \<open>
  What the session and resolution modules keep for the page: the token of a sign-in that ends a
  sign-out and the record of an account deletion, both in the local storage (\<open>Null\<close> if absent);
  the failures of that storage already reported; whether the page is being left; the number of
  session requests; whether a sign-out is to be run again; the submission of a resolution with
  its operation; the context of the revision stream.
\<close>

record page =
  g_sign_in :: jv
  g_deletion :: jv
  g_failures :: "string list"
  g_redirecting :: bool
  g_requests :: nat
  g_cleanup_retry :: bool
  g_submission :: "(nat \<times> db_context) option"
  g_stream :: "db_context option"

record shared =
  s_app :: app
  s_db :: database
  s_in_flight :: "jv list"
  s_generation :: nat
  s_runtime :: jv
  s_continuity :: jv
  s_page :: page

record session = shared +
  s_number :: nat
  s_context :: db_context
  s_calls :: "call list"
  s_others :: "(shared \<Rightarrow> shared) list"
  s_timing :: jv
  s_failed :: "db_context option"

type_synonym 'a act = "(session, stop, 'a) eff"

text \<open>
  What the code does not compute: the Core and the clock, fresh identifiers, the monotonic
  clock, the catalog, the collation of two texts, the timer a completion alert is shown for,
  the connection or the error the browser answers with, whether it is online, the network, the
  Core's identity of a task, the name of the exception with which the local storage refuses a
  value, sixteen random bytes (none without a secure source), the address of the page, and the
  answer to a question.
\<close>

record outside =
  x_env :: "session \<Rightarrow> env"
  x_uuid :: "session \<Rightarrow> nat \<Rightarrow> string"
  x_monotonic :: "session \<Rightarrow> jv"
  x_catalog :: catalog
  x_collate :: "string \<Rightarrow> string \<Rightarrow> int"
  x_alert :: "session \<Rightarrow> jv"
  x_open :: "session \<Rightarrow> nat res"
  x_online :: "session \<Rightarrow> bool"
  x_fetch :: "session \<Rightarrow> string \<Rightarrow> obj \<Rightarrow> jv \<Rightarrow> response res"
  x_identity :: "session \<Rightarrow> string \<Rightarrow> jv res"
  x_store :: "session \<Rightarrow> string \<Rightarrow> string option"
  x_random :: "session \<Rightarrow> nat list option"
  x_address :: "address option"
  x_confirm :: "session \<Rightarrow> bool"

definition shared_of :: "session \<Rightarrow> shared" where
  "shared_of s = \<lparr>s_app = s_app s, s_db = s_db s, s_in_flight = s_in_flight s, s_generation = s_generation s,
     s_runtime = s_runtime s, s_continuity = s_continuity s, s_page = s_page s\<rparr>"

definition with_shared :: "shared \<Rightarrow> session \<Rightarrow> session" where
  "with_shared h s = s\<lparr>s_app := s_app h, s_db := s_db h, s_in_flight := s_in_flight h,
     s_generation := s_generation h, s_runtime := s_runtime h, s_continuity := s_continuity h, s_page := s_page h\<rparr>"

section \<open>Steps\<close>

definition await :: "unit act" where
  "await s = (case s_others s of [] \<Rightarrow> (Inr (), s)
     | f # fs \<Rightarrow> (Inr (), (with_shared (f (shared_of s)) s)\<lparr>s_others := fs\<rparr>))"

definition run :: "'a res \<Rightarrow> 'a act" where
  "run r s = (case r of Inl e \<Rightarrow> (Inl (Throws e), s) | Inr a \<Rightarrow> (Inr a, s))"

definition asks :: "(session \<Rightarrow> 'a) \<Rightarrow> 'a act" where
  "asks f s = (Inr (f s), s)"

definition run_with :: "(session \<Rightarrow> 'a res) \<Rightarrow> 'a act" where
  "run_with f s = run (f s) s"

definition modify :: "(session \<Rightarrow> session) \<Rightarrow> unit act" where
  "modify f s = (Inr (), f s)"

definition calls :: "call list \<Rightarrow> unit act" where
  "calls cs = modify (\<lambda>s. s\<lparr>s_calls := s_calls s @ cs\<rparr>)"

definition fail :: "js_error \<Rightarrow> 'a act" where
  "fail e = throw (Throws e)"

text \<open>\<open>try { m } catch (error) { h(error) }\<close> and \<open>try { m } finally { f }\<close>\<close>

definition handling :: "'a act \<Rightarrow> (js_error \<Rightarrow> 'a act) \<Rightarrow> 'a act" where
  "handling m h = catch m (\<lambda>stop. case stop of Hangs \<Rightarrow> throw Hangs | Throws e \<Rightarrow> h e)"

definition ensuring :: "'a act \<Rightarrow> unit act \<Rightarrow> 'a act" where
  "ensuring m f s = (case m s of
     (Inl Hangs, s') \<Rightarrow> (Inl Hangs, s')
   | (Inl e, s') \<Rightarrow> bindw f (\<lambda>_. throw e) s'
   | (Inr a, s') \<Rightarrow> bindw f (\<lambda>_. ret a) s')"

section \<open>The state\<close>

definition tab_state :: "session \<Rightarrow> obj" where
  "tab_state s = a_state (s_app s)"

definition set_tab :: "obj \<Rightarrow> session \<Rightarrow> session" where
  "set_tab st s = s\<lparr>s_app := (s_app s)\<lparr>a_state := st\<rparr>\<rparr>"

definition field :: "string \<Rightarrow> jv act" where
  "field k = asks (\<lambda>s. fld (tab_state s) k)"

definition put_field :: "string \<Rightarrow> jv \<Rightarrow> unit act" where
  "put_field k v = modify (\<lambda>s. set_tab (obj_put k v (tab_state s)) s)"

text \<open>Assignments one after another, each of a value computed from the state as it is then.\<close>

definition put_each :: "(string \<times> (obj \<Rightarrow> jv res)) list \<Rightarrow> unit act" where
  "put_each = each (\<lambda>(k, f). bindw (run_with (\<lambda>s. f (tab_state s))) (put_field k))"

section \<open>Contexts\<close>

definition plain_context :: "db_context \<Rightarrow> op_context" where
  "plain_context c = \<lparr>o_database = o_database c, o_identity = o_identity c\<rparr>"

definition in_context :: "db_context \<Rightarrow> op_context \<Rightarrow> db_context" where
  "in_context c p = \<lparr>o_database = o_database p, o_identity = o_identity p, o_generation = o_generation c, o_deletion = o_deletion c\<rparr>"

text \<open>\<open>context.assertCurrent()\<close>\<close>

definition context_ok :: "session \<Rightarrow> db_context \<Rightarrow> unit res" where
  "context_ok s c =
     bindr (assert_current (s_app s) (plain_context c)) (\<lambda>_.
     bindr (ensure (case o_generation c of None \<Rightarrow> True | Some g \<Rightarrow> s_generation s = g) account_error) (\<lambda>_.
     ensure (case o_deletion c of None \<Rightarrow> True
       | Some record \<Rightarrow> a_logout (s_app s) \<noteq> None \<and> strict_eq (g_deletion (s_page s)) record) account_error))"

definition ownership_error :: "js_error \<Rightarrow> bool" where
  "ownership_error e = (case e of AccountOwnershipError _ \<Rightarrow> True | _ \<Rightarrow> False)"

text \<open>\<open>accountOperation.isCurrent(context)\<close>\<close>

definition context_current :: "session \<Rightarrow> db_context \<Rightarrow> bool res" where
  "context_current s c = (case context_ok s c of
     Inr _ \<Rightarrow> Inr True | Inl e \<Rightarrow> if ownership_error e then Inr False else Inl e)"

definition assert_now :: "unit act" where
  "assert_now = run_with (\<lambda>s. context_ok s (s_context s))"

definition current_now :: "bool act" where
  "current_now = run_with (\<lambda>s. context_current s (s_context s))"

definition live :: "session \<Rightarrow> bool" where
  "live s \<longleftrightarrow> context_ok s (s_context s) = Inr ()"

text \<open>\<open>captureAccountContext\<close> and \<open>captureDatabaseContext\<close>; the operation binds itself to the former.\<close>

definition account_context :: "session \<Rightarrow> db_context res" where
  "account_context s = bindr (capture_account_context (s_app s)) (\<lambda>c.
     Inr \<lparr>o_database = o_database c, o_identity = o_identity c, o_generation = None, o_deletion = None\<rparr>)"

definition capture_database_context :: "session \<Rightarrow> db_context res" where
  "capture_database_context s = bindr (account_context s) (\<lambda>c. Inr (c\<lparr>o_generation := Some (s_generation s)\<rparr>))"

definition capture_now :: "unit act" where
  "capture_now = bindw (run_with account_context) (\<lambda>c. modify (\<lambda>s. s\<lparr>s_context := c\<rparr>))"

text \<open>The fields a context is spread into.\<close>

definition context_fields :: "session \<Rightarrow> obj" where
  "context_fields s = (let i = o_identity (s_context s) in
     [(''ownerId'', i_owner i), (''localOwnerId'', i_local i),
      (''expectedUserId'', or_else (i_local i) Null), (''currentUserId'', i_owner i)])"

text \<open>
  \<open>context.publishIdentity(publish)\<close>. Its result \<open>None\<close> is the same context, brought up to date; a
  new one is the scope of another account, under which \<open>under\<close> runs the code that is given it.
  The old context is then as it was, and has ended.
\<close>

definition next_scope :: "session \<Rightarrow> db_context \<Rightarrow> (db_context \<times> db_context option) res" where
  "next_scope s c =
     bindr (next_context (s_app s) (plain_context c)) (\<lambda>(c', d).
     if truthy (i_owner (o_identity c)) \<and> \<not> strict_eq (i_owner (o_identity d)) (i_owner (o_identity c))
     then Inr (c, Some (in_context c d))
     else bindr (context_ok s (in_context c c')) (\<lambda>_. Inr (in_context c c', None)))"

definition publish_scope :: "unit act \<Rightarrow> db_context option act" where
  "publish_scope publish =
     bindw assert_now (\<lambda>_.
     bindw publish (\<lambda>_.
     bindw (run_with (\<lambda>s. next_scope s (s_context s))) (\<lambda>(c, scope).
     bindw (modify (\<lambda>s. s\<lparr>s_context := c\<rparr>)) (\<lambda>_. ret scope))))"

text \<open>The same where the code does not use the result.\<close>

definition publish_in :: "unit act \<Rightarrow> unit act" where
  "publish_in publish = bindw (publish_scope publish) (\<lambda>_. ret ())"

definition under :: "db_context option \<Rightarrow> 'a act \<Rightarrow> 'a act" where
  "under scope m = (case scope of
     None \<Rightarrow> m
   | Some c \<Rightarrow> (\<lambda>s. case m (s\<lparr>s_context := c\<rparr>) of (r, s') \<Rightarrow> (r, s'\<lparr>s_context := s_context s\<rparr>)))"

section \<open>The database\<close>

definition no_connection :: js_error where
  "no_connection = TypeError ''Cannot read properties of null''"

text \<open>A transaction: the others act before it runs and before its caller goes on.\<close>

definition transact_as ::
  "outside \<Rightarrow> (session \<Rightarrow> unit res) \<Rightarrow> (env \<Rightarrow> database \<Rightarrow> 'a res \<times> database) \<Rightarrow> 'a act" where
  "transact_as x current f =
     bindw (run_with (\<lambda>s. ensure (a_database (s_app s) \<noteq> 0) no_connection)) (\<lambda>_.
     bindw await (\<lambda>_.
     bindw (\<lambda>s. case f ((x_env x s)\<lparr>e_current := current s\<rparr>) (s_db s) of (r, db) \<Rightarrow> (Inr r, s\<lparr>s_db := db\<rparr>)) (\<lambda>r.
     bindw await (\<lambda>_. run r))))"

definition transact :: "outside \<Rightarrow> (env \<Rightarrow> database \<Rightarrow> 'a res \<times> database) \<Rightarrow> 'a act" where
  "transact x = transact_as x (\<lambda>s. context_ok s (s_context s))"

definition reading :: "(database \<Rightarrow> 'a) \<Rightarrow> 'a act" where
  "reading f =
     bindw (run_with (\<lambda>s. ensure (a_database (s_app s) \<noteq> 0) no_connection)) (\<lambda>_.
     bindw await (\<lambda>_.
     bindw (asks (\<lambda>s. f (s_db s))) (\<lambda>v.
     bindw await (\<lambda>_. ret v))))"

section \<open>Parts every module uses\<close>

text \<open>\<open>error.message\<close>: the errors whose text the model does not keep have an unknown one.\<close>

fun message_of :: "js_error \<Rightarrow> string" where
  "message_of (Error m) = m"
| "message_of (TypeError m) = m"
| "message_of (RangeError m) = m"
| "message_of (UUIDRangeError m) = m"
| "message_of (BootstrapGateError m) = m"
| "message_of (AccountOwnershipError m) = m"
| "message_of (PersistedDisplayContextError e) = message_of e"
| "message_of (LegacyDependencyRecoveryError _) =
     ''Legacy timer dependencies need recovery. Retained operations and saved requests remain unchanged.''"
| "message_of _ = []"

definition set_page :: "(page \<Rightarrow> page) \<Rightarrow> unit act" where
  "set_page f = modify (\<lambda>s. s\<lparr>s_page := f (s_page s)\<rparr>)"

text \<open>\<open>pendingLocalLogout()\<close>: a sign-out that is not complete.\<close>

definition pending_local_logout :: "session \<Rightarrow> bool" where
  "pending_local_logout s = (case a_logout (s_app s) of None \<Rightarrow> False | Some (flag, _) \<Rightarrow> flag \<noteq> Null)"

definition close_stream :: "unit act" where
  "close_stream = bindw (set_page (\<lambda>g. g\<lparr>g_stream := None\<rparr>)) (\<lambda>_. calls [CloseStream])"

text \<open>
  \<open>queueSessionRevalidation(context)\<close>; the validation it defers, bound to the context, is the
  call \<open>Revalidate\<close>. Without an argument it binds itself to the account as it is.
\<close>

definition revalidation_fields :: obj where
  "revalidation_fields = [(''bootstrapSubmitting'', Bool False), (''bootstrapPending'', Null),
     (''bootstrapStrategy'', Null), (''bootstrapConflict'', Bool False), (''bootstrapError'', Null),
     (''bootstrapLimitError'', Null), (''bootstrapBlocked'', Bool True), (''bootstrapGateOwned'', Bool False),
     (''sessionIdentityValidated'', Bool False)]"

definition revalidate_session :: "unit act" where
  "revalidate_session =
     bindw (modify (\<lambda>s. set_tab (assign (tab_state s) revalidation_fields) s)) (\<lambda>_.
     bindw close_stream (\<lambda>_.
     bindw (calls [Render]) (\<lambda>_.
     bindw (asks pending_local_logout) (\<lambda>pending. if pending then ret () else calls [Revalidate]))))"

definition queue_session_revalidation :: "unit act" where
  "queue_session_revalidation = bindw current_now (\<lambda>current. if current then revalidate_session else ret ())"

definition effects :: "effect list \<Rightarrow> unit act" where
  "effects = each (\<lambda>e. case e of
     StopCompletionAlert \<Rightarrow> calls [StopAlert]
   | QueueSessionRevalidation \<Rightarrow>
       bindw (run_with account_context) (\<lambda>_. revalidate_session))"

definition account_mismatch :: "unit act" where
  "account_mismatch = bindw (asks tab_state) (\<lambda>st. case quarantine_account_mismatch st of (st', es) \<Rightarrow>
     bindw (modify (set_tab st')) (\<lambda>_. effects es))"

definition expect_account :: "jv \<Rightarrow> unit act" where
  "expect_account expected = bindw (asks tab_state) (\<lambda>st. case assert_expected_account expected st of (r, st', es) \<Rightarrow>
     bindw (modify (set_tab st')) (\<lambda>_. bindw (effects es) (\<lambda>_. run r)))"

definition rebuild :: "outside \<Rightarrow> unit act" where
  "rebuild x = bindw (run_with (\<lambda>s. rebuild_optimistic_state (x_env x s) (x_alert x s) (tab_state s))) (\<lambda>(st, es).
     bindw (modify (set_tab st)) (\<lambda>_. effects es))"

definition clock_now :: "outside \<Rightarrow> jv act" where
  "clock_now x = bindw (asks (\<lambda>s. trusted_now (x_env x s) (jint (e_now (x_env x s))) (x_monotonic x s)
       \<lparr>t_state = tab_state s, t_runtime = s_runtime s, t_continuity = s_continuity s\<rparr>)) (\<lambda>(r, t).
     bindw (modify (\<lambda>s. s\<lparr>s_runtime := t_runtime t\<rparr>)) (\<lambda>_. run r))"

definition local_now :: "outside \<Rightarrow> session \<Rightarrow> jv" where
  "local_now x s = jint (e_now (x_env x s))"

text \<open>\<open>accountOwnerId(state.user) || state.localOwnerId || null\<close>\<close>

definition owner_now :: "jv act" where
  "owner_now = run_with (\<lambda>s. state_owner (tab_state s))"

section \<open>Orders\<close>

text \<open>
  \<open>items.sort(compare)\<close> is stable; for a consistent comparison every stable sort returns the
  same list. Only the sign of a comparison matters.
\<close>

fun insert_by :: "('a \<Rightarrow> 'a \<Rightarrow> int) \<Rightarrow> 'a \<Rightarrow> 'a list \<Rightarrow> 'a list" where
  "insert_by cmp x [] = [x]"
| "insert_by cmp x (y # ys) = (if cmp y x \<le> 0 then y # insert_by cmp x ys else x # y # ys)"

definition sort_by :: "('a \<Rightarrow> 'a \<Rightarrow> int) \<Rightarrow> 'a list \<Rightarrow> 'a list" where
  "sort_by cmp xs = foldl (\<lambda>ys x. insert_by cmp x ys) [] xs"

definition sign_of :: "jnum \<Rightarrow> jnum \<Rightarrow> int" where
  "sign_of l r = (if num_less l r then -1 else if num_less r l then 1 else 0)"

definition compare_duration_operations :: "(string \<Rightarrow> string \<Rightarrow> int) \<Rightarrow> obj \<Rightarrow> obj \<Rightarrow> int" where
  "compare_duration_operations collate l r =
     or_number (sign_of (to_number (fld l ''hlcWallMs'')) (to_number (fld r ''hlcWallMs'')))
    (or_number (sign_of (to_number (fld l ''hlcCounter'')) (to_number (fld r ''hlcCounter'')))
      (collate (id_text (fld l ''id'')) (id_text (fld r ''id''))))"

text \<open>\<open>(queue || []).sort(compare)\<close> for a queue of operations.\<close>

definition sorted_queue :: "(obj \<Rightarrow> obj \<Rightarrow> int) \<Rightarrow> jv \<Rightarrow> jv" where
  "sorted_queue cmp v = Arr (sort_by (\<lambda>a b. cmp (as_obj a) (as_obj b)) (list_if_array v))"

definition queue_or_empty :: "jv \<Rightarrow> jv" where
  "queue_or_empty v = or_else v (Arr [])"

text \<open>Evaluation runs an operation only when it is given its session.\<close>

lemma put_each_code [code]:
  "put_each [] s = (Inr (), s)"
  "put_each ((k, f) # fs) s = (case f (tab_state s) of Inl e \<Rightarrow> (Inl (Throws e), s)
     | Inr v \<Rightarrow> put_each fs (set_tab (obj_put k v (tab_state s)) s))"
  by (auto simp: put_each_def ret_def bindw_def run_with_def run_def put_field_def modify_def split: sum.split)

lemmas session_code [code] =
  calls_def[THEN fun_cong] fail_def[THEN fun_cong] handling_def[THEN fun_cong] field_def[THEN fun_cong]
  put_field_def[THEN fun_cong] assert_now_def[THEN fun_cong] current_now_def[THEN fun_cong]
  capture_now_def[THEN fun_cong] publish_scope_def[THEN fun_cong] publish_in_def[THEN fun_cong]
  under_def[THEN fun_cong] transact_as_def[THEN fun_cong] reading_def[THEN fun_cong]
  set_page_def[THEN fun_cong] close_stream_def[THEN fun_cong] revalidate_session_def[THEN fun_cong]
  queue_session_revalidation_def[THEN fun_cong] account_mismatch_def[THEN fun_cong]
  expect_account_def[THEN fun_cong] rebuild_def[THEN fun_cong] clock_now_def[THEN fun_cong]
  owner_now_def[THEN fun_cong]

end
