(* ===== verification/TabStorage.thy ===== *)
theory TabStorage
  imports Session
begin

text \<open>
  \<open>web/app-storage.js\<close>: how a tab opens the database, loads what it finds there, installs it
  again after every transaction, commits a mutation the Core has planned, and removes
  everything when the account is signed out. A transaction is one of the storage theories,
  run in the session of the tab.
\<close>

section \<open>Values of the state\<close>

definition settings_value :: "obj \<Rightarrow> obj \<Rightarrow> obj" where
  "settings_value st overrides = spread
     [(''selectedPhase'', fld st ''selectedPhase''),
      (''durationSyncBootstrapped'', fld st ''durationSyncBootstrapped''),
      (''autoStartSyncBootstrapped'', fld st ''autoStartSyncBootstrapped''),
      (''selectedTaskSyncBootstrapped'', fld st ''selectedTaskSyncBootstrapped'')] overrides"

definition snapshot_value :: "obj \<Rightarrow> obj \<Rightarrow> obj" where
  "snapshot_value st overrides = spread
     [(''revision'', fld st ''revision''),
      (''canonicalTimer'', if truthy (getp (fld st ''baseTimer'') ''id'') then clone_value (fld st ''baseTimer'') else Null),
      (''history'', clone_value (fld st ''baseHistory'')), (''tasks'', clone_value (fld st ''baseTasks'')),
      (''durationsMs'', clone_value (fld st ''baseDurationsMs'')), (''autoStartBreaks'', fld st ''baseAutoStartBreaks''),
      (''selectedTaskId'', fld st ''baseSelectedTaskId''), (''user'', clone_value (fld st ''user''))] overrides"

definition array_or_empty :: "jv \<Rightarrow> jv" where
  "array_or_empty v = (if is_array v then v else Arr [])"

text \<open>\<open>Number(v) || fallback\<close>\<close>

definition number_or :: "jv \<Rightarrow> jv \<Rightarrow> jv" where
  "number_or v fallback = or_else (Num (to_number v)) fallback"

definition larger :: "jv \<Rightarrow> jv \<Rightarrow> jv" where
  "larger l r = (if num_less (to_number l) (to_number r) then r else l)"

definition empty_timer_now :: "obj \<Rightarrow> jv res" where
  "empty_timer_now st = bindr (selected_duration_ms st) (\<lambda>planned.
     Inr (empty_timer_value (fld st ''selectedPhase'') planned))"

definition known_phase :: "jv \<Rightarrow> jv" where
  "known_phase v = (case v of Str p \<Rightarrow> if p \<in> set PHASES then v else Str ''focus'' | _ \<Rightarrow> Str ''focus'')"

section \<open>Restoring what is stored\<close>

definition restore_local_snapshot :: "jv \<Rightarrow> (string \<times> (obj \<Rightarrow> jv res)) list" where
  "restore_local_snapshot snapshot =
     (if \<not> truthy snapshot then [(''baseTimer'', empty_timer_now)]
      else
        [(''revision'', \<lambda>_. Inr (coalesce (getp snapshot ''revision'') (jint 0))),
         (''baseTimer'', \<lambda>st. if truthy (getp snapshot ''canonicalTimer'') then Inr (getp snapshot ''canonicalTimer'')
            else empty_timer_now st),
         (''baseHistory'', \<lambda>_. Inr (array_or_empty (getp snapshot ''history''))),
         (''baseTasks'', \<lambda>_. Inr (array_or_empty (getp snapshot ''tasks''))),
         (''baseDurationsMs'', \<lambda>_. Inr (clone_value (getp snapshot ''durationsMs''))),
         (''baseAutoStartBreaks'', \<lambda>_. Inr (Bool (getp snapshot ''autoStartBreaks'' = Bool True))),
         (''baseSelectedTaskId'', \<lambda>_. Inr (coalesce (getp snapshot ''selectedTaskId'') Null)),
         (''user'', \<lambda>_. Inr (or_else (getp snapshot ''user'') Null)),
         (''localOwnerId'', \<lambda>_. bindr (account_owner_id (getp snapshot ''user'')) (\<lambda>owner. Inr (or_else owner Null)))])"

text \<open>The records \<open>readLocalRecords\<close> reads: metadata as stored with its key, queues as lists.\<close>

definition local_records :: "database \<Rightarrow> obj" where
  "local_records db =
     map (\<lambda>k. (k, if meta_present db k then Obj [(''key'', Str k), (''value'', meta_value db k)] else Undef))
       [''deviceId'', ''deviceSequence'', ''hlc'', ''clockOffset'', ''settings'', ''snapshot'', ''bootstrapResolution'',
        ''deliveryProof'', ''canonicalHead'', ''projectionPending'', ''outgoingSync'', ''timerDependencies'',
        ''workspaceObservation'', ''completionState'']
     @ [(''pending'', objs (queue_items db Commands)), (''pendingTaskOperations'', objs (queue_items db TaskOperations)),
        (''pendingDurationOperations'', objs (queue_items db DurationOperations)),
        (''pendingAutoStartOperations'', objs (queue_items db AutoStartOperations)),
        (''pendingSelectedTaskOperations'', objs (queue_items db SelectedTaskOperations))]"

definition highest_sequence :: "jv \<Rightarrow> jv" where
  "highest_sequence commands = foldl (\<lambda>value command. larger value (number_or (getp command ''deviceSequence'') (jint 0)))
     (jint 0) (list_if_array commands)"

definition bootstrapped :: "jv \<Rightarrow> string \<Rightarrow> string \<times> (obj \<Rightarrow> jv res)" where
  "bootstrapped settings k = (k, \<lambda>_. Inr (Bool (getp settings k = Bool True)))"

definition restore_local_records ::
  "outside \<Rightarrow> string \<Rightarrow> obj \<Rightarrow> jv \<Rightarrow> (string \<times> (obj \<Rightarrow> jv res)) list" where
  "restore_local_records x uuid records resolution =
     (let stored = (\<lambda>k. getp (fld records k) ''value'') in
      [(''deviceId'', \<lambda>_. Inr (or_else (stored ''deviceId'') (Str uuid))),
       (''deviceSequence'', \<lambda>_. Inr (number_or (stored ''deviceSequence'') (jint 0))),
       (''hlcWallMs'', \<lambda>_. Inr (number_or (getp (stored ''hlc'') ''wallMs'') (jint 0))),
       (''hlcCounter'', \<lambda>_. Inr (number_or (getp (stored ''hlc'') ''counter'') (jint 0))),
       (''clockOffset'', \<lambda>_. Inr (coalesce (stored ''clockOffset'') Null)),
       (''pending'', \<lambda>_. Inr (sorted_queue compare_timer_commands (fld records ''pending''))),
       (''pendingTaskOperations'', \<lambda>_. Inr (queue_or_empty (fld records ''pendingTaskOperations''))),
       (''pendingDurationOperations'', \<lambda>_. Inr (sorted_queue (compare_duration_operations (x_collate x))
          (fld records ''pendingDurationOperations''))),
       (''pendingAutoStartOperations'', \<lambda>_. Inr (queue_or_empty (fld records ''pendingAutoStartOperations''))),
       (''pendingSelectedTaskOperations'', \<lambda>_. Inr (queue_or_empty (fld records ''pendingSelectedTaskOperations''))),
       (''deliveryProof'', \<lambda>_. Inr (proof_value (sanitize_delivery_proof (stored ''deliveryProof'')))),
       (''canonicalHead'', \<lambda>_. Inr (sanitize_canonical_head (stored ''canonicalHead''))),
       (''projectionPending'', \<lambda>_. Inr (coalesce (stored ''projectionPending'') Null)),
       (''outgoingSync'', \<lambda>_. Inr (or_else (stored ''outgoingSync'') Null)),
       (''timerDependencies'', \<lambda>_. Inr (coalesce (stored ''timerDependencies'') Null)),
       (''workspaceObservation'', \<lambda>_. Inr (coalesce (stored ''workspaceObservation'') Null)),
       (''completionState'', \<lambda>_. Inr (coalesce (stored ''completionState'') Null)),
       bootstrapped (stored ''settings'') ''durationSyncBootstrapped'',
       bootstrapped (stored ''settings'') ''autoStartSyncBootstrapped'',
       bootstrapped (stored ''settings'') ''selectedTaskSyncBootstrapped'',
       (''bootstrapPending'', \<lambda>_. Inr (or_else resolution (or_else (stored ''bootstrapResolution'') Null)))]
      @ (if truthy (stored ''settings'')
         then [(''selectedPhase'', \<lambda>_. Inr (known_phase (getp (stored ''settings'') ''selectedPhase'')))] else [])
      @ restore_local_snapshot (stored ''snapshot'')
      @ [(''deviceSequence'', \<lambda>st. Inr (larger (fld st ''deviceSequence'') (highest_sequence (fld st ''pending''))))])"

text \<open>\<open>installPersistedState\<close>: what \<open>readSyncState\<close> returned becomes the state.\<close>

definition install_fields :: "outside \<Rightarrow> jv \<Rightarrow> (string \<times> (obj \<Rightarrow> jv res)) list" where
  "install_fields x persisted =
     (let snapshot = getp persisted ''snapshot'' in
      [(''revision'', \<lambda>_. Inr (number_or (getp snapshot ''revision'') (jint 0))),
       (''baseDurationsMs'', \<lambda>_. Inr (clone_value (getp snapshot ''durationsMs''))),
       (''durationsMs'', \<lambda>st. Inr (clone_value (fld st ''baseDurationsMs''))),
       (''baseAutoStartBreaks'', \<lambda>_. Inr (Bool (getp snapshot ''autoStartBreaks'' = Bool True))),
       (''baseSelectedTaskId'', \<lambda>_. Inr (coalesce (getp snapshot ''selectedTaskId'') Null)),
       (''baseTimer'', \<lambda>st. if truthy (getp snapshot ''canonicalTimer'')
          then Inr (clone_value (getp snapshot ''canonicalTimer''))
          else bindr (named (fld st ''baseDurationsMs'') (fld st ''selectedPhase'')) (\<lambda>planned.
            Inr (empty_timer_value (fld st ''selectedPhase'') planned))),
       (''baseHistory'', \<lambda>_. Inr (array_or_empty (getp snapshot ''history''))),
       (''baseTasks'', \<lambda>_. Inr (array_or_empty (getp snapshot ''tasks''))),
       (''localOwnerId'', \<lambda>st. bindr (account_owner_id (getp snapshot ''user'')) (\<lambda>owner.
          Inr (or_else owner (fld st ''localOwnerId'')))),
       (''hlcWallMs'', \<lambda>st. Inr (number_or (getp (getp persisted ''hlc'') ''wallMs'') (fld st ''hlcWallMs''))),
       (''hlcCounter'', \<lambda>_. Inr (number_or (getp (getp persisted ''hlc'') ''counter'') (jint 0))),
       (''clockOffset'', \<lambda>st. Inr (or_else (getp persisted ''clockOffset'') (fld st ''clockOffset''))),
       (''pending'', \<lambda>_. Inr (sorted_queue compare_timer_commands (getp persisted ''commands''))),
       (''pendingTaskOperations'', \<lambda>_. Inr (queue_or_empty (getp persisted ''taskOperations''))),
       (''pendingDurationOperations'', \<lambda>_. Inr (sorted_queue (compare_duration_operations (x_collate x))
          (getp persisted ''durationOperations''))),
       (''pendingAutoStartOperations'', \<lambda>_. Inr (queue_or_empty (getp persisted ''autoStartOperations''))),
       (''pendingSelectedTaskOperations'', \<lambda>_. Inr (queue_or_empty (getp persisted ''selectedTaskOperations''))),
       (''deliveryProof'', \<lambda>_. Inr (proof_value (sanitize_delivery_proof (getp persisted ''deliveryProof'')))),
       (''canonicalHead'', \<lambda>_. Inr (sanitize_canonical_head (getp persisted ''canonicalHead''))),
       (''projectionPending'', \<lambda>_. Inr (coalesce (getp persisted ''projectionPending'') Null)),
       (''outgoingSync'', \<lambda>_. Inr (or_else (getp persisted ''outgoing'') Null)),
       (''timerDependencies'', \<lambda>_. Inr (coalesce (getp persisted ''timerDependencies'') Null)),
       (''workspaceObservation'', \<lambda>_. Inr (coalesce (getp persisted ''workspaceObservation'') Null)),
       (''completionState'', \<lambda>_. Inr (coalesce (getp persisted ''completionState'') Null))]
      @ (if truthy (getp persisted ''settings'')
         then [(''selectedPhase'', \<lambda>_. dot (getp persisted ''settings'') ''selectedPhase'')] else [])
      @ (if \<not> nullish (getp persisted ''deviceSequence'')
         then [(''deviceSequence'', \<lambda>_. Inr (getp persisted ''deviceSequence''))] else []))"

definition install_persisted_state :: "outside \<Rightarrow> jv \<Rightarrow> unit act" where
  "install_persisted_state x persisted = bindw (put_each (install_fields x persisted)) (\<lambda>_. rebuild x)"

section \<open>Failures\<close>

definition storage_failure :: "js_error \<Rightarrow> 'a act" where
  "storage_failure e =
     bindw (if ownership_error e then account_mismatch else calls [Reported ''storage.failure'']) (\<lambda>_. fail e)"

definition rethrow_ownership :: "js_error \<Rightarrow> 'a act" where
  "rethrow_ownership e = bindw (if ownership_error e then account_mismatch else ret ()) (\<lambda>_. fail e)"

text \<open>\<open>while (state.actionLocked) await ...\<close>: each wait lets the others run; it may last for ever.\<close>

fun unlocked_after :: "(shared \<Rightarrow> shared) list \<Rightarrow> session \<Rightarrow> session option" where
  "unlocked_after [] s = (if truthy (fld (tab_state s) ''actionLocked'') then None else Some (s\<lparr>s_others := []\<rparr>))"
| "unlocked_after (f # fs) s = (if truthy (fld (tab_state s) ''actionLocked'')
     then unlocked_after fs (with_shared (f (shared_of s)) s) else Some (s\<lparr>s_others := f # fs\<rparr>))"

definition wait_unlocked :: "unit act" where
  "wait_unlocked s = (case unlocked_after (s_others s) s of
     None \<Rightarrow> (Inl Hangs, s) | Some s' \<Rightarrow> (Inr (), s'))"

section \<open>The display context\<close>

definition sync_records :: "jv \<Rightarrow> records" where
  "sync_records v = \<lparr>r_field = getp v, r_queue = (\<lambda>d. map as_obj (list_if_array (getp v (domain_name d))))\<rparr>"

definition is_display_error :: "js_error \<Rightarrow> bool" where
  "is_display_error e = (case e of PersistedDisplayContextError _ \<Rightarrow> True | _ \<Rightarrow> False)"

definition block_display :: "string \<Rightarrow> unit act" where
  "block_display m =
     (let message = Str (''Persisted display context needs recovery. '' @ m) in
      bindw (modify (\<lambda>s. set_tab (assign (tab_state s) [(''workspaceBlocked'', Bool True), (''bootstrapBlocked'', Bool True),
        (''bootstrapError'', message), (''conflict'', message)]) s)) (\<lambda>_. calls [Notice message]))"

definition assert_display_context :: "outside \<Rightarrow> jv \<Rightarrow> unit act" where
  "assert_display_context x records =
     bindw (put_field ''projectionPending'' (coalesce (getp records ''projectionPending'') Null)) (\<lambda>_.
     if nullish (getp records ''projectionPending'') then ret ()
     else handling (run_with (\<lambda>s. assert_persisted_display_context (x_env x s) (sync_records records)
         (or_else (getp records ''deviceId'') (fld (tab_state s) ''deviceId''))))
       (\<lambda>e. bindw (if is_display_error e then block_display (message_of e) else ret ()) (\<lambda>_. fail e)))"

definition validate_persisted_display_context :: "outside \<Rightarrow> jv act" where
  "validate_persisted_display_context x =
     bindw assert_now (\<lambda>_.
     bindw (reading (\<lambda>db. Obj (read_sync_state db))) (\<lambda>records.
     bindw assert_now (\<lambda>_.
     bindw (assert_display_context x records) (\<lambda>_. ret records))))"

section \<open>Installing what is stored\<close>

definition reload_persisted_state :: "outside \<Rightarrow> jv option \<Rightarrow> bool \<Rightarrow> unit act" where
  "reload_persisted_state x persisted by_mutation =
     bindw assert_now (\<lambda>_.
     bindw owner_now (\<lambda>expected.
     bindw (case persisted of Some v \<Rightarrow> ret v | None \<Rightarrow> reading (\<lambda>db. Obj (read_sync_state db))) (\<lambda>records.
     bindw (run (ensure (truthy (getp records ''snapshot''))
       (Error (tr (x_catalog x) ''sync.snapshotUnavailable'' [] ''Canonical timer snapshot is unavailable.'')))) (\<lambda>_.
     bindw (handling
         (bindw assert_now (\<lambda>_.
          bindw (expect_account expected) (\<lambda>_.
          run (assert_account_ownership (getp records ''snapshot'') expected))))
         (\<lambda>e. bindw current_now (\<lambda>current. if \<not> current \<or> by_mutation then fail e else storage_failure e))) (\<lambda>_.
     bindw (assert_display_context x records) (\<lambda>_.
     publish_in (install_persisted_state x records)))))))"

text \<open>Evaluation runs an operation only when it is given its session.\<close>

lemmas tab_storage_code [code] =
  install_persisted_state_def[THEN fun_cong] storage_failure_def[THEN fun_cong]
  rethrow_ownership_def[THEN fun_cong] block_display_def[THEN fun_cong]
  assert_display_context_def[THEN fun_cong] validate_persisted_display_context_def[THEN fun_cong]
  reload_persisted_state_def[THEN fun_cong]

end
