(* ===== verification/TabCommit.thy ===== *)
theory TabCommit
  imports TabStorage
begin

text \<open>
  The mutations of \<open>web/app-storage.js\<close> (\<open>MutationRepository\<close>, \<open>persistSettings\<close>): the input
  of a mutation is gathered from the tab, the Core's plan is committed in a transaction, and
  what the database then holds is installed. The operation is bound to the context it was
  started for; a change of the account quarantines the tab.
\<close>

section \<open>Committing a mutation\<close>

definition TIMER_OWNER_LEASE_MS :: int where "TIMER_OWNER_LEASE_MS = timing_ms ''timerOwnerLease'' 60000"

text \<open>\<open>clockContinuityId()\<close>: drawn once for the page.\<close>

definition continuity_now :: "outside \<Rightarrow> jv act" where
  "continuity_now x = bindw (modify (\<lambda>s. if truthy (s_continuity s) then s
     else s\<lparr>s_continuity := Str (x_uuid x s 0)\<rparr>)) (\<lambda>_. asks s_continuity)"

definition mutation_input :: "outside \<Rightarrow> obj \<Rightarrow> obj act" where
  "mutation_input x extra =
     bindw (clock_now x) (\<lambda>now.
     bindw (continuity_now x) (\<lambda>continuity.
     asks (\<lambda>s. spread (context_fields s @
       [(''deviceId'', fld (tab_state s) ''deviceId''), (''tabId'', fld (tab_state s) ''tabId''),
        (''nowMs'', now), (''localNowMs'', local_now x s), (''leaseMs'', jint TIMER_OWNER_LEASE_MS),
        (''monotonicMs'', x_monotonic x s), (''continuityId'', continuity), (''timerUuid'', Str (x_uuid x s 1)),
        (''inFlightDurationOperationIds'', Arr (s_in_flight s))]) extra)))"

definition record_recovery :: "js_error \<Rightarrow> unit act" where
  "record_recovery e = (case e of
     LegacyDependencyRecoveryError recovery \<Rightarrow> bindw current_now (\<lambda>current.
       if \<not> current then ret ()
       else put_each [(''workspaceBlocked'', \<lambda>_. dot recovery ''blocksMutations''),
         (''workspaceRecovery'', \<lambda>_. Inr recovery), (''conflict'', \<lambda>_. Inr (Str (message_of e)))])
   | _ \<Rightarrow> ret ())"

definition commit_workspace :: "outside \<Rightarrow> obj \<Rightarrow> jv act" where
  "commit_workspace x extra =
     bindw (handling assert_now rethrow_ownership) (\<lambda>_.
     bindw (mutation_input x extra) (\<lambda>input.
     bindw (handling (transact x (\<lambda>env db. plan_workspace_mutation env db input))
         (\<lambda>e. bindw (record_recovery e) (\<lambda>_. rethrow_ownership e))) (\<lambda>plan.
     bindw (handling
         (bindw assert_now (\<lambda>_.
          bindw (expect_account (fld input ''ownerId'')) (\<lambda>_.
          bindw (run (dot plan ''outcome'')) (\<lambda>outcome.
          bindw (if outcome = Str ''planned'' then reload_persisted_state x None True else ret ()) (\<lambda>_.
          assert_now)))))
         rethrow_ownership) (\<lambda>_.
     ret plan))))"

text \<open>The options of an intent; the context is the one the operation is bound to.\<close>

definition persist_workspace_intent :: "outside \<Rightarrow> jv \<Rightarrow> obj \<Rightarrow> jv act" where
  "persist_workspace_intent x intent options = commit_workspace x (spread [(''intent'', intent)] options)"

definition persist_workspace_completion :: "outside \<Rightarrow> string \<Rightarrow> jv \<Rightarrow> jv act" where
  "persist_workspace_completion x stage requested_timer =
     bindw assert_now (\<lambda>_.
     commit_workspace x [(''stage'', Str stage), (''requestedTimer'', requested_timer)])"

section \<open>Operations by name\<close>

text \<open>\<open>v[0]\<close>, and \<open>plan.durableOperations?.<queue>[0] ?? null\<close>\<close>

definition first_element :: "jv \<Rightarrow> jv res" where
  "first_element v = (case v of Arr (a # _) \<Rightarrow> Inr a | Undef \<Rightarrow> Inl (TypeError ''Cannot read properties of undefined'')
     | Null \<Rightarrow> Inl (TypeError ''Cannot read properties of null'') | _ \<Rightarrow> Inr Undef)"

definition durable_operation :: "domain \<Rightarrow> jv \<Rightarrow> jv res" where
  "durable_operation d plan =
     bindr (dot plan ''durableOperations'') (\<lambda>operations.
     if nullish operations then Inr Null
     else bindr (first_element (getp operations (domain_name d))) (\<lambda>v. Inr (coalesce v Null)))"

definition planned_command :: "jv \<Rightarrow> jv res" where
  "planned_command plan = bindr (dot plan ''commands'') (\<lambda>commands.
     bindr (first_element commands) (\<lambda>v. Inr (coalesce v Null)))"

definition persist_command :: "outside \<Rightarrow> string \<Rightarrow> jv act" where
  "persist_command x kind =
     bindw capture_now (\<lambda>_.
     bindw (persist_workspace_intent x (Obj [(''kind'', Str kind)]) []) (\<lambda>plan. run (planned_command plan)))"

definition preference_options :: "jv \<Rightarrow> obj" where
  "preference_options owner = [(''preference'', Bool True), (''ownerId'', owner)]"

definition persist_preference :: "outside \<Rightarrow> domain \<Rightarrow> jv \<Rightarrow> jv option \<Rightarrow> jv act" where
  "persist_preference x d intent expected =
     bindw capture_now (\<lambda>_.
     bindw (asks (\<lambda>s. case expected of Some owner \<Rightarrow> owner | None \<Rightarrow> i_owner (o_identity (s_context s)))) (\<lambda>owner.
     bindw (persist_workspace_intent x intent (preference_options owner)) (\<lambda>plan. run (durable_operation d plan))))"

definition persist_task_operation :: "outside \<Rightarrow> string \<Rightarrow> jv \<Rightarrow> jv option \<Rightarrow> jv act" where
  "persist_task_operation x kind task expected = persist_preference x TaskOperations
     (if kind = ''upsert'' then Obj [(''kind'', Str ''upsertTask''), (''title'', getp task ''title'')]
      else Obj [(''kind'', Str ''deleteTask''), (''taskId'', getp task ''id'')]) expected"

definition persist_auto_start_operation :: "outside \<Rightarrow> jv \<Rightarrow> jv option \<Rightarrow> jv act" where
  "persist_auto_start_operation x enabled expected = persist_preference x AutoStartOperations
     (Obj [(''kind'', Str ''setAutoStart''), (''enabled'', enabled)]) expected"

definition persist_selected_task_operation :: "outside \<Rightarrow> jv \<Rightarrow> jv option \<Rightarrow> jv act" where
  "persist_selected_task_operation x task expected = persist_preference x SelectedTaskOperations
     (Obj [(''kind'', Str ''selectTask''), (''taskId'', task)]) expected"

definition persist_retarget_operation :: "outside \<Rightarrow> jv \<Rightarrow> jv act" where
  "persist_retarget_operation x task =
     bindw capture_now (\<lambda>_.
     bindw (field ''timer'') (\<lambda>timer.
     bindw (persist_workspace_intent x (Obj [(''kind'', Str ''selectTask''), (''taskId'', task)])
       [(''preference'', Bool True), (''requestedTimer'', timer)]) (\<lambda>plan. run (planned_command plan))))"

text \<open>\<open>durationMs / 60000\<close> for a whole number of milliseconds\<close>

definition minutes_of :: "int \<Rightarrow> jv" where
  "minutes_of ms = (if ms mod 60000 = 0 then jint (ms div 60000) else Num (JFrac (Fract ms 60000)))"

definition persist_duration_operation :: "outside \<Rightarrow> jv \<Rightarrow> int \<Rightarrow> (jv \<times> jv) act" where
  "persist_duration_operation x phase ms =
     bindw capture_now (\<lambda>_.
     bindw (persist_workspace_intent x (Obj [(''kind'', Str ''setDuration''), (''phase'', phase), (''minutes'', minutes_of ms)])
       [(''preference'', Bool True)]) (\<lambda>plan.
     bindw (run (durable_operation DurationOperations plan)) (\<lambda>operation.
     bindw (field ''pendingDurationOperations'') (\<lambda>pending.
     ret (operation, pending)))))"

definition set_in_flight :: "jv list \<Rightarrow> unit act" where
  "set_in_flight ids = modify (\<lambda>s. s\<lparr>s_in_flight := uniq ids\<rparr>)"

section \<open>Settings\<close>

definition persist_settings :: "outside \<Rightarrow> unit act" where
  "persist_settings x =
     bindw owner_now (\<lambda>expected.
     bindw capture_now (\<lambda>_.
     bindw (asks (\<lambda>s. settings_value (tab_state s) [])) (\<lambda>settings.
     bindw wait_unlocked (\<lambda>_.
     bindw (asks (\<lambda>s. spread (context_fields s)
       [(''expectedUserId'', expected), (''deviceId'', fld (tab_state s) ''deviceId'')])) (\<lambda>input.
     handling (transact x (\<lambda>env db. guarded_mutation env db False input (\<lambda>_ t.
         Inr ((), meta_put ''settings'' (Obj settings) t))))
       storage_failure)))))"

text \<open>Evaluation runs an operation only when it is given its session.\<close>

lemmas tab_commit_code [code] =
  continuity_now_def[THEN fun_cong] mutation_input_def[THEN fun_cong] record_recovery_def[THEN fun_cong]
  commit_workspace_def[THEN fun_cong] persist_workspace_intent_def[THEN fun_cong]
  persist_workspace_completion_def[THEN fun_cong] persist_command_def[THEN fun_cong]
  persist_preference_def[THEN fun_cong] persist_task_operation_def[THEN fun_cong]
  persist_auto_start_operation_def[THEN fun_cong] persist_selected_task_operation_def[THEN fun_cong]
  persist_retarget_operation_def[THEN fun_cong] persist_duration_operation_def[THEN fun_cong]
  set_in_flight_def[THEN fun_cong] persist_settings_def[THEN fun_cong]

end
