(* ===== verification/TabDatabase.thy ===== *)
theory TabDatabase
  imports TabCommit
begin

text \<open>
  The connection of a tab and its life in \<open>web/app-storage.js\<close>: opening the database, loading
  the owner's records behind the gate and hiding them until the account is known
  (\<open>LocalStateRepository\<close>), and the removal of everything after a sign-out
  (\<open>DatabaseConnection\<close>). A connection has a number, 0 where there is none. Two callers of
  \<open>clearLocalData\<close> share one cleanup; here a cleanup runs for one caller.
\<close>

definition BOOTSTRAP_LEASE_MS :: int where "BOOTSTRAP_LEASE_MS = timing_ms ''bootstrapLease'' 300000"

section \<open>Connections\<close>

definition set_connection :: "nat \<Rightarrow> unit act" where
  "set_connection n = modify (\<lambda>s. s\<lparr>s_app := (s_app s)\<lparr>a_database := n\<rparr>,
     s_generation := (if a_database (s_app s) \<noteq> n then s_generation s + 1 else s_generation s)\<rparr>)"

definition open_database :: "outside \<Rightarrow> nat act" where
  "open_database x = bindw await (\<lambda>_. bindw (run_with (x_open x)) (\<lambda>n. bindw await (\<lambda>_. ret n)))"

section \<open>Migrations at the start\<close>

definition transfer_one :: "obj list \<Rightarrow> tx \<Rightarrow> jv \<Rightarrow> tx res" where
  "transfer_one existing t operation =
     bindr (dot operation ''id'') (\<lambda>i.
     case filter (\<lambda>item. fld item ''id'' = i) existing of
       previous # _ \<Rightarrow> if records_equal (Obj previous) operation then Inr t
         else Inl (Error ''Legacy duration identity already has a different retained payload.'')
     | [] \<Rightarrow> (case operation of Obj ob \<Rightarrow> queue_add DurationOperations ob t | _ \<Rightarrow> Inl DataError))"

text \<open>The queue an old version kept in the settings moves to its store; an identity keeps its payload.\<close>

definition transfer_durations :: "env \<Rightarrow> tx \<Rightarrow> tx res" where
  "transfer_durations env t =
     bindr (e_current env) (\<lambda>_.
     let settings = meta_value (t_db t) ''settings'' in
     case getp settings ''pendingDurationOperations'' of
       Arr pending \<Rightarrow> bindr (foldr_res (transfer_one (queue_items (t_db t) DurationOperations)) t pending) (\<lambda>t.
         Inr (meta_put ''settings'' (Obj (obj_del ''pendingDurationOperations'' (as_obj settings))) t))
     | _ \<Rightarrow> Inr t)"

definition migrate_duration_queue_from_settings :: "outside \<Rightarrow> unit act" where
  "migrate_duration_queue_from_settings x =
     bindw assert_now (\<lambda>_.
     bindw (asks context_fields) (\<lambda>input.
     transact x (\<lambda>env db. guarded_mutation env db True input (\<lambda>_ t.
       bindr (transfer_durations env t) (\<lambda>t. Inr ((), t))))))"

definition fresh_uuids :: "outside \<Rightarrow> session \<Rightarrow> nat \<Rightarrow> jv" where
  "fresh_uuids x s n = Arr (map (\<lambda>i. Str (x_uuid x s (n + i))) [0..<5])"

definition bootstrap_legacy_durations :: "outside \<Rightarrow> jv act" where
  "bootstrap_legacy_durations x =
     bindw assert_now (\<lambda>_.
     bindw (clock_now x) (\<lambda>now.
     bindw (asks (\<lambda>s. (fresh_uuids x s 0, context_fields s @
       [(''deviceId'', fld (tab_state s) ''deviceId''), (''tabId'', fld (tab_state s) ''tabId''),
        (''leaseMs'', jint TIMER_OWNER_LEASE_MS), (''nowMs'', now), (''localNowMs'', local_now x s)]))) (\<lambda>(uuids, input).
     transact x (\<lambda>env db. migrate_legacy_preferences env uuids db input))))"

definition read_pending_duration_operations :: "outside \<Rightarrow> jv act" where
  "read_pending_duration_operations x =
     reading (\<lambda>db. sorted_queue (compare_duration_operations (x_collate x)) (objs (queue_items db DurationOperations)))"

definition refresh_pending_duration_operations :: "outside \<Rightarrow> unit act" where
  "refresh_pending_duration_operations x =
     bindw (read_pending_duration_operations x) (put_field ''pendingDurationOperations'')"

definition read_local_records :: "obj act" where
  "read_local_records = reading local_records"

definition persist_new_local_identity :: "outside \<Rightarrow> obj \<Rightarrow> unit act" where
  "persist_new_local_identity x records =
     bindw assert_now (\<lambda>_.
     if truthy (getp (fld records ''deviceId'') ''value'') then ret ()
     else bindw (asks (\<lambda>s. (context_fields s, tab_state s))) (\<lambda>(input, st).
       transact x (\<lambda>env db. guarded_mutation env db True input (\<lambda>_ t. Inr ((),
         meta_put ''settings'' (Obj (settings_value st []))
         (meta_put ''hlc'' (Obj [(''wallMs'', fld st ''hlcWallMs''), (''counter'', fld st ''hlcCounter'')])
         (meta_put ''deviceSequence'' (fld st ''deviceSequence'')
         (meta_put ''deviceId'' (fld st ''deviceId'') t))))))))"

section \<open>The gate at the start\<close>

text \<open>
  \<open>acquireBootstrapGateWithLegacyAutoStart\<close> as three transactions, between which others act.
\<close>

definition acquire_gate :: "outside \<Rightarrow> (gate_outcome \<times> ((bool \<times> jv) \<times> (bool \<times> jv)) option) act" where
  "acquire_gate x =
     bindw assert_now (\<lambda>_.
     bindw (asks (\<lambda>s. (fresh_uuids x s 0, fresh_uuids x s 5, context_fields s @
       [(''token'', fld (tab_state s) ''tabId''), (''nowMs'', local_now x s), (''leaseMs'', jint BOOTSTRAP_LEASE_MS),
        (''legacyAutoStartOperationId'', Str (x_uuid x s 10)), (''legacySelectedTaskOperationId'', Str (x_uuid x s 11))])))
       (\<lambda>(uuids1, uuids2, input).
     bindw (transact x (\<lambda>env db. acquire_bootstrap_gate env db input)) (\<lambda>gate.
     if \<not> g_acquired gate \<or> truthy (g_resolution gate) then ret (gate, None)
     else
       bindw (transact x (\<lambda>env db. migrate_legacy_auto_start env uuids1 db input)) (\<lambda>auto_start.
       bindw (transact x (\<lambda>env db. migrate_legacy_selected_task env uuids2 db input)) (\<lambda>selected.
       ret (gate, Some (auto_start, selected)))))))"

text \<open>The migrations that only the holder of the gate runs, and only without a saved resolution.\<close>

definition start_migrations :: "outside \<Rightarrow> jv \<Rightarrow> unit act" where
  "start_migrations x device =
     bindw (asks (\<lambda>s. context_fields s @ [(''deviceId'', or_else device (fld (tab_state s) ''deviceId'')),
       (''nowMs'', local_now x s)])) (\<lambda>input.
     bindw (transact x (\<lambda>env db. migrate_legacy_dependencies env db input)) (\<lambda>_.
     bindw assert_now (\<lambda>_.
     bindw (migrate_duration_queue_from_settings x) (\<lambda>_.
     bindw assert_now (\<lambda>_.
     bindw (bootstrap_legacy_durations x) (\<lambda>_.
     assert_now))))))"

text \<open>The resolution as it is after old durations were rewritten in it, by the holder of the gate.\<close>

definition normalized_resolution :: "outside \<Rightarrow> jv \<Rightarrow> jv act" where
  "normalized_resolution x resolution =
     bindw (asks tab_state) (\<lambda>st.
     if \<not> truthy (fld st ''bootstrapGateOwned'') then ret resolution
     else bindw (asks (\<lambda>s. context_fields s @ [(''gateToken'', fld st ''tabId''),
         (''replacementRequestId'', Str (x_uuid x s 0))])) (\<lambda>input.
       bindw (transact x (\<lambda>env db. normalize_legacy_duration_operations env db input)) (\<lambda>(_, r). ret r)))"

section \<open>Loading\<close>

definition restore_records :: "outside \<Rightarrow> obj \<Rightarrow> jv \<Rightarrow> unit act" where
  "restore_records x records resolution =
     bindw (asks (\<lambda>s. x_uuid x s 0)) (\<lambda>uuid. put_each (restore_local_records x uuid records resolution))"

definition take_gate :: "outside \<Rightarrow> unit act" where
  "take_gate x =
     bindw (acquire_gate x) (\<lambda>(gate, _).
     bindw assert_now (\<lambda>_.
     bindw (put_field ''bootstrapGatePersisted'' (Bool True)) (\<lambda>_.
     put_field ''bootstrapGateOwned'' (Bool (g_acquired gate)))))"

definition load_records :: "outside \<Rightarrow> jv \<Rightarrow> unit act" where
  "load_records x resolution =
     bindw (normalized_resolution x resolution) (\<lambda>normalized.
     bindw assert_now (\<lambda>_.
     bindw read_local_records (\<lambda>records.
     bindw assert_now (\<lambda>_.
     bindw (asks context_fields) (\<lambda>input.
     bindw (run (assert_account_ownership (getp (fld records ''snapshot'') ''value'') (fld input ''expectedUserId''))) (\<lambda>_.
     bindw (publish_in (restore_records x records normalized)) (\<lambda>_.
     bindw (persist_new_local_identity x records) (\<lambda>_.
     assert_now))))))))"

text \<open>The records are projected once, then hidden until the account is validated.\<close>

definition conceal_records :: "outside \<Rightarrow> db_context act" where
  "conceal_records x =
     bindw (rebuild x) (\<lambda>_.
     bindw (modify (\<lambda>s. set_tab (quarantine_owner_state False (tab_state s)) s)) (\<lambda>_.
     run_with capture_database_context))"

definition restore_local_workspace :: "outside \<Rightarrow> db_context act" where
  "restore_local_workspace x =
     bindw (reading (\<lambda>db. Obj (read_sync_state db))) (\<lambda>initial.
     bindw assert_now (\<lambda>_.
     bindw (assert_display_context x initial) (\<lambda>_.
     bindw (publish_in (put_each [(''localOwnerId'', \<lambda>_. account_owner_id (getp (getp initial ''snapshot'') ''user''))])) (\<lambda>_.
     bindw (take_gate x) (\<lambda>_.
     bindw (reading read_bootstrap_state) (\<lambda>(_, resolution).
     bindw assert_now (\<lambda>_.
     bindw (asks tab_state) (\<lambda>st.
     bindw (if truthy (fld st ''bootstrapGateOwned'') \<and> \<not> truthy resolution
       then start_migrations x (getp initial ''deviceId'') else ret ()) (\<lambda>_.
     bindw (load_records x resolution) (\<lambda>_.
     conceal_records x))))))))))"

text \<open>
  \<open>loadLocalState(issuer)\<close>: with an issuer the new connection is closed if its context ended
  while the database was opened. The context of the error, if it is still current, is the
  second part of the result.
\<close>

definition load_local_state :: "outside \<Rightarrow> bool \<Rightarrow> (db_context + js_error \<times> db_context option) act" where
  "load_local_state x issued =
     bindw (if issued then assert_now else ret ()) (\<lambda>_.
     bindw (open_database x) (\<lambda>opened.
     bindw (if issued then handling assert_now (\<lambda>e. bindw (calls [Closed opened]) (\<lambda>_. fail e)) else ret ()) (\<lambda>_.
     bindw (set_connection opened) (\<lambda>_.
     bindw capture_now (\<lambda>_.
     handling (bindw (restore_local_workspace x) (\<lambda>c. ret (Inl c)))
       (\<lambda>e. bindw current_now (\<lambda>current.
         if current then bindw (run_with capture_database_context) (\<lambda>c. ret (Inr (e, Some c)))
         else ret (Inr (e, None)))))))))"

definition refresh_migrated_preferences :: "outside \<Rightarrow> ((bool \<times> jv) \<times> (bool \<times> jv)) option \<Rightarrow> unit act" where
  "refresh_migrated_preferences x migrated =
     bindw assert_now (\<lambda>_.
     if \<not> (case migrated of None \<Rightarrow> False | Some (a, s) \<Rightarrow> fst a \<or> fst s) then ret ()
     else
       bindw (reading (\<lambda>db. Obj (read_sync_state db))) (\<lambda>queues.
       bindw assert_now (\<lambda>_.
       bindw (asks context_fields) (\<lambda>input.
       bindw (run (assert_account_ownership (getp queues ''snapshot'') (fld input ''expectedUserId''))) (\<lambda>_.
       let news = [(''pendingAutoStartOperations'', queue_or_empty (getp queues ''autoStartOperations'')),
         (''pendingSelectedTaskOperations'', queue_or_empty (getp queues ''selectedTaskOperations''))] in
       bindw (asks tab_state) (\<lambda>st.
       let local = fld st ''quarantinedLocal'' in
       if truthy local then
         bindw (put_field ''quarantinedLocal'' (Obj (assign (as_obj local) news))) (\<lambda>_.
         bindw (run_with (\<lambda>s. project_owner_state (x_env x s) (tab_state s)
           (as_obj (fld (tab_state s) ''quarantinedLocal'')))) (\<lambda>projected.
         put_field ''quarantinedLocal'' (Obj projected)))
       else bindw (modify (\<lambda>s. set_tab (assign (tab_state s) news) s)) (\<lambda>_. rebuild x)))))))"

section \<open>Removing everything\<close>

text \<open>A logout that was interrupted leaves its owner in the local storage.\<close>

definition pending_logout_recovery :: "app \<Rightarrow> (jv \<times> jv) option" where
  "pending_logout_recovery app = (case a_logout app of
     None \<Rightarrow> None
   | Some (flag, record) \<Rightarrow> if flag \<noteq> Str ''1'' then None
       else (case json_parse record of
         Inl _ \<Rightarrow> None
       | Inr v \<Rightarrow> if nonempty_string (getp v ''userId'') then Some (record, getp v ''userId'') else None))"

definition logout_marker_state :: "app \<Rightarrow> jv" where
  "logout_marker_state app = (case a_logout app of
     None \<Rightarrow> Null | Some (flag, owner) \<Rightarrow> json_stringify (Arr [flag, owner]))"

record cleanup =
  c_user :: jv
  c_local :: jv
  c_recovery :: "(jv \<times> jv) option"
  c_marker :: jv
  c_expected :: jv
  c_authenticated :: jv

definition cleanup_identity :: "app \<Rightarrow> cleanup res" where
  "cleanup_identity app =
     bindr (account_owner_id (fld (a_state app) ''user'')) (\<lambda>owner.
     let user = or_else owner Null; local = or_else (fld (a_state app) ''localOwnerId'') Null;
         recovery = pending_logout_recovery app in
     Inr \<lparr>c_user = user, c_local = local, c_recovery = recovery, c_marker = logout_marker_state app,
       c_expected = (case recovery of Some (_, i) \<Rightarrow> i | None \<Rightarrow> or_else local user), c_authenticated = Undef\<rparr>)"

definition assert_cleanup_identity :: "app \<Rightarrow> cleanup \<Rightarrow> unit res" where
  "assert_cleanup_identity app i =
     bindr (account_owner_id (fld (a_state app) ''user'')) (\<lambda>owner.
     ensure (strict_eq (or_else owner Null) (c_user i)
       \<and> strict_eq (or_else (fld (a_state app) ''localOwnerId'') Null) (c_local i)
       \<and> (\<not> truthy (c_user i) \<or> strict_eq (c_user i) (c_expected i))
       \<and> (\<not> truthy (c_local i) \<or> strict_eq (c_local i) (c_expected i))
       \<and> strict_eq (logout_marker_state app) (c_marker i)
       \<and> (case c_recovery i of None \<Rightarrow> True | Some (record, _) \<Rightarrow>
           (case pending_logout_recovery app of None \<Rightarrow> False | Some (now, _) \<Rightarrow> strict_eq now record))) account_error)"

definition authorized :: "cleanup \<Rightarrow> session \<Rightarrow> unit res" where
  "authorized i s = bindr (context_ok s (s_context s)) (\<lambda>_. assert_cleanup_identity (s_app s) i)"

definition clear_stores :: "tx \<Rightarrow> tx" where
  "clear_stores t = t\<lparr>t_db := empty_database\<rparr>"

definition clear_all :: "outside \<Rightarrow> cleanup \<Rightarrow> unit act" where
  "clear_all x i = transact_as x (authorized i) (\<lambda>env db. guarded_mutation env db True
     [(''expectedUserId'', c_expected i), (''currentUserId'', c_expected i)] (\<lambda>_ t.
       bindr (e_current env) (\<lambda>_. Inr ((), clear_stores t))))"

text \<open>The database is empty already: only this tab's gate may be left.\<close>

definition confirm_cleanup_already_complete :: "outside \<Rightarrow> cleanup \<Rightarrow> unit act" where
  "confirm_cleanup_already_complete x i =
     bindw (asks (\<lambda>s. fld (tab_state s) ''tabId'')) (\<lambda>tab.
     transact_as x (authorized i) (\<lambda>env db. guarded_mutation env db True
       [(''expectedUserId'', Null), (''currentUserId'', c_expected i)] (\<lambda>r t.
         bindr (e_current env) (\<lambda>_.
         bindr (ensure (\<not> meta_present (t_db t) ''snapshot'' \<and> \<not> meta_present (t_db t) ''bootstrapResolution''
           \<and> list_all (\<lambda>d. queue_items (t_db t) d = []) DOMAINS) account_error) (\<lambda>_.
         Inr ((), if strict_eq (getp (res_value r ''gate'') ''token'') tab then meta_delete ''bootstrapGate'' t else t))))))"

definition open_cleanup_database :: "outside \<Rightarrow> cleanup \<Rightarrow> db_context act" where
  "open_cleanup_database x i =
     bindw assert_now (\<lambda>_.
     bindw (asks s_generation) (\<lambda>generation.
     bindw (open_database x) (\<lambda>opened.
     bindw (handling
         (bindw (run_with (authorized i)) (\<lambda>_.
          run_with (\<lambda>s. ensure (s_generation s = generation) account_error)))
         (\<lambda>e. bindw (calls [Closed opened]) (\<lambda>_. fail e))) (\<lambda>_.
     bindw (set_connection opened) (\<lambda>_. run_with capture_database_context)))))"

definition cleared_or_confirmed :: "outside \<Rightarrow> cleanup \<Rightarrow> unit act" where
  "cleared_or_confirmed x i =
     handling (clear_all x i) (\<lambda>e.
       if \<not> ownership_error e \<or> \<not> (c_recovery i \<noteq> None \<or> truthy (c_authenticated i)) then fail e
       else bindw (run_with (authorized i)) (\<lambda>_. confirm_cleanup_already_complete x i))"

text \<open>
  A failure of the removal is reported, unless the operation's context has ended. The error
  carries the context it leaves (\<open>error.cleanupContext\<close>), if the connection is still the same.
\<close>

definition cleanup_failed :: "cleanup \<Rightarrow> nat \<Rightarrow> js_error \<Rightarrow> unit act" where
  "cleanup_failed i database e =
     bindw current_now (\<lambda>current.
     if \<not> current then fail e
     else bindw (asks (\<lambda>s. a_database (s_app s) = database)) (\<lambda>same.
       bindw (if \<not> same then ret ()
         else bindw (run_with (\<lambda>s. assert_cleanup_identity (s_app s) i)) (\<lambda>_.
           bindw (run_with capture_database_context) (\<lambda>c. modify (\<lambda>s. s\<lparr>s_failed := Some c\<rparr>)))) (\<lambda>_.
       storage_failure e)))"

definition clear_opened_data :: "outside \<Rightarrow> cleanup \<Rightarrow> db_context act" where
  "clear_opened_data x i =
     bindw (run_with (authorized i)) (\<lambda>_.
     bindw (asks (\<lambda>s. a_database (s_app s))) (\<lambda>database.
     bindw (handling (cleared_or_confirmed x i) (cleanup_failed i database)) (\<lambda>_.
     bindw (run_with (authorized i)) (\<lambda>_.
     bindw (run_with (\<lambda>s. ensure (a_database (s_app s) = database) account_error)) (\<lambda>_.
     bindw (calls [Closed database]) (\<lambda>_.
     bindw (set_connection 0) (\<lambda>_.
     run_with capture_database_context)))))))"

definition clear_authorized_local_data :: "outside \<Rightarrow> cleanup \<Rightarrow> db_context act" where
  "clear_authorized_local_data x i =
     bindw (run_with (authorized i)) (\<lambda>_.
     bindw (asks (\<lambda>s. a_database (s_app s))) (\<lambda>n.
     bindw (if n = 0 then bindw (open_cleanup_database x i) (\<lambda>c. ret (Some c)) else ret None) (\<lambda>scope.
     under scope (clear_opened_data x i))))"

definition clear_local_data :: "outside \<Rightarrow> cleanup \<Rightarrow> db_context act" where
  "clear_local_data x i =
     bindw (modify (\<lambda>s. s\<lparr>s_failed := None\<rparr>)) (\<lambda>_.
     bindw (run_with (authorized i)) (\<lambda>_.
     bindw (clear_authorized_local_data x i) (\<lambda>completed.
     bindw await (\<lambda>_.
     bindw (run_with (\<lambda>s. bindr (assert_cleanup_identity (s_app s) i) (\<lambda>_. context_ok s completed))) (\<lambda>_.
     ret completed)))))"

text \<open>Evaluation runs an operation only when it is given its session.\<close>

lemmas tab_database_code [code] =
  set_connection_def[THEN fun_cong] open_database_def[THEN fun_cong]
  migrate_duration_queue_from_settings_def[THEN fun_cong] bootstrap_legacy_durations_def[THEN fun_cong]
  read_pending_duration_operations_def[THEN fun_cong] refresh_pending_duration_operations_def[THEN fun_cong]
  read_local_records_def[THEN fun_cong] persist_new_local_identity_def[THEN fun_cong]
  acquire_gate_def[THEN fun_cong] start_migrations_def[THEN fun_cong]
  normalized_resolution_def[THEN fun_cong] restore_records_def[THEN fun_cong] take_gate_def[THEN fun_cong]
  load_records_def[THEN fun_cong] conceal_records_def[THEN fun_cong]
  restore_local_workspace_def[THEN fun_cong] load_local_state_def[THEN fun_cong]
  refresh_migrated_preferences_def[THEN fun_cong] clear_all_def[THEN fun_cong]
  confirm_cleanup_already_complete_def[THEN fun_cong] open_cleanup_database_def[THEN fun_cong]
  cleared_or_confirmed_def[THEN fun_cong] cleanup_failed_def[THEN fun_cong]
  clear_opened_data_def[THEN fun_cong] clear_authorized_local_data_def[THEN fun_cong]
  clear_local_data_def[THEN fun_cong]

end
