(* ===== verification/TabMarkers.thy ===== *)
theory TabMarkers
  imports Session
begin

text \<open>
  What the session module keeps in the local storage (\<open>web/app-session.js\<close>): the marker of a
  sign-out that is not complete with its owner, the token of a sign-in that completes one, and
  the record of an account deletion. The storage may be unavailable, and it may refuse a value.
\<close>

section \<open>The local storage\<close>

definition PENDING_LOGOUT_KEY :: string where "PENDING_LOGOUT_KEY = ''pomodoroughPendingLogout''"
definition PENDING_LOGOUT_OWNER_KEY :: string where "PENDING_LOGOUT_OWNER_KEY = ''pomodoroughPendingLogoutOwner''"
definition PENDING_DELETION_KEY :: string where "PENDING_DELETION_KEY = ''pomodoroughPendingDeletion''"
definition PENDING_LOGOUT_SIGN_IN_KEY :: string where "PENDING_LOGOUT_SIGN_IN_KEY = ''pomodoroughPendingLogoutSignIn''"

definition available :: "session \<Rightarrow> unit res" where
  "available s = ensure (a_logout (s_app s) \<noteq> None) (DomException ''SecurityError'')"

text \<open>\<open>getItem\<close>, \<open>removeItem\<close> and \<open>setItem\<close> of a value, given where it is kept.\<close>

definition stored :: "(session \<Rightarrow> jv) \<Rightarrow> jv act" where
  "stored f = run_with (\<lambda>s. bindr (available s) (\<lambda>_. Inr (f s)))"

definition unstore :: "(jv \<Rightarrow> session \<Rightarrow> session) \<Rightarrow> unit act" where
  "unstore f = bindw (run_with available) (\<lambda>_. modify (f Null))"

definition store :: "outside \<Rightarrow> string \<Rightarrow> (jv \<Rightarrow> session \<Rightarrow> session) \<Rightarrow> jv \<Rightarrow> unit act" where
  "store x key f v =
     bindw (run_with available) (\<lambda>_.
     bindw (run_with (\<lambda>s. case x_store x s key of Some name \<Rightarrow> Inl (DomException name) | None \<Rightarrow> Inr ())) (\<lambda>_.
     modify (f v)))"

definition with_flag :: "jv \<Rightarrow> session \<Rightarrow> session" where
  "with_flag v s = s\<lparr>s_app := (s_app s)\<lparr>a_logout := map_option (\<lambda>(_, owner). (v, owner)) (a_logout (s_app s))\<rparr>\<rparr>"

definition with_owner :: "jv \<Rightarrow> session \<Rightarrow> session" where
  "with_owner v s = s\<lparr>s_app := (s_app s)\<lparr>a_logout := map_option (\<lambda>(flag, _). (flag, v)) (a_logout (s_app s))\<rparr>\<rparr>"

definition with_sign_in :: "jv \<Rightarrow> session \<Rightarrow> session" where
  "with_sign_in v s = s\<lparr>s_page := (s_page s)\<lparr>g_sign_in := v\<rparr>\<rparr>"

definition with_deletion :: "jv \<Rightarrow> session \<Rightarrow> session" where
  "with_deletion v s = s\<lparr>s_page := (s_page s)\<lparr>g_deletion := v\<rparr>\<rparr>"

section \<open>Failures of the storage\<close>

definition failure_name :: "js_error \<Rightarrow> string" where
  "failure_name e = (case e of
     DomException n \<Rightarrow> if n \<in> {''QuotaExceededError'', ''SecurityError''} then n else ''StorageError''
   | _ \<Rightarrow> ''StorageError'')"

text \<open>Each kind of failure is reported once, until a marker is written again.\<close>

definition report_marker_failure :: "string \<Rightarrow> string \<Rightarrow> js_error \<Rightarrow> unit act" where
  "report_marker_failure kind operation e =
     bindw (asks (\<lambda>s. g_failures (s_page s))) (\<lambda>reported.
     if kind @ failure_name e \<in> set reported then ret ()
     else bindw (set_page (\<lambda>g. g\<lparr>g_failures := (kind @ failure_name e) # g_failures g\<rparr>)) (\<lambda>_.
       calls [Warned, Reported operation]))"

definition forget_failures :: "string \<Rightarrow> unit act" where
  "forget_failures kind = set_page (\<lambda>g. g\<lparr>g_failures := filter (\<lambda>f. take (length kind) f \<noteq> kind) (g_failures g)\<rparr>)"

definition report_logout_marker_failure :: "js_error \<Rightarrow> unit act" where
  "report_logout_marker_failure = report_marker_failure ''logout:'' ''session.logout.marker-write-failed''"

definition report_deletion_marker_failure :: "js_error \<Rightarrow> unit act" where
  "report_deletion_marker_failure = report_marker_failure ''deletion:'' ''session.delete-account.marker-write-failed''"

section \<open>The marker of a sign-out\<close>

definition mark_pending_logout :: "outside \<Rightarrow> bool act" where
  "mark_pending_logout x =
     handling
       (bindw (unstore with_sign_in) (\<lambda>_.
        bindw owner_now (\<lambda>owner.
        bindw (store x PENDING_LOGOUT_OWNER_KEY with_owner (json_stringify (Obj [(''userId'', owner)]))) (\<lambda>_.
        bindw (store x PENDING_LOGOUT_KEY with_flag (Str ''1'')) (\<lambda>_.
        bindw (forget_failures ''logout:'') (\<lambda>_. ret True))))))
       (\<lambda>e. bindw (report_logout_marker_failure e) (\<lambda>_. ret False))"

definition clear_pending_logout :: "unit act" where
  "clear_pending_logout =
     handling
       (bindw (unstore with_flag) (\<lambda>_.
        bindw (unstore with_owner) (\<lambda>_. unstore with_sign_in)))
       (\<lambda>_. ret ())"

section \<open>The token of a sign-in\<close>

definition pending_sign_in_token :: "outside \<Rightarrow> string option act" where
  "pending_sign_in_token x =
     bindw (asks (\<lambda>s. (pending_local_logout s, x_random x s))) (\<lambda>(pending, random). case random of
       None \<Rightarrow> ret None
     | Some bytes \<Rightarrow>
       if \<not> pending then ret None
       else handling
         (bindw (stored (\<lambda>s. g_sign_in (s_page s))) (\<lambda>token.
          if truthy token then ret (Some (id_text token))
          else bindw (store x PENDING_LOGOUT_SIGN_IN_KEY with_sign_in (Str (new_landing_token bytes))) (\<lambda>_.
            ret (Some (new_landing_token bytes)))))
         (\<lambda>e. bindw (report_logout_marker_failure e) (\<lambda>_. ret None)))"

text \<open>A landing with the stored token consumes it; another one leaves it.\<close>

definition completed_sign_in_landing :: "outside \<Rightarrow> bool act" where
  "completed_sign_in_landing x =
     (case p_token (split_landing_token (current_login_return_path (x_address x))) of
       None \<Rightarrow> ret False
     | Some token \<Rightarrow>
       if token = [] then ret False
       else handling
         (bindw (stored (\<lambda>s. g_sign_in (s_page s))) (\<lambda>expected.
          if expected \<noteq> Str token then ret False
          else bindw (unstore with_sign_in) (\<lambda>_. ret True)))
         (\<lambda>e. bindw (report_logout_marker_failure e) (\<lambda>_. ret False)))"

definition redirect_to_login :: "outside \<Rightarrow> unit act" where
  "redirect_to_login x =
     bindw (asks (\<lambda>s. g_redirecting (s_page s))) (\<lambda>leaving.
     if leaving then ret ()
     else bindw (asks (\<lambda>s. truthy (fld (tab_state s) ''logoutRecoveryRequired'')
         \<and> (truthy (fld (tab_state s) ''logoutRecoveryBusy'') \<or> \<not> x_online x s))) (\<lambda>waits.
       if waits then calls [Render]
       else bindw (set_page (\<lambda>g. g\<lparr>g_redirecting := True\<rparr>)) (\<lambda>_.
         bindw (pending_sign_in_token x) (\<lambda>token.
         calls [Navigated (login_start_url (x_address x) token)]))))"

section \<open>The record of a deletion\<close>

text \<open>An attempt that was issued, or one of an old version, with its record.\<close>

definition pending_deletion_attempt :: "session \<Rightarrow> (jv \<times> jv) option" where
  "pending_deletion_attempt s =
     (let record = g_deletion (s_page s) in
      if a_logout (s_app s) = None \<or> \<not> truthy record then None
      else case json_parse record of
        Inl _ \<Rightarrow> None
      | Inr attempt \<Rightarrow>
          if \<not> truthy attempt \<or> getp attempt ''stage'' \<notin> {Str ''issued'', Undef} then None
          else case account_headers (getp attempt ''userId'') of
            Inl _ \<Rightarrow> None
          | Inr _ \<Rightarrow> if nonempty_string (getp attempt ''csrfToken'') then Some (attempt, record) else None)"

text \<open>
  A new attempt is written as a candidate, read back, and only then marked as issued. \<open>None\<close>
  removes the record.
\<close>

definition write_pending_deletion_attempt :: "outside \<Rightarrow> obj option \<Rightarrow> bool act" where
  "write_pending_deletion_attempt x attempt = (case attempt of
     None \<Rightarrow> handling (bindw (unstore with_deletion) (\<lambda>_. ret True)) (\<lambda>_. ret False)
   | Some a \<Rightarrow>
     handling
       (bindw (run (account_headers (fld a ''userId''))) (\<lambda>_.
        bindw (asks (\<lambda>s. obj_put ''attemptId'' (Str (x_uuid x s 0)) a)) (\<lambda>identified.
        let serialized = json_stringify (Obj (identified @ [(''stage'', Str ''candidate'')])) in
        bindw (store x PENDING_DELETION_KEY with_deletion serialized) (\<lambda>_.
        bindw (stored (\<lambda>s. g_deletion (s_page s))) (\<lambda>read.
        bindw (run (ensure (strict_eq read serialized)
          (Error ''Account deletion recovery marker readback failed.''))) (\<lambda>_.
        bindw (store x PENDING_DELETION_KEY with_deletion
          (json_stringify (Obj (identified @ [(''stage'', Str ''issued'')])))) (\<lambda>_.
        bindw (forget_failures ''deletion:'') (\<lambda>_. ret True))))))))
       (\<lambda>e. bindw (report_deletion_marker_failure e) (\<lambda>_. ret False)))"

definition assert_pending_deletion_attempt :: "jv \<Rightarrow> session \<Rightarrow> unit res" where
  "assert_pending_deletion_attempt record s =
     ensure (a_logout (s_app s) \<noteq> None \<and> strict_eq (g_deletion (s_page s)) record) account_error"

text \<open>Evaluation runs an operation only when it is given its session.\<close>

lemmas tab_markers_code [code] =
  stored_def[THEN fun_cong] unstore_def[THEN fun_cong] store_def[THEN fun_cong]
  report_marker_failure_def[THEN fun_cong] forget_failures_def[THEN fun_cong]
  mark_pending_logout_def[THEN fun_cong] clear_pending_logout_def[THEN fun_cong]
  pending_sign_in_token_def[THEN fun_cong] completed_sign_in_landing_def[THEN fun_cong]
  redirect_to_login_def[THEN fun_cong] write_pending_deletion_attempt_def[THEN fun_cong]

end
