(* ===== verification/TabRestart.thy ===== *)
theory TabRestart
  imports TabDatabase TabMarkers
begin

text \<open>
  What follows when another account turns out to be signed in: the resolution of the previous
  one is dropped and the gate taken (\<open>restartBootstrapForCurrentAccount\<close> of
  \<open>web/app-bootstrap.js\<close>), and the answer of the session endpoint by which this is noticed
  (\<open>fetchSessionPayload\<close>, \<open>applySessionPayload\<close>, \<open>refreshMutationCsrf\<close> of \<open>web/app-session.js\<close>),
  with the removal of local data a pending sign-out still needs.
\<close>

section \<open>Another account\<close>

definition user_owner :: "jv act" where
  "user_owner = run_with (\<lambda>s. account_owner_id (fld (tab_state s) ''user''))"

definition restarted_fields :: "invalidation \<Rightarrow> obj" where
  "restarted_fields restarted =
     [(''bootstrapOwnershipConfirmation'', Bool False), (''bootstrapOwnershipApproved'', Bool False),
      (''bootstrapPending'', v_resolution restarted), (''bootstrapPreview'', Null), (''bootstrapPlan'', Null),
      (''bootstrapStrategy'', Null), (''bootstrapError'', Null), (''bootstrapLimitError'', Null),
      (''bootstrapConflict'', Bool False), (''bootstrapBlocked'', Bool True), (''bootstrapGatePersisted'', Bool True),
      (''bootstrapGateOwned'', Bool (v_acquired restarted))]"

definition migrate_after_restart :: "outside \<Rightarrow> unit act" where
  "migrate_after_restart x =
     bindw (asks (\<lambda>s. (fresh_uuids x s 1, context_fields s @ [(''operationId'', Str (x_uuid x s 0)), (''nowMs'', local_now x s)])))
       (\<lambda>(uuids, input).
     bindw (transact x (\<lambda>env db. migrate_legacy_auto_start env uuids db input)) (\<lambda>auto_start.
     bindw assert_now (\<lambda>_.
     bindw (asks (\<lambda>s. (fresh_uuids x s 1, context_fields s @ [(''operationId'', Str (x_uuid x s 0)), (''nowMs'', local_now x s)])))
       (\<lambda>(uuids, input).
     bindw (transact x (\<lambda>env db. migrate_legacy_selected_task env uuids db input)) (\<lambda>selected.
     bindw assert_now (\<lambda>_.
     refresh_migrated_preferences x (Some (auto_start, selected))))))))"

definition restart_bootstrap_for_current_account :: "outside \<Rightarrow> unit act" where
  "restart_bootstrap_for_current_account x =
     bindw assert_now (\<lambda>_.
     bindw user_owner (\<lambda>owner.
     if \<not> truthy owner then ret ()
     else
       bindw (validate_persisted_display_context x) (\<lambda>_.
       bindw assert_now (\<lambda>_.
       bindw user_owner (\<lambda>owner.
       bindw (asks (\<lambda>s. spread (context_fields s)
         [(''accountBinding'', fld (tab_state s) ''authenticatedAccountBinding''), (''currentUserId'', owner),
          (''gateToken'', fld (tab_state s) ''tabId''), (''nowMs'', local_now x s), (''leaseMs'', jint BOOTSTRAP_LEASE_MS)]))
         (\<lambda>input.
       bindw (transact x (\<lambda>env db. invalidate_foreign_resolution env db input)) (\<lambda>restarted.
       bindw assert_now (\<lambda>_.
       bindw (if v_acquired restarted \<and> \<not> truthy (v_resolution restarted) then migrate_after_restart x else ret ()) (\<lambda>_.
       bindw assert_now (\<lambda>_.
       modify (\<lambda>s. set_tab (assign (tab_state s) (restarted_fields restarted)) s)))))))))))"

section \<open>The removal a sign-out still needs\<close>

text \<open>The data of an incomplete sign-out; the context of the result is \<open>None\<close> for the caller's own.\<close>

definition clear_pending_logout_data :: "outside \<Rightarrow> cleanup \<Rightarrow> (bool \<times> db_context option) act" where
  "clear_pending_logout_data x i =
     bindw assert_now (\<lambda>_.
     bindw (asks pending_local_logout) (\<lambda>pending.
     if \<not> pending then ret (True, None)
     else handling
       (bindw (clear_local_data x i) (\<lambda>completed.
        bindw (under (Some completed) assert_now) (\<lambda>_.
        bindw (put_field ''logoutRecoveryRequired'' (Bool False)) (\<lambda>_.
        ret (True, Some completed)))))
       (\<lambda>e.
        bindw (asks s_failed) (\<lambda>scope.
        bindw (under scope current_now) (\<lambda>current.
        if \<not> current then ret (False, scope)
        else
          bindw (put_field ''logoutRecoveryRequired'' (Bool True)) (\<lambda>_.
          bindw (calls [Notice (Str (tr (x_catalog x) ''account.logout.cleanupFailed'' [(''error'', Text (message_of e))]
              (''Signed-out local data could not be cleared: '' @ message_of e))), Warned,
            Reported ''session.logout-recovery.cleanup-failed'', Render]) (\<lambda>_.
          ret (False, scope))))))))"

text \<open>The context an operation goes on with, after \<open>m\<close> has run under it.\<close>

definition then_scope :: "db_context option \<Rightarrow> unit act \<Rightarrow> db_context option act" where
  "then_scope scope m = under scope (bindw m (\<lambda>_. asks (\<lambda>s. map_option (\<lambda>_. s_context s) scope)))"

definition settle_pending_logout_locally :: "outside \<Rightarrow> cleanup \<Rightarrow> db_context option option act" where
  "settle_pending_logout_locally x i =
     bindw (clear_pending_logout_data x i) (\<lambda>(cleared, scope).
     if \<not> cleared then ret None
     else bindw (then_scope scope
       (bindw assert_now (\<lambda>_.
        bindw (run_with (\<lambda>s. assert_cleanup_identity (s_app s) i)) (\<lambda>_.
        publish_in clear_pending_logout)))) (\<lambda>scope. ret (Some scope)))"

section \<open>Who is signed in\<close>

text \<open>The account of the stored snapshot and of the gate, as the database has them.\<close>

definition read_session_binding :: "obj act" where
  "read_session_binding =
     bindw assert_now (\<lambda>_.
     bindw (asks (\<lambda>s. o_database (s_context s))) (\<lambda>n.
     if n = 0 then ret [(''sourceOwnerId'', Null), (''gateOwnerId'', Null)]
     else bindw (reading read_account_binding) (\<lambda>r. bindw (run r) (\<lambda>(source, gate).
       ret [(''sourceOwnerId'', source), (''gateOwnerId'', gate)]))))"

definition validate_session_binding :: "obj \<Rightarrow> nat \<Rightarrow> unit act" where
  "validate_session_binding binding sequence =
     bindw assert_now (\<lambda>_.
     bindw read_session_binding (\<lambda>current.
     bindw assert_now (\<lambda>_.
     run_with (\<lambda>s. ensure (sequence = g_requests (s_page s)
       \<and> json_stringify (Obj current) = json_stringify (Obj binding)) account_error))))"

definition next_session_request :: "nat act" where
  "next_session_request = bindw (set_page (\<lambda>g. g\<lparr>g_requests := g_requests g + 1\<rparr>)) (\<lambda>_. asks (\<lambda>s. g_requests (s_page s)))"

text \<open>A request other than a mutation; the call records whether the context is current when it leaves.\<close>

definition fetch_url :: "outside \<Rightarrow> string \<Rightarrow> obj \<Rightarrow> jv \<Rightarrow> response act" where
  "fetch_url x url headers body =
     bindw (modify (\<lambda>s. s\<lparr>s_calls := s_calls s @ [Fetched url (i_owner (o_identity (s_context s))) (live s)]\<rparr>)) (\<lambda>_.
     bindw await (\<lambda>_.
     bindw (run_with (\<lambda>s. x_fetch x s url headers body)) (\<lambda>response.
     bindw await (\<lambda>_. ret response))))"

definition response_json :: "response \<Rightarrow> jv act" where
  "response_json r = bindw await (\<lambda>_. run (json_parse (r_body r)))"

definition ok_status :: "response \<Rightarrow> bool" where
  "ok_status r \<longleftrightarrow> 200 \<le> r_status r \<and> r_status r < 300"

definition status_text :: "outside \<Rightarrow> string \<Rightarrow> string \<Rightarrow> response \<Rightarrow> js_error" where
  "status_text x key prefix r = Error (tr (x_catalog x) key [(''status'', Count (r_status r))]
     (prefix @ '' ('' @ int_text (r_status r) @ '').''))"

definition signed_out :: "outside \<Rightarrow> cleanup option \<Rightarrow> db_context option act" where
  "signed_out x identity = (case identity of
     None \<Rightarrow> bindw assert_now (\<lambda>_. bindw (redirect_to_login x) (\<lambda>_. ret None))
   | Some i \<Rightarrow> bindw (settle_pending_logout_locally x i) (\<lambda>settled. case settled of
       None \<Rightarrow> ret None
     | Some scope \<Rightarrow> bindw (under scope (bindw assert_now (\<lambda>_. redirect_to_login x))) (\<lambda>_. ret scope)))"

text \<open>
  The payload with the binding it was read under, or none, and then the context to go on with
  (\<open>sessionCompletionContexts\<close>).
\<close>

definition fetch_session_payload :: "outside \<Rightarrow> ((jv \<times> obj) option \<times> db_context option) act" where
  "fetch_session_payload x =
     bindw assert_now (\<lambda>_.
     bindw next_session_request (\<lambda>sequence.
     bindw (run_with (\<lambda>s. if pending_local_logout s
       then bindr (cleanup_identity (s_app s)) (\<lambda>i. Inr (Some i)) else Inr None)) (\<lambda>identity.
     bindw read_session_binding (\<lambda>binding.
     bindw assert_now (\<lambda>_.
     bindw (fetch_url x ''/api/v1/me'' [] Undef) (\<lambda>response.
     bindw assert_now (\<lambda>_.
     bindw (validate_session_binding binding sequence) (\<lambda>_.
     bindw assert_now (\<lambda>_.
     if r_status response = 401 then bindw (signed_out x identity) (\<lambda>scope. ret (None, scope))
     else if \<not> ok_status response then fail (status_text x ''session.checkFailed'' ''Session check failed'' response)
     else
       bindw (response_json response) (\<lambda>payload.
       bindw assert_now (\<lambda>_.
       bindw (validate_session_binding binding sequence) (\<lambda>_.
       bindw assert_now (\<lambda>_.
       bindw (run (dot payload ''user'')) (\<lambda>user.
       bindw (run (authenticated_owner_id user)) (\<lambda>owner.
       ret (Some (payload, binding @ [(''ownerId'', owner)]), None))))))))))))))))"

definition close_stream_for_identity_change :: "jv \<Rightarrow> unit act" where
  "close_stream_for_identity_change next_user =
     bindw user_owner (\<lambda>owner.
     if \<not> truthy next_user \<or> truthy owner \<and> \<not> strict_eq owner next_user then close_stream else ret ())"

definition session_fields :: "jv \<Rightarrow> obj \<Rightarrow> obj" where
  "session_fields payload binding =
     [(''authenticatedAccountBinding'', Obj binding), (''user'', or_else (getp payload ''user'') Null),
      (''csrfToken'', or_else (getp payload ''csrfToken'') Null), (''authenticated'', Bool True),
      (''sessionIdentityValidated'', Bool True), (''offlineOwnerMode'', Bool False)]"

definition apply_session_payload :: "jv \<times> obj \<Rightarrow> db_context option act" where
  "apply_session_payload answer = (case answer of (payload, binding) \<Rightarrow>
     bindw assert_now (\<lambda>_.
     bindw (publish_scope
       (bindw (run (authenticated_owner_id (getp payload ''user''))) (\<lambda>owner.
        bindw (close_stream_for_identity_change owner) (\<lambda>_.
        modify (\<lambda>s. set_tab (assign (tab_state s) (session_fields payload binding)) s))))) (\<lambda>scope.
     bindw (under scope assert_now) (\<lambda>_.
     bindw (calls [RenderProfile]) (\<lambda>_. ret scope)))))"

text \<open>The state of the previous account is hidden, the new one published, its resolution started.\<close>

definition hand_over :: "outside \<Rightarrow> jv \<Rightarrow> jv \<times> obj \<Rightarrow> db_context option act" where
  "hand_over x source answer =
     bindw (run (account_owner_id (getp (fst answer) ''user''))) (\<lambda>next_owner.
     bindw (close_stream_for_identity_change next_owner) (\<lambda>_.
     bindw (publish_in
       (bindw (modify (\<lambda>s. set_tab (quarantine_owner_state False (tab_state s)) s)) (\<lambda>_.
        put_field ''localOwnerId'' source))) (\<lambda>_.
     bindw (put_field ''bootstrapBlocked'' (Bool True)) (\<lambda>_.
     bindw (apply_session_payload answer) (\<lambda>scope.
     bindw (then_scope scope
       (bindw (restart_bootstrap_for_current_account x) (\<lambda>_. assert_now))) (\<lambda>scope.
     bindw (calls [Render]) (\<lambda>_. ret scope)))))))"

text \<open>\<open>refreshMutationCsrf(expectedUserId, context)\<close>, which \<open>postMutation\<close> calls after a 403.\<close>

definition refresh_mutation_csrf :: "outside \<Rightarrow> jv \<Rightarrow> jv act" where
  "refresh_mutation_csrf x expected =
     bindw assert_now (\<lambda>_.
     bindw (run_with (\<lambda>s. ensure (strict_eq (i_owner (o_identity (s_context s))) expected) account_error)) (\<lambda>_.
     bindw (fetch_session_payload x) (\<lambda>(answer, _).
     bindw assert_now (\<lambda>_. case answer of
       None \<Rightarrow> fail (Error (tr (x_catalog x) ''session.refreshRequiresSignIn'' [] ''Session refresh requires sign-in.''))
     | Some answer \<Rightarrow>
         bindw (run (account_owner_id (getp (fst answer) ''user''))) (\<lambda>owner.
         if \<not> truthy owner \<or> \<not> strict_eq owner expected then
           bindw (asks (\<lambda>s. or_else (fld (tab_state s) ''localOwnerId'') expected)) (\<lambda>source.
           bindw (hand_over x source answer) (\<lambda>_.
           fail (Error (tr (x_catalog x) ''session.accountChanged'' [] ''Signed-in account changed during mutation retry.''))))
         else
           bindw (apply_session_payload answer) (\<lambda>_.
           bindw assert_now (\<lambda>_. field ''csrfToken'')))))))"

text \<open>Evaluation runs an operation only when it is given its session.\<close>

lemmas tab_restart_code [code] =
  user_owner_def[THEN fun_cong] migrate_after_restart_def[THEN fun_cong]
  restart_bootstrap_for_current_account_def[THEN fun_cong] clear_pending_logout_data_def[THEN fun_cong]
  then_scope_def[THEN fun_cong] settle_pending_logout_locally_def[THEN fun_cong]
  read_session_binding_def[THEN fun_cong] validate_session_binding_def[THEN fun_cong]
  next_session_request_def[THEN fun_cong] fetch_url_def[THEN fun_cong] response_json_def[THEN fun_cong]
  signed_out_def[THEN fun_cong] fetch_session_payload_def[THEN fun_cong]
  close_stream_for_identity_change_def[THEN fun_cong] apply_session_payload_def[THEN fun_cong]
  hand_over_def[THEN fun_cong] refresh_mutation_csrf_def[THEN fun_cong]

end
