(* ===== verification/TabSync.thy ===== *)
theory TabSync
  imports TabRestart
begin

text \<open>
  One synchronization of a tab (\<open>web/app-sync.js\<close>, and \<open>postMutation\<close> of
  \<open>web/app-session.js\<close>): the checks before it, the claim of a batch, the request, and the
  response, which is applied to the database and installed. When the operation runs, and what
  its last step does to the schedule (\<open>BatchAccepted\<close>), is the subject of \<open>SyncFlight\<close>; a retry
  or a later synchronization is a call.
\<close>

section \<open>The queues in memory\<close>

definition current_queues :: "obj \<Rightarrow> jv" where
  "current_queues st = queues_value (\<lambda>d. fld st (case d of
     Commands \<Rightarrow> ''pending'' | TaskOperations \<Rightarrow> ''pendingTaskOperations''
   | DurationOperations \<Rightarrow> ''pendingDurationOperations''
   | AutoStartOperations \<Rightarrow> ''pendingAutoStartOperations''
   | SelectedTaskOperations \<Rightarrow> ''pendingSelectedTaskOperations''))"

definition recovery_queues :: "obj \<Rightarrow> jv" where
  "recovery_queues st = queues_value (\<lambda>d. queue_or_empty (getp (current_queues st) (domain_name d)))"

definition has_pending_operations :: "obj \<Rightarrow> bool" where
  "has_pending_operations st \<longleftrightarrow> list_ex (\<lambda>d. list_if_array (getp (current_queues st) (domain_name d)) \<noteq> []) DOMAINS"

definition current_sync_batch :: "env \<Rightarrow> obj \<Rightarrow> jv res" where
  "current_sync_batch env st =
     (if truthy (getp (fld st ''outgoingSync'') ''sent'') then Inr (getp (fld st ''outgoingSync'') ''sent'')
      else bindr (select_workspace_batch env
          \<lparr>r_field = fld [(''timerDependencies'', fld st ''timerDependencies'')], r_queue = owner_queue st\<rparr>
          (fld st ''deviceId'') (Str ''commands'') Null (Str ''sync'')) (\<lambda>(_, sent). Inr (sent_value sent)))"

definition sync_request_body :: "obj \<Rightarrow> jv \<Rightarrow> jv" where
  "sync_request_body st sent = json_stringify (Obj
     ([(''deviceId'', fld st ''deviceId''), (''lastRevision'', fld st ''revision'')]
      @ map (\<lambda>d. (domain_name d, getp sent (domain_name d))) DOMAINS))"

section \<open>A response in memory\<close>

definition merge_server_hlc :: "env \<Rightarrow> obj \<Rightarrow> jv \<Rightarrow> jv \<Rightarrow> jv \<Rightarrow> jv res" where
  "merge_server_hlc env st wall counter clock_offset =
     bindr (observe_clock env (Obj [(''clockOffset'', clock_offset)])
       (Obj [(''wallMs'', jint (e_now env)), (''monotonicMs'', Null)])) (\<lambda>observed.
     call_workspace_core env ''hlc.head.v1'' (Obj [(''physicalNowMs'', getp observed ''trustedNowMs''),
       (''observed'', Arr [Obj [(''wallMs'', fld st ''hlcWallMs''), (''counter'', fld st ''hlcCounter'')],
         Obj [(''wallMs'', Num (to_number wall)), (''counter'', Num (to_number counter))]])]))"

definition response_clock_offset :: "env \<Rightarrow> obj \<Rightarrow> jv \<Rightarrow> jv \<Rightarrow> bool \<Rightarrow> jv res" where
  "response_clock_offset env st payload timing cacheable =
     (if cacheable \<or> \<not> truthy timing then Inr (fld st ''clockOffset'')
      else clock_sample (call_workspace_core env) (fld st ''clockOffset'') (getp payload ''serverTime'') (as_obj timing))"

definition rejected_sync_acknowledgements :: "(domain \<Rightarrow> acks) \<Rightarrow> jv list" where
  "rejected_sync_acknowledgements validated =
     concat (map (\<lambda>d. filter (\<lambda>a. getp a ''outcome'' = Str ''rejected'') (ack_items (validated d))) DOMAINS)"

definition acknowledged_queue_ids :: "(domain \<Rightarrow> acks) \<Rightarrow> jv" where
  "acknowledged_queue_ids validated = queues_value (\<lambda>d. Arr (ack_ids (validated d)))"

record next_state =
  n_phase :: jv
  n_conflicts :: "jv list"
  n_clock :: jv
  n_server_hlc :: jv
  n_hlc :: jv
  n_snapshot :: obj

definition response_timer :: "obj \<Rightarrow> obj \<Rightarrow> jv" where
  "response_timer st rebased =
     (if has_own (Obj rebased) ''baseTimer'' then fld rebased ''baseTimer''
      else if truthy (getp (fld st ''baseTimer'') ''id'') then fld st ''baseTimer'' else Null)"

definition sync_response_state :: "env \<Rightarrow> obj \<Rightarrow> jv \<Rightarrow> obj \<Rightarrow> (domain \<Rightarrow> acks) \<Rightarrow> jv \<Rightarrow> next_state res" where
  "sync_response_state env st payload rebased validated timing =
     bindr (response_clock_offset env st payload timing False) (\<lambda>clock.
     bindr (merge_server_hlc env st (getp payload ''serverHlcWallMs'') (getp payload ''serverHlcCounter'') clock) (\<lambda>hlc.
     Inr \<lparr>n_phase = fld st ''selectedPhase'', n_conflicts = rejected_sync_acknowledgements validated, n_clock = clock,
       n_server_hlc = Obj [(''wallMs'', Num (to_number (getp payload ''serverHlcWallMs''))),
         (''counter'', Num (to_number (getp payload ''serverHlcCounter'')))],
       n_hlc = hlc,
       n_snapshot = snapshot_value st
         [(''revision'', fld rebased ''revision''), (''serverTime'', getp payload ''serverTime''),
          (''canonicalTimer'', clone_value (response_timer st rebased)),
          (''history'', clone_value (fld rebased ''baseHistory'')), (''tasks'', clone_value (fld rebased ''baseTasks'')),
          (''durationsMs'', clone_value (clone_value (fld rebased ''baseDurationsMs''))),
          (''autoStartBreaks'', fld rebased ''baseAutoStartBreaks''),
          (''selectedTaskId'', fld rebased ''baseSelectedTaskId'')]\<rparr>))"

definition sync_response_persistence ::
  "env \<Rightarrow> obj \<Rightarrow> jv \<Rightarrow> jv \<Rightarrow> jv \<Rightarrow> (domain \<Rightarrow> acks) \<Rightarrow> obj \<Rightarrow> next_state \<Rightarrow> jv \<Rightarrow> obj" where
  "sync_response_persistence env st payload sent expected validated rebased n never_sent =
     (let proof = or_else (fld st ''deliveryProof'') Null in
     [(''expectedUserId'', expected), (''snapshot'', Obj (n_snapshot n)), (''hlc'', n_hlc n),
      (''serverHlc'', n_server_hlc n), (''clockOffset'', n_clock n),
      (''queueIds'', acknowledged_queue_ids validated),
      (''timerOwnerClaim'', Obj [(''deviceId'', fld st ''deviceId''), (''tabId'', fld st ''tabId''),
        (''nowMs'', jint (e_now env)), (''leaseMs'', jint TIMER_OWNER_LEASE_MS)]),
      (''retainedQueues'', fld rebased ''queues''), (''dropCommandIds'', fld rebased ''droppedTimerOperationIds''),
      (''dropTimerIds'', fld rebased ''droppedTimerIds''), (''neverSent'', never_sent), (''deliveryProof'', proof),
      (''reconciliation'', Obj [(''sent'', sent), (''response'', payload), (''deviceId'', fld st ''deviceId''),
        (''neverSent'', never_sent), (''deliveryProof'', proof)])]
     @ (if \<not> strict_eq (n_phase n) (fld st ''selectedPhase'')
        then [(''settings'', Obj (settings_value st [(''selectedPhase'', n_phase n)]))] else []))"

text \<open>\<open>/possibly delivered|.../i.test(error.message)\<close>\<close>

definition is_immutable_recovery_error :: "js_error \<Rightarrow> bool" where
  "is_immutable_recovery_error e \<longleftrightarrow> list_ex (\<lambda>needle. contains needle (lower (message_of e)))
     [''possibly delivered'', ''not causally ordered'', ''device sequence'', ''neversent'', ''rewrite'',
      ''overlaps timer history'']"

definition rebase_failed :: "js_error \<Rightarrow> 'a act" where
  "rebase_failed e = bindw (if is_immutable_recovery_error e
       then bindw (put_field ''conflict'' (Str (if message_of e \<noteq> [] then message_of e
           else ''Immutable delivery conflict. Retained work was not rewritten.'')))
         (\<lambda>_. calls [Reported ''sync.immutable.recovery''])
       else ret ()) (\<lambda>_. fail e)"

text \<open>The response rebased on the queues in memory, as input of the transaction that applies it.\<close>

definition response_input ::
  "outside \<Rightarrow> jv \<Rightarrow> jv \<Rightarrow> jv \<Rightarrow> jv \<Rightarrow> (domain \<Rightarrow> acks) \<Rightarrow> jv \<Rightarrow> (obj \<times> jv list) act" where
  "response_input x payload sent expected timing validated claim =
     bindw (asks tab_state) (\<lambda>st.
     bindw (run (never_sent_for_queues (fld st ''deliveryProof'') (current_queues st) sent)) (\<lambda>never.
     bindw (handling (run_with (\<lambda>s. reconcile_state (x_env x s)
         [(''queues'', current_queues st), (''sent'', sent), (''response'', payload), (''deviceId'', fld st ''deviceId''),
          (''neverSent'', queues_value (\<lambda>d. Arr (never d))), (''deliveryProof'', or_else (fld st ''deliveryProof'') Null),
          (''projectionPending'', fld st ''projectionPending'')])) rebase_failed) (\<lambda>rebased.
     bindw (run_with (\<lambda>s. sync_response_state (x_env x s) st payload rebased validated timing)) (\<lambda>n.
     asks (\<lambda>s. (obj_put ''capturedClaim'' claim (sync_response_persistence (x_env x s) st payload sent expected
       validated rebased n (queues_value (\<lambda>d. Arr (never d)))), n_conflicts n))))))"

definition note_conflict :: "jv list \<Rightarrow> unit act" where
  "note_conflict conflicts = (case conflicts of [] \<Rightarrow> ret () | c # _ \<Rightarrow>
     put_field ''conflict'' (or_else (getp c ''reason'') (Str (''Command outcome: '' @ id_text (getp c ''outcome'')))))"

definition accept_sync_response :: "outside \<Rightarrow> jv \<Rightarrow> jv \<Rightarrow> jv \<Rightarrow> jv \<Rightarrow> jv \<Rightarrow> unit act" where
  "accept_sync_response x payload sent expected timing captured =
     bindw assert_now (\<lambda>_.
     bindw (run_with (\<lambda>s. ensure (strict_eq (i_owner (o_identity (s_context s))) expected) account_error)) (\<lambda>_.
     bindw (run (assert_response_account payload expected)) (\<lambda>_.
     bindw (run_with (\<lambda>s. capture_sync_claim captured sent expected (fld (tab_state s) ''deviceId''))) (\<lambda>claim.
     bindw (run (validate_canonical_response payload sent)) (\<lambda>validated.
     bindw wait_unlocked (\<lambda>_.
     bindw assert_now (\<lambda>_.
     bindw (put_field ''actionLocked'' (Bool True)) (\<lambda>_.
     ensuring
       (bindw (response_input x payload sent expected timing validated claim) (\<lambda>(input, conflicts).
        bindw (transact x (\<lambda>env db. apply_sync_response env db input)) (\<lambda>outcome.
        bindw assert_now (\<lambda>_.
        bindw (reload_persisted_state x None False) (\<lambda>_.
        bindw assert_now (\<lambda>_.
        if so_applied outcome then note_conflict conflicts else ret ()))))))
       (put_field ''actionLocked'' (Bool False))))))))))"

section \<open>The request\<close>

text \<open>
  \<open>fetcher\<close> of \<open>postMutation\<close>: the account and the gate are checked in the database before
  every request. The call records whether the context is current when the request leaves.
\<close>

definition fetch_checked :: "outside \<Rightarrow> string \<Rightarrow> obj \<Rightarrow> jv \<Rightarrow> response act" where
  "fetch_checked x url headers body =
     bindw assert_now (\<lambda>_.
     bindw (asks context_fields) (\<lambda>input.
     bindw (transact x (\<lambda>env db. guarded_mutation env db (url = ''/api/v1/bootstrap/resolve'') input (\<lambda>_ t. Inr ((), t)))) (\<lambda>_.
     bindw assert_now (\<lambda>_.
     bindw (modify (\<lambda>s. s\<lparr>s_calls := s_calls s @ [Posted url body (i_owner (o_identity (s_context s))) (live s)]\<rparr>)) (\<lambda>_.
     bindw await (\<lambda>_.
     bindw (run_with (\<lambda>s. x_fetch x s url headers body)) (\<lambda>response.
     bindw await (\<lambda>_. ret response))))))))"

definition next_request_sequence :: "outside \<Rightarrow> jv act" where
  "next_request_sequence x =
     bindw assert_now (\<lambda>_.
     bindw (asks context_fields) (\<lambda>input.
     bindw (transact x (\<lambda>env db. allocate_clock_request_sequence env db input)) (\<lambda>n. ret (jint n))))"

definition mutation_post :: "outside \<Rightarrow> string \<Rightarrow> jv \<Rightarrow> obj \<Rightarrow> jv \<Rightarrow> jv \<Rightarrow> (session, stop) post_input" where
  "mutation_post x url body headers token expected = \<lparr>p_url = url, p_headers = headers, p_body = body, p_csrf = token,
     p_current = Some assert_now, p_sequence = next_request_sequence x, p_now = asks (local_now x),
     p_fetch = fetch_checked x, p_refresh = refresh_mutation_csrf x expected, p_throw = Throws,
     p_timing = Some (\<lambda>timing. modify (\<lambda>s. s\<lparr>s_timing := timing\<rparr>))\<rparr>"

definition post_mutation :: "outside \<Rightarrow> string \<Rightarrow> jv \<Rightarrow> jv \<Rightarrow> (response \<times> jv) act" where
  "post_mutation x url body expected =
     bindw assert_now (\<lambda>_.
     bindw (run_with (\<lambda>s. ensure (strict_eq (i_owner (o_identity (s_context s))) expected) account_error)) (\<lambda>_.
     bindw (run (account_headers expected)) (\<lambda>headers.
     bindw (modify (\<lambda>s. s\<lparr>s_timing := Null\<rparr>)) (\<lambda>_.
     bindw (field ''csrfToken'') (\<lambda>token.
     bindw (post_json_with_csrf_retry (mutation_post x url body (map (\<lambda>(k, v). (k, Str v)) headers) token expected)) (\<lambda>response.
     bindw assert_now (\<lambda>_.
     bindw (asks s_timing) (\<lambda>timing. ret (response, timing)))))))))"

section \<open>Submitting a batch\<close>

definition submit_sync_batch :: "outside \<Rightarrow> jv \<Rightarrow> jv \<Rightarrow> jv \<Rightarrow> unit act" where
  "submit_sync_batch x sent expected captured =
     bindw assert_now (\<lambda>_.
     bindw (run_with (\<lambda>s. capture_sync_claim captured sent expected (fld (tab_state s) ''deviceId''))) (\<lambda>claim.
     bindw (run (bindr (dot sent ''durationOperations'') ids_of)) (\<lambda>ids.
     bindw (set_in_flight ids) (\<lambda>_.
     bindw (post_mutation x ''/api/v1/sync'' (getp claim ''body'') expected) (\<lambda>(response, timing).
     bindw assert_now (\<lambda>_.
     if r_status response = 401 then redirect_to_login x
     else if r_status response = 409 then
       bindw (handling (response_json response) (\<lambda>_. ret (Obj []))) (\<lambda>conflict.
       bindw assert_now (\<lambda>_.
       if getp conflict ''error'' = Str ''account incarnation changed'' then fail account_error
       else fail (status_text x ''sync.failed'' ''Sync failed'' response)))
     else if \<not> ok_status response then fail (status_text x ''sync.failed'' ''Sync failed'' response)
     else
       bindw (response_json response) (\<lambda>payload.
       bindw assert_now (\<lambda>_.
       bindw (accept_sync_response x payload sent expected timing claim) (\<lambda>_.
       bindw assert_now (\<lambda>_.
       bindw (asks (\<lambda>s. has_pending_operations (tab_state s))) (\<lambda>pending.
       bindw (calls [BatchAccepted pending]) (\<lambda>_.
       put_field ''retrying'' (Bool False)))))))))))))"

text \<open>Evaluation runs an operation only when it is given its session.\<close>

lemmas tab_sync_code [code] =
  response_input_def[THEN fun_cong] note_conflict_def[THEN fun_cong] accept_sync_response_def[THEN fun_cong]
  fetch_checked_def[THEN fun_cong] next_request_sequence_def[THEN fun_cong] post_mutation_def[THEN fun_cong]
  submit_sync_batch_def[THEN fun_cong]

end
