(* ===== verification/TabPerform.thy ===== *)
theory TabPerform
  imports TabSync
begin

text \<open>
  The coordinator of one synchronization (\<open>SyncCoordinator\<close> of \<open>web/app-sync.js\<close>): the checks
  before it, the claim, the errors it handles, and the recovery of a saved claim whose request
  is lost.
\<close>

section \<open>Before a synchronization\<close>

definition block_sync_for_bootstrap :: "jv \<Rightarrow> unit act" where
  "block_sync_for_bootstrap resolution =
     bindw assert_now (\<lambda>_.
     bindw (bindw (calls [StopAlert]) (\<lambda>_. close_stream)) (\<lambda>_.
     bindw (modify (\<lambda>s. set_tab (quarantine_owner_state True (assign (tab_state s)
       [(''sessionIdentityValidated'', Bool False), (''bootstrapGatePersisted'', Bool True),
        (''bootstrapGateOwned'', Bool False), (''bootstrapPending'', resolution), (''bootstrapBlocked'', Bool True)])) s)) (\<lambda>_.
     bindw (put_field ''retrying'' (Bool True)) (\<lambda>_.
     calls [RetryLater, Render, RenderStatus]))))"

definition pending_fields :: "outside \<Rightarrow> jv \<Rightarrow> obj" where
  "pending_fields x queues =
     [(''pending'', sorted_queue compare_timer_commands (getp queues ''commands'')),
      (''pendingTaskOperations'', queue_or_empty (getp queues ''taskOperations'')),
      (''pendingDurationOperations'', sorted_queue (compare_duration_operations (x_collate x)) (getp queues ''durationOperations'')),
      (''pendingAutoStartOperations'', queue_or_empty (getp queues ''autoStartOperations'')),
      (''pendingSelectedTaskOperations'', queue_or_empty (getp queues ''selectedTaskOperations''))]"

definition sanitize_projection_pending :: "jv \<Rightarrow> jv" where
  "sanitize_projection_pending v = coalesce v Null"

definition refresh_fields :: "outside \<Rightarrow> jv \<Rightarrow> (string \<times> (obj \<Rightarrow> jv res)) list" where
  "refresh_fields x queues = map (\<lambda>(k, v). (k, \<lambda>_. Inr v)) (pending_fields x queues) @
     [(''deliveryProof'', \<lambda>_. Inr (proof_value (sanitize_delivery_proof (getp queues ''deliveryProof'')))),
      (''canonicalHead'', \<lambda>_. Inr (sanitize_canonical_head (getp queues ''canonicalHead''))),
      (''projectionPending'', \<lambda>_. Inr (sanitize_projection_pending (getp queues ''projectionPending''))),
      (''outgoingSync'', \<lambda>_. Inr (or_else (getp queues ''outgoing'') Null)),
      (''timerDependencies'', \<lambda>_. Inr (coalesce (getp queues ''timerDependencies'') Null)),
      (''workspaceObservation'', \<lambda>_. Inr (coalesce (getp queues ''workspaceObservation'') Null)),
      (''completionState'', \<lambda>_. Inr (coalesce (getp queues ''completionState'') Null))]"


definition refresh_all_pending_operations :: "outside \<Rightarrow> unit act" where
  "refresh_all_pending_operations x =
     bindw assert_now (\<lambda>_.
     bindw (asks context_fields) (\<lambda>input.
     bindw (transact x (\<lambda>env db. normalize_legacy_duration_operations env db input)) (\<lambda>_.
     bindw assert_now (\<lambda>_.
     bindw (reading (\<lambda>db. Obj (read_sync_state db))) (\<lambda>queues.
     bindw assert_now (\<lambda>_.
     bindw (run_with (\<lambda>s. assert_account_ownership (getp queues ''snapshot'') (i_owner (o_identity (s_context s))))) (\<lambda>_.
     bindw (put_each (refresh_fields x queues)) (\<lambda>_.
     rebuild x))))))))"

text \<open>
  What a failed check does: nothing for a context that has ended, a new validation of the
  session for another account in the database, a retry otherwise. The synchronization does not run.
\<close>

definition defer_sync :: "string \<Rightarrow> js_error \<Rightarrow> bool act" where
  "defer_sync operation e =
     bindw current_now (\<lambda>current.
     if \<not> current then ret False
     else if ownership_error e then bindw queue_session_revalidation (\<lambda>_. ret False)
     else bindw (put_field ''retrying'' (Bool True)) (\<lambda>_.
       bindw (calls [RenderStatus, RetryLater, Warned, Reported operation]) (\<lambda>_. ret False)))"

definition refresh_for_sync :: "outside \<Rightarrow> bool act" where
  "refresh_for_sync x =
     handling (bindw (refresh_all_pending_operations x) (\<lambda>_. bindw assert_now (\<lambda>_. ret True)))
       (defer_sync ''sync.preflight.pending-queues'')"

text \<open>Whether the database is free of a gate and of a saved resolution.\<close>

definition gate_free :: "bool act" where
  "gate_free =
     handling
       (bindw (reading read_bootstrap_state) (\<lambda>(gate, resolution).
        bindw assert_now (\<lambda>_.
        if truthy gate \<or> truthy resolution then bindw (block_sync_for_bootstrap resolution) (\<lambda>_. ret False)
        else ret True)))
       (defer_sync ''sync.preflight.bootstrap-gate'')"

definition sync_ready :: "outside \<Rightarrow> session \<Rightarrow> bool res" where
  "sync_ready x s = (let st = tab_state s in
     if \<not> truthy (fld st ''ready'') then Inr False
     else bindr (needs_bootstrap st) (\<lambda>blocked.
       Inr (\<not> blocked \<and> truthy (fld st ''sessionIdentityValidated'') \<and> truthy (fld st ''authenticated'')
         \<and> truthy (fld st ''csrfToken'') \<and> x_online x s)))"

definition sync_preflight :: "outside \<Rightarrow> bool \<Rightarrow> bool act" where
  "sync_preflight x force =
     bindw current_now (\<lambda>current.
     if \<not> current then ret False
     else bindw (run_with (sync_ready x)) (\<lambda>ready.
       if \<not> ready then bindw (calls [RenderStatus]) (\<lambda>_. ret False)
       else bindw gate_free (\<lambda>free.
         if \<not> free then ret False
         else bindw (refresh_for_sync x) (\<lambda>refreshed.
           if \<not> refreshed then ret False
           else bindw assert_now (\<lambda>_.
             bindw (asks (\<lambda>s. has_pending_operations (tab_state s))) (\<lambda>pending.
             if \<not> force \<and> \<not> pending then bindw (put_field ''retrying'' (Bool False)) (\<lambda>_.
               bindw (calls [RenderStatus]) (\<lambda>_. ret False))
             else ret True))))))"

section \<open>A synchronization\<close>

definition unsendable_conflict :: "outside \<Rightarrow> jv \<Rightarrow> jv \<Rightarrow> obj \<Rightarrow> string \<times> jv" where
  "unsendable_conflict x status claim st =
     (if status = Str ''oversized_saved''
      then (''Saved sync request exceeds Core limits. Possibly delivered work remains blocked and unchanged.'', Null)
      else if status = Str ''blocked_dependency''
      then (''Sync is waiting for a retained command acknowledgement.'', Null)
      else if truthy (getp claim ''sent'')
      then (saved_claim_recovery_message claim
          (\<lambda>key values fallback. Inr (tr (x_catalog x) key (map (\<lambda>(k, v). (k, Text v)) values) fallback)) (recovery_queues st),
        Obj [(''queues'', Arr (map (\<lambda>d. Str (domain_name d)) (saved_claim_recovery_queues claim (recovery_queues st)))),
          (''armed'', Bool False)])
      else (''Saved sync request lacks original request bytes. Retained work needs recovery.'', Null))"

definition record_unsendable_claim :: "outside \<Rightarrow> jv \<Rightarrow> jv \<Rightarrow> unit act" where
  "record_unsendable_claim x status claim =
     bindw (asks (\<lambda>s. unsendable_conflict x status claim (tab_state s))) (\<lambda>(message, recovery).
     bindw (put_field ''savedClaimRecovery'' recovery) (\<lambda>_. put_field ''conflict'' (Str message)))"

definition claim_batch :: "outside \<Rightarrow> claim_result act" where
  "claim_batch x =
     bindw (asks (\<lambda>s. context_fields s @ [(''deviceId'', fld (tab_state s) ''deviceId''), (''localNowMs'', local_now x s)])) (\<lambda>input.
     bindw (transact x (\<lambda>env db. claim_workspace_batch env db input)) (\<lambda>k.
     bindw assert_now (\<lambda>_. ret k)))"

definition sendable :: "claim_result \<Rightarrow> bool" where
  "sendable k \<longleftrightarrow> getp (k_plan k) ''status'' \<in> {Str ''planned'', Str ''replay_saved''} \<and> truthy (getp (k_claim k) ''body'')"

definition install_claim :: "outside \<Rightarrow> claim_result \<Rightarrow> unit act" where
  "install_claim x k =
     bindw (put_field ''deliveryProof'' (k_proof k)) (\<lambda>_.
     bindw (put_field ''outgoingSync'' (k_claim k)) (\<lambda>_.
     bindw (if nullish (k_dependencies k) then ret () else put_field ''timerDependencies'' (k_dependencies k)) (\<lambda>_.
     rebuild x)))"

definition claim_and_submit :: "outside \<Rightarrow> unit act" where
  "claim_and_submit x =
     bindw (asks (\<lambda>s. i_owner (o_identity (s_context s)))) (\<lambda>expected.
     bindw (claim_batch x) (\<lambda>k.
     if \<not> sendable k then
       bindw (record_unsendable_claim x (getp (k_plan k) ''status'') (k_claim k)) (\<lambda>_.
       bindw (field ''conflict'') (\<lambda>message. fail (Error (id_text message))))
     else
       bindw (install_claim x k) (\<lambda>_.
       bindw assert_now (\<lambda>_.
       submit_sync_batch x (getp (k_claim k) ''sent'') expected (k_claim k)))))"

definition report_sync_error :: "js_error \<Rightarrow> unit act" where
  "report_sync_error e =
     bindw current_now (\<lambda>current.
     if \<not> current then ret ()
     else bindw (put_field ''retrying'' (Bool True)) (\<lambda>_.
       calls [RetryLater, Warned, Reported (if is_immutable_recovery_error e then ''sync.immutable.recovery''
         else ''sync.deferred'')]))"

definition sync_failure :: "js_error \<Rightarrow> unit act" where
  "sync_failure e =
     bindw current_now (\<lambda>current.
     if \<not> current then ret ()
     else if ownership_error e then queue_session_revalidation else report_sync_error e)"

definition sync_finished :: "unit act" where
  "sync_finished =
     bindw (set_in_flight []) (\<lambda>_.
     bindw (put_field ''syncing'' (Bool False)) (\<lambda>_.
     bindw current_now (\<lambda>current. if current then calls [Render] else ret ())))"

definition perform_sync :: "outside \<Rightarrow> unit act" where
  "perform_sync x =
     bindw current_now (\<lambda>current.
     if \<not> current then ret ()
     else bindw (put_field ''syncing'' (Bool True)) (\<lambda>_.
       bindw (put_field ''retrying'' (Bool False)) (\<lambda>_.
       bindw (calls [RenderStatus]) (\<lambda>_.
       ensuring (handling (claim_and_submit x) sync_failure) sync_finished))))"

text \<open>The operation \<open>syncNow\<close> starts, from its reservation to the end of its \<open>try\<close>.\<close>

definition run_sync :: "outside \<Rightarrow> bool \<Rightarrow> unit act" where
  "run_sync x force =
     handling
       (bindw assert_now (\<lambda>_.
        bindw (sync_preflight x force) (\<lambda>ready.
        if \<not> ready then ret () else bindw assert_now (\<lambda>_. perform_sync x))))
       (\<lambda>e. if ownership_error e then ret () else fail e)"

section \<open>Recovery of a saved claim\<close>

definition arm_saved_claim_recovery :: "unit act" where
  "arm_saved_claim_recovery =
     bindw (field ''savedClaimRecovery'') (\<lambda>recovery.
     if \<not> truthy recovery then fail (Error ''No unrecoverable saved claim needs recovery.'')
     else bindw (put_field ''savedClaimRecovery'' (Obj (obj_put ''armed'' (Bool True) (as_obj recovery)))) (\<lambda>_.
       calls [Render, RenderStatus]))"

definition cancel_saved_claim_recovery :: "unit act" where
  "cancel_saved_claim_recovery =
     bindw (field ''savedClaimRecovery'') (\<lambda>recovery.
     if \<not> truthy recovery then ret ()
     else bindw (put_field ''savedClaimRecovery'' (Obj (obj_put ''armed'' (Bool False) (as_obj recovery)))) (\<lambda>_.
       calls [Render, RenderStatus]))"

definition discard_saved_claim_recovery :: "outside \<Rightarrow> claim_result act" where
  "discard_saved_claim_recovery x =
     bindw (field ''savedClaimRecovery'') (\<lambda>recovery.
     if getp recovery ''armed'' \<noteq> Bool True
     then fail (Error ''Discarding the unrecoverable saved claim requires explicit confirmation.'')
     else
       bindw (asks (\<lambda>s. context_fields s @ [(''deviceId'', fld (tab_state s) ''deviceId''), (''localNowMs'', local_now x s),
         (''confirmed'', Bool True)])) (\<lambda>input.
       bindw (transact x (\<lambda>env db. discard_unrecoverable_saved_claim env db input)) (\<lambda>k.
       bindw assert_now (\<lambda>_.
       bindw (put_each [(''savedClaimRecovery'', \<lambda>_. Inr Null), (''conflict'', \<lambda>_. Inr Null),
         (''deliveryProof'', \<lambda>st. Inr (coalesce (k_proof k) (fld st ''deliveryProof''))),
         (''outgoingSync'', \<lambda>_. Inr (k_claim k))]) (\<lambda>_.
       bindw (reload_persisted_state x None False) (\<lambda>_.
       bindw assert_now (\<lambda>_.
       bindw (calls [Render, RenderStatus]) (\<lambda>_. ret k))))))))"

section \<open>The batch as it was recorded\<close>

definition verify_outgoing_exactness :: "obj \<Rightarrow> jv \<Rightarrow> unit res" where
  "verify_outgoing_exactness st sent =
     (let outgoing = fld st ''outgoingSync'' in
      if \<not> truthy (getp outgoing ''sent'') then Inr ()
      else bindr (outgoing_matches_stored outgoing sent) (\<lambda>same.
        ensure same (Error ''Outgoing payload changed under an existing identity. Recovery is required.'')))"

definition retire_proof_for_batch :: "outside \<Rightarrow> jv \<Rightarrow> unit act" where
  "retire_proof_for_batch x sent =
     bindw (run_with (\<lambda>s. verify_outgoing_exactness (tab_state s) sent)) (\<lambda>_.
     bindw (asks context_fields) (\<lambda>input.
     bindw (transact x (\<lambda>env db. retire_proof_and_persist_outgoing env db sent input)) (\<lambda>retired.
     bindw assert_now (\<lambda>_.
     bindw (put_field ''deliveryProof'' (proof_value retired)) (\<lambda>_.
     put_field ''outgoingSync'' (Obj [(''sent'', clone_outgoing sent)]))))))"

text \<open>Evaluation runs an operation only when it is given its session.\<close>

lemmas tab_perform_code [code] =
  block_sync_for_bootstrap_def[THEN fun_cong] refresh_all_pending_operations_def[THEN fun_cong]
  defer_sync_def[THEN fun_cong] refresh_for_sync_def[THEN fun_cong] gate_free_def[THEN fun_cong]
  sync_preflight_def[THEN fun_cong] record_unsendable_claim_def[THEN fun_cong]
  claim_batch_def[THEN fun_cong] claim_and_submit_def[THEN fun_cong] report_sync_error_def[THEN fun_cong]
  sync_failure_def[THEN fun_cong] sync_finished_def[THEN fun_cong] perform_sync_def[THEN fun_cong]
  run_sync_def[THEN fun_cong] arm_saved_claim_recovery_def[THEN fun_cong]
  cancel_saved_claim_recovery_def[THEN fun_cong] discard_saved_claim_recovery_def[THEN fun_cong]
  retire_proof_for_batch_def[THEN fun_cong]

end
