(* ===== verification/TabActions.thy ===== *)
theory TabActions
  imports TabCommit Authority
begin

text \<open>
  The actions of a user and of the timer in \<open>web/app-actions.js\<close>: an intent or a finish is
  committed while the tab's action lock is held, its outcome is shown, and the effects the Core
  has planned are carried out. Alerts are the subject of \<open>TabAlerts\<close>; here they are calls.
\<close>

section \<open>The Core's plans\<close>

definition history_date_ms :: "jv \<Rightarrow> jv" where
  "history_date_ms item = (case date_parse (or_else (getp item ''completedAt'') (or_else (getp item ''endedAt'')
       (or_else (getp item ''occurredAt'') (getp item ''createdAt'')))) of
     Num JNaN \<Rightarrow> jint 0 | v \<Rightarrow> v)"

definition read_model_now :: "outside \<Rightarrow> jv act" where
  "read_model_now x = bindw (asks (\<lambda>s. get_workspace_read_model (x_env x s) (x_monotonic x s)
       \<lparr>t_state = tab_state s, t_runtime = s_runtime s, t_continuity = s_continuity s\<rparr>)) (\<lambda>(r, t).
     bindw (modify (\<lambda>s. set_tab (t_state t) (s\<lparr>s_runtime := t_runtime t, s_continuity := t_continuity t\<rparr>))) (\<lambda>_. run r))"

definition completed_focus_count_for_day :: "outside \<Rightarrow> jv act" where
  "completed_focus_count_for_day x = bindw (read_model_now x) (\<lambda>model.
     run (bindr (dot model ''cadence'') (\<lambda>c. dot c ''completedFocusToday'')))"

definition long_break_progress :: "outside \<Rightarrow> jv act" where
  "long_break_progress x = bindw (read_model_now x) (\<lambda>model.
     run (bindr (dot model ''cadence'') (\<lambda>c. dot c ''longBreakProgress'')))"

definition finish_plan :: "env \<Rightarrow> obj \<Rightarrow> jv \<Rightarrow> jv \<Rightarrow> jv \<Rightarrow> string \<Rightarrow> jv res" where
  "finish_plan env st timer history reference command =
     (let ms = (case date_value reference of Some t \<Rightarrow> t | None \<Rightarrow> e_now env) in
      bindr (iso ms) (\<lambda>stamp.
      storage_finish_applied_plan env
        [(''commandId'', Str command), (''timerId'', or_else (getp timer ''id'') (Str ''pending-timer'')),
         (''phase'', getp timer ''phase''), (''occurredAt'', stamp), (''history'', history),
         (''autoStartBreaks'', Bool (fld st ''autoStartBreaks'' = Bool True)),
         (''localDeviceId'', or_else (fld st ''deviceId'') (Str ''legacy-web'')), (''ownsTimer'', Bool True),
         (''referenceMs'', jint ms)]))"

definition next_phase_after_completion :: "env \<Rightarrow> obj \<Rightarrow> jv \<Rightarrow> jv \<Rightarrow> jv \<Rightarrow> jv res" where
  "next_phase_after_completion env st timer history reference =
     bindr (finish_plan env st timer history reference ''pending-finish'') (\<lambda>plan. dot plan ''selectedPhase'')"

definition phase_after_focus :: "env \<Rightarrow> obj \<Rightarrow> jv \<Rightarrow> jv \<Rightarrow> jv res" where
  "phase_after_focus env st = next_phase_after_completion env st
     (Obj [(''id'', Str ''pending-focus''), (''phase'', Str ''focus'')])"

definition selected_phase_after_command_acknowledgements :: "env \<Rightarrow> jv \<Rightarrow> jv \<Rightarrow> jv \<Rightarrow> jv \<Rightarrow> jv res" where
  "selected_phase_after_command_acknowledgements env phase commands acknowledgements history =
     bindr (completion_selection env [(''selectedPhase'', phase), (''commands'', commands),
       (''acknowledgements'', acknowledgements), (''history'', history)]) (\<lambda>v.
     bindr (dot v ''selection'') (\<lambda>selection. dot selection ''phase''))"

definition selected_phase_after_rejected_finish :: "env \<Rightarrow> jv \<Rightarrow> jv \<Rightarrow> jv \<Rightarrow> jv res" where
  "selected_phase_after_rejected_finish env phase finish history =
     bindr (dot finish ''id'') (\<lambda>i.
     selected_phase_after_command_acknowledgements env phase (Arr [finish])
       (Arr [Obj [(''commandId'', i), (''outcome'', Str ''rejected'')]]) history)"

section \<open>Effects after a commit\<close>

definition browser_effect :: "jv \<Rightarrow> call list res" where
  "browser_effect e = bindr (dot e ''kind'') (\<lambda>kind.
     if kind = Str ''launchSync'' then Inr [SyncLater False]
     else if kind = Str ''clearCompletionAlert'' then Inr [StopAlert]
     else if kind \<in> {Str ''cancelAlarm'', Str ''pauseAlarm''} then Inr [ClearAlarm]
     else if kind \<in> {Str ''scheduleAlarm'', Str ''resumeAlarm''} then Inr [ClearAlarm, SetAlarm (getp e ''durationMs'')]
     else Inl (Error ''Unsupported Core browser effect.''))"

definition execute_workspace_effects :: "jv \<Rightarrow> unit act" where
  "execute_workspace_effects planned =
     bindw assert_now (\<lambda>_.
     bindw (run (iter_values planned)) (\<lambda>es.
     each (\<lambda>e. bindw assert_now (\<lambda>_. bindw (run (browser_effect e)) calls)) es))"

section \<open>Intents\<close>

definition mutation_failure_notice :: "catalog \<Rightarrow> string \<Rightarrow> string" where
  "mutation_failure_notice i18n operation =
     (if operation = ''actions.duration.save-failed''
      then tr i18n ''notice.durationSaveFailed'' [] ''Duration change could not be saved.''
      else if operation = ''actions.auto-start.save-failed''
      then tr i18n ''notice.autoStartSaveFailed'' [] ''Auto-start preference could not be saved.''
      else if operation = ''actions.selected-task.save-failed''
      then tr i18n ''notice.taskChoiceSaveFailed'' [] ''Task choice could not be saved.''
      else if operation = ''actions.task.save-failed''
      then tr i18n ''notice.taskSaveFailed'' [] ''Task change could not be saved.''
      else if operation = ''view.phase.save-failed''
      then tr i18n ''notice.phaseSaveFailed'' [] ''Phase choice could not be saved.''
      else tr i18n ''notice.timerSaveFailed'' [] ''Timer action could not be saved.'')"

definition reported_operation :: "string \<Rightarrow> string" where
  "reported_operation operation =
     (if operation \<in> {''actions.duration.save-failed'', ''actions.auto-start.save-failed'',
        ''actions.selected-task.save-failed'', ''actions.selected-task.retarget-missing'', ''actions.task.save-failed'',
        ''actions.timer.clear-failed'', ''view.phase.save-failed''} then operation
      else ''actions.timer.save-failed'')"

text \<open>A running or paused focus timer that shows another task than the chosen one.\<close>

definition diverged :: "jv \<Rightarrow> jv \<Rightarrow> bool" where
  "diverged task timer \<longleftrightarrow> truthy (getp timer ''id'')
   \<and> getp timer ''status'' \<in> {Str ''running'', Str ''paused''} \<and> getp timer ''phase'' = Str ''focus''
   \<and> \<not> strict_eq (coalesce (getp timer ''taskId'') Null) (coalesce task Null)"

definition selected_task_retarget_missing :: "outside \<Rightarrow> jv \<Rightarrow> bool act" where
  "selected_task_retarget_missing x task =
     bindw (field ''timer'') (\<lambda>timer.
     if \<not> diverged task timer then ret False
     else handling
       (bindw assert_now (\<lambda>_.
        bindw (reload_persisted_state x None True) (\<lambda>_.
        bindw assert_now (\<lambda>_.
        bindw (field ''timer'') (\<lambda>timer. ret (diverged task timer))))))
       (\<lambda>_. ret False))"

definition notice :: "string \<Rightarrow> unit act" where
  "notice m = calls [Notice (Str m)]"

text \<open>A plan without outcome: nothing changed, or the timer kept the task it had.\<close>

definition noop_outcome :: "outside \<Rightarrow> jv \<Rightarrow> bool act" where
  "noop_outcome x intent =
     bindw (if getp intent ''kind'' = Str ''selectTask'' then selected_task_retarget_missing x (getp intent ''taskId'')
       else ret False) (\<lambda>missing.
     if missing then
       bindw (calls [Reported ''actions.selected-task.retarget-missing'']) (\<lambda>_.
       bindw (notice (tr (x_catalog x) ''notice.taskRetargetMissing'' []
         ''Focus timer still shows the previous task. Choose another task, then choose this one again.'')) (\<lambda>_. ret False))
     else ret (getp intent ''kind'' = Str ''addAndSelectTask''))"

text \<open>\<open>plan.commandOutcomes || Object.values(plan.groupOutcomes || {}).flat()\<close>\<close>

definition plan_outcomes :: "jv \<Rightarrow> jv list res" where
  "plan_outcomes plan =
     (if truthy (getp plan ''commandOutcomes'') then list_or_empty (getp plan ''commandOutcomes'')
      else Inr (concat (map (\<lambda>(_, v). case v of Arr vs \<Rightarrow> vs | v \<Rightarrow> [v]) (as_obj (getp plan ''groupOutcomes'')))))"

definition some_queued :: "jv \<Rightarrow> bool res" where
  "some_queued plan = bindr (plan_outcomes plan) (somer (\<lambda>item.
     bindr (dot item ''outcome'') (\<lambda>outcome. Inr (outcome = Str ''queued''))))"

definition existing_task :: "jv \<Rightarrow> jv \<Rightarrow> bool res" where
  "existing_task intent plan =
     (if getp intent ''kind'' \<noteq> Str ''addAndSelectTask'' then Inr False
      else bindr (dot plan ''operations'') (\<lambda>operations.
        bindr (dot operations ''taskOperations'') (\<lambda>ops.
        bindr (dot ops ''length'') (\<lambda>_. Inr (ops = Arr [])))))"

definition intent_committed :: "outside \<Rightarrow> jv \<Rightarrow> jv \<Rightarrow> bool act" where
  "intent_committed x intent plan =
     bindw (calls [Render]) (\<lambda>_.
     bindw assert_now (\<lambda>_.
     bindw (run (existing_task intent plan)) (\<lambda>exists.
     bindw (if exists then notice (tr (x_catalog x) ''notice.taskExists'' [] ''Task already exists and is now selected.'')
       else ret ()) (\<lambda>_.
     bindw (run (some_queued plan)) (\<lambda>queued.
     bindw (if queued then notice (tr (x_catalog x) ''notice.coreQueued'' []
         ''Change saved. Display waits for synchronization of retained work.'') else ret ()) (\<lambda>_.
     bindw (execute_workspace_effects (getp plan ''effectsAfterCommit'')) (\<lambda>_.
     ret True)))))))"

definition intent_failed :: "outside \<Rightarrow> string \<Rightarrow> js_error \<Rightarrow> bool act" where
  "intent_failed x operation e =
     bindw (calls [Reported (reported_operation operation)]) (\<lambda>_.
     bindw (if ownership_error e then ret ()
       else notice (if message_of e \<noteq> [] then message_of e else mutation_failure_notice (x_catalog x) operation)) (\<lambda>_.
     ret False))"

definition with_action_lock :: "'a act \<Rightarrow> 'a act" where
  "with_action_lock m =
     bindw (put_field ''actionLocked'' (Bool True)) (\<lambda>_. ensuring m (put_field ''actionLocked'' (Bool False)))"

definition controls_closed :: "bool act" where
  "controls_closed = run_with (\<lambda>s. bindr (controls_blocked (tab_state s)) (\<lambda>blocked.
     Inr (blocked \<or> truthy (fld (tab_state s) ''actionLocked''))))"

text \<open>\<open>issueWorkspaceIntent(intent, options, operation)\<close>; \<open>bound\<close> if the options bring a context.\<close>

definition issue_workspace_intent :: "outside \<Rightarrow> bool \<Rightarrow> jv \<Rightarrow> obj \<Rightarrow> string \<Rightarrow> bool act" where
  "issue_workspace_intent x bound intent options operation =
     bindw controls_closed (\<lambda>closed.
     if closed then ret False
     else bindw (asks tab_state) (\<lambda>st.
       if \<not> truthy (fld options ''preference'') \<and> truthy (fld st ''workspaceBlocked'')
       then bindw (calls [Notice (fld st ''conflict'')]) (\<lambda>_. ret False)
       else bindw (if bound then ret () else capture_now) (\<lambda>_.
         with_action_lock
           (handling
             (bindw (persist_workspace_intent x intent options) (\<lambda>plan.
              bindw assert_now (\<lambda>_.
              bindw (run (dot plan ''outcome'')) (\<lambda>outcome.
              if outcome = Str ''noop'' then noop_outcome x intent else intent_committed x intent plan))))
             (intent_failed x operation)))))"

section \<open>Actions\<close>

definition expected_or_now :: "jv option \<Rightarrow> jv act" where
  "expected_or_now expected = (case expected of Some owner \<Rightarrow> ret owner | None \<Rightarrow> owner_now)"

definition minutes_asked :: "jnum \<Rightarrow> jv" where
  "minutes_asked ms = (case ms of JInt i \<Rightarrow> minutes_of i | JFrac q \<Rightarrow> Num (JFrac (q / 60000)) | n \<Rightarrow> Num n)"

definition issue_duration_operation :: "outside \<Rightarrow> jv \<Rightarrow> jnum \<Rightarrow> bool act" where
  "issue_duration_operation x phase ms = issue_workspace_intent x False
     (Obj [(''kind'', Str ''setDuration''), (''phase'', phase), (''minutes'', minutes_asked ms)])
     [(''preference'', Bool True)] ''actions.duration.save-failed''"

text \<open>Preferences wait for the running action, bound to the account they were asked under.\<close>

definition issue_when_unlocked :: "outside \<Rightarrow> jv option \<Rightarrow> jv \<Rightarrow> string \<Rightarrow> bool act" where
  "issue_when_unlocked x expected intent operation =
     bindw (expected_or_now expected) (\<lambda>owner.
     bindw capture_now (\<lambda>_.
     bindw wait_unlocked (\<lambda>_.
     issue_workspace_intent x True intent (preference_options owner) operation)))"

definition issue_auto_start_operation :: "outside \<Rightarrow> jv \<Rightarrow> jv option \<Rightarrow> bool act" where
  "issue_auto_start_operation x enabled expected = issue_when_unlocked x expected
     (Obj [(''kind'', Str ''setAutoStart''), (''enabled'', enabled)]) ''actions.auto-start.save-failed''"

definition issue_selected_task_operation :: "outside \<Rightarrow> jv \<Rightarrow> jv option \<Rightarrow> bool act" where
  "issue_selected_task_operation x task expected = issue_when_unlocked x expected
     (Obj [(''kind'', Str ''selectTask''), (''taskId'', task)]) ''actions.selected-task.save-failed''"

definition task_intent :: "string \<Rightarrow> jv \<Rightarrow> jv" where
  "task_intent kind task =
     (if kind = ''upsert'' then Obj [(''kind'', Str ''upsertTask''), (''title'', getp task ''title'')]
      else if kind = ''rename''
      then Obj [(''kind'', Str ''renameTask''), (''taskId'', getp task ''id''), (''title'', getp task ''title'')]
      else Obj [(''kind'', Str ''deleteTask''), (''taskId'', getp task ''id'')])"

definition issue_task_operation :: "outside \<Rightarrow> string \<Rightarrow> jv \<Rightarrow> jv option \<Rightarrow> bool act" where
  "issue_task_operation x kind task expected =
     bindw (expected_or_now expected) (\<lambda>owner.
     issue_workspace_intent x False (task_intent kind task) (preference_options owner) ''actions.task.save-failed'')"

definition delete_task :: "outside \<Rightarrow> jv \<Rightarrow> bool act" where
  "delete_task x task = issue_task_operation x ''delete'' task None"

definition rename_task :: "outside \<Rightarrow> jv \<Rightarrow> jv \<Rightarrow> bool act" where
  "rename_task x task title = issue_task_operation x ''rename'' (Obj [(''id'', getp task ''id''), (''title'', title)]) None"

definition shared_task_identity :: "outside \<Rightarrow> string \<Rightarrow> jv act" where
  "shared_task_identity x title =
     bindw await (\<lambda>_.
     bindw (run_with (\<lambda>s. x_identity x s title)) (\<lambda>identity.
     if truthy identity \<and> is_string (getp identity ''id'') \<and> is_string (getp identity ''title'') then ret identity
     else fail (Error ''Shared core returned an invalid task identity.'')))"

definition identity_failed :: "outside \<Rightarrow> js_error \<Rightarrow> 'a act" where
  "identity_failed x e =
     (if list_ex (\<lambda>needle. contains needle (message_of e)) [''printable'', ''must not be empty'', ''title is empty'']
      then fail (Error (tr (x_catalog x) ''notice.taskPrintable'' [] ''Enter a printable task name.''))
      else if list_ex (\<lambda>needle. contains needle (message_of e)) [''512'', ''too long'']
      then fail (Error (tr (x_catalog x) ''notice.taskTooLong'' [] ''Task name is too long.''))
      else bindw (calls [Warned, Reported ''actions.task.identity-failed'']) (\<lambda>_. fail e))"

definition add_task :: "outside \<Rightarrow> string \<Rightarrow> bool act" where
  "add_task x title =
     bindw capture_now (\<lambda>_.
     bindw (handling (shared_task_identity x title) (identity_failed x)) (\<lambda>_.
     issue_workspace_intent x True (Obj [(''kind'', Str ''addAndSelectTask''), (''title'', Str title)])
       [(''preference'', Bool True)] ''actions.task.save-failed''))"

definition issue_command :: "outside \<Rightarrow> string \<Rightarrow> bool act" where
  "issue_command x kind = issue_workspace_intent x False (Obj [(''kind'', Str kind)]) [] ''actions.timer.save-failed''"

definition issue_phase_selection :: "outside \<Rightarrow> jv \<Rightarrow> bool act" where
  "issue_phase_selection x phase = issue_workspace_intent x False
     (Obj [(''kind'', Str ''selectPhase''), (''phase'', phase)]) [] ''view.phase.save-failed''"

definition issue_skip :: "outside \<Rightarrow> bool act" where
  "issue_skip x = issue_workspace_intent x False (Obj [(''kind'', Str ''skip'')]) [] ''actions.timer.save-failed''"

definition cancel_and_clear_timer :: "outside \<Rightarrow> bool act" where
  "cancel_and_clear_timer x =
     bindw (field ''timer'') (\<lambda>timer.
     issue_workspace_intent x False (Obj [(''kind'', Str ''cancelAndClear'')])
       [(''requestedTimer'', clone_value timer)] ''actions.timer.clear-failed'')"

section \<open>Finishing a timer\<close>

definition TIMER_OWNER_HEARTBEAT_MS :: int where "TIMER_OWNER_HEARTBEAT_MS = timing_ms ''timerOwnerHeartbeat'' 15000"

text \<open>How long to wait for the tab that owns the timer; \<open>None\<close> if that is not the reason.\<close>

definition completion_retry_delay :: "jv \<Rightarrow> int \<Rightarrow> jv option" where
  "completion_retry_delay outcome now =
     (if getp outcome ''reason'' \<noteq> Str ''not_owner'' then None
      else Some (case to_number (getp outcome ''retryAtMs'') of
        JInt t \<Rightarrow> jint (max 250 (t - now + 1))
      | JFrac t \<Rightarrow> Num (if of_int 250 < t - of_int now + 1 then JFrac (t - of_int now + 1) else JInt 250)
      | _ \<Rightarrow> jint (max 250 (TIMER_OWNER_HEARTBEAT_MS + 1))))"

definition schedule_completion_retry :: "outside \<Rightarrow> jv \<Rightarrow> jv \<Rightarrow> unit act" where
  "schedule_completion_retry x timer_id outcome =
     bindw assert_now (\<lambda>_.
     bindw (asks (\<lambda>s. completion_retry_delay outcome (e_now (x_env x s)))) (\<lambda>delay. case delay of
       None \<Rightarrow> ret () | Some d \<Rightarrow> calls [ClearRetry, SetRetry timer_id d]))"

text \<open>Whether the retry may let the timer finish again: the same account, the same running timer.\<close>

definition release_completion_retry :: "jv \<Rightarrow> jv option \<Rightarrow> obj \<Rightarrow> bool res" where
  "release_completion_retry timer_id expected st =
     bindr (state_owner st) (\<lambda>owner.
     if \<not> strict_eq owner (case expected of None \<Rightarrow> owner | Some e \<Rightarrow> e) then Inr False
     else bindr (dot (fld st ''timer'') ''id'') (\<lambda>i.
       Inr (strict_eq i timer_id \<and> getp (fld st ''timer'') ''status'' = Str ''running'')))"

definition finish_committed :: "outside \<Rightarrow> bool \<Rightarrow> jv \<Rightarrow> jv \<Rightarrow> bool act" where
  "finish_committed x automatic timer plan =
     bindw (run (dot plan ''outcome'')) (\<lambda>outcome.
     if outcome = Str ''noop'' then
       if automatic \<and> getp plan ''reason'' = Str ''not_owner''
       then bindw (schedule_completion_retry x (getp timer ''id'') plan) (\<lambda>_. ret True)
       else ret automatic
     else
       bindw (calls [ClearRetry, StartAlert timer]) (\<lambda>_.
       bindw assert_now (\<lambda>_.
       bindw (calls [Render]) (\<lambda>_.
       bindw (execute_workspace_effects (getp plan ''effectsAfterCommit'')) (\<lambda>_. ret True)))))"

definition finish_failed :: "outside \<Rightarrow> js_error \<Rightarrow> bool act" where
  "finish_failed x e =
     (if ownership_error e then ret False
      else bindw (calls [Warned, Reported ''actions.timer.finish-failed'']) (\<lambda>_.
        bindw (notice (if message_of e \<noteq> [] then message_of e
          else tr (x_catalog x) ''notice.timerSaveFailed'' [] ''Timer action could not be saved.'')) (\<lambda>_. ret False)))"

definition finish_timer :: "outside \<Rightarrow> bool \<Rightarrow> jv option \<Rightarrow> bool act" where
  "finish_timer x automatic expected =
     bindw (expected_or_now expected) (\<lambda>owner.
     bindw controls_closed (\<lambda>closed.
     if closed then ret False
     else bindw (field ''workspaceBlocked'') (\<lambda>blocked.
       if truthy blocked then ret False
       else bindw capture_now (\<lambda>_.
         bindw (asks (\<lambda>s. clone_value (fld (tab_state s) ''timer''))) (\<lambda>timer.
         with_action_lock
           (handling
             (bindw (expect_account owner) (\<lambda>_.
              bindw (persist_workspace_completion x (if automatic then ''automaticFinishCommit'' else ''finishCommit'') timer)
                (\<lambda>plan.
              bindw assert_now (\<lambda>_. finish_committed x automatic timer plan))))
             (finish_failed x)))))))"

section \<open>Ownership of the timer\<close>

definition heartbeat_due :: "session \<Rightarrow> bool" where
  "heartbeat_due s = (let st = tab_state s in a_database (s_app s) \<noteq> 0 \<and> truthy (fld st ''ready'')
     \<and> truthy (fld st ''deviceId'') \<and> truthy (getp (fld st ''timer'') ''id'')
     \<and> getp (fld st ''timer'') ''status'' \<in> {Str ''running'', Str ''paused''})"

definition heartbeat_failed :: "js_error \<Rightarrow> jv act" where
  "heartbeat_failed e =
     bindw current_now (\<lambda>current.
     if \<not> current then ret Undef
     else if ownership_error e then bindw account_mismatch (\<lambda>_. ret Undef)
     else bindw (calls [Warned, Reported ''actions.timer-ownership.renewal-failed'']) (\<lambda>_. ret Undef))"

text \<open>One renewal; a renewal that runs already answers the ticks that come meanwhile.\<close>

definition heartbeat_timer_ownership :: "outside \<Rightarrow> jv act" where
  "heartbeat_timer_ownership x =
     bindw (asks heartbeat_due) (\<lambda>due.
     if \<not> due then ret Undef
     else bindw assert_now (\<lambda>_.
       bindw (asks (\<lambda>s. spread (context_fields s) [(''expectedUserId'', i_owner (o_identity (s_context s))),
         (''timerId'', getp (fld (tab_state s) ''timer'') ''id''), (''deviceId'', fld (tab_state s) ''deviceId''),
         (''tabId'', fld (tab_state s) ''tabId''), (''nowMs'', local_now x s), (''leaseMs'', jint TIMER_OWNER_LEASE_MS)])) (\<lambda>input.
       bindw await (\<lambda>_.
       handling
         (bindw current_now (\<lambda>current.
          if \<not> current then ret Undef
          else bindw (transact x (\<lambda>env db. renew_timer_ownership env db input)) (\<lambda>renewed.
            bindw current_now (\<lambda>current. ret (if current then renewed else Undef)))))
         heartbeat_failed))))"

text \<open>Evaluation runs an operation only when it is given its session.\<close>

lemmas tab_actions_code [code] =
  read_model_now_def[THEN fun_cong] completed_focus_count_for_day_def[THEN fun_cong]
  long_break_progress_def[THEN fun_cong] execute_workspace_effects_def[THEN fun_cong]
  selected_task_retarget_missing_def[THEN fun_cong] notice_def[THEN fun_cong]
  noop_outcome_def[THEN fun_cong] intent_committed_def[THEN fun_cong] intent_failed_def[THEN fun_cong]
  with_action_lock_def[THEN fun_cong] controls_closed_def[THEN fun_cong]
  issue_workspace_intent_def[THEN fun_cong] expected_or_now_def[THEN fun_cong]
  issue_duration_operation_def[THEN fun_cong] issue_when_unlocked_def[THEN fun_cong]
  issue_auto_start_operation_def[THEN fun_cong] issue_selected_task_operation_def[THEN fun_cong]
  issue_task_operation_def[THEN fun_cong] delete_task_def[THEN fun_cong] rename_task_def[THEN fun_cong]
  shared_task_identity_def[THEN fun_cong] identity_failed_def[THEN fun_cong] add_task_def[THEN fun_cong]
  issue_command_def[THEN fun_cong] issue_phase_selection_def[THEN fun_cong] issue_skip_def[THEN fun_cong]
  cancel_and_clear_timer_def[THEN fun_cong] schedule_completion_retry_def[THEN fun_cong]
  finish_committed_def[THEN fun_cong] finish_failed_def[THEN fun_cong] finish_timer_def[THEN fun_cong]
  heartbeat_failed_def[THEN fun_cong] heartbeat_timer_ownership_def[THEN fun_cong]

end
