(* ===== verification/TabRelations.thy ===== *)
theory TabRelations
  imports TabPerform TabActions
begin

text \<open>
  What an operation of a tab can do to its session, shown once for every operation. A relation
  between the session before and after, with whether the operation hangs, is closed under the
  ways operations are composed if it satisfies the laws of \<open>session_relation\<close>; the further
  locales are for relations that also admit waiting for the action lock, binding the operation
  to the present account, and sending a mutation. Four relations are of interest: nothing is
  sent, the owner of the context stays, the operation hangs only behind a held lock, and it does
  not hang at all.
\<close>

named_theorems moves_intros

section \<open>Relations\<close>

fun is_post :: "call \<Rightarrow> bool" where
  "is_post (Posted _ _ _ _) = True"
| "is_post _ = False"

definition posts :: "session \<Rightarrow> call list" where
  "posts s = filter is_post (s_calls s)"

definition moves :: "(session \<Rightarrow> bool \<Rightarrow> session \<Rightarrow> bool) \<Rightarrow> 'a act \<Rightarrow> bool" where
  "moves R m \<longleftrightarrow> (\<forall>s. R s (fst (m s) = Inl Hangs) (snd (m s)))"

lemma movesD: "moves R m \<Longrightarrow> m s = (r, t) \<Longrightarrow> R s (r = Inl Hangs) t"
  unfolding moves_def by (metis fst_conv snd_conv)

text \<open>The lock is held, and the others do not release it.\<close>

definition locked :: "session \<Rightarrow> bool" where
  "locked s \<longleftrightarrow> truthy (fld (tab_state s) ''actionLocked'')"

definition after_others :: "nat \<Rightarrow> session \<Rightarrow> session" where
  "after_others n s = foldl (\<lambda>s f. with_shared (f (shared_of s)) s) s (take n (s_others s))"

definition stuck :: "session \<Rightarrow> bool" where
  "stuck s \<longleftrightarrow> (\<forall>n. locked (after_others n s))"

locale session_relation =
  fixes R :: "session \<Rightarrow> bool \<Rightarrow> session \<Rightarrow> bool"
  assumes frame: "posts t = posts s \<Longrightarrow> s_context t = s_context s \<Longrightarrow> R s False t"
    and trans: "R s False t \<Longrightarrow> R t h u \<Longrightarrow> R s h u"
    and publish: "next_scope s (s_context s) = Inr (c, scope) \<Longrightarrow> R s False (s\<lparr>s_context := c\<rparr>)"
    and under: "R (s\<lparr>s_context := c\<rparr>) h t \<Longrightarrow> R s h (t\<lparr>s_context := s_context s\<rparr>)"

locale waiting_relation = session_relation +
  assumes wait: "stuck s \<Longrightarrow> R s True s"

locale capturing_relation = session_relation +
  assumes capture: "R s False (s\<lparr>s_context := c\<rparr>)"

locale sending_relation = session_relation +
  assumes send: "R s False (s\<lparr>s_calls := s_calls s @ cs\<rparr>)"

locale acting_relation = waiting_relation + capturing_relation

locale syncing_relation = waiting_relation + sending_relation

section \<open>Invariants of the ways operations are composed\<close>

lemma keeps_run [keeps_intros]:
  "keeps I (run r)" "keeps I (asks f)" "keeps I (run_with g)" "keeps I (fail err)"
  by (simp_all add: keeps_def run_def asks_def run_with_def fail_def throw_def split: sum.split)

lemma keeps_prod [keeps_intros]: "(\<And>a b. keeps I (f a b)) \<Longrightarrow> keeps I (case p of (a, b) \<Rightarrow> f a b)"
  by (cases p) simp

lemma keeps_effect [keeps_intros]:
  "keeps I m \<Longrightarrow> keeps I n \<Longrightarrow> keeps I (case e of StopCompletionAlert \<Rightarrow> m | QueueSessionRevalidation \<Rightarrow> n)"
  by (cases e) auto

lemma keeps_handling [keeps_intros]: "keeps I m \<Longrightarrow> (\<And>e. keeps I (h e)) \<Longrightarrow> keeps I (handling m h)"
  unfolding handling_def by (intro keeps_intros) (auto intro: keeps_intros split: stop.split)

section \<open>Rules that hold for every relation\<close>

lemma moves_if [moves_intros]: "(b \<Longrightarrow> moves R m) \<Longrightarrow> (\<not> b \<Longrightarrow> moves R n) \<Longrightarrow> moves R (if b then m else n)"
  by simp

lemma moves_prod [moves_intros]: "(\<And>a b. moves R (f a b)) \<Longrightarrow> moves R (case p of (a, b) \<Rightarrow> f a b)"
  by (cases p) simp

lemma moves_option [moves_intros]: "moves R m \<Longrightarrow> (\<And>a. moves R (f a)) \<Longrightarrow> moves R (case v of None \<Rightarrow> m | Some a \<Rightarrow> f a)"
  by (cases v) auto

lemma moves_list [moves_intros]: "moves R m \<Longrightarrow> (\<And>a b. moves R (f a b)) \<Longrightarrow> moves R (case v of [] \<Rightarrow> m | a # b \<Rightarrow> f a b)"
  by (cases v) auto

lemma moves_error [moves_intros]:
  "(\<And>v. moves R (f v)) \<Longrightarrow> moves R m \<Longrightarrow> moves R (case e of LegacyDependencyRecoveryError v \<Rightarrow> f v | _ \<Rightarrow> m)"
  by (cases e) auto

lemma moves_Let [moves_intros]: "moves R (f v) \<Longrightarrow> moves R (Let v f)"
  by simp

lemma moves_effect [moves_intros]:
  "moves R m \<Longrightarrow> moves R n \<Longrightarrow> moves R (case e of StopCompletionAlert \<Rightarrow> m | QueueSessionRevalidation \<Rightarrow> n)"
  by (cases e) auto

lemma posts_frames [simp]:
  "posts (with_shared h s) = posts s" "posts (set_tab st s) = posts s" "posts (s\<lparr>s_context := c\<rparr>) = posts s"
  "posts (s\<lparr>s_app := a\<rparr>) = posts s" "posts (s\<lparr>s_db := d\<rparr>) = posts s" "posts (s\<lparr>s_in_flight := i\<rparr>) = posts s"
  "posts (s\<lparr>s_generation := g\<rparr>) = posts s" "posts (s\<lparr>s_runtime := r\<rparr>) = posts s" "posts (s\<lparr>s_continuity := r\<rparr>) = posts s"
  "posts (s\<lparr>s_page := p\<rparr>) = posts s" "posts (s\<lparr>s_others := fs\<rparr>) = posts s" "posts (s\<lparr>s_timing := r\<rparr>) = posts s"
  "posts (s\<lparr>s_failed := f\<rparr>) = posts s"
  by (simp_all add: posts_def with_shared_def set_tab_def)

lemma context_frames [simp]:
  "s_context (with_shared h s) = s_context s" "s_context (set_tab st s) = s_context s"
  by (simp_all add: with_shared_def set_tab_def)

lemma marker_frames [simp]:
  "posts (with_flag v s) = posts s" "s_context (with_flag v s) = s_context s"
  "posts (with_owner v s) = posts s" "s_context (with_owner v s) = s_context s"
  "posts (with_sign_in v s) = posts s" "s_context (with_sign_in v s) = s_context s"
  "posts (with_deletion v s) = posts s" "s_context (with_deletion v s) = s_context s"
  by (simp_all add: with_flag_def with_owner_def with_sign_in_def with_deletion_def)

section \<open>The ways operations are composed\<close>

context session_relation
begin

lemma same: "R s False s"
  by (rule frame) simp_all

lemma moves_run [moves_intros]:
  "moves R (ret a)" "moves R (run r)" "moves R (asks f)" "moves R (run_with g)" "moves R (fail e)"
  by (auto simp: moves_def ret_def run_def asks_def run_with_def fail_def throw_def same split: sum.split)

lemma moves_bindw [moves_intros]:
  assumes "moves R m" "\<And>a. moves R (f a)"
  shows "moves R (bindw m f)"
  unfolding moves_def
proof
  fix s
  obtain r t where m: "m s = (r, t)" by (metis surj_pair)
  note mR = movesD[OF assms(1) m]
  show "R s (fst (bindw m f s) = Inl Hangs) (snd (bindw m f s))"
  proof (cases r)
    case (Inl e)
    with m mR show ?thesis by (simp add: bindw_def)
  next
    case (Inr a)
    with mR have "R s False t" by simp
    moreover have "R t (fst (f a t) = Inl Hangs) (snd (f a t))" using assms(2) by (simp add: moves_def)
    ultimately show ?thesis using m Inr by (simp add: bindw_def trans)
  qed
qed

lemma moves_modify [moves_intros]:
  "(\<And>s. posts (f s) = posts s) \<Longrightarrow> (\<And>s. s_context (f s) = s_context s) \<Longrightarrow> moves R (modify f)"
  by (simp add: moves_def modify_def frame)

lemma moves_calls [moves_intros]: "list_all (\<lambda>c. \<not> is_post c) cs \<Longrightarrow> moves R (calls cs)"
  unfolding calls_def by (rule moves_modify) (simp_all add: posts_def filter_empty_conv list_all_iff)

lemma moves_handling [moves_intros]:
  assumes "moves R m" "\<And>e. moves R (h e)"
  shows "moves R (handling m h)"
  unfolding moves_def
proof
  fix s
  obtain r t where m: "m s = (r, t)" by (metis surj_pair)
  note mR = movesD[OF assms(1) m]
  have "R t (fst (h e t) = Inl Hangs) (snd (h e t))" for e using assms(2) by (simp add: moves_def)
  with mR m show "R s (fst (handling m h s) = Inl Hangs) (snd (handling m h s))"
    by (auto simp: handling_def catch_def throw_def intro: trans split: sum.split stop.split)
qed

lemma moves_ensuring [moves_intros]:
  fixes m :: "'a act"
  assumes "moves R m" "moves R f"
  shows "moves R (ensuring m f)"
  unfolding moves_def
proof
  fix s
  obtain r t where m: "m s = (r, t)" by (metis surj_pair)
  note mR = movesD[OF assms(1) m]
  have fails: "moves R (bindw f (\<lambda>_. fail e :: 'a act))" and ends: "moves R (bindw f (\<lambda>_. ret a))" for e and a :: 'a
    by (intro moves_bindw assms moves_run)+
  have next1: "R t (fst (bindw f (\<lambda>_. fail e :: 'a act) t) = Inl Hangs) (snd (bindw f (\<lambda>_. fail e :: 'a act) t))"
      "R t (fst (bindw f (\<lambda>_. ret a) t) = Inl Hangs) (snd (bindw f (\<lambda>_. ret a) t))" for e and a :: 'a
    using fails[of e] ends[of a] by (simp_all add: moves_def)
  with mR m show "R s (fst (ensuring m f s) = Inl Hangs) (snd (ensuring m f s))"
    by (auto simp: ensuring_def fail_def intro: trans split: sum.split stop.split)
qed

lemma moves_each [moves_intros]: "(\<And>a. moves R (f a)) \<Longrightarrow> moves R (each f xs)"
  by (induction xs) (auto intro: moves_intros)

lemma moves_await [moves_intros]: "moves R await"
  by (auto simp: moves_def await_def intro!: frame split: list.split)

lemma moves_scope [moves_intros]: "moves R m \<Longrightarrow> moves R (under scope m)"
  by (auto simp: moves_def under_def split: option.split prod.split) (metis under fst_conv snd_conv)

lemma moves_transact_as [moves_intros]: "moves R (transact_as x current f)"
proof -
  have "moves R (\<lambda>s. case f ((x_env x s)\<lparr>e_current := current s\<rparr>) (s_db s) of (r, db) \<Rightarrow> (Inr r, s\<lparr>s_db := db\<rparr>))"
    by (auto simp: moves_def intro!: frame split: prod.split)
  then show ?thesis unfolding transact_as_def by (intro moves_intros)
qed

lemma moves_publish [moves_intros]:
  assumes "moves R m"
  shows "moves R (publish_scope m)" "moves R (publish_in m)"
proof -
  have *: "moves R (bindw (run_with (\<lambda>s. next_scope s (s_context s))) (\<lambda>(c, scope).
      bindw (modify (\<lambda>s. s\<lparr>s_context := c\<rparr>)) (\<lambda>_. ret scope)))"
    by (auto simp: moves_def bindw_def run_with_def run_def modify_def ret_def intro: same publish split: sum.split)
  show "moves R (publish_scope m)"
    unfolding publish_scope_def assert_now_def by (rule moves_bindw[OF moves_run(4)], rule moves_bindw[OF assms], rule *)
  then show "moves R (publish_in m)" unfolding publish_in_def by (intro moves_bindw moves_run)
qed

section \<open>The parts of the modules\<close>

lemma moves_state [moves_intros]:
  "moves R (put_field k v)" "moves R (field k)" "moves R assert_now" "moves R current_now" "moves R (transact x f)"
  "moves R (reading g)" "moves R owner_now" "moves R (set_in_flight ids)" "moves R (set_page p)" "moves R user_owner"
  unfolding put_field_def field_def assert_now_def current_now_def transact_def reading_def owner_now_def
    set_in_flight_def set_page_def user_owner_def
  by (intro moves_intros; simp)+

lemma moves_put_each [moves_intros]: "moves R (put_each fs)"
  unfolding put_each_def by (intro moves_intros)

lemma moves_revalidation [moves_intros]:
  "moves R close_stream" "moves R revalidate_session" "moves R queue_session_revalidation" "moves R (effects es)"
  unfolding queue_session_revalidation_def revalidate_session_def close_stream_def effects_def
  by (intro moves_intros; simp)+

lemma moves_account [moves_intros]: "moves R account_mismatch" "moves R (expect_account v)"
  unfolding account_mismatch_def expect_account_def by (intro moves_intros; simp)+

lemma moves_rebuild [moves_intros]: "moves R (rebuild x)" "moves R (clock_now x)" "moves R (continuity_now x)"
  unfolding rebuild_def clock_now_def continuity_now_def by (intro moves_intros; simp)+

lemma moves_failures [moves_intros]: "moves R (storage_failure e)" "moves R (rethrow_ownership e)"
  unfolding storage_failure_def rethrow_ownership_def by (intro moves_intros; simp)+

lemma moves_display [moves_intros]:
  "moves R (assert_display_context x v)" "moves R (validate_persisted_display_context x)"
  "moves R (reload_persisted_state x w b)"
  unfolding validate_persisted_display_context_def reload_persisted_state_def install_persisted_state_def
    assert_display_context_def block_display_def
  by (intro moves_intros; simp)+

lemma moves_commit [moves_intros]:
  "moves R (record_recovery e)" "moves R (commit_workspace x extra)" "moves R (persist_workspace_intent x intent options)"
  "moves R (persist_workspace_completion x stage timer)"
  unfolding record_recovery_def commit_workspace_def persist_workspace_intent_def persist_workspace_completion_def
    mutation_input_def
  by (intro moves_intros; simp)+

lemma moves_markers [moves_intros]:
  "moves R (stored f)" "(\<And>v s. posts (g v s) = posts s) \<Longrightarrow> (\<And>v s. s_context (g v s) = s_context s) \<Longrightarrow> moves R (unstore g)"
  "(\<And>v s. posts (g v s) = posts s) \<Longrightarrow> (\<And>v s. s_context (g v s) = s_context s) \<Longrightarrow> moves R (store x key g w)"
  "moves R (report_logout_marker_failure e)" "moves R (report_deletion_marker_failure e)" "moves R (forget_failures kind)"
  unfolding stored_def unstore_def store_def report_logout_marker_failure_def report_deletion_marker_failure_def
    report_marker_failure_def forget_failures_def
  by (intro moves_intros; simp)+

lemma moves_logout_markers [moves_intros]:
  "moves R (mark_pending_logout x)" "moves R clear_pending_logout" "moves R (pending_sign_in_token x)"
  "moves R (completed_sign_in_landing x)" "moves R (write_pending_deletion_attempt x a)"
  unfolding mark_pending_logout_def clear_pending_logout_def pending_sign_in_token_def completed_sign_in_landing_def
    write_pending_deletion_attempt_def
  by (intro moves_intros; simp)+

lemma moves_redirect [moves_intros]: "moves R (redirect_to_login x)"
  unfolding redirect_to_login_def by (intro moves_intros; simp)

lemma moves_connection [moves_intros]:
  "moves R (set_connection n)" "moves R (open_database x)"
  unfolding set_connection_def open_database_def by (intro moves_intros; simp)+

lemma moves_cleanup [moves_intros]:
  "moves R (clear_all x i)" "moves R (confirm_cleanup_already_complete x i)" "moves R (open_cleanup_database x i)"
  "moves R (cleared_or_confirmed x i)" "moves R (cleanup_failed i n e)" "moves R (clear_opened_data x i)"
  "moves R (clear_authorized_local_data x i)" "moves R (clear_local_data x i)"
  unfolding clear_local_data_def clear_authorized_local_data_def clear_opened_data_def cleanup_failed_def
    cleared_or_confirmed_def open_cleanup_database_def confirm_cleanup_already_complete_def clear_all_def
  by (intro moves_intros; simp)+

lemma moves_restart [moves_intros]:
  "moves R (refresh_migrated_preferences x migrated)" "moves R (migrate_after_restart x)"
  "moves R (restart_bootstrap_for_current_account x)"
  unfolding restart_bootstrap_for_current_account_def migrate_after_restart_def refresh_migrated_preferences_def
  by (intro moves_intros; simp)+

lemma moves_pending_logout [moves_intros]:
  "moves R (clear_pending_logout_data x i)" "moves R (then_scope scope m)" if "moves R m" for m
  using that unfolding clear_pending_logout_data_def then_scope_def by (intro moves_intros; simp)+

lemma moves_settle [moves_intros]: "moves R (settle_pending_logout_locally x i)" "moves R (signed_out x identity)"
  unfolding settle_pending_logout_locally_def signed_out_def
  by (intro moves_intros moves_pending_logout[OF moves_run(1)]; simp)+

lemma moves_fetch [moves_intros]:
  "moves R read_session_binding" "moves R (validate_session_binding binding n)" "moves R next_session_request"
  "moves R (fetch_url x url headers body)" "moves R (response_json r)"
  unfolding read_session_binding_def validate_session_binding_def next_session_request_def fetch_url_def response_json_def
  by (intro moves_intros; simp add: posts_def)+

lemma moves_session_payload [moves_intros]:
  "moves R (fetch_session_payload x)" "moves R (close_stream_for_identity_change v)" "moves R (apply_session_payload answer)"
  unfolding fetch_session_payload_def close_stream_for_identity_change_def apply_session_payload_def
  by (intro moves_intros; simp)+

lemma moves_refresh [moves_intros]: "moves R (hand_over x source answer)" "moves R (refresh_mutation_csrf x expected)"
  unfolding hand_over_def refresh_mutation_csrf_def by (intro moves_intros; simp)+

end

section \<open>Waiting for the action lock\<close>

lemma unlocked_after_frame:
  "unlocked_after fs s = Some t \<Longrightarrow> posts t = posts s \<and> s_context t = s_context s"
  by (induction fs arbitrary: s) (auto split: if_splits)

lemma unlocked_after_stuck:
  assumes "unlocked_after fs s = None"
  shows "locked (foldl (\<lambda>s f. with_shared (f (shared_of s)) s) s (take n fs))"
  using assms by (induction fs arbitrary: s n) (auto simp: locked_def take_Cons split: if_splits nat.split)

lemma unlocked_stuck: "unlocked_after (s_others s) s = None \<Longrightarrow> stuck s"
  by (simp add: stuck_def after_others_def unlocked_after_stuck)

context waiting_relation
begin

lemma moves_wait [moves_intros]: "moves R wait_unlocked"
  using unlocked_stuck unlocked_after_frame
  by (auto simp: moves_def wait_unlocked_def intro: wait frame split: option.split)

lemma moves_accept [moves_intros]: "moves R (accept_sync_response x payload sent expected timing captured)"
  unfolding accept_sync_response_def response_input_def rebase_failed_def note_conflict_def
  by (intro moves_intros; simp)

end

section \<open>Sending\<close>

context session_relation
begin

lemma moves_require [moves_intros]: "moves R (require c (Throws e))"
  by (simp add: moves_def require_def same)

lemma moves_post_parts [moves_intros]:
  "moves R (check_current (mutation_post x url body headers token expected))"
  "moves R (p_sequence (mutation_post x url body headers token expected))"
  "moves R (p_now (mutation_post x url body headers token expected))"
  "moves R (report_timing (mutation_post x url body headers token expected) t)"
  "moves R (p_refresh (mutation_post x url body headers token expected))"
  "moves R (require c (p_throw (mutation_post x url body headers token expected) e))"
  unfolding check_current_def report_timing_def mutation_post_def next_request_sequence_def post_input.simps option.case
  by (intro moves_intros; simp)+

end

context sending_relation
begin

lemma moves_send [moves_intros]: "moves R (modify (\<lambda>s. s\<lparr>s_calls := s_calls s @ f s\<rparr>))"
  by (simp add: moves_def modify_def send)

lemma moves_fetch_checked [moves_intros]: "moves R (fetch_checked x url headers body)"
  unfolding fetch_checked_def by (intro moves_intros; simp)

lemma moves_sending_parts [moves_intros]:
  "moves R (p_fetch (mutation_post x url body headers token expected) u h b)"
  unfolding mutation_post_def by (simp add: moves_fetch_checked)

lemma moves_post_mutation [moves_intros]: "moves R (post_mutation x url body expected)"
  unfolding post_mutation_def post_json_with_csrf_retry_def Transport.send_def
  by (intro moves_intros; simp)

end

context syncing_relation
begin

lemma moves_submit [moves_intros]: "moves R (submit_sync_batch x sent expected captured)"
  unfolding submit_sync_batch_def by (intro moves_intros; simp)

end

section \<open>Synchronizing\<close>

context session_relation
begin

lemma moves_perform_parts [moves_intros]:
  "moves R (record_unsendable_claim x status claim)" "moves R (claim_batch x)" "moves R (install_claim x k)"
  "moves R (sync_failure e)" "moves R sync_finished" "moves R (defer_sync operation e)"
  "moves R (block_sync_for_bootstrap resolution)"
  unfolding record_unsendable_claim_def claim_batch_def install_claim_def sync_failure_def report_sync_error_def
    sync_finished_def defer_sync_def block_sync_for_bootstrap_def
  by (intro moves_intros; simp)+

lemma moves_preflight [moves_intros]:
  "moves R (refresh_all_pending_operations x)" "moves R (refresh_for_sync x)" "moves R gate_free" "moves R (sync_preflight x force)"
  unfolding sync_preflight_def gate_free_def refresh_for_sync_def refresh_all_pending_operations_def
  by (intro moves_intros; simp)+

end

context syncing_relation
begin

lemma moves_sync [moves_intros]:
  "moves R (claim_and_submit x)" "moves R (perform_sync x)" "moves R (run_sync x force)"
  unfolding run_sync_def perform_sync_def claim_and_submit_def by (intro moves_intros; simp)+

end

section \<open>Acting\<close>

lemma browser_effect_silent: "browser_effect e = Inr cs \<Longrightarrow> list_all (\<lambda>c. \<not> is_post c) cs"
  unfolding browser_effect_def bindr_Inr_iff by (elim exE conjE) (simp only: split: if_split_asm; clarsimp)

lemma bindw_run_cases: "bindw (run r) f = (case r of Inl e \<Rightarrow> fail e | Inr a \<Rightarrow> f a)"
  by (auto simp: bindw_def run_def fail_def throw_def split: sum.split)

context session_relation
begin

lemma moves_intent_parts [moves_intros]:
  "moves R (notice m)" "moves R (execute_workspace_effects es)" "moves R (selected_task_retarget_missing x task)"
  "moves R (noop_outcome x intent)" "moves R (intent_committed x intent plan)" "moves R (intent_failed x operation e)"
  "moves R controls_closed" "moves R (expected_or_now v)" "moves R (shared_task_identity x title)" "moves R (identity_failed x e)"
proof -
  have browser: "moves R (bindw (run (browser_effect e)) calls)" for e
    unfolding bindw_run_cases by (auto intro: moves_run moves_calls browser_effect_silent split: sum.split)
  show "moves R (notice m)" "moves R (execute_workspace_effects es)" "moves R (selected_task_retarget_missing x task)"
    "moves R (noop_outcome x intent)" "moves R (intent_committed x intent plan)" "moves R (intent_failed x operation e)"
    "moves R controls_closed" "moves R (expected_or_now v)" "moves R (shared_task_identity x title)" "moves R (identity_failed x e)"
    unfolding noop_outcome_def intent_committed_def intent_failed_def execute_workspace_effects_def notice_def
      selected_task_retarget_missing_def controls_closed_def expected_or_now_def shared_task_identity_def identity_failed_def
    by (intro browser moves_intros; simp)+
qed

lemma moves_lock [moves_intros]: "moves R m \<Longrightarrow> moves R (with_action_lock m)"
  unfolding with_action_lock_def by (intro moves_intros)

lemma moves_finish_parts [moves_intros]:
  "moves R (schedule_completion_retry x i outcome)" "moves R (finish_committed x automatic timer plan)"
  "moves R (finish_failed x e)" "moves R (heartbeat_failed e)" "moves R (heartbeat_timer_ownership x)"
  unfolding schedule_completion_retry_def finish_committed_def finish_failed_def heartbeat_failed_def heartbeat_timer_ownership_def
  by (intro moves_intros; simp)+

end

context capturing_relation
begin

lemma moves_capture [moves_intros]: "moves R capture_now"
proof -
  have "moves R (modify (\<lambda>s. s\<lparr>s_context := c\<rparr>))" for c by (simp add: moves_def modify_def capture)
  then show ?thesis unfolding capture_now_def by (intro moves_bindw moves_run)
qed

lemma moves_intent [moves_intros]: "moves R (issue_workspace_intent x bound intent options operation)"
  unfolding issue_workspace_intent_def by (intro moves_intros; simp)

lemma moves_actions [moves_intros]:
  "moves R (add_task x title)" "moves R (issue_task_operation x kind task expected)" "moves R (issue_command x command)"
  "moves R (issue_phase_selection x phase)" "moves R (issue_skip x)" "moves R (cancel_and_clear_timer x)"
  "moves R (issue_duration_operation x phase ms)" "moves R (finish_timer x automatic expected)"
  unfolding add_task_def issue_task_operation_def issue_command_def issue_phase_selection_def issue_skip_def
    cancel_and_clear_timer_def issue_duration_operation_def finish_timer_def
  by (intro moves_intros; simp)+

end

context acting_relation
begin

lemma moves_waiting_actions [moves_intros]:
  "moves R (issue_when_unlocked x expected intent operation)" "moves R (persist_settings x)"
  unfolding issue_when_unlocked_def persist_settings_def by (intro moves_intros; simp)+

end

section \<open>The relations\<close>

definition owner_of :: "session \<Rightarrow> jv" where
  "owner_of s = i_owner (o_identity (s_context s))"

definition sends_nothing :: "session \<Rightarrow> bool \<Rightarrow> session \<Rightarrow> bool" where
  "sends_nothing s hung t \<longleftrightarrow> posts t = posts s"

definition keeps_owner :: "session \<Rightarrow> bool \<Rightarrow> session \<Rightarrow> bool" where
  "keeps_owner s hung t \<longleftrightarrow> (truthy (owner_of s) \<longrightarrow> owner_of t = owner_of s)"

definition hangs_stuck :: "session \<Rightarrow> bool \<Rightarrow> session \<Rightarrow> bool" where
  "hangs_stuck s hung t \<longleftrightarrow> (hung \<longrightarrow> stuck t)"

definition never_hangs :: "session \<Rightarrow> bool \<Rightarrow> session \<Rightarrow> bool" where
  "never_hangs s hung t \<longleftrightarrow> \<not> hung"

lemma after_others_context: "after_others n (s\<lparr>s_context := c\<rparr>) = (after_others n s)\<lparr>s_context := c\<rparr>"
proof -
  have "with_shared (f (shared_of (s\<lparr>s_context := c\<rparr>))) (s\<lparr>s_context := c\<rparr>)
      = (with_shared (f (shared_of s)) s)\<lparr>s_context := c\<rparr>" for f s
    by (simp add: with_shared_def shared_of_def)
  then have "foldl (\<lambda>s f. with_shared (f (shared_of s)) s) (s\<lparr>s_context := c\<rparr>) fs
      = (foldl (\<lambda>s f. with_shared (f (shared_of s)) s) s fs)\<lparr>s_context := c\<rparr>" for fs
    by (induction fs arbitrary: s) simp_all
  then show ?thesis by (simp add: after_others_def)
qed

lemma stuck_context [simp]: "stuck (s\<lparr>s_context := c\<rparr>) \<longleftrightarrow> stuck s"
  by (simp add: stuck_def after_others_context locked_def tab_state_def)

lemma next_scope_owner:
  assumes "next_scope s c = Inr (c', scope)" "truthy (i_owner (o_identity c))"
  shows "i_owner (o_identity c') = i_owner (o_identity c)"
  using assms
  by (auto simp: next_scope_def next_context_def bindr_Inr_iff plain_context_def in_context_def Let_def
      split: if_splits prod.splits dest: strict_eq_imp_eq)

interpretation silent: acting_relation sends_nothing
  by unfold_locales (simp_all add: sends_nothing_def)

interpretation owned: syncing_relation keeps_owner
  by unfold_locales (auto simp: keeps_owner_def owner_of_def dest: next_scope_owner)

interpretation lock_acting: acting_relation hangs_stuck
  by unfold_locales (auto simp: hangs_stuck_def)

interpretation lock_syncing: syncing_relation hangs_stuck
  by unfold_locales (auto simp: hangs_stuck_def)

interpretation return_acting: capturing_relation never_hangs
  by unfold_locales (auto simp: never_hangs_def)

interpretation return_sending: sending_relation never_hangs
  by unfold_locales (auto simp: never_hangs_def)

end
