(* ===== verification/TabStream.thy ===== *)
theory TabStream
  imports TabPerform
begin

text \<open>
  The revision stream of a tab (\<open>RevisionStream\<close> of \<open>web/app-session.js\<close>) and what its messages
  start (\<open>receiveRevisionHint\<close> of \<open>web/app-sync.js\<close>). A stream belongs to the context it was opened
  under: a message of it counts only while that context is current and the stream is still the
  open one, which the browser's reference to it decides.
\<close>

section \<open>Opening\<close>

definition stream_due :: "outside \<Rightarrow> session \<Rightarrow> bool res" where
  "stream_due x s = (let st = tab_state s in
     if \<not> truthy (fld st ''sessionIdentityValidated'') \<or> \<not> truthy (fld st ''authenticated'') then Inr False
     else bindr (needs_bootstrap st) (\<lambda>blocked.
       Inr (\<not> blocked \<and> x_online x s \<and> g_stream (s_page s) = None)))"

definition close_ended_stream :: "unit act" where
  "close_ended_stream =
     bindw (run_with (\<lambda>s. case g_stream (s_page s) of None \<Rightarrow> Inr True | Some c \<Rightarrow> context_current s c)) (\<lambda>current.
     if current then ret () else close_stream)"

definition open_revision_stream :: "outside \<Rightarrow> unit act" where
  "open_revision_stream x =
     bindw current_now (\<lambda>current.
     if \<not> current then ret ()
     else bindw close_ended_stream (\<lambda>_.
       bindw (run_with (stream_due x)) (\<lambda>due.
       if \<not> due then ret ()
       else bindw (modify (\<lambda>s. s\<lparr>s_page := (s_page s)\<lparr>g_stream := Some (s_context s)\<rparr>\<rparr>)) (\<lambda>_.
         calls [OpenStream]))))"

section \<open>Messages\<close>

text \<open>The revision of a message, as JSON or as plain text; \<open>Null\<close> if it is no number.\<close>

definition hinted_revision :: "jv \<Rightarrow> jv" where
  "hinted_revision message =
     (let n = (case json_parse message of
        Inl _ \<Rightarrow> to_number message
      | Inr payload \<Rightarrow> if nullish payload then to_number message
          else to_number (coalesce (getp payload ''revision'') payload)) in
      case n of JInt _ \<Rightarrow> Num n | JFrac _ \<Rightarrow> Num n | _ \<Rightarrow> Null)"

definition receive_revision_hint :: "jv \<Rightarrow> unit act" where
  "receive_revision_hint revision =
     bindw (field ''revision'') (\<lambda>known.
     if revision = Null \<or> num_less (to_number known) (to_number revision) then calls [SyncLater True] else ret ())"

definition stream_message :: "bool \<Rightarrow> jv \<Rightarrow> unit act" where
  "stream_message open_one message =
     (if \<not> open_one then ret ()
      else bindw current_now (\<lambda>current.
        if \<not> current then ret () else receive_revision_hint (hinted_revision message)))"

definition stream_error :: "outside \<Rightarrow> bool \<Rightarrow> unit act" where
  "stream_error x open_one =
     (if \<not> open_one then ret ()
      else bindw current_now (\<lambda>current.
        if \<not> current then ret ()
        else bindw (calls [Reported ''session.stream.error'']) (\<lambda>_.
          bindw (asks (x_online x)) (\<lambda>online. if online then ret () else close_stream))))"

text \<open>
  The timer that asks the server even without a stream. The forced synchronization it starts, and
  does not wait for, is the same call as that of a hint.
\<close>

definition poll_remote_state :: "outside \<Rightarrow> bool act" where
  "poll_remote_state x =
     bindw (run_with (sync_ready x)) (\<lambda>due.
     if \<not> due then ret False else bindw (calls [SyncLater True]) (\<lambda>_. ret True))"

text \<open>Evaluation runs an operation only when it is given its session.\<close>

lemmas tab_stream_code [code] =
  close_ended_stream_def[THEN fun_cong] open_revision_stream_def[THEN fun_cong]
  receive_revision_hint_def[THEN fun_cong] stream_message_def[THEN fun_cong] stream_error_def[THEN fun_cong]
  poll_remote_state_def[THEN fun_cong]

end
