(* ===== verification/TabResolve.thy ===== *)
theory TabResolve
  imports TabStream
begin

text \<open>
  The resolution of two histories in a tab (\<open>web/app-bootstrap.js\<close>): the preview of the server's
  history, the plan the Core makes, the choice that is captured in the database, its submission
  and the answer, and the preparation that decides which of these is due. The choice is made by
  the user; the focus of the dialog is kept as the name of its element. An operation's context
  has the number \<open>s_number\<close>, by which a submission is known to be its own.
\<close>

section \<open>Preview\<close>

definition no_operations :: jv where
  "no_operations = queues_value (\<lambda>_. Arr [])"

definition load_bootstrap_preview :: "outside \<Rightarrow> jv act" where
  "load_bootstrap_preview x =
     bindw (next_request_sequence x) (\<lambda>sequence.
     bindw assert_now (\<lambda>_.
     bindw (asks (local_now x)) (\<lambda>request_at.
     bindw (run_with (\<lambda>s. account_headers (i_owner (o_identity (s_context s))))) (\<lambda>headers.
     bindw (fetch_url x ''/api/v1/bootstrap'' (map (\<lambda>(k, v). (k, Str v)) headers) Undef) (\<lambda>response.
     bindw (asks (local_now x)) (\<lambda>received_at.
     bindw assert_now (\<lambda>_.
     if r_status response = 401 then bindw (redirect_to_login x) (\<lambda>_. ret Undef)
     else if \<not> ok_status response then fail (status_text x ''bootstrap.failed'' ''Bootstrap failed'' response)
     else
       bindw (response_json response) (\<lambda>payload.
       bindw assert_now (\<lambda>_.
       bindw (run_with (\<lambda>s. assert_response_account payload (i_owner (o_identity (s_context s))))) (\<lambda>_.
       bindw (run (validate_canonical_response payload no_operations)) (\<lambda>_.
       bindw (run_with (\<lambda>s. clock_sample (call_workspace_core (x_env x s)) (fld (tab_state s) ''clockOffset'')
         (getp payload ''serverTime'') [(''requestAtMs'', request_at), (''receivedAtMs'', received_at),
           (''requestSequence'', sequence)])) (\<lambda>sample.
       bindw (asks context_fields) (\<lambda>input.
       bindw (transact x (\<lambda>env db. save_clock_offset env db sample input)) (\<lambda>clock.
       bindw assert_now (\<lambda>_.
       bindw (put_field ''clockOffset'' clock) (\<lambda>_. ret payload))))))))))))))))"

section \<open>Choosing\<close>

definition gate_changed :: js_error where
  "gate_changed = BootstrapGateError ''History resolution changed in another tab.''"

text \<open>Work of another owner needs the user's approval of the strategy that was planned.\<close>

definition ownership_approved :: "jv \<Rightarrow> obj \<Rightarrow> bool res" where
  "ownership_approved strategy st =
     (if \<not> truthy (fld st ''bootstrapOwnershipConfirmation'') then Inr True
      else if \<not> truthy (fld st ''bootstrapOwnershipApproved'') then Inr False
      else bindr (dot (fld st ''bootstrapPlan'') ''strategy'') (\<lambda>planned. Inr (strict_eq strategy planned)))"

definition persist_bootstrap_resolution :: "outside \<Rightarrow> jv \<Rightarrow> bool \<Rightarrow> jv act" where
  "persist_bootstrap_resolution x strategy replace =
     bindw assert_now (\<lambda>_.
     bindw (run_with (\<lambda>s. bindr (ownership_approved strategy (tab_state s)) (\<lambda>ok. ensure ok account_error))) (\<lambda>_.
     bindw (run (ensure (is_resolution_strategy strategy) gate_changed)) (\<lambda>_.
     bindw (validate_persisted_display_context x) (\<lambda>_.
     bindw assert_now (\<lambda>_.
     bindw (acquire_gate x) (\<lambda>(lease, migrated).
     bindw assert_now (\<lambda>_.
     bindw (run (ensure (g_acquired lease) (BootstrapGateError ''Another tab owns history resolution.''))) (\<lambda>_.
     bindw (refresh_migrated_preferences x migrated) (\<lambda>_.
     bindw assert_now (\<lambda>_.
     bindw user_owner (\<lambda>owner.
     bindw (run_with (\<lambda>s. dot (fld (tab_state s) ''bootstrapPreview'') ''revision'')) (\<lambda>revision.
     bindw (asks (\<lambda>s. ([(''userId'', owner), (''requestId'', Str (x_uuid x s 0)),
         (''deviceId'', fld (tab_state s) ''deviceId''), (''expectedRevision'', revision), (''strategy'', strategy)],
       context_fields s @ [(''replaceExisting'', Bool replace), (''gateToken'', fld (tab_state s) ''tabId'')]))) (\<lambda>(input, options).
     bindw (transact x (\<lambda>env db. capture_resolution env db input options)) (\<lambda>pending.
     bindw assert_now (\<lambda>_.
     bindw (modify (\<lambda>s. set_tab (assign (tab_state s)
       [(''bootstrapPending'', pending), (''bootstrapGatePersisted'', Bool True), (''bootstrapGateOwned'', Bool True),
        (''bootstrapStrategy'', strategy), (''bootstrapConflict'', Bool False), (''bootstrapError'', Null),
        (''bootstrapLimitError'', Null)]) s)) (\<lambda>_. ret pending))))))))))))))))"

text \<open>\<open>error.message\<close> of a limit, with the count as \<open>toLocaleString("en-US")\<close> groups it.\<close>

fun grouped :: "string \<Rightarrow> string" where
  "grouped (a # b # c # d # rest) = [a, b, c, CHR '',''] @ grouped (d # rest)"
| "grouped s = s"

definition count_text :: "jv \<Rightarrow> string" where
  "count_text v = (case v of Num (JInt i) \<Rightarrow> rev (grouped (rev (int_text i))) | _ \<Rightarrow> id_text v)"

definition limit_label :: "jv \<Rightarrow> string" where
  "limit_label v = (case map_of [(''commands'', ''timer commands''), (''taskOperations'', ''task operations''),
       (''durationOperations'', ''duration operations''), (''autoStartOperations'', ''auto-start operations''),
       (''selectedTaskOperations'', ''selected-task operations''), (''oversized'', ''operations'')] (id_text v) of
     None \<Rightarrow> ''undefined'' | Some label \<Rightarrow> label)"

definition limit_message :: "jv \<Rightarrow> jv \<Rightarrow> jv \<Rightarrow> string" where
  "limit_message kind n limit =
     (if kind = Str ''blocked_dependency''
      then ''Atomic history request waits for retained timer acknowledgements. No partial request was saved.''
      else ''Cannot upload '' @ count_text n @ '' queued '' @ limit_label kind @ ''; server limit is ''
        @ count_text limit @ ''. Keep Remote can discard local queued data without uploading it.'')"

definition handle_resolution_limit :: "js_error \<Rightarrow> bool act" where
  "handle_resolution_limit e = (case e of
     ResolutionLimitError kind n limit \<Rightarrow>
       bindw (modify (\<lambda>s. set_tab (assign (tab_state s)
         [(''bootstrapSubmitting'', Bool False), (''bootstrapError'', Null),
          (''bootstrapLimitError'', Str (limit_message kind n limit)), (''bootstrapSignOutError'', Null),
          (''bootstrapStrategy'', Null), (''bootstrapFocusTarget'', Str ''keep_remote'')]) s)) (\<lambda>_.
       bindw (calls [Render]) (\<lambda>_. ret True))
   | _ \<Rightarrow> ret False)"

section \<open>The answer to a resolution\<close>

definition ACK_SUCCESS :: "string list" where
  "ACK_SUCCESS = [''accepted'', ''acknowledged'', ''applied'', ''duplicate'', ''ok'']"

definition bootstrap_conflicts :: "(domain \<Rightarrow> acks) \<Rightarrow> jv list" where
  "bootstrap_conflicts validated =
     filter (\<lambda>a. let outcome = lower (id_text (getp a ''outcome'')) in
         outcome \<noteq> [] \<and> outcome \<notin> set ACK_SUCCESS \<and> outcome \<noteq> ''ignored'')
       (concat (map (\<lambda>d. ack_items (validated d)) DOMAINS))"

definition local_view :: "obj \<Rightarrow> obj" where
  "local_view st = (if truthy (fld st ''quarantinedLocal'') then as_obj (fld st ''quarantinedLocal'') else st)"

definition local_bootstrap_state :: "obj \<Rightarrow> obj" where
  "local_bootstrap_state st = (let local = local_view st in
     map (\<lambda>k. (k, fld local k)) [''history'', ''timer'', ''tasks'', ''durationsMs'', ''autoStartBreaks'', ''selectedTaskId'']
     @ [(''defaultDurationsMs'', DEFAULT_DURATIONS)] @ as_obj (current_queues local))"

record resolved =
  d_snapshot :: obj
  d_clock :: jv
  d_server_hlc :: jv
  d_hlc :: jv

definition bootstrap_response_state :: "outside \<Rightarrow> jv \<Rightarrow> jv \<Rightarrow> jv \<Rightarrow> session \<Rightarrow> resolved res" where
  "bootstrap_response_state x payload pending timing s =
     (let env = x_env x s; st = tab_state s; local = local_view st in
     bindr (reconcile_resolution_state env
       [(''queues'', current_queues local), (''pendingResolution'', pending), (''response'', payload),
        (''deviceId'', getp (getp pending ''payload'') ''deviceId''),
        (''deliveryProof'', or_else (fld local ''deliveryProof'') Null)]) (\<lambda>applied.
     let revision = to_number (fld applied ''revision'') in
     bindr (ensure ((case revision of JInt _ \<Rightarrow> True | JFrac _ \<Rightarrow> True | _ \<Rightarrow> False) \<and> \<not> num_less revision (JInt 0))
       (Error (tr (x_catalog x) ''bootstrap.missingRevision'' [] ''Bootstrap response omitted revision.''))) (\<lambda>_.
     bindr (response_clock_offset env st payload timing True) (\<lambda>clock.
     bindr (merge_server_hlc env st (getp payload ''serverHlcWallMs'') (getp payload ''serverHlcCounter'') clock) (\<lambda>hlc.
     Inr \<lparr>d_snapshot =
         [(''revision'', Num revision), (''serverTime'', getp payload ''serverTime''),
          (''canonicalTimer'', clone_value (fld applied ''baseTimer'')),
          (''history'', clone_value (fld applied ''baseHistory'')), (''tasks'', clone_value (fld applied ''baseTasks'')),
          (''durationsMs'', clone_value (clone_value (fld applied ''baseDurationsMs''))),
          (''autoStartBreaks'', fld applied ''baseAutoStartBreaks''),
          (''selectedTaskId'', fld applied ''baseSelectedTaskId''), (''user'', clone_value (fld st ''user''))],
       d_clock = clock,
       d_server_hlc = Obj [(''wallMs'', Num (to_number (getp payload ''serverHlcWallMs''))),
         (''counter'', Num (to_number (getp payload ''serverHlcCounter'')))],
       d_hlc = hlc\<rparr>)))))"

definition reset_bootstrap_state :: "unit act" where
  "reset_bootstrap_state =
     bindw user_owner (\<lambda>owner.
     bindw (modify (\<lambda>s. set_tab (assign (tab_state s)
       [(''bootstrapOwnershipConfirmation'', Bool False), (''bootstrapOwnershipApproved'', Bool False),
        (''localOwnerId'', owner), (''bootstrapPending'', Null), (''bootstrapPreview'', Null), (''bootstrapPlan'', Null),
        (''bootstrapStrategy'', Null), (''bootstrapError'', Null), (''bootstrapConflict'', Bool False),
        (''bootstrapBlocked'', Bool False), (''bootstrapLimitError'', Null), (''bootstrapGatePersisted'', Bool False),
        (''bootstrapGateOwned'', Bool False), (''quarantinedLocal'', Null), (''retrying'', Bool False)]) s)) (\<lambda>_.
     calls [ResetRetry]))"

definition resolution_apply_input :: "outside \<Rightarrow> jv \<Rightarrow> jv \<Rightarrow> resolved \<Rightarrow> session \<Rightarrow> obj" where
  "resolution_apply_input x payload pending next s =
     [(''snapshot'', Obj (d_snapshot next)), (''hlc'', d_hlc next), (''serverHlc'', d_server_hlc next),
      (''clockOffset'', d_clock next),
      (''timerOwnerClaim'', Obj [(''deviceId'', fld (tab_state s) ''deviceId''), (''tabId'', fld (tab_state s) ''tabId''),
        (''nowMs'', local_now x s), (''leaseMs'', jint TIMER_OWNER_LEASE_MS)]),
      (''reconciliation'', Obj [(''sent'', getp pending ''payload''), (''response'', payload),
        (''deviceId'', getp (getp pending ''payload'') ''deviceId'')])]"

definition apply_bootstrap_response :: "outside \<Rightarrow> jv \<Rightarrow> jv \<Rightarrow> jv \<Rightarrow> (domain \<Rightarrow> acks) \<Rightarrow> unit act" where
  "apply_bootstrap_response x payload pending timing validated =
     bindw (run_with (bootstrap_response_state x payload pending timing)) (\<lambda>next.
     bindw (asks (resolution_apply_input x payload pending next)) (\<lambda>input.
     bindw (transact x (\<lambda>env db. apply_resolution env db
       (Obj (obj_put ''queueIds'' (or_else (getp pending ''queueIds'') no_operations) (as_obj pending))) input)) (\<lambda>outcome.
     bindw assert_now (\<lambda>_.
     bindw (reload_persisted_state x None False) (\<lambda>_.
     bindw assert_now (\<lambda>_.
     bindw reset_bootstrap_state (\<lambda>_.
     case bootstrap_conflicts validated of
       [] \<Rightarrow> ret ()
     | c # _ \<Rightarrow> if \<not> ro_applied outcome then ret ()
         else put_field ''conflict'' (or_else (getp c ''reason'') (Str (''Operation outcome: '' @ id_text (getp c ''outcome'')))))))))))"

definition accept_bootstrap_response :: "outside \<Rightarrow> jv \<Rightarrow> jv \<Rightarrow> jv \<Rightarrow> unit act" where
  "accept_bootstrap_response x payload pending timing =
     bindw assert_now (\<lambda>_.
     bindw (run_with (\<lambda>s. ensure (strict_eq (i_owner (o_identity (s_context s))) (getp pending ''userId'')) account_error)) (\<lambda>_.
     bindw (run (assert_response_account payload (getp pending ''userId''))) (\<lambda>_.
     bindw (run (validate_canonical_response payload (getp pending ''payload''))) (\<lambda>validated.
     bindw wait_unlocked (\<lambda>_.
     bindw assert_now (\<lambda>_.
     bindw (put_field ''actionLocked'' (Bool True)) (\<lambda>_.
     bindw (ensuring (apply_bootstrap_response x payload pending timing validated)
       (put_field ''actionLocked'' (Bool False))) (\<lambda>_.
     bindw assert_now (\<lambda>_.
     bindw (calls [Render]) (\<lambda>_.
     bindw assert_now (\<lambda>_.
     bindw (open_revision_stream x) (\<lambda>_.
     bindw (asks (\<lambda>s. has_pending_operations (tab_state s))) (\<lambda>pending.
     if pending then calls [SyncLater False] else ret ())))))))))))))"

section \<open>Submitting\<close>

definition validate_bootstrap_submission :: "outside \<Rightarrow> jv \<Rightarrow> jv act" where
  "validate_bootstrap_submission x pending =
     bindw assert_now (\<lambda>_.
     bindw (field ''bootstrapGateOwned'') (\<lambda>owned.
     bindw (if \<not> truthy owned then ret pending
       else
         bindw (asks (\<lambda>s. context_fields s @ [(''gateToken'', fld (tab_state s) ''tabId''),
           (''replacementRequestId'', Str (x_uuid x s 0))])) (\<lambda>input.
         bindw (transact x (\<lambda>env db. normalize_legacy_duration_operations env db input)) (\<lambda>(_, resolution).
         bindw assert_now (\<lambda>_.
         bindw (put_field ''bootstrapPending'' (or_else resolution pending)) (\<lambda>_.
         ret (or_else resolution pending)))))) (\<lambda>current.
     bindw user_owner (\<lambda>owner.
     bindw (asks (\<lambda>s. spread (context_fields s)
       [(''pending'', current), (''currentUserId'', owner), (''gateToken'', fld (tab_state s) ''tabId''),
        (''nowMs'', local_now x s), (''leaseMs'', jint BOOTSTRAP_LEASE_MS)])) (\<lambda>input.
     bindw (transact x (\<lambda>env db. validate_pending_for_send env db input)) (\<lambda>claimed.
     bindw assert_now (\<lambda>_.
     bindw (put_field ''bootstrapPending'' claimed) (\<lambda>_. ret claimed))))))))"

text \<open>\<open>queueBootstrapPreparation\<close>; the preparation it defers is \<open>deferred_preparation\<close>.\<close>

definition queue_bootstrap_preparation :: "unit act" where
  "queue_bootstrap_preparation = bindw assert_now (\<lambda>_. calls [PrepareLater])"

definition recover_invalid_bootstrap_submission :: "outside \<Rightarrow> unit act" where
  "recover_invalid_bootstrap_submission x =
     bindw assert_now (\<lambda>_.
     bindw (reading read_bootstrap_state) (\<lambda>(_, resolution).
     bindw assert_now (\<lambda>_.
     bindw user_owner (\<lambda>owner.
     if \<not> pending_matches_user resolution owner then queue_session_revalidation
     else bindw (put_field ''bootstrapPending'' resolution) (\<lambda>_.
       bindw (put_field ''bootstrapGateOwned'' (Bool False)) (\<lambda>_. queue_bootstrap_preparation))))))"

definition resolution_conflict :: "jv \<Rightarrow> unit act" where
  "resolution_conflict conflict =
     (if getp conflict ''error'' = Str ''account incarnation changed'' then queue_session_revalidation
      else modify (\<lambda>s. set_tab (assign (tab_state s)
        [(''bootstrapConflict'', Bool True),
         (''bootstrapError'', Str (if getp conflict ''error'' = Str ''request ID conflict''
            then ''This resolution ID was already used. Retry with a fresh remote snapshot.''
            else ''Remote history changed before this choice was applied. Retry with the latest snapshot.'')),
         (''bootstrapFocusTarget'', Str ''bootstrapRetry'')]) s))"

definition send_bootstrap_resolution :: "outside \<Rightarrow> jv \<Rightarrow> unit act" where
  "send_bootstrap_resolution x pending =
     bindw assert_now (\<lambda>_.
     bindw (post_mutation x ''/api/v1/bootstrap/resolve'' (json_stringify (getp pending ''payload'')) (getp pending ''userId''))
       (\<lambda>(response, timing).
     bindw assert_now (\<lambda>_.
     if r_status response = 401 then redirect_to_login x
     else if r_status response = 409 then
       bindw (handling (response_json response) (\<lambda>_. ret (Obj []))) (\<lambda>conflict.
       bindw assert_now (\<lambda>_. resolution_conflict conflict))
     else if \<not> ok_status response
     then fail (status_text x ''bootstrap.resolutionFailed'' ''History resolution failed'' response)
     else
       bindw (response_json response) (\<lambda>payload.
       bindw assert_now (\<lambda>_.
       bindw (accept_bootstrap_response x payload pending timing) (\<lambda>_. assert_now))))))"

definition submission_active :: "session \<Rightarrow> bool res" where
  "submission_active s =
     (if \<not> truthy (fld (tab_state s) ''bootstrapSubmitting'') then Inr False
      else case g_submission (s_page s) of
        None \<Rightarrow> Inr True
      | Some (n, c) \<Rightarrow> context_current s (if n = s_number s then s_context s else c))"

definition begin_submission :: "unit act" where
  "begin_submission =
     bindw (modify (\<lambda>s. s\<lparr>s_page := (s_page s)\<lparr>g_submission := Some (s_number s, s_context s)\<rparr>\<rparr>)) (\<lambda>_.
     put_field ''bootstrapSubmitting'' (Bool True))"

text \<open>Messages that say the request may have been delivered, or cannot be sent: the user decides.\<close>

definition undecided_delivery :: "js_error \<Rightarrow> bool" where
  "undecided_delivery e \<longleftrightarrow> list_ex (\<lambda>needle. contains needle (lower (message_of e)))
     [''possibly delivered'', ''exceeds core limits'', ''cannot be rewritten'', ''non-delivery evidence'']"

definition bootstrap_failure :: "string \<Rightarrow> unit act" where
  "bootstrap_failure message =
     bindw (put_field ''bootstrapError'' (Str message)) (\<lambda>_.
     put_field ''bootstrapFocusTarget'' (Str ''bootstrapRetry''))"

definition validation_failed :: "outside \<Rightarrow> js_error \<Rightarrow> jv option act" where
  "validation_failed x e =
     bindw current_now (\<lambda>current.
     if \<not> current then ret None
     else if undecided_delivery e
     then bindw (bootstrap_failure (message_of e)) (\<lambda>_. bindw (calls [RenderDialog]) (\<lambda>_. ret None))
     else bindw (recover_invalid_bootstrap_submission x) (\<lambda>_. ret None))"

definition submission_failed :: "js_error \<Rightarrow> unit act" where
  "submission_failed e =
     bindw current_now (\<lambda>current.
     if \<not> current then ret ()
     else bindw user_owner (\<lambda>owner.
       bindw (field ''bootstrapPending'') (\<lambda>pending.
       if \<not> pending_matches_user pending owner
       then bindw (put_field ''bootstrapError'' Null) (\<lambda>_. queue_bootstrap_preparation)
       else bindw (bootstrap_failure ((if message_of e \<noteq> [] then message_of e else ''History resolution was interrupted.'')
           @ '' Retry sends the exact saved request.'')) (\<lambda>_.
         calls [Warned, Reported ''bootstrap.resolution.deferred'']))))"

definition submission_finished :: "unit act" where
  "submission_finished =
     bindw (asks (\<lambda>s. case g_submission (s_page s) of None \<Rightarrow> False | Some (n, _) \<Rightarrow> n = s_number s)) (\<lambda>own.
     if \<not> own then ret ()
     else bindw (set_page (\<lambda>g. g\<lparr>g_submission := None\<rparr>)) (\<lambda>_.
       bindw (put_field ''bootstrapSubmitting'' (Bool False)) (\<lambda>_.
       bindw current_now (\<lambda>current. if current then calls [Render] else ret ()))))"

definition submit_bootstrap_resolution :: "outside \<Rightarrow> unit act" where
  "submit_bootstrap_resolution x =
     bindw current_now (\<lambda>current.
     if \<not> current then ret ()
     else bindw (run_with submission_active) (\<lambda>active.
       bindw (field ''bootstrapPending'') (\<lambda>pending.
       bindw (asks (x_online x)) (\<lambda>online.
       if active \<or> \<not> truthy pending \<or> \<not> online then ret ()
       else bindw user_owner (\<lambda>owner.
         if \<not> pending_resolution_can_submit pending owner then queue_session_revalidation
         else bindw (handling
             (bindw (validate_bootstrap_submission x pending) (\<lambda>claimed. bindw assert_now (\<lambda>_. ret (Some claimed))))
             (validation_failed x)) (\<lambda>claimed. case claimed of
           None \<Rightarrow> ret ()
         | Some claimed \<Rightarrow>
             bindw begin_submission (\<lambda>_.
             bindw (put_field ''bootstrapError'' Null) (\<lambda>_.
             bindw (calls [RenderDialog]) (\<lambda>_.
             ensuring (handling (send_bootstrap_resolution x claimed) submission_failed) submission_finished)))))))))"

section \<open>The dialog\<close>

definition refetch_and_replace :: "outside \<Rightarrow> jv \<Rightarrow> unit act" where
  "refetch_and_replace x strategy =
     bindw begin_submission (\<lambda>_.
     bindw (calls [RenderDialog]) (\<lambda>_.
     bindw (load_bootstrap_preview x) (\<lambda>preview.
     bindw assert_now (\<lambda>_.
     bindw (put_field ''bootstrapPreview'' preview) (\<lambda>_.
     bindw (persist_bootstrap_resolution x strategy True) (\<lambda>_.
     bindw assert_now (\<lambda>_.
     bindw (put_field ''bootstrapSubmitting'' (Bool False)) (\<lambda>_.
     submit_bootstrap_resolution x))))))))"

definition retry_failed :: "js_error \<Rightarrow> unit act" where
  "retry_failed e =
     bindw current_now (\<lambda>current.
     if \<not> current then ret ()
     else bindw (handle_resolution_limit e) (\<lambda>limited.
       if limited then ret ()
       else bindw (calls [Reported ''bootstrap.retry.deferred'']) (\<lambda>_.
         bindw (put_field ''bootstrapSubmitting'' (Bool False)) (\<lambda>_.
         bindw (bootstrap_failure (if message_of e \<noteq> [] then message_of e else ''History resolution could not be retried.'')) (\<lambda>_.
         calls [RenderDialog])))))"

definition retry_bootstrap_resolution :: "outside \<Rightarrow> unit act" where
  "retry_bootstrap_resolution x =
     bindw current_now (\<lambda>current.
     if \<not> current then ret ()
     else bindw (run_with submission_active) (\<lambda>active.
       if active then ret ()
       else handling
         (bindw (asks tab_state) (\<lambda>st.
          if \<not> truthy (fld st ''bootstrapConflict'') then submit_bootstrap_resolution x
          else let strategy = or_else (fld st ''bootstrapStrategy'')
              (getp (getp (fld st ''bootstrapPending'') ''payload'') ''strategy'') in
            if \<not> is_resolution_strategy strategy then queue_session_revalidation
            else refetch_and_replace x strategy))
         retry_failed))"

definition choice_ignored :: "jv \<Rightarrow> session \<Rightarrow> bool res" where
  "choice_ignored strategy s = (let st = tab_state s in
     bindr (submission_active s) (\<lambda>active.
     Inr (active \<or> truthy (fld st ''bootstrapPending'')
       \<or> truthy (fld st ''bootstrapLimitError'') \<and> strategy \<noteq> Str ''keep_remote''
       \<or> truthy (fld st ''bootstrapOwnershipConfirmation'')
         \<and> \<not> strict_eq strategy (getp (fld st ''bootstrapPlan'') ''strategy''))))"

definition selection_mode :: "obj \<Rightarrow> jv" where
  "selection_mode st =
     (if truthy (fld st ''bootstrapLimitError'') \<or> truthy (fld st ''bootstrapOwnershipConfirmation'') then Str ''choose''
      else getp (fld st ''bootstrapPlan'') ''mode'')"

definition choice_failed :: "outside \<Rightarrow> js_error \<Rightarrow> bool act" where
  "choice_failed x e =
     bindw current_now (\<lambda>current.
     if \<not> current then ret False
     else bindw (handle_resolution_limit e) (\<lambda>limited.
       if limited then ret False
       else bindw (calls [Reported ''bootstrap.choice.deferred'',
           Notice (Str (if message_of e \<noteq> [] then message_of e
             else tr (x_catalog x) ''notice.historyChoiceFailed'' [] ''History choice could not be saved.''))]) (\<lambda>_.
         bindw (put_field ''bootstrapFocusTarget'' (Str ''bootstrapConfirm'')) (\<lambda>_.
         bindw (put_field ''bootstrapSubmitting'' (Bool False)) (\<lambda>_.
         bindw (calls [RenderDialog]) (\<lambda>_. ret False))))))"

definition choose_bootstrap_strategy :: "outside \<Rightarrow> jv \<Rightarrow> bool \<Rightarrow> unit act" where
  "choose_bootstrap_strategy x strategy confirmed =
     bindw capture_now (\<lambda>_.
     bindw assert_now (\<lambda>_.
     bindw (run_with (choice_ignored strategy)) (\<lambda>ignored.
     if ignored then ret ()
     else bindw (asks (\<lambda>s. selection_mode (tab_state s))) (\<lambda>mode.
       if \<not> can_submit_resolution mode (Bool confirmed) then
         bindw (put_field ''bootstrapStrategy'' strategy) (\<lambda>_.
         bindw (put_field ''bootstrapFocusTarget'' (Str ''bootstrapConfirm'')) (\<lambda>_. calls [RenderDialog]))
       else
         bindw (put_field ''bootstrapOwnershipApproved'' (Bool confirmed)) (\<lambda>_.
         bindw begin_submission (\<lambda>_.
         bindw (calls [RenderDialog]) (\<lambda>_.
         bindw (handling
           (bindw (persist_bootstrap_resolution x strategy False) (\<lambda>_. bindw assert_now (\<lambda>_. ret True)))
           (choice_failed x)) (\<lambda>saved.
         if \<not> saved then ret ()
         else bindw (put_field ''bootstrapSubmitting'' (Bool False)) (\<lambda>_. submit_bootstrap_resolution x)))))))))"

text \<open>Evaluation runs an operation only when it is given its session.\<close>

lemmas tab_resolve_code [code] =
  load_bootstrap_preview_def[THEN fun_cong] persist_bootstrap_resolution_def[THEN fun_cong]
  handle_resolution_limit_def[THEN fun_cong] reset_bootstrap_state_def[THEN fun_cong]
  apply_bootstrap_response_def[THEN fun_cong] accept_bootstrap_response_def[THEN fun_cong]
  validate_bootstrap_submission_def[THEN fun_cong] queue_bootstrap_preparation_def[THEN fun_cong]
  recover_invalid_bootstrap_submission_def[THEN fun_cong] resolution_conflict_def[THEN fun_cong]
  send_bootstrap_resolution_def[THEN fun_cong] begin_submission_def[THEN fun_cong]
  validation_failed_def[THEN fun_cong] submission_failed_def[THEN fun_cong]
  submission_finished_def[THEN fun_cong] submit_bootstrap_resolution_def[THEN fun_cong]
  refetch_and_replace_def[THEN fun_cong] retry_failed_def[THEN fun_cong]
  retry_bootstrap_resolution_def[THEN fun_cong] choice_failed_def[THEN fun_cong]
  choose_bootstrap_strategy_def[THEN fun_cong]

end
