(* ===== verification/TabPrepare.thy ===== *)
theory TabPrepare
  imports TabResolve
begin

text \<open>
  The preparation of a resolution in a tab (\<open>BootstrapPreparation\<close> of \<open>web/app-bootstrap.js\<close>):
  from the validation of the signed-in account to the gate, a saved request to be sent again, the
  plan for two histories, and either an automatic strategy or the question to the user. The code
  runs one preparation at a time and lets later callers wait for it; the definitions are the run
  that is started.
\<close>

section \<open>Back to normal synchronization\<close>

definition snapshot_owner :: "jv \<Rightarrow> jv res" where
  "snapshot_owner records = account_owner_id (getp (getp records ''snapshot'') ''user'')"

definition read_records :: "jv act" where
  "read_records = bindw (reading (\<lambda>db. Obj (read_sync_state db))) (\<lambda>records. bindw assert_now (\<lambda>_. ret records))"

definition resume_normal_sync_from_bootstrap :: "outside \<Rightarrow> jv \<Rightarrow> unit act" where
  "resume_normal_sync_from_bootstrap x persisted =
     bindw assert_now (\<lambda>_.
     bindw (reload_persisted_state x (Some persisted) False) (\<lambda>_.
     bindw assert_now (\<lambda>_.
     bindw (put_field ''quarantinedLocal'' Null) (\<lambda>_.
     bindw (asks (\<lambda>s. (fld (tab_state s) ''tabId'', context_fields s))) (\<lambda>(tab, input).
     bindw (transact x (\<lambda>env db. clear_bootstrap_gate env db tab input)) (\<lambda>_.
     bindw assert_now (\<lambda>_.
     bindw (modify (\<lambda>s. set_tab (assign (tab_state s)
       [(''bootstrapPending'', Null), (''bootstrapGatePersisted'', Bool False), (''bootstrapGateOwned'', Bool False),
        (''bootstrapBlocked'', Bool False), (''retrying'', Bool False)]) s)) (\<lambda>_.
     bindw (calls [Render]) (\<lambda>_.
     bindw (run_sync x True) (\<lambda>_.
     bindw assert_now (\<lambda>_. open_revision_stream x)))))))))))"

definition defer_bootstrap_preparation :: "unit act" where
  "defer_bootstrap_preparation =
     bindw assert_now (\<lambda>_. bindw (put_field ''retrying'' (Bool True)) (\<lambda>_. calls [RetryLater, Render]))"

section \<open>Steps of a preparation\<close>

definition bootstrap_preparation_paused :: "obj \<Rightarrow> bool" where
  "bootstrap_preparation_paused st \<longleftrightarrow>
     truthy (fld st ''bootstrapError'') \<or> truthy (fld st ''bootstrapLimitError'')
   \<or> truthy (fld st ''bootstrapOwnershipConfirmation'') \<and> \<not> truthy (fld st ''bootstrapPending'')
   \<or> getp (fld st ''bootstrapPlan'') ''mode'' = Str ''choose'' \<and> \<not> truthy (fld st ''bootstrapPending'')"

text \<open>Nothing of another account is left: neither its saved resolution nor its local state.\<close>

definition account_settled :: "obj \<Rightarrow> jv \<Rightarrow> bool" where
  "account_settled st owner \<longleftrightarrow>
     (\<not> truthy (fld st ''bootstrapPending'') \<or> pending_matches_user (fld st ''bootstrapPending'') owner)
   \<and> \<not> (\<not> truthy (fld st ''bootstrapGateOwned'') \<and> truthy (fld st ''localOwnerId'')
        \<and> \<not> strict_eq (fld st ''localOwnerId'') owner)"

definition restart_failed :: "js_error \<Rightarrow> bool act" where
  "restart_failed e =
     bindw current_now (\<lambda>current.
     if \<not> current \<or> \<not> ownership_error e then fail e
     else bindw queue_session_revalidation (\<lambda>_. ret True))"

definition reconcile_bootstrap_account :: "outside \<Rightarrow> bool act" where
  "reconcile_bootstrap_account x =
     bindw assert_now (\<lambda>_.
     bindw user_owner (\<lambda>owner.
     bindw (asks tab_state) (\<lambda>st.
     if account_settled st owner then ret False
     else if \<not> truthy (fld st ''sessionIdentityValidated'') then bindw queue_session_revalidation (\<lambda>_. ret True)
     else handling
       (bindw (restart_bootstrap_for_current_account x) (\<lambda>_. bindw assert_now (\<lambda>_. ret False)))
       restart_failed)))"

text \<open>The work under a gate that was just taken; the result says that the preparation is over.\<close>

definition settle_saved_resolution :: "outside \<Rightarrow> bool act" where
  "settle_saved_resolution x =
     bindw user_owner (\<lambda>owner.
     bindw (asks tab_state) (\<lambda>st.
     if \<not> truthy (fld st ''bootstrapPending'') \<or> pending_resolution_can_submit (fld st ''bootstrapPending'') owner then ret False
     else if \<not> truthy (fld st ''sessionIdentityValidated'') then bindw queue_session_revalidation (\<lambda>_. ret True)
     else bindw (restart_bootstrap_for_current_account x) (\<lambda>_. bindw assert_now (\<lambda>_. ret False))))"

definition resume_if_owned :: "outside \<Rightarrow> (jv \<Rightarrow> unit act) \<Rightarrow> bool act" where
  "resume_if_owned x otherwise =
     bindw read_records (\<lambda>persisted.
     bindw (run (snapshot_owner persisted)) (\<lambda>kept.
     bindw user_owner (\<lambda>owner.
     if strict_eq kept owner then bindw (resume_normal_sync_from_bootstrap x persisted) (\<lambda>_. ret True)
     else bindw (otherwise kept) (\<lambda>_. ret False))))"

definition acquire_bootstrap_preparation_gate :: "outside \<Rightarrow> bool act" where
  "acquire_bootstrap_preparation_gate x =
     bindw assert_now (\<lambda>_.
     bindw (field ''bootstrapGateOwned'') (\<lambda>owned.
     if truthy owned then ret False
     else
       bindw (acquire_gate x) (\<lambda>(lease, migrated).
       bindw assert_now (\<lambda>_.
       if \<not> g_acquired lease then bindw defer_bootstrap_preparation (\<lambda>_. ret True)
       else
         bindw (modify (\<lambda>s. set_tab (assign (tab_state s)
           [(''bootstrapGateOwned'', Bool True), (''bootstrapGatePersisted'', Bool True)]) s)) (\<lambda>_.
         bindw (refresh_migrated_preferences x migrated) (\<lambda>_.
         bindw assert_now (\<lambda>_.
         bindw (if truthy (g_resolution lease) then put_field ''bootstrapPending'' (g_resolution lease) else ret ()) (\<lambda>_.
         bindw (settle_saved_resolution x) (\<lambda>over.
         if over then ret True
         else bindw (field ''bootstrapPending'') (\<lambda>pending.
           if truthy pending then ret False
           else resume_if_owned x (\<lambda>kept.
             if truthy kept then put_field ''localOwnerId'' kept else ret ())))))))))))"

definition submit_matching_bootstrap_resolution :: "outside \<Rightarrow> bool act" where
  "submit_matching_bootstrap_resolution x =
     bindw assert_now (\<lambda>_.
     bindw user_owner (\<lambda>owner.
     bindw (field ''bootstrapPending'') (\<lambda>pending.
     if \<not> strict_eq (getp pending ''userId'') owner then ret False
     else
       bindw (run (bindr (dot pending ''payload'') (\<lambda>payload. dot payload ''strategy''))) (\<lambda>strategy.
       bindw (put_field ''bootstrapStrategy'' strategy) (\<lambda>_.
       bindw (submit_bootstrap_resolution x) (\<lambda>_. ret True))))))"

definition not_exposed :: "jv \<Rightarrow> obj \<Rightarrow> bool" where
  "not_exposed owner st \<longleftrightarrow> truthy (fld st ''bootstrapPending'') \<or> \<not> can_expose_owner_state
     [(''sessionValidated'', fld st ''sessionIdentityValidated''), (''localOwnerId'', fld st ''localOwnerId''),
      (''currentUserId'', owner)]"

text \<open>A resolution another tab has saved is sent by this one if it is for its account.\<close>

definition adopt_saved_resolution :: "outside \<Rightarrow> jv \<Rightarrow> bool act" where
  "adopt_saved_resolution x resolution =
     (if \<not> truthy resolution then ret False
      else bindw (put_field ''bootstrapPending'' resolution) (\<lambda>_.
        bindw (submit_matching_bootstrap_resolution x) (\<lambda>over.
        if over then ret True else bindw assert_now (\<lambda>_. ret False))))"

definition reconcile_persisted_bootstrap_state :: "outside \<Rightarrow> bool act" where
  "reconcile_persisted_bootstrap_state x =
     bindw assert_now (\<lambda>_.
     bindw (run_with (\<lambda>s. account_owner_id (fld (tab_state s) ''user''))) (\<lambda>owner.
     bindw (asks (\<lambda>s. not_exposed owner (tab_state s))) (\<lambda>hidden.
     if hidden then ret False
     else
       bindw (reading read_bootstrap_state) (\<lambda>(gate, resolution).
       bindw assert_now (\<lambda>_.
       bindw (adopt_saved_resolution x resolution) (\<lambda>over.
       if over then ret True
       else bindw (asks tab_state) (\<lambda>st.
         if \<not> truthy (fld st ''bootstrapPending'') \<and> truthy gate \<and> \<not> truthy (fld st ''bootstrapGateOwned'')
         then bindw defer_bootstrap_preparation (\<lambda>_. ret True)
         else if truthy (fld st ''bootstrapPending'') \<or> \<not> truthy (fld st ''bootstrapGateOwned'') then ret False
         else resume_if_owned x (\<lambda>_. ret ()))))))))"

section \<open>The plan\<close>

definition workspace_input :: "outside \<Rightarrow> jv \<Rightarrow> jv \<Rightarrow> jv \<Rightarrow> session \<Rightarrow> records" where
  "workspace_input x records kept owner s =
     set_field ''deviceId'' (fld (tab_state s) ''deviceId'') (set_field ''ownerId'' kept
     (set_field ''currentUserId'' owner (set_field ''remote'' (fld (tab_state s) ''bootstrapPreview'')
     (set_field ''nowMs'' (local_now x s) (set_field ''defaultDurationsMs'' DEFAULT_DURATIONS (sync_records records))))))"

definition build_bootstrap_plan :: "outside \<Rightarrow> jv act" where
  "build_bootstrap_plan x =
     bindw assert_now (\<lambda>_.
     bindw read_records (\<lambda>records.
     bindw (run (snapshot_owner records)) (\<lambda>kept.
     bindw user_owner (\<lambda>owner.
     bindw (run_with (\<lambda>s. bootstrap_workspace (x_env x s) (workspace_input x records kept owner s))) (\<lambda>answer.
     bindw (run (dot answer ''classification'')) (\<lambda>classification.
     bindw (put_field ''bootstrapClassification'' classification) (\<lambda>_.
     ret (getp answer ''plan''))))))))"

text \<open>Work of another owner is merged only when the user confirms it.\<close>

definition install_plan :: "jv \<Rightarrow> unit act" where
  "install_plan plan =
     bindw (put_field ''bootstrapPlan'' plan) (\<lambda>_.
     bindw (run (dot plan ''reason'')) (\<lambda>reason.
     put_field ''bootstrapOwnershipConfirmation'' (Bool (reason = Str ''different_owner''))))"

definition revise_plan :: "outside \<Rightarrow> jv \<Rightarrow> unit act" where
  "revise_plan x kept =
     bindw (put_field ''localOwnerId'' (or_else kept Null)) (\<lambda>_.
     bindw (build_bootstrap_plan x) (\<lambda>revised.
     bindw assert_now (\<lambda>_. install_plan revised)))"

definition prepare_bootstrap_plan :: "outside \<Rightarrow> bool act" where
  "prepare_bootstrap_plan x =
     bindw assert_now (\<lambda>_.
     bindw (load_bootstrap_preview x) (\<lambda>preview.
     bindw assert_now (\<lambda>_.
     bindw (put_field ''bootstrapPreview'' preview) (\<lambda>_.
     bindw (build_bootstrap_plan x) (\<lambda>plan.
     bindw assert_now (\<lambda>_.
     bindw (install_plan plan) (\<lambda>_.
     if getp plan ''mode'' \<noteq> Str ''normal_sync'' then ret False
     else resume_if_owned x (revise_plan x))))))))"

section \<open>A preparation\<close>

text \<open>Whether a resolution was persisted, which is then to be sent.\<close>

definition automatic_failed :: "js_error \<Rightarrow> bool act" where
  "automatic_failed e =
     bindw current_now (\<lambda>current.
     if \<not> current then fail e
     else bindw (handle_resolution_limit e) (\<lambda>limited. if limited then ret False else fail e))"

definition persist_automatic_bootstrap_resolution :: "outside \<Rightarrow> unit act" where
  "persist_automatic_bootstrap_resolution x =
     bindw assert_now (\<lambda>_.
     bindw (handling
       (bindw (run_with (\<lambda>s. dot (fld (tab_state s) ''bootstrapPlan'') ''strategy'')) (\<lambda>strategy.
        if \<not> is_resolution_strategy strategy then bindw queue_session_revalidation (\<lambda>_. ret False)
        else
          bindw user_owner (\<lambda>owner.
          bindw (field ''bootstrapPending'') (\<lambda>pending.
          bindw (persist_bootstrap_resolution x strategy
            (truthy pending \<and> \<not> strict_eq (getp pending ''userId'') owner)) (\<lambda>_.
          bindw assert_now (\<lambda>_. ret True))))))
       automatic_failed) (\<lambda>saved.
     if saved then submit_bootstrap_resolution x else ret ()))"

text \<open>The steps in order; the first whose result says so ends the preparation.\<close>

fun until_over :: "bool act list \<Rightarrow> bool act" where
  "until_over [] = ret False"
| "until_over (m # ms) = bindw m (\<lambda>over. if over then ret True else bindw assert_now (\<lambda>_. until_over ms))"

definition ask_for_strategy :: "unit act" where
  "ask_for_strategy =
     bindw (put_field ''bootstrapStrategy'' Null) (\<lambda>_.
     bindw (put_field ''bootstrapFocusTarget'' (Str ''firstChoice'')) (\<lambda>_. calls [Render]))"

definition prepare_bootstrap_once :: "outside \<Rightarrow> unit act" where
  "prepare_bootstrap_once x =
     bindw assert_now (\<lambda>_.
     bindw (validate_persisted_display_context x) (\<lambda>_.
     bindw assert_now (\<lambda>_.
     bindw (put_field ''bootstrapBlocked'' (Bool True)) (\<lambda>_.
     bindw (calls [Render]) (\<lambda>_.
     bindw (asks (\<lambda>s. bootstrap_preparation_paused (tab_state s))) (\<lambda>paused.
     if paused then ret ()
     else bindw (until_over [reconcile_bootstrap_account x, acquire_bootstrap_preparation_gate x,
         submit_matching_bootstrap_resolution x, reconcile_persisted_bootstrap_state x, prepare_bootstrap_plan x]) (\<lambda>over.
       if over then ret ()
       else bindw (run_with (\<lambda>s. bindr (dot (fld (tab_state s) ''bootstrapPlan'') ''mode'') (\<lambda>mode.
           Inr (mode = Str ''choose'' \<or> truthy (fld (tab_state s) ''bootstrapOwnershipConfirmation''))))) (\<lambda>asked.
         if asked then ask_for_strategy else persist_automatic_bootstrap_resolution x))))))))"

text \<open>A failure counts only while the context is current.\<close>

definition prepare_bootstrap :: "outside \<Rightarrow> unit act" where
  "prepare_bootstrap x =
     bindw current_now (\<lambda>current.
     if \<not> current then ret ()
     else handling (prepare_bootstrap_once x)
       (\<lambda>e. bindw current_now (\<lambda>current. if current then fail e else ret ())))"

text \<open>What \<open>queueBootstrapPreparation\<close> has deferred.\<close>

definition deferred_preparation :: "outside \<Rightarrow> unit act" where
  "deferred_preparation x =
     bindw current_now (\<lambda>current.
     if \<not> current then ret ()
     else handling (prepare_bootstrap x)
       (\<lambda>e. bindw current_now (\<lambda>current.
         if \<not> current then ret ()
         else bindw (put_field ''retrying'' (Bool True)) (\<lambda>_.
           calls [RetryLater, Warned, Reported ''bootstrap.restart.deferred'']))))"

text \<open>Evaluation runs an operation only when it is given its session.\<close>

lemmas tab_prepare_code [code] =
  read_records_def[THEN fun_cong]
  resume_normal_sync_from_bootstrap_def[THEN fun_cong] defer_bootstrap_preparation_def[THEN fun_cong]
  restart_failed_def[THEN fun_cong] reconcile_bootstrap_account_def[THEN fun_cong]
  settle_saved_resolution_def[THEN fun_cong] resume_if_owned_def[THEN fun_cong]
  acquire_bootstrap_preparation_gate_def[THEN fun_cong] submit_matching_bootstrap_resolution_def[THEN fun_cong]
  adopt_saved_resolution_def[THEN fun_cong] reconcile_persisted_bootstrap_state_def[THEN fun_cong]
  build_bootstrap_plan_def[THEN fun_cong] install_plan_def[THEN fun_cong] revise_plan_def[THEN fun_cong]
  prepare_bootstrap_plan_def[THEN fun_cong] automatic_failed_def[THEN fun_cong]
  persist_automatic_bootstrap_resolution_def[THEN fun_cong] ask_for_strategy_def[THEN fun_cong]
  prepare_bootstrap_once_def[THEN fun_cong] prepare_bootstrap_def[THEN fun_cong]
  deferred_preparation_def[THEN fun_cong]

end
