(* ===== verification/TabSignIn.thy ===== *)
theory TabSignIn
  imports TabPrepare
begin

text \<open>
  The session of a tab (\<open>SessionLifecycle\<close> of \<open>web/app-session.js\<close>): the recovery of an account
  deletion and of a sign-out that was interrupted, the sign-in, the start of a page
  (\<open>resumeStorageAndSession\<close> of \<open>web/app.js\<close>) and the return of the network. The operations go on
  under new contexts; one that ends under another context than it was given returns it.
\<close>

section \<open>Operations that return a context\<close>

text \<open>\<open>m\<close> runs in the scope, and its context, when it is not the scope's own, is the one to go on with.\<close>

definition joined :: "db_context option \<Rightarrow> ('a \<times> db_context option) act \<Rightarrow> ('a \<times> db_context option) act" where
  "joined scope m = under scope (bindw m (\<lambda>(a, inner). asks (\<lambda>s. (a, case inner of
     Some c \<Rightarrow> Some c | None \<Rightarrow> map_option (\<lambda>_. s_context s) scope))))"

text \<open>An operation that binds itself to another context leaves that of its caller alone.\<close>

definition apart :: "'a act \<Rightarrow> 'a act" where
  "apart m = (\<lambda>s. case m s of (r, s') \<Rightarrow> (r, s'\<lparr>s_context := s_context s\<rparr>))"

section \<open>A deletion that was issued\<close>

definition deletion_headers :: "jv \<Rightarrow> obj res" where
  "deletion_headers attempt = bindr (account_headers (getp attempt ''userId'')) (\<lambda>headers.
     Inr ([(''Content-Type'', Str ''application/json''), (''X-CSRF-Token'', getp attempt ''csrfToken'')]
       @ map (\<lambda>(k, v). (k, Str v)) headers))"

text \<open>An old marker cannot prove that it was read back: only the server's receipt is asked for.\<close>

definition request_deletion_recovery :: "outside \<Rightarrow> jv \<Rightarrow> response act" where
  "request_deletion_recovery x attempt =
     bindw assert_now (\<lambda>_.
     bindw (run (deletion_headers attempt)) (\<lambda>headers.
     if getp attempt ''stage'' = Str ''issued''
     then fetch_url x ''/api/v1/account'' headers (json_stringify (Obj [(''confirmation'', Str ''DELETE'')]))
     else fetch_url x ''/api/v1/account/deletion-receipt'' headers Undef))"

definition mark_in :: "outside \<Rightarrow> unit act" where
  "mark_in x = publish_in (bindw (mark_pending_logout x) (\<lambda>_. ret ()))"

definition remove_deleted_data :: "outside \<Rightarrow> db_context \<Rightarrow> (cleanup \<times> db_context) act" where
  "remove_deleted_data x issuer =
     bindw assert_now (\<lambda>_.
     bindw (publish_in (under (Some issuer) (mark_in x))) (\<lambda>_.
     bindw (run_with (\<lambda>s. cleanup_identity (s_app s))) (\<lambda>i.
     bindw assert_now (\<lambda>_.
     bindw (clear_local_data x i) (\<lambda>completed. ret (i, completed))))))"

definition forget_deletion :: "outside \<Rightarrow> jv \<Rightarrow> cleanup \<Rightarrow> unit act" where
  "forget_deletion x record i =
     bindw assert_now (\<lambda>_.
     bindw (run_with (assert_pending_deletion_attempt record)) (\<lambda>_.
     bindw (run_with (\<lambda>s. assert_cleanup_identity (s_app s) i)) (\<lambda>_.
     publish_in
       (bindw (run_with (assert_pending_deletion_attempt record)) (\<lambda>_.
        bindw clear_pending_logout (\<lambda>_.
        bindw (asks pending_local_logout) (\<lambda>pending.
        if pending then ret ()
        else bindw (write_pending_deletion_attempt x None) (\<lambda>_. ret ()))))))))"

text \<open>Whether the recovery goes on after a failure: only while the record is still the same.\<close>

definition deletion_failed :: "jv \<Rightarrow> js_error \<Rightarrow> bool act" where
  "deletion_failed record e =
     (if ownership_error e then ret False
      else bindw current_now (\<lambda>current.
        if \<not> current then ret False
        else bindw (asks (\<lambda>s. assert_pending_deletion_attempt record s = Inr ())) (\<lambda>same.
          if \<not> same then ret False
          else bindw (calls [Warned, Reported ''session.delete-account.cleanup-retry'']) (\<lambda>_. ret True))))"

definition leave_if_current :: "outside \<Rightarrow> unit act" where
  "leave_if_current x = bindw current_now (\<lambda>current. if current then redirect_to_login x else ret ())"

definition finish_deletion :: "outside \<Rightarrow> bool \<Rightarrow> unit act" where
  "finish_deletion x go = (if go then leave_if_current x else ret ())"

text \<open>It runs in the context of the recovery; \<open>issuer\<close> is the context the recovery was made from.\<close>

definition complete_deletion_recovery :: "outside \<Rightarrow> jv \<Rightarrow> db_context \<Rightarrow> unit act" where
  "complete_deletion_recovery x record issuer =
     bindw (handling (bindw (remove_deleted_data x issuer) (\<lambda>removed. ret (Inl removed)))
       (\<lambda>e. bindw (deletion_failed record e) (\<lambda>go. ret (Inr go)))) (\<lambda>r. case r of
       Inr go \<Rightarrow> finish_deletion x go
     | Inl (i, completed) \<Rightarrow> under (Some completed)
         (bindw (handling (bindw (forget_deletion x record i) (\<lambda>_. ret True)) (deletion_failed record)) (\<lambda>go.
          finish_deletion x go)))"

definition recovery_answered :: "outside \<Rightarrow> jv \<Rightarrow> jv \<Rightarrow> db_context \<Rightarrow> response \<Rightarrow> bool act" where
  "recovery_answered x attempt record recovery response =
     (if r_status response \<noteq> 204 then
        bindw (if r_status response \<in> {401, 400, 403}
          then bindw (write_pending_deletion_attempt x None) (\<lambda>_. ret ()) else ret ()) (\<lambda>_. ret False)
      else bindw (asks s_context) (\<lambda>issuer.
        if \<not> strict_eq (i_owner (o_identity issuer)) (getp attempt ''userId'') then ret False
        else bindw (under (Some recovery) (complete_deletion_recovery x record issuer)) (\<lambda>_. ret True)))"

definition recover_pending_deletion :: "outside \<Rightarrow> bool act" where
  "recover_pending_deletion x =
     bindw assert_now (\<lambda>_.
     bindw (asks (\<lambda>s. (pending_deletion_attempt s, s_context s))) (\<lambda>(pending, issuer). case pending of
       None \<Rightarrow> ret False
     | Some (attempt, record) \<Rightarrow>
         let owner = i_owner (o_identity issuer); recovery = issuer\<lparr>o_deletion := Some record\<rparr> in
         if truthy owner \<and> \<not> strict_eq owner (getp attempt ''userId'') then ret False
         else
           bindw (handling
             (under (Some recovery) (bindw (request_deletion_recovery x attempt) (\<lambda>response.
               bindw assert_now (\<lambda>_. ret (Some response)))))
             (\<lambda>_. ret None)) (\<lambda>answer. case answer of
             None \<Rightarrow> bindw (run_with (\<lambda>s. context_current s recovery)) (\<lambda>current. ret (\<not> current))
           | Some response \<Rightarrow> recovery_answered x attempt record recovery response)))"

section \<open>A sign-out that was not completed\<close>

definition request_session_revocation :: "outside \<Rightarrow> jv \<Rightarrow> jv \<Rightarrow> bool act" where
  "request_session_revocation x token owner =
     bindw assert_now (\<lambda>_.
     if \<not> truthy token then ret False
     else
       bindw (run (account_headers owner)) (\<lambda>headers.
       bindw (fetch_url x ''/api/v1/auth/logout'' ((''X-CSRF-Token'', token) # map (\<lambda>(k, v). (k, Str v)) headers) Undef)
         (\<lambda>response.
       bindw assert_now (\<lambda>_.
       if \<not> ok_status response \<and> r_status response \<noteq> 401
       then fail (status_text x ''account.logout.failed'' ''Sign out failed'' response)
       else ret True))))"

text \<open>The revocation, after the local data has been removed; the error of one that failed.\<close>

definition revocation_pending :: "outside \<Rightarrow> js_error" where
  "revocation_pending x = Error (tr (x_catalog x) ''account.logout.revocationPending'' []
     ''Pending sign-out could not be revoked yet.'')"

definition revoke_pending :: "outside \<Rightarrow> cleanup \<Rightarrow> jv \<Rightarrow> js_error option act" where
  "revoke_pending x i token =
     handling
       (bindw (request_session_revocation x token (c_expected i)) (\<lambda>revoked.
        if revoked then ret None else fail (revocation_pending x)))
       (\<lambda>e. bindw current_now (\<lambda>current.
        if \<not> current then fail e
        else
          bindw (run_with (\<lambda>s. assert_cleanup_identity (s_app s) i)) (\<lambda>_.
          bindw (put_field ''logoutRecoveryRequired'' (Bool True)) (\<lambda>_. ret (Some e)))))"

definition complete_sign_out :: "cleanup \<Rightarrow> unit act" where
  "complete_sign_out i =
     bindw (run_with (\<lambda>s. assert_cleanup_identity (s_app s) i)) (\<lambda>_.
     publish_in (bindw (put_field ''logoutRecoveryRequired'' (Bool False)) (\<lambda>_. clear_pending_logout)))"

text \<open>
  What the start of a session leaves: whether the user is signed in with the context to go on
  with, or the error together with the context it left (\<open>logoutFailureContexts\<close>).
\<close>

type_synonym started = "(bool \<times> db_context option) + (js_error \<times> db_context)"

definition revoke_and_leave :: "outside \<Rightarrow> cleanup \<Rightarrow> jv \<Rightarrow> started act" where
  "revoke_and_leave x i token =
     bindw (revoke_pending x i token) (\<lambda>failure. case failure of
       Some e \<Rightarrow> asks (\<lambda>s. Inr (e, s_context s))
     | None \<Rightarrow>
         bindw (complete_sign_out i) (\<lambda>_.
         bindw (asks s_context) (\<lambda>c.
         bindw (redirect_to_login x) (\<lambda>_. ret (Inl (False, Some c))))))"

definition finish_pending_logout :: "outside \<Rightarrow> jv \<Rightarrow> cleanup option \<Rightarrow> started act" where
  "finish_pending_logout x payload identity =
     bindw (run (account_owner_id (getp payload ''user''))) (\<lambda>user. case identity of
       None \<Rightarrow> fail account_error
     | Some i \<Rightarrow>
         if \<not> nonempty_string user \<or> truthy (c_expected i) \<and> \<not> strict_eq (c_expected i) user then fail account_error
         else let proven = i\<lparr>c_expected := user, c_authenticated := user\<rparr> in
           bindw (run_with (\<lambda>s. assert_cleanup_identity (s_app s) proven)) (\<lambda>_.
           bindw close_stream (\<lambda>_.
           bindw (clear_local_data x proven) (\<lambda>completed.
           under (Some completed)
             (bindw assert_now (\<lambda>_.
              bindw (run_with (\<lambda>s. assert_cleanup_identity (s_app s) proven)) (\<lambda>_.
              bindw (run_with (\<lambda>s. ensure (a_database (s_app s) = 0) account_error)) (\<lambda>_.
              revoke_and_leave x proven (or_else (getp payload ''csrfToken'') Null)))))))))"

text \<open>The server has revoked the session before it sent the browser back with the token.\<close>

definition finish_sign_in_landing :: "outside \<Rightarrow> cleanup \<Rightarrow> started act" where
  "finish_sign_in_landing x i =
     bindw close_stream (\<lambda>_.
     bindw (settle_pending_logout_locally x i) (\<lambda>settled. case settled of
       None \<Rightarrow> ret (Inl (False, None))
     | Some scope \<Rightarrow> let landing = split_landing_token (current_login_return_path (x_address x)) in
         bindw (set_page (\<lambda>g. g\<lparr>g_redirecting := True\<rparr>)) (\<lambda>_.
         bindw (calls [Navigated (join_return_path (p_pathname landing) (p_query landing))]) (\<lambda>_.
         ret (Inl (False, scope))))))"

section \<open>Signing in\<close>

definition sign_in :: "outside \<Rightarrow> jv \<times> obj \<Rightarrow> started act" where
  "sign_in x answer =
     bindw (run_with (\<lambda>s. bindr (account_owner_id (fld (tab_state s) ''user'')) (\<lambda>owner.
       Inr (or_else owner (fld (tab_state s) ''localOwnerId''))))) (\<lambda>previous.
     bindw (run (account_owner_id (getp (fst answer) ''user''))) (\<lambda>next_owner.
     if truthy previous \<and> \<not> strict_eq next_owner previous then
       bindw (asks (\<lambda>s. or_else (fld (tab_state s) ''localOwnerId'') previous)) (\<lambda>source.
       bindw (hand_over x source answer) (\<lambda>scope. ret (Inl (True, scope))))
     else bindw (apply_session_payload answer) (\<lambda>scope. ret (Inl (True, scope)))))"

text \<open>A pending sign-out is finished before anybody is signed in.\<close>

definition session_answered :: "outside \<Rightarrow> cleanup option \<Rightarrow> jv \<times> obj \<Rightarrow> started act" where
  "session_answered x identity answer =
     bindw (case identity of None \<Rightarrow> ret False | Some _ \<Rightarrow> completed_sign_in_landing x) (\<lambda>landed.
     bindw (asks pending_local_logout) (\<lambda>pending. case identity of
       Some i \<Rightarrow> if landed then finish_sign_in_landing x i else finish_pending_logout x (fst answer) (Some i)
     | None \<Rightarrow> if pending then finish_pending_logout x (fst answer) None else sign_in x answer))"

definition load_session :: "outside \<Rightarrow> started act" where
  "load_session x =
     bindw assert_now (\<lambda>_.
     bindw (asks (\<lambda>s. pending_deletion_attempt s \<noteq> None)) (\<lambda>issued.
     bindw (if issued then recover_pending_deletion x else ret False) (\<lambda>recovered.
     if recovered then ret (Inl (False, None))
     else
       bindw (run_with (\<lambda>s. if pending_local_logout s
         then bindr (cleanup_identity (s_app s)) (\<lambda>i. Inr (Some i)) else Inr None)) (\<lambda>identity.
       bindw (fetch_session_payload x) (\<lambda>(answer, scope).
       bindw (under scope assert_now) (\<lambda>_. case answer of
         None \<Rightarrow> ret (Inl (False, scope))
       | Some answer \<Rightarrow> session_answered x identity answer))))))"

text \<open>Without the server the stored workspace is shown to its owner, if no tab resolves it.\<close>

definition cached_owner_usable :: "session \<Rightarrow> bool res" where
  "cached_owner_usable s = (let st = tab_state s; local = fld st ''quarantinedLocal'' in
     if pending_local_logout s \<or> \<not> valid_account_incarnation (getp (getp local ''user'') ''accountIncarnation'') then Inr False
     else bindr (account_owner_id (getp local ''user'')) (\<lambda>cached. Inr (can_use_cached_owner_offline
       [(''sessionValidated'', fld st ''sessionIdentityValidated''), (''cachedUserId'', cached),
        (''localOwnerId'', fld st ''localOwnerId''), (''gateOwned'', fld st ''bootstrapGateOwned''),
        (''pending'', fld st ''bootstrapPending'')])))"

text \<open>\<open>clearBootstrapGate\<close> with this tab's token.\<close>

definition clear_own_gate :: "outside \<Rightarrow> unit act" where
  "clear_own_gate x =
     bindw (asks (\<lambda>s. (fld (tab_state s) ''tabId'', context_fields s))) (\<lambda>(tab, input).
     bindw (transact x (\<lambda>env db. clear_bootstrap_gate env db tab input)) (\<lambda>_. assert_now))"

definition activate_cached_owner_offline :: "outside \<Rightarrow> bool act" where
  "activate_cached_owner_offline x =
     bindw current_now (\<lambda>current.
     if \<not> current then ret False
     else bindw (run_with cached_owner_usable) (\<lambda>usable.
       if \<not> usable then ret False
       else bindw (field ''quarantinedLocal'') (\<lambda>local.
         bindw (handling (bindw (clear_own_gate x) (\<lambda>_. ret True)) (\<lambda>_. ret False)) (\<lambda>freed.
         if \<not> freed then ret False
         else
           bindw (publish_in (modify (\<lambda>s. set_tab (restore_owner_state local (tab_state s)) s))) (\<lambda>_.
           bindw (modify (\<lambda>s. set_tab (assign (tab_state s)
             [(''quarantinedLocal'', Null), (''authenticated'', Bool False), (''csrfToken'', Null),
              (''offlineOwnerMode'', Bool True), (''bootstrapBlocked'', Bool False),
              (''bootstrapGatePersisted'', Bool False), (''bootstrapGateOwned'', Bool False)]) s)) (\<lambda>_.
           ret True))))))"

section \<open>Starting a session\<close>

text \<open>A tab that waits for a sign-out does not keep the gate from the others.\<close>

definition release_recovery_gate :: "outside \<Rightarrow> unit act" where
  "release_recovery_gate x =
     bindw (asks (\<lambda>s. truthy (fld (tab_state s) ''bootstrapGateOwned'') \<and> a_database (s_app s) \<noteq> 0)) (\<lambda>owned.
     if \<not> owned then ret ()
     else handling
       (bindw (clear_own_gate x) (\<lambda>_. put_field ''bootstrapGateOwned'' (Bool False)))
       (\<lambda>_. bindw current_now (\<lambda>current.
         if current then calls [Warned, Reported ''session.initialize.deferred''] else ret ())))"

text \<open>Steps of which each is skipped once the context has ended; whether it is current after the last.\<close>

fun while_current :: "unit act list \<Rightarrow> bool act" where
  "while_current [] = current_now"
| "while_current (m # ms) = bindw current_now (\<lambda>current. if current then bindw m (\<lambda>_. while_current ms) else ret False)"

definition deferred_for_recovery :: "outside \<Rightarrow> unit act" where
  "deferred_for_recovery x =
     bindw (asks pending_local_logout) (\<lambda>pending.
     if \<not> pending then ret ()
     else bindw (put_field ''logoutRecoveryRequired'' (Bool True)) (\<lambda>_. release_recovery_gate x))"

definition deferred_to_cache :: "outside \<Rightarrow> unit act" where
  "deferred_to_cache x =
     bindw (field ''sessionIdentityValidated'') (\<lambda>validated.
     if truthy validated then ret ()
     else
       bindw (put_field ''authenticated'' (Bool False)) (\<lambda>_.
       bindw (put_field ''csrfToken'' Null) (\<lambda>_.
       bindw (activate_cached_owner_offline x) (\<lambda>_. ret ()))))"

definition session_deferred :: "outside \<Rightarrow> js_error \<Rightarrow> bool act" where
  "session_deferred x e =
     bindw (while_current [deferred_for_recovery x, deferred_to_cache x]) (\<lambda>current.
     if \<not> current then ret False
     else
       bindw (asks (x_online x)) (\<lambda>online.
       bindw (if online then put_field ''retrying'' (Bool True) else ret ()) (\<lambda>_.
       bindw (calls [Render, RetryLater, Notice (Str (message_of e)), Warned, Reported ''session.initialize.deferred'']) (\<lambda>_.
       ret True))))"

text \<open>\<open>None\<close>: the code returns no context; otherwise the one to go on with.\<close>

definition initialize_session :: "outside \<Rightarrow> (bool \<times> db_context option) act" where
  "initialize_session x =
     bindw assert_now (\<lambda>_.
     bindw (handling (bindw (load_session x) (\<lambda>r. ret (map_sum id (\<lambda>(e, c). (e, Some c)) r)))
       (\<lambda>e. ret (Inr (e, None)))) (\<lambda>r. case r of
       Inr (e, scope) \<Rightarrow> joined scope (bindw (session_deferred x e) (\<lambda>kept. ret (kept, None)))
     | Inl (loaded, scope) \<Rightarrow> joined scope
         (bindw (handling
           (bindw (if loaded then bindw assert_now (\<lambda>_. prepare_bootstrap x) else ret ()) (\<lambda>_.
            bindw assert_now (\<lambda>_. ret True)))
           (session_deferred x)) (\<lambda>kept. ret (kept, None)))))"

section \<open>Starting a page\<close>

definition report_storage_unavailable :: "outside \<Rightarrow> js_error \<Rightarrow> unit act" where
  "report_storage_unavailable x e =
     calls [Warned, Reported ''startup.storage.unavailable'',
       Notice (Str (tr (x_catalog x) ''storage.unavailable'' [(''error'', Text (message_of e))]
         (''Durable timer storage unavailable: '' @ message_of e))), RenderStatus]"

text \<open>What comes of loading the Core is given; the storage uses it from then on.\<close>

definition initialize_shared_core :: "outside \<Rightarrow> (session \<Rightarrow> unit res) \<Rightarrow> bool act" where
  "initialize_shared_core x load =
     handling
       (bindw await (\<lambda>_. bindw (run_with load) (\<lambda>_. bindw assert_now (\<lambda>_. ret True))))
       (\<lambda>e. bindw current_now (\<lambda>current.
         if \<not> current then ret False
         else bindw (report_storage_unavailable x e) (\<lambda>_. ret False)))"

definition opened_storage :: "outside \<Rightarrow> (db_context + js_error \<times> db_context option) act" where
  "opened_storage x =
     handling
       (bindw (apart (load_local_state x True)) (\<lambda>r. case r of
         Inr failure \<Rightarrow> ret (Inr failure)
       | Inl c \<Rightarrow> bindw await (\<lambda>_. bindw (under (Some c) assert_now) (\<lambda>_. ret (Inl c)))))
       (\<lambda>e. ret (Inr (e, None)))"

definition initialize_storage :: "outside \<Rightarrow> (bool \<times> db_context option) act" where
  "initialize_storage x =
     bindw (opened_storage x) (\<lambda>r. case r of
       Inl c \<Rightarrow>
         bindw (put_field ''ready'' (Bool True)) (\<lambda>_.
         bindw (calls [Render]) (\<lambda>_. ret (True, Some c)))
     | Inr (e, scope) \<Rightarrow>
         bindw (under scope current_now) (\<lambda>current.
         bindw (if current then report_storage_unavailable x e else ret ()) (\<lambda>_. ret (False, scope))))"

definition start_with_storage :: "outside \<Rightarrow> (bool \<times> db_context option) act" where
  "start_with_storage x =
     bindw (initialize_storage x) (\<lambda>(ready, scope). joined scope
       (if \<not> ready then ret (False, None)
        else bindw (initialize_session x) (\<lambda>(kept, scope). joined (if kept then scope else None)
          (bindw current_now (\<lambda>current. ret (current, None))))))"

text \<open>Local data a sign-out still has to remove is removed before the storage is opened.\<close>

definition start_after_cleanup :: "outside \<Rightarrow> bool \<Rightarrow> (bool \<times> db_context option) act" where
  "start_after_cleanup x cleared =
     bindw current_now (\<lambda>current.
     if \<not> current then ret (False, None)
     else if cleared then start_with_storage x
     else bindw (initialize_session x) (\<lambda>(kept, scope). joined (if kept then scope else None)
       (bindw (field ''logoutRecoveryRequired'') (\<lambda>required.
        if truthy required then ret (False, None)
        else bindw current_now (\<lambda>current.
          if \<not> current then ret (False, None) else start_with_storage x)))))"

definition resume_storage_and_session :: "outside \<Rightarrow> (session \<Rightarrow> unit res) \<Rightarrow> (bool \<times> db_context option) act" where
  "resume_storage_and_session x load =
     bindw current_now (\<lambda>current.
     if \<not> current then ret (False, None)
     else
       bindw (asks pending_local_logout) (\<lambda>pending.
       bindw (if pending then bindw (put_field ''logoutRecoveryRequired'' (Bool True)) (\<lambda>_. calls [Render]) else ret ()) (\<lambda>_.
       bindw (initialize_shared_core x load) (\<lambda>loaded.
       if \<not> loaded then ret (False, None)
       else bindw current_now (\<lambda>current.
         if \<not> current then ret (False, None)
         else
           bindw (run_with (\<lambda>s. cleanup_identity (s_app s))) (\<lambda>i.
           bindw (clear_pending_logout_data x i) (\<lambda>(cleared, scope).
           joined scope (start_after_cleanup x cleared))))))))"

text \<open>The start that is not joined to one that runs already; it waits for a turn first.\<close>

definition resume_startup :: "outside \<Rightarrow> (session \<Rightarrow> unit res) \<Rightarrow> (bool \<times> db_context option) act" where
  "resume_startup x load =
     bindw current_now (\<lambda>current.
     if \<not> current then ret (False, None)
     else bindw await (\<lambda>_. bindw (resume_storage_and_session x load) (\<lambda>r. bindw await (\<lambda>_. ret r))))"

definition start_page :: "outside \<Rightarrow> (session \<Rightarrow> unit res) \<Rightarrow> bool act" where
  "start_page x load =
     bindw (run_with capture_database_context) (\<lambda>c.
     under (Some c) (bindw (resume_startup x load) (\<lambda>(result, _). ret result)))"

section \<open>Going on with a session\<close>

definition recovery_finished :: "db_context option \<Rightarrow> unit act" where
  "recovery_finished scope =
     bindw (put_field ''logoutRecoveryBusy'' (Bool False)) (\<lambda>_.
     bindw (under scope current_now) (\<lambda>current. if current then calls [Render] else ret ()))"

definition resume_pending_startup :: "outside \<Rightarrow> (session \<Rightarrow> unit res) \<Rightarrow> bool act" where
  "resume_pending_startup x load =
     bindw current_now (\<lambda>current.
     if \<not> current then ret False
     else bindw (field ''logoutRecoveryBusy'') (\<lambda>busy.
       if truthy busy then ret False
       else
         bindw (put_field ''logoutRecoveryBusy'' (Bool True)) (\<lambda>_.
         bindw (calls [Render]) (\<lambda>_.
         bindw (asks (\<lambda>s. g_cleanup_retry (s_page s))) (\<lambda>retry.
         bindw (handling (if retry then ret (False, None) else resume_startup x load)
           (\<lambda>e. bindw (recovery_finished None) (\<lambda>_. fail e))) (\<lambda>(result, scope).
         bindw (recovery_finished scope) (\<lambda>_. ret result)))))))"

definition session_known :: "obj \<Rightarrow> bool" where
  "session_known st \<longleftrightarrow> truthy (fld st ''sessionIdentityValidated'') \<and> truthy (fld st ''authenticated'')
     \<and> truthy (fld st ''csrfToken'')"

text \<open>\<open>await this.loadSession(context)\<close>, whose errors count whatever context they leave.\<close>

definition reload_session :: "outside \<Rightarrow> unit act" where
  "reload_session x =
     bindw (load_session x) (\<lambda>r. bindw (case r of Inr (e, _) \<Rightarrow> fail e | Inl _ \<Rightarrow> ret ()) (\<lambda>_. assert_now))"

definition go_online :: "outside \<Rightarrow> unit act" where
  "go_online x =
     bindw (asks (\<lambda>s. session_known (tab_state s))) (\<lambda>known.
     bindw (if known then ret () else reload_session x) (\<lambda>_.
     bindw (field ''authenticated'') (\<lambda>authenticated.
     if \<not> truthy authenticated then ret ()
     else
       bindw (run_with (\<lambda>s. needs_bootstrap (tab_state s))) (\<lambda>blocked.
       bindw (if blocked then prepare_bootstrap x
         else bindw (open_revision_stream x) (\<lambda>_. run_sync x True)) (\<lambda>_.
       assert_now)))))"

definition remain_offline :: "outside \<Rightarrow> unit act" where
  "remain_offline x =
     bindw (while_current [bindw (activate_cached_owner_offline x) (\<lambda>_. ret ())]) (\<lambda>current.
     if \<not> current then ret ()
     else bindw (put_field ''retrying'' (Bool True)) (\<lambda>_.
       calls [Render, RetryLater, Warned, Reported ''session.restore.offline'']))"

definition restore_session_and_sync :: "outside \<Rightarrow> (session \<Rightarrow> unit res) \<Rightarrow> unit act" where
  "restore_session_and_sync x load =
     bindw current_now (\<lambda>current.
     if \<not> current then ret ()
     else bindw (asks (\<lambda>s. fld (tab_state s) ''ready'' = Bool False
         \<or> truthy (fld (tab_state s) ''logoutRecoveryRequired''))) (\<lambda>start.
       if start then bindw (resume_pending_startup x load) (\<lambda>_. ret ())
       else handling (go_online x) (\<lambda>_. remain_offline x)))"

definition handle_online :: "outside \<Rightarrow> (session \<Rightarrow> unit res) \<Rightarrow> unit act" where
  "handle_online x load =
     bindw (put_field ''retrying'' (Bool False)) (\<lambda>_.
     bindw (calls [ResetRetry, Render]) (\<lambda>_.
     bindw (run_with (\<lambda>s. if fld (tab_state s) ''ready'' = Bool False
         \<or> truthy (fld (tab_state s) ''logoutRecoveryRequired'')
       then capture_database_context s else account_context s)) (\<lambda>c.
     under (Some c) (restore_session_and_sync x load))))"

definition handle_offline :: "unit act" where
  "handle_offline =
     bindw (put_field ''syncing'' (Bool False)) (\<lambda>_.
     bindw (put_field ''retrying'' (Bool False)) (\<lambda>_.
     bindw close_stream (\<lambda>_. calls [Render])))"

text \<open>Evaluation runs an operation only when it is given its session.\<close>

lemmas tab_sign_in_code [code] =
  joined_def[THEN fun_cong] apart_def[THEN fun_cong] request_deletion_recovery_def[THEN fun_cong]
  mark_in_def[THEN fun_cong] remove_deleted_data_def[THEN fun_cong] forget_deletion_def[THEN fun_cong]
  deletion_failed_def[THEN fun_cong] leave_if_current_def[THEN fun_cong] finish_deletion_def[THEN fun_cong]
  complete_deletion_recovery_def[THEN fun_cong] recovery_answered_def[THEN fun_cong]
  recover_pending_deletion_def[THEN fun_cong] request_session_revocation_def[THEN fun_cong]
  revoke_pending_def[THEN fun_cong] complete_sign_out_def[THEN fun_cong] revoke_and_leave_def[THEN fun_cong]
  finish_pending_logout_def[THEN fun_cong] finish_sign_in_landing_def[THEN fun_cong]
  sign_in_def[THEN fun_cong] session_answered_def[THEN fun_cong] load_session_def[THEN fun_cong]
  clear_own_gate_def[THEN fun_cong] activate_cached_owner_offline_def[THEN fun_cong]
  release_recovery_gate_def[THEN fun_cong] deferred_for_recovery_def[THEN fun_cong]
  deferred_to_cache_def[THEN fun_cong] session_deferred_def[THEN fun_cong]
  initialize_session_def[THEN fun_cong] report_storage_unavailable_def[THEN fun_cong]
  initialize_shared_core_def[THEN fun_cong] initialize_storage_def[THEN fun_cong]
  start_with_storage_def[THEN fun_cong] start_after_cleanup_def[THEN fun_cong]
  resume_storage_and_session_def[THEN fun_cong] resume_startup_def[THEN fun_cong]
  start_page_def[THEN fun_cong] recovery_finished_def[THEN fun_cong]
  resume_pending_startup_def[THEN fun_cong] go_online_def[THEN fun_cong] remain_offline_def[THEN fun_cong]
  restore_session_and_sync_def[THEN fun_cong] handle_online_def[THEN fun_cong]
  handle_offline_def[THEN fun_cong]

end
