(* ===== verification/TabSignOut.thy ===== *)
theory TabSignOut
  imports TabSignIn
begin

text \<open>
  Leaving an account (\<open>SessionLifecycle\<close> of \<open>web/app-session.js\<close>): the sign-out, which marks itself
  in the local storage before anything else, asks the server to revoke the session and removes the
  local data; and the deletion of the account, whose request is recorded before it is sent. Whether
  the server answers a revocation within ten seconds is given.
\<close>

section \<open>Removing the local data\<close>

text \<open>How a removal ends: whether it completes the sign-out, can be found again, and reports failures.\<close>

record completion =
  m_clear :: bool
  m_durable :: bool
  m_operation :: string

definition left_account :: "outside \<Rightarrow> db_context option \<Rightarrow> bool act" where
  "left_account x scope =
     bindw (under scope current_now) (\<lambda>current.
     if \<not> current then ret False
     else
       bindw (set_page (\<lambda>g. g\<lparr>g_cleanup_retry := False\<rparr>)) (\<lambda>_.
       bindw (redirect_to_login x) (\<lambda>_. ret True)))"

definition cleanup_incomplete :: "outside \<Rightarrow> completion \<Rightarrow> js_error \<Rightarrow> db_context option \<Rightarrow> bool act" where
  "cleanup_incomplete x m e scope =
     bindw current_now (\<lambda>current.
     if \<not> current then ret False
     else
       bindw (calls [Warned, Reported (m_operation m)]) (\<lambda>_.
       if m_durable m then left_account x scope
       else
         bindw (set_page (\<lambda>g. g\<lparr>g_cleanup_retry := True\<rparr>)) (\<lambda>_.
         bindw (put_field ''logoutRecoveryRequired'' (Bool True)) (\<lambda>_.
         bindw (put_field ''bootstrapSignOutError'' Null) (\<lambda>_.
         bindw (calls [Notice (Str (tr (x_catalog x) ''account.logout.cleanupFailed'' [(''error'', Text (message_of e))]
           (''Signed-out local data could not be cleared: '' @ message_of e))), Render]) (\<lambda>_.
         ret False))))))"

definition forget_sign_out :: "cleanup \<Rightarrow> bool \<Rightarrow> unit act" where
  "forget_sign_out i clear =
     bindw (run_with (\<lambda>s. assert_cleanup_identity (s_app s) i)) (\<lambda>_.
     if \<not> clear then ret ()
     else publish_in (bindw (put_field ''logoutRecoveryRequired'' (Bool False)) (\<lambda>_. clear_pending_logout)))"

definition cleanup_done :: "outside \<Rightarrow> cleanup \<Rightarrow> completion \<Rightarrow> db_context \<Rightarrow> bool act" where
  "cleanup_done x i m completed =
     bindw (run_with (\<lambda>s. context_current s completed)) (\<lambda>current.
     if \<not> current then ret False
     else
       bindw (handling (bindw (then_scope (Some completed) (forget_sign_out i (m_clear m))) (\<lambda>scope. ret (Inl scope)))
         (\<lambda>e. ret (Inr e))) (\<lambda>r. case r of
         Inl scope \<Rightarrow> left_account x scope
       | Inr e \<Rightarrow> cleanup_incomplete x m e (Some completed)))"

definition complete_account_cleanup :: "outside \<Rightarrow> cleanup \<Rightarrow> completion \<Rightarrow> bool act" where
  "complete_account_cleanup x i m =
     bindw current_now (\<lambda>current.
     if \<not> current then ret False
     else
       bindw (handling (bindw (clear_local_data x i) (\<lambda>completed. ret (Inl completed))) (\<lambda>e. ret (Inr e))) (\<lambda>r. case r of
         Inl completed \<Rightarrow> cleanup_done x i m completed
       | Inr e \<Rightarrow> cleanup_incomplete x m e None))"

section \<open>Revoking the session\<close>

definition report_deferred_revocation :: "unit act" where
  "report_deferred_revocation =
     bindw current_now (\<lambda>current.
     if current then calls [Warned, Reported ''session.logout.revocation-deferred''] else ret ())"

text \<open>
  \<open>requestSessionRevocation\<close> as the sign-out starts it, without waiting for it: the request
  leaves at once, or there is none and the reason is settled.
\<close>

datatype revocation = Unsent "js_error option" | Sent obj

definition start_revocation :: "outside \<Rightarrow> jv \<Rightarrow> jv \<Rightarrow> revocation act" where
  "start_revocation x token owner =
     handling
       (bindw assert_now (\<lambda>_.
        if \<not> truthy token then ret (Unsent None)
        else
          bindw (run (account_headers owner)) (\<lambda>headers.
          bindw (modify (\<lambda>s. s\<lparr>s_calls := s_calls s @
            [Fetched ''/api/v1/auth/logout'' (i_owner (o_identity (s_context s))) (live s)]\<rparr>)) (\<lambda>_.
          ret (Sent ((''X-CSRF-Token'', token) # map (\<lambda>(k, v). (k, Str v)) headers))))))
       (\<lambda>e. ret (Unsent (Some e)))"

text \<open>The answer, or the error the request ends with; an ended context is not reported.\<close>

definition revocation_answer :: "outside \<Rightarrow> obj \<Rightarrow> bool act" where
  "revocation_answer x headers =
     handling
       (bindw (run_with (\<lambda>s. x_fetch x s ''/api/v1/auth/logout'' headers Undef)) (\<lambda>response.
        bindw assert_now (\<lambda>_.
        if \<not> ok_status response \<and> r_status response \<noteq> 401
        then fail (status_text x ''account.logout.failed'' ''Sign out failed'' response) else ret True)))
       (\<lambda>e. bindw (if ownership_error e then ret () else report_deferred_revocation) (\<lambda>_. ret False))"

definition settle_detached_revocation :: "outside \<Rightarrow> (session \<Rightarrow> bool) \<Rightarrow> revocation \<Rightarrow> bool act" where
  "settle_detached_revocation x late request =
     bindw await (\<lambda>_. case request of
       Unsent reason \<Rightarrow>
         bindw (case reason of Some e \<Rightarrow> if ownership_error e then ret () else report_deferred_revocation
           | None \<Rightarrow> report_deferred_revocation) (\<lambda>_. ret False)
     | Sent headers \<Rightarrow>
         bindw (asks late) (\<lambda>timed_out.
         bindw (if timed_out then bindw report_deferred_revocation (\<lambda>_. ret False)
           else revocation_answer x headers) (\<lambda>revoked.
         bindw await (\<lambda>_. ret revoked))))"

section \<open>Signing out\<close>

definition pending_operation_count :: "obj \<Rightarrow> nat" where
  "pending_operation_count st = sum_list (map (\<lambda>k. length (list_if_array (fld st k)))
     [''pending'', ''pendingTaskOperations'', ''pendingDurationOperations'', ''pendingAutoStartOperations'',
      ''pendingSelectedTaskOperations''])"

text \<open>Changes that cannot be read could be lost: the sign-out is refused.\<close>

definition queues_unread :: "outside \<Rightarrow> bool act" where
  "queues_unread x =
     bindw current_now (\<lambda>current.
     if \<not> current then ret False
     else
       let message = Str (tr (x_catalog x) ''account.logout.pendingUnavailable'' []
         ''Sign out did not finish because pending changes could not be read. Your local data was kept. Check browser storage and retry.'') in
       bindw (calls [Warned, Reported ''session.logout.pending-queues'', Notice message]) (\<lambda>_.
       bindw (put_field ''bootstrapSignOutError'' message) (\<lambda>_.
       bindw (calls [Render]) (\<lambda>_. ret False))))"

definition guard_account :: "outside \<Rightarrow> unit act" where
  "guard_account x =
     bindw (asks context_fields) (\<lambda>input.
     transact x (\<lambda>env db. guarded_mutation env db True input (\<lambda>_ t. Inr ((), t))))"

definition read_pending_queues_before_logout :: "outside \<Rightarrow> bool act" where
  "read_pending_queues_before_logout x =
     bindw (handling
       (bindw (refresh_all_pending_operations x) (\<lambda>_.
        bindw assert_now (\<lambda>_.
        bindw (guard_account x) (\<lambda>_. ret True))))
       (\<lambda>_. queues_unread x)) (\<lambda>read.
     if \<not> read then ret False
     else bindw (field ''bootstrapSignOutError'') (\<lambda>refusal.
       bindw (if truthy refusal then bindw (put_field ''bootstrapSignOutError'' Null) (\<lambda>_. calls [Render]) else ret ()) (\<lambda>_.
       ret True)))"

definition confirmed_sign_out :: "outside \<Rightarrow> session \<Rightarrow> bool" where
  "confirmed_sign_out x s \<longleftrightarrow> pending_operation_count (tab_state s) = 0 \<or> x_confirm x s"

text \<open>From the mark in the local storage on, the tab accepts no changes.\<close>

definition fence_mutations :: "unit act" where
  "fence_mutations =
     bindw current_now (\<lambda>current.
     if \<not> current then ret ()
     else bindw (put_field ''logoutRecoveryRequired'' (Bool True)) (\<lambda>_. calls [RenderProfile, RenderStatus]))"

definition revoke_and_clear :: "outside \<Rightarrow> (session \<Rightarrow> bool) \<Rightarrow> jv \<Rightarrow> bool \<Rightarrow> cleanup \<Rightarrow> bool act" where
  "revoke_and_clear x late owner durable i =
     bindw (field ''csrfToken'') (\<lambda>token.
     bindw (start_revocation x token owner) (\<lambda>request.
     bindw current_now (\<lambda>current.
     if \<not> current then ret False
     else
       bindw (run_with (\<lambda>s. assert_cleanup_identity (s_app s) i)) (\<lambda>_.
       bindw (settle_detached_revocation x late request) (\<lambda>revoked.
       bindw current_now (\<lambda>current.
       if \<not> current then ret False
       else
         bindw (run_with (\<lambda>s. assert_cleanup_identity (s_app s) i)) (\<lambda>_.
         complete_account_cleanup x i
           \<lparr>m_clear = revoked, m_durable = durable, m_operation = ''session.logout.cleanup-incomplete''\<rparr>)))))))"

text \<open>The result is true only when the tab has left the account.\<close>

definition logout :: "outside \<Rightarrow> (session \<Rightarrow> bool) \<Rightarrow> bool act" where
  "logout x late =
     bindw capture_now (\<lambda>_.
     bindw (asks (\<lambda>s. i_owner (o_identity (s_context s)))) (\<lambda>owner.
     bindw (read_pending_queues_before_logout x) (\<lambda>read.
     if \<not> read then ret False
     else
       bindw assert_now (\<lambda>_.
       bindw (asks (confirmed_sign_out x)) (\<lambda>confirmed.
       if \<not> confirmed then ret False
       else
         bindw assert_now (\<lambda>_.
         bindw (mark_pending_logout x) (\<lambda>durable.
         bindw capture_now (\<lambda>_.
         bindw (run_with (\<lambda>s. cleanup_identity (s_app s))) (\<lambda>i.
         bindw close_stream (\<lambda>_.
         bindw fence_mutations (\<lambda>_.
         revoke_and_clear x late owner durable i)))))))))))"

definition retry_sign_out :: "outside \<Rightarrow> (session \<Rightarrow> bool) \<Rightarrow> bool act" where
  "retry_sign_out x late =
     bindw (field ''logoutRecoveryBusy'') (\<lambda>busy.
     if truthy busy then ret False
     else
       bindw (put_field ''logoutRecoveryBusy'' (Bool True)) (\<lambda>_.
       bindw (calls [Render]) (\<lambda>_.
       bindw (ensuring (apart (logout x late))
         (bindw (put_field ''logoutRecoveryBusy'' (Bool False)) (\<lambda>_. calls [Render]))) (\<lambda>cleaned.
       bindw (if cleaned then redirect_to_login x else ret ()) (\<lambda>_. ret cleaned)))))"

definition retry_pending_logout :: "outside \<Rightarrow> (session \<Rightarrow> unit res) \<Rightarrow> (session \<Rightarrow> bool) \<Rightarrow> bool act" where
  "retry_pending_logout x load late =
     bindw (asks (\<lambda>s. g_cleanup_retry (s_page s))) (\<lambda>retry.
     if retry then retry_sign_out x late
     else bindw (run_with capture_database_context) (\<lambda>c. under (Some c) (resume_pending_startup x load)))"

section \<open>Deleting the account\<close>

definition deletion_marker_unavailable :: "outside \<Rightarrow> bool act" where
  "deletion_marker_unavailable x =
     bindw (calls [Notice (Str (tr (x_catalog x) ''account.delete.recoveryUnavailable'' []
       ''Account was not deleted because recovery information could not be saved. Your local data was kept. Check browser storage and retry.''))])
       (\<lambda>_. ret False)"

definition deletion_refused :: "outside \<Rightarrow> js_error \<Rightarrow> bool act" where
  "deletion_refused x e =
     bindw current_now (\<lambda>current.
     if \<not> current then ret False
     else bindw (calls [Notice (Str (if message_of e \<noteq> [] then message_of e
         else tr (x_catalog x) ''account.delete.failed'' [] ''Account deletion failed. Your local data was kept.'')),
       Warned, Reported ''session.delete-account.request-failed'']) (\<lambda>_. ret False))"

definition send_deletion :: "outside \<Rightarrow> jv \<Rightarrow> obj \<Rightarrow> bool act" where
  "send_deletion x confirmation headers =
     bindw (field ''csrfToken'') (\<lambda>token.
     bindw (fetch_url x ''/api/v1/account''
       ([(''Content-Type'', Str ''application/json''), (''X-CSRF-Token'', token)] @ headers)
       (json_stringify (Obj [(''confirmation'', confirmation)]))) (\<lambda>response.
     bindw assert_now (\<lambda>_.
     if ok_status response then ret True
     else
       bindw (if r_status response \<in> {401, 400, 403}
         then bindw (write_pending_deletion_attempt x None) (\<lambda>_. ret ()) else ret ()) (\<lambda>_.
       fail (status_text x ''account.delete.httpFailed'' ''Account deletion failed'' response)))))"

text \<open>The attempt is recorded before the request leaves, so that an answer that is lost is found again.\<close>

definition recorded_deletion :: "outside \<Rightarrow> jv \<Rightarrow> obj \<Rightarrow> bool act" where
  "recorded_deletion x confirmation headers =
     bindw (guard_account x) (\<lambda>_.
     bindw assert_now (\<lambda>_.
     bindw (asks (\<lambda>s. [(''userId'', i_owner (o_identity (s_context s))), (''csrfToken'', fld (tab_state s) ''csrfToken'')]))
       (\<lambda>attempt.
     bindw (write_pending_deletion_attempt x (Some attempt)) (\<lambda>written.
     if \<not> written then deletion_marker_unavailable x else send_deletion x confirmation headers))))"

definition request_account_deletion :: "outside \<Rightarrow> jv \<Rightarrow> bool act" where
  "request_account_deletion x confirmation =
     bindw assert_now (\<lambda>_.
     bindw (asks (\<lambda>s. account_headers (i_owner (o_identity (s_context s))))) (\<lambda>headers. case headers of
       Inl e \<Rightarrow> bindw (report_deletion_marker_failure e) (\<lambda>_. deletion_marker_unavailable x)
     | Inr headers \<Rightarrow> handling (recorded_deletion x confirmation (map (\<lambda>(k, v). (k, Str v)) headers)) (deletion_refused x)))"

definition account_deletion_confirmation_is_valid :: "jv \<Rightarrow> bool" where
  "account_deletion_confirmation_is_valid v \<longleftrightarrow> v = Str ''DELETE''"

text \<open>After the server has deleted the account, this device is signed out and cleared.\<close>

definition clear_deleted_account :: "outside \<Rightarrow> bool act" where
  "clear_deleted_account x =
     bindw assert_now (\<lambda>_.
     bindw (mark_pending_logout x) (\<lambda>_.
     bindw capture_now (\<lambda>_.
     bindw (run_with (\<lambda>s. cleanup_identity (s_app s))) (\<lambda>i.
     bindw (close_stream_for_identity_change Undef) (\<lambda>_.
     bindw (complete_account_cleanup x i
       \<lparr>m_clear = True, m_durable = True, m_operation = ''session.delete-account.cleanup-retry''\<rparr>) (\<lambda>cleaned.
     bindw (asks pending_local_logout) (\<lambda>pending.
     bindw (if pending then ret () else bindw (write_pending_deletion_attempt x None) (\<lambda>_. ret ())) (\<lambda>_.
     ret cleaned))))))))"

definition confirm_delete_account :: "outside \<Rightarrow> jv \<Rightarrow> bool act" where
  "confirm_delete_account x v =
     (if \<not> account_deletion_confirmation_is_valid v then
        bindw (calls [Notice (Str (tr (x_catalog x) ''account.delete.invalid'' []
          ''Account was not deleted. Type DELETE exactly to confirm.''))]) (\<lambda>_. ret False)
      else bindw (field ''csrfToken'') (\<lambda>token.
        if \<not> truthy token then
          bindw (calls [Notice (Str (tr (x_catalog x) ''account.delete.offline'' []
            ''Connect to the account server before deleting your account.''))]) (\<lambda>_. ret False)
        else
          bindw capture_now (\<lambda>_.
          bindw (request_account_deletion x v) (\<lambda>deleted.
          if \<not> deleted then ret False else clear_deleted_account x))))"

text \<open>Evaluation runs an operation only when it is given its session.\<close>

lemmas tab_sign_out_code [code] =
  left_account_def[THEN fun_cong] cleanup_incomplete_def[THEN fun_cong] forget_sign_out_def[THEN fun_cong]
  cleanup_done_def[THEN fun_cong] complete_account_cleanup_def[THEN fun_cong]
  report_deferred_revocation_def[THEN fun_cong] start_revocation_def[THEN fun_cong]
  revocation_answer_def[THEN fun_cong] settle_detached_revocation_def[THEN fun_cong]
  queues_unread_def[THEN fun_cong] guard_account_def[THEN fun_cong]
  read_pending_queues_before_logout_def[THEN fun_cong] fence_mutations_def[THEN fun_cong]
  revoke_and_clear_def[THEN fun_cong] logout_def[THEN fun_cong] retry_sign_out_def[THEN fun_cong]
  retry_pending_logout_def[THEN fun_cong] deletion_marker_unavailable_def[THEN fun_cong]
  deletion_refused_def[THEN fun_cong] send_deletion_def[THEN fun_cong] recorded_deletion_def[THEN fun_cong]
  request_account_deletion_def[THEN fun_cong] clear_deleted_account_def[THEN fun_cong]
  confirm_delete_account_def[THEN fun_cong]

end
