(* ===== verification/TabMoves.thy ===== *)
theory TabMoves
  imports TabRelations TabSignOut
begin

text \<open>
  The relations of \<open>TabRelations\<close>, for the stream, the resolution of histories and the session: which
  of these operations may send a mutation, wait for the action lock, or bind themselves to the
  present account.
\<close>

section \<open>Cases\<close>

lemma moves_sum [moves_intros]:
  "(\<And>a. moves R (f a)) \<Longrightarrow> (\<And>b. moves R (g b)) \<Longrightarrow> moves R (case v of Inl a \<Rightarrow> f a | Inr b \<Rightarrow> g b)"
  by (cases v) auto

lemma moves_limit [moves_intros]:
  "(\<And>a b c. moves R (f a b c)) \<Longrightarrow> moves R m \<Longrightarrow> moves R (case e of ResolutionLimitError a b c \<Rightarrow> f a b c | _ \<Rightarrow> m)"
  by (cases e) auto

lemma moves_revocation [moves_intros]:
  "(\<And>a. moves R (f a)) \<Longrightarrow> (\<And>b. moves R (g b)) \<Longrightarrow> moves R (case v of Unsent a \<Rightarrow> f a | Sent b \<Rightarrow> g b)"
  by (cases v) auto

section \<open>Resolution of histories\<close>

context session_relation
begin

lemma moves_stream [moves_intros]:
  "moves R close_ended_stream" "moves R (open_revision_stream x)" "moves R (receive_revision_hint v)"
  "moves R (stream_message b v)" "moves R (stream_error x b)" "moves R (poll_remote_state x)"
  unfolding stream_message_def stream_error_def receive_revision_hint_def poll_remote_state_def open_revision_stream_def
    close_ended_stream_def
  by (intro moves_intros; simp)+

lemma moves_gate [moves_intros]: "moves R (acquire_gate x)" "moves R (next_request_sequence x)"
  unfolding acquire_gate_def next_request_sequence_def by (intro moves_intros; simp)+

lemma moves_choice_parts [moves_intros]:
  "moves R (load_bootstrap_preview x)" "moves R (persist_bootstrap_resolution x strategy replace)"
  "moves R (handle_resolution_limit e)" "moves R reset_bootstrap_state"
  "moves R (apply_bootstrap_response x payload pending timing validated)"
  "moves R (validate_bootstrap_submission x pending)" "moves R queue_bootstrap_preparation"
  "moves R (recover_invalid_bootstrap_submission x)" "moves R (resolution_conflict conflict)" "moves R begin_submission"
  "moves R (bootstrap_failure message)" "moves R (validation_failed x e)" "moves R (submission_failed e)"
  "moves R submission_finished" "moves R (retry_failed e)" "moves R (choice_failed x e)"
  unfolding load_bootstrap_preview_def persist_bootstrap_resolution_def handle_resolution_limit_def
    reset_bootstrap_state_def apply_bootstrap_response_def validate_bootstrap_submission_def
    queue_bootstrap_preparation_def recover_invalid_bootstrap_submission_def resolution_conflict_def begin_submission_def
    bootstrap_failure_def validation_failed_def submission_failed_def submission_finished_def retry_failed_def choice_failed_def
  by (intro moves_intros; simp)+

end

context waiting_relation
begin

lemma moves_accept_resolution [moves_intros]: "moves R (accept_bootstrap_response x payload pending timing)"
  unfolding accept_bootstrap_response_def by (intro moves_intros; simp)

end

context syncing_relation
begin

lemma moves_submission [moves_intros]:
  "moves R (send_bootstrap_resolution x pending)" "moves R (submit_bootstrap_resolution x)"
  "moves R (refetch_and_replace x strategy)" "moves R (retry_bootstrap_resolution x)"
  unfolding retry_bootstrap_resolution_def refetch_and_replace_def submit_bootstrap_resolution_def
    send_bootstrap_resolution_def
  by (intro moves_intros; simp)+

end

section \<open>Preparation\<close>

context session_relation
begin

lemma moves_preparation_parts [moves_intros]:
  "moves R read_records" "moves R defer_bootstrap_preparation" "moves R (restart_failed e)"
  "moves R (reconcile_bootstrap_account x)" "moves R (settle_saved_resolution x)" "moves R (build_bootstrap_plan x)"
  "moves R (install_plan plan)" "moves R (revise_plan x kept)" "moves R (automatic_failed e)" "moves R ask_for_strategy"
  unfolding reconcile_bootstrap_account_def settle_saved_resolution_def revise_plan_def build_bootstrap_plan_def
    install_plan_def automatic_failed_def ask_for_strategy_def restart_failed_def read_records_def
    defer_bootstrap_preparation_def
  by (intro moves_intros; simp)+

lemma moves_until_over [moves_intros]: "list_all (moves R) ms \<Longrightarrow> moves R (until_over ms)"
  by (induction ms) (auto intro!: moves_intros)

end

context syncing_relation
begin

lemma moves_resume [moves_intros]:
  "moves R (resume_normal_sync_from_bootstrap x persisted)"
  "(\<And>v. moves R (f v)) \<Longrightarrow> moves R (resume_if_owned x f)"
  unfolding resume_if_owned_def resume_normal_sync_from_bootstrap_def by (intro moves_intros; simp)+

lemma moves_preparation [moves_intros]:
  "moves R (acquire_bootstrap_preparation_gate x)" "moves R (submit_matching_bootstrap_resolution x)"
  "moves R (adopt_saved_resolution x resolution)" "moves R (reconcile_persisted_bootstrap_state x)"
  "moves R (prepare_bootstrap_plan x)" "moves R (persist_automatic_bootstrap_resolution x)"
  unfolding reconcile_persisted_bootstrap_state_def adopt_saved_resolution_def submit_matching_bootstrap_resolution_def
    acquire_bootstrap_preparation_gate_def prepare_bootstrap_plan_def persist_automatic_bootstrap_resolution_def
  by (intro moves_intros; simp)+

lemma moves_prepare [moves_intros]:
  "moves R (prepare_bootstrap_once x)" "moves R (prepare_bootstrap x)" "moves R (deferred_preparation x)"
  unfolding deferred_preparation_def prepare_bootstrap_def prepare_bootstrap_once_def
  by (intro moves_intros; simp add: moves_intros)+

end

section \<open>Signing in\<close>

context session_relation
begin

lemma moves_joined [moves_intros]: "moves R m \<Longrightarrow> moves R (joined scope m)" "moves R m' \<Longrightarrow> moves R (apart m')"
proof -
  show "moves R m \<Longrightarrow> moves R (joined scope m)" unfolding joined_def by (intro moves_intros)
  show "moves R (apart m')" if "moves R m'"
    unfolding moves_def
  proof
    fix s
    obtain r t where m: "m' s = (r, t)" by (metis surj_pair)
    have "R (s\<lparr>s_context := s_context s\<rparr>) (r = Inl Hangs) t" using movesD[OF that m] by simp
    from under[OF this] show "R s (fst (apart m' s) = Inl Hangs) (snd (apart m' s))" by (simp add: apart_def m)
  qed
qed

lemma moves_deletion [moves_intros]:
  "moves R (request_deletion_recovery x attempt)" "moves R (mark_in x)" "moves R (remove_deleted_data x issuer)"
  "moves R (forget_deletion x record i)" "moves R (deletion_failed record e)" "moves R (leave_if_current x)"
  "moves R (finish_deletion x go)" "moves R (complete_deletion_recovery x record issuer)"
  "moves R (recovery_answered x attempt record recovery response)" "moves R (recover_pending_deletion x)"
  unfolding recover_pending_deletion_def recovery_answered_def complete_deletion_recovery_def finish_deletion_def
    leave_if_current_def deletion_failed_def forget_deletion_def remove_deleted_data_def mark_in_def
    request_deletion_recovery_def
  by (intro moves_intros; simp)+

lemma moves_pending_sign_out [moves_intros]:
  "moves R (request_session_revocation x token owner)" "moves R (revoke_pending x i token)" "moves R (complete_sign_out i)"
  "moves R (revoke_and_leave x i token)" "moves R (finish_pending_logout x payload identity)"
  "moves R (finish_sign_in_landing x i)"
  unfolding finish_sign_in_landing_def finish_pending_logout_def revoke_and_leave_def complete_sign_out_def
    revoke_pending_def request_session_revocation_def
  by (intro moves_intros; simp)+

lemma moves_load_session [moves_intros]:
  "moves R (sign_in x answer)" "moves R (session_answered x identity answer)" "moves R (load_session x)"
  "moves R (clear_own_gate x)" "moves R (activate_cached_owner_offline x)" "moves R (release_recovery_gate x)"
  "moves R (reload_session x)" "moves R handle_offline" "moves R (report_storage_unavailable x e)"
  "moves R (initialize_shared_core x load)" "moves R (recovery_finished scope)"
  unfolding reload_session_def load_session_def session_answered_def sign_in_def release_recovery_gate_def
    activate_cached_owner_offline_def clear_own_gate_def handle_offline_def report_storage_unavailable_def
    initialize_shared_core_def recovery_finished_def
  by (intro moves_intros; simp)+

lemma moves_while_current [moves_intros]: "list_all (moves R) ms \<Longrightarrow> moves R (while_current ms)"
  by (induction ms) (auto intro!: moves_intros)

lemma moves_deferred [moves_intros]:
  "moves R (deferred_for_recovery x)" "moves R (deferred_to_cache x)" "moves R (session_deferred x e)"
  "moves R (remain_offline x)"
  unfolding session_deferred_def deferred_for_recovery_def deferred_to_cache_def remain_offline_def
  by (intro moves_intros; simp add: moves_intros)+

end

context syncing_relation
begin

lemma moves_session [moves_intros]: "moves R (initialize_session x)" "moves R (go_online x)"
  unfolding initialize_session_def go_online_def by (intro moves_intros; simp)+

end

section \<open>Loading and starting\<close>

context session_relation
begin

lemma moves_loading [moves_intros]:
  "moves R (migrate_duration_queue_from_settings x)" "moves R (bootstrap_legacy_durations x)"
  "moves R (read_local_records)" "moves R (persist_new_local_identity x records)" "moves R (start_migrations x device)"
  "moves R (normalized_resolution x resolution)" "moves R (restore_records x records resolution)" "moves R (take_gate x)"
  "moves R (load_records x resolution)" "moves R (conceal_records x)" "moves R (restore_local_workspace x)"
  unfolding restore_local_workspace_def conceal_records_def load_records_def take_gate_def restore_records_def
    normalized_resolution_def start_migrations_def persist_new_local_identity_def read_local_records_def
    bootstrap_legacy_durations_def migrate_duration_queue_from_settings_def
  by (intro moves_intros; simp)+

end

context capturing_relation
begin

lemma moves_load_local_state [moves_intros]:
  "moves R (load_local_state x issued)" "moves R (opened_storage x)" "moves R (initialize_storage x)"
  unfolding initialize_storage_def opened_storage_def load_local_state_def by (intro moves_intros; simp)+

end

locale starting_relation = acting_relation + syncing_relation

context starting_relation
begin

lemma moves_choose [moves_intros]: "moves R (choose_bootstrap_strategy x strategy confirmed)"
  unfolding choose_bootstrap_strategy_def by (intro moves_intros; simp)

lemma moves_start [moves_intros]:
  "moves R (start_with_storage x)" "moves R (start_after_cleanup x cleared)" "moves R (resume_storage_and_session x load)"
  "moves R (resume_startup x load)" "moves R (start_page x load)" "moves R (resume_pending_startup x load)"
  "moves R (restore_session_and_sync x load)" "moves R (handle_online x load)"
  unfolding handle_online_def restore_session_and_sync_def resume_pending_startup_def start_page_def resume_startup_def
    resume_storage_and_session_def start_after_cleanup_def start_with_storage_def
  by (intro moves_intros moves_pending_logout(1)[OF moves_run(1)]; simp)+

end

section \<open>Leaving an account\<close>

context session_relation
begin

lemma moves_leaving [moves_intros]:
  "moves R (left_account x scope)" "moves R (cleanup_incomplete x m e scope)" "moves R (forget_sign_out i clear)"
  "moves R (cleanup_done x i m completed)" "moves R (complete_account_cleanup x i m)"
  "moves R report_deferred_revocation" "moves R (revocation_answer x headers)"
  "moves R (start_revocation x token owner)" "moves R (settle_detached_revocation x late request)"
  unfolding complete_account_cleanup_def cleanup_done_def cleanup_incomplete_def forget_sign_out_def left_account_def
    settle_detached_revocation_def revocation_answer_def start_revocation_def report_deferred_revocation_def
  by (intro moves_intros; simp add: posts_def moves_intros)+

lemma moves_sign_out_parts [moves_intros]:
  "moves R (queues_unread x)" "moves R (guard_account x)" "moves R (read_pending_queues_before_logout x)"
  "moves R fence_mutations" "moves R (revoke_and_clear x late owner durable i)" "moves R (deletion_marker_unavailable x)"
  "moves R (deletion_refused x e)" "moves R (send_deletion x confirmation headers)"
  "moves R (recorded_deletion x confirmation headers)" "moves R (request_account_deletion x confirmation)"
  unfolding revoke_and_clear_def fence_mutations_def read_pending_queues_before_logout_def queues_unread_def guard_account_def
    request_account_deletion_def recorded_deletion_def send_deletion_def deletion_refused_def deletion_marker_unavailable_def
  by (intro moves_intros; simp)+

end

context capturing_relation
begin

lemma moves_sign_out [moves_intros]:
  "moves R (logout x late)" "moves R (retry_sign_out x late)" "moves R (clear_deleted_account x)"
  "moves R (confirm_delete_account x v)"
  unfolding confirm_delete_account_def clear_deleted_account_def retry_sign_out_def logout_def
  by (intro moves_intros; simp)+

end

interpretation lock_starting: starting_relation hangs_stuck
  by unfold_locales

end
