(* ===== verification/TabSamples.thy ===== *)
theory TabSamples
  imports TabPerform Samples
begin

text \<open>
  A tab on which the witnesses of the tab's properties run: signed in as the user of the sample
  database, with a Core that projects an empty workspace, a server that answers, and no other
  activity.
\<close>

definition sample_projection :: jv where
  "sample_projection = Obj [(''workspace'', Obj [(''canonicalTimer'', Null), (''history'', Arr []), (''tasks'', Arr []),
     (''durationsMs'', DEFAULT_DURATIONS), (''autoStartBreaks'', Bool False), (''selectedTaskId'', Null)])]"

definition tab_core :: core_call where
  "tab_core operation input =
     (if operation = ''workspace.project.v1'' then Inr sample_projection
      else if operation = ''clock.observe.v1'' then Inr (Obj
        [(''trustedNowMs'', jint 1700000000000), (''state'', Obj [(''runtime'', Null)])])
      else sample_core operation input)"

definition tab_env :: env where
  "tab_env = sample_env\<lparr>e_shared := Some \<lparr>a_call = Some tab_core,
     a_method = (\<lambda>m. if m = ''reconcileSynchronizedState'' then Some sample_reconcile else None)\<rparr>\<rparr>"

definition sample_outside :: outside where
  "sample_outside = \<lparr>x_env = (\<lambda>_. tab_env), x_uuid = (\<lambda>_ _. ''uuid''), x_monotonic = (\<lambda>_. Null), x_catalog = None,
     x_collate = (\<lambda>a b. if a < b then -1 else if b < a then 1 else 0), x_alert = (\<lambda>_. Null), x_open = (\<lambda>_. Inr 1),
     x_online = (\<lambda>_. True), x_fetch = (\<lambda>_ _ _ _. Inr \<lparr>r_status = 503, r_body = Null\<rparr>),
     x_identity = (\<lambda>_ title. Inr (Obj [(''id'', Str ''task''), (''title'', Str title)])),
     x_store = (\<lambda>_ _. None), x_random = (\<lambda>_. None), x_address = None, x_confirm = (\<lambda>_. True)\<rparr>"

definition sample_tab :: obj where
  "sample_tab = assign (create_state (Str ''tab-1''))
     [(''ready'', Bool True), (''authenticated'', Bool True), (''sessionIdentityValidated'', Bool True),
      (''user'', Obj [(''id'', Str ''user-1'')]), (''localOwnerId'', Str ''user-1''), (''deviceId'', Str ''device-1''),
      (''csrfToken'', Str ''token''), (''bootstrapBlocked'', Bool False), (''timerDependencies'', Arr [])]"

definition tab_db :: database where
  "tab_db = sample_db\<lparr>d_meta := st_put ''snapshot''
     (Obj (as_obj (sample_snapshot 3) @ [(''durationsMs'', DEFAULT_DURATIONS)])) (d_meta sample_db)\<rparr>"

definition sample_session :: session where
  "sample_session = (let app = \<lparr>a_state = sample_tab, a_database = 1, a_logout = Some (Null, Null)\<rparr> in
     \<lparr>s_app = app, s_db = tab_db, s_in_flight = [], s_generation = 1, s_runtime = Null, s_continuity = Null,
       s_page = \<lparr>g_sign_in = Null, g_deletion = Null, g_failures = [], g_redirecting = False, g_requests = 0,
         g_cleanup_retry = False, g_submission = None, g_stream = None\<rparr>, s_number = 1,
       s_context = \<lparr>o_database = 1, o_identity = \<lparr>i_owner = Str ''user-1'', i_local = Str ''user-1'',
         i_marker = logout_marker app\<rparr>, o_generation = None, o_deletion = None\<rparr>,
       s_calls = [], s_others = [], s_timing = Null, s_failed = None\<rparr>)"

text \<open>The same user, with the incarnation of the account that the server knows.\<close>

definition known_user :: jv where
  "known_user = Obj [(''id'', Str ''user-1''), (''accountIncarnation'', Str (replicate 64 (CHR ''a'')))]"

definition known_owner :: jv where
  "known_owner = Str (account_prefix @ replicate 64 (CHR ''a''))"

end
