(* ===== verification/TabSafety.thy ===== *)
theory TabSafety
  imports TabMoves TabSamples
begin

text \<open>
  Properties of the action lock of a tab: an action runs alone, comes back, and gives the lock
  back; what waits for the lock waits for nothing else.
\<close>

section \<open>The lock\<close>

definition bound_action :: "outside \<Rightarrow> bool act \<Rightarrow> bool" where
  "bound_action x m \<longleftrightarrow> (\<exists>bound intent options operation. m = issue_workspace_intent x bound intent options operation)
     \<or> (\<exists>automatic expected. m = finish_timer x automatic expected)"

lemma bound_action_moves: "capturing_relation R \<Longrightarrow> bound_action x m \<Longrightarrow> moves R m"
  unfolding bound_action_def
  by (elim disjE exE; simp add: capturing_relation.moves_intent capturing_relation.moves_actions)

text \<open>What an action may do to the lock: nothing while it is held, and give back what it took.\<close>

definition respects_lock :: "session \<Rightarrow> session \<Rightarrow> bool" where
  "respects_lock s t \<longleftrightarrow> (if locked s then t = s else \<not> locked t)"

lemma ensuring_state:
  assumes "ensuring m f s = (r, t)" "r \<noteq> Inl Hangs"
  shows "\<exists>u. t = snd (f u)"
  using assms by (auto simp: ensuring_def bindw_def throw_def ret_def split: prod.splits sum.splits stop.splits) (metis snd_conv)+

lemma with_lock_released:
  assumes "with_action_lock m s = (r, t)" "r \<noteq> Inl Hangs"
  shows "\<not> locked t"
proof -
  have "\<exists>v. ensuring m (put_field ''actionLocked'' (Bool False)) v = (r, t)"
    using assms(1) by (auto simp: with_action_lock_def bindw_def put_field_def modify_def)
  then obtain u where "t = snd (put_field ''actionLocked'' (Bool False) u)"
    using assms(2) ensuring_state by blast
  then show ?thesis by (simp add: locked_def put_field_def modify_def set_tab_def tab_state_def)
qed

text \<open>Parts that only read, and parts that run only while the lock is free.\<close>

definition reads :: "'a act \<Rightarrow> bool" where
  "reads m \<longleftrightarrow> (\<forall>s. snd (m s) = s)"

definition keeps_lock :: "(session \<Rightarrow> bool) \<Rightarrow> 'a act \<Rightarrow> bool" where
  "keeps_lock I m \<longleftrightarrow> (\<forall>s. I s \<longrightarrow> fst (m s) \<noteq> Inl Hangs \<longrightarrow> respects_lock s (snd (m s)))"

lemma reads_intros:
  "reads (ret a)" "reads (run r)" "reads (asks f)" "reads (run_with g)" "reads (field k)" "reads owner_now"
  "reads controls_closed" "reads (expected_or_now v)"
  by (auto simp: reads_def ret_def run_def asks_def run_with_def field_def owner_now_def controls_closed_def
      expected_or_now_def split: sum.split option.split)

lemma keeps_lock_after:
  assumes "reads m" "\<And>a. keeps_lock I (f a)"
  shows "keeps_lock I (bindw m f)"
  using assms by (auto simp: keeps_lock_def reads_def bindw_def respects_lock_def split: prod.split sum.split) (metis snd_conv)+

lemma keeps_lock_closed:
  assumes "reads m" "keeps_lock (\<lambda>s. \<not> locked s) n"
  shows "keeps_lock (\<lambda>s. True) (bindw controls_closed (\<lambda>closed. if closed then m else n))"
  using assms
  by (auto simp: keeps_lock_def reads_def bindw_def controls_closed_def run_with_def run_def bindr_def respects_lock_def
      locked_def split: sum.split if_splits)

lemma keeps_lock_taken: "keeps_lock (\<lambda>s. \<not> locked s) (with_action_lock m)"
  by (auto simp: keeps_lock_def respects_lock_def) (metis prod.collapse with_lock_released)

lemma keeps_lock_free:
  assumes "\<And>s. tab_state (snd (m s)) = tab_state s" "\<And>a. keeps_lock (\<lambda>s. \<not> locked s) (f a)"
  shows "keeps_lock (\<lambda>s. \<not> locked s) (bindw m f)"
  using assms
  by (auto simp: keeps_lock_def bindw_def respects_lock_def locked_def split: prod.split sum.split) (metis snd_conv)+

lemma capture_keeps_tab: "tab_state (snd (capture_now s)) = tab_state s"
  by (auto simp: capture_now_def bindw_def run_with_def run_def modify_def tab_state_def split: sum.split)

lemma refused_state:
  "tab_state (snd (bindw (calls cs) (\<lambda>_. ret a) s)) = tab_state s" "tab_state (snd (ret a s)) = tab_state s"
  by (simp_all add: bindw_def calls_def modify_def ret_def tab_state_def)

lemma keeps_lock_refused:
  "keeps_lock (\<lambda>s. \<not> locked s) (bindw (calls cs) (\<lambda>_. ret a))" "keeps_lock (\<lambda>s. \<not> locked s) (ret a)"
  by (simp_all add: keeps_lock_def respects_lock_def locked_def refused_state)

lemma keeps_lock_if: "keeps_lock I m \<Longrightarrow> keeps_lock I n \<Longrightarrow> keeps_lock I (if b then m else n)"
  by simp

lemma bind_keeps_tab: "tab_state (snd ((if bound then ret () else capture_now) s)) = tab_state s"
  by (simp add: capture_keeps_tab ret_def)

lemma action_keeps_lock:
  "keeps_lock (\<lambda>s. True) (issue_workspace_intent x bound intent options operation)"
  "keeps_lock (\<lambda>s. True) (finish_timer x automatic expected)"
  unfolding issue_workspace_intent_def finish_timer_def
  by (intro keeps_lock_closed keeps_lock_after keeps_lock_if keeps_lock_refused keeps_lock_taken reads_intros
      keeps_lock_free[OF bind_keeps_tab] keeps_lock_free[OF capture_keeps_tab])+



text \<open>The operations of a tab that wait for the lock, as far as their result does not matter.\<close>

definition waiting_operation :: "outside \<Rightarrow> (session \<Rightarrow> unit res) \<Rightarrow> unit act \<Rightarrow> bool" where
  "waiting_operation x load m \<longleftrightarrow>
     m = perform_sync x \<or> m = submit_bootstrap_resolution x \<or> m = retry_bootstrap_resolution x
   \<or> (\<exists>strategy confirmed. m = choose_bootstrap_strategy x strategy confirmed) \<or> m = prepare_bootstrap x
   \<or> m = bindw (start_page x load) (\<lambda>_. ret ()) \<or> m = handle_online x load
   \<or> (\<exists>expected intent operation. m = bindw (issue_when_unlocked x expected intent operation) (\<lambda>_. ret ()))"

lemma waiting_moves: "waiting_operation x load m \<Longrightarrow> moves hangs_stuck m"
  unfolding waiting_operation_def
  by (elim disjE exE) (auto intro!: lock_acting.moves_bindw lock_acting.moves_run(1) lock_syncing.moves_sync lock_syncing.moves_submission
      lock_syncing.moves_prepare lock_starting.moves_choose lock_starting.moves_start lock_acting.moves_waiting_actions)


text \<open>A tab whose action never ends.\<close>

definition busy_session :: session where
  "busy_session = set_tab (obj_put ''actionLocked'' (Bool True) (tab_state sample_session)) sample_session"

lemma preference_waits:
  "waiting_operation x load (bindw (issue_when_unlocked x expected intent operation) (\<lambda>_. ret ()))"
  unfolding waiting_operation_def by blast

lemma busy_waits: "fst (bindw (issue_when_unlocked sample_outside None Null []) (\<lambda>_. ret ()) busy_session) = Inl Hangs"
  by code_simp


section \<open>Operations of the session\<close>

text \<open>Signing in and leaving an account, as far as their result does not matter.\<close>

definition account_operation :: "outside \<Rightarrow> (session \<Rightarrow> bool) \<Rightarrow> unit act \<Rightarrow> bool" where
  "account_operation x late m \<longleftrightarrow>
     m = bindw (load_session x) (\<lambda>_. ret ()) \<or> m = bindw (activate_cached_owner_offline x) (\<lambda>_. ret ())
   \<or> m = bindw (logout x late) (\<lambda>_. ret ()) \<or> m = bindw (retry_sign_out x late) (\<lambda>_. ret ())
   \<or> (\<exists>v. m = bindw (confirm_delete_account x v) (\<lambda>_. ret ()))"

lemma account_moves: "capturing_relation R \<Longrightarrow> account_operation x late m \<Longrightarrow> moves R m"
  unfolding account_operation_def
  by (elim disjE exE) (auto intro!: session_relation.moves_bindw session_relation.moves_run(1) session_relation.moves_load_session
      capturing_relation.moves_sign_out capturing_relation.axioms(1))



end
