(* ===== verification/TabStates.thy ===== *)
theory TabStates
  imports TabSafety AppSafety
begin

text \<open>
  What the operations on the stored work leave in a tab: loading hides the owner's work until the
  account is validated, a reload shows one state of the database, and a removal takes everything
  or nothing.
\<close>

section \<open>Parts of operations\<close>

lemma run_with_Inr: "run_with g s = (Inr a, t) \<longleftrightarrow> g s = Inr a \<and> t = s"
  by (auto simp: run_with_def run_def split: sum.split)

lemma ret_Inr: "ret v s = (Inr a, t) \<longleftrightarrow> a = v \<and> t = s"
  by (auto simp: ret_def)

lemma modify_Inr: "modify f s = (Inr a, t) \<longleftrightarrow> t = f s"
  by (auto simp: modify_def)

section \<open>Loading\<close>

definition hidden :: "obj \<Rightarrow> bool" where
  "hidden st \<longleftrightarrow> truthy (fld st ''quarantinedLocal'') \<and> list_all (\<lambda>(k, v). fld st k = v) initial_ownership_state"

lemma quarantine_hidden: "hidden (quarantine_owner_state b st)"
  using quarantined_initial by (auto simp: hidden_def quarantined_local list_all_iff)

lemma conceal_hides:
  assumes "conceal_records x s = (Inr c, t)"
  shows "hidden (tab_state t) \<and> capture_database_context t = Inr c"
  using assms
  by (auto simp: conceal_records_def bindw_Inr_iff run_with_Inr modify_Inr set_tab_def tab_state_def quarantine_hidden)

lemma workspace_hides:
  assumes "restore_local_workspace x s = (Inr c, t)"
  shows "hidden (tab_state t) \<and> capture_database_context t = Inr c"
proof -
  obtain u where "conceal_records x u = (Inr c, t)"
    using assms unfolding restore_local_workspace_def bindw_Inr_iff by (fastforce simp: bindw_Inr_iff split: prod.splits)
  then show ?thesis by (rule conceal_hides)
qed

lemma loaded_hides:
  assumes "load_local_state x issued s = (Inr loaded, t)"
  shows "case loaded of Inl c \<Rightarrow> hidden (tab_state t) \<and> capture_database_context t = Inr c
    | Inr (e, None) \<Rightarrow> True | Inr (e, Some c) \<Rightarrow> capture_database_context t = Inr c"
proof -
  obtain u where u: "handling (bindw (restore_local_workspace x) (\<lambda>c. ret (Inl c)))
       (\<lambda>e. bindw current_now (\<lambda>current.
         if current then bindw (run_with capture_database_context) (\<lambda>c. ret (Inr (e, Some c)))
         else ret (Inr (e, None)))) u = (Inr loaded, t)"
    using assms unfolding load_local_state_def bindw_Inr_iff by blast
  then consider c where "loaded = Inl c" "restore_local_workspace x u = (Inr c, t)"
    | e where "loaded = Inr (e, None)" | e c where "loaded = Inr (e, Some c)" "capture_database_context t = Inr c"
    by (auto simp: handling_def catch_def throw_def bindw_Inr_iff ret_Inr run_with_Inr current_now_def
        split: prod.splits sum.splits stop.splits if_splits)
  then show ?thesis by cases (auto dest: workspace_hides)
qed

text \<open>
  Loading hides the owner's work. Whatever other tabs do while the records of the database are
  loaded, when the loading completes the live state has none of them: every field of the owner is
  at its initial value, the copy that a validated session will restore is kept aside, and the
  context that is returned is that of the state as it is left. So it is for the context that a
  failure to load returns for its recovery.
\<close>

theorem load_hides_work:
  "case load_local_state x issued s of
     (Inr (Inl c), t) \<Rightarrow> hidden (tab_state t) \<and> capture_database_context t = Inr c
   | (Inr (Inr (e, Some c)), t) \<Rightarrow> capture_database_context t = Inr c
   | _ \<Rightarrow> True"
  using loaded_hides[of x issued s]
  by (auto split: prod.splits sum.splits option.splits)

section \<open>Removing\<close>

definition emptied :: "database \<Rightarrow> bool" where
  "emptied db \<longleftrightarrow> \<not> meta_present db ''snapshot'' \<and> \<not> meta_present db ''bootstrapResolution''
     \<and> list_all (\<lambda>d. queue_items db d = []) DOMAINS"

text \<open>Without other activity, the database is the one at the start or has been emptied.\<close>

definition undivided :: "database \<Rightarrow> session \<Rightarrow> bool" where
  "undivided db s \<longleftrightarrow> s_others s = [] \<and> (s_db s = db \<or> emptied (s_db s))"

lemma undivided_modify [keeps_intros]:
  "(\<And>s. s_others (f s) = s_others s) \<Longrightarrow> (\<And>s. s_db (f s) = s_db s) \<Longrightarrow> keeps (undivided db) (modify f)"
  by (simp add: keeps_def modify_def undivided_def)

lemma undivided_await [keeps_intros]: "keeps (undivided db) await"
  by (simp add: keeps_def await_def undivided_def)

lemma undivided_context: "undivided db (s\<lparr>s_context := c\<rparr>) = undivided db s"
  by (simp add: undivided_def)

lemma undivided_under [keeps_intros]:
  assumes "keeps (undivided db) m"
  shows "keeps (undivided db) (under scope m)"
proof (cases scope)
  case None
  with assms show ?thesis by (simp add: under_def)
next
  case (Some c)
  have "undivided db (snd (m (s\<lparr>s_context := c\<rparr>)))" if "undivided db s" for s
    using assms that by (simp add: keeps_def undivided_context)
  then show ?thesis
    by (simp add: Some under_def keeps_def undivided_context case_prod_unfold)
qed

lemma undivided_calls [keeps_intros]: "keeps (undivided db) (calls cs)"
  unfolding calls_def by (intro keeps_intros) simp_all

lemma transact_undivided:
  assumes "\<And>env d. d = db \<or> emptied d \<Longrightarrow> snd (f env d) = db \<or> emptied (snd (f env d))"
  shows "keeps (undivided db) (transact_as x current f)"
proof -
  have "keeps (undivided db) (\<lambda>s. case f ((x_env x s)\<lparr>e_current := current s\<rparr>) (s_db s) of (r, d) \<Rightarrow> (Inr r, s\<lparr>s_db := d\<rparr>))"
    using assms by (simp add: keeps_def undivided_def case_prod_unfold)
  then show ?thesis unfolding transact_as_def by (intro keeps_intros)
qed

lemma guarded_mutation_cases:
  obtains e where "guarded_mutation env db allow input operation = (Inl e, db)"
  | a t where "guarded_mutation env db allow input operation = (Inr a, t_db t)"
      "operation (read_results (mutation_context_requests []) db) \<lparr>t_db = db, t_error = None\<rparr> = Inr (a, t)"
proof -
  define change where "change = (\<lambda>r t.
     bindr (ensure (allow \<or> \<not> res_present r ''gate'' \<and> \<not> res_present r ''resolution'') gate_error) (\<lambda>_.
     bindr (assert_storage_context env r input) (\<lambda>_.
     bindr (assert_account_ownership (res_value r ''snapshot'') (coalesce (fld input ''expectedUserId'') Null)) (\<lambda>_.
     bindr (assert_response_display_context env r (fld input ''deviceId'')) (\<lambda>_.
     operation r t)))))"
  have run: "guarded_mutation env db allow input operation = run_results (mutation_context_requests []) db change"
    by (simp add: guarded_mutation_def change_def)
  show thesis
  proof (cases "fst (run_results (mutation_context_requests []) db change)")
    case (Inl e)
    then show thesis using that(1) run run_results_aborted by (metis prod.collapse)
  next
    case (Inr a)
    then obtain t where t: "change (read_results (mutation_context_requests []) db) \<lparr>t_db = db, t_error = None\<rparr> = Inr (a, t)"
        "snd (run_results (mutation_context_requests []) db change) = t_db t"
      by (rule run_results_Inr)
    then show thesis using Inr by (intro that(2)[of a t]) (auto simp: run change_def bindr_Inr_iff prod_eq_iff)
  qed
qed

lemma emptied_empty: "emptied empty_database"
  by (simp add: emptied_def empty_database_def meta_present_def queue_items_def st_all_def list_all_iff)

lemma emptied_meta_delete: "emptied (t_db (meta_delete ''bootstrapGate'' t)) = emptied (t_db t)"
  unfolding emptied_def meta_present_delete by (simp add: meta_delete_def queue_items_def)

text \<open>A removal in the database: it empties the database, or fails and changes nothing.\<close>

definition removal :: "(env \<Rightarrow> database \<Rightarrow> unit res \<times> database) \<Rightarrow> bool" where
  "removal f \<longleftrightarrow> (\<forall>env db. (\<exists>e. f env db = (Inl e, db)) \<or> (\<exists>db'. f env db = (Inr (), db') \<and> emptied db'))"

lemma removal_guarded:
  assumes "\<And>env r db a t. operation env r \<lparr>t_db = db, t_error = None\<rparr> = Inr (a, t) \<Longrightarrow> emptied (t_db t)"
  shows "removal (\<lambda>env db. guarded_mutation env db allow input (operation env))"
  unfolding removal_def
proof (intro allI)
  fix env db
  show "(\<exists>e. guarded_mutation env db allow input (operation env) = (Inl e, db))
    \<or> (\<exists>db'. guarded_mutation env db allow input (operation env) = (Inr (), db') \<and> emptied db')"
    by (rule guarded_mutation_cases) (auto dest: assms)
qed

lemma transact_removal:
  assumes "removal f"
  shows "keeps (undivided db) (transact_as x current f)"
    and "s_others s = [] \<Longrightarrow> transact_as x current f s = (Inr (), t) \<Longrightarrow> emptied (s_db t)"
proof -
  have "snd (f env d) = db \<or> emptied (snd (f env d))" if "d = db \<or> emptied d" for env d
  proof -
    consider e where "f env d = (Inl e, d)" | d' where "f env d = (Inr (), d')" "emptied d'"
      using assms[unfolded removal_def, rule_format, of env d] by auto
    then show ?thesis using that by cases auto
  qed
  then show "keeps (undivided db) (transact_as x current f)" by (rule transact_undivided)
  assume others: "s_others s = []" and run: "transact_as x current f s = (Inr (), t)"
  obtain r d where r: "f ((x_env x s)\<lparr>e_current := current s\<rparr>) (s_db s) = (r, d)" by (metis surj_pair)
  have "r = Inr () \<and> s_db t = d"
    using run others r
    by (auto simp: transact_as_def bindw_Inr_iff run_with_Inr await_def run_def split: sum.splits)
  with r assms show "emptied (s_db t)" unfolding removal_def by (metis prod.inject sum.distinct(1))
qed

lemma undivided_clear_all:
  "keeps (undivided db) (clear_all x i)"
  "s_others s = [] \<Longrightarrow> clear_all x i s = (Inr (), t) \<Longrightarrow> emptied (s_db t)"
proof -
  have "removal (\<lambda>env db. guarded_mutation env db True [(''expectedUserId'', c_expected i), (''currentUserId'', c_expected i)]
      (\<lambda>_ t. bindr (e_current env) (\<lambda>_. Inr ((), clear_stores t))))"
    by (rule removal_guarded) (auto simp: bindr_Inr_iff clear_stores_def emptied_empty)
  from transact_removal[OF this] show "keeps (undivided db) (clear_all x i)"
    "s_others s = [] \<Longrightarrow> clear_all x i s = (Inr (), t) \<Longrightarrow> emptied (s_db t)"
    by (simp_all add: clear_all_def)
qed

lemma undivided_confirm:
  "keeps (undivided db) (confirm_cleanup_already_complete x i)"
  "s_others s = [] \<Longrightarrow> confirm_cleanup_already_complete x i s = (Inr (), t) \<Longrightarrow> emptied (s_db t)"
proof -
  have ok: "removal (\<lambda>env db. guarded_mutation env db True [(''expectedUserId'', Null), (''currentUserId'', c_expected i)]
      (\<lambda>r t. bindr (e_current env) (\<lambda>_.
         bindr (ensure (\<not> meta_present (t_db t) ''snapshot'' \<and> \<not> meta_present (t_db t) ''bootstrapResolution''
           \<and> list_all (\<lambda>d. queue_items (t_db t) d = []) DOMAINS) account_error) (\<lambda>_.
         Inr ((), if strict_eq (getp (res_value r ''gate'') ''token'') tab then meta_delete ''bootstrapGate'' t else t)))))" for tab
    by (rule removal_guarded)
      (auto simp: bindr_Inr_iff ensure_Inr_iff emptied_meta_delete simp flip: emptied_def split: if_splits)
  show "keeps (undivided db) (confirm_cleanup_already_complete x i)"
    unfolding confirm_cleanup_already_complete_def by (intro keeps_intros transact_removal(1)[OF ok])
  show "s_others s = [] \<Longrightarrow> confirm_cleanup_already_complete x i s = (Inr (), t) \<Longrightarrow> emptied (s_db t)"
    unfolding confirm_cleanup_already_complete_def by (simp add: bindw_def asks_def transact_removal(2)[OF ok])
qed

lemma undivided_cleared:
  "keeps (undivided db) (cleared_or_confirmed x i)"
  "s_others s = [] \<Longrightarrow> cleared_or_confirmed x i s = (Inr (), t) \<Longrightarrow> emptied (s_db t)"
proof -
  show "keeps (undivided db) (cleared_or_confirmed x i)"
    unfolding cleared_or_confirmed_def by (intro keeps_intros undivided_clear_all undivided_confirm)
  assume others: "s_others s = []" and run: "cleared_or_confirmed x i s = (Inr (), t)"
  obtain r u where c: "clear_all x i s = (r, u)" by (metis surj_pair)
  have "s_others u = []"
    using keepsD[OF undivided_clear_all(1) _ c, of "s_db s"] others by (simp add: undivided_def)
  with run c others show "emptied (s_db t)"
    by (auto simp: cleared_or_confirmed_def handling_def catch_def throw_def fail_def bindw_Inr_iff run_with_Inr
        split: sum.splits stop.splits if_splits dest: undivided_clear_all(2) undivided_confirm(2))
qed

lemma undivided_parts [keeps_intros]:
  "keeps (undivided db) assert_now" "keeps (undivided db) current_now" "keeps (undivided db) (open_database x)"
  "keeps (undivided db) (set_connection n)" "keeps (undivided db) account_mismatch"
  unfolding assert_now_def current_now_def open_database_def set_connection_def account_mismatch_def effects_def
    revalidate_session_def close_stream_def set_page_def
  by (intro keeps_intros; simp add: set_tab_def)+

lemma undivided_opened: "keeps (undivided db) (clear_opened_data x i)"
  unfolding clear_opened_data_def cleanup_failed_def storage_failure_def
  by (intro keeps_intros undivided_cleared; simp)

lemma undivided_removal: "keeps (undivided db) (clear_local_data x i)"
  unfolding clear_local_data_def clear_authorized_local_data_def open_cleanup_database_def
  by (intro keeps_intros undivided_opened; simp)

text \<open>What a completed removal leaves.\<close>

lemma opened_completed:
  assumes "s_others s = []" "clear_opened_data x i s = (Inr c, t)"
  shows "emptied (s_db t) \<and> a_database (s_app t) = 0 \<and> s_others t = []"
proof -
  obtain n u where body: "handling (cleared_or_confirmed x i) (cleanup_failed i n) s = (Inr (), u)"
      and t: "s_db t = s_db u" "a_database (s_app t) = 0" "s_others t = s_others u"
    using assms(2)
    by (auto simp: clear_opened_data_def bindw_Inr_iff run_with_Inr asks_def calls_def modify_def set_connection_def)
  have failed: "cleanup_failed i n e v \<noteq> (Inr (), w)" for e v w
    by (auto simp: cleanup_failed_def storage_failure_def fail_def throw_def bindw_Inr_iff split: if_splits)
  have cleared: "cleared_or_confirmed x i s = (Inr (), u)"
    using body failed by (auto simp: handling_def catch_def throw_def split: prod.splits sum.splits stop.splits)
  have "s_others u = []"
    using keepsD[OF undivided_cleared(1) _ cleared, of "s_db s"] assms(1) by (simp add: undivided_def)
  with undivided_cleared(2)[OF assms(1) cleared] t show ?thesis by simp
qed

lemma removal_completed:
  assumes "s_others s = []" "clear_local_data x i s = (Inr c, t)"
  shows "emptied (s_db t) \<and> a_database (s_app t) = 0"
proof -
  define v where "v = s\<lparr>s_failed := None\<rparr>"
  obtain u where u: "clear_authorized_local_data x i v = (Inr c, u)" and t: "(Inr (), t) = await u"
    using assms(2) by (auto simp: clear_local_data_def bindw_Inr_iff run_with_Inr ret_Inr modify_Inr v_def)
  have quiet: "undivided (s_db s) v" using assms(1) by (simp add: undivided_def v_def)
  have "keeps (undivided (s_db s)) (clear_authorized_local_data x i)"
    unfolding clear_authorized_local_data_def open_cleanup_database_def by (intro keeps_intros undivided_opened; simp)
  then have "undivided (s_db s) u" using quiet u by (rule keepsD)
  with t have "t = u" by (simp add: undivided_def await_def)
  define prepare where "prepare = bindw (asks (\<lambda>s. a_database (s_app s))) (\<lambda>n.
     if n = 0 then bindw (open_cleanup_database x i) (\<lambda>c. ret (Some c)) else ret None)"
  have keep: "keeps (undivided (s_db s)) prepare"
    unfolding prepare_def open_cleanup_database_def by (intro keeps_intros; simp)
  obtain scope w where w: "prepare v = (Inr scope, w)" "under scope (clear_opened_data x i) w = (Inr c, u)"
    using u unfolding clear_authorized_local_data_def prepare_def bindw_Inr_iff run_with_Inr by blast
  have "s_others w = []" using keepsD[OF keep quiet w(1)] by (simp add: undivided_def)
  with w(2) \<open>t = u\<close> show ?thesis
    by (cases scope) (auto simp: under_def split: prod.splits dest: opened_completed[rotated])
qed

lemma context_ok_failed: "context_ok (s\<lparr>s_failed := f\<rparr>) c = context_ok s c"
  by (auto simp: context_ok_def split: option.split)


definition sample_cleanup :: cleanup where
  "sample_cleanup = \<lparr>c_user = Str ''user-1'', c_local = Str ''user-1'', c_recovery = None,
     c_marker = logout_marker_state (s_app sample_session), c_expected = Str ''user-1'', c_authenticated = Undef\<rparr>"

lemma sample_removal: "case fst (clear_local_data sample_outside sample_cleanup sample_session) of Inr c \<Rightarrow> True | Inl e \<Rightarrow> False"
  by code_simp


section \<open>Reloading\<close>

text \<open>The queues of a tab and those of a database, as the tab orders them.\<close>

definition shown_work :: "obj \<Rightarrow> jv list" where
  "shown_work st = map (fld st) [''pending'', ''pendingTaskOperations'', ''pendingDurationOperations'',
     ''pendingAutoStartOperations'', ''pendingSelectedTaskOperations'', ''outgoingSync'']"

definition stored_work :: "outside \<Rightarrow> database \<Rightarrow> jv list" where
  "stored_work x db =
     [sorted_queue compare_timer_commands (objs (queue_items db Commands)), objs (queue_items db TaskOperations),
      sorted_queue (compare_duration_operations (x_collate x)) (objs (queue_items db DurationOperations)),
      objs (queue_items db AutoStartOperations), objs (queue_items db SelectedTaskOperations),
      or_else (meta_value db ''outgoingSync'') Null]"

lemma put_each_fld:
  assumes "put_each fs s = (Inr (), t)" "filter (\<lambda>p. fst p = k) fs = [(k, \<lambda>_. Inr v)]"
  shows "fld (tab_state t) k = v"
proof -
  have "fld (tab_state t) k = (if filter (\<lambda>p. fst p = k) fs = [] then fld (tab_state s) k else v)"
    if "\<forall>p \<in> set (filter (\<lambda>p. fst p = k) fs). snd p = (\<lambda>_. Inr v)"
    using assms(1) that
  proof (induction fs arbitrary: s)
    case Nil
    then show ?case by (simp add: put_each_def ret_def)
  next
    case (Cons p fs)
    obtain j f where p: "p = (j, f)" by (cases p)
    obtain w where w: "f (tab_state s) = Inr w" "put_each fs (set_tab (obj_put j w (tab_state s)) s) = (Inr (), t)"
      using Cons.prems(1)
      by (auto simp: put_each_def p bindw_Inr_iff run_with_Inr put_field_def modify_Inr)
    from Cons.IH[OF w(2)] Cons.prems(2) w(1) show ?case
      by (auto simp: p set_tab_def tab_state_def split: if_splits)
  qed
  with assms(2) show ?thesis by simp
qed

lemma install_shows:
  assumes "put_each (install_fields x records) s = (Inr (), t)"
  shows "shown_work (tab_state t) =
     [sorted_queue compare_timer_commands (getp records ''commands''), queue_or_empty (getp records ''taskOperations''),
      sorted_queue (compare_duration_operations (x_collate x)) (getp records ''durationOperations''),
      queue_or_empty (getp records ''autoStartOperations''), queue_or_empty (getp records ''selectedTaskOperations''),
      or_else (getp records ''outgoing'') Null]"
  unfolding shown_work_def list.map list.inject
  by (intro conjI put_each_fld[OF assms] refl;
      unfold install_fields_def Let_def filter_append; simp cong: if_weak_cong split del: if_split)

lemma fld_spread_other: "k \<notin> fst ` set b \<Longrightarrow> fld (spread a b) k = fld a k"
  by (induction b arbitrary: a) (auto simp: spread_def)

lemma rebuild_shows:
  assumes "rebuild x s = (Inr (), t)"
  shows "shown_work (tab_state t) = shown_work (tab_state s)"
proof -
  obtain st es where st: "rebuild_optimistic_state (x_env x s) (x_alert x s) (tab_state s) = Inr (st, es)"
      and t: "effects es (set_tab st s) = (Inr (), t)"
    using assms by (auto simp: rebuild_def bindw_Inr_iff run_with_Inr modify_Inr)
  obtain new where "st = assign (tab_state s) new" "set (map fst new) \<subseteq> {''timer'', ''history'', ''tasks'', ''durationsMs'', ''autoStartBreaks'', ''selectedTaskId'', ''workspaceBlocked''}"
      and es: "es = [StopCompletionAlert] \<or> es = []"
    using st by (auto simp: rebuild_optimistic_state_def project_owner_state_def bindr_Inr_iff Let_def split: if_splits)
  then have "shown_work st = shown_work (tab_state s)"
    unfolding shown_work_def assign_def by (auto intro!: fld_spread_other)
  moreover have "tab_state t = st"
    using t es by (auto simp: effects_def bindw_Inr_iff calls_def modify_Inr ret_Inr set_tab_def tab_state_def)
  ultimately show ?thesis by simp
qed

lemma reading_moment:
  assumes "reading f s = (Inr a, t)"
  shows "\<exists>n. a = f (s_db (after_others n s))"
proof -
  obtain u where "await s = (Inr (), u)" "a = f (s_db u)"
    using assms by (auto simp: reading_def bindw_Inr_iff run_with_Inr asks_def ret_Inr)
  moreover have "s_db u = s_db (after_others 1 s)"
    using calculation(1) by (auto simp: await_def after_others_def split: list.splits)
  ultimately show ?thesis by (intro exI[of _ 1]) simp
qed

lemma read_sync_work:
  "queue_or_empty (fld (read_sync_state db) ''taskOperations'') = objs (queue_items db TaskOperations)"
  "queue_or_empty (fld (read_sync_state db) ''autoStartOperations'') = objs (queue_items db AutoStartOperations)"
  "queue_or_empty (fld (read_sync_state db) ''selectedTaskOperations'') = objs (queue_items db SelectedTaskOperations)"
  "fld (read_sync_state db) ''commands'' = objs (queue_items db Commands)"
  "fld (read_sync_state db) ''durationOperations'' = objs (queue_items db DurationOperations)"
  "or_else (fld (read_sync_state db) ''outgoing'') Null = or_else (meta_value db ''outgoingSync'') Null"
  by (simp_all add: read_sync_state_def fld_def DOMAINS_def queue_or_empty_def objs_def or_else_def read_canonical_state_def)

text \<open>
  C39: A reload shows one state of the database. After a completed reload the queues of the tab
  and its saved claim are those of the database at a single moment of the reload, in the order
  the tab keeps: whatever other tabs write meanwhile, no two of them come from different moments,
  and no earlier change that is only in the memory of the tab survives.
\<close>

theorem reload_shows_database:
  assumes "reload_persisted_state x None by_mutation s = (Inr (), t)"
  shows "\<exists>n. shown_work (tab_state t) = stored_work x (s_db (after_others n s))"
proof -
  obtain records v u w where read: "reading (\<lambda>db. Obj (read_sync_state db)) s = (Inr records, v)"
      and publish: "publish_in (install_persisted_state x records) u = (Inr (), t)"
    using assms unfolding reload_persisted_state_def bindw_Inr_iff assert_now_def owner_now_def run_with_Inr option.case
    by blast
  obtain n where n: "records = Obj (read_sync_state (s_db (after_others n s)))"
    using reading_moment[OF read] by blast
  obtain w where w: "install_persisted_state x records u = (Inr (), w)" "tab_state t = tab_state w"
    using publish
    by (auto simp: publish_in_def publish_scope_def bindw_Inr_iff assert_now_def run_with_Inr modify_Inr ret_Inr tab_state_def)
  then obtain p where "put_each (install_fields x records) u = (Inr (), p)" "rebuild x p = (Inr (), w)"
    by (auto simp: install_persisted_state_def bindw_Inr_iff)
  then have "shown_work (tab_state t) = stored_work x (s_db (after_others n s))"
    unfolding n w(2)
    by (auto dest!: install_shows rebuild_shows simp: stored_work_def read_sync_work)
  then show ?thesis by blast
qed

text \<open>A tab that has just been opened, over the sample database.\<close>

definition opened_session :: session where
  "opened_session = set_tab [(''user'', Obj [(''id'', Str ''user-1'')]), (''localOwnerId'', Str ''user-1''),
     (''selectedPhase'', Str ''focus''), (''deviceId'', Str ''device-1'')] sample_session"

lemma sample_reload: "fst (reload_persisted_state sample_outside None False opened_session) = Inr ()"
  by code_simp

theorem reload_shows_database_witness:
  "shown_work (tab_state (snd (reload_persisted_state sample_outside None False opened_session)))
    = stored_work sample_outside tab_db"
proof -
  obtain t where run: "reload_persisted_state sample_outside None False opened_session = (Inr (), t)"
    using sample_reload by (metis prod.collapse)
  have "s_db (after_others n opened_session) = tab_db" for n
    by (simp add: after_others_def opened_session_def set_tab_def sample_session_def Let_def)
  with reload_shows_database[OF run] run show ?thesis by simp
qed

end
