(* ===== verification/TabPosts.thy ===== *)
theory TabPosts
  imports TabRelations ClaimSafety TabSamples
begin

text \<open>
  What a synchronization sends. Most of its parts send nothing, which the relations of operations
  show. What may send is bounded in number and restricted to requests with a property, as long as
  the context keeps its owner.
\<close>

named_theorems owner_intros

section \<open>The owner of the context\<close>

definition owner_is :: "jv \<Rightarrow> session \<Rightarrow> bool" where
  "owner_is w s \<longleftrightarrow> owner_of s = w"

lemma keeps_owner_is [owner_intros]:
  assumes "moves keeps_owner m" "truthy w"
  shows "keeps (owner_is w) m"
  using assms by (auto simp: keeps_def moves_def keeps_owner_def owner_is_def)

lemma sends_nothingD: "moves sends_nothing m \<Longrightarrow> m s = (r, s') \<Longrightarrow> posts s' = posts s"
  by (auto dest: movesD simp: sends_nothing_def)

lemma silent_iff: "moves sends_nothing m \<longleftrightarrow> (\<forall>s. posts (snd (m s)) = posts s)"
  by (simp add: moves_def sends_nothing_def)

section \<open>Requests\<close>

definition sends :: "(session \<Rightarrow> bool) \<Rightarrow> nat \<Rightarrow> (call \<Rightarrow> bool) \<Rightarrow> 'a act \<Rightarrow> bool" where
  "sends I n P m \<longleftrightarrow> (\<forall>s. I s \<longrightarrow> (\<exists>new. posts (snd (m s)) = posts s @ new \<and> length new \<le> n \<and> list_all P new))"

lemma sendsD: "sends I n P m \<Longrightarrow> m s = (r, s') \<Longrightarrow> I s \<Longrightarrow> \<exists>new. posts s' = posts s @ new \<and> length new \<le> n \<and> list_all P new"
  by (metis sends_def snd_conv)

lemma sends_silent: "moves sends_nothing m \<Longrightarrow> sends I n P m"
  by (simp add: sends_def silent_iff)

lemma sends_bind:
  assumes "keeps I m" "sends I a P m" "\<And>v. sends I b P (f v)"
  shows "sends I (a + b) P (bindw m f)"
  unfolding sends_def
proof (intro allI impI)
  fix s assume "I s"
  obtain r s1 where m: "m s = (r, s1)" by (metis surj_pair)
  obtain new where new: "posts s1 = posts s @ new" "length new \<le> a" "list_all P new"
    using sendsD[OF assms(2) m \<open>I s\<close>] by blast
  show "\<exists>new. posts (snd (bindw m f s)) = posts s @ new \<and> length new \<le> a + b \<and> list_all P new"
  proof (cases r)
    case (Inl e)
    with m new show ?thesis by (auto simp: bindw_def)
  next
    case (Inr v)
    have "I s1" using keepsD[OF assms(1) \<open>I s\<close> m] .
    then obtain more where "posts (snd (f v s1)) = posts s1 @ more" "length more \<le> b" "list_all P more"
      using assms(3) by (auto simp: sends_def)
    with m new Inr show ?thesis by (auto simp: bindw_def intro!: exI[of _ "new @ more"])
  qed
qed

lemma sends_after: "moves sends_nothing m \<Longrightarrow> keeps I m \<Longrightarrow> (\<And>v. sends I n P (f v)) \<Longrightarrow> sends I n P (bindw m f)"
  using sends_bind[of I m 0 P n f] by (simp add: sends_silent)

lemma sends_before: 
  assumes "sends I n P m" "\<And>v. moves sends_nothing (f v)"
  shows "sends I n P (bindw m f)"
  unfolding sends_def
proof (intro allI impI)
  fix s assume "I s"
  obtain r s1 where m: "m s = (r, s1)" by (metis surj_pair)
  have "posts (snd (bindw m f s)) = posts s1"
    using assms(2) by (simp add: bindw_def m silent_iff split: sum.split)
  with sendsD[OF assms(1) m \<open>I s\<close>] show "\<exists>new. posts (snd (bindw m f s)) = posts s @ new \<and> length new \<le> n \<and> list_all P new"
    by simp
qed

lemma sends_if: "(b \<Longrightarrow> sends I n P m) \<Longrightarrow> (\<not> b \<Longrightarrow> sends I n P k) \<Longrightarrow> sends I n P (if b then m else k)"
  by simp

lemma sends_run_with:
  "(\<And>s v. g s = Inr v \<Longrightarrow> sends I n P (f v)) \<Longrightarrow> sends I n P (bindw (run_with g) f)"
  unfolding sends_def bindw_def run_with_def run_def by (auto split: sum.split)

lemma sends_assert: "sends (\<lambda>s. I s \<and> live s) n P (f ()) \<Longrightarrow> sends I n P (bindw assert_now f)"
  by (auto simp: sends_def bindw_def assert_now_def run_with_def run_def live_def split: sum.split)

lemma silent_throw: "moves sends_nothing (throw e)"
  by (simp add: silent_iff throw_def)

lemma handled_posts: "(\<And>e. moves sends_nothing (h e)) \<Longrightarrow> posts (snd (handling m h s)) = posts (snd (m s))"
  by (auto simp: handling_def catch_def throw_def silent_iff split: prod.splits sum.splits stop.splits)

lemma ensured_posts:
  fixes m :: "'a act"
  assumes "moves sends_nothing f"
  shows "posts (snd (ensuring m f s)) = posts (snd (m s))"
proof -
  have "moves sends_nothing (bindw f (\<lambda>_. throw e))" "moves sends_nothing (bindw f (\<lambda>_. ret a))" for e :: stop and a :: 'a
    using assms by (auto intro!: silent.moves_bindw silent_throw silent.moves_run)
  then show ?thesis by (auto simp: ensuring_def silent_iff split: prod.splits sum.split stop.split)
qed

lemma bindw_asks: "bindw (asks f) g s = g (f s) s"
  by (simp add: bindw_def asks_def)

lemma fetch_sends:
  assumes "truthy w"
  shows "sends (owner_is w) 1 (\<lambda>p. p = Posted url body w True) (fetch_checked x url headers body)"
  unfolding fetch_checked_def
proof (rule sends_after, rule silent.moves_state, rule keeps_owner_is, rule owned.moves_state, rule assms,
    rule sends_after, rule silent.moves_run, rule keeps_run,
    rule sends_after, rule silent.moves_state, rule keeps_owner_is, rule owned.moves_state, rule assms,
    rule sends_assert, rule sends_before)
  show "sends (\<lambda>s. owner_is w s \<and> live s) 1 (\<lambda>p. p = Posted url body w True)
     (modify (\<lambda>s. s\<lparr>s_calls := s_calls s @ [Posted url body (i_owner (o_identity (s_context s))) (live s)]\<rparr>))"
    by (auto simp: sends_def modify_def posts_def owner_is_def owner_of_def)
qed (intro moves_intros)

text \<open>The protocol of one attempt and its repetition.\<close>

lemma attempt_sends:
  assumes "truthy w"
  shows "sends (owner_is w) 1 (\<lambda>p. p = Posted url body w True) (send (mutation_post x url body headers token expected) csrf)"
proof -
  let ?i = "mutation_post x url body headers token expected"
  have fetch: "sends (owner_is w) 1 (\<lambda>p. p = Posted url body w True) (p_fetch ?i (p_url ?i) (request_headers ?i csrf) (p_body ?i))"
    using fetch_sends[OF assms] by (simp add: mutation_post_def)
  show ?thesis
    unfolding send_def
    by (intro sends_after[of "check_current _"] sends_after[of "p_sequence _"] sends_after[of "p_now _"]
        sends_before[OF fetch] moves_intros owner_intros assms)
qed

lemma attempt_keeps_owner:
  "truthy w \<Longrightarrow> keeps (owner_is w) (send (mutation_post x url body headers token expected) csrf)"
  unfolding send_def by (intro owner_intros moves_intros)

lemma retry_sends:
  assumes "truthy w"
  shows "sends (owner_is w) 2 (\<lambda>p. p = Posted url body w True)
    (post_json_with_csrf_retry (mutation_post x url body headers token expected))"
proof -
  let ?i = "mutation_post x url body headers token expected" and ?P = "\<lambda>p. p = Posted url body w True"
  have throws: "p_throw ?i e = Throws e" for e by (simp add: mutation_post_def)
  have again: "sends (owner_is w) 1 ?P (bindw (send ?i t) (\<lambda>response. bindw (check_current ?i) (\<lambda>_. ret response)))" for t
    by (intro sends_before attempt_sends moves_intros assms)
  have rest: "sends (owner_is w) 1 ?P (bindw (check_current ?i) (\<lambda>_. if r_status response \<noteq> 403 then ret response
      else bindw (check_current ?i) (\<lambda>_. bindw (p_refresh ?i) (\<lambda>token. bindw (check_current ?i) (\<lambda>_.
        bindw (require (nonempty_string token) (p_throw ?i (Error ''CSRF refresh failed.''))) (\<lambda>_.
        bindw (send ?i token) (\<lambda>response. bindw (check_current ?i) (\<lambda>_. ret response))))))))" for response
    unfolding throws
    by (intro sends_after[of "check_current _"] sends_after[of "p_refresh _"] sends_after[of "require _ _"] sends_if again
        sends_silent[of "ret _"] moves_intros owner_intros assms)
  have "sends (owner_is w) (1 + 1) ?P (post_json_with_csrf_retry ?i)"
    unfolding post_json_with_csrf_retry_def by (intro sends_bind rest attempt_sends attempt_keeps_owner assms)
  then show ?thesis by (simp add: numeral_2_eq_2)
qed

lemma post_mutation_sends:
  assumes "truthy w"
  shows "sends (owner_is w) 2 (\<lambda>p. p = Posted url body w True) (post_mutation x url body expected)"
  unfolding post_mutation_def
  by (intro sends_after[of assert_now] sends_after[of "run_with _"] sends_after[of "run _"] sends_after[of "modify _"]
      sends_after[of "field _"] sends_before[OF retry_sends[OF assms]] moves_intros owner_intros assms; simp)

text \<open>Without an account there are no headers, and nothing is sent.\<close>

lemma no_account_headers: "\<not> truthy expected \<Longrightarrow> \<exists>e. account_headers expected = Inl e"
  by (cases expected) (auto simp: account_headers_def account_prefix_def)

lemma post_without_account:
  assumes "\<not> truthy expected"
  shows "moves sends_nothing (post_mutation x url body expected)"
proof -
  obtain e where "account_headers expected = Inl e" using no_account_headers[OF assms] by blast
  then show ?thesis
    unfolding post_mutation_def bindw_run_cases by (auto intro!: moves_intros)
qed

lemma submit_without_account:
  assumes "\<not> truthy expected"
  shows "moves sends_nothing (submit_sync_batch x sent expected captured)"
  unfolding submit_sync_batch_def by (intro moves_intros post_without_account assms; simp)

lemma captured_body:
  assumes "capture_sync_claim captured sent expected device = Inr claim"
  shows "getp claim ''body'' = getp captured ''body''"
proof -
  have ok: "plain_object captured" "json_parse (getp captured ''body'') \<noteq> Inl SyntaxError" "claim = json_clone captured"
    using assms by (auto simp: capture_sync_claim_def captured_claim_ok_def bindr_Inr_iff ensure_Inr_iff)
  obtain kvs where kvs: "captured = Obj kvs" using ok(1) by (cases captured) auto
  obtain t where t: "getp captured ''body'' = JsonText t"
    using ok(2) by (cases "getp captured ''body''") (auto simp: json_parse_def)
  have "fld (concat (map (\<lambda>(k, v). case json_tree v of None \<Rightarrow> [] | Some t \<Rightarrow> [(k, t)]) kvs)) k = JsonText t"
    if "fld kvs k = JsonText t" for k kvs
    using that by (induction kvs) (auto simp: fld_def split: option.splits if_splits)
  then show ?thesis using t ok(3) by (simp add: kvs json_clone_def)
qed

lemma submit_sends:
  assumes "truthy w"
  shows "sends (owner_is w) 2 (\<lambda>p. p = Posted ''/api/v1/sync'' (getp captured ''body'') w True)
    (submit_sync_batch x sent expected captured)"
  unfolding submit_sync_batch_def
proof (rule sends_after, intro moves_intros, intro owner_intros moves_intros assms, rule sends_run_with)
  fix s claim
  assume "capture_sync_claim captured sent expected (fld (tab_state s) ''deviceId'') = Inr claim"
  then have body: "getp claim ''body'' = getp captured ''body''" by (rule captured_body)
  show "sends (owner_is w) 2 (\<lambda>p. p = Posted ''/api/v1/sync'' (getp captured ''body'') w True)
     (bindw (run (bindr (dot sent ''durationOperations'') ids_of)) (\<lambda>ids.
      bindw (set_in_flight ids) (\<lambda>_.
      bindw (post_mutation x ''/api/v1/sync'' (getp claim ''body'') expected) (\<lambda>(response, timing).
      bindw assert_now (\<lambda>_.
      if r_status response = 401 then redirect_to_login x
      else if r_status response = 409 then
        bindw (handling (response_json response) (\<lambda>_. ret (Obj []))) (\<lambda>conflict.
        bindw assert_now (\<lambda>_.
        if getp conflict ''error'' = Str ''account incarnation changed'' then fail account_error
        else fail (status_text x ''sync.failed'' ''Sync failed'' response)))
      else if \<not> ok_status response then fail (status_text x ''sync.failed'' ''Sync failed'' response)
      else
        bindw (response_json response) (\<lambda>payload.
        bindw assert_now (\<lambda>_.
        bindw (accept_sync_response x payload sent expected timing claim) (\<lambda>_.
        bindw assert_now (\<lambda>_.
        bindw (asks (\<lambda>s. has_pending_operations (tab_state s))) (\<lambda>pending.
        bindw (calls [BatchAccepted pending]) (\<lambda>_.
        put_field ''retrying'' (Bool False))))))))))))"
    unfolding body
    by (intro sends_after[of "run _"] sends_after[of "set_in_flight _"] sends_before[OF post_mutation_sends[OF assms]]
        moves_intros owner_intros assms; simp)
qed

definition claimed_by :: "jv \<Rightarrow> claim_result \<Rightarrow> bool" where
  "claimed_by w k \<longleftrightarrow> (\<exists>env db input db'. claim_workspace_batch env db input = (Inr k, db') \<and> fld input ''ownerId'' = w)"

lemma run_Inr_iff: "run r s = (Inr a, s') \<longleftrightarrow> r = Inr a \<and> s' = s"
  by (auto simp: run_def split: sum.split)

lemma transact_result:
  fixes a :: 'a
  assumes "transact x f s = (Inr a, s')"
  shows "\<exists>env db db'. f env db = (Inr a, db')"
proof -
  obtain t u where "(case f ((x_env x t)\<lparr>e_current := context_ok t (s_context t)\<rparr>) (s_db t) of
      (r, db) \<Rightarrow> (Inr r, t\<lparr>s_db := db\<rparr>)) = (Inr (Inr a) :: stop + 'a res, u)"
    using assms unfolding transact_def transact_as_def bindw_Inr_iff run_Inr_iff by blast
  then show ?thesis by (auto split: prod.splits)
qed

lemma claim_batch_claims:
  assumes "claim_batch x s = (Inr k, s')"
  shows "claimed_by (owner_of s) k \<and> posts s' = posts s \<and> (truthy (owner_of s) \<longrightarrow> owner_of s' = owner_of s)"
proof -
  define input where "input = context_fields s @
    [(''deviceId'', fld (tab_state s) ''deviceId''), (''localNowMs'', local_now x s)]"
  obtain t where "transact x (\<lambda>env db. claim_workspace_batch env db input) s = (Inr k, t)"
    using assms by (auto simp: claim_batch_def bindw_asks input_def[symmetric] bindw_Inr_iff ret_def)
  then have "\<exists>env db db'. claim_workspace_batch env db input = (Inr k, db')"
    by (rule transact_result)
  moreover have "fld input ''ownerId'' = owner_of s"
    by (simp add: input_def context_fields_def Let_def fld_def owner_of_def)
  moreover have "posts s' = posts s"
    using silent.moves_perform_parts(2) assms by (rule sends_nothingD)
  moreover have "truthy (owner_of s) \<longrightarrow> owner_of s' = owner_of s"
    using movesD[OF owned.moves_perform_parts(2) assms] by (simp add: keeps_owner_def)
  ultimately show ?thesis by (auto simp: claimed_by_def)
qed

definition sent_for :: "jv \<Rightarrow> claim_result \<Rightarrow> call list \<Rightarrow> bool" where
  "sent_for w k sent \<longleftrightarrow> claimed_by w k \<and> sendable k
     \<and> list_all (\<lambda>p. p = Posted ''/api/v1/sync'' (getp (k_claim k) ''body'') w True) sent"

lemma claim_and_submit_sends:
  assumes "claim_and_submit x s = (r, s')"
  shows "\<exists>sent. posts s' = posts s @ sent \<and> length sent \<le> 2 \<and> (sent = [] \<or> (\<exists>k. sent_for (owner_of s) k sent))"
proof -
  define rest where "rest = (\<lambda>k. if \<not> sendable k then
       bindw (record_unsendable_claim x (getp (k_plan k) ''status'') (k_claim k)) (\<lambda>_.
       bindw (field ''conflict'') (\<lambda>message. fail (Error (id_text message))))
     else bindw (install_claim x k) (\<lambda>_. bindw assert_now (\<lambda>_.
       submit_sync_batch x (getp (k_claim k) ''sent'') (owner_of s) (k_claim k))))"
  have run: "claim_and_submit x s = bindw (claim_batch x) rest s"
    unfolding claim_and_submit_def bindw_asks owner_of_def rest_def by (rule refl)
  obtain c s1 where c: "claim_batch x s = (c, s1)" by (metis surj_pair)
  have claimed: "posts s1 = posts s"
    using silent.moves_perform_parts(2) c by (rule sends_nothingD)
  show ?thesis
  proof (cases c)
    case (Inl e)
    then show ?thesis using assms c claimed unfolding run by (simp add: bindw_def)
  next
    case (Inr k)
    note k = claim_batch_claims[OF c[unfolded Inr]]
    have after: "rest k s1 = (r, s')" using assms c Inr unfolding run by (simp add: bindw_def)
    show ?thesis
    proof (cases "sendable k \<and> truthy (owner_of s)")
      case False
      have "moves sends_nothing (rest k)"
        unfolding rest_def using False by (auto intro!: moves_intros submit_without_account)
      with after claimed show ?thesis by (auto dest!: sends_nothingD)
    next
      case True
      have "sends (owner_is (owner_of s)) 2
          (\<lambda>p. p = Posted ''/api/v1/sync'' (getp (k_claim k) ''body'') (owner_of s) True) (rest k)"
        unfolding rest_def using True
        by (auto intro!: sends_after[of "install_claim _ _"] sends_after[of assert_now] submit_sends moves_intros owner_intros)
      with after k True show ?thesis by (auto dest!: sendsD simp: owner_is_def sent_for_def)
    qed
  qed
qed



end
