(* ===== verification/TabSubmits.thy ===== *)
theory TabSubmits
  imports TabPosts TabMoves TabSafety ResolutionSafety
begin

text \<open>
  What a resolution of histories sends, and how its answer is accepted: only the saved request
  leaves the tab, after the database says that it may have been delivered, and an answer gives
  the action lock back.
\<close>

section \<open>Sending a saved resolution\<close>

lemma always [simp]: "keeps (\<lambda>_. True) m"
  by (simp add: keeps_def)

lemma sends_weaken: "sends I n P m \<Longrightarrow> (\<And>s. J s \<Longrightarrow> I s) \<Longrightarrow> sends J n P m"
  by (auto simp: sends_def)

lemma sends_ensure:
  "sends (\<lambda>s. c s) n P (f ()) \<Longrightarrow> sends (\<lambda>_. True) n P (bindw (run_with (\<lambda>s. ensure (c s) e)) f)"
  by (auto simp: sends_def bindw_def run_with_def run_def ensure_def)

text \<open>A mutation is sent only under the account it is for.\<close>

lemma post_sends:
  "sends (\<lambda>_. True) 2 (\<lambda>p. p = Posted url body expected True) (post_mutation x url body expected)"
proof (cases "truthy expected")
  case False
  then show ?thesis by (intro sends_silent post_without_account)
next
  case True
  show ?thesis
    unfolding post_mutation_def
  proof (rule sends_after, rule silent.moves_state, rule always, rule sends_ensure, rule sends_weaken)
    show "sends (owner_is expected) 2 (\<lambda>p. p = Posted url body expected True)
      (bindw (run (account_headers expected)) (\<lambda>headers.
       bindw (modify (\<lambda>s. s\<lparr>s_timing := Null\<rparr>)) (\<lambda>_.
       bindw (field ''csrfToken'') (\<lambda>token.
       bindw (post_json_with_csrf_retry (mutation_post x url body (map (\<lambda>(k, v). (k, Str v)) headers) token expected)) (\<lambda>response.
       bindw assert_now (\<lambda>_.
       bindw (asks s_timing) (\<lambda>timing. ret (response, timing))))))))"
      by (intro sends_after[of "run _"] sends_after[of "modify _"] sends_after[of "field _"]
          sends_before[OF retry_sends[OF True]] moves_intros owner_intros True; simp)
  qed (auto simp: owner_is_def owner_of_def dest: strict_eq_imp_eq)
qed

definition resolution_post :: "jv \<Rightarrow> call \<Rightarrow> bool" where
  "resolution_post claimed p \<longleftrightarrow>
     p = Posted ''/api/v1/bootstrap/resolve'' (json_stringify (getp claimed ''payload'')) (getp claimed ''userId'') True"

lemma resolution_posts:
  "sends (\<lambda>_. True) 2 (resolution_post claimed)
    (post_mutation x ''/api/v1/bootstrap/resolve'' (json_stringify (getp claimed ''payload'')) (getp claimed ''userId''))"
  unfolding resolution_post_def[abs_def] by (rule post_sends)

lemma resolution_sends: "sends (\<lambda>_. True) 2 (resolution_post claimed) (send_bootstrap_resolution x claimed)"
  unfolding send_bootstrap_resolution_def
  by (intro sends_after[of assert_now] sends_before[OF resolution_posts] moves_intros always; simp)

text \<open>What a submission does with a claimed resolution.\<close>

definition submission_of :: "outside \<Rightarrow> jv \<Rightarrow> unit act" where
  "submission_of x claimed =
     bindw begin_submission (\<lambda>_.
     bindw (put_field ''bootstrapError'' Null) (\<lambda>_.
     bindw (calls [RenderDialog]) (\<lambda>_.
     ensuring (handling (send_bootstrap_resolution x claimed) submission_failed) submission_finished)))"

lemma submission_sends: "sends (\<lambda>_. True) 2 (resolution_post claimed) (submission_of x claimed)"
proof -
  have "sends (\<lambda>_. True) 2 (resolution_post claimed)
      (ensuring (handling (send_bootstrap_resolution x claimed) submission_failed) submission_finished)"
    using resolution_sends[of claimed x] unfolding sends_def
    by (simp add: ensured_posts handled_posts moves_intros)
  then show ?thesis
    unfolding submission_of_def
    by (intro sends_after[of begin_submission] sends_after[of "put_field _ _"] sends_after[of "calls _"] moves_intros always; simp)
qed

text \<open>A resolution that a transaction of the database has marked as possibly delivered.\<close>

definition marked :: "jv \<Rightarrow> bool" where
  "marked claimed \<longleftrightarrow> (\<exists>env db input db'. validate_pending_for_send env db input = (Inr claimed, db')
     \<and> (db_ok db \<longrightarrow> send_guarantee db input claimed db'))"

lemma claimed_marked:
  assumes "bindw (validate_bootstrap_submission x pending) (\<lambda>claimed. bindw assert_now (\<lambda>_. ret (Some claimed))) s
    = (Inr (Some claimed), t)"
  shows "marked claimed"
proof -
  obtain input u v where "transact x (\<lambda>env db. validate_pending_for_send env db input) u = (Inr claimed, v)"
    using assms by (auto simp: validate_bootstrap_submission_def bindw_asks bindw_Inr_iff ret_def)
  from transact_result[OF this] obtain env db db' where "validate_pending_for_send env db input = (Inr claimed, db')" by blast
  moreover from this have "db_ok db \<longrightarrow> send_guarantee db input claimed db'"
    using send_guaranteed[of db env input claimed] by simp
  ultimately show ?thesis unfolding marked_def by blast
qed

lemma failed_claims_nothing: "validation_failed x e s \<noteq> (Inr (Some claimed), t)"
  by (auto simp: validation_failed_def bindw_Inr_iff ret_def split: if_splits)

text \<open>The requests of an operation together: none, or those of one marked resolution.\<close>

definition saved_requests :: "call list \<Rightarrow> bool" where
  "saved_requests sent \<longleftrightarrow> length sent \<le> 2
     \<and> (sent = [] \<or> (\<exists>claimed. marked claimed \<and> list_all (resolution_post claimed) sent))"

definition sends_saved :: "'a act \<Rightarrow> bool" where
  "sends_saved m \<longleftrightarrow> (\<forall>s. \<exists>sent. posts (snd (m s)) = posts s @ sent \<and> saved_requests sent)"

lemma sends_savedD: "sends_saved m \<Longrightarrow> m s = (r, t) \<Longrightarrow> \<exists>sent. posts t = posts s @ sent \<and> saved_requests sent"
  by (metis sends_saved_def snd_conv)

lemma saved_silent: "moves sends_nothing m \<Longrightarrow> sends_saved m"
  by (simp add: sends_saved_def silent_iff saved_requests_def)

lemma saved_after:
  assumes "moves sends_nothing m" "\<And>s t v. m s = (Inr v, t) \<Longrightarrow> sends_saved (f v)"
  shows "sends_saved (bindw m f)"
  unfolding sends_saved_def
proof
  fix s
  obtain r t where m: "m s = (r, t)" by (metis surj_pair)
  have quiet: "posts t = posts s" by (rule sends_nothingD) (rule assms(1), rule m)
  show "\<exists>sent. posts (snd (bindw m f s)) = posts s @ sent \<and> saved_requests sent"
  proof (cases r)
    case (Inl e)
    with m quiet show ?thesis by (simp add: bindw_def saved_requests_def)
  next
    case (Inr v)
    from assms(2)[OF m[unfolded Inr]] have "\<exists>sent. posts (snd (f v t)) = posts t @ sent \<and> saved_requests sent"
      by (simp add: sends_saved_def)
    with m quiet Inr show ?thesis by (simp add: bindw_def)
  qed
qed

lemma saved_if: "sends_saved m \<Longrightarrow> sends_saved n \<Longrightarrow> sends_saved (if b then m else n)"
  by simp

text \<open>Until a resolution is claimed nothing is sent, and without one nothing at all.\<close>

lemma submission_saved: "marked claimed \<Longrightarrow> sends_saved (submission_of x claimed)"
  using submission_sends[of claimed x] unfolding sends_def sends_saved_def saved_requests_def by blast

lemma claim_saved:
  "sends_saved (bindw (handling (bindw (validate_bootstrap_submission x pending)
      (\<lambda>claimed. bindw assert_now (\<lambda>_. ret (Some claimed)))) (validation_failed x))
    (\<lambda>claimed. case claimed of None \<Rightarrow> ret () | Some claimed \<Rightarrow> submission_of x claimed))"
proof (rule saved_after)
  fix s t v
  assume run: "handling (bindw (validate_bootstrap_submission x pending)
      (\<lambda>claimed. bindw assert_now (\<lambda>_. ret (Some claimed)))) (validation_failed x) s = (Inr v, t)"
  show "sends_saved (case v of None \<Rightarrow> ret () | Some claimed \<Rightarrow> submission_of x claimed)"
  proof (cases v)
    case None
    then show ?thesis by (simp add: saved_silent moves_intros)
  next
    case (Some claimed)
    have "marked claimed"
      using run[unfolded Some] claimed_marked failed_claims_nothing
      by (auto simp: handling_def catch_def throw_def split: prod.splits sum.splits stop.splits)
    with Some show ?thesis by (simp add: submission_saved)
  qed
qed (intro moves_intros; simp)

lemma submit_saved: "sends_saved (submit_bootstrap_resolution x)"
  unfolding submit_bootstrap_resolution_def submission_of_def[symmetric]
  by (intro saved_after saved_if claim_saved saved_silent moves_intros; simp)


text \<open>A tab with a saved resolution, whose server answers every request with an error.\<close>

definition known_resolution :: jv where
  "known_resolution = Obj [(''userId'', known_owner),
     (''payload'', Obj [(''requestId'', Str ''request-1''), (''deviceId'', Str ''device-1''), (''expectedRevision'', jint 3),
        (''strategy'', Str ''merge''), (''commands'', Arr []),
        (''taskOperations'', Arr [Obj [(''id'', Str ''op-1''), (''taskId'', Str ''task-1'')]]),
        (''durationOperations'', Arr []), (''selectedTaskOperations'', Arr [])]),
     (''queueIds'', queues_value (\<lambda>d. if d = TaskOperations then Arr [Str ''op-1''] else Arr [])),
     (''deliveryState'', Str ''neverSent''), (''gateToken'', Str ''tab-a''), (''sourceOwnerId'', known_owner)]"

definition known_db :: database where
  "known_db = gated_db\<lparr>d_meta := st_put ''bootstrapResolution'' known_resolution (st_put ''snapshot''
     (Obj [(''revision'', jint 3), (''user'', known_user)]) (d_meta gated_db))\<rparr>"

definition resolving_session :: session where
  "resolving_session = set_tab [(''user'', known_user), (''localOwnerId'', known_owner), (''deviceId'', Str ''device-1''),
       (''tabId'', Str ''tab-1''), (''csrfToken'', Str ''token''), (''bootstrapPending'', known_resolution)]
     (sample_session\<lparr>s_db := known_db, s_context := (s_context sample_session)\<lparr>o_identity := \<lparr>i_owner = known_owner,
        i_local = known_owner, i_marker = logout_marker (s_app sample_session)\<rparr>\<rparr>\<rparr>)"

lemma resolving_start: "posts resolving_session = []"
  by (simp add: resolving_session_def set_tab_def posts_def sample_session_def Let_def)

lemma resolving_posts: "length (posts (snd (submit_bootstrap_resolution sample_outside resolving_session))) = 1"
  by code_simp


section \<open>Accepting the answer\<close>

text \<open>
  An operation that comes back with the lock free if it was free before, and one that gives it
  back or fails without having touched the state.
\<close>

definition stays_free :: "'a act \<Rightarrow> bool" where
  "stays_free m \<longleftrightarrow> (\<forall>s. \<not> locked s \<longrightarrow> fst (m s) \<noteq> Inl Hangs \<longrightarrow> \<not> locked (snd (m s)))"

definition frees :: "'a act \<Rightarrow> bool" where
  "frees m \<longleftrightarrow> (\<forall>s. fst (m s) \<noteq> Inl Hangs \<longrightarrow> \<not> locked (snd (m s)) \<or> tab_state (snd (m s)) = tab_state s)"

lemma bindw_state:
  assumes "fst (bindw m f s) \<noteq> Inl Hangs"
  obtains e t where "m s = (Inl e, t)" "snd (bindw m f s) = t" "e \<noteq> Hangs"
  | a t where "m s = (Inr a, t)" "snd (bindw m f s) = snd (f a t)" "fst (f a t) \<noteq> Inl Hangs"
  using assms by (cases "m s"; cases "fst (m s)") (auto simp: bindw_def)

lemma stays_free_bindw: 
  assumes "stays_free m" "\<And>a. stays_free (f a)"
  shows "stays_free (bindw m f)"
  unfolding stays_free_def
proof (intro allI impI)
  fix s assume "\<not> locked s" "fst (bindw m f s) \<noteq> Inl Hangs"
  then show "\<not> locked (snd (bindw m f s))"
    using assms unfolding stays_free_def by (elim bindw_state[of m f s]) (metis fst_conv snd_conv sum.inject(1) sum.simps(4))+
qed

lemma stays_free_tab: "(\<And>s. tab_state (snd (m s)) = tab_state s) \<Longrightarrow> stays_free m"
  by (simp add: stays_free_def locked_def)

lemma stays_free_reads: "reads m \<Longrightarrow> stays_free m"
  by (simp add: stays_free_def reads_def)

lemma stays_free_locking:
  assumes "\<And>a. stays_free (g a)"
  shows "stays_free (bindw (put_field k v) (\<lambda>_. bindw (ensuring m (put_field ''actionLocked'' (Bool False))) g))"
proof -
  have released: "\<not> locked t" if "ensuring m (put_field ''actionLocked'' (Bool False)) u = (r, t)" "r \<noteq> Inl Hangs" for u r t
  proof -
    from ensuring_state[OF that] obtain w where "t = snd (put_field ''actionLocked'' (Bool False) w)" by blast
    then show ?thesis by (simp add: locked_def put_field_def modify_def set_tab_def tab_state_def)
  qed
  have "\<not> locked (snd (bindw (ensuring m (put_field ''actionLocked'' (Bool False))) g u))"
    if "fst (bindw (ensuring m (put_field ''actionLocked'' (Bool False))) g u) \<noteq> Inl Hangs" for u
    using that
  proof (cases rule: bindw_state)
    case (1 e t)
    with released[OF 1(1)] show ?thesis by simp
  next
    case (2 a t)
    with released[OF 2(1)] assms[of a] show ?thesis by (simp add: stays_free_def)
  qed
  then show ?thesis by (simp add: stays_free_def bindw_def put_field_def modify_def)
qed

lemma frees_after:
  assumes "reads m" "\<And>a. frees (f a)"
  shows "frees (bindw m f)"
  unfolding frees_def
proof (intro allI impI)
  fix s assume "fst (bindw m f s) \<noteq> Inl Hangs"
  then show "\<not> locked (snd (bindw m f s)) \<or> tab_state (snd (bindw m f s)) = tab_state s"
    using assms unfolding frees_def reads_def by (elim bindw_state[of m f s]) (metis snd_conv)+
qed

lemma unlocked_after_free: "unlocked_after fs s = Some t \<Longrightarrow> \<not> locked t"
  by (induction fs arbitrary: s) (auto simp: locked_def tab_state_def split: if_splits)

lemma frees_wait: "(\<And>a. stays_free (f a)) \<Longrightarrow> frees (bindw wait_unlocked f)"
  using unlocked_after_free
  by (auto simp: frees_def stays_free_def bindw_def wait_unlocked_def split: option.split)

lemma reads_more: "reads assert_now" "reads current_now"
  unfolding assert_now_def current_now_def by (intro reads_intros)+

lemma page_tab: "tab_state (s\<lparr>s_page := p\<rparr>) = tab_state s" "tab_state (s\<lparr>s_calls := cs\<rparr>) = tab_state s"
  by (simp_all add: tab_state_def)

lemma stays_free_if: "(b \<Longrightarrow> stays_free m) \<Longrightarrow> (\<not> b \<Longrightarrow> stays_free n) \<Longrightarrow> stays_free (if b then m else n)"
  by simp

lemmas free_intros = stays_free_bindw stays_free_if reads_intros[THEN stays_free_reads] reads_more[THEN stays_free_reads]

lemma stays_free_stream: "stays_free (calls cs)" "stays_free close_stream" "stays_free (open_revision_stream x)"
proof -
  show calls: "stays_free (calls cs)" for cs by (rule stays_free_tab) (simp add: calls_def modify_def page_tab)
  have page: "stays_free (set_page p)" for p by (rule stays_free_tab) (simp add: set_page_def modify_def page_tab)
  have opens: "stays_free (modify (\<lambda>s. s\<lparr>s_page := (s_page s)\<lparr>g_stream := Some (s_context s)\<rparr>\<rparr>))"
    by (rule stays_free_tab) (simp add: modify_def page_tab)
  show close: "stays_free close_stream" unfolding close_stream_def by (intro free_intros page calls)
  show "stays_free (open_revision_stream x)"
    unfolding open_revision_stream_def close_ended_stream_def by (intro free_intros calls close opens)
qed

lemma accept_frees: "frees (accept_bootstrap_response x payload pending timing)"
  unfolding accept_bootstrap_response_def
  by (intro frees_after frees_wait reads_more reads_intros stays_free_locking free_intros stays_free_stream)

text \<open>The lock is free, or nothing was done.\<close>

definition ends_free :: "session \<Rightarrow> session \<Rightarrow> bool" where
  "ends_free s t \<longleftrightarrow> \<not> locked t \<or> tab_state t = tab_state s"


end
