(* ===== verification/TabAccounts.thy ===== *)
theory TabAccounts
  imports TabPosts TabMoves
begin

text \<open>
  Whose data a tab shows without a network, and what becomes of an account deletion that cannot
  be recorded.
\<close>

section \<open>Offline\<close>

lemma fld_restored:
  "fld (restore_owner_state saved st) k = (if k \<in> set (map fst OWNER_FIELDS) then getp saved k else fld st k)"
proof -
  have "fld (foldl (\<lambda>s (k, _). obj_put k (getp saved k) s) st fs) k
      = (if k \<in> set (map fst fs) then getp saved k else fld st k)" for fs :: "(string \<times> bool) list"
    by (induction fs arbitrary: st) auto
  then show ?thesis unfolding restore_owner_state_def .
qed

text \<open>The workspace that was kept is that of the local owner, whom no session contradicts.\<close>

definition own_workspace :: "session \<Rightarrow> jv \<Rightarrow> bool" where
  "own_workspace s local \<longleftrightarrow>
     local = fld (tab_state s) ''quarantinedLocal'' \<and> \<not> pending_local_logout s
   \<and> fld (tab_state s) ''sessionIdentityValidated'' \<noteq> Bool True
   \<and> (\<exists>owner. authenticated_owner_id (getp local ''user'') = Inr owner \<and> truthy owner
        \<and> owner = fld (tab_state s) ''localOwnerId'')"

lemma cached_owner_own:
  assumes "cached_owner_usable s = Inr True"
  shows "own_workspace s (fld (tab_state s) ''quarantinedLocal'')"
  using assms
  by (auto simp: cached_owner_usable_def own_workspace_def authenticated_owner_id_def bindr_Inr_iff Let_def
      can_use_cached_owner_offline_def fld_def dest: strict_eq_imp_eq split: if_splits)

text \<open>The fields that belong to an owner are those of the workspace that was kept.\<close>

definition shows_workspace :: "jv \<Rightarrow> obj \<Rightarrow> bool" where
  "shows_workspace local st \<longleftrightarrow> list_all (\<lambda>(k, _). fld st k = getp local k) OWNER_FIELDS"

lemma activated_state:
  assumes "activate_cached_owner_offline x s = (Inr True, t)"
  shows "cached_owner_usable s = Inr True"
    and "\<exists>st. tab_state t = assign (restore_owner_state (fld (tab_state s) ''quarantinedLocal'') st)
       [(''quarantinedLocal'', Null), (''authenticated'', Bool False), (''csrfToken'', Null), (''offlineOwnerMode'', Bool True),
        (''bootstrapBlocked'', Bool False), (''bootstrapGatePersisted'', Bool False), (''bootstrapGateOwned'', Bool False)]"
proof -
  have published: "tab_state w = tab_state (f v)"
    if "publish_in (modify f) v = (Inr (), w)" for f v w
    using that
    by (auto simp: publish_in_def publish_scope_def bindw_Inr_iff modify_def assert_now_def run_with_def run_Inr_iff ret_def tab_state_def)
  have parts: "cached_owner_usable s = Inr True \<and> (\<exists>v w. publish_in (modify (\<lambda>s'. set_tab (restore_owner_state
        (fld (tab_state s) ''quarantinedLocal'') (tab_state s')) s')) v = (Inr (), w)
      \<and> t = set_tab (assign (tab_state w)
       [(''quarantinedLocal'', Null), (''authenticated'', Bool False), (''csrfToken'', Null), (''offlineOwnerMode'', Bool True),
        (''bootstrapBlocked'', Bool False), (''bootstrapGatePersisted'', Bool False), (''bootstrapGateOwned'', Bool False)]) w)"
    using assms unfolding activate_cached_owner_offline_def current_now_def field_def
    by (auto simp: bindw_Inr_iff run_with_def run_Inr_iff asks_def ret_def modify_def split: if_splits)
  then show "cached_owner_usable s = Inr True" by blast
  from parts show "\<exists>st. tab_state t = assign (restore_owner_state (fld (tab_state s) ''quarantinedLocal'') st)
       [(''quarantinedLocal'', Null), (''authenticated'', Bool False), (''csrfToken'', Null), (''offlineOwnerMode'', Bool True),
        (''bootstrapBlocked'', Bool False), (''bootstrapGatePersisted'', Bool False), (''bootstrapGateOwned'', Bool False)]"
    using published by (auto simp: set_tab_def tab_state_def)
qed

text \<open>
  C36: Without the server a tab shows nobody else's work. When the stored workspace is shown
  offline, no sign-out was pending and no session was validated; every field of the workspace is
  the one that was kept for the local owner, and it is that owner's; and the tab is not signed
  in, so that no synchronization passes the checks made before it. This holds whatever the other
  activities of the tab do while the gate is being released.
\<close>

theorem offline_shows_own_workspace:
  assumes "activate_cached_owner_offline x s = (Inr True, t)"
  shows "\<exists>local. own_workspace s local \<and> shows_workspace local (tab_state t) \<and> sync_ready x t \<noteq> Inr True"
proof -
  note state = activated_state[OF assms]
  from state(2) obtain st where st: "tab_state t = assign (restore_owner_state (fld (tab_state s) ''quarantinedLocal'') st)
       [(''quarantinedLocal'', Null), (''authenticated'', Bool False), (''csrfToken'', Null), (''offlineOwnerMode'', Bool True),
        (''bootstrapBlocked'', Bool False), (''bootstrapGatePersisted'', Bool False), (''bootstrapGateOwned'', Bool False)]" by blast
  have "shows_workspace (fld (tab_state s) ''quarantinedLocal'') (tab_state t)"
    unfolding shows_workspace_def st by (simp add: assign_def spread_def fld_restored OWNER_FIELDS_def)
  moreover have "sync_ready x t \<noteq> Inr True"
    by (simp add: sync_ready_def Let_def st assign_def spread_def bindr_Inr_iff)
  ultimately show ?thesis using cached_owner_own[OF state(1)] by blast
qed

text \<open>A tab that was opened without a network, with the workspace of its owner hidden.\<close>

definition offline_session :: session where
  "offline_session = set_tab [(''user'', Null), (''localOwnerId'', known_owner), (''tabId'', Str ''tab-1''),
       (''sessionIdentityValidated'', Bool False), (''bootstrapGateOwned'', Bool True),
       (''quarantinedLocal'', Obj [(''user'', known_user), (''revision'', jint 3)])]
     (sample_session\<lparr>s_db := sample_db\<lparr>d_meta := [(''bootstrapGate'', Obj [(''token'', Str ''tab-1'')]),
         (''snapshot'', Obj [(''revision'', jint 3), (''user'', known_user)])]\<rparr>,
       s_context := (s_context sample_session)\<lparr>o_identity := \<lparr>i_owner = known_owner, i_local = known_owner,
         i_marker = logout_marker (s_app sample_session)\<rparr>\<rparr>\<rparr>)"

lemma offline_activates: "fst (activate_cached_owner_offline sample_outside offline_session) = Inr True"
  by code_simp

theorem offline_shows_own_workspace_witness:
  "\<exists>local. own_workspace offline_session local
    \<and> shows_workspace local (tab_state (snd (activate_cached_owner_offline sample_outside offline_session)))"
  using offline_shows_own_workspace[of sample_outside offline_session] offline_activates
  by (metis prod.collapse)

section \<open>A deletion that cannot be recorded\<close>

text \<open>The calls of an operation after \<open>s0\<close> are messages and reports.\<close>

fun message :: "call \<Rightarrow> bool" where
  "message (Notice _) = True"
| "message Warned = True"
| "message (Reported _) = True"
| "message _ = False"

definition only_messages :: "session \<Rightarrow> session \<Rightarrow> bool" where
  "only_messages s0 s \<longleftrightarrow> (\<exists>new. s_calls s = s_calls s0 @ new \<and> list_all message new)"

named_theorems message_intros

lemma messages_modify [message_intros]: "(\<And>s. s_calls (f s) = s_calls s) \<Longrightarrow> keeps (only_messages s0) (modify f)"
  by (simp add: keeps_def only_messages_def modify_def)

lemma messages_calls [message_intros]: "list_all message cs \<Longrightarrow> keeps (only_messages s0) (calls cs)"
  by (auto simp: keeps_def only_messages_def calls_def modify_def)

lemma messages_await [message_intros]: "keeps (only_messages s0) await"
  by (auto simp: keeps_def only_messages_def await_def with_shared_def split: list.split)

lemma messages_transact [message_intros]: "keeps (only_messages s0) (transact x f)"
proof -
  have "keeps (only_messages s0) (\<lambda>s. case f ((x_env x s)\<lparr>e_current := current s\<rparr>) (s_db s) of (r, db) \<Rightarrow> (Inr r, s\<lparr>s_db := db\<rparr>))"
    for current by (auto simp: keeps_def only_messages_def split: prod.split)
  then show ?thesis unfolding transact_def transact_as_def by (intro keeps_intros message_intros)
qed

lemma messages_state [message_intros]:
  "keeps (only_messages s0) assert_now" "keeps (only_messages s0) current_now" "keeps (only_messages s0) (field k)"
  "keeps (only_messages s0) capture_now" "keeps (only_messages s0) (set_page p)"
  unfolding assert_now_def current_now_def field_def capture_now_def set_page_def
  by (intro keeps_intros message_intros; simp)+

text \<open>Only values a part can return count for what comes after it.\<close>

lemma messages_after:
  assumes "keeps I m" "\<And>s t v. m s = (Inr v, t) \<Longrightarrow> keeps I (f v)"
  shows "keeps I (bindw m f)"
  unfolding keeps_def
proof (intro allI impI)
  fix s assume "I s"
  obtain r t where m: "m s = (r, t)" by (metis surj_pair)
  then have "I t" using keepsD[OF assms(1) \<open>I s\<close>] by blast
  then show "I (snd (bindw m f s))"
    using assms(2) m by (cases r) (auto simp: bindw_def keeps_def)
qed

definition refuses :: "outside \<Rightarrow> bool" where
  "refuses x \<longleftrightarrow> (\<forall>s. x_store x s PENDING_DELETION_KEY \<noteq> None)"

lemma refused_store: "refuses x \<Longrightarrow> store x PENDING_DELETION_KEY f v s \<noteq> (Inr u, t)"
  by (auto simp: store_def refuses_def bindw_Inr_iff run_with_def run_Inr_iff split: option.splits)
     (metis option.distinct(1))

lemma handling_Inr:
  "handling m h s = (Inr v, t) \<longleftrightarrow> m s = (Inr v, t) \<or> (\<exists>e u. m s = (Inl (Throws e), u) \<and> h e u = (Inr v, t))"
  by (auto simp: handling_def catch_def throw_def split: prod.splits sum.splits stop.splits)

lemma refused_write:
  assumes "refuses x" "write_pending_deletion_attempt x (Some a) s = (Inr written, t)"
  shows "\<not> written"
  using assms refused_store[OF assms(1)]
  by (auto simp: write_pending_deletion_attempt_def handling_Inr bindw_Inr_iff ret_def Let_def)

lemma messages_markers [message_intros]:
  "(\<And>s. s_calls (g v s) = s_calls s) \<Longrightarrow> keeps (only_messages s0) (store x key g v)"
  "keeps (only_messages s0) (stored h)" "keeps (only_messages s0) (report_deletion_marker_failure e)"
  "keeps (only_messages s0) (forget_failures kind)"
  unfolding store_def stored_def report_deletion_marker_failure_def report_marker_failure_def forget_failures_def
  by (intro keeps_intros message_intros; simp)+

lemma messages_write [message_intros]: "keeps (only_messages s0) (write_pending_deletion_attempt x (Some a))"
  unfolding write_pending_deletion_attempt_def option.case Let_def
  by (intro keeps_intros message_intros; simp add: with_deletion_def)

text \<open>Without a record the request is not made, and the operation says that nothing was deleted.\<close>

definition refused :: "bool act \<Rightarrow> bool" where
  "refused m \<longleftrightarrow> (\<forall>s t. m s \<noteq> (Inr True, t)) \<and> (\<forall>s0. keeps (only_messages s0) m)"

lemma refused_said:
  "list_all message cs \<Longrightarrow> refused (bindw (calls cs) (\<lambda>_. ret False))" "refused (ret False)"
  by (auto simp: refused_def bindw_Inr_iff ret_def intro!: keeps_intros message_intros)

lemma refused_after:
  assumes "\<And>s0. keeps (only_messages s0) m" "\<And>s t v. m s = (Inr v, t) \<Longrightarrow> refused (f v)"
  shows "refused (bindw m f)"
  unfolding refused_def
proof (intro conjI allI)
  show "bindw m f s \<noteq> (Inr True, t)" for s t using assms(2) by (auto simp: bindw_Inr_iff refused_def)
  show "keeps (only_messages s0) (bindw m f)" for s0
    by (rule messages_after[OF assms(1)]) (use assms(2) in \<open>simp add: refused_def\<close>)
qed

lemma refused_handling: "refused m \<Longrightarrow> (\<And>e. refused (h e)) \<Longrightarrow> refused (handling m h)"
  by (auto simp: refused_def handling_Inr intro: keeps_intros)

lemma refused_if: "refused m \<Longrightarrow> refused n \<Longrightarrow> refused (if b then m else n)"
  by simp

lemma refused_parts:
  "refused (deletion_marker_unavailable x)" "refused (deletion_refused x e)"
  unfolding deletion_marker_unavailable_def deletion_refused_def
  by (intro refused_said refused_after refused_if message_intros; simp)+

lemma refused_recorded:
  assumes "refuses x"
  shows "refused (recorded_deletion x confirmation headers)"
proof -
  have recorded: "refused (bindw (write_pending_deletion_attempt x (Some a))
      (\<lambda>written. if \<not> written then deletion_marker_unavailable x else send_deletion x confirmation headers))" for a
    using refused_write[OF assms] by (intro refused_after message_intros) (auto simp: refused_parts)
  have guard: "keeps (only_messages s0) (guard_account x)" for s0
    unfolding guard_account_def by (intro keeps_intros message_intros)
  show ?thesis
    unfolding recorded_deletion_def by (intro refused_after[of "guard_account x"] refused_after[of assert_now]
        refused_after[of "asks _"] guard recorded keeps_intros message_intros)
qed

lemma refused_request: "refuses x \<Longrightarrow> refused (request_account_deletion x confirmation)"
  unfolding request_account_deletion_def
  by (intro refused_after[of assert_now] refused_after[of "asks _"] keeps_intros message_intros)
     (auto split: sum.split intro!: refused_after refused_handling refused_recorded refused_parts message_intros)

lemma refused_confirm:
  assumes "refuses x"
  shows "refused (confirm_delete_account x v)"
proof -
  have "refused (bindw (request_account_deletion x v) (\<lambda>deleted. if \<not> deleted then ret False else clear_deleted_account x))"
    by (rule refused_after) (use refused_request[OF assms] in \<open>auto simp: refused_def refused_said(2)[unfolded refused_def]\<close>)
  then show ?thesis
    unfolding confirm_delete_account_def
    by (intro refused_if refused_said refused_after[of "field _"] refused_after[of capture_now] message_intros; simp)
qed



end
