(* ===== verification/Monitor.thy ===== *)
theory Monitor
  imports SignIn SyncCore "HOL-Library.AList"
begin

text \<open>
  The reports of failures (\<open>web/sentry-client.js\<close>): whether a page reports at all, what a report
  may contain, and how often one is sent. The reporting SDK is third-party code: it is asked to
  capture a report, and it hands every event to \<open>scrub_final_event\<close> before it leaves the page.
\<close>

section \<open>Settings\<close>

definition SESSION_SAMPLE_RATE :: rat where "SESSION_SAMPLE_RATE = 1 / 10"
definition ERROR_SAMPLE_RATE :: rat where "ERROR_SAMPLE_RATE = 1"
definition ENVIRONMENT :: string where "ENVIRONMENT = ''production''"
definition FRONTEND_ERROR_WINDOW_MS :: int where "FRONTEND_ERROR_WINDOW_MS = 60000"
definition FRONTEND_ERROR_MAX_PER_WINDOW :: nat where "FRONTEND_ERROR_MAX_PER_WINDOW = 10"
definition FRONTEND_ERROR_DEDUP_MS :: rat where "FRONTEND_ERROR_DEDUP_MS = 30000"
definition FRONTEND_ERROR_DEDUP_MAX_MS :: rat where "FRONTEND_ERROR_DEDUP_MAX_MS = 300000"

definition SAFE_ERROR_NAMES :: "string list" where
  "SAFE_ERROR_NAMES =
     [''Error'', ''TypeError'', ''RangeError'', ''ReferenceError'', ''SyntaxError'', ''URIError'',
      ''EvalError'', ''AggregateError'', ''AbortError'', ''TimeoutError'', ''AccountOwnershipError'',
      ''QuotaExceededError'', ''SecurityError'', ''StorageError'']"

definition SAFE_OPERATIONS :: "string list" where
  "SAFE_OPERATIONS =
     [''sync.preflight.bootstrap-gate'', ''sync.preflight.pending-queues'', ''sync.deferred'',
      ''sync.immutable.recovery'', ''session.stream.error'', ''session.restore.offline'',
      ''session.logout.marker-write-failed'', ''session.delete-account.marker-write-failed'',
      ''session.delete-account.cleanup-retry'', ''session.logout-recovery.cleanup-failed'',
      ''session.initialize.deferred'', ''session.delete-account.request-failed'',
      ''session.logout.revocation-deferred'', ''session.logout.pending-queues'',
      ''session.logout.cleanup-incomplete'', ''bootstrap.restart.deferred'',
      ''bootstrap.resolution.deferred'', ''bootstrap.retry.deferred'', ''bootstrap.choice.deferred'',
      ''view.cross-tab-logout.cleanup-incomplete'', ''view.timer-ownership.release-failed'',
      ''view.phase.save-failed'', ''actions.timer-ownership.renewal-failed'',
      ''actions.duration.save-failed'', ''actions.auto-start.save-failed'',
      ''actions.selected-task.save-failed'', ''actions.selected-task.retarget-missing'',
      ''actions.task.save-failed'', ''actions.task.identity-failed'', ''actions.timer.save-failed'',
      ''actions.timer.clear-failed'', ''actions.timer.finish-failed'',
      ''actions.completion.notification-failed'', ''actions.completion.audio-init-failed'',
      ''actions.completion.audio-resume-failed'', ''actions.completion.permission-failed'',
      ''storage.failure'', ''i18n.locale.fallback'', ''startup.localization.unavailable'',
      ''startup.storage.unavailable'', ''startup.offline-shell.unavailable'']"

definition letter_or_digit :: "char \<Rightarrow> bool" where
  "letter_or_digit c \<longleftrightarrow> c \<in> set ''abcdefghijklmnopqrstuvwxyzABCDEFGHIJKLMNOPQRSTUVWXYZ0123456789''"

text \<open>\<open>/^https:\/\/[A-Za-z0-9_-]+@[A-Za-z0-9.-]+\/[0-9]+$/\<close>; no class contains what follows it.\<close>

definition dsn_text :: "string \<Rightarrow> bool" where
  "dsn_text s =
     (let key_char = (\<lambda>c. letter_or_digit c \<or> c = CHR ''_'' \<or> c = CHR ''-'');
          host_char = (\<lambda>c. letter_or_digit c \<or> c = CHR ''.'' \<or> c = CHR ''-'');
          rest = drop 8 s; host = drop 1 (dropWhile key_char rest); path = drop 1 (dropWhile host_char host) in
      starts ''https://'' s
    \<and> takeWhile key_char rest \<noteq> [] \<and> take 1 (dropWhile key_char rest) = ''@''
    \<and> takeWhile host_char host \<noteq> [] \<and> take 1 (dropWhile host_char host) = ''/''
    \<and> path \<noteq> [] \<and> list_all (\<lambda>c. c \<in> set ''0123456789'') path)"

definition is_usable_dsn :: "jv \<Rightarrow> bool" where
  "is_usable_dsn v = (case v of Str s \<Rightarrow> dsn_text (trim s) | _ \<Rightarrow> False)"

text \<open>The content of a meta element by its name; anything but a text if it is missing.\<close>

definition read_meta_content :: "(string \<Rightarrow> jv) \<Rightarrow> string \<Rightarrow> string" where
  "read_meta_content meta name = (case meta name of Str s \<Rightarrow> s | _ \<Rightarrow> [])"

definition release_from_document :: "(string \<Rightarrow> jv) \<Rightarrow> string" where
  "release_from_document meta =
     (let version = trim (read_meta_content meta ''pomodorough-version'') in
      ''pomodorough-web@'' @ (if version = [] then ''unknown'' else version))"

record settings =
  n_dsn :: string
  n_release :: string

text \<open>The address of the reporter, from the window or from the document; none if there is none.\<close>

definition collect_settings :: "jv \<Rightarrow> (string \<Rightarrow> jv) \<Rightarrow> settings option" where
  "collect_settings scope_dsn meta =
     (let meta_dsn = Str (read_meta_content meta ''sentry-dsn'') in
      if is_usable_dsn scope_dsn then Some \<lparr>n_dsn = trim (id_text scope_dsn), n_release = release_from_document meta\<rparr>
      else if is_usable_dsn meta_dsn then Some \<lparr>n_dsn = trim (id_text meta_dsn), n_release = release_from_document meta\<rparr>
      else None)"

section \<open>Hosts\<close>

definition ends_with :: "string \<Rightarrow> string \<Rightarrow> bool" where
  "ends_with suffix s \<longleftrightarrow> starts (rev suffix) (rev s)"

definition before_char :: "char \<Rightarrow> string \<Rightarrow> string" where
  "before_char c s = takeWhile (\<lambda>a. a \<noteq> c) s"

definition host_name_from_host :: "jv \<Rightarrow> string" where
  "host_name_from_host location =
     (case or_else (getp location ''hostname'') (getp location ''host'') of Str s \<Rightarrow> s | _ \<Rightarrow> [])"

text \<open>The host without brackets, port, zone and final dot.\<close>

definition bare_host :: "string \<Rightarrow> string" where
  "bare_host host =
     (let inner =
        (if starts ''['' host then (if CHR '']'' \<in> set host then before_char (CHR '']'') (drop 1 host) else host)
         else if 1 < length (filter (\<lambda>c. c = CHR '':'') host) then before_char (CHR 0x25) host
         else before_char (CHR 0x25) (before_char (CHR '':'') host)) in
      if ends_with ''.'' inner then butlast inner else inner)"

definition is_dev_host_name :: "jv \<Rightarrow> bool" where
  "is_dev_host_name v = (case v of
     Str s \<Rightarrow>
       (let host = lower (trim s) in
        if host = [] then False
        else if host = ''::1'' then True
        else let bare = bare_host host in
          bare \<in> {''localhost'', ''127.0.0.1'', ''::1''} \<or> ends_with ''.local'' bare \<or> ends_with ''.localhost'' bare)
   | _ \<Rightarrow> False)"

definition is_dev_host :: "jv \<Rightarrow> bool" where
  "is_dev_host location = is_dev_host_name (Str (host_name_from_host location))"

text \<open>Whether \<open>start\<close> loads the SDK: the page can add a script, knows the reporter and is not local.\<close>

definition start_monitor :: "bool \<Rightarrow> bool \<Rightarrow> jv \<Rightarrow> jv \<Rightarrow> (string \<Rightarrow> jv) \<Rightarrow> settings option" where
  "start_monitor can_create has_head location scope_dsn meta =
     (if \<not> can_create then None
      else case collect_settings scope_dsn meta of
        None \<Rightarrow> None
      | Some settings \<Rightarrow> if is_dev_host location \<or> \<not> has_head then None else Some settings)"

section \<open>What a report contains\<close>

definition listed :: "string list \<Rightarrow> jv \<Rightarrow> bool" where
  "listed names v = (case v of Str s \<Rightarrow> s \<in> set names | _ \<Rightarrow> False)"

definition safe_error_name :: "jv \<Rightarrow> jv" where
  "safe_error_name v = (if listed SAFE_ERROR_NAMES v then v else Str ''Error'')"

definition CATEGORIES :: "string list" where
  "CATEGORIES = [''fetch'', ''xhr'', ''navigation'', ''console'', ''error.repeat'']"

definition LEVELS :: "string list" where
  "LEVELS = [''fatal'', ''error'', ''warning'', ''info'', ''debug'']"

definition scrub_breadcrumb :: "jv \<Rightarrow> jv option" where
  "scrub_breadcrumb crumb = (case dot crumb ''category'' of
     Inl _ \<Rightarrow> None
   | Inr given \<Rightarrow>
       let category = (if listed CATEGORIES given then given else Str ''diagnostic'') in
       Some (Obj [(''category'', category),
         (''message'', if category = Str ''error.repeat'' \<and> listed SAFE_OPERATIONS (getp crumb ''message'')
           then getp crumb ''message'' else Str ''[redacted]'')]))"

definition scrub_value :: "jv \<Rightarrow> jv \<Rightarrow> jv res" where
  "scrub_value operation v = bindr (dot v ''type'') (\<lambda>name. Inr (Obj [(''type'', safe_error_name name), (''value'', operation)]))"

definition hex32 :: "string \<Rightarrow> bool" where
  "hex32 s \<longleftrightarrow> length s = 32 \<and> list_all hex_char s"

definition event_identity :: "jv \<Rightarrow> obj" where
  "event_identity event =
     (case getp event ''event_id'' of Str s \<Rightarrow> if hex32 s then [(''event_id'', Str s)] else [] | _ \<Rightarrow> [])
   @ (case getp event ''timestamp'' of
       Num (JInt i) \<Rightarrow> [(''timestamp'', Num (JInt i))] | Num (JFrac q) \<Rightarrow> [(''timestamp'', Num (JFrac q))] | _ \<Rightarrow> [])"

definition scrubbed_crumbs :: "jv \<Rightarrow> jv list" where
  "scrubbed_crumbs v = (case v of
     Arr crumbs \<Rightarrow> List.map_filter scrub_breadcrumb (drop (length crumbs - 100) crumbs) | _ \<Rightarrow> [])"

definition scrub_event :: "jv \<Rightarrow> string \<Rightarrow> obj res" where
  "scrub_event event release =
     bindr (dot event ''tags'') (\<lambda>tags.
     let named = getp tags ''error.operation'';
         operation = (if listed SAFE_OPERATIONS named then named else Str ''browser.automatic'');
         values = (case getp (getp event ''exception'') ''values'' of Arr (v # vs) \<Rightarrow> take 5 (v # vs) | _ \<Rightarrow> [Obj []]) in
     bindr (mapr (scrub_value operation) values) (\<lambda>clean.
     Inr ([(''platform'', Str ''javascript''), (''environment'', Str ENVIRONMENT), (''release'', Str release),
       (''level'', if listed LEVELS (getp event ''level'') then getp event ''level'' else Str ''error''),
       (''tags'', Obj [(''error.operation'', operation)]), (''exception'', Obj [(''values'', Arr clean)]),
       (''breadcrumbs'', Arr (scrubbed_crumbs (getp event ''breadcrumbs'')))] @ event_identity event)))"

text \<open>An event that cannot be scrubbed is dropped.\<close>

definition scrub_final_event :: "jv \<Rightarrow> string \<Rightarrow> jv option" where
  "scrub_final_event event release = (case scrub_event event release of Inl _ \<Rightarrow> None | Inr clean \<Rightarrow> Some (Obj clean))"

section \<open>The SDK\<close>

record sdk_options =
  k_settings :: settings
  k_environment :: string
  k_before_send :: "jv \<Rightarrow> jv option"
  k_before_breadcrumb :: "jv \<Rightarrow> jv option"
  k_session_rate :: rat
  k_error_rate :: rat
  k_mask_text :: bool
  k_mask_inputs :: bool
  k_block_media :: bool

text \<open>What the loaded SDK is started with; nothing if it cannot be started or cannot mask a replay.\<close>

definition initialize_sdk :: "settings \<Rightarrow> bool \<Rightarrow> bool \<Rightarrow> sdk_options option" where
  "initialize_sdk settings has_init has_replay =
     (if \<not> has_init \<or> \<not> has_replay then None
      else Some \<lparr>k_settings = settings, k_environment = ENVIRONMENT,
        k_before_send = (\<lambda>event. scrub_final_event event (n_release settings)),
        k_before_breadcrumb = scrub_breadcrumb,
        k_session_rate = SESSION_SAMPLE_RATE, k_error_rate = ERROR_SAMPLE_RATE,
        k_mask_text = True, k_mask_inputs = True, k_block_media = True\<rparr>)"

section \<open>How often a report is sent\<close>

record failure_sample =
  z_last :: int
  z_repeats :: nat

text \<open>The two variables of the module: the times of the reports, and the last report of each failure.\<close>

record monitor =
  m_times :: "int list"
  m_samples :: "(string \<times> failure_sample) list"

definition no_reports :: monitor where "no_reports = \<lparr>m_times = [], m_samples = []\<rparr>"

definition frontend_error_rate_limited :: "int \<Rightarrow> monitor \<Rightarrow> bool \<times> monitor" where
  "frontend_error_rate_limited now_ms m =
     (let recent = dropWhile (\<lambda>t. t \<le> now_ms - FRONTEND_ERROR_WINDOW_MS) (m_times m) in
      if FRONTEND_ERROR_MAX_PER_WINDOW \<le> length recent then (True, m\<lparr>m_times := recent\<rparr>)
      else (False, m\<lparr>m_times := recent @ [now_ms]\<rparr>))"

text \<open>The wait before the same failure is reported again; a random value that is no number is \<open>None\<close>.\<close>

definition frontend_error_backoff :: "int \<Rightarrow> rat option \<Rightarrow> rat" where
  "frontend_error_backoff repeats random_value =
     (let shift = nat (min (max repeats 0) 4);
          base = min (FRONTEND_ERROR_DEDUP_MS * 2 ^ shift) FRONTEND_ERROR_DEDUP_MAX_MS;
          jitter = ((case random_value of Some r \<Rightarrow> r | None \<Rightarrow> 1 / 2) * 2 - 1) * (1 / 5) in
      max (base * (1 + jitter)) (FRONTEND_ERROR_DEDUP_MS * (1 / 2)))"

definition frontend_error_suppressed :: "string \<Rightarrow> int \<Rightarrow> rat \<Rightarrow> monitor \<Rightarrow> bool \<times> monitor" where
  "frontend_error_suppressed key now_ms random_value m =
     (let noted = m\<lparr>m_samples := AList.update key \<lparr>z_last = now_ms, z_repeats = 0\<rparr> (m_samples m)\<rparr> in
      case map_of (m_samples m) key of
        None \<Rightarrow> (False, noted)
      | Some sample \<Rightarrow>
          if of_int (now_ms - z_last sample) < frontend_error_backoff (int (z_repeats sample)) (Some random_value)
          then (True, m\<lparr>m_samples := AList.update key (sample\<lparr>z_repeats := z_repeats sample + 1\<rparr>) (m_samples m)\<rparr>)
          else (False, noted))"

datatype sdk_request =
    Capture_exception string jv string
  | Add_breadcrumb string string string

definition note_frontend_error_repeat :: "bool \<Rightarrow> string \<Rightarrow> sdk_request list" where
  "note_frontend_error_repeat can_add operation =
     (if can_add then [Add_breadcrumb operation ''error.repeat'' ''warning''] else [])"

definition can_report_frontend_error :: "bool \<Rightarrow> jv \<Rightarrow> (string \<Rightarrow> jv) \<Rightarrow> bool" where
  "can_report_frontend_error has_capture scope_dsn meta \<longleftrightarrow> has_capture \<and> collect_settings scope_dsn meta \<noteq> None"

definition failure_key :: "string \<Rightarrow> jv \<Rightarrow> string" where
  "failure_key operation error = operation @ [CHR 0x0A] @ take 100 (id_text (safe_error_name (getp error ''name'')))"

text \<open>What a call of \<open>report_frontend_error\<close> is made with, besides the failure: what the page offers, the
  clock and the random value.\<close>

record report_call =
  y_error :: jv
  y_operation :: jv
  y_can_report :: bool
  y_can_add :: bool
  y_now :: int
  y_random :: rat
  y_captured :: bool

text \<open>The result, what the SDK is asked for, and the state after it. A capture that throws has been asked for,
  and its time counts.\<close>

definition report_frontend_error :: "report_call \<Rightarrow> monitor \<Rightarrow> bool \<times> sdk_request list \<times> monitor" where
  "report_frontend_error call m =
     (case y_operation call of
        Str operation \<Rightarrow>
          if operation = [] \<or> nullish (y_error call) \<or> \<not> y_can_report call then (False, [], m)
          else
            (case frontend_error_suppressed (failure_key operation (y_error call)) (y_now call) (y_random call) m of
               (True, m') \<Rightarrow> (False, note_frontend_error_repeat (y_can_add call) operation, m')
             | (False, m') \<Rightarrow>
                 (case frontend_error_rate_limited (y_now call) m' of
                    (True, m'') \<Rightarrow> (False, [], m'')
                  | (False, m'') \<Rightarrow>
                      (y_captured call,
                       [Capture_exception operation (safe_error_name (getp (y_error call) ''name'')) ''warning''], m'')))
      | _ \<Rightarrow> (False, [], m))"

section \<open>What leaves the page\<close>

text \<open>The texts of a value, the names of properties included.\<close>

fun texts :: "jv \<Rightarrow> string list" where
  "texts (Str s) = [s]"
| "texts (JsonText v) = texts v"
| "texts (Arr vs) = concat (map texts vs)"
| "texts (Obj ob) = concat (map (\<lambda>(k, v). k # texts v) ob)"
| "texts _ = []"

text \<open>The texts a report may contain whatever happened: the names of its properties and the fixed lists.\<close>

definition public_texts :: "string list" where
  "public_texts =
     [''platform'', ''environment'', ''release'', ''level'', ''tags'', ''error.operation'', ''exception'', ''values'',
      ''breadcrumbs'', ''event_id'', ''timestamp'', ''category'', ''message'', ''type'', ''value'',
      ''javascript'', ''browser.automatic'', ''diagnostic'', ''[redacted]'', ENVIRONMENT]
   @ SAFE_ERROR_NAMES @ SAFE_OPERATIONS @ CATEGORIES @ LEVELS"

definition public_text :: "string \<Rightarrow> string \<Rightarrow> bool" where
  "public_text release s \<longleftrightarrow> s \<in> set public_texts \<or> s = release \<or> hex32 s"

definition public_value :: "string \<Rightarrow> jv \<Rightarrow> bool" where
  "public_value release v \<longleftrightarrow> list_all (public_text release) (texts v)"

lemma listedE: "listed names v \<Longrightarrow> (\<And>s. v = Str s \<Longrightarrow> s \<in> set names \<Longrightarrow> P) \<Longrightarrow> P"
  by (cases v) (simp_all add: listed_def)

lemma public_lists:
  "s \<in> set SAFE_ERROR_NAMES \<Longrightarrow> public_text release s"
  "s \<in> set SAFE_OPERATIONS \<Longrightarrow> public_text release s"
  "s \<in> set CATEGORIES \<Longrightarrow> public_text release s"
  "s \<in> set LEVELS \<Longrightarrow> public_text release s"
  by (simp_all add: public_text_def public_texts_def)

lemma public_constants:
  "list_all (public_text release)
     [''platform'', ''environment'', ''release'', ''level'', ''tags'', ''error.operation'', ''exception'', ''values'',
      ''breadcrumbs'', ''event_id'', ''timestamp'', ''category'', ''message'', ''type'', ''value'',
      ''javascript'', ''browser.automatic'', ''diagnostic'', ''[redacted]'', ENVIRONMENT, ''Error'', ''error'', release]"
  by (simp add: public_text_def public_texts_def SAFE_ERROR_NAMES_def LEVELS_def)

lemmas public_words = public_constants[unfolded list.pred_inject]

lemma public_Str [simp]: "public_value release (Str s) \<longleftrightarrow> public_text release s"
  by (simp add: public_value_def)

lemma public_Arr [simp]: "public_value release (Arr vs) \<longleftrightarrow> (\<forall>v\<in>set vs. public_value release v)"
  by (induction vs) (simp_all add: public_value_def)

lemma public_Obj [simp]:
  "public_value release (Obj ob) \<longleftrightarrow> (\<forall>(k, v)\<in>set ob. public_text release k \<and> public_value release v)"
  by (induction ob) (auto simp: public_value_def)

lemma public_Num [simp]: "public_value release (Num n)"
  by (simp add: public_value_def)

lemma public_hex: "hex32 s \<Longrightarrow> public_text release s"
  by (simp add: public_text_def)

lemma public_choices:
  assumes "public_value release d"
  shows "public_value release (if listed SAFE_ERROR_NAMES v then v else d)"
    and "public_value release (if listed SAFE_OPERATIONS v then v else d)"
    and "public_value release (if listed LEVELS v then v else d)"
  using assms by (auto elim!: listedE intro: public_lists)

lemma public_crumb: "scrub_breadcrumb crumb = Some clean \<Longrightarrow> public_value release clean"
  by (auto simp: scrub_breadcrumb_def Let_def public_words
      split: sum.splits if_splits elim!: listedE intro: public_lists)

lemma public_exception:
  "scrub_value operation v = Inr clean \<Longrightarrow> public_value release operation \<Longrightarrow> public_value release clean"
  using public_choices(1)[of release "Str ''Error''"]
  by (auto simp: scrub_value_def res_simps safe_error_name_def public_words)

lemma public_id:
  "(k, v) \<in> set (case a of Str s \<Rightarrow> if hex32 s then [(''event_id'', Str s)] else [] | _ \<Rightarrow> [])
     \<Longrightarrow> public_text release k \<and> public_value release v"
  by (cases a) (auto simp: public_words public_hex split: if_splits)

lemma public_stamp:
  "(k, v) \<in> set (case a of Num (JInt i) \<Rightarrow> [(''timestamp'', Num (JInt i))]
        | Num (JFrac q) \<Rightarrow> [(''timestamp'', Num (JFrac q))] | _ \<Rightarrow> [])
     \<Longrightarrow> public_text release k \<and> public_value release v"
  by (cases a) (auto simp: public_words split: jnum.splits)

lemma public_identity: "(k, v) \<in> set (event_identity event) \<Longrightarrow> public_text release k \<and> public_value release v"
  unfolding event_identity_def set_append Un_iff by (elim disjE) (rule public_id public_stamp, assumption)+

lemma public_crumbs: "\<forall>v\<in>set (scrubbed_crumbs crumbs). public_value release v"
  by (auto simp: scrubbed_crumbs_def map_filter_def dest: public_crumb split: jv.splits)

lemma public_exceptions:
  "mapr (scrub_value operation) values = Inr clean \<Longrightarrow> public_value release operation
     \<Longrightarrow> \<forall>v\<in>set clean. public_value release v"
  by (auto dest!: mapr_in_set_rev intro: public_exception)

text \<open>C23: Whatever the SDK, its integrations or the code put into an event (messages of errors, addresses, task
  titles, credentials, at any depth), what leaves the page in its place contains no text but the ones of the
  fixed lists, the release of the page, and identifiers of 32 hexadecimal digits.\<close>

lemma scrubbed_event_public:
  assumes "scrub_final_event event release = Some clean"
  shows "\<forall>s\<in>set (texts clean). s \<in> set public_texts \<or> s = release \<or> hex32 s"
proof -
  obtain operation exceptions level where
    ob: "clean = Obj ([(''platform'', Str ''javascript''), (''environment'', Str ENVIRONMENT), (''release'', Str release),
       (''level'', level), (''tags'', Obj [(''error.operation'', operation)]),
       (''exception'', Obj [(''values'', Arr exceptions)]),
       (''breadcrumbs'', Arr (scrubbed_crumbs (getp event ''breadcrumbs'')))] @ event_identity event)"
    and parts: "public_value release operation" "public_value release level"
      "\<forall>v\<in>set exceptions. public_value release v"
    using assms public_choices(2,3)[of release] public_exceptions[of _ _ _ release]
    by (auto simp: scrub_final_event_def scrub_event_def res_simps Let_def public_words split: sum.splits)
  have "public_value release clean"
    using parts public_crumbs public_identity by (auto simp: ob public_words)
  then show ?thesis
    by (simp add: public_value_def list_all_iff public_text_def)
qed

section \<open>The rate of reports\<close>

definition is_capture :: "sdk_request \<Rightarrow> bool" where
  "is_capture r = (case r of Capture_exception _ _ _ \<Rightarrow> True | Add_breadcrumb _ _ _ \<Rightarrow> False)"

text \<open>The key of the failure a call is about, and the reports a sequence of calls makes: their keys and times.\<close>

definition call_key :: "report_call \<Rightarrow> string" where
  "call_key call = failure_key (id_text (y_operation call)) (y_error call)"

fun reports :: "report_call list \<Rightarrow> monitor \<Rightarrow> (string \<times> int) list" where
  "reports [] m = []"
| "reports (call # calls) m = (case report_frontend_error call m of (_, asked, m') \<Rightarrow>
     (if list_ex is_capture asked then [(call_key call, y_now call)] else []) @ reports calls m')"

definition spaced :: "(string \<times> int) list \<Rightarrow> bool" where
  "spaced rs \<longleftrightarrow>
     (\<forall>i. i + 10 < length rs \<longrightarrow> 60000 \<le> snd (rs ! (i + 10)) - snd (rs ! i))
   \<and> (\<forall>i j. i < j \<and> j < length rs \<and> fst (rs ! i) = fst (rs ! j) \<longrightarrow> 24000 \<le> snd (rs ! j) - snd (rs ! i))"

text \<open>What the two variables remember of the reports made so far, the last call being at \<open>t\<close>.\<close>

definition remembers :: "monitor \<Rightarrow> (string \<times> int) list \<Rightarrow> int \<Rightarrow> bool" where
  "remembers m rs t \<longleftrightarrow>
     (\<exists>old. map snd rs = old @ m_times m \<and> (\<forall>x\<in>set old. x \<le> t - 60000))
   \<and> (\<forall>(key, x)\<in>set rs. \<exists>sample. map_of (m_samples m) key = Some sample \<and> x \<le> z_last sample)"

lemma spaced_snoc:
  assumes "spaced rs" "10 \<le> length rs \<Longrightarrow> snd (rs ! (length rs - 10)) \<le> t - 60000"
    and "\<And>x. (key, x) \<in> set rs \<Longrightarrow> 24000 \<le> t - x"
  shows "spaced (rs @ [(key, t)])"
proof -
  have "60000 \<le> snd ((rs @ [(key, t)]) ! (i + 10)) - snd ((rs @ [(key, t)]) ! i)" if "i + 10 < Suc (length rs)" for i
  proof (cases "i + 10 < length rs")
    case False
    then have "length rs = i + 10" using that by simp
    then show ?thesis using assms(2) by (simp add: nth_append)
  qed (use assms(1) in \<open>simp add: spaced_def nth_append\<close>)
  moreover have "24000 \<le> snd ((rs @ [(key, t)]) ! j) - snd ((rs @ [(key, t)]) ! i)"
    if "i < j" "j < Suc (length rs)" "fst ((rs @ [(key, t)]) ! i) = fst ((rs @ [(key, t)]) ! j)" for i j
  proof (cases "j < length rs")
    case False
    then have "j = length rs" "rs ! i \<in> set rs" using that by simp_all
    then show ?thesis using that assms(3)[of "snd (rs ! i)"] by (cases "rs ! i") (simp add: nth_append)
  qed (use assms(1) that in \<open>simp add: spaced_def nth_append\<close>)
  ultimately show ?thesis unfolding spaced_def by (simp only: length_append) simp
qed

lemma backoff_min:
  assumes "0 \<le> r"
  shows "24000 \<le> frontend_error_backoff repeats (Some r)"
proof -
  have "(1::rat) \<le> 2 ^ nat (min (max repeats 0) 4)" by simp
  then have "30000 \<le> min (FRONTEND_ERROR_DEDUP_MS * 2 ^ nat (min (max repeats 0) 4)) FRONTEND_ERROR_DEDUP_MAX_MS"
    by (simp add: FRONTEND_ERROR_DEDUP_MS_def FRONTEND_ERROR_DEDUP_MAX_MS_def)
  moreover have "4 / 5 \<le> 1 + (r * 2 - 1) * (1 / 5)" using assms by (simp add: field_simps)
  ultimately have "30000 * (4 / 5) \<le> min (FRONTEND_ERROR_DEDUP_MS * 2 ^ nat (min (max repeats 0) 4))
      FRONTEND_ERROR_DEDUP_MAX_MS * (1 + (r * 2 - 1) * (1 / 5))"
    by (intro mult_mono) simp_all
  then show ?thesis by (simp add: frontend_error_backoff_def)
qed

lemma suppressed_remembers:
  assumes "frontend_error_suppressed key t r m = (suppressed, m')" "remembers m rs t0" "t0 \<le> t"
    and "\<forall>(key, x)\<in>set rs. x \<le> t0"
  shows "remembers m' rs t"
  using assms
  by (fastforce simp: frontend_error_suppressed_def remembers_def Let_def update_conv'
      split: option.splits if_splits)

lemma noted_report:
  assumes "frontend_error_suppressed key t r m = (False, m')" "remembers m rs t0" "0 \<le> r"
  shows "\<exists>sample. map_of (m_samples m') key = Some sample \<and> z_last sample = t"
    and "(key, x) \<in> set rs \<Longrightarrow> 24000 \<le> t - x"
proof -
  show "\<exists>sample. map_of (m_samples m') key = Some sample \<and> z_last sample = t"
    using assms(1) by (auto simp: frontend_error_suppressed_def Let_def update_conv' split: option.splits if_splits)
  assume "(key, x) \<in> set rs"
  then obtain sample where sample: "map_of (m_samples m) key = Some sample" "x \<le> z_last sample"
    using assms(2) by (fastforce simp: remembers_def)
  then have "(24000::rat) \<le> of_int (t - z_last sample)"
    using assms(1) backoff_min[OF assms(3), of "int (z_repeats sample)"]
    by (simp add: frontend_error_suppressed_def Let_def split: if_splits)
  then have "24000 \<le> t - z_last sample" by linarith
  then show "24000 \<le> t - x" using sample(2) by simp
qed

lemma limited_times:
  assumes "frontend_error_rate_limited t m = (limited, m')" "remembers m rs t"
  obtains old recent where "map snd rs = old @ recent" "\<forall>x\<in>set old. x \<le> t - 60000"
    "m' = m\<lparr>m_times := if limited then recent else recent @ [t]\<rparr>" "\<not> limited \<Longrightarrow> length recent < 10"
proof -
  let ?old = "\<lambda>x. x \<le> t - 60000"
  obtain old where old: "map snd rs = old @ m_times m" "\<forall>x\<in>set old. ?old x"
    using assms(2) by (auto simp: remembers_def)
  have parts: "takeWhile ?old (m_times m) @ dropWhile ?old (m_times m) = m_times m" by simp
  have "map snd rs = (old @ takeWhile ?old (m_times m)) @ dropWhile ?old (m_times m)"
    unfolding append_assoc parts by (rule old(1))
  moreover have "\<forall>x\<in>set (old @ takeWhile ?old (m_times m)). ?old x"
    using old(2) by (auto dest: set_takeWhileD)
  moreover have "m' = m\<lparr>m_times := if limited then dropWhile ?old (m_times m) else dropWhile ?old (m_times m) @ [t]\<rparr>"
      "\<not> limited \<Longrightarrow> length (dropWhile ?old (m_times m)) < 10"
    using assms(1) by (auto simp: frontend_error_rate_limited_def Let_def FRONTEND_ERROR_WINDOW_MS_def
        FRONTEND_ERROR_MAX_PER_WINDOW_def split: if_splits)
  ultimately show thesis by (rule that)
qed

lemma limited_remembers:
  assumes "frontend_error_rate_limited t m = (True, m')" "remembers m rs t"
  shows "remembers m' rs t"
  using assms(1,2) by (rule limited_times) (use assms(2) in \<open>auto simp: remembers_def\<close>)

lemma sent_remembers:
  assumes "frontend_error_rate_limited t m = (False, m')" "remembers m rs t"
    and "map_of (m_samples m) key = Some sample" "z_last sample = t"
  shows "remembers m' (rs @ [(key, t)]) t"
    and "10 \<le> length rs \<Longrightarrow> snd (rs ! (length rs - 10)) \<le> t - 60000"
proof -
  obtain old recent where parts: "map snd rs = old @ recent" "\<forall>x\<in>set old. x \<le> t - 60000"
      "m' = m\<lparr>m_times := recent @ [t]\<rparr>" "length recent < 10"
    using assms(1,2) by (rule limited_times) auto
  show "remembers m' (rs @ [(key, t)]) t"
    using assms(2-) parts by (auto simp: remembers_def)
  assume "10 \<le> length rs"
  moreover have lengths: "length rs = length old + length recent"
    using arg_cong[OF parts(1), of length] by simp
  ultimately have "length rs - 10 < length old" using parts(4) by simp
  moreover from this have "snd (rs ! (length rs - 10)) = old ! (length rs - 10)"
    using arg_cong[OF parts(1), of "\<lambda>ts. ts ! (length rs - 10)"] lengths by (simp add: nth_append)
  ultimately show "snd (rs ! (length rs - 10)) \<le> t - 60000" using parts(2) by simp
qed

lemma report_remembers:
  assumes "report_frontend_error call m = (result, asked, m')" "remembers m rs t0" "spaced rs"
    and "t0 \<le> y_now call" "0 \<le> y_random call" "\<forall>(key, x)\<in>set rs. x \<le> t0"
  defines "new \<equiv> if list_ex is_capture asked then [(call_key call, y_now call)] else []"
  shows "remembers m' (rs @ new) (y_now call) \<and> spaced (rs @ new)"
proof -
  consider (quiet) "m' = m" "new = []"
    | (repeated) "frontend_error_suppressed (call_key call) (y_now call) (y_random call) m = (True, m')" "new = []"
    | (limited) m1 where "frontend_error_suppressed (call_key call) (y_now call) (y_random call) m = (False, m1)"
        "frontend_error_rate_limited (y_now call) m1 = (True, m')" "new = []"
    | (sent) m1 where "frontend_error_suppressed (call_key call) (y_now call) (y_random call) m = (False, m1)"
        "frontend_error_rate_limited (y_now call) m1 = (False, m')" "new = [(call_key call, y_now call)]"
    using assms(1)
    by (auto simp: report_frontend_error_def new_def is_capture_def call_key_def id_text_def note_frontend_error_repeat_def
        split: jv.splits if_splits prod.splits bool.splits)
  then show ?thesis
  proof cases
    case quiet
    then show ?thesis using assms(2-4) by (fastforce simp: remembers_def)
  next
    case repeated
    then show ?thesis using suppressed_remembers[OF _ assms(2,4,6)] assms(3) by simp
  next
    case limited
    then show ?thesis using limited_remembers suppressed_remembers[OF _ assms(2,4,6)] assms(3) by simp
  next
    case sent
    obtain sample where "map_of (m_samples m1) (call_key call) = Some sample" "z_last sample = y_now call"
      using noted_report(1)[OF sent(1) assms(2,5)] by blast
    note known = sent_remembers[OF sent(2) suppressed_remembers[OF sent(1) assms(2,4,6)] this]
    show ?thesis
      using known(1) spaced_snoc[OF assms(3) known(2) noted_report(2)[OF sent(1) assms(2,5)]] by (simp add: sent(3))
  qed
qed

lemma report_times:
  assumes "remembers m rs t" "spaced rs" "\<forall>(key, x)\<in>set rs. x \<le> t"
    and "sorted (t # map y_now calls)" "\<forall>call\<in>set calls. 0 \<le> y_random call"
  shows "spaced (rs @ reports calls m)"
  using assms
proof (induction calls arbitrary: m rs t)
  case (Cons call calls)
  obtain result asked m' where call: "report_frontend_error call m = (result, asked, m')"
    by (cases "report_frontend_error call m") auto
  let ?new = "if list_ex is_capture asked then [(call_key call, y_now call)] else []"
  have "t \<le> y_now call" "0 \<le> y_random call" using Cons.prems(4,5) by simp_all
  then have now: "remembers m' (rs @ ?new) (y_now call) \<and> spaced (rs @ ?new)"
    using report_remembers[OF call Cons.prems(1,2) _ _ Cons.prems(3)] by simp
  have times: "\<forall>(key, x)\<in>set (rs @ ?new). x \<le> y_now call"
    using Cons.prems(3) \<open>t \<le> y_now call\<close> by (auto split: if_splits)
  have "spaced ((rs @ ?new) @ reports calls m')"
    using Cons.IH[OF now[THEN conjunct1] now[THEN conjunct2] times] Cons.prems(4,5) by (simp split del: if_split)
  then show ?case by (simp add: call)
qed simp

text \<open>C24: However many failures a page meets, and however its calls are timed, an eleventh report leaves at least a
  minute after the first of the ten before it, and two reports of one failure (one operation and one name of an
  error) are at least 24 seconds apart.\<close>

lemma reports_bounded:
  assumes "sorted (map y_now calls)" "\<forall>call\<in>set calls. 0 \<le> y_random call"
  shows "let rs = reports calls no_reports in
      (\<forall>i. i + 10 < length rs \<longrightarrow> 60000 \<le> snd (rs ! (i + 10)) - snd (rs ! i))
    \<and> (\<forall>i j. i < j \<and> j < length rs \<and> fst (rs ! i) = fst (rs ! j) \<longrightarrow> 24000 \<le> snd (rs ! j) - snd (rs ! i))"
proof -
  obtain t where "sorted (t # map y_now calls)"
  proof (cases calls)
    case Nil
    then show thesis using that[of 0] by simp
  next
    case (Cons call later)
    then show thesis using assms(1) that[of "y_now call"] by simp
  qed
  then have "spaced ([] @ reports calls no_reports)"
    using assms(2) by (intro report_times) (auto simp: remembers_def spaced_def no_reports_def)
  then show ?thesis by (simp add: spaced_def Let_def)
qed

text \<open>Eleven reports in a minute: the last one waits, and so does a repetition.\<close>

definition sample_failure :: "string \<Rightarrow> int \<Rightarrow> report_call" where
  "sample_failure operation t =
     \<lparr>y_error = Obj [(''name'', Str ''TypeError'')], y_operation = Str operation, y_can_report = True,
      y_can_add = True, y_now = t, y_random = 1 / 2, y_captured = True\<rparr>"

definition sample_failures :: "report_call list" where
  "sample_failures =
     [sample_failure ''a'' 0, sample_failure ''a'' 1, sample_failure ''b'' 2, sample_failure ''c'' 3,
      sample_failure ''d'' 4, sample_failure ''e'' 5, sample_failure ''f'' 6, sample_failure ''g'' 7,
      sample_failure ''h'' 8, sample_failure ''i'' 9, sample_failure ''j'' 10, sample_failure ''k'' 11,
      sample_failure ''l'' 60000, sample_failure ''a'' 60002]"

lemma reports_bounded_witness:
  "length (reports sample_failures no_reports) = 12
   \<and> 60000 \<le> snd (reports sample_failures no_reports ! 10) - snd (reports sample_failures no_reports ! 0)
   \<and> map snd (reports sample_failures no_reports) = [0, 2, 3, 4, 5, 6, 7, 8, 9, 10, 60000, 60002]"
proof -
  have calls: "sorted (map y_now sample_failures)" "\<forall>call\<in>set sample_failures. 0 \<le> y_random call"
    by (simp_all add: sample_failures_def sample_failure_def)
  have times: "map snd (reports sample_failures no_reports) = [0, 2, 3, 4, 5, 6, 7, 8, 9, 10, 60000, 60002]"
    by code_simp
  have "length (map snd (reports sample_failures no_reports)) = 12"
    unfolding times by simp
  then have "length (reports sample_failures no_reports) = 12" by simp
  then show ?thesis
    using reports_bounded[OF calls, unfolded Let_def, THEN conjunct1, rule_format, of 0] times by simp
qed

definition sample_event :: jv where
  "sample_event =
     Obj [(''message'', Str ''buy milk''), (''level'', Str ''warning''), (''event_id'', Str ''5f''), (''timestamp'', jint 7),
       (''tags'', Obj [(''error.operation'', Str ''storage.failure''), (''url'', Str ''https://x/?token=1'')]),
       (''exception'', Obj [(''values'', Arr [Obj [(''type'', Str ''Secret''), (''value'', Str ''a@b.c'')]])]),
       (''breadcrumbs'', Arr [Obj [(''category'', Str ''fetch''), (''message'', Str ''https://x'')], Null])]"

lemma scrubbed_event_public_witness:
  "\<exists>clean. scrub_final_event sample_event ''pomodorough-web@1'' = Some clean
   \<and> ''buy milk'' \<notin> set (texts clean) \<and> ''https://x'' \<notin> set (texts clean)"
proof -
  have "scrub_final_event sample_event ''pomodorough-web@1'' \<noteq> None" by code_simp
  then obtain clean where clean: "scrub_final_event sample_event ''pomodorough-web@1'' = Some clean" by blast
  have "''buy milk'' \<notin> set public_texts \<and> \<not> hex32 ''buy milk''" "''https://x'' \<notin> set public_texts \<and> \<not> hex32 ''https://x''"
    by code_simp+
  then show ?thesis using scrubbed_event_public[OF clean] clean by auto
qed

end
