(* ===== verification/ViewTimer.thy ===== *)
theory ViewTimer
  imports TabActions
begin

text \<open>
  What a page shows of the timer and of the preferences (\<open>PreferenceView\<close> and \<open>TimerView\<close> of
  \<open>web/app-view.js\<close>), as the contents of its elements computed from the state of the tab. A text that
  is \<open>String(v)\<close> of a value is that value. The read model a page shows is an argument: the answer of
  \<open>get_workspace_read_model\<close>, or none while the tab is not ready. The characters of a mark (full and
  empty circles, a separator of the title) are counted or named, not spelled.
\<close>

section \<open>Numbers\<close>

text \<open>\<open>Math.floor(n / k)\<close>, \<open>Math.round(n / k)\<close>, \<open>Math.ceil(n / k)\<close> and \<open>n % k\<close> for a positive divisor.\<close>

fun num_floor_div :: "jnum \<Rightarrow> int \<Rightarrow> jnum" where
  "num_floor_div (JInt i) k = JInt (i div k)"
| "num_floor_div (JFrac q) k = JInt \<lfloor>q / of_int k\<rfloor>"
| "num_floor_div n k = n"

fun num_round_div :: "jnum \<Rightarrow> int \<Rightarrow> jnum" where
  "num_round_div (JInt i) k = JInt ((2 * i + k) div (2 * k))"
| "num_round_div (JFrac q) k = JInt \<lfloor>q / of_int k + 1 / 2\<rfloor>"
| "num_round_div n k = n"

fun num_ceil_div :: "jnum \<Rightarrow> int \<Rightarrow> jnum" where
  "num_ceil_div (JInt i) k = JInt (- ((- i) div k))"
| "num_ceil_div (JFrac q) k = JInt \<lceil>q / of_int k\<rceil>"
| "num_ceil_div n k = n"

fun num_rem :: "jnum \<Rightarrow> int \<Rightarrow> jnum" where
  "num_rem (JInt i) k = JInt (if 0 \<le> i then i mod k else - ((- i) mod k))"
| "num_rem (JFrac q) k = JFrac (q - of_int k * of_int (if 0 \<le> q then \<lfloor>q / of_int k\<rfloor> else \<lceil>q / of_int k\<rceil>))"
| "num_rem n k = JNaN"

fun num_times :: "int \<Rightarrow> jnum \<Rightarrow> jnum" where
  "num_times k (JInt i) = JInt (k * i)"
| "num_times k (JFrac q) = (let p = of_int k * q in if p = of_int \<lfloor>p\<rfloor> then JInt \<lfloor>p\<rfloor> else JFrac p)"
| "num_times k n = n"

fun num_add :: "jnum \<Rightarrow> jnum \<Rightarrow> jnum" where
  "num_add (JInt a) (JInt b) = JInt (a + b)"
| "num_add (JInt a) (JFrac b) = JFrac (of_int a + b)"
| "num_add (JFrac a) (JInt b) = JFrac (a + of_int b)"
| "num_add (JFrac a) (JFrac b) = (if a + b = of_int \<lfloor>a + b\<rfloor> then JInt \<lfloor>a + b\<rfloor> else JFrac (a + b))"
| "num_add JNaN _ = JNaN"
| "num_add _ JNaN = JNaN"
| "num_add (JInf p) (JInf q) = (if p = q then JInf p else JNaN)"
| "num_add (JInf p) _ = JInf p"
| "num_add _ (JInf q) = JInf q"

definition num_max :: "jnum \<Rightarrow> jnum \<Rightarrow> jnum" where
  "num_max a b = (if a = JNaN \<or> b = JNaN then JNaN else if num_less a b then b else a)"

definition num_min :: "jnum \<Rightarrow> jnum \<Rightarrow> jnum" where
  "num_min a b = (if a = JNaN \<or> b = JNaN then JNaN else if num_less b a then b else a)"

text \<open>\<open>String(n)\<close>; the digits of a fraction are printed by the argument.\<close>

definition number_text :: "(rat \<Rightarrow> string) \<Rightarrow> jnum \<Rightarrow> string" where
  "number_text fraction n = (case n of
     JInt i \<Rightarrow> int_text i | JFrac q \<Rightarrow> fraction q | JNaN \<Rightarrow> ''NaN''
   | JInf True \<Rightarrow> ''Infinity'' | JInf False \<Rightarrow> ''-Infinity'')"

definition number_arg :: "(rat \<Rightarrow> string) \<Rightarrow> jnum \<Rightarrow> arg" where
  "number_arg fraction n = (case n of JInt i \<Rightarrow> Count i | _ \<Rightarrow> Text (number_text fraction n))"

definition pad_start :: "nat \<Rightarrow> string \<Rightarrow> string" where
  "pad_start width s = replicate (width - length s) (CHR ''0'') @ s"

definition upper_char :: "char \<Rightarrow> char" where
  "upper_char c = (case map_of (zip ''abcdefghijklmnopqrstuvwxyz'' ''ABCDEFGHIJKLMNOPQRSTUVWXYZ'') c of
     None \<Rightarrow> c | Some d \<Rightarrow> d)"

definition upper :: "string \<Rightarrow> string" where
  "upper s = map upper_char s"

text \<open>The label of a phase; a value that is no phase has none and throws.\<close>

definition label_of :: "catalog \<Rightarrow> jv \<Rightarrow> string res" where
  "label_of i18n phase = (case phase of
     Str p \<Rightarrow> (case phase_label i18n p of Some l \<Rightarrow> Inr l | None \<Rightarrow> Inl (TypeError ''labelKey''))
   | _ \<Rightarrow> Inl (TypeError ''labelKey''))"

definition status_label :: "catalog \<Rightarrow> jv \<Rightarrow> string" where
  "status_label i18n status = timer_status_label i18n (id_text status)"

section \<open>Screens\<close>

text \<open>Which screens are hidden, and of every button whether it is selected and its place in the tab order.\<close>

definition render_screens :: "obj \<Rightarrow> string list \<Rightarrow> bool \<times> bool \<times> (bool \<times> int) list" where
  "render_screens st buttons =
     (let tasks = fld st ''activeScreen'' = Str ''tasks'' in
      (tasks, \<not> tasks, map (\<lambda>b. if Str b = fld st ''activeScreen'' then (True, 0) else (False, -1)) buttons))"

definition activate_screen :: "string \<Rightarrow> obj \<Rightarrow> obj" where
  "activate_screen button st = obj_put ''activeScreen'' (Str (if button = ''tasks'' then ''tasks'' else ''timer'')) st"

text \<open>The button a key moves to, of \<open>n\<close> buttons, from the one at \<open>current\<close>.\<close>

definition handle_screen_keydown :: "nat \<Rightarrow> int \<Rightarrow> string \<Rightarrow> int option" where
  "handle_screen_keydown n current key =
     (if current < 0 then None
      else if key = ''ArrowLeft'' then Some ((current - 1 + int n) mod int n)
      else if key = ''ArrowRight'' then Some ((current + 1) mod int n)
      else if key = ''Home'' then Some 0
      else if key = ''End'' then Some (int n - 1)
      else None)"

section \<open>Preferences\<close>

text \<open>\<open>deviceId.slice(-4).toUpperCase()\<close>\<close>

definition render_device_mark :: "obj \<Rightarrow> string" where
  "render_device_mark st = (let i = id_text (fld st ''deviceId'') in upper (drop (length i - 4) i))"

record preferences_shown =
  p_phases :: "(bool \<times> bool) list"
  p_durations :: "(jnum \<times> bool) list"
  p_steps_disabled :: bool
  p_auto_start :: jv
  p_auto_start_disabled :: bool

text \<open>The buttons of the phases (pressed, disabled), the fields of the durations (minutes, disabled).\<close>

definition render_durations :: "obj \<Rightarrow> jv option \<Rightarrow> string list \<Rightarrow> preferences_shown res" where
  "render_durations st model phases =
     (let status = (case model of Some m \<Rightarrow> getp (getp m ''canonical'') ''status'' | None \<Rightarrow> getp (fld st ''timer'') ''status'');
          active = status \<in> {Str ''running'', Str ''paused''} in
      bindr (controls_blocked st) (\<lambda>blocked.
      Inr \<lparr>p_phases = map (\<lambda>p. (Str p = fld st ''selectedPhase'', blocked \<or> active)) phases,
        p_durations = map (\<lambda>p. (case to_number (getp (fld st ''durationsMs'') p) of
            JInt i \<Rightarrow> if i mod 60000 = 0 then JInt (i div 60000) else JFrac (of_int i / 60000)
          | JFrac q \<Rightarrow> JFrac (q / 60000) | n \<Rightarrow> n, blocked \<or> active)) phases,
        p_steps_disabled = (blocked \<or> active),
        p_auto_start = fld st ''autoStartBreaks'', p_auto_start_disabled = blocked\<rparr>))"

definition app_version :: "jv \<Rightarrow> string" where
  "app_version content = (let version = (case content of Str s \<Rightarrow> trim s | _ \<Rightarrow> []) in
     if version = [] then ''unknown'' else version)"

definition render_version :: "catalog \<Rightarrow> jv \<Rightarrow> string" where
  "render_version i18n content =
     tr i18n ''pattern.version'' [(''version'', Text (app_version content))] (''Version '' @ app_version content)"

record option_shown =
  n_value :: jv
  n_text :: jv
  n_disabled :: bool

record selector_shown =
  v_options :: "option_shown list"
  v_value :: jv
  v_disabled :: bool

text \<open>The tasks to choose from. A chosen task that is gone stays visible and cannot be chosen again.\<close>

definition render_task_selector :: "catalog \<Rightarrow> obj \<Rightarrow> selector_shown res" where
  "render_task_selector i18n st =
     (let chosen = or_else (fld st ''selectedTaskId'') (Str []);
          tasks = list_if_array (fld st ''tasks'');
          available = list_ex (\<lambda>task. strict_eq (getp task ''id'') chosen) tasks in
      bindr (controls_blocked st) (\<lambda>blocked.
      Inr \<lparr>v_options =
          [\<lparr>n_value = Str [], n_text = Str (tr i18n ''pattern.noTask'' [] ''No task''), n_disabled = False\<rparr>]
        @ (if truthy chosen \<and> \<not> available
           then [\<lparr>n_value = chosen, n_text = Str (tr i18n ''pattern.taskUnavailable'' [] ''Selected task unavailable''),
             n_disabled = True\<rparr>] else [])
        @ map (\<lambda>task. \<lparr>n_value = getp task ''id'', n_text = getp task ''title'', n_disabled = False\<rparr>) tasks,
        v_value = chosen, v_disabled = blocked\<rparr>))"

text \<open>The duration a field asks for; a step of a button is added to what the field holds.\<close>

definition duration_asked :: "string \<Rightarrow> jnum" where
  "duration_asked typed = num_times 60000 (to_number (Str typed))"

definition step_value :: "string \<Rightarrow> string \<Rightarrow> jnum" where
  "step_value step typed =
     num_add (to_number (Str typed)) (case to_number (Str step) of JNaN \<Rightarrow> JInt 0 | JInf _ \<Rightarrow> JInt 0 | n \<Rightarrow> n)"

section \<open>The dial\<close>

definition dial_tick_count_for_timer :: "jv \<Rightarrow> jnum" where
  "dial_tick_count_for_timer timer =
     num_max (JInt 1) (num_ceil_div (to_number (or_else (getp timer ''plannedDurationMs'') (jint 0))) 60000)"

definition dial_total :: "jnum \<Rightarrow> nat" where
  "dial_total marks = (case num_max (JInt 1) (num_min (JInt 240)
       (case num_round_div marks 1 of JNaN \<Rightarrow> JInt 0 | n \<Rightarrow> n)) of JInt i \<Rightarrow> nat i | _ \<Rightarrow> 1)"

text \<open>The marks of the dial: the angle in degrees, the inner radius, and whether the mark is a long one.\<close>

definition render_dial_tick_marks :: "jnum \<Rightarrow> (rat \<times> int \<times> bool) list" where
  "render_dial_tick_marks marks =
     (let n = dial_total marks in
      map (\<lambda>i. (of_nat i * 360 / of_nat n - 90, if i mod 5 = 0 then 117 else 122, i mod 5 = 0)) [0..<n])"

section \<open>The clock\<close>

definition display_timer :: "obj \<Rightarrow> jv option \<Rightarrow> jv" where
  "display_timer st model = (case model of
     None \<Rightarrow> fld st ''timer''
   | Some m \<Rightarrow> Obj (spread (as_obj (fld st ''timer'')) (as_obj (getp m ''display''))))"

record clock_view =
  i_remaining :: jv
  i_progress :: jv
  i_seconds_total :: jnum
  i_minutes :: jnum
  i_seconds :: jnum
  i_time_text :: string
  i_status :: jv

definition timer_display_view :: "(rat \<Rightarrow> string) \<Rightarrow> jv option \<Rightarrow> jv \<Rightarrow> jv \<Rightarrow> clock_view" where
  "timer_display_view fraction model timer status =
     (let display = (case model of Some m \<Rightarrow> getp m ''display'' | None \<Rightarrow> Undef);
          seconds_total = to_number (coalesce (getp display ''remainingSecondsCeil'') (jint 1500));
          minutes = num_floor_div seconds_total 60; seconds = num_rem seconds_total 60 in
      \<lparr>i_remaining = coalesce (getp display ''remainingMs'') (getp timer ''plannedDurationMs''),
       i_progress = coalesce (getp display ''progress'') (jint 0),
       i_seconds_total = seconds_total, i_minutes = minutes, i_seconds = seconds,
       i_time_text = pad_start 2 (number_text fraction minutes) @ '':'' @ pad_start 2 (number_text fraction seconds),
       i_status = status\<rparr>)"

definition timer_detail_text :: "(rat \<Rightarrow> string) \<Rightarrow> catalog \<Rightarrow> jv \<Rightarrow> jv \<Rightarrow> string" where
  "timer_detail_text fraction i18n timer status =
     (let minutes = num_round_div (to_number (getp timer ''plannedDurationMs'')) 60000;
          printed = number_text fraction minutes; label = upper (status_label i18n status) in
      if status = Str ''completed''
      then tr i18n ''timer.detailNext'' [(''minutes'', number_arg fraction minutes)] (''NEXT / '' @ printed @ '' MIN'')
      else tr i18n ''timer.detail'' [(''status'', Text label), (''minutes'', number_arg fraction minutes)]
        (label @ '' / '' @ printed @ '' MIN''))"

text \<open>The title of the page: the one it was loaded with, or that title after what is finished or running.\<close>

datatype page_title = Loaded_title | Done_title string | Clock_title string string

definition render_document_title :: "catalog \<Rightarrow> obj \<Rightarrow> jv \<Rightarrow> jv \<Rightarrow> clock_view \<Rightarrow> page_title res" where
  "render_document_title i18n st alert timer view =
     (if truthy alert then bindr (label_of i18n (getp (fld st ''timer'') ''phase'')) (\<lambda>l. Inr (Done_title l))
      else if i_status view \<in> {Str ''running'', Str ''paused''}
      then bindr (label_of i18n (getp timer ''phase'')) (\<lambda>l. Inr (Clock_title (i_time_text view) l))
      else Inr Loaded_title)"

text \<open>\<open>"x".repeat(n)\<close>: how many times, for a count that is no negative or infinite number.\<close>

definition repeated :: "jnum \<Rightarrow> nat res" where
  "repeated n = (case n of
     JInt i \<Rightarrow> if i < 0 then Inl (RangeError ''Invalid count value'') else Inr (nat i)
   | JFrac q \<Rightarrow> if q \<le> -1 then Inl (RangeError ''Invalid count value'') else Inr (nat \<lfloor>q\<rfloor>)
   | JNaN \<Rightarrow> Inr 0
   | JInf _ \<Rightarrow> Inl (RangeError ''Invalid count value''))"

record clock_shown =
  k_text :: string
  k_date_time :: string
  k_label :: string
  k_phase :: string
  k_detail :: string
  k_done :: nat
  k_open :: nat
  k_progress_label :: string
  k_status :: jv
  k_dial :: jv
  k_title :: page_title

definition break_progress :: "obj \<Rightarrow> jnum" where
  "break_progress st = to_number (coalesce (getp (getp (fld st ''readModel'') ''cadence'') ''longBreakProgress'') (jint 0))"

definition render_timer_clock :: "(rat \<Rightarrow> string) \<Rightarrow> catalog \<Rightarrow> obj \<Rightarrow> jv \<Rightarrow> jv \<Rightarrow> clock_view \<Rightarrow> clock_shown res" where
  "render_timer_clock fraction i18n st alert timer view =
     (let printed = number_text fraction; status = status_label i18n (i_status view);
          progress = break_progress st in
      bindr (label_of i18n (getp timer ''phase'')) (\<lambda>phase.
      bindr (repeated progress) (\<lambda>done_count.
      bindr (repeated (num_add (JInt 4) (num_times (-1) progress))) (\<lambda>open_count.
      bindr (render_document_title i18n st alert timer view) (\<lambda>title.
      Inr \<lparr>k_text = i_time_text view,
        k_date_time = ''PT'' @ printed (num_floor_div (i_seconds_total view) 60) @ ''M'' @ printed (i_seconds view) @ ''S'',
        k_label = tr i18n ''timer.remainingLabel''
          [(''minutes'', number_arg fraction (i_minutes view)), (''seconds'', number_arg fraction (i_seconds view)),
           (''phase'', Text phase), (''status'', Text status)]
          (printed (i_minutes view) @ '' minutes '' @ printed (i_seconds view) @ '' seconds remaining, '' @ phase @ '', '' @ status),
        k_phase = upper phase, k_detail = timer_detail_text fraction i18n timer (i_status view),
        k_done = done_count, k_open = open_count,
        k_progress_label = tr i18n ''timer.pomodoroProgress''
          [(''count'', number_arg fraction progress), (''total'', Count 4)]
          (''Pomodoro progress: '' @ printed progress @ '' of 4 today''),
        k_status = i_status view, k_dial = i_progress view, k_title = title\<rparr>)))))"

section \<open>The controls of the timer\<close>

definition terminal_timer_instruction :: "catalog \<Rightarrow> jv \<Rightarrow> string" where
  "terminal_timer_instruction i18n status =
     (if status = Str ''completed'' then tr i18n ''timer.instruction.completed'' []
        ''Run complete. Stop the sound or start another.''
      else if status = Str ''cancelled'' then tr i18n ''timer.instruction.cancelled'' [] ''Run cancelled. Start another.''
      else if status = Str ''superseded'' then tr i18n ''timer.instruction.superseded'' []
        ''Another device is carrying this timer.''
      else tr i18n ''timer.instruction.idle'' [] ''Choose a pattern, then start the clock.'')"

text \<open>The label of the main button and the instruction.\<close>

definition render_timer_instruction :: "catalog \<Rightarrow> jv \<Rightarrow> jv \<Rightarrow> (string \<times> string) res" where
  "render_timer_instruction i18n timer status =
     (if status = Str ''running'' then Inr (tr i18n ''timer.pause'' [] ''Pause'',
        tr i18n ''timer.instruction.running'' [] ''Service underway. Continue here or on another device.'')
      else if status = Str ''paused'' then Inr (tr i18n ''timer.resume'' [] ''Resume'',
        tr i18n ''timer.instruction.paused'' [] ''Held at this stop. Resume when ready.'')
      else bindr (label_of i18n (getp timer ''phase'')) (\<lambda>label.
        Inr (tr i18n ''timer.start'' [(''phase'', Text (lower label))] (''Start '' @ lower label),
          terminal_timer_instruction i18n status)))"

record control_shown =
  j_hidden :: bool
  j_disabled :: bool

record controls_shown =
  w_toggle_disabled :: bool
  w_finish :: control_shown
  w_cancel :: control_shown
  w_skip :: control_shown
  w_skip_text :: "string option"
  w_clear :: control_shown

text \<open>The place to skip to is the Core's; without one the control is hidden and keeps its text.\<close>

definition render_skip_control :: "catalog \<Rightarrow> obj \<Rightarrow> bool \<Rightarrow> bool \<Rightarrow> (control_shown \<times> string option) res" where
  "render_skip_control i18n st underway blocked =
     (let destination = coalesce (getp (getp (fld st ''readModel'') ''cadence'') ''skipDestination'') Null;
          skip = \<lparr>j_hidden = underway \<or> \<not> truthy destination, j_disabled = blocked \<or> \<not> truthy destination\<rparr> in
      if \<not> truthy destination then Inr (skip, None)
      else bindr (label_of i18n destination) (\<lambda>label.
        Inr (skip, Some (tr i18n ''timer.skipTo'' [(''phase'', Text (lower label))] (''Skip to '' @ lower label)))))"

definition intends :: "jv list \<Rightarrow> string list \<Rightarrow> bool" where
  "intends intents kinds \<longleftrightarrow> list_ex (\<lambda>i. i \<in> Str ` set kinds) intents"

definition render_timer_controls :: "catalog \<Rightarrow> obj \<Rightarrow> jv \<Rightarrow> controls_shown res" where
  "render_timer_controls i18n st alert =
     (let intents = list_if_array (getp (fld st ''readModel'') ''availableIntents'') in
      bindr (controls_blocked st) (\<lambda>closed.
      let blocked = closed \<or> truthy (fld st ''workspaceBlocked'');
          underway = intends intents [''pause'', ''resume'']; ringing = truthy alert in
      bindr (render_skip_control i18n st underway blocked) (\<lambda>(skip, skip_text).
      Inr \<lparr>w_toggle_disabled = (blocked \<or> \<not> intends intents [''start'', ''pause'', ''resume'']),
        w_finish = \<lparr>j_hidden = \<not> underway, j_disabled = blocked \<or> \<not> intends intents [''finish'']\<rparr>,
        w_cancel = \<lparr>j_hidden = \<not> underway, j_disabled = blocked \<or> \<not> intends intents [''cancelAndClear'']\<rparr>,
        w_skip = skip, w_skip_text = skip_text,
        w_clear = \<lparr>j_hidden = \<not> ringing, j_disabled = blocked \<or> \<not> ringing\<rparr>\<rparr>)))"

text \<open>Whether the note that an alert may be lost is hidden.\<close>

definition render_completion_limit :: "jv \<Rightarrow> jv \<Rightarrow> jv \<Rightarrow> bool" where
  "render_completion_limit permission standalone_mode standalone \<longleftrightarrow>
     permission = Str ''granted'' \<and> (standalone_mode = Bool True \<or> standalone = Bool True)"

text \<open>A click on the main button issues the first intent it stands for.\<close>

definition toggle_intent :: "jv \<Rightarrow> jv option" where
  "toggle_intent model = find (\<lambda>i. i \<in> {Str ''start'', Str ''pause'', Str ''resume''})
     (list_if_array (getp model ''availableIntents''))"

record timer_shown =
  y_marks :: "(rat \<times> int \<times> bool) list"
  y_clock :: clock_shown
  y_toggle :: string
  y_instruction :: string
  y_controls :: controls_shown

definition shown_status :: "obj \<Rightarrow> jv" where
  "shown_status st = or_else (getp (getp (fld st ''readModel'') ''display'') ''status'') (getp (fld st ''timer'') ''status'')"

definition shown_model :: "obj \<Rightarrow> jv option \<Rightarrow> jv option" where
  "shown_model st model = (case model of None \<Rightarrow> None | Some m \<Rightarrow> Some (or_else (fld st ''readModel'') m))"

text \<open>\<open>renderTimer\<close>, once \<open>displayTimer\<close> has read the model and left it in the state; the alert and the lock of
  the screen follow the status shown here.\<close>

definition render_timer :: "(rat \<Rightarrow> string) \<Rightarrow> catalog \<Rightarrow> obj \<Rightarrow> jv option \<Rightarrow> jv \<Rightarrow> timer_shown res" where
  "render_timer fraction i18n st model alert =
     (let timer = display_timer st model; status = shown_status st;
          view = timer_display_view fraction (shown_model st model) timer status in
      bindr (render_timer_clock fraction i18n st alert timer view) (\<lambda>clock.
      bindr (render_timer_instruction i18n timer status) (\<lambda>(toggle, instruction).
      bindr (render_timer_controls i18n st alert) (\<lambda>controls.
      Inr \<lparr>y_marks = render_dial_tick_marks (dial_tick_count_for_timer timer), y_clock = clock,
        y_toggle = toggle, y_instruction = instruction, y_controls = controls\<rparr>))))"

end
