(* ===== verification/ViewTasks.thy ===== *)
theory ViewTasks
  imports ViewTimer "HOL-Library.Multiset"
begin

text \<open>
  The history and the tasks a page shows, and what a user does in the list of tasks
  (\<open>ActivityView\<close> of \<open>web/app-view.js\<close>): a deletion is deferred so that it can be undone, and a title is
  edited in place.
\<close>

section \<open>The history\<close>

text \<open>What prints a fraction and a date, and the texts of the language.\<close>

record printing =
  u_catalog :: catalog
  u_fraction :: "rat \<Rightarrow> string"
  u_date :: "int \<Rightarrow> string"

record history_shown =
  d_stamp :: string
  d_phase :: string
  d_task :: jv
  d_status :: string
  d_queued :: "string option"
  d_date_time :: jv
  d_date :: string
  d_duration :: string

definition effective_history_task_id :: "jv \<Rightarrow> jv" where
  "effective_history_task_id item = or_else (getp item ''taskId'') Null"

definition history_task_context :: "catalog \<Rightarrow> jv \<Rightarrow> jv list \<Rightarrow> jv" where
  "history_task_context i18n item tasks =
     (let i = effective_history_task_id item in
      if \<not> truthy i then Str (tr i18n ''history.unassigned'' [] ''Unassigned'')
      else or_else (case find (\<lambda>task. strict_eq (getp task ''id'') i) tasks of Some task \<Rightarrow> getp task ''title'' | None \<Rightarrow> Undef)
        (Str (tr i18n ''history.deletedTask'' [] ''Deleted task'')))"

definition history_status_label :: "catalog \<Rightarrow> jv \<Rightarrow> string" where
  "history_status_label i18n item =
     (if \<not> truthy (getp item ''status'') \<or> getp item ''status'' = Str ''completed''
      then tr i18n ''history.completed'' [] ''Completed''
      else if getp item ''status'' = Str ''cancelled'' then tr i18n ''history.cancelled'' [] ''Cancelled''
      else tr i18n ''history.superseded'' [] ''Superseded'')"

definition history_item_label :: "catalog \<Rightarrow> jv list \<Rightarrow> jv \<Rightarrow> string \<times> string option" where
  "history_item_label i18n tasks item =
     (tr i18n ''history.statusSeparator'' [(''status'', Text (history_status_label i18n item))]
        ('' / '' @ history_status_label i18n item),
      if truthy (getp item ''pending'') then Some (tr i18n ''history.queued'' [] '' / queued'') else None)"

definition format_history_date :: "printing \<Rightarrow> jv \<Rightarrow> string" where
  "format_history_date p v = (case date_value v of
     Some t \<Rightarrow> if truthy v then u_date p t else tr (u_catalog p) ''history.timeNotRecorded'' [] ''Time not recorded''
   | None \<Rightarrow> tr (u_catalog p) ''history.timeNotRecorded'' [] ''Time not recorded'')"

definition history_list_item :: "printing \<Rightarrow> jv list \<Rightarrow> jv \<Rightarrow> history_shown" where
  "history_list_item p tasks item =
     (let i18n = u_catalog p; phase = id_text (known_phase (getp item ''phase''));
          text = (\<lambda>l. case l of Some s \<Rightarrow> s | None \<Rightarrow> []);
          duration = positive_number (coalesce (coalesce (getp item ''plannedDurationMs'') (getp item ''durationMs''))
            (getp (getp item ''timer'') ''plannedDurationMs'')) (jint 0);
          date = or_else (getp item ''completedAt'') (or_else (getp item ''endedAt'')
            (or_else (getp item ''occurredAt'') (getp item ''createdAt'')));
          minutes = num_max (JInt 1) (num_round_div (to_number duration) 60000);
          label = history_item_label i18n tasks item in
      \<lparr>d_stamp = text (phase_short_label i18n phase), d_phase = text (phase_label i18n phase),
       d_task = history_task_context i18n item tasks, d_status = fst label, d_queued = snd label,
       d_date_time = (if truthy date then date else Undef), d_date = format_history_date p date,
       d_duration = tr i18n ''history.minutes'' [(''count'', number_arg (u_fraction p) minutes)]
         (number_text (u_fraction p) minutes @ '' min'')\<rparr>)"

definition arrival_history_items :: "jv list \<Rightarrow> jv list" where
  "arrival_history_items items = filter (\<lambda>item. \<not> truthy (getp item ''status'')
     \<or> getp item ''status'' \<in> {Str ''completed'', Str ''cancelled'', Str ''superseded''}) items"

definition history_time :: "jv \<Rightarrow> int" where
  "history_time item = (case history_date_ms item of Num (JInt t) \<Rightarrow> t | _ \<Rightarrow> 0)"

text \<open>The runs that have ended, the latest first; with none, the two lines of the empty list.\<close>

datatype 'a listing = Empty_list string string | Listed "'a list"

definition empty_history_item :: "catalog \<Rightarrow> 'a listing" where
  "empty_history_item i18n = Empty_list (tr i18n ''history.empty'' [] ''No arrivals yet'')
     (tr i18n ''history.empty.detail'' [] ''Your first run appears here.'')"

definition render_history :: "printing \<Rightarrow> obj \<Rightarrow> string \<times> history_shown listing" where
  "render_history p st =
     (let arrivals = arrival_history_items (list_if_array (fld st ''history'')) in
      (pad_start 3 (int_text (int (length arrivals))),
       if arrivals = [] then empty_history_item (u_catalog p)
       else Listed (map (history_list_item p (list_if_array (fld st ''tasks'')))
         (sort_key (\<lambda>item. - history_time item) arrivals))))"

section \<open>The tasks\<close>

text \<open>
  What the list of tasks keeps for the page: the deletion that can still be undone, with the timer
  that sends it; the title being edited; the task the next rendering should focus.
\<close>

record deletion =
  q_task :: jv
  q_title :: jv
  q_timer :: nat

record task_view =
  h_deletion :: "deletion option"
  h_rename :: "(jv \<times> string) option"
  h_hint :: jv

definition new_task_view :: task_view where
  "new_task_view = \<lparr>h_deletion = None, h_rename = None, h_hint = Null\<rparr>"

definition format_task_duration :: "printing \<Rightarrow> jv \<Rightarrow> string" where
  "format_task_duration p ms =
     (let i18n = u_catalog p; all_minutes = num_round_div (num_max (JInt 0) (to_number ms)) 60000;
          hours = num_floor_div all_minutes 60; minutes = num_rem all_minutes 60;
          printed = number_text (u_fraction p); shown = number_arg (u_fraction p) in
      if \<not> truthy (Num hours) then tr i18n ''duration.minutesShort'' [(''count'', shown minutes)] (printed minutes @ '' min'')
      else if \<not> truthy (Num minutes) then tr i18n ''duration.hoursShort'' [(''count'', shown hours)] (printed hours @ '' hr'')
      else tr i18n ''duration.hoursMinutesShort'' [(''hours'', shown hours), (''minutes'', shown minutes)]
        (printed hours @ '' hr '' @ printed minutes @ '' min''))"

text \<open>What was done today for a task: the number of finished runs and their length.\<close>

definition task_summaries_today :: "jv option \<Rightarrow> jv \<Rightarrow> jv \<times> jv" where
  "task_summaries_today model i =
     (let rows = (case model of None \<Rightarrow> Undef | Some m \<Rightarrow> getp (getp m ''tasks'') ''completedFocusTodayByTask'') in
      case i of
        Str k \<Rightarrow> if has_own rows k then (getp (getp rows k) ''count'', getp (getp rows k) ''plannedDurationMs'')
          else (jint 0, jint 0)
      | _ \<Rightarrow> (jint 0, jint 0))"

text \<open>A button with its text, its label and whether it is disabled; a title, or the field that edits it.\<close>

record button_shown =
  o_text :: string
  o_label :: string
  o_disabled :: bool

datatype title_shown = Plain_title jv | Title_editor string string

record task_shown =
  b_id :: jv
  b_title :: title_shown
  b_finished :: jv
  b_finished_label :: string
  b_spent :: string
  b_spent_label :: string
  b_rename :: "button_shown option"
  b_delete :: button_shown

definition task_delete_button :: "catalog \<Rightarrow> jv \<Rightarrow> bool \<Rightarrow> button_shown" where
  "task_delete_button i18n task blocked =
     (let title = id_text (getp task ''title'') in
      \<lparr>o_text = tr i18n ''action.delete'' [] ''Delete'',
       o_label = tr i18n ''tasks.deleteNamed'' [(''title'', Text title)] (''Delete '' @ title), o_disabled = blocked\<rparr>)"

definition task_rename_button :: "catalog \<Rightarrow> jv \<Rightarrow> bool \<Rightarrow> button_shown" where
  "task_rename_button i18n task blocked =
     (let title = id_text (getp task ''title'') in
      \<lparr>o_text = tr i18n ''action.rename'' [] ''Rename'',
       o_label = tr i18n ''tasks.renameNamed'' [(''title'', Text title)] (''Rename '' @ title), o_disabled = blocked\<rparr>)"

definition task_rename_editor :: "catalog \<Rightarrow> jv \<Rightarrow> string \<Rightarrow> title_shown" where
  "task_rename_editor i18n task draft =
     (let title = id_text (getp task ''title'') in
      Title_editor draft (tr i18n ''tasks.renameNamed'' [(''title'', Text title)] (''Rename '' @ title)))"

definition task_title_cell :: "catalog \<Rightarrow> task_view \<Rightarrow> jv \<Rightarrow> title_shown" where
  "task_title_cell i18n v task = (case h_rename v of
     Some (i, draft) \<Rightarrow> if strict_eq i (getp task ''id'') then task_rename_editor i18n task draft
       else Plain_title (getp task ''title'')
   | None \<Rightarrow> Plain_title (getp task ''title''))"

definition count_arg :: "printing \<Rightarrow> jv \<Rightarrow> arg" where
  "count_arg p v = (case v of Num n \<Rightarrow> number_arg (u_fraction p) n | _ \<Rightarrow> Text (id_text v))"

definition task_stat_cells :: "printing \<Rightarrow> jv \<times> jv \<Rightarrow> string \<times> string \<times> string" where
  "task_stat_cells p summary =
     (let spent = format_task_duration p (snd summary) in
      (tr (u_catalog p) ''tasks.finishedToday'' [(''count'', count_arg p (fst summary))]
         (arg_text (count_arg p (fst summary)) @ '' finished pomodoros today''),
       spent, tr (u_catalog p) ''tasks.spentToday'' [(''duration'', Text spent)] (spent @ '' spent today'')))"

definition task_list_item :: "printing \<Rightarrow> obj \<Rightarrow> task_view \<Rightarrow> bool \<Rightarrow> jv \<times> jv \<Rightarrow> jv \<Rightarrow> task_shown" where
  "task_list_item p st v blocked summary task =
     (case task_stat_cells p summary of (finished_label, spent, spent_label) \<Rightarrow>
      \<lparr>b_id = getp task ''id'', b_title = task_title_cell (u_catalog p) v task,
       b_finished = fst summary, b_finished_label = finished_label, b_spent = spent, b_spent_label = spent_label,
       b_rename = (if getp (fld st ''coreCapabilities'') ''renameTask'' = Bool True
         then Some (task_rename_button (u_catalog p) task blocked) else None),
       b_delete = task_delete_button (u_catalog p) task blocked\<rparr>)"

text \<open>A task whose deletion can still be undone is not in the list.\<close>

definition visible_tasks :: "task_view \<Rightarrow> obj \<Rightarrow> jv list" where
  "visible_tasks v st =
     (let pending = (case h_deletion v of Some q \<Rightarrow> q_task q | None \<Rightarrow> Undef) in
      filter (\<lambda>task. \<not> strict_eq (getp task ''id'') pending) (list_if_array (fld st ''tasks'')))"

definition empty_task_list_item :: "catalog \<Rightarrow> 'a listing" where
  "empty_task_list_item i18n = Empty_list (tr i18n ''tasks.empty'' [] ''No tasks yet'')
     (tr i18n ''tasks.empty.detail'' [] ''Add a task, then assign it before starting focus.'')"

record tasks_shown =
  e_count :: string
  e_input_disabled :: bool
  e_rows :: "task_shown listing"

definition render_tasks :: "printing \<Rightarrow> obj \<Rightarrow> jv option \<Rightarrow> task_view \<Rightarrow> tasks_shown res" where
  "render_tasks p st model v =
     bindr (controls_blocked st) (\<lambda>blocked.
     let tasks = visible_tasks v st in
     Inr \<lparr>e_count = pad_start 2 (int_text (int (length tasks))), e_input_disabled = blocked,
       e_rows = (if tasks = [] then empty_task_list_item (u_catalog p)
         else Listed (map (\<lambda>task. task_list_item p st v blocked (task_summaries_today model (getp task ''id'')) task) tasks))\<rparr>)"

section \<open>The focus in the list\<close>

text \<open>
  The tasks to focus after a rendering, the first that is still there: the one a rename produced, the row
  that had the focus, the rows after it, the rows before it from the nearest on.
\<close>

definition focused_task_control :: "jv \<Rightarrow> jv list \<Rightarrow> nat \<Rightarrow> jv list" where
  "focused_task_control hint rows i = filter truthy (hint # drop i rows @ rev (take i rows))"

datatype focus_target = Row_control jv string | Task_input

text \<open>
  \<open>controls\<close> are the controls a row has; a row without the wanted one has its button to delete. Nothing is focused
  if the page is closed to changes, the list is hidden, the focus is elsewhere by now, or the target cannot be used.
\<close>

definition focus_row :: "jv list \<Rightarrow> string \<Rightarrow> (jv \<times> string list) list \<Rightarrow> focus_target" where
  "focus_row candidates control rows =
     (case find (\<lambda>i. i \<in> set (map fst rows)) candidates of
        None \<Rightarrow> Task_input
      | Some i \<Rightarrow> (case map_of (rev rows) i of
          None \<Rightarrow> Task_input
        | Some controls \<Rightarrow> if control \<in> set controls then Row_control i control
            else if ''task-delete'' \<in> set controls then Row_control i ''task-delete'' else Task_input))"

definition restore_task_control_focus ::
  "bool \<Rightarrow> bool \<Rightarrow> bool \<Rightarrow> (focus_target \<Rightarrow> bool) \<Rightarrow> (jv list \<times> string) option \<Rightarrow> (jv \<times> string list) list \<Rightarrow> focus_target option" where
  "restore_task_control_focus blocked hidden elsewhere usable focus rows = (case focus of
     None \<Rightarrow> None
   | Some (candidates, control) \<Rightarrow>
       if blocked \<or> hidden \<or> elsewhere then None
       else let target = focus_row candidates control rows in if usable target then Some target else None)"

end
