(* ===== verification/ViewAccount.thy ===== *)
theory ViewAccount
  imports ViewTasks Samples
begin

text \<open>
  What a page shows of the account and of the synchronization (\<open>AccountView\<close> and \<open>NoticePresenter\<close> of
  \<open>web/app-view.js\<close>): the profile, the status line, the conflict panel, and the dialog that resolves a
  history or finishes a sign-out.
\<close>

section \<open>Profile\<close>

text \<open>Whether the profile is hidden, and the picture with its description. \<open>unreachable\<close> is the address of a
  picture that failed to load.\<close>

definition render_profile :: "catalog \<Rightarrow> jv \<Rightarrow> obj \<Rightarrow> bool \<times> (jv \<times> string) option" where
  "render_profile i18n unreachable st =
     (let avatar = getp (fld st ''user'') ''avatarUrl'' in
      if \<not> truthy (fld st ''user'') \<or> truthy (fld st ''logoutRecoveryRequired'') then (True, None)
      else (False, if truthy avatar \<and> \<not> strict_eq avatar unreachable
        then Some (avatar, tr i18n ''account.profilePhoto'' [] ''Account profile photo'') else None))"

definition hide_unreachable_avatar :: "obj \<Rightarrow> jv" where
  "hide_unreachable_avatar st = coalesce (getp (fld st ''user'') ''avatarUrl'') Null"

section \<open>The status line\<close>

definition pending_count :: "obj \<Rightarrow> int" where
  "pending_count st = int (sum_list (map (\<lambda>k. length (list_if_array (fld st k)))
     [''pending'', ''pendingTaskOperations'', ''pendingDurationOperations'', ''pendingAutoStartOperations'',
      ''pendingSelectedTaskOperations'']))"

text \<open>The state of the line and its text.\<close>

definition render_sync_status :: "catalog \<Rightarrow> bool \<Rightarrow> obj \<Rightarrow> string \<times> string" where
  "render_sync_status i18n online st =
     (let n = pending_count st; queued = [(''count'', Count n)]; flag = (\<lambda>k. truthy (fld st k)) in
      if \<not> online then (''offline'',
        if n \<noteq> 0 then tr i18n ''sync.offlineQueued'' queued (''Offline / '' @ int_text n @ '' queued'')
        else tr i18n ''sync.offlineLocal'' [] ''Offline / local'')
      else if flag ''bootstrapSubmitting'' then (''syncing'', tr i18n ''sync.resolvingHistory'' [] ''Resolving history'')
      else if flag ''bootstrapError'' \<or> flag ''bootstrapLimitError''
      then (''error'', tr i18n ''sync.historyChoiceNeeded'' [] ''History choice needed'')
      else if flag ''bootstrapBlocked'' then (''loading'',
        if getp (fld st ''bootstrapPlan'') ''mode'' = Str ''choose'' then tr i18n ''sync.chooseHistory'' [] ''Choose history''
        else tr i18n ''sync.checkingHistory'' [] ''Checking history'')
      else if flag ''conflict'' then (''conflict'',
        if n \<noteq> 0 then tr i18n ''sync.conflictQueued'' queued (''Conflict / '' @ int_text n @ '' queued'')
        else tr i18n ''sync.conflict'' [] ''Conflict'')
      else if flag ''syncing'' then (''syncing'', tr i18n ''sync.syncing'' [] ''Syncing'')
      else if flag ''retrying'' then (''error'',
        if n \<noteq> 0 then tr i18n ''sync.retryingQueued'' queued (''Retrying / '' @ int_text n @ '' queued'')
        else tr i18n ''sync.retrying'' [] ''Retrying sync'')
      else if n \<noteq> 0 then (''loading'', tr i18n ''sync.waiting'' queued (int_text n @ '' waiting to sync''))
      else if \<not> flag ''ready'' then (''loading'', tr i18n ''sync.checking'' [] ''Checking line'')
      else (''synced'', tr i18n ''sync.inSync'' [] ''In sync''))"

section \<open>The conflict panel\<close>

text \<open>The names of the queues of a claim that cannot be sent, and whether the button already asks to confirm: the
  text is \<open>sync.confirmDiscardSavedClaim\<close> then and \<open>sync.discardSavedClaim\<close> before.\<close>

record recovery_panel =
  r_text :: string
  r_armed :: bool

fun joined_names :: "string list \<Rightarrow> string" where
  "joined_names [] = []"
| "joined_names [s] = s"
| "joined_names (s # ss) = s @ '', '' @ joined_names ss"

definition render_conflict :: "catalog \<Rightarrow> obj \<Rightarrow> jv option \<times> recovery_panel option" where
  "render_conflict i18n st =
     (let conflict = fld st ''conflict''; recovery = fld st ''savedClaimRecovery'';
          names = joined_names (map id_text (list_if_array (getp recovery ''queues''))) in
      (if truthy conflict then Some conflict else None,
       if \<not> truthy recovery then None
       else Some \<lparr>r_text = tr i18n ''sync.savedClaimBlocked''
           [(''queues'', Text (if names = [] then ''sync queue'' else names))] (id_text conflict),
         r_armed = (getp recovery ''armed'' = Bool True)\<rparr>))"

section \<open>The dialog of a resolution\<close>

definition history_count :: "obj \<Rightarrow> string \<Rightarrow> string \<Rightarrow> jv" where
  "history_count st planned side = coalesce (getp (fld st ''bootstrapPlan'') planned)
     (coalesce (getp (getp (fld st ''bootstrapClassification'') side) ''completedHistoryCount'') (jint 0))"

definition runs_text :: "printing \<Rightarrow> string \<Rightarrow> string \<Rightarrow> jv \<Rightarrow> string" where
  "runs_text p key side n = tr (u_catalog p) key [(''count'', count_arg p n)]
     (arg_text (count_arg p n) @ '' '' @ side @ '' completed run'' @ (if n = jint 1 then [] else ''s''))"

text \<open>Its title and summary.\<close>

definition render_bootstrap_summary :: "printing \<Rightarrow> obj \<Rightarrow> bool \<Rightarrow> string \<times> string" where
  "render_bootstrap_summary p st limit_recovery =
     (let i18n = u_catalog p;
          counted = runs_text p ''bootstrap.localRuns'' ''local'' (history_count st ''localHistoryCount'' ''local'') @ ''; ''
            @ runs_text p ''bootstrap.remoteRuns'' ''remote'' (history_count st ''remoteHistoryCount'' ''remote'') @ ''. ''
            @ tr i18n ''bootstrap.divergenceNote'' [] ''Timers, tasks, or settings may also differ.'' in
      (if limit_recovery then tr i18n ''bootstrap.limitTitle'' [] ''Local queue too large''
       else tr i18n ''bootstrap.title'' [] ''Choose synchronized state'',
       if truthy (fld st ''bootstrapOwnershipConfirmation'') then tr i18n ''bootstrap.ownershipChanged'' []
         (''Account ownership changed or predates incarnation validation. Retained work cannot be uploaded to this account. ''
          @ ''Keep remote explicitly discards retained local work; cancel leaves it untouched.'')
       else if limit_recovery then tr i18n ''bootstrap.limitSummary'' []
         ''Upload stopped before any local or remote data changed.''
       else counted))"

text \<open>The message of a refused sign-out, where a sign-out is offered.\<close>

definition render_bootstrap_sign_out_error :: "obj \<Rightarrow> bool \<Rightarrow> jv option" where
  "render_bootstrap_sign_out_error st offered =
     (if offered \<and> truthy (fld st ''bootstrapSignOutError'') then Some (fld st ''bootstrapSignOutError'') else None)"

record actions_shown =
  a_error :: "jv option"
  a_retry :: control_shown
  a_retry_text :: string
  a_sign_out :: control_shown
  a_sign_out_error :: "jv option"
  a_choices :: "(string \<times> control_shown) list"
  a_confirm_disabled :: bool
  a_cancel_disabled :: bool

text \<open>The choices are the strategies of the buttons. After a change of the account's owner, or when the queues are
  too large, only the one that keeps the remote data is offered.\<close>

definition render_bootstrap_actions ::
  "catalog \<Rightarrow> bool \<Rightarrow> obj \<Rightarrow> string list \<Rightarrow> dialog_view \<Rightarrow> bool \<Rightarrow> actions_shown" where
  "render_bootstrap_actions i18n online st strategies view limit_recovery =
     (let submitting = truthy (fld st ''bootstrapSubmitting'');
          waits = submitting \<or> \<not> online in
      \<lparr>a_error = (if dv_failed view \<or> limit_recovery
         then Some (or_else (fld st ''bootstrapError'') (fld st ''bootstrapLimitError'')) else None),
       a_retry = \<lparr>j_hidden = \<not> dv_failed view, j_disabled = waits\<rparr>,
       a_retry_text = (if truthy (fld st ''bootstrapConflict'') then tr i18n ''bootstrap.retryRefresh'' [] ''Refresh and retry''
         else tr i18n ''bootstrap.retry'' [] ''Retry saved choice''),
       a_sign_out = \<lparr>j_hidden = \<not> limit_recovery, j_disabled = waits\<rparr>,
       a_sign_out_error = render_bootstrap_sign_out_error st limit_recovery,
       a_choices = map (\<lambda>strategy. (strategy,
         \<lparr>j_hidden = (limit_recovery \<or> truthy (fld st ''bootstrapOwnershipConfirmation'')) \<and> strategy \<noteq> ''keep_remote'',
          j_disabled = submitting\<rparr>)) strategies,
       a_confirm_disabled = submitting, a_cancel_disabled = submitting\<rparr>)"

text \<open>The question before a choice is applied: title, message and the label of the button.\<close>

definition render_bootstrap_confirmation :: "catalog \<Rightarrow> obj \<Rightarrow> dialog_view \<Rightarrow> (string \<times> string \<times> string) option res" where
  "render_bootstrap_confirmation i18n st view =
     (if \<not> dv_confirming view then Inr None
      else bindr (confirmation_for (fld st ''bootstrapStrategy'')) (\<lambda>c.
        Inr (Some (c_title c, c_message c,
          if truthy (fld st ''bootstrapSubmitting'') then tr i18n ''bootstrap.applyingChoice'' [] ''Applying choice''
          else c_confirm_label c))))"

record dialog_shown =
  g_title :: string
  g_summary :: string
  g_busy :: bool
  g_choices_hidden :: bool
  g_confirmation_hidden :: bool
  g_actions :: actions_shown
  g_confirmation :: "(string \<times> string \<times> string) option"

record recovery_shown =
  h_title :: string
  h_summary :: string
  h_error :: "jv option"
  h_busy :: jv
  h_retry_disabled :: jv
  h_sign_in_disabled :: bool

datatype dialog = Closed_dialog | Resolution_dialog dialog_shown | Recovery_dialog recovery_shown

definition render_logout_recovery :: "catalog \<Rightarrow> bool \<Rightarrow> obj \<Rightarrow> recovery_shown" where
  "render_logout_recovery i18n online st =
     \<lparr>h_title = tr i18n ''account.logout.recoveryTitle'' [] ''Finish pending sign-out'',
      h_summary = tr i18n ''account.logout.recoverySummary'' []
        (''Finish sign-out before using local data. Connect and sign in to the account that owns the pending data, ''
         @ ''then retry. A different account cannot clear it.''),
      h_error = render_bootstrap_sign_out_error st True,
      h_busy = fld st ''logoutRecoveryBusy'', h_retry_disabled = fld st ''logoutRecoveryBusy'',
      h_sign_in_disabled = (truthy (fld st ''logoutRecoveryBusy'') \<or> \<not> online)\<rparr>"

text \<open>While a sign-out is to be finished the dialog offers nothing else.\<close>

definition render_bootstrap_dialog :: "printing \<Rightarrow> bool \<Rightarrow> obj \<Rightarrow> string list \<Rightarrow> dialog res" where
  "render_bootstrap_dialog p online st strategies =
     (if truthy (fld st ''logoutRecoveryRequired'') then Inr (Recovery_dialog (render_logout_recovery (u_catalog p) online st))
      else
        let limit_recovery = truthy (fld st ''bootstrapLimitError'');
            view = bootstrap_dialog_view
              [(''planMode'', if limit_recovery \<or> truthy (fld st ''bootstrapOwnershipConfirmation'') then Str ''choose''
                  else getp (fld st ''bootstrapPlan'') ''mode''),
               (''strategy'', fld st ''bootstrapStrategy''), (''pending'', fld st ''bootstrapPending''),
               (''error'', fld st ''bootstrapError''), (''submitting'', fld st ''bootstrapSubmitting''),
               (''blocked'', fld st ''bootstrapBlocked''), (''authenticated'', fld st ''authenticated'')] in
        if \<not> dv_open view then Inr Closed_dialog
        else case render_bootstrap_summary p st limit_recovery of (title, summary) \<Rightarrow>
          bindr (render_bootstrap_confirmation (u_catalog p) st view) (\<lambda>confirmation.
          Inr (Resolution_dialog \<lparr>g_title = title, g_summary = summary, g_busy = dv_busy view,
            g_choices_hidden = \<not> dv_choosing view, g_confirmation_hidden = \<not> dv_confirming view,
            g_actions = render_bootstrap_actions (u_catalog p) online st strategies view limit_recovery,
            g_confirmation = confirmation\<rparr>)))"

text \<open>Taking a choice back; the button of the choice gets the focus, or the first one.\<close>

definition reset_bootstrap_choice :: "bool \<Rightarrow> string list \<Rightarrow> obj \<Rightarrow> obj" where
  "reset_bootstrap_choice clear_error strategies st =
     (let strategy = fld st ''bootstrapStrategy'';
          cleared = obj_put ''bootstrapStrategy'' Null st;
          kept = (if clear_error then obj_put ''bootstrapError'' Null cleared else cleared) in
      obj_put ''bootstrapFocusTarget'' (case find (\<lambda>s. Str s = strategy) strategies of
        Some s \<Rightarrow> Str s | None \<Rightarrow> (case strategies of s # _ \<Rightarrow> Str s | [] \<Rightarrow> Undef)) kept)"

text \<open>The focus after a cancelled dialog that stays open, given what its controls show.\<close>

definition refocus_bootstrap_after_cancel :: "(string \<times> control_shown) list \<Rightarrow> control_shown \<Rightarrow> obj \<Rightarrow> obj" where
  "refocus_bootstrap_after_cancel choices retry st =
     (let usable = (\<lambda>c. \<not> j_hidden c \<and> \<not> j_disabled c) in
      obj_put ''bootstrapFocusTarget''
        (if truthy (fld st ''logoutRecoveryRequired'') then Str ''logoutRecoveryRetry''
         else case find (usable \<circ> snd) choices of
           Some (s, _) \<Rightarrow> Str s
         | None \<Rightarrow> if usable retry then Str ''bootstrapRetry''
             else (case choices of (s, _) # _ \<Rightarrow> Str s | [] \<Rightarrow> Undef)) st)"

text \<open>The target of the focus is used once; it is focused if the dialog is open and shows it.\<close>

definition focus_bootstrap_dialog :: "obj \<Rightarrow> jv option \<times> obj" where
  "focus_bootstrap_dialog st =
     (let target = fld st ''bootstrapFocusTarget'' in
      if truthy target then (Some target, obj_put ''bootstrapFocusTarget'' Null st) else (None, st))"

section \<open>Notices\<close>

text \<open>The text of the notice; none while it is hidden.\<close>

definition show_notice :: "jv \<Rightarrow> jv option \<Rightarrow> jv option" where
  "show_notice message shown = Some message"

definition dismiss_notice :: "jv option \<Rightarrow> jv option" where
  "dismiss_notice shown = None"

section \<open>A page that must not change the workspace\<close>

definition usable_controls :: "controls_shown \<Rightarrow> bool list" where
  "usable_controls c = [\<not> w_toggle_disabled c, \<not> j_disabled (w_finish c), \<not> j_disabled (w_cancel c),
     \<not> j_disabled (w_skip c), \<not> j_disabled (w_clear c)]"

definition row_closed :: "task_shown \<Rightarrow> bool" where
  "row_closed row \<longleftrightarrow> o_disabled (b_delete row) \<and> (case b_rename row of None \<Rightarrow> True | Some b \<Rightarrow> o_disabled b)"

lemma closed_state:
  assumes "\<not> truthy (fld st ''ready'') \<or> truthy (fld st ''logoutRecoveryRequired'') \<or> fld st ''bootstrapBlocked'' = Bool True"
    and "controls_blocked st = Inr b"
  shows b
  using assms
  by (auto simp: controls_blocked_def needs_bootstrap_def requires_bootstrap_resolution_def res_simps split: if_splits)

lemma skip_closed: "render_skip_control i18n st underway True = Inr (skip, text) \<Longrightarrow> j_disabled skip"
  by (auto simp: render_skip_control_def Let_def res_simps split: if_splits)

lemma closed_durations:
  "render_durations st model phases = Inr shown \<Longrightarrow> controls_blocked st = Inr True \<Longrightarrow>
     list_all snd (p_phases shown) \<and> list_all snd (p_durations shown) \<and> p_steps_disabled shown \<and> p_auto_start_disabled shown"
  by (auto simp: render_durations_def Let_def list_all_iff)

lemma closed_selector:
  "render_task_selector i18n st = Inr shown \<Longrightarrow> controls_blocked st = Inr True \<Longrightarrow> v_disabled shown"
  by (auto simp: render_task_selector_def Let_def)

lemma closed_timer:
  assumes "render_timer_controls i18n st alert = Inr shown" "controls_blocked st = Inr True"
  shows "True \<notin> set (usable_controls shown)"
  using assms by (auto simp: render_timer_controls_def usable_controls_def Let_def res_simps dest: skip_closed)

lemma closed_tasks:
  assumes "render_tasks p st model v = Inr shown" "controls_blocked st = Inr True"
  shows "e_input_disabled shown \<and> (case e_rows shown of Listed rows \<Rightarrow> list_all row_closed rows | Empty_list _ _ \<Rightarrow> True)"
proof -
  have row: "row_closed (task_list_item p st v True summary task)" for summary task
    by (simp add: row_closed_def task_list_item_def task_delete_button_def task_rename_button_def Let_def split: prod.splits)
  show ?thesis
    using assms by (auto simp: render_tasks_def Let_def list_all_iff empty_task_list_item_def row)
qed


definition closed_page :: obj where
  "closed_page = [(''ready'', Bool False), (''user'', Null), (''selectedPhase'', Str ''focus''),
     (''durationsMs'', Obj [(''focus'', jint 1500000)]), (''timer'', Obj [(''status'', Str ''idle'')]),
     (''tasks'', Arr [Obj [(''id'', Str ''t''), (''title'', Str ''Write'')]]),
     (''readModel'', Obj [(''availableIntents'', Arr [Str ''start''])])]"

definition plain_printing :: printing where
  "plain_printing = \<lparr>u_catalog = None, u_fraction = (\<lambda>_. []), u_date = (\<lambda>_. [])\<rparr>"


end
