(* ===== verification/ViewEdits.thy ===== *)
theory ViewEdits
  imports ViewTasks
begin

text \<open>
  The edits in the list of tasks (\<open>ActivityView\<close> of \<open>web/app-view.js\<close>): what a user, a timer and the
  page do to a deferred deletion and to a title being edited, and that no deletion is lost or sent twice.
\<close>

section \<open>Operations\<close>

datatype task_request =
    Set_timer nat
  | Clear_timer nat
  | Delete_task jv jv
  | Show_toast string
  | Hide_toast
  | Render_tasks
  | Focus_row jv string
  | Rename_task jv string

type_synonym 'a editing = "task_view \<Rightarrow> 'a \<times> task_view \<times> task_request list"

text \<open>
  \<open>flushTaskDeletion\<close>: the deletion is sent now. A timer passes the deletion it was set for, known by its
  number, and does nothing if another one is open, or none. The result says whether a deletion is sent.
\<close>

definition flush_task_deletion :: "nat option \<Rightarrow> bool editing" where
  "flush_task_deletion expected v = (case h_deletion v of
     None \<Rightarrow> (False, v, [])
   | Some q \<Rightarrow> if expected \<noteq> None \<and> expected \<noteq> Some (q_timer q) then (False, v, [])
       else (True, v\<lparr>h_deletion := None\<rparr>, [Clear_timer (q_timer q), Hide_toast, Delete_task (q_task q) (q_title q)]))"

text \<open>The quotation marks around the title are not spelled.\<close>

definition show_undo_toast :: "catalog \<Rightarrow> jv \<Rightarrow> task_request list" where
  "show_undo_toast i18n title = [Show_toast (tr i18n ''tasks.deletedNamed'' [(''title'', Text (id_text title))]
     (''Deleted '' @ id_text title))]"

text \<open>A deletion is deferred: the open one is sent, and the timer \<open>n\<close> is set for the new one.\<close>

definition defer_task_deletion :: "catalog \<Rightarrow> nat \<Rightarrow> jv \<Rightarrow> bool editing" where
  "defer_task_deletion i18n n task v =
     (case flush_task_deletion None v of (flushed, v', sent) \<Rightarrow>
        (flushed, v'\<lparr>h_deletion := Some \<lparr>q_task = getp task ''id'', q_title = getp task ''title'', q_timer = n\<rparr>\<rparr>,
         sent @ [Set_timer n, Render_tasks] @ show_undo_toast i18n (getp task ''title'')))"

definition undo_task_deletion :: "bool editing" where
  "undo_task_deletion v = (case h_deletion v of
     None \<Rightarrow> (False, v, [])
   | Some q \<Rightarrow> (True, v\<lparr>h_deletion := None\<rparr>,
       [Clear_timer (q_timer q), Hide_toast, Render_tasks, Focus_row (q_task q) ''task-delete'']))"

definition begin_task_rename :: "jv \<Rightarrow> unit editing" where
  "begin_task_rename task v =
     ((), v\<lparr>h_rename := Some (getp task ''id'', id_text (getp task ''title''))\<rparr>,
      [Render_tasks, Focus_row (getp task ''id'') ''task-rename-input''])"

definition type_task_rename :: "string \<Rightarrow> unit editing" where
  "type_task_rename typed v = ((), v\<lparr>h_rename := map_option (\<lambda>(i, _). (i, typed)) (h_rename v)\<rparr>, [])"

definition renames :: "jv \<Rightarrow> task_view \<Rightarrow> bool" where
  "renames task v = (case h_rename v of Some (i, _) \<Rightarrow> strict_eq i (getp task ''id'') | None \<Rightarrow> False)"

definition cancel_task_rename :: "jv \<Rightarrow> unit editing" where
  "cancel_task_rename task v =
     (if \<not> renames task v then ((), v, [])
      else ((), v\<lparr>h_rename := None\<rparr>, [Render_tasks, Focus_row (getp task ''id'') ''task-rename'']))"

text \<open>
  \<open>commitTaskRename\<close> up to its first wait: the title to go on with, if there is one. An empty or unchanged title
  ends the edit only.
\<close>

definition commit_task_rename :: "jv \<Rightarrow> string option editing" where
  "commit_task_rename task v = (case h_rename v of
     None \<Rightarrow> (None, v, [])
   | Some (i, draft) \<Rightarrow>
       if \<not> strict_eq i (getp task ''id'') then (None, v, [])
       else case cancel_task_rename task v of (_, v', shown) \<Rightarrow>
         if trim draft = [] \<or> Str (trim draft) = getp task ''title'' then (None, v', shown)
         else case flush_task_deletion None v' of (_, v'', sent) \<Rightarrow> (Some (trim draft), v'', shown @ sent))"

text \<open>After the deletion and the identity of the new title, which steers the focus (\<open>Null\<close> if the Core refuses it).\<close>

definition renamed_task :: "jv res \<Rightarrow> jv \<Rightarrow> string \<Rightarrow> unit editing" where
  "renamed_task identity task title v =
     ((), v\<lparr>h_hint := (case bindr identity (\<lambda>i. dot i ''id'') of Inr i \<Rightarrow> i | Inl _ \<Rightarrow> Null)\<rparr>, [Rename_task task title])"

text \<open>A key in the field, and its blur: a field that a rendering has replaced is no longer in the page.\<close>

definition rename_key :: "string \<Rightarrow> jv \<Rightarrow> string option editing" where
  "rename_key key task v =
     (if key = ''Enter'' then commit_task_rename task v
      else if key = ''Escape'' then (case cancel_task_rename task v of (_, v', rs) \<Rightarrow> (None, v', rs))
      else (None, v, []))"

definition rename_blurred :: "bool \<Rightarrow> jv \<Rightarrow> string option editing" where
  "rename_blurred alive task v = (if alive then commit_task_rename task v else (None, v, []))"

text \<open>Adding a task, leaving the page and hiding it send an open deletion first.\<close>

definition leave_task_list :: "bool editing" where
  "leave_task_list = flush_task_deletion None"

section \<open>Everything that happens to the list\<close>

datatype edit =
    Defer jv
  | Undo
  | Fire nat
  | Leave
  | Begin_rename jv
  | Type_title string
  | Cancel_rename jv
  | Commit_rename jv
  | Rename_identified "jv res" jv string

text \<open>The timers are numbered in the order in which they are set.\<close>

definition apply_edit :: "catalog \<Rightarrow> edit \<Rightarrow> nat \<times> task_view \<Rightarrow> (nat \<times> task_view) \<times> task_request list" where
  "apply_edit i18n e = (\<lambda>(n, v). case e of
     Defer task \<Rightarrow> (case defer_task_deletion i18n n task v of (_, v', rs) \<Rightarrow> ((n + 1, v'), rs))
   | Undo \<Rightarrow> (case undo_task_deletion v of (_, v', rs) \<Rightarrow> ((n, v'), rs))
   | Fire m \<Rightarrow> (case flush_task_deletion (Some m) v of (_, v', rs) \<Rightarrow> ((n, v'), rs))
   | Leave \<Rightarrow> (case leave_task_list v of (_, v', rs) \<Rightarrow> ((n, v'), rs))
   | Begin_rename task \<Rightarrow> (case begin_task_rename task v of (_, v', rs) \<Rightarrow> ((n, v'), rs))
   | Type_title typed \<Rightarrow> (case type_task_rename typed v of (_, v', rs) \<Rightarrow> ((n, v'), rs))
   | Cancel_rename task \<Rightarrow> (case cancel_task_rename task v of (_, v', rs) \<Rightarrow> ((n, v'), rs))
   | Commit_rename task \<Rightarrow> (case commit_task_rename task v of (_, v', rs) \<Rightarrow> ((n, v'), rs))
   | Rename_identified identity task title \<Rightarrow> (case renamed_task identity task title v of (_, v', rs) \<Rightarrow> ((n, v'), rs)))"

section \<open>What becomes of a deletion\<close>

text \<open>The deletions asked for, sent, and open; a deletion is the task's identity and title.\<close>

definition deferred_by :: "edit \<Rightarrow> (jv \<times> jv) list" where
  "deferred_by e = (case e of Defer task \<Rightarrow> [(getp task ''id'', getp task ''title'')] | _ \<Rightarrow> [])"

definition sent_by :: "task_request \<Rightarrow> (jv \<times> jv) list" where
  "sent_by r = (case r of Delete_task i title \<Rightarrow> [(i, title)] | _ \<Rightarrow> [])"

definition open_deletion :: "task_view \<Rightarrow> (jv \<times> jv) list" where
  "open_deletion v = (case h_deletion v of Some q \<Rightarrow> [(q_task q, q_title q)] | None \<Rightarrow> [])"

definition deferred :: "edit list \<Rightarrow> (jv \<times> jv) list" where
  "deferred es = concat (map deferred_by es)"

definition deletions_sent :: "task_request list \<Rightarrow> (jv \<times> jv) list" where
  "deletions_sent rs = concat (map sent_by rs)"

text \<open>The edits of a page from its start: its state, what was asked for, and the deletions undone.\<close>

record edited =
  f_state :: "nat \<times> task_view"
  f_asked :: "task_request list"
  f_undone :: "(jv \<times> jv) list"

definition after_edit :: "catalog \<Rightarrow> edited \<Rightarrow> edit \<Rightarrow> edited" where
  "after_edit i18n d e =
     \<lparr>f_state = fst (apply_edit i18n e (f_state d)),
      f_asked = f_asked d @ snd (apply_edit i18n e (f_state d)),
      f_undone = f_undone d @ (if e = Undo then open_deletion (snd (f_state d)) else [])\<rparr>"

definition edits :: "catalog \<Rightarrow> edit list \<Rightarrow> edited" where
  "edits i18n es = foldl (after_edit i18n) \<lparr>f_state = (0, new_task_view), f_asked = [], f_undone = []\<rparr> es"

definition timers_ok :: "edited \<Rightarrow> bool" where
  "timers_ok d \<longleftrightarrow> (\<forall>m. Clear_timer m \<in> set (f_asked d) \<longrightarrow> m < fst (f_state d))
   \<and> (\<forall>q. h_deletion (snd (f_state d)) = Some q \<longrightarrow> q_timer q < fst (f_state d)
        \<and> Set_timer (q_timer q) \<in> set (f_asked d) \<and> Clear_timer (q_timer q) \<notin> set (f_asked d))"

lemmas edit_defs = flush_task_deletion_def defer_task_deletion_def undo_task_deletion_def begin_task_rename_def
  type_task_rename_def cancel_task_rename_def commit_task_rename_def renamed_task_def leave_task_list_def
  show_undo_toast_def

lemma edits_snoc: "edits i18n (es @ [e]) = after_edit i18n (edits i18n es) e"
  by (simp add: edits_def)

lemma deferred_snoc [simp]: "deferred (es @ [e]) = deferred es @ deferred_by e"
  by (simp add: deferred_def)

lemma sent_append [simp]: "deletions_sent (rs @ rs') = deletions_sent rs @ deletions_sent rs'"
  by (simp add: deletions_sent_def)

lemma sent_simps [simp]:
  "deletions_sent [] = []" "deletions_sent (r # rs) = sent_by r @ deletions_sent rs"
  "sent_by (Delete_task i title) = [(i, title)]" "sent_by (Set_timer n) = []" "sent_by (Clear_timer n) = []"
  "sent_by (Show_toast text) = []" "sent_by Hide_toast = []" "sent_by Render_tasks = []"
  "sent_by (Focus_row i c) = []" "sent_by (Rename_task task name) = []"
  by (simp_all add: deletions_sent_def sent_by_def)

text \<open>One edit accounts for the deletion it defers and the one it finds open.\<close>

lemma edit_balance:
  assumes "apply_edit i18n e (n, v) = ((n', v'), rs)"
  shows "mset (deferred_by e) + mset (open_deletion v)
    = mset (deletions_sent rs) + mset (if e = Undo then open_deletion v else []) + mset (open_deletion v')"
  using assms
  by (cases e; cases "h_deletion v"; cases "h_rename v")
    (auto simp: apply_edit_def edit_defs deferred_by_def open_deletion_def split: if_splits)

definition cleared :: "task_request list \<Rightarrow> nat set" where
  "cleared rs = {m. Clear_timer m \<in> set rs}"

definition open_timers :: "task_view \<Rightarrow> nat set" where
  "open_timers v = (case h_deletion v of Some q \<Rightarrow> {q_timer q} | None \<Rightarrow> {})"

lemma edit_timer_cases:
  assumes "apply_edit i18n e (n, v) = ((n', v'), rs)"
  shows "(open_timers v' = open_timers v \<and> n' = n \<and> cleared rs = {})
    \<or> (open_timers v' = {} \<and> n' = n \<and> cleared rs \<subseteq> open_timers v)
    \<or> (open_timers v' = {n} \<and> n' = n + 1 \<and> Set_timer n \<in> set rs \<and> cleared rs \<subseteq> open_timers v)"
  using assms
  by (cases e; cases "h_deletion v"; cases "h_rename v")
    (auto simp: apply_edit_def edit_defs cleared_def open_timers_def split: if_splits)

lemma timers_ok_iff:
  "timers_ok d \<longleftrightarrow> (\<forall>m\<in>cleared (f_asked d). m < fst (f_state d))
   \<and> (\<forall>m\<in>open_timers (snd (f_state d)). m < fst (f_state d) \<and> Set_timer m \<in> set (f_asked d) \<and> m \<notin> cleared (f_asked d))"
  by (auto simp: timers_ok_def cleared_def open_timers_def split: option.splits)

lemma edit_timers:
  assumes "apply_edit i18n e (n, v) = ((n', v'), rs)" "timers_ok d" "f_state d = (n, v)"
  shows "timers_ok (after_edit i18n d e)"
proof -
  have asked: "f_asked (after_edit i18n d e) = f_asked d @ rs" "f_state (after_edit i18n d e) = (n', v')"
    using assms(1,3) by (simp_all add: after_edit_def)
  have all: "cleared (f_asked d @ rs) = cleared (f_asked d) \<union> cleared rs"
    by (auto simp: cleared_def)
  show ?thesis
    using edit_timer_cases[OF assms(1)] assms(2,3) unfolding timers_ok_iff asked all
    by (elim disjE) (fastforce intro: less_SucI)+
qed

lemma edits_timers: "timers_ok (edits i18n es)"
proof (induction es rule: rev_induct)
  case (snoc e es)
  obtain n v n' v' rs where "f_state (edits i18n es) = (n, v)" "apply_edit i18n e (n, v) = ((n', v'), rs)"
    by (metis surj_pair)
  then show ?case using snoc edit_timers by (simp add: edits_snoc)
qed (simp add: edits_def timers_ok_def new_task_view_def)

lemma edits_balance:
  "mset (deferred es) = mset (deletions_sent (f_asked (edits i18n es))) + mset (f_undone (edits i18n es))
     + mset (open_deletion (snd (f_state (edits i18n es))))"
proof (induction es rule: rev_induct)
  case (snoc e es)
  obtain n v n' v' rs where "f_state (edits i18n es) = (n, v)" "apply_edit i18n e (n, v) = ((n', v'), rs)"
    by (metis surj_pair)
  then show ?case using snoc edit_balance[of i18n e n v n' v' rs]
    by (cases "e = Undo") (simp_all add: edits_snoc after_edit_def ac_simps)
qed (simp add: edits_def deferred_def open_deletion_def new_task_view_def)

lemma settling_edit:
  assumes "h_deletion v = Some q" "e \<in> {Leave, Fire (q_timer q)}"
  shows "h_deletion (snd (fst (apply_edit i18n e (n, v)))) = None"
  using assms by (auto simp: apply_edit_def edit_defs)

text \<open>C28: In the list of tasks no deletion is lost and none is sent twice: after any edits of a page, the deletions
  asked for are exactly the ones sent, the ones undone and the one that can still be undone, each as often as it
  was asked for. The one that is open has its timer running, and when the timer fires, or the page is left or
  hidden, everything asked for has been sent or undone.\<close>

lemma deferred_deletions_settle:
  "mset (deferred es) = mset (deletions_sent (f_asked (edits i18n es))) + mset (f_undone (edits i18n es))
     + mset (open_deletion (snd (f_state (edits i18n es))))
   \<and> (\<forall>q. h_deletion (snd (f_state (edits i18n es))) = Some q \<longrightarrow>
        Set_timer (q_timer q) \<in> set (f_asked (edits i18n es)) \<and> Clear_timer (q_timer q) \<notin> set (f_asked (edits i18n es))
      \<and> (\<forall>e\<in>{Leave, Fire (q_timer q)}. mset (deferred es)
           = mset (deletions_sent (f_asked (edits i18n (es @ [e])))) + mset (f_undone (edits i18n (es @ [e])))))"
proof (intro conjI allI impI ballI)
  let ?d = "edits i18n es"
  show "mset (deferred es) = mset (deletions_sent (f_asked ?d)) + mset (f_undone ?d) + mset (open_deletion (snd (f_state ?d)))"
    by (rule edits_balance)
  fix q assume q: "h_deletion (snd (f_state ?d)) = Some q"
  then show "Set_timer (q_timer q) \<in> set (f_asked ?d)" "Clear_timer (q_timer q) \<notin> set (f_asked ?d)"
    using edits_timers[of i18n es] by (simp_all add: timers_ok_def)
  fix e assume e: "e \<in> {Leave, Fire (q_timer q)}"
  then have "open_deletion (snd (f_state (edits i18n (es @ [e])))) = []"
    using settling_edit[OF q e, of i18n "fst (f_state ?d)"] by (simp add: edits_snoc after_edit_def open_deletion_def)
  moreover have "deferred (es @ [e]) = deferred es"
    using e by (auto simp: deferred_by_def)
  ultimately show "mset (deferred es)
      = mset (deletions_sent (f_asked (edits i18n (es @ [e])))) + mset (f_undone (edits i18n (es @ [e])))"
    using edits_balance[of "es @ [e]" i18n] by simp
qed

text \<open>A deletion undone, one sent by the next, and one left open: leaving the page sends it.\<close>

definition sample_task :: "string \<Rightarrow> jv" where
  "sample_task i = Obj [(''id'', Str i), (''title'', Str i)]"

definition sample_edits :: "edit list" where
  "sample_edits = [Defer (sample_task ''a''), Undo, Defer (sample_task ''b''), Fire 0, Defer (sample_task ''a'')]"

lemma deferred_deletions_settle_witness:
  "deletions_sent (f_asked (edits None (sample_edits @ [Leave]))) = [(Str ''b'', Str ''b''), (Str ''a'', Str ''a'')]
   \<and> mset (deferred sample_edits)
     = mset (deletions_sent (f_asked (edits None (sample_edits @ [Leave])))) + mset (f_undone (edits None (sample_edits @ [Leave])))"
proof -
  have q: "h_deletion (snd (f_state (edits None sample_edits))) = Some \<lparr>q_task = Str ''a'', q_title = Str ''a'', q_timer = 2\<rparr>"
    by code_simp
  have "deletions_sent (f_asked (edits None (sample_edits @ [Leave]))) = [(Str ''b'', Str ''b''), (Str ''a'', Str ''a'')]"
    by code_simp
  then show ?thesis
    using deferred_deletions_settle[of sample_edits None] q by blast
qed

end
