(* ===== verification/ViewLock.thy ===== *)
theory ViewLock
  imports ViewTimer
begin

text \<open>
  The lock that keeps the screen on while a timer runs (\<open>syncWakeLock\<close> and what it calls in
  \<open>web/app-view.js\<close>): it is asked for while the timer runs, at most one request at a time, and the
  answer may come when the timer has ended.
\<close>

section \<open>Operations\<close>

text \<open>What the page keeps: the lock it holds, the request that is not over, and two flags. Locks are numbered by
  the requests that ask for them.\<close>

record screen_lock =
  l_sentinel :: "nat option"
  l_request :: "nat option"
  l_denied :: bool
  l_warned :: bool

definition no_lock :: screen_lock where
  "no_lock = \<lparr>l_sentinel = None, l_request = None, l_denied = False, l_warned = False\<rparr>"

datatype lock_request = Request_lock nat | Release_lock nat | Warn_lock

definition warn_wake_lock :: "screen_lock \<Rightarrow> screen_lock \<times> lock_request list" where
  "warn_wake_lock l = (if l_warned l then (l, []) else (l\<lparr>l_warned := True\<rparr>, [Warn_lock]))"

definition release_wake_lock :: "screen_lock \<Rightarrow> screen_lock \<times> lock_request list" where
  "release_wake_lock l = (case l_sentinel l of None \<Rightarrow> (l, [])
     | Some n \<Rightarrow> (l\<lparr>l_sentinel := None\<rparr>, [Release_lock n]))"

text \<open>\<open>n\<close> is the number of the request, if one is made.\<close>

definition sync_wake_lock :: "bool \<Rightarrow> nat \<Rightarrow> jv \<Rightarrow> screen_lock \<Rightarrow> screen_lock \<times> lock_request list" where
  "sync_wake_lock available n status l =
     (if \<not> available then (l, [])
      else if status \<noteq> Str ''running'' then release_wake_lock (l\<lparr>l_denied := False\<rparr>)
      else if l_sentinel l \<noteq> None \<or> l_request l \<noteq> None \<or> l_denied l then (l, [])
      else (l\<lparr>l_request := Some n\<rparr>, [Request_lock n]))"

text \<open>A lock that is granted when the timer has ended is released at once.\<close>

definition adopt_wake_lock :: "nat \<Rightarrow> jv \<Rightarrow> screen_lock \<Rightarrow> screen_lock \<times> lock_request list" where
  "adopt_wake_lock n status l =
     (if status \<noteq> Str ''running'' then (l, [Release_lock n]) else (l\<lparr>l_sentinel := Some n\<rparr>, []))"

definition lock_refused :: "screen_lock \<Rightarrow> screen_lock \<times> lock_request list" where
  "lock_refused l = warn_wake_lock (l\<lparr>l_denied := True\<rparr>)"

definition request_over :: "screen_lock \<Rightarrow> screen_lock" where
  "request_over l = l\<lparr>l_request := None\<rparr>"

definition lock_lost :: "nat \<Rightarrow> screen_lock \<Rightarrow> screen_lock" where
  "lock_lost n l = (if l_sentinel l = Some n then l\<lparr>l_sentinel := None\<rparr> else l)"

definition resume_wake_lock :: "screen_lock \<Rightarrow> screen_lock" where
  "resume_wake_lock l = l\<lparr>l_denied := False\<rparr>"

section \<open>The page and the browser\<close>

text \<open>What the browser knows: the number of requests, the one it has not answered, the locks it has granted and
  not taken back or been given back, and the warnings so far.\<close>

record browser =
  b_requests :: nat
  b_waiting :: "nat set"
  b_held :: "nat set"
  b_warnings :: nat

definition answer_lock :: "lock_request list \<Rightarrow> browser \<Rightarrow> browser" where
  "answer_lock rs b = foldl (\<lambda>b r. case r of
     Request_lock n \<Rightarrow> b\<lparr>b_requests := b_requests b + 1, b_waiting := insert n (b_waiting b)\<rparr>
   | Release_lock n \<Rightarrow> b\<lparr>b_held := b_held b - {n}\<rparr>
   | Warn_lock \<Rightarrow> b\<lparr>b_warnings := b_warnings b + 1\<rparr>) b rs"

definition lock_answered :: "(screen_lock \<times> lock_request list) \<Rightarrow> browser \<Rightarrow> screen_lock \<times> browser" where
  "lock_answered change b = (fst change, answer_lock (snd change) b)"

inductive lock_step :: "screen_lock \<times> browser \<Rightarrow> screen_lock \<times> browser \<Rightarrow> bool" where
  Rendered: "lock_step (l, b) (lock_answered (sync_wake_lock available (b_requests b) status l) b)"
| Granted: "n \<in> b_waiting b \<Longrightarrow>
    lock_step (l, b) (lock_answered (adopt_wake_lock n status l) (b\<lparr>b_waiting := b_waiting b - {n}, b_held := insert n (b_held b)\<rparr>))"
| Refused: "n \<in> b_waiting b \<Longrightarrow>
    lock_step (l, b) (lock_answered (lock_refused l) (b\<lparr>b_waiting := b_waiting b - {n}\<rparr>))"
| Over: "l_request l = Some n \<Longrightarrow> n \<notin> b_waiting b \<Longrightarrow> lock_step (l, b) (request_over l, b)"
| Lost: "n \<in> b_held b \<Longrightarrow> lock_step (l, b) (lock_lost n l, b\<lparr>b_held := b_held b - {n}\<rparr>)"
| Release_failed: "lock_step (l, b) (lock_answered (warn_wake_lock l) b)"
| Resumed: "lock_step (l, b) (resume_wake_lock l, b)"

inductive lock_reachable :: "screen_lock \<times> browser \<Rightarrow> bool" where
  Started: "lock_reachable (no_lock, \<lparr>b_requests = 0, b_waiting = {}, b_held = {}, b_warnings = 0\<rparr>)"
| Stepped: "lock_reachable s \<Longrightarrow> lock_step s s' \<Longrightarrow> lock_reachable s'"

definition lock_ok :: "screen_lock \<times> browser \<Rightarrow> bool" where
  "lock_ok s \<longleftrightarrow> (case s of (l, b) \<Rightarrow>
     b_waiting b \<subseteq> set_option (l_request l)
   \<and> b_held b \<subseteq> set_option (l_sentinel l)
   \<and> (b_waiting b = {} \<or> l_sentinel l = None)
   \<and> b_warnings b = (if l_warned l then 1 else 0))"

lemmas lock_defs = warn_wake_lock_def release_wake_lock_def sync_wake_lock_def adopt_wake_lock_def lock_refused_def
  request_over_def lock_lost_def resume_wake_lock_def answer_lock_def lock_answered_def

lemma lock_ok_step: "lock_step s s' \<Longrightarrow> lock_ok s \<Longrightarrow> lock_ok s'"
proof (induction rule: lock_step.induct)
  case (Granted n b l status)
  then show ?case
    by (cases "l_request l") (auto simp: lock_ok_def lock_defs)
qed (auto simp: lock_ok_def lock_defs split: option.splits if_splits)

lemma lock_ok_reachable: "lock_reachable s \<Longrightarrow> lock_ok s"
proof (induction rule: lock_reachable.induct)
  case Started
  then show ?case by (simp add: lock_ok_def no_lock_def)
qed (rule lock_ok_step)

text \<open>C29: However the timer starts and stops, and however late the browser answers a request, refuses it or takes
  a lock back, a page never holds two locks of the screen, has at most one request unanswered and warns at most
  once; and once it has rendered a timer that is not running it holds none, and a lock granted later, while the
  timer still is not running, is given back at once.\<close>

lemma screen_lock_single:
  assumes "lock_reachable (l, b)"
  shows "card (b_held b) \<le> 1 \<and> card (b_waiting b) \<le> 1 \<and> b_warnings b \<le> 1
    \<and> (\<forall>status. status \<noteq> Str ''running'' \<longrightarrow>
        b_held (snd (lock_answered (sync_wake_lock True (b_requests b) status l) b)) = {}
      \<and> (\<forall>n\<in>b_waiting b. b_held (snd (lock_answered (adopt_wake_lock n status l)
           (b\<lparr>b_waiting := b_waiting b - {n}, b_held := insert n (b_held b)\<rparr>))) = {}))"
proof -
  have ok: "b_waiting b \<subseteq> set_option (l_request l)" "b_held b \<subseteq> set_option (l_sentinel l)"
      "b_waiting b = {} \<or> l_sentinel l = None" "b_warnings b \<le> 1"
    using lock_ok_reachable[OF assms] by (auto simp: lock_ok_def split: if_splits)
  have card: "card A \<le> 1" if "A \<subseteq> set_option x" for A :: "nat set" and x
    using that by (cases x) (auto simp: subset_singleton_iff)
  show ?thesis
    using ok card[OF ok(1)] card[OF ok(2)] by (auto simp: lock_defs split: option.splits)
qed

text \<open>The timer ends while a request is unanswered; the lock that is granted then is given back.\<close>

lemma screen_lock_single_witness:
  "\<exists>l b. lock_reachable (l, b) \<and> b_waiting b = {0} \<and> card (b_held b) \<le> 1
   \<and> b_held (snd (lock_answered (adopt_wake_lock 0 (Str ''paused'') l)
       (b\<lparr>b_waiting := {}, b_held := insert 0 (b_held b)\<rparr>))) = {}"
proof -
  let ?b = "\<lparr>b_requests = 1, b_waiting = {0}, b_held = {}, b_warnings = 0\<rparr>"
  have first: "lock_reachable (no_lock\<lparr>l_request := Some 0\<rparr>, ?b)"
    using Stepped[OF Started Rendered[of _ _ True "Str ''running''"]] by (simp add: lock_defs no_lock_def)
  have "lock_reachable (no_lock\<lparr>l_request := Some 0\<rparr>, ?b)"
    using Stepped[OF first Rendered[of _ _ True "Str ''paused''"]] by (simp add: lock_defs no_lock_def)
  from screen_lock_single[OF this] this show ?thesis
    by (intro exI[of _ "no_lock\<lparr>l_request := Some 0\<rparr>"] exI[of _ ?b]) auto
qed

end
