(* ===== verification/ViewEvents.thy ===== *)
theory ViewEvents
  imports ViewAccount ViewEdits ViewLock TabSignOut TabStream
begin

text \<open>
  What the events of a page do (\<open>ViewEventInstaller\<close> of \<open>web/app-view.js\<close>), beyond showing something: the
  operations of the tab they start, in the order and under the contexts in which they start them; and the
  rendering of the whole page (\<open>ViewRenderer\<close>).
\<close>

section \<open>The whole page\<close>

record page_shown =
  v_screens :: "bool \<times> bool \<times> (bool \<times> int) list"
  v_preferences :: preferences_shown
  v_selector :: selector_shown
  v_timer :: timer_shown
  v_history :: "string \<times> history_shown listing"
  v_tasks :: tasks_shown
  v_profile :: "bool \<times> (jv \<times> string) option"
  v_status :: "string \<times> string"
  v_conflict :: "jv option \<times> recovery_panel option"
  v_dialog :: dialog

text \<open>What the elements of the page are asked for: the buttons of the screens, the phases and the strategies of the
  dialog; and what is around it.\<close>

record surroundings =
  z_screens :: "string list"
  z_phases :: "string list"
  z_strategies :: "string list"
  z_online :: bool
  z_alert :: jv
  z_avatar :: jv

definition render_page :: "printing \<Rightarrow> surroundings \<Rightarrow> obj \<Rightarrow> jv option \<Rightarrow> task_view \<Rightarrow> page_shown res" where
  "render_page p z st model v =
     bindr (render_durations st model (z_phases z)) (\<lambda>preferences.
     bindr (render_task_selector (u_catalog p) st) (\<lambda>selector.
     bindr (render_timer (u_fraction p) (u_catalog p) st model (z_alert z)) (\<lambda>timer.
     bindr (render_tasks p st model v) (\<lambda>tasks.
     bindr (render_bootstrap_dialog p (z_online z) st (z_strategies z)) (\<lambda>dialog.
     Inr \<lparr>v_screens = render_screens st (z_screens z), v_preferences = preferences, v_selector = selector,
       v_timer = timer, v_history = render_history p st, v_tasks = tasks,
       v_profile = render_profile (u_catalog p) (z_avatar z) st,
       v_status = render_sync_status (u_catalog p) (z_online z) st,
       v_conflict = render_conflict (u_catalog p) st, v_dialog = dialog\<rparr>)))))"

section \<open>Clicks\<close>

text \<open>A duration that could not be saved is shown again as it is, if the account is still the same.\<close>

definition commit_duration_input :: "outside \<Rightarrow> string \<Rightarrow> string \<Rightarrow> bool act" where
  "commit_duration_input x name typed =
     bindw (run_with account_context) (\<lambda>context.
     bindw (issue_duration_operation x (Str name) (duration_asked typed)) (\<lambda>saved.
     if saved then ret False else run_with (\<lambda>s. context_current s context)))"

definition phase_clicked :: "outside \<Rightarrow> string \<Rightarrow> bool act" where
  "phase_clicked x phase = issue_phase_selection x (Str phase)"

definition auto_start_changed :: "outside \<Rightarrow> bool \<Rightarrow> bool act" where
  "auto_start_changed x checked = issue_auto_start_operation x (Bool checked) None"

definition task_chosen :: "outside \<Rightarrow> string \<Rightarrow> bool act" where
  "task_chosen x i = issue_selected_task_operation x (if i = [] then Null else Str i) None"

text \<open>The sound is stopped; a finished timer stays until the next one starts.\<close>

definition sound_stopped :: "unit act" where
  "sound_stopped = calls [StopAlert, RenderTimer]"

text \<open>The main button of the timer; the click also primes the alerts, a step of \<open>TabAlerts\<close>.\<close>

definition toggle_clicked :: "outside \<Rightarrow> bool act" where
  "toggle_clicked x = bindw (read_model_now x) (\<lambda>model. case toggle_intent model of
     None \<Rightarrow> ret False | Some kind \<Rightarrow> issue_command x (id_text kind))"

text \<open>A task is added once the open deletion has been sent; the field is emptied if it was added.\<close>

definition task_submitted :: "outside \<Rightarrow> jv option \<Rightarrow> string \<Rightarrow> bool act" where
  "task_submitted x deletion typed =
     handling
       (bindw (case deletion of None \<Rightarrow> ret False | Some task \<Rightarrow> delete_task x task) (\<lambda>_. add_task x typed))
       (\<lambda>e. bindw (notice (if message_of e \<noteq> [] then message_of e
          else tr (x_catalog x) ''notice.taskAddFailed'' [] ''Task could not be added.'')) (\<lambda>_. ret False))"

definition conflict_dismissed :: "obj \<Rightarrow> obj" where
  "conflict_dismissed st = obj_put ''conflict'' Null st"

text \<open>The first click asks for a confirmation, the second discards the claim.\<close>

definition saved_claim_clicked :: "outside \<Rightarrow> unit act" where
  "saved_claim_clicked x =
     bindw (field ''savedClaimRecovery'') (\<lambda>recovery.
     if getp recovery ''armed'' \<noteq> Bool True then arm_saved_claim_recovery
     else bindw capture_now (\<lambda>_.
       handling (bindw (discard_saved_claim_recovery x) (\<lambda>_. ret ()))
         (\<lambda>e. bindw (field ''conflict'') (\<lambda>conflict.
           calls [Notice (if message_of e \<noteq> [] then Str (message_of e) else conflict)]))))"

text \<open>Escape in the dialog: a choice not yet saved is taken back, otherwise the dialog stays.\<close>

definition dialog_cancelled :: "(string \<times> control_shown) list \<Rightarrow> control_shown \<Rightarrow> obj \<Rightarrow> obj" where
  "dialog_cancelled choices retry st =
     (if truthy (fld st ''bootstrapStrategy'') \<and> \<not> truthy (fld st ''bootstrapPending'')
      then reset_bootstrap_choice False (map fst choices) st
      else refocus_bootstrap_after_cancel choices retry st)"

section \<open>Other tabs and the browser\<close>

text \<open>
  Another tab has begun to sign out: this one forgets its account too, unless its context has ended. What remains
  is reported, and either way the page is left.
\<close>

definition cross_tab_sign_out :: "outside \<Rightarrow> string \<Rightarrow> jv \<Rightarrow> unit act" where
  "cross_tab_sign_out x key new =
     (if key \<noteq> PENDING_LOGOUT_KEY \<or> new \<noteq> Str ''1'' then ret ()
      else
        bindw (run_with capture_database_context) (\<lambda>context.
        bindw close_stream (\<lambda>_.
        bindw (under (Some context) (handling
          (bindw (run_with (\<lambda>s. cleanup_identity (s_app s))) (\<lambda>i.
           bindw (clear_local_data x i) (\<lambda>completed. ret (Inl completed))))
          (\<lambda>e. ret (Inr e)))) (\<lambda>r.
        bindw (run_with (\<lambda>s. context_current s (case r of Inl completed \<Rightarrow> completed | Inr _ \<Rightarrow> context))) (\<lambda>current.
        if \<not> current then ret ()
        else bindw (case r of Inl _ \<Rightarrow> ret ()
            | Inr _ \<Rightarrow> calls [Warned, Reported ''view.cross-tab-logout.cleanup-incomplete'']) (\<lambda>_.
          redirect_to_login x))))))"

text \<open>The page is left: the open deletion is sent, and the timer of this tab is given up for another one.\<close>

definition release_input :: "outside \<Rightarrow> session \<Rightarrow> obj" where
  "release_input x s = spread (context_fields s)
     [(''expectedUserId'', i_owner (o_identity (s_context s))), (''deviceId'', fld (tab_state s) ''deviceId''),
      (''tabId'', fld (tab_state s) ''tabId''), (''nowMs'', local_now x s)]"

definition release_failed :: "js_error \<Rightarrow> unit act" where
  "release_failed e = bindw current_now (\<lambda>current.
     if \<not> current then ret ()
     else if ownership_error e then account_mismatch
     else calls [Warned, Reported ''view.timer-ownership.release-failed''])"

definition page_left :: "outside \<Rightarrow> unit act" where
  "page_left x =
     bindw (asks (\<lambda>s. a_database (s_app s) = 0 \<or> \<not> truthy (fld (tab_state s) ''deviceId''))) (\<lambda>nothing.
     if nothing then ret ()
     else bindw (run_with capture_database_context) (\<lambda>context.
       under (Some context)
         (bindw assert_now (\<lambda>_.
          bindw (asks (release_input x)) (\<lambda>input.
          handling (bindw (transact x (\<lambda>env db. release_timer_ownership env db input)) (\<lambda>_. ret ())) release_failed)))))"

text \<open>The page is shown again: the lock of the screen may be asked for again, and the account is brought up to date.\<close>

definition page_shown_again :: "outside \<Rightarrow> (session \<Rightarrow> unit res) \<Rightarrow> unit act" where
  "page_shown_again x load =
     bindw (calls [RenderTimer]) (\<lambda>_.
     bindw (asks (x_online x)) (\<lambda>online.
     if \<not> online then ret ()
     else bindw (asks (\<lambda>s. truthy (fld (tab_state s) ''authenticated'') \<and> truthy (fld (tab_state s) ''csrfToken''))) (\<lambda>signed_in.
       bindw (if signed_in then run_with (\<lambda>s. needs_bootstrap (tab_state s)) else ret True) (\<lambda>unresolved.
       if signed_in \<and> \<not> unresolved then calls [SyncLater True] else handle_online x load))))"

section \<open>Installation\<close>

text \<open>The offer to install the page, kept until it is used: its number, and whether the button is hidden.\<close>

record installer =
  o_prompt :: "nat option"
  o_hidden :: bool

definition install_offered :: "nat \<Rightarrow> installer \<Rightarrow> installer" where
  "install_offered n o' = o'\<lparr>o_prompt := Some n, o_hidden := False\<rparr>"

text \<open>The offer a click shows, and what follows when the user has answered it.\<close>

definition install_clicked :: "installer \<Rightarrow> nat option" where
  "install_clicked o' = o_prompt o'"

definition install_answered :: "installer \<Rightarrow> installer" where
  "install_answered o' = o'\<lparr>o_prompt := None, o_hidden := True\<rparr>"

definition installed :: "installer \<Rightarrow> installer" where
  "installed o' = o'\<lparr>o_prompt := None, o_hidden := True\<rparr>"

end
