(* ===== verification/Spec2Isabelle.thy ===== *)
theory Spec2Isabelle
  imports GateSafety SyncSafety ResolutionSafety CoreSafety Runtime AppSafety SyncBatch Transport Sw Platform
    SyncFlight ClaimSafety TabAlerts TabStates TabSubmits TabAccounts Monitor ViewEvents
begin

text \<open>
  The browser client of Pomodorough (\<open>web/*.js\<close>): an application for tabs that share one
  IndexedDB database, work without a network, and synchronize retained operations with a
  server. Decisions about timers and histories are made by a shared Core, a WebAssembly module;
  the client keeps the operations, the proof of what was never sent, the claim of what is being
  sent, the account they belong to, and the gate under which two histories are resolved. The
  development models that client code, and shows what it guarantees for any Core, any server
  and any interleaving of the tabs' transactions.

  \<^bold>\<open>Values.\<close> \<open>Prelude\<close> has results of code that may throw; \<open>JsValue\<close> the JavaScript values and
  the part of the language the code uses; \<open>Effects\<close> code that changes a state and may throw.
  Keys of objects are texts, numbers are exact (integral results pass a safe-integer test before
  they are used), a text that \<open>JSON.stringify\<close> printed is represented by its tree, and error
  messages are kept without the values interpolated into them.

  \<^bold>\<open>Decisions\<close> (\<open>sync-core.js\<close>, \<open>workspace-core.js\<close>, \<open>sync-storage-uuid.js\<close>,
  \<open>sync-authority.js\<close>). \<open>SyncCore\<close>, \<open>SyncValidate\<close> and \<open>DateTime\<close>: account identities,
  guards of a resolution, wire encoders, validators of responses, RFC 3339 dates. \<open>SyncBatch\<close>:
  batches and resolution payloads as the Core plans them. \<open>WorkspaceCore\<close>: the requests to the
  Core. \<open>Uuid\<close>: identifiers in sequence. \<open>Authority\<close>: the typed answers of the Core.
  Each function is a definition of the same name in snake case.

  \<^bold>\<open>Transactions\<close> (\<open>sync-storage.js\<close>, \<open>workspace-transaction.js\<close>). \<open>IndexedDb\<close> models object
  stores and a transaction that commits or leaves the database as it was; its locale of a keyed
  store is interpreted on the stores by key and by identifier. \<open>WorkspaceTransaction\<close> is the
  runner of Core plans, \<open>StorageProof\<close> the ledger and the captured claim, \<open>StorageCore\<close> the
  calls that need the Core, \<open>StorageGate\<close> the lease, the clock and the migrations,
  \<open>StorageSync\<close> mutation, claim and response, \<open>StorageResolution\<close> the capture, the sending and
  the end of a resolution. A transaction is a function from a database to a result and the
  database it leaves; it reads everything it requests at its start, as its callback runs when
  all requests are there.

  \<^bold>\<open>A tab\<close> (\<open>app-state.js\<close>, \<open>account-operation.js\<close>, \<open>app-runtime.js\<close>, \<open>i18n.js\<close>). \<open>AppState\<close>:
  the state, its quarantine, the contexts that bind an operation to an account. \<open>Runtime\<close>: the
  composition of the modules. \<open>I18n\<close>: catalogs and messages. \<open>SyncFlight\<close>: the one
  synchronization of a tab, its waiting callers, its timers and retries, as steps.

  \<^bold>\<open>Operations of a tab.\<close> \<open>Session\<close> is what an asynchronous function of the modules runs in: the
  state of the tab, the database all tabs share, the local storage, the account context the
  function is bound to, and the list of what it made other parts do. Every \<open>await\<close> runs the next
  of the functions \<open>s_others\<close>, which may change all that is shared in any way: a property of an
  operation for every session holds for every interference by other tabs, by the user and by
  other operations of the tab. A wait that is never answered is the result \<open>Hangs\<close>.
  \<open>TabStorage\<close>, \<open>TabCommit\<close> and \<open>TabDatabase\<close> (\<open>app-storage.js\<close>) install, commit, load and remove
  what is stored; \<open>TabActions\<close> and \<open>TabAlerts\<close> (\<open>app-actions.js\<close>) carry out what the user does and
  announce a completed timer; \<open>TabSync\<close> and \<open>TabPerform\<close> (\<open>app-sync.js\<close>) claim, send and accept a
  batch; \<open>TabResolve\<close> and \<open>TabPrepare\<close> (\<open>app-bootstrap.js\<close>) resolve two histories; \<open>SignIn\<close>,
  \<open>TabMarkers\<close>, \<open>TabRestart\<close>, \<open>TabStream\<close>, \<open>TabSignIn\<close> and \<open>TabSignOut\<close> (\<open>app-session.js\<close>, and the
  start of a page in \<open>app.js\<close>) are the session, from the address of the sign-in to the deletion of
  the account. A method of a class is the definition of its name; a \<open>try\<close> that would not be
  readable otherwise is a definition of its own, next to it.

  \<^bold>\<open>The page\<close> (\<open>app-view.js\<close>). A rendering is a function from the state of the tab, the read model
  the Core answered and what is around the page to the contents of the elements, as records:
  \<open>ViewTimer\<close> (\<open>PreferenceView\<close>, \<open>TimerView\<close>), \<open>ViewTasks\<close> (\<open>ActivityView\<close>), \<open>ViewAccount\<close>
  (\<open>AccountView\<close>, \<open>NoticePresenter\<close>). What the page keeps besides the state is a state of its own
  with its operations and requests: \<open>ViewEdits\<close>, the deletion that can be undone and the title being
  edited; \<open>ViewLock\<close>, the lock of the screen. \<open>ViewEvents\<close> is what the events start, and the rendering
  of the whole page.

  \<^bold>\<open>Boundaries.\<close> \<open>SharedCore\<close> (\<open>shared-core.js\<close>) is the host of the WebAssembly instance with
  its buffers; \<open>Transport\<close> the request that is repeated once (\<open>postJSONWithCsrfRetry\<close>);
  \<open>Sw\<close> (\<open>sw.js\<close>) the service worker; \<open>Platform\<close> (\<open>platform-selector.js\<close>, \<open>landing.js\<close>) the page
  before the application; \<open>Monitor\<close> (\<open>sentry-client.js\<close>) the reports of failures, which the operations
  of a tab make as the call \<open>Reported\<close>.

  \<^bold>\<open>What is shown.\<close> \<open>GateSafety\<close>: tabs exclude each other from the gate in every reachable
  state, and the clock's sequence increases. \<open>SyncSafety\<close>: applying a response keeps work that
  was queued meanwhile, happens only for the account, the claim and the gate it was made for,
  and never adds to the proof of what was not sent. \<open>ResolutionSafety\<close>: a request that may have
  been delivered is recorded first and never replaced. \<open>SyncBatch\<close>: what is sent is retained
  work. \<open>CoreSafety\<close>: a call into the Core releases every buffer once, stays inside the memory
  and knows when the instance is no longer usable. \<open>AppSafety\<close>: the quarantine and the contexts.
  \<open>Transport\<close>, \<open>Sw\<close>, \<open>Runtime\<close>, \<open>I18n\<close>, \<open>Authority\<close>, \<open>Uuid\<close>, \<open>DateTime\<close> and
  \<open>StorageProof\<close> hold the properties of their own part. \<open>ClaimSafety\<close>: what a
  claim records, before it can be sent. \<open>SyncFlight\<close>: there is one synchronization at a time, and
  a caller that joins it gets a later one.
  \<open>TabRelations\<close> and \<open>TabMoves\<close> relate the sessions before and after every operation, once for all
  operations and for every relation that satisfies the laws of a locale: which operations send a
  mutation, which keep their owner, which wait for the action lock. On these rest \<open>TabPosts\<close> and
  \<open>TabSubmits\<close> (a synchronization sends only a recorded claim, a submission only the saved
  resolution), \<open>TabSafety\<close> (actions, sign-in and sign-out come back; what waits for the lock waits
  for nothing else), \<open>TabStates\<close> (what is shown is what is stored, what is loaded is hidden first,
  a removal is complete or changes nothing) and \<open>TabAccounts\<close> (whose work is shown offline, and
  a deletion that cannot be recorded). \<open>Monitor\<close>: a report contains no text but the ones of fixed lists,
  and how many are sent. \<open>ViewEdits\<close>: no deletion is lost or sent twice. \<open>ViewLock\<close>: one lock of the screen,
  none for a timer that does not run. \<open>ViewAccount\<close>: a page that must not change the workspace offers no
  control that would. A property with a hypothesis has a witness at a concrete
  input; \<open>Samples\<close> and \<open>TabSamples\<close> hold the database, the Core and the tab the witnesses run on.

  \<^bold>\<open>Parameters.\<close> Code outside the repository's sources is an argument: the Core
  (\<open>core_call\<close>, \<open>adapter\<close>, \<open>exports\<close>), the calendar of the time zone, \<open>Date.now()\<close> (read once
  for a call), entropy, the UTF-8 codec and the digest, the plural rules, the network.
  Recursion is structural or over a measure that \<open>termination\<close> proves; no fuel is used.

  \<^bold>\<open>Not modelled.\<close> The document itself: creating elements, their classes, registering listeners, and of
  \<open>app.js\<close> the collection of the elements; whether an element is on the page is an argument where the
  code asks for it. The coordinates of the marks of the dial (their angles and radii are modelled), the
  printing of fractions and dates, characters outside ASCII; the oscillator of the chime; the reporting
  SDK; callers that join a preparation or a start already running instead of starting one; the functions
  that exist for tests only; the Go server, another program.
\<close>

end
